(* ===== verification/SAI_Prelude.thy ===== *)
theory SAI_Prelude
  imports Main "HOL-Library.Word"
begin

text \<open>
  Shared vocabulary of the development: machine integer types, the SAI status codes of
  \<^verbatim>\<open>inc/saistatus.h\<close>, the object type numbers of \<^verbatim>\<open>inc/saitypes.h\<close>, the 32-bit
  conversion of a status, and the list and word lemmas that several components use.

  \<^item> A status (\<^verbatim>\<open>sai_status_t\<close>, a C \<^verbatim>\<open>int32_t\<close>) is an \<^typ>\<open>int\<close>; where the code adds an
    attribute index to a status base the sum is taken back to 32 bits by \<open>int32\<close>.
  \<^item> Enumeration values (object types, attribute ids, api ids) are numbers, because the code
    compares them with bounds and also meets values outside the enumeration.
  \<^item> \<open>sai_simps\<close> collects the unfolding rules of small accessors, \<open>state_simps\<close> the frame
    equations of state updates.
\<close>

unbundle bit_operations_syntax

named_theorems sai_simps
named_theorems state_simps

type_synonym u8 = "8 word"
type_synonym u16 = "16 word"
type_synonym u32 = "32 word"
type_synonym u64 = "64 word"
type_synonym sai_object_id = "64 word"
type_synonym sai_mac = "48 word"
type_synonym sai_status = int

section \<open>Status codes\<close>

text \<open>On every platform but Windows \<^verbatim>\<open>SAI_STATUS_CODE(_S_)\<close> is \<^verbatim>\<open>(-(_S_))\<close>.\<close>

definition SAI_STATUS_CODE :: "int \<Rightarrow> sai_status" where
  "SAI_STATUS_CODE c = - c"

abbreviation (input) SAI_STATUS_SUCCESS :: sai_status where "SAI_STATUS_SUCCESS \<equiv> 0"
abbreviation (input) SAI_STATUS_FAILURE :: sai_status where "SAI_STATUS_FAILURE \<equiv> - 1"
abbreviation (input) SAI_STATUS_NOT_SUPPORTED :: sai_status where "SAI_STATUS_NOT_SUPPORTED \<equiv> - 2"
abbreviation (input) SAI_STATUS_NO_MEMORY :: sai_status where "SAI_STATUS_NO_MEMORY \<equiv> - 3"
abbreviation (input) SAI_STATUS_INSUFFICIENT_RESOURCES :: sai_status where
  "SAI_STATUS_INSUFFICIENT_RESOURCES \<equiv> - 4"
abbreviation (input) SAI_STATUS_INVALID_PARAMETER :: sai_status where
  "SAI_STATUS_INVALID_PARAMETER \<equiv> - 5"
abbreviation (input) SAI_STATUS_ITEM_ALREADY_EXISTS :: sai_status where
  "SAI_STATUS_ITEM_ALREADY_EXISTS \<equiv> - 6"
abbreviation (input) SAI_STATUS_ITEM_NOT_FOUND :: sai_status where
  "SAI_STATUS_ITEM_NOT_FOUND \<equiv> - 7"
abbreviation (input) SAI_STATUS_BUFFER_OVERFLOW :: sai_status where
  "SAI_STATUS_BUFFER_OVERFLOW \<equiv> - 8"
abbreviation (input) SAI_STATUS_INVALID_PORT_NUMBER :: sai_status where
  "SAI_STATUS_INVALID_PORT_NUMBER \<equiv> - 9"
abbreviation (input) SAI_STATUS_UNINITIALIZED :: sai_status where
  "SAI_STATUS_UNINITIALIZED \<equiv> - 12"
abbreviation (input) SAI_STATUS_MANDATORY_ATTRIBUTE_MISSING :: sai_status where
  "SAI_STATUS_MANDATORY_ATTRIBUTE_MISSING \<equiv> - 14"
abbreviation (input) SAI_STATUS_NOT_IMPLEMENTED :: sai_status where
  "SAI_STATUS_NOT_IMPLEMENTED \<equiv> - 15"
abbreviation (input) SAI_STATUS_OBJECT_IN_USE :: sai_status where
  "SAI_STATUS_OBJECT_IN_USE \<equiv> - 17"
abbreviation (input) SAI_STATUS_INVALID_OBJECT_TYPE :: sai_status where
  "SAI_STATUS_INVALID_OBJECT_TYPE \<equiv> - 18"
abbreviation (input) SAI_STATUS_INVALID_OBJECT_ID :: sai_status where
  "SAI_STATUS_INVALID_OBJECT_ID \<equiv> - 19"
abbreviation (input) SAI_STATUS_SW_UPGRADE_VERSION_MISMATCH :: sai_status where
  "SAI_STATUS_SW_UPGRADE_VERSION_MISMATCH \<equiv> - 22"
abbreviation (input) SAI_STATUS_NOT_EXECUTED :: sai_status where
  "SAI_STATUS_NOT_EXECUTED \<equiv> - 23"

text \<open>The five attribute ranges: the base, and the code the header names as the maximum.\<close>

abbreviation (input) SAI_STATUS_INVALID_ATTRIBUTE_0 :: sai_status where
  "SAI_STATUS_INVALID_ATTRIBUTE_0 \<equiv> - 65536"
abbreviation (input) SAI_STATUS_INVALID_ATTRIBUTE_MAX :: sai_status where
  "SAI_STATUS_INVALID_ATTRIBUTE_MAX \<equiv> - 131071"
abbreviation (input) SAI_STATUS_INVALID_ATTR_VALUE_0 :: sai_status where
  "SAI_STATUS_INVALID_ATTR_VALUE_0 \<equiv> - 131072"
abbreviation (input) SAI_STATUS_ATTR_NOT_IMPLEMENTED_0 :: sai_status where
  "SAI_STATUS_ATTR_NOT_IMPLEMENTED_0 \<equiv> - 196608"
abbreviation (input) SAI_STATUS_ATTR_NOT_SUPPORTED_0 :: sai_status where
  "SAI_STATUS_ATTR_NOT_SUPPORTED_0 \<equiv> - 327680"
abbreviation (input) SAI_STATUS_ATTR_NOT_SUPPORTED_MAX :: sai_status where
  "SAI_STATUS_ATTR_NOT_SUPPORTED_MAX \<equiv> - 393215"

text \<open>
  \<^verbatim>\<open>CTC_SAI_ERROR(status)\<close> tests for anything but success, while \<^verbatim>\<open>CTC_SAI_ERROR_RETURN\<close> and
  \<^verbatim>\<open>CTC_SAI_ERROR_GOTO\<close> leave only on a negative value.
\<close>

definition CTC_SAI_ERROR :: "sai_status \<Rightarrow> bool" where
  "CTC_SAI_ERROR st \<longleftrightarrow> st \<noteq> SAI_STATUS_SUCCESS"

definition status_leaves :: "sai_status \<Rightarrow> bool" where
  "status_leaves st \<longleftrightarrow> st < 0"

text \<open>A C assignment of a wider sum to the 32-bit \<^verbatim>\<open>sai_status_t\<close>.\<close>

definition int32 :: "int \<Rightarrow> int" where
  "int32 x = signed_take_bit 31 x"

section \<open>Object types\<close>

abbreviation (input) SAI_OBJECT_TYPE_NULL :: nat where "SAI_OBJECT_TYPE_NULL \<equiv> 0"
abbreviation (input) SAI_OBJECT_TYPE_PORT :: nat where "SAI_OBJECT_TYPE_PORT \<equiv> 1"
abbreviation (input) SAI_OBJECT_TYPE_LAG :: nat where "SAI_OBJECT_TYPE_LAG \<equiv> 2"
abbreviation (input) SAI_OBJECT_TYPE_VIRTUAL_ROUTER :: nat where
  "SAI_OBJECT_TYPE_VIRTUAL_ROUTER \<equiv> 3"
abbreviation (input) SAI_OBJECT_TYPE_NEXT_HOP :: nat where "SAI_OBJECT_TYPE_NEXT_HOP \<equiv> 4"
abbreviation (input) SAI_OBJECT_TYPE_NEXT_HOP_GROUP :: nat where
  "SAI_OBJECT_TYPE_NEXT_HOP_GROUP \<equiv> 5"
abbreviation (input) SAI_OBJECT_TYPE_ROUTER_INTERFACE :: nat where
  "SAI_OBJECT_TYPE_ROUTER_INTERFACE \<equiv> 6"
abbreviation (input) SAI_OBJECT_TYPE_ACL_TABLE :: nat where "SAI_OBJECT_TYPE_ACL_TABLE \<equiv> 7"
abbreviation (input) SAI_OBJECT_TYPE_ACL_ENTRY :: nat where "SAI_OBJECT_TYPE_ACL_ENTRY \<equiv> 8"
abbreviation (input) SAI_OBJECT_TYPE_ACL_COUNTER :: nat where
  "SAI_OBJECT_TYPE_ACL_COUNTER \<equiv> 9"
abbreviation (input) SAI_OBJECT_TYPE_ACL_RANGE :: nat where "SAI_OBJECT_TYPE_ACL_RANGE \<equiv> 10"
abbreviation (input) SAI_OBJECT_TYPE_ACL_TABLE_GROUP :: nat where
  "SAI_OBJECT_TYPE_ACL_TABLE_GROUP \<equiv> 11"
abbreviation (input) SAI_OBJECT_TYPE_ACL_TABLE_GROUP_MEMBER :: nat where
  "SAI_OBJECT_TYPE_ACL_TABLE_GROUP_MEMBER \<equiv> 12"
abbreviation (input) SAI_OBJECT_TYPE_HOSTIF :: nat where "SAI_OBJECT_TYPE_HOSTIF \<equiv> 13"
abbreviation (input) SAI_OBJECT_TYPE_MIRROR_SESSION :: nat where
  "SAI_OBJECT_TYPE_MIRROR_SESSION \<equiv> 14"
abbreviation (input) SAI_OBJECT_TYPE_SAMPLEPACKET :: nat where
  "SAI_OBJECT_TYPE_SAMPLEPACKET \<equiv> 15"
abbreviation (input) SAI_OBJECT_TYPE_STP :: nat where "SAI_OBJECT_TYPE_STP \<equiv> 16"
abbreviation (input) SAI_OBJECT_TYPE_HOSTIF_TRAP_GROUP :: nat where
  "SAI_OBJECT_TYPE_HOSTIF_TRAP_GROUP \<equiv> 17"
abbreviation (input) SAI_OBJECT_TYPE_POLICER :: nat where "SAI_OBJECT_TYPE_POLICER \<equiv> 18"
abbreviation (input) SAI_OBJECT_TYPE_WRED :: nat where "SAI_OBJECT_TYPE_WRED \<equiv> 19"
abbreviation (input) SAI_OBJECT_TYPE_QOS_MAP :: nat where "SAI_OBJECT_TYPE_QOS_MAP \<equiv> 20"
abbreviation (input) SAI_OBJECT_TYPE_QUEUE :: nat where "SAI_OBJECT_TYPE_QUEUE \<equiv> 21"
abbreviation (input) SAI_OBJECT_TYPE_SCHEDULER :: nat where "SAI_OBJECT_TYPE_SCHEDULER \<equiv> 22"
abbreviation (input) SAI_OBJECT_TYPE_SCHEDULER_GROUP :: nat where
  "SAI_OBJECT_TYPE_SCHEDULER_GROUP \<equiv> 23"
abbreviation (input) SAI_OBJECT_TYPE_BUFFER_POOL :: nat where
  "SAI_OBJECT_TYPE_BUFFER_POOL \<equiv> 24"
abbreviation (input) SAI_OBJECT_TYPE_BUFFER_PROFILE :: nat where
  "SAI_OBJECT_TYPE_BUFFER_PROFILE \<equiv> 25"
abbreviation (input) SAI_OBJECT_TYPE_INGRESS_PRIORITY_GROUP :: nat where
  "SAI_OBJECT_TYPE_INGRESS_PRIORITY_GROUP \<equiv> 26"
abbreviation (input) SAI_OBJECT_TYPE_LAG_MEMBER :: nat where
  "SAI_OBJECT_TYPE_LAG_MEMBER \<equiv> 27"
abbreviation (input) SAI_OBJECT_TYPE_HASH :: nat where "SAI_OBJECT_TYPE_HASH \<equiv> 28"
abbreviation (input) SAI_OBJECT_TYPE_UDF :: nat where "SAI_OBJECT_TYPE_UDF \<equiv> 29"
abbreviation (input) SAI_OBJECT_TYPE_UDF_MATCH :: nat where "SAI_OBJECT_TYPE_UDF_MATCH \<equiv> 30"
abbreviation (input) SAI_OBJECT_TYPE_UDF_GROUP :: nat where "SAI_OBJECT_TYPE_UDF_GROUP \<equiv> 31"
abbreviation (input) SAI_OBJECT_TYPE_FDB_ENTRY :: nat where "SAI_OBJECT_TYPE_FDB_ENTRY \<equiv> 32"
abbreviation (input) SAI_OBJECT_TYPE_SWITCH :: nat where "SAI_OBJECT_TYPE_SWITCH \<equiv> 33"
abbreviation (input) SAI_OBJECT_TYPE_HOSTIF_TRAP :: nat where
  "SAI_OBJECT_TYPE_HOSTIF_TRAP \<equiv> 34"
abbreviation (input) SAI_OBJECT_TYPE_HOSTIF_TABLE_ENTRY :: nat where
  "SAI_OBJECT_TYPE_HOSTIF_TABLE_ENTRY \<equiv> 35"
abbreviation (input) SAI_OBJECT_TYPE_NEIGHBOR_ENTRY :: nat where
  "SAI_OBJECT_TYPE_NEIGHBOR_ENTRY \<equiv> 36"
abbreviation (input) SAI_OBJECT_TYPE_ROUTE_ENTRY :: nat where
  "SAI_OBJECT_TYPE_ROUTE_ENTRY \<equiv> 37"
abbreviation (input) SAI_OBJECT_TYPE_VLAN :: nat where "SAI_OBJECT_TYPE_VLAN \<equiv> 38"
abbreviation (input) SAI_OBJECT_TYPE_VLAN_MEMBER :: nat where
  "SAI_OBJECT_TYPE_VLAN_MEMBER \<equiv> 39"
abbreviation (input) SAI_OBJECT_TYPE_HOSTIF_PACKET :: nat where
  "SAI_OBJECT_TYPE_HOSTIF_PACKET \<equiv> 40"
abbreviation (input) SAI_OBJECT_TYPE_TUNNEL_MAP :: nat where
  "SAI_OBJECT_TYPE_TUNNEL_MAP \<equiv> 41"
abbreviation (input) SAI_OBJECT_TYPE_TUNNEL :: nat where "SAI_OBJECT_TYPE_TUNNEL \<equiv> 42"
abbreviation (input) SAI_OBJECT_TYPE_TUNNEL_TERM_TABLE_ENTRY :: nat where
  "SAI_OBJECT_TYPE_TUNNEL_TERM_TABLE_ENTRY \<equiv> 43"
abbreviation (input) SAI_OBJECT_TYPE_FDB_FLUSH :: nat where "SAI_OBJECT_TYPE_FDB_FLUSH \<equiv> 44"
abbreviation (input) SAI_OBJECT_TYPE_NEXT_HOP_GROUP_MEMBER :: nat where
  "SAI_OBJECT_TYPE_NEXT_HOP_GROUP_MEMBER \<equiv> 45"
abbreviation (input) SAI_OBJECT_TYPE_STP_PORT :: nat where "SAI_OBJECT_TYPE_STP_PORT \<equiv> 46"
abbreviation (input) SAI_OBJECT_TYPE_RPF_GROUP :: nat where "SAI_OBJECT_TYPE_RPF_GROUP \<equiv> 47"
abbreviation (input) SAI_OBJECT_TYPE_RPF_GROUP_MEMBER :: nat where
  "SAI_OBJECT_TYPE_RPF_GROUP_MEMBER \<equiv> 48"
abbreviation (input) SAI_OBJECT_TYPE_L2MC_GROUP :: nat where
  "SAI_OBJECT_TYPE_L2MC_GROUP \<equiv> 49"
abbreviation (input) SAI_OBJECT_TYPE_L2MC_GROUP_MEMBER :: nat where
  "SAI_OBJECT_TYPE_L2MC_GROUP_MEMBER \<equiv> 50"
abbreviation (input) SAI_OBJECT_TYPE_IPMC_GROUP :: nat where
  "SAI_OBJECT_TYPE_IPMC_GROUP \<equiv> 51"
abbreviation (input) SAI_OBJECT_TYPE_IPMC_GROUP_MEMBER :: nat where
  "SAI_OBJECT_TYPE_IPMC_GROUP_MEMBER \<equiv> 52"
abbreviation (input) SAI_OBJECT_TYPE_L2MC_ENTRY :: nat where
  "SAI_OBJECT_TYPE_L2MC_ENTRY \<equiv> 53"
abbreviation (input) SAI_OBJECT_TYPE_IPMC_ENTRY :: nat where
  "SAI_OBJECT_TYPE_IPMC_ENTRY \<equiv> 54"
abbreviation (input) SAI_OBJECT_TYPE_MCAST_FDB_ENTRY :: nat where
  "SAI_OBJECT_TYPE_MCAST_FDB_ENTRY \<equiv> 55"
abbreviation (input) SAI_OBJECT_TYPE_HOSTIF_USER_DEFINED_TRAP :: nat where
  "SAI_OBJECT_TYPE_HOSTIF_USER_DEFINED_TRAP \<equiv> 56"
abbreviation (input) SAI_OBJECT_TYPE_BRIDGE :: nat where "SAI_OBJECT_TYPE_BRIDGE \<equiv> 57"
abbreviation (input) SAI_OBJECT_TYPE_BRIDGE_PORT :: nat where
  "SAI_OBJECT_TYPE_BRIDGE_PORT \<equiv> 58"
abbreviation (input) SAI_OBJECT_TYPE_TUNNEL_MAP_ENTRY :: nat where
  "SAI_OBJECT_TYPE_TUNNEL_MAP_ENTRY \<equiv> 59"
abbreviation (input) SAI_OBJECT_TYPE_TAM :: nat where "SAI_OBJECT_TYPE_TAM \<equiv> 60"
abbreviation (input) SAI_OBJECT_TYPE_SEGMENTROUTE_SIDLIST :: nat where
  "SAI_OBJECT_TYPE_SEGMENTROUTE_SIDLIST \<equiv> 61"
abbreviation (input) SAI_OBJECT_TYPE_PORT_POOL :: nat where "SAI_OBJECT_TYPE_PORT_POOL \<equiv> 62"
abbreviation (input) SAI_OBJECT_TYPE_INSEG_ENTRY :: nat where
  "SAI_OBJECT_TYPE_INSEG_ENTRY \<equiv> 63"
abbreviation (input) SAI_OBJECT_TYPE_DTEL :: nat where "SAI_OBJECT_TYPE_DTEL \<equiv> 64"
abbreviation (input) SAI_OBJECT_TYPE_DTEL_QUEUE_REPORT :: nat where
  "SAI_OBJECT_TYPE_DTEL_QUEUE_REPORT \<equiv> 65"
abbreviation (input) SAI_OBJECT_TYPE_DTEL_INT_SESSION :: nat where
  "SAI_OBJECT_TYPE_DTEL_INT_SESSION \<equiv> 66"
abbreviation (input) SAI_OBJECT_TYPE_DTEL_REPORT_SESSION :: nat where
  "SAI_OBJECT_TYPE_DTEL_REPORT_SESSION \<equiv> 67"
abbreviation (input) SAI_OBJECT_TYPE_DTEL_EVENT :: nat where
  "SAI_OBJECT_TYPE_DTEL_EVENT \<equiv> 68"
abbreviation (input) SAI_OBJECT_TYPE_BFD_SESSION :: nat where
  "SAI_OBJECT_TYPE_BFD_SESSION \<equiv> 69"
abbreviation (input) SAI_OBJECT_TYPE_ISOLATION_GROUP :: nat where
  "SAI_OBJECT_TYPE_ISOLATION_GROUP \<equiv> 70"
abbreviation (input) SAI_OBJECT_TYPE_ISOLATION_GROUP_MEMBER :: nat where
  "SAI_OBJECT_TYPE_ISOLATION_GROUP_MEMBER \<equiv> 71"
abbreviation (input) SAI_OBJECT_TYPE_TAM_MATH_FUNC :: nat where
  "SAI_OBJECT_TYPE_TAM_MATH_FUNC \<equiv> 72"
abbreviation (input) SAI_OBJECT_TYPE_TAM_REPORT :: nat where
  "SAI_OBJECT_TYPE_TAM_REPORT \<equiv> 73"
abbreviation (input) SAI_OBJECT_TYPE_TAM_EVENT_THRESHOLD :: nat where
  "SAI_OBJECT_TYPE_TAM_EVENT_THRESHOLD \<equiv> 74"
abbreviation (input) SAI_OBJECT_TYPE_TAM_TEL_TYPE :: nat where
  "SAI_OBJECT_TYPE_TAM_TEL_TYPE \<equiv> 75"
abbreviation (input) SAI_OBJECT_TYPE_TAM_TRANSPORT :: nat where
  "SAI_OBJECT_TYPE_TAM_TRANSPORT \<equiv> 76"
abbreviation (input) SAI_OBJECT_TYPE_TAM_TELEMETRY :: nat where
  "SAI_OBJECT_TYPE_TAM_TELEMETRY \<equiv> 77"
abbreviation (input) SAI_OBJECT_TYPE_TAM_COLLECTOR :: nat where
  "SAI_OBJECT_TYPE_TAM_COLLECTOR \<equiv> 78"
abbreviation (input) SAI_OBJECT_TYPE_TAM_EVENT_ACTION :: nat where
  "SAI_OBJECT_TYPE_TAM_EVENT_ACTION \<equiv> 79"
abbreviation (input) SAI_OBJECT_TYPE_TAM_EVENT :: nat where "SAI_OBJECT_TYPE_TAM_EVENT \<equiv> 80"
abbreviation (input) SAI_OBJECT_TYPE_NAT_ZONE_COUNTER :: nat where
  "SAI_OBJECT_TYPE_NAT_ZONE_COUNTER \<equiv> 81"
abbreviation (input) SAI_OBJECT_TYPE_NAT_ENTRY :: nat where "SAI_OBJECT_TYPE_NAT_ENTRY \<equiv> 82"
abbreviation (input) SAI_OBJECT_TYPE_TAM_INT :: nat where "SAI_OBJECT_TYPE_TAM_INT \<equiv> 83"
abbreviation (input) SAI_OBJECT_TYPE_COUNTER :: nat where "SAI_OBJECT_TYPE_COUNTER \<equiv> 84"
abbreviation (input) SAI_OBJECT_TYPE_DEBUG_COUNTER :: nat where
  "SAI_OBJECT_TYPE_DEBUG_COUNTER \<equiv> 85"
abbreviation (input) SAI_OBJECT_TYPE_PORT_SERDES :: nat where
  "SAI_OBJECT_TYPE_PORT_SERDES \<equiv> 86"
abbreviation (input) SAI_OBJECT_TYPE_TWAMP :: nat where "SAI_OBJECT_TYPE_TWAMP \<equiv> 87"
abbreviation (input) SAI_OBJECT_TYPE_NPM :: nat where "SAI_OBJECT_TYPE_NPM \<equiv> 88"
abbreviation (input) SAI_OBJECT_TYPE_ES :: nat where "SAI_OBJECT_TYPE_ES \<equiv> 89"
abbreviation (input) SAI_OBJECT_TYPE_Y1731_MEG :: nat where "SAI_OBJECT_TYPE_Y1731_MEG \<equiv> 90"
abbreviation (input) SAI_OBJECT_TYPE_Y1731_SESSION :: nat where
  "SAI_OBJECT_TYPE_Y1731_SESSION \<equiv> 91"
abbreviation (input) SAI_OBJECT_TYPE_Y1731_REMOTE_MEP :: nat where
  "SAI_OBJECT_TYPE_Y1731_REMOTE_MEP \<equiv> 92"
abbreviation (input) SAI_OBJECT_TYPE_PTP_DOMAIN :: nat where
  "SAI_OBJECT_TYPE_PTP_DOMAIN \<equiv> 93"
abbreviation (input) SAI_OBJECT_TYPE_SYNCE :: nat where "SAI_OBJECT_TYPE_SYNCE \<equiv> 94"
abbreviation (input) SAI_OBJECT_TYPE_MAX :: nat where "SAI_OBJECT_TYPE_MAX \<equiv> 95"

abbreviation (input) SAI_NULL_OBJECT_ID :: sai_object_id where "SAI_NULL_OBJECT_ID \<equiv> 0"

section \<open>Generic lemmas\<close>

lemma int32_id: "- (2 ^ 31) \<le> x \<Longrightarrow> x < 2 ^ 31 \<Longrightarrow> int32 x = x"
  unfolding int32_def by (rule signed_take_bit_int_eq_self) auto

lemma int32_range: "- (2 ^ 31) \<le> int32 x \<and> int32 x < 2 ^ 31"
  unfolding int32_def
  using signed_take_bit_int_greater_eq_minus_exp [of 31 x] signed_take_bit_int_less_exp [of 31 x]
  by auto

text \<open>
  Writing through an optional out parameter: a function that fails before it writes leaves the
  caller's variable alone.
\<close>

definition out_or :: "'a \<Rightarrow> 'a option \<Rightarrow> 'a" where
  "out_or d v = (case v of None \<Rightarrow> d | Some x \<Rightarrow> x)"

lemma out_or_simps [simp]: "out_or d None = d" "out_or d (Some x) = x"
  by (simp_all add: out_or_def)

lemma distinct_map_fst_lookup:
  "distinct (map fst xs) \<Longrightarrow> (k, v) \<in> set xs \<longleftrightarrow> map_of xs k = Some v"
  by (simp add: map_of_eq_Some_iff)

lemma ucast_u32_u64 [simp]: "(ucast (ucast (x :: u32) :: u64) :: u32) = x"
  by (rule bit_word_eqI) (simp add: bit_simps)

section \<open>Decimal numbers\<close>

text \<open>What \<^verbatim>\<open>sprintf\<close> writes for \<^verbatim>\<open>%u\<close> and \<^verbatim>\<open>%d\<close>.\<close>

fun dec_string :: "nat \<Rightarrow> string" where
  "dec_string n = (if n < 10 then [char_of (48 + n)] else dec_string (n div 10) @ [char_of (48 + n mod 10)])"

declare dec_string.simps [simp del]

definition int_string :: "int \<Rightarrow> string" where
  "int_string i = (if i < 0 then CHR ''-'' # dec_string (nat (- i)) else dec_string (nat i))"

lemma length_dec_string: "n < 100 \<Longrightarrow> length (dec_string n) = (if n < 10 then 1 else 2)"
  by (cases "n < 10") (simp_all add: dec_string.simps [of n] dec_string.simps [of "n div 10"] less_mult_imp_div_less)

end
