(* ===== verification/SAI_Oid.thy ===== *)
theory SAI_Oid
  imports SAI_Prelude
begin

text \<open>
  Object identifiers (\<^verbatim>\<open>centec/src/ctc_sai_oid.c\<close>, \<^verbatim>\<open>centec/inc/ctc_sai_oid.h\<close>): the packing of
  type, chip, sub type and two values into the 64 bits of a \<^verbatim>\<open>sai_object_id_t\<close>, and the
  accessors with the type checks they make.

  The C code overlays the structure \<^verbatim>\<open>ctc_object_id_s\<close> on the 64-bit number. The layout is the
  one of the supported targets (little endian, bit fields from the least significant bit):
  type in bits 0-6, lchip in 7-12, sub\_type in 13-15, value2 in 16-31 and value in 32-63.
\<close>

section \<open>The identifier and its fields\<close>

record ctc_object_id =
  o_type :: "7 word"
  o_lchip :: "6 word"
  o_sub_type :: "3 word"
  o_value2 :: u16
  o_value :: u32

definition oid_pack :: "ctc_object_id \<Rightarrow> sai_object_id" where
  "oid_pack r =
     ucast (o_type r) OR push_bit 7 (ucast (o_lchip r)) OR push_bit 13 (ucast (o_sub_type r))
     OR push_bit 16 (ucast (o_value2 r)) OR push_bit 32 (ucast (o_value r))"

definition oid_unpack :: "sai_object_id \<Rightarrow> ctc_object_id" where
  "oid_unpack x =
     \<lparr> o_type = ucast x, o_lchip = ucast (drop_bit 7 x), o_sub_type = ucast (drop_bit 13 x),
       o_value2 = ucast (drop_bit 16 x), o_value = ucast (drop_bit 32 x) \<rparr>"

text \<open>Assigning to a bit field keeps the low bits of the value.\<close>

definition ctc_sai_create_object_id ::
    "nat \<Rightarrow> u8 \<Rightarrow> u8 \<Rightarrow> u16 \<Rightarrow> u32 \<Rightarrow> sai_object_id" where
  "ctc_sai_create_object_id type lchip sub_type value2 val =
     oid_pack \<lparr> o_type = of_nat type, o_lchip = ucast lchip, o_sub_type = ucast sub_type,
                o_value2 = value2, o_value = val \<rparr>"

text \<open>The \<^verbatim>\<open>type\<close> argument is ignored by the C function: it copies the bytes.\<close>

definition ctc_sai_get_ctc_object_id ::
    "nat \<Rightarrow> sai_object_id \<Rightarrow> sai_status \<times> ctc_object_id" where
  "ctc_sai_get_ctc_object_id type oid = (SAI_STATUS_SUCCESS, oid_unpack oid)"

definition ctc_sai_get_sai_object_id ::
    "nat \<Rightarrow> ctc_object_id \<Rightarrow> sai_status \<times> sai_object_id option" where
  "ctc_sai_get_sai_object_id type c =
     (if type \<noteq> unat (o_type c) then (SAI_STATUS_INVALID_OBJECT_TYPE, None)
      else (SAI_STATUS_SUCCESS, Some (oid_pack c)))"

definition ctc_sai_is_object_type_valid :: "nat \<Rightarrow> bool" where
  "ctc_sai_is_object_type_valid t \<longleftrightarrow> SAI_OBJECT_TYPE_NULL < t \<and> t < SAI_OBJECT_TYPE_MAX"

section \<open>Accessors\<close>

definition ctc_sai_oid_get_gport :: "sai_object_id \<Rightarrow> sai_status \<times> u32 option" where
  "ctc_sai_oid_get_gport oid =
     (let (st, c) = ctc_sai_get_ctc_object_id SAI_OBJECT_TYPE_PORT oid in
      if st < 0 then (st, None) else (SAI_STATUS_SUCCESS, Some (o_value c)))"

definition CTC_SAI_MAX_CHIP_NUM :: u8 where
  "CTC_SAI_MAX_CHIP_NUM = 32"

text \<open>
  \<open>inited l\<close> says that \<^verbatim>\<open>g_sai_db[l]\<close> is not \<^verbatim>\<open>NULL\<close>; the array has 32 slots and the first test
  keeps the second in range.
\<close>

definition ctc_sai_oid_get_lchip ::
    "(u8 \<Rightarrow> bool) \<Rightarrow> sai_object_id \<Rightarrow> sai_status \<times> u8 option" where
  "ctc_sai_oid_get_lchip inited oid =
     (let (st, c) = ctc_sai_get_ctc_object_id SAI_OBJECT_TYPE_NULL oid in
      if st < 0 then (st, None)
      else if CTC_SAI_MAX_CHIP_NUM \<le> ucast (o_lchip c) \<or> \<not> inited (ucast (o_lchip c))
      then (SAI_STATUS_UNINITIALIZED, None)
      else (SAI_STATUS_SUCCESS, Some (ucast (o_lchip c))))"

definition ctc_sai_oid_get_type :: "sai_object_id \<Rightarrow> sai_status \<times> nat option" where
  "ctc_sai_oid_get_type oid =
     (let (st, c) = ctc_sai_get_ctc_object_id SAI_OBJECT_TYPE_NULL oid in
      if st < 0 then (st, None) else (SAI_STATUS_SUCCESS, Some (unat (o_type c))))"

definition ctc_sai_oid_get_sub_type :: "sai_object_id \<Rightarrow> sai_status \<times> u8 option" where
  "ctc_sai_oid_get_sub_type oid =
     (let (st, c) = ctc_sai_get_ctc_object_id SAI_OBJECT_TYPE_PORT oid in
      if st < 0 then (st, None) else (SAI_STATUS_SUCCESS, Some (ucast (o_sub_type c))))"

definition ctc_sai_oid_get_value :: "sai_object_id \<Rightarrow> sai_status \<times> u32 option" where
  "ctc_sai_oid_get_value oid =
     (let (st, c) = ctc_sai_get_ctc_object_id SAI_OBJECT_TYPE_PORT oid in
      if st < 0 then (st, None) else (SAI_STATUS_SUCCESS, Some (o_value c)))"

definition ctc_sai_oid_get_vlanptr :: "sai_object_id \<Rightarrow> sai_status \<times> u16 option" where
  "ctc_sai_oid_get_vlanptr oid =
     (let (st, c) = ctc_sai_get_ctc_object_id SAI_OBJECT_TYPE_VLAN oid in
      if st < 0 then (st, None)
      else if unat (o_type c) \<noteq> SAI_OBJECT_TYPE_VLAN then (SAI_STATUS_INVALID_OBJECT_ID, None)
      else (SAI_STATUS_SUCCESS, Some (ucast (o_value c))))"

definition ctc_sai_oid_get_vlan_member_id ::
    "sai_object_id \<Rightarrow> sai_status \<times> (u16 \<times> u32) option" where
  "ctc_sai_oid_get_vlan_member_id oid =
     (let (st, c) = ctc_sai_get_ctc_object_id SAI_OBJECT_TYPE_VLAN_MEMBER oid in
      if st < 0 then (st, None)
      else if unat (o_type c) \<noteq> SAI_OBJECT_TYPE_VLAN_MEMBER
      then (SAI_STATUS_INVALID_OBJECT_ID, None)
      else (SAI_STATUS_SUCCESS, Some (o_value2 c, o_value c)))"

definition ctc_sai_oid_get_lag_member_id ::
    "sai_object_id \<Rightarrow> sai_status \<times> (u16 \<times> u32) option" where
  "ctc_sai_oid_get_lag_member_id oid =
     (let (st, c) = ctc_sai_get_ctc_object_id SAI_OBJECT_TYPE_LAG_MEMBER oid in
      if st < 0 then (st, None)
      else if unat (o_type c) \<noteq> SAI_OBJECT_TYPE_LAG_MEMBER
      then (SAI_STATUS_INVALID_OBJECT_ID, None)
      else (SAI_STATUS_SUCCESS, Some (o_value2 c, o_value c)))"

definition ctc_sai_oid_get_vrf_id :: "sai_object_id \<Rightarrow> sai_status \<times> u16 option" where
  "ctc_sai_oid_get_vrf_id oid =
     (let (st, c) = ctc_sai_get_ctc_object_id SAI_OBJECT_TYPE_VIRTUAL_ROUTER oid in
      if st < 0 then (st, None)
      else if unat (o_type c) \<noteq> SAI_OBJECT_TYPE_VIRTUAL_ROUTER
      then (SAI_STATUS_INVALID_OBJECT_ID, None)
      else (SAI_STATUS_SUCCESS, Some (ucast (o_value c))))"

definition ctc_sai_oid_get_l3if_id :: "sai_object_id \<Rightarrow> sai_status \<times> u16 option" where
  "ctc_sai_oid_get_l3if_id oid =
     (let (st, c) = ctc_sai_get_ctc_object_id SAI_OBJECT_TYPE_ROUTER_INTERFACE oid in
      if st < 0 then (st, None)
      else if unat (o_type c) \<noteq> SAI_OBJECT_TYPE_ROUTER_INTERFACE
      then (SAI_STATUS_INVALID_OBJECT_ID, None)
      else (SAI_STATUS_SUCCESS, Some (ucast (o_value c))))"

definition ctc_sai_oid_get_nexthop_id :: "sai_object_id \<Rightarrow> sai_status \<times> u32 option" where
  "ctc_sai_oid_get_nexthop_id oid =
     (let (st, c) = ctc_sai_get_ctc_object_id SAI_OBJECT_TYPE_NEXT_HOP oid in
      if st < 0 then (st, None)
      else if unat (o_type c) \<noteq> SAI_OBJECT_TYPE_NEXT_HOP
              \<and> unat (o_type c) \<noteq> SAI_OBJECT_TYPE_NEXT_HOP_GROUP
      then (SAI_STATUS_INVALID_OBJECT_ID, None)
      else (SAI_STATUS_SUCCESS, Some (o_value c)))"

definition ctc_sai_oid_get_twamp_session_id :: "sai_object_id \<Rightarrow> sai_status \<times> u32 option" where
  "ctc_sai_oid_get_twamp_session_id oid =
     (let (st, c) = ctc_sai_get_ctc_object_id SAI_OBJECT_TYPE_TWAMP oid in
      if st < 0 then (st, None)
      else if unat (o_type c) \<noteq> SAI_OBJECT_TYPE_TWAMP then (SAI_STATUS_INVALID_OBJECT_ID, None)
      else (SAI_STATUS_SUCCESS, Some (o_value c)))"

definition ctc_sai_oid_get_npm_session_id :: "sai_object_id \<Rightarrow> sai_status \<times> u32 option" where
  "ctc_sai_oid_get_npm_session_id oid =
     (let (st, c) = ctc_sai_get_ctc_object_id SAI_OBJECT_TYPE_NPM oid in
      if st < 0 then (st, None)
      else if unat (o_type c) \<noteq> SAI_OBJECT_TYPE_NPM then (SAI_STATUS_INVALID_OBJECT_ID, None)
      else (SAI_STATUS_SUCCESS, Some (o_value c)))"

definition ctc_sai_oid_get_counter_id :: "sai_object_id \<Rightarrow> sai_status \<times> u32 option" where
  "ctc_sai_oid_get_counter_id oid =
     (let (st, c) = ctc_sai_get_ctc_object_id SAI_OBJECT_TYPE_COUNTER oid in
      if st < 0 then (st, None)
      else if unat (o_type c) \<noteq> SAI_OBJECT_TYPE_COUNTER then (SAI_STATUS_INVALID_OBJECT_ID, None)
      else (SAI_STATUS_SUCCESS, Some (o_value c)))"

definition ctc_sai_oid_get_debug_counter_id :: "sai_object_id \<Rightarrow> sai_status \<times> u32 option" where
  "ctc_sai_oid_get_debug_counter_id oid =
     (let (st, c) = ctc_sai_get_ctc_object_id SAI_OBJECT_TYPE_DEBUG_COUNTER oid in
      if st < 0 then (st, None)
      else if unat (o_type c) \<noteq> SAI_OBJECT_TYPE_DEBUG_COUNTER
      then (SAI_STATUS_INVALID_OBJECT_ID, None)
      else (SAI_STATUS_SUCCESS, Some (o_value c)))"

section \<open>Packing is a bijection\<close>

lemma field_bit_out:
  "7 \<le> n \<Longrightarrow> \<not> bit (t :: 7 word) n" "6 \<le> n \<Longrightarrow> \<not> bit (l :: 6 word) n"
  "3 \<le> n \<Longrightarrow> \<not> bit (b :: 3 word) n" "16 \<le> n \<Longrightarrow> \<not> bit (v :: u16) n"
  using bit_imp_le_length [of t n] bit_imp_le_length [of l n] bit_imp_le_length [of b n]
    bit_imp_le_length [of v n] by auto

lemma oid_unpack_pack [simp]: "oid_unpack (oid_pack r) = r"
  by (cases r)
     (auto simp: oid_pack_def oid_unpack_def bit_simps field_bit_out intro!: bit_word_eqI)

lemma oid_pack_unpack [simp]: "oid_pack (oid_unpack x) = x"
proof (rule bit_word_eqI)
  fix n assume "n < LENGTH(64)"
  then consider "n < 7" | "7 \<le> n \<and> n < 13" | "13 \<le> n \<and> n < 16" | "16 \<le> n \<and> n < 32" | "32 \<le> n \<and> n < 64"
    by fastforce
  then show "bit (oid_pack (oid_unpack x)) n = bit x n"
    by cases (auto simp: oid_pack_def oid_unpack_def bit_simps)
qed

lemma oid_pack_inj: "oid_pack r = oid_pack r' \<longleftrightarrow> r = r'"
  by (metis oid_unpack_pack)

lemma ucast_field_back:
  "(x :: u8) < 64 \<Longrightarrow> (ucast (ucast x :: 6 word) :: u8) = x"
  "(x :: u8) < 8 \<Longrightarrow> (ucast (ucast x :: 3 word) :: u8) = x"
  by (simp_all add: word_less_nat_alt word_unat_eq_iff unsigned_ucast_eq unsigned_take_bit_eq
      take_bit_nat_eq_self)

lemma unat_type_field: "t < 128 \<Longrightarrow> unat (of_nat t :: 7 word) = t"
  by (simp add: unat_of_nat)

lemma create_fields:
  "oid_unpack (ctc_sai_create_object_id t l b v2 v) =
     \<lparr> o_type = of_nat t, o_lchip = ucast l, o_sub_type = ucast b, o_value2 = v2, o_value = v \<rparr>"
  by (simp add: ctc_sai_create_object_id_def)

lemmas oid_accessor_defs =
  ctc_sai_oid_get_vlanptr_def ctc_sai_oid_get_vlan_member_id_def ctc_sai_oid_get_lag_member_id_def
  ctc_sai_oid_get_vrf_id_def ctc_sai_oid_get_l3if_id_def ctc_sai_oid_get_nexthop_id_def
  ctc_sai_oid_get_twamp_session_id_def ctc_sai_oid_get_npm_session_id_def
  ctc_sai_oid_get_counter_id_def ctc_sai_oid_get_debug_counter_id_def ctc_sai_oid_get_gport_def
  ctc_sai_oid_get_type_def ctc_sai_oid_get_sub_type_def ctc_sai_oid_get_value_def
  ctc_sai_get_ctc_object_id_def

section \<open>Properties\<close>

text \<open>
  Property C6: an identifier gives back what it was made from. For every object type that fits
  the type field, chip below 64 and sub type below 8, decoding the identifier that
  \<^verbatim>\<open>ctc_sai_create_object_id\<close> builds yields the same type, chip, sub type, value2 and value.
\<close>

theorem oid_create_roundtrip:
  assumes "type < 128" "lchip < 64" "sub_type < 8"
  shows "let (st, c) = ctc_sai_get_ctc_object_id any
                         (ctc_sai_create_object_id type lchip sub_type value2 val) in
         st = SAI_STATUS_SUCCESS \<and> unat (o_type c) = type \<and> ucast (o_lchip c) = lchip \<and>
         ucast (o_sub_type c) = sub_type \<and> o_value2 c = value2 \<and> o_value c = val"
  using assms by (simp add: ctc_sai_get_ctc_object_id_def create_fields ucast_field_back unat_type_field)

theorem oid_create_roundtrip_witness:
  "let (st, c) = ctc_sai_get_ctc_object_id 0 (ctc_sai_create_object_id 94 31 7 65535 4294967295) in
   st = SAI_STATUS_SUCCESS \<and> unat (o_type c) = 94 \<and> ucast (o_lchip c) = (31 :: u8) \<and>
   ucast (o_sub_type c) = (7 :: u8) \<and> o_value2 c = 65535 \<and> o_value c = 4294967295"
  by (rule oid_create_roundtrip) simp_all

text \<open>
  Identifiers are unique names. Two identifiers built from fields in range are equal
  only if all their fields are equal, so objects of different types, chips, sub types or values
  never share an identifier.
\<close>

theorem oid_create_injective:
  assumes "t < 128" "t' < 128" "l < 64" "l' < 64" "b < 8" "b' < 8"
  shows "ctc_sai_create_object_id t l b v2 v = ctc_sai_create_object_id t' l' b' v2' v' \<longleftrightarrow>
         t = t' \<and> l = l' \<and> b = b' \<and> v2 = v2' \<and> v = v'"
proof
  assume eq: "ctc_sai_create_object_id t l b v2 v = ctc_sai_create_object_id t' l' b' v2' v'"
  then have f: "(of_nat t :: 7 word) = of_nat t'" "(ucast l :: 6 word) = ucast l'"
    "(ucast b :: 3 word) = ucast b'" "v2 = v2'" "v = v'"
    by (simp_all add: ctc_sai_create_object_id_def oid_pack_inj)
  have "t = t'" using arg_cong [OF f(1), of unat] assms(1,2) by (simp add: unat_type_field)
  moreover have "l = l'"
    using arg_cong [OF f(2), of "ucast :: 6 word \<Rightarrow> u8"] assms(3,4) by (simp add: ucast_field_back)
  moreover have "b = b'"
    using arg_cong [OF f(3), of "ucast :: 3 word \<Rightarrow> u8"] assms(5,6) by (simp add: ucast_field_back)
  ultimately show "t = t' \<and> l = l' \<and> b = b' \<and> v2 = v2' \<and> v = v'" using f by simp
qed simp

theorem oid_create_injective_witness:
  "ctc_sai_create_object_id 3 0 0 0 5 \<noteq> ctc_sai_create_object_id 3 1 0 0 5"
  using oid_create_injective [of 3 3 0 1 0 0 0 5 0 5] by simp

text \<open>
  Decoding and encoding are inverse in the other direction too. Every 64-bit
  identifier is the encoding of its decoded fields, and \<^verbatim>\<open>ctc_sai_get_sai_object_id\<close> accepts
  exactly the type that the fields carry.
\<close>

theorem oid_decode_encode:
  "ctc_sai_get_sai_object_id type (snd (ctc_sai_get_ctc_object_id any oid)) =
     (if type = unat (o_type (oid_unpack oid)) then (SAI_STATUS_SUCCESS, Some oid)
      else (SAI_STATUS_INVALID_OBJECT_TYPE, None))"
  by (simp add: ctc_sai_get_sai_object_id_def ctc_sai_get_ctc_object_id_def)

text \<open>
  The typed accessors reject identifiers of another type. Each of them succeeds
  exactly on identifiers whose type field is its own object type (the next hop accessor also takes
  next hop groups), and on failure reports \<^verbatim>\<open>INVALID_OBJECT_ID\<close> and writes nothing.
\<close>

theorem oid_accessors_check_type:
  "ctc_sai_oid_get_vlanptr oid =
     (if ty = 38 then (SAI_STATUS_SUCCESS, Some (ucast (o_value c))) else (SAI_STATUS_INVALID_OBJECT_ID, None)) \<and>
   ctc_sai_oid_get_vlan_member_id oid =
     (if ty = 39 then (SAI_STATUS_SUCCESS, Some (o_value2 c, o_value c)) else (SAI_STATUS_INVALID_OBJECT_ID, None)) \<and>
   ctc_sai_oid_get_lag_member_id oid =
     (if ty = 27 then (SAI_STATUS_SUCCESS, Some (o_value2 c, o_value c)) else (SAI_STATUS_INVALID_OBJECT_ID, None)) \<and>
   ctc_sai_oid_get_vrf_id oid =
     (if ty = 3 then (SAI_STATUS_SUCCESS, Some (ucast (o_value c))) else (SAI_STATUS_INVALID_OBJECT_ID, None)) \<and>
   ctc_sai_oid_get_l3if_id oid =
     (if ty = 6 then (SAI_STATUS_SUCCESS, Some (ucast (o_value c))) else (SAI_STATUS_INVALID_OBJECT_ID, None)) \<and>
   ctc_sai_oid_get_nexthop_id oid =
     (if ty = 4 \<or> ty = 5 then (SAI_STATUS_SUCCESS, Some (o_value c)) else (SAI_STATUS_INVALID_OBJECT_ID, None)) \<and>
   ctc_sai_oid_get_counter_id oid =
     (if ty = 84 then (SAI_STATUS_SUCCESS, Some (o_value c)) else (SAI_STATUS_INVALID_OBJECT_ID, None))"
  if "c = oid_unpack oid" and "ty = unat (o_type c)"
  using that by (simp add: oid_accessor_defs)

theorem oid_accessors_check_type_witness:
  "ctc_sai_oid_get_vrf_id (ctc_sai_create_object_id 3 1 0 0 70000) = (SAI_STATUS_SUCCESS, Some 4464) \<and>
   ctc_sai_oid_get_vrf_id (ctc_sai_create_object_id 6 1 0 0 70000) = (SAI_STATUS_INVALID_OBJECT_ID, None)"
  using oid_accessors_check_type [OF refl refl, of "ctc_sai_create_object_id 3 1 0 0 70000"]
    oid_accessors_check_type [OF refl refl, of "ctc_sai_create_object_id 6 1 0 0 70000"]
  by (simp add: create_fields)

section \<open>Evaluation\<close>

text \<open>The same functions on integers, on which the simplifier evaluates faster than on words.\<close>

lemma push_times: "push_bit n (x :: u64) = of_int (2 ^ n) * x"
  by (simp add: push_bit_eq_mult mult.commute)

lemma oid_pack_code [code]:
  "oid_pack r = word_of_int (uint (o_type r) + 128 * uint (o_lchip r) + 8192 * uint (o_sub_type r)
     + 65536 * uint (o_value2 r) + 4294967296 * uint (o_value r))"
proof -
  let ?a = "ucast (o_type r) :: u64" and ?b = "push_bit 7 (ucast (o_lchip r)) :: u64"
    and ?c = "push_bit 13 (ucast (o_sub_type r)) :: u64" and ?d = "push_bit 16 (ucast (o_value2 r)) :: u64"
    and ?e = "push_bit 32 (ucast (o_value r)) :: u64"
  have ab: "?a AND ?b = 0" and c: "(?a OR ?b) AND ?c = 0" and d: "((?a OR ?b) OR ?c) AND ?d = 0"
    and e: "(((?a OR ?b) OR ?c) OR ?d) AND ?e = 0"
    by (rule bit_word_eqI; auto simp: bit_simps dest: bit_imp_le_length)+
  have "oid_pack r = (((?a OR ?b) OR ?c) OR ?d) OR ?e" by (simp only: oid_pack_def or.assoc)
  also have "\<dots> = ?a + ?b + ?c + ?d + ?e"
    by (simp only: disjunctive_add_eq_or [OF ab] disjunctive_add_eq_or [OF c] disjunctive_add_eq_or [OF d] disjunctive_add_eq_or [OF e])
  finally show ?thesis by (simp only: push_times ucast_eq flip: of_int_add of_int_mult) simp
qed

lemma ucast_div: "ucast (drop_bit n (x :: 'a::len word)) = (word_of_int (uint x div 2 ^ n) :: 'b::len word)"
proof -
  have "uint (drop_bit n x) = uint x div 2 ^ n" 
    unfolding drop_bit_eq_div [symmetric] by (rule bit_eqI) (auto simp: bit_simps)
  then show ?thesis by (simp only: ucast_eq)
qed

lemma oid_unpack_code [code]:
  "oid_unpack x = (let n = uint x in \<lparr>o_type = word_of_int n, o_lchip = word_of_int (n div 128), o_sub_type = word_of_int (n div 8192),
       o_value2 = word_of_int (n div 65536), o_value = word_of_int (n div 4294967296) \<rparr>)"
proof -
  have p: "2 ^ 7 = (128 :: int)" "2 ^ 13 = (8192 :: int)" "2 ^ 16 = (65536 :: int)" "2 ^ 32 = (4294967296 :: int)" by simp_all
  show ?thesis unfolding oid_unpack_def Let_def ucast_div p by (simp only: ucast_eq)
qed
end
