(* ===== verification/SAI_Ext.thy ===== *)
theory SAI_Ext
  imports SAI_Oid
begin

text \<open>
  The boundary of the program. Nothing of the Centec SDK (\<^verbatim>\<open>ctcs_*\<close>, \<^verbatim>\<open>ctc_hash_*\<close>,
  \<^verbatim>\<open>ctc_vector_*\<close>, \<^verbatim>\<open>ctc_opf_*\<close>, \<^verbatim>\<open>mem_*\<close>, \<^verbatim>\<open>sal_mutex_*\<close>) is part of the repository, so all of it
  is a parameter, the record \<open>ctc_lib\<close>:

  \<^item> calls with an effect outside the program are recorded, newest first, in the \<open>trace\<close> of the
    state together with their answer; the answer is an arbitrary function \<open>env\<close> of the calls made
    so far, so the model covers every deterministic library and device;
  \<^item> hash tables and vectors are abstract handles with the operations the code calls
    (\<open>hash_ops\<close>, \<open>vec_ops\<close>); the documented behaviour of these containers is stated by the
    locales \<open>hash_table\<close> and \<open>vec_table\<close>, and the one of the offset allocator by \<open>ctc_lib_laws\<close>;
  \<^item> SDK constants whose values the repository does not show (error codes, capability indices)
    are functions of their names, and so are the SDK macros between a prefix length and a mask;
    \<open>stack_junk\<close> is what an uninitialised local array holds.

  A store through a pointer that a lookup returned is \<open>hash_write\<close>: the table keeps the pointer,
  so a later lookup sees the new contents.

  The theory also holds the structures that the modules keep behind the \<^verbatim>\<open>void*\<close> data pointer of
  a database bucket, and the global state \<open>sai_state\<close>. The flag \<open>fault\<close> is set when the C code
  reads or writes memory it does not own.
\<close>

section \<open>Module structures kept in the database\<close>

record sai_ip_address =
  addr_family :: nat
  addr :: "128 word"

record ctc_sai_virtual_router =
  vr_src_mac :: sai_mac
  vr_v4_state :: u8
  vr_v6_state :: u8

record ctc_sai_router_interface =
  rif_gport :: u32
  rif_vrf_id :: u16
  rif_src_mac :: sai_mac
  rif_v4_state :: "1 word"
  rif_v6_state :: "1 word"

record ctc_sai_next_hop =
  nh_rif_id :: sai_object_id
  nh_ip_address :: sai_ip_address
  nh_label :: "u32 list"
  nh_mpls_tunnel_id :: u16

record ctc_sai_next_hop_grp =
  w_nh_oid :: sai_object_id
  p_nh_oid :: sai_object_id
  grp_counter_oid :: sai_object_id

record ctc_sai_next_hop_grp_member =
  nh_grp_oid :: sai_object_id

text \<open>
  The union \<^verbatim>\<open>statsinfo\<close> is its 32 bits: \<^verbatim>\<open>stats_id\<close> is the whole, \<^verbatim>\<open>hostif_queue\<close> has the queue in the low
  half and the reason in the high one.
\<close>

record ctc_sai_counter =
  cnt_counter_type :: u32
  cnt_ctc_type :: nat
  cnt_is_trap :: u8
  cnt_statsinfo :: u32

text \<open>
  The list of an isolation group links the records of its members; a record is named by the
  identifier of its object.
\<close>

record ctc_sai_isolation_group =
  ist_grp_id :: u32
  ist_type :: u32
  port_list :: "sai_object_id list"

record ctc_sai_isolation_group_member =
  mem_ist_grp :: sai_object_id
  mem_port_id :: sai_object_id
  mem_id :: u32

text \<open>The arrays of a WRED profile are indexed by the packet color: green, yellow, red.\<close>

record ctc_sai_wred_db =
  color_en :: "u8 list"
  min_th :: "u16 list"
  max_th :: "u16 list"
  drop_prob :: "u16 list"
  used_cnt :: u16

record ctc_sai_queue_db =
  sch_grp :: sai_object_id
  q_wred_id :: u32
  q_buf_id :: u32
  q_sch_id :: u32

text \<open>A spanning tree instance: bit maps of its VLANs, ports and link aggregation groups.\<close>

record ctc_sai_stp_info =
  vlan_bind_bits :: "u32 list"
  port_bind_bits :: "u32 list"
  vlan_bind_count :: u32
  port_bind_count :: u32
  lag_bind_bits :: "u32 list"

text \<open>Of the switch record, of bridge ports and of link aggregation groups, what the modelled modules use.\<close>

record ctc_sai_lag_info =
  member_ports_bits :: "u32 list"

record ctc_sai_bridge_port =
  bp_port_type :: u8
  bp_gport :: u16
  stp_port_bind_bits :: "u32 list"
  stp_port_bind_count :: u32
  bp_stp_port_state :: "u8 list"

record ctc_sai_switch_master =
  port_queues :: u8
  default_bridge_id :: u32
  default_wtd_thrd :: "u16 list"

datatype (plugins only: code) obj_data =
    VrData ctc_sai_virtual_router
  | RifData ctc_sai_router_interface
  | NhData ctc_sai_next_hop
  | NhGrpData ctc_sai_next_hop_grp
  | NhGrpMemberData ctc_sai_next_hop_grp_member
  | CounterData ctc_sai_counter
  | IstGrpData ctc_sai_isolation_group
  | IstMemberData ctc_sai_isolation_group_member
  | WredData ctc_sai_wred_db
  | QueueData ctc_sai_queue_db
  | SwitchData ctc_sai_switch_master
  | StpData ctc_sai_stp_info
  | StpPortData u8 \<comment> \<open>\<^verbatim>\<open>stp_port_state\<close> of a \<^verbatim>\<open>ctc_sai_stp_port_t\<close>\<close>
  | LagData ctc_sai_lag_info
  | BridgePortData ctc_sai_bridge_port
  | FreedData \<comment> \<open>a bucket whose record has been freed\<close>
  | VlanData u16 \<comment> \<open>\<^verbatim>\<open>user_vlanptr\<close> of a \<^verbatim>\<open>ctc_sai_vlan_user_t\<close>\<close>
  | NeighborData u16 \<comment> \<open>\<^verbatim>\<open>arp_id\<close> of a \<^verbatim>\<open>ctc_sai_neighbor_t\<close>\<close>
  | OtherData nat

section \<open>Calls out of the program\<close>

text \<open>The error codes \<^verbatim>\<open>ctc_sai_mapping_error_ctc\<close> and its callers name.\<close>

datatype (plugins only: code) ctc_err =
    CTC_E_NONE | CTC_E_INVALID_PTR | CTC_E_INVALID_PORT | CTC_E_INVALID_PARAM | CTC_E_BADID
  | CTC_E_INVALID_CHIP_ID | CTC_E_INVALID_CONFIG | CTC_E_EXIST | CTC_E_NOT_EXIST
  | CTC_E_NOT_READY | CTC_E_IN_USE | CTC_E_NOT_SUPPORT | CTC_E_NO_RESOURCE
  | CTC_E_PROFILE_NO_RESOURCE | CTC_E_NO_MEMORY | CTC_E_HASH_CONFLICT | CTC_E_NOT_INIT
  | CTC_E_INIT_FAIL | CTC_E_DMA | CTC_E_HW_TIME_OUT | CTC_E_HW_BUSY | CTC_E_HW_INVALID_INDEX
  | CTC_E_HW_NOT_LOCK | CTC_E_HW_FAIL | CTC_E_VERSION_MISMATCH | CTC_E_PARAM_CONFLICT
  | CTC_E_TOO_MANY_FRAGMENT | CTC_E_WB_BUSY | CTC_E_NH_NOT_EXIST

text \<open>The capabilities \<^verbatim>\<open>_ctc_sai_db_init_id\<close> reads.\<close>

datatype ctc_cap =
    CAP_MAX_LCHIP_NUM | CAP_VLAN_NUM | CAP_MAX_FID | CAP_LOGIC_PORT_NUM | CAP_MAX_VRFID
  | CAP_L3IF_NUM | CAP_ARP_ID_NUM | CAP_EXTERNAL_NEXTHOP_NUM | CAP_MPLS_TUNNEL_NUM
  | CAP_APS_GROUP_NUM | CAP_MCAST_GROUP_NUM | CAP_LINKAGG_GROUP_NUM | CAP_STP_INSTANCE_NUM

datatype l3if_prop = L3IF_PROP_IPV4_UCAST | L3IF_PROP_IPV6_UCAST | L3IF_PROP_ROUTE_MAC_LOW_8BITS

text \<open>Debug levels of the SDK.\<close>

datatype ctc_dbg = DBG_NONE | DBG_FUNC | DBG_PARAM | DBG_INFO | DBG_ERROR

datatype ecmp_upd = ECMP_ADD_MEMBER | ECMP_REMOVE_MEMBER

text \<open>\<^verbatim>\<open>ctc_nh_ecmp_nh_param_t\<close>; the array \<^verbatim>\<open>nhid\<close> is its first element, the only one ever set.\<close>

record ecmp_param =
  ep_static :: bool
  ep_member_num :: u16
  ep_nhid :: u32
  ep_nh_num :: u8
  ep_stats_id :: u32
  ep_upd :: "ecmp_upd option"

text \<open>A pushed label of \<^verbatim>\<open>ctc_mpls_nexthop_param_t\<close>.\<close>

record mpls_label =
  ml_ttl :: u8
  ml_exp :: u8
  ml_label :: u32

datatype stats_type =
    STATSID_IP | STATSID_NEXTHOP | STATSID_MPLS_PW | STATSID_MPLS_LSP | STATSID_ECMP | STATSID_TUNNEL

datatype ctc_dir = CTC_INGRESS | CTC_EGRESS

text \<open>
  \<^verbatim>\<open>ctc_qos_drop_t\<close>: the queue and its drop scheme, the arrays indexed by the color of the device. The
  numbers are the ones the code assigns, none of which needs more than 32 bits.
\<close>

datatype drop_mode = CTC_QUEUE_DROP_WTD | CTC_QUEUE_DROP_WRED

record ctc_qos_drop =
  dr_gport :: u32
  dr_queue_id :: u32
  dr_mode :: drop_mode
  dr_min_th :: "u32 list"
  dr_max_th :: "u32 list"
  dr_drop_prob :: "u32 list"

text \<open>
  One constructor per library call that leaves a trace; pool types of the offset allocator are
  counted from \<^verbatim>\<open>CTC_OPF_CUSTOM_ID_START\<close>.
\<close>

datatype (plugins only: code) ext =
    MutexCreate u8 | MutexLock u8 | MutexUnlock u8
  | MemAlloc
  | GetGchipId u8
  | OpfInit nat u32 | OpfInitOffset nat u8 u32 u32 | OpfFreePool nat u8
  | OpfAlloc nat u8 | OpfFree nat u8 u32 | OpfAllocPos nat u8 u32
  | L3ifGetRouterMac u8 | L3ifSetRouterMac u8 u32 sai_mac | L3ifSetProperty u8 u32 l3if_prop u32
  | NhAddEcmp u8 u32 ecmp_param | NhUpdateEcmp u8 u32 ecmp_param | NhRemoveEcmp u8 u32
  | NhGetNhInfo u8 u32 | NhAddIpuc u8 u32 u16 u16 u16 | NhRemoveIpuc u8 u32
  | NhAddMpls u8 u32 u16 "u16 \<times> u16" "mpls_label option"
  | ApsCreate u8 u16 "u32 \<times> u32" "u16 \<times> u16" | ApsDestroy u8 u16
  | ApsSetBridge u8 u16 bool | ApsGetBridge u8 u16
  | StatsCreate u8 "(stats_type \<times> ctc_dir) option" | StatsDestroy u8 u32
  | StatsGet u8 u32 | StatsClear u8 u32
  | QueueStatsQuery u8 u16 u16 u32 | QueueStatsClear u8 u16 u16 u32
  | SlistNew | PortSetIsolation u8 u32 u32 | PortSetRestriction u8 u32 u32
  | QosSetDropScheme u8 ctc_qos_drop | QosGetDropScheme u8 u32 u32 drop_mode
  | StpSetState u8 u32 u32 u8 | StpGetState u8 u32 u32 | StpSetVlanStpid u8 u16 u8
  | MemMgrInit | DebugInit | SalInit | DebugSetFlag string string u8
  | L2GetFdbCount u8 | L2GetFdbEntry u8 u32
  | FileOpen string | FileClose | ModuleDump u8 string

text \<open>
  An answer: the return code and the values written through out parameters, in order. A parameter
  that is not written keeps its value, zero in every caller of this development.
\<close>

record ext_ret =
  rc :: int
  outs :: "u64 list"

type_synonym ext_trace = "(ext \<times> ext_ret) list"

definition out_val :: "nat \<Rightarrow> ext_ret \<Rightarrow> u64" where
  "out_val i r = (if i < length (outs r) then outs r ! i else 0)"

section \<open>Containers and the library record\<close>

record ('k, 'b, 'h) hash_ops =
  hash_null :: 'h
  hash_create :: "nat \<Rightarrow> nat \<Rightarrow> 'h"
  hash_lookup :: "'h \<Rightarrow> 'k \<Rightarrow> 'b option"
  hash_insert :: "'h \<Rightarrow> 'k \<Rightarrow> 'b \<Rightarrow> 'h"
  hash_remove :: "'h \<Rightarrow> 'k \<Rightarrow> 'h \<times> 'b option"
  hash_write :: "'h \<Rightarrow> 'k \<Rightarrow> 'b \<Rightarrow> 'h"
  hash_count :: "'h \<Rightarrow> u32"
  hash_items :: "'h \<Rightarrow> ('k \<times> 'b) list"
  hash_ok :: "'h \<Rightarrow> bool"

record ('b, 'v) vec_ops =
  vec_null :: 'v
  vec_init :: "nat \<Rightarrow> nat \<Rightarrow> 'v"
  vec_get :: "'v \<Rightarrow> u32 \<Rightarrow> 'b option"
  vec_add :: "'v \<Rightarrow> u32 \<Rightarrow> 'b \<Rightarrow> bool \<times> 'v"
  vec_del :: "'v \<Rightarrow> u32 \<Rightarrow> 'v \<times> 'b option"
  vec_items :: "'v \<Rightarrow> (u32 \<times> 'b) list"
  vec_ok :: "'v \<Rightarrow> bool"

text \<open>
  Keys of the entry tables: one constructor per arm of the key union of
  \<^verbatim>\<open>ctc_sai_entry_property_t\<close>. The structure is cleared before it is filled and compared byte by
  byte, so an address union is the whole 128 bits, an IPv4 address in the low 32.
\<close>

datatype (plugins only: code) entry_key =
    NeighborKey (nk_l3if: u16) (nk_rif_type: u8) (nk_ip_ver: u8) (nk_addr: "128 word")
  | RouteKey (rk_vrf: u16) (rk_mask_len: u8) (rk_ip_ver: u8) (rk_addr: "128 word")
  | McastIpKey (mk_vrf: u16) (mk_src_mask_len: u8) (mk_ip_ver: "1 word") (mk_is_l2mc: bool)
      (mk_is_pending: bool) (mk_is_bridge: bool) (mk_src: "128 word") (mk_dst: "128 word")
  | McastFdbKey (fk_mac: sai_mac) (fk_fid: u16) (fk_is_pending: bool) (fk_is_bridge: bool)
  | HardwareKey (hk_id: u64)
  | OidKey (ok_oid: sai_object_id)
  | MplsKey (lk_label: u32)
  | NatKey (xk_vrf: u16) (xk_ip_ver: u8) (xk_src_ip: u32) (xk_dst_ip: u32) (xk_proto: u8)
      (xk_src_port: u16) (xk_dst_port: u16)

type_synonym ent_key = "nat \<times> entry_key"

record ('o, 'e, 'v) ctc_lib =
  env :: "ext_trace \<Rightarrow> ext \<Rightarrow> ext_ret"
  err :: "ctc_err \<Rightarrow> int"
  capability :: "u8 \<Rightarrow> ctc_cap \<Rightarrow> u32"
  cap_index :: "ctc_cap \<Rightarrow> u32"
  traverse_stops :: "int \<Rightarrow> bool"
  through_stops :: "int \<Rightarrow> bool"
  traverse_ret :: "int \<Rightarrow> int"
  mem_free_nulls :: bool
  MIN_CTC_L3IF_ID :: u32
  CTC_FRAME_SIZE_MAX :: u32
  CTC_IP_VER_4 :: u8
  CTC_NH_RESERVED_NHID_FOR_DROP :: u32
  ipv4_mask_to_len :: "u32 \<Rightarrow> u8"
  ipv4_len_to_mask :: "u8 \<Rightarrow> u32"
  ipv6_mask_to_len :: "u32 list \<Rightarrow> u8"
  ipv6_len_to_mask :: "u8 \<Rightarrow> u32 list"
  stack_junk :: "nat \<Rightarrow> u32"
  dbg_level :: "ctc_dbg \<Rightarrow> u8"
  inet_ntop :: "bool \<Rightarrow> u32 list \<Rightarrow> string"
  oid_ops :: "(sai_object_id, obj_data option, 'o) hash_ops"
  ent_ops :: "(ent_key, obj_data option, 'e) hash_ops"
  vec_ops :: "(obj_data option, 'v) vec_ops"

section \<open>Global state\<close>

text \<open>\<^verbatim>\<open>ctc_sai_db_t\<close>; the mutex is only ever passed to the library, by chip number.\<close>

record ('o, 'e, 'v) sai_db =
  oid_hash :: "nat \<Rightarrow> 'o"
  entry_hash :: "nat \<Rightarrow> 'e"
  db_vector :: "nat \<Rightarrow> 'v"

record ('o, 'e, 'v) sai_state =
  g_sai_db :: "u8 \<Rightarrow> ('o, 'e, 'v) sai_db option"
  trace :: ext_trace
  fault :: bool

definition ext_call ::
    "('o, 'e, 'v) ctc_lib \<Rightarrow> ext \<Rightarrow> ('o, 'e, 'v) sai_state \<Rightarrow> ext_ret \<times> ('o, 'e, 'v) sai_state" where
  "ext_call L c s = (let r = env L (trace s) c in (r, s\<lparr>trace := (c, r) # trace s\<rparr>))"

definition inited :: "('o, 'e, 'v) sai_state \<Rightarrow> u8 \<Rightarrow> bool" where
  "inited s l \<longleftrightarrow> g_sai_db s l \<noteq> None"

text \<open>\<^verbatim>\<open>mem_malloc\<close> answers an address, zero when memory is exhausted.\<close>

definition mem_malloc ::
    "('o, 'e, 'v) ctc_lib \<Rightarrow> ('o, 'e, 'v) sai_state \<Rightarrow> bool \<times> ('o, 'e, 'v) sai_state" where
  "mem_malloc L s = (let (r, s') = ext_call L MemAlloc s in (out_val 0 r \<noteq> 0, s'))"

section \<open>What a trace says about locks and allocated offsets\<close>

definition lock_delta :: "ext \<Rightarrow> u8 \<Rightarrow> int" where
  "lock_delta c l =
     (case c of MutexLock l' \<Rightarrow> (if l' = l then 1 else 0)
      | MutexUnlock l' \<Rightarrow> (if l' = l then - 1 else 0)
      | _ \<Rightarrow> 0)"

primrec lock_depth :: "ext_trace \<Rightarrow> u8 \<Rightarrow> int" where
  "lock_depth [] l = 0"
| "lock_depth (x # t) l = lock_delta (fst x) l + lock_depth t l"

text \<open>The offsets of pool \<open>p\<close> of chip \<open>l\<close> that are handed out after a call.\<close>

definition opf_step :: "ext \<Rightarrow> ext_ret \<Rightarrow> nat \<Rightarrow> u8 \<Rightarrow> u32 list \<Rightarrow> u32 list" where
  "opf_step c r p l used =
     (case c of
        OpfAlloc p' l' \<Rightarrow>
          (if p' = p \<and> l' = l \<and> rc r = 0 then ucast (out_val 0 r) # used else used)
      | OpfAllocPos p' l' i \<Rightarrow> (if p' = p \<and> l' = l \<and> rc r = 0 then i # used else used)
      | OpfFree p' l' i \<Rightarrow> (if p' = p \<and> l' = l \<and> rc r = 0 then removeAll i used else used)
      | OpfFreePool p' l' \<Rightarrow> (if p' = p \<and> l' = l then [] else used)
      | _ \<Rightarrow> used)"

primrec opf_used :: "ext_trace \<Rightarrow> nat \<Rightarrow> u8 \<Rightarrow> u32 list" where
  "opf_used [] p l = []"
| "opf_used (x # t) p l = opf_step (fst x) (snd x) p l (opf_used t p l)"

lemma ext_call_frame [simp]:
  "g_sai_db (snd (ext_call L c s)) = g_sai_db s" "fault (snd (ext_call L c s)) = fault s"
  "trace (snd (ext_call L c s)) = (c, fst (ext_call L c s)) # trace s"
  "fst (ext_call L c s) = env L (trace s) c"
  by (simp_all add: ext_call_def Let_def)

lemma inited_ext_call [simp]: "inited (snd (ext_call L c s)) = inited s"
  by (simp add: inited_def fun_eq_iff)

lemma lock_delta_simps [simp]:
  "lock_delta (MutexLock l') l = (if l' = l then 1 else 0)"
  "lock_delta (MutexUnlock l') l = (if l' = l then - 1 else 0)"
  "lock_delta MemAlloc l = 0" "lock_delta (GetGchipId l') l = 0"
  "lock_delta (MutexCreate l') l = 0" "lock_delta (OpfInit p x) l = 0"
  "lock_delta (OpfInitOffset p l' x y) l = 0" "lock_delta (OpfFreePool p l') l = 0"
  "lock_delta (OpfAlloc p l') l = 0" "lock_delta (OpfFree p l' i) l = 0"
  "lock_delta (OpfAllocPos p l' i) l = 0" "lock_delta (L3ifGetRouterMac l') l = 0"
  "lock_delta (L3ifSetRouterMac l' x m) l = 0" "lock_delta (L3ifSetProperty l' x q y) l = 0"
  "lock_delta (NhAddEcmp l' x ep) l = 0" "lock_delta (NhUpdateEcmp l' x ep) l = 0"
  "lock_delta (NhRemoveEcmp l' x) l = 0" "lock_delta (NhGetNhInfo l' x) l = 0"
  "lock_delta (NhAddIpuc l' x h1 h2 h3) l = 0" "lock_delta (NhRemoveIpuc l' x) l = 0"
  "lock_delta (NhAddMpls l' x h1 hp w) l = 0" "lock_delta (ApsCreate l' h1 xp hp) l = 0"
  "lock_delta (ApsDestroy l' h1) l = 0" "lock_delta (ApsSetBridge l' h1 bb) l = 0"
  "lock_delta (ApsGetBridge l' h1) l = 0" "lock_delta (StatsCreate l' n1) l = 0"
  "lock_delta (StatsGet l' x) l = 0" "lock_delta (StatsClear l' x) l = 0"
  "lock_delta (QueueStatsQuery l' h1 h2 x) l = 0" "lock_delta (QueueStatsClear l' h1 h2 x) l = 0"
  "lock_delta SlistNew l = 0" "lock_delta (PortSetIsolation l' x y) l = 0"
  "lock_delta (PortSetRestriction l' x y) l = 0"
  "lock_delta (QosSetDropScheme l' dd) l = 0" "lock_delta (QosGetDropScheme l' x y dm) l = 0"
  "lock_delta (StpSetState l' x y h) l = 0" "lock_delta (StpGetState l' x y) l = 0" "lock_delta (StpSetVlanStpid l' h1 h) l = 0"
  "lock_delta (StatsDestroy l' x) l = 0"
  "lock_delta MemMgrInit l = 0"
  "lock_delta DebugInit l = 0"
  "lock_delta SalInit l = 0"
  "lock_delta (DebugSetFlag sa sb h) l = 0"
  "lock_delta (L2GetFdbCount l') l = 0"
  "lock_delta (L2GetFdbEntry l' x) l = 0"
  "lock_delta (FileOpen sa) l = 0"
  "lock_delta FileClose l = 0"
  "lock_delta (ModuleDump l' sa) l = 0"
  by (simp_all add: lock_delta_def)

lemma opf_step_simps [simp]:
  "opf_step (OpfAlloc p' l') r p l used =
     (if p' = p \<and> l' = l \<and> rc r = 0 then ucast (out_val 0 r) # used else used)"
  "opf_step (OpfAllocPos p' l' i) r p l used =
     (if p' = p \<and> l' = l \<and> rc r = 0 then i # used else used)"
  "opf_step (OpfFree p' l' i) r p l used =
     (if p' = p \<and> l' = l \<and> rc r = 0 then removeAll i used else used)"
  "opf_step (OpfFreePool p' l') r p l used = (if p' = p \<and> l' = l then [] else used)"
  "opf_step MemAlloc r p l used = used" "opf_step (GetGchipId l') r p l used = used"
  "opf_step (MutexCreate l') r p l used = used" "opf_step (OpfInit p x) r p l used = used"
  "opf_step (OpfInitOffset p l' x y) r p l used = used"
  "opf_step (L3ifGetRouterMac l') r p l used = used"
  "opf_step (L3ifSetRouterMac l' x m) r p l used = used"
  "opf_step (L3ifSetProperty l' x q y) r p l used = used"
  "opf_step (NhAddEcmp l' x ep) r p l used = used"
  "opf_step (NhUpdateEcmp l' x ep) r p l used = used"
  "opf_step (NhRemoveEcmp l' x) r p l used = used"
  "opf_step (NhGetNhInfo l' x) r p l used = used"
  "opf_step (NhAddIpuc l' x h1 h2 h3) r p l used = used"
  "opf_step (NhRemoveIpuc l' x) r p l used = used"
  "opf_step (NhAddMpls l' x h1 hp w) r p l used = used"
  "opf_step (ApsCreate l' h1 xp hp) r p l used = used"
  "opf_step (ApsDestroy l' h1) r p l used = used"
  "opf_step (ApsSetBridge l' h1 bb) r p l used = used"
  "opf_step (ApsGetBridge l' h1) r p l used = used"
  "opf_step (StatsCreate l' n1) r p l used = used"
  "opf_step (StatsGet l' x) r p l used = used" "opf_step (StatsClear l' x) r p l used = used"
  "opf_step (QueueStatsQuery l' h1 h2 x) r p l used = used"
  "opf_step (QueueStatsClear l' h1 h2 x) r p l used = used"
  "opf_step SlistNew r p l used = used" "opf_step (PortSetIsolation l' x y) r p l used = used"
  "opf_step (PortSetRestriction l' x y) r p l used = used"
  "opf_step (QosSetDropScheme l' dd) r p l used = used" "opf_step (QosGetDropScheme l' x y dm) r p l used = used"
  "opf_step (StpSetState l' x y h) r p l used = used" "opf_step (StpGetState l' x y) r p l used = used"
  "opf_step (StpSetVlanStpid l' h1 h) r p l used = used"
  "opf_step (StatsDestroy l' x) r p l used = used" "opf_step (MutexLock l') r p l used = used"
  "opf_step (MutexUnlock l') r p l used = used"
  "opf_step MemMgrInit r p l used = used"
  "opf_step DebugInit r p l used = used"
  "opf_step SalInit r p l used = used"
  "opf_step (DebugSetFlag sa sb h) r p l used = used"
  "opf_step (L2GetFdbCount l') r p l used = used"
  "opf_step (L2GetFdbEntry l' x) r p l used = used"
  "opf_step (FileOpen sa) r p l used = used"
  "opf_step FileClose r p l used = used"
  "opf_step (ModuleDump l' sa) r p l used = used"
  by (simp_all add: opf_step_def)

end
