(* ===== verification/SAI_Contracts.thy ===== *)
theory SAI_Contracts
  imports SAI_Ext
begin

text \<open>
  What the program relies on of the library: the documented behaviour of its hash table
  (\<open>hash_table\<close>), of its vector (\<open>vec_table\<close>) and of its offset allocator and error codes
  (\<open>ctc_lib_laws\<close>). The client lemmas about lookups after an insertion, a removal or a store
  through a pointer are proved once here. A reference library on association lists
  (\<open>ref_lib\<close>) meets all of it, so the contracts can hold together; the properties of the
  development are stated for every library that meets them.
\<close>

section \<open>Hash tables\<close>

locale hash_table =
  fixes H :: "('k, 'b, 'h) hash_ops"
  assumes create_ok: "hash_ok H (hash_create H n m)"
    and create_items: "hash_items H (hash_create H n m) = []"
    and items_distinct: "hash_ok H h \<Longrightarrow> distinct (map fst (hash_items H h))"
    and lookup_items: "hash_ok H h \<Longrightarrow> hash_lookup H h k = map_of (hash_items H h) k"
    and count_items: "hash_ok H h \<Longrightarrow> hash_count H h = of_nat (length (hash_items H h))"
    and insert_ok: "hash_ok H h \<Longrightarrow> hash_lookup H h k = None \<Longrightarrow> hash_ok H (hash_insert H h k b)"
    and insert_items: "hash_ok H h \<Longrightarrow> hash_lookup H h k = None \<Longrightarrow>
          set (hash_items H (hash_insert H h k b)) = insert (k, b) (set (hash_items H h))"
    and remove_ok: "hash_ok H h \<Longrightarrow> hash_ok H (fst (hash_remove H h k))"
    and remove_result: "hash_ok H h \<Longrightarrow> snd (hash_remove H h k) = hash_lookup H h k"
    and remove_items: "hash_ok H h \<Longrightarrow>
          set (hash_items H (fst (hash_remove H h k))) = {x \<in> set (hash_items H h). fst x \<noteq> k}"
    and write_ok: "hash_ok H h \<Longrightarrow> hash_lookup H h k \<noteq> None \<Longrightarrow> hash_ok H (hash_write H h k b)"
    and write_items: "hash_ok H h \<Longrightarrow> hash_lookup H h k \<noteq> None \<Longrightarrow>
          hash_items H (hash_write H h k b) =
            map (\<lambda>x. if fst x = k then (k, b) else x) (hash_items H h)"
begin

lemma lookup_Some_iff:
  "hash_ok H h \<Longrightarrow> hash_lookup H h k = Some b \<longleftrightarrow> (k, b) \<in> set (hash_items H h)"
  by (simp add: lookup_items items_distinct map_of_eq_Some_iff)

lemma lookup_eqI:
  assumes "hash_ok H h" and "\<And>b. (k, b) \<in> set (hash_items H h) \<longleftrightarrow> v = Some b"
  shows "hash_lookup H h k = v"
proof -
  have "hash_lookup H h k = Some b \<longleftrightarrow> v = Some b" for b
    using lookup_Some_iff [OF assms(1), of k b] assms(2) [of b] by simp
  then show ?thesis by (metis option.exhaust)
qed

lemma lookup_create [simp]: "hash_lookup H (hash_create H n m) k = None"
  by (simp add: lookup_items create_ok create_items)

lemma lookup_insert:
  assumes ok: "hash_ok H h" and new: "hash_lookup H h k = None"
  shows "hash_lookup H (hash_insert H h k b) k' = (if k' = k then Some b else hash_lookup H h k')"
proof (rule lookup_eqI)
  show "hash_ok H (hash_insert H h k b)" by (rule insert_ok [OF ok new])
  have "(k, b') \<notin> set (hash_items H h)" for b'
    using lookup_Some_iff [OF ok, of k b'] new by simp
  then show "((k', b') \<in> set (hash_items H (hash_insert H h k b))) \<longleftrightarrow>
      (if k' = k then Some b else hash_lookup H h k') = Some b'" for b'
    using lookup_Some_iff [OF ok, of k' b'] by (auto simp: insert_items [OF ok new])
qed

lemma lookup_remove:
  assumes ok: "hash_ok H h"
  shows "hash_lookup H (fst (hash_remove H h k)) k' = (if k' = k then None else hash_lookup H h k')"
  by (rule lookup_eqI [OF remove_ok [OF ok]])
     (simp add: remove_items [OF ok] lookup_Some_iff [OF ok])

lemma map_of_update:
  "map_of (map (\<lambda>x. if fst x = k then (k, b) else x) xs) k' =
     (if k' = k then map_option (\<lambda>_. b) (map_of xs k) else map_of xs k')"
  by (induction xs) auto

lemma lookup_write:
  assumes "hash_ok H h" and "hash_lookup H h k \<noteq> None"
  shows "hash_lookup H (hash_write H h k b) k' = (if k' = k then Some b else hash_lookup H h k')"
  using assms by (auto simp: lookup_items write_ok write_items map_of_update)

lemma length_insert:
  assumes ok: "hash_ok H h" and new: "hash_lookup H h k = None"
  shows "length (hash_items H (hash_insert H h k b)) = Suc (length (hash_items H h))"
proof -
  let ?h' = "hash_insert H h k b"
  have d: "distinct (hash_items H h)" and d': "distinct (hash_items H ?h')"
    using items_distinct [OF ok] items_distinct [OF insert_ok [OF ok new]]
    by (auto simp: distinct_map)
  have "(k, b) \<notin> set (hash_items H h)" using lookup_Some_iff [OF ok, of k b] new by simp
  then show ?thesis
    using distinct_card [OF d] distinct_card [OF d'] by (simp add: insert_items [OF ok new])
qed

lemma count_insert:
  "hash_ok H h \<Longrightarrow> hash_lookup H h k = None \<Longrightarrow>
     hash_count H (hash_insert H h k b) = hash_count H h + 1"
  by (simp add: count_items insert_ok length_insert)

lemma count_write:
  "hash_ok H h \<Longrightarrow> hash_lookup H h k \<noteq> None \<Longrightarrow>
     hash_count H (hash_write H h k b) = hash_count H h"
  by (simp add: count_items write_ok write_items)

end

section \<open>Vectors\<close>

text \<open>\<open>vec_add\<close> may refuse (no memory for a new block); then the vector is as before.\<close>

locale vec_table =
  fixes V :: "('b, 'v) vec_ops"
  assumes init_ok: "vec_ok V (vec_init V n m)"
    and get_init: "vec_get V (vec_init V n m) i = None"
    and add_ok: "vec_ok V v \<Longrightarrow> vec_ok V (snd (vec_add V v i b))"
    and get_add: "vec_ok V v \<Longrightarrow> vec_get V (snd (vec_add V v i b)) j =
          (if j = i \<and> fst (vec_add V v i b) then Some b else vec_get V v j)"
    and del_ok: "vec_ok V v \<Longrightarrow> vec_ok V (fst (vec_del V v i))"
    and del_result: "vec_ok V v \<Longrightarrow> snd (vec_del V v i) = vec_get V v i"
    and get_del: "vec_ok V v \<Longrightarrow> vec_get V (fst (vec_del V v i)) j =
          (if j = i then None else vec_get V v j)"

section \<open>The library\<close>

text \<open>
  Error codes are distinct (they label the cases of one C \<^verbatim>\<open>switch\<close>) and \<^verbatim>\<open>CTC_E_NONE\<close> is zero; a
  traversal goes on after a callback that returns zero; the offset allocator never hands out an
  offset that is in use.
\<close>

locale ctc_lib_laws =
  oid: hash_table "oid_ops L" + ent: hash_table "ent_ops L" + vec: vec_table "vec_ops L"
  for L :: "('o, 'e, 'v) ctc_lib" +
  assumes err_none: "err L CTC_E_NONE = 0"
    and err_inj: "inj (err L)"
    and traverse_goes_on: "\<not> traverse_stops L 0" "\<not> through_stops L 0"
    and opf_fresh: "rc (env L t (OpfAlloc p l)) = 0 \<Longrightarrow>
          ucast (out_val 0 (env L t (OpfAlloc p l))) \<notin> set (opf_used t p l)"

context ctc_lib_laws
begin

lemma err_eq_iff [simp]: "err L a = err L b \<longleftrightarrow> a = b"
  using err_inj by (auto dest: injD)

end

section \<open>A reference library\<close>

text \<open>
  Association lists as tables, and a device that answers every call with success, handing out
  the offsets of a pool in order.
\<close>

definition alist_ops :: "('k, 'b, ('k \<times> 'b) list) hash_ops" where
  "alist_ops =
     \<lparr> hash_null = [], hash_create = (\<lambda>n m. []), hash_lookup = map_of,
       hash_insert = (\<lambda>h k b. (k, b) # filter (\<lambda>x. fst x \<noteq> k) h),
       hash_remove = (\<lambda>h k. (filter (\<lambda>x. fst x \<noteq> k) h, map_of h k)),
       hash_write = (\<lambda>h k b. map (\<lambda>x. if fst x = k then (k, b) else x) h),
       hash_count = (\<lambda>h. of_nat (length h)), hash_items = (\<lambda>h. h),
       hash_ok = (\<lambda>h. distinct (map fst h)) \<rparr>"

definition alist_vec :: "('b, (u32 \<times> 'b) list) vec_ops" where
  "alist_vec =
     \<lparr> vec_null = [], vec_init = (\<lambda>n m. []), vec_get = map_of,
       vec_add = (\<lambda>v i b. (True, (i, b) # v)),
       vec_del = (\<lambda>v i. (filter (\<lambda>x. fst x \<noteq> i) v, map_of v i)),
       vec_items = (\<lambda>v. v), vec_ok = (\<lambda>v. True) \<rparr>"

primrec first_free :: "nat \<Rightarrow> u32 \<Rightarrow> u32 list \<Rightarrow> u32 option" where
  "first_free 0 i used = None"
| "first_free (Suc n) i used = (if i \<in> set used then first_free n (i + 1) used else Some i)"

definition ref_env :: "ext_trace \<Rightarrow> ext \<Rightarrow> ext_ret" where
  "ref_env t c =
     (case c of
        OpfAlloc p l \<Rightarrow>
          (case first_free 16 1 (opf_used t p l) of
             None \<Rightarrow> \<lparr>rc = - 12, outs = []\<rparr> | Some i \<Rightarrow> \<lparr>rc = 0, outs = [ucast i]\<rparr>)
      | _ \<Rightarrow> \<lparr>rc = 0, outs = [1]\<rparr>)"

primrec ref_err :: "ctc_err \<Rightarrow> int" where
  "ref_err CTC_E_NONE = 0"
| "ref_err CTC_E_INVALID_PTR = - 1" | "ref_err CTC_E_INVALID_PORT = - 2"
| "ref_err CTC_E_INVALID_PARAM = - 3" | "ref_err CTC_E_BADID = - 4"
| "ref_err CTC_E_INVALID_CHIP_ID = - 5" | "ref_err CTC_E_INVALID_CONFIG = - 6"
| "ref_err CTC_E_EXIST = - 7" | "ref_err CTC_E_NOT_EXIST = - 8"
| "ref_err CTC_E_NOT_READY = - 9" | "ref_err CTC_E_IN_USE = - 10"
| "ref_err CTC_E_NOT_SUPPORT = - 11" | "ref_err CTC_E_NO_RESOURCE = - 12"
| "ref_err CTC_E_PROFILE_NO_RESOURCE = - 13" | "ref_err CTC_E_NO_MEMORY = - 14"
| "ref_err CTC_E_HASH_CONFLICT = - 15" | "ref_err CTC_E_NOT_INIT = - 16"
| "ref_err CTC_E_INIT_FAIL = - 17" | "ref_err CTC_E_DMA = - 18"
| "ref_err CTC_E_HW_TIME_OUT = - 19" | "ref_err CTC_E_HW_BUSY = - 20"
| "ref_err CTC_E_HW_INVALID_INDEX = - 21" | "ref_err CTC_E_HW_NOT_LOCK = - 22"
| "ref_err CTC_E_HW_FAIL = - 23" | "ref_err CTC_E_VERSION_MISMATCH = - 24"
| "ref_err CTC_E_PARAM_CONFLICT = - 25" | "ref_err CTC_E_TOO_MANY_FRAGMENT = - 26"
| "ref_err CTC_E_WB_BUSY = - 27" | "ref_err CTC_E_NH_NOT_EXIST = - 28"

text \<open>The number of leading ones of a mask, and a mask of \<open>n\<close> leading ones.\<close>

definition ref_mask_to_len :: "u32 \<Rightarrow> u8" where
  "ref_mask_to_len m = of_nat (length (takeWhile (\<lambda>i. bit m i) (rev [0..<32])))"

definition ref_len_to_mask :: "u8 \<Rightarrow> u32" where
  "ref_len_to_mask n = push_bit (32 - unat n) (mask (unat n))"

definition ref_split_len :: "u8 \<Rightarrow> u8 list" where
  "ref_split_len n = map (\<lambda>i. of_nat (min 32 (unat n - 32 * i))) [0..<4]"

type_synonym ref_oid = "(sai_object_id \<times> obj_data option) list"
type_synonym ref_ent = "(ent_key \<times> obj_data option) list"
type_synonym ref_vec = "(u32 \<times> obj_data option) list"

definition ref_lib :: "(ref_oid, ref_ent, ref_vec) ctc_lib" where
  "ref_lib =
     \<lparr> env = ref_env, err = ref_err, capability = (\<lambda>l c. 4096), cap_index = (\<lambda>c. 7),
       traverse_stops = (\<lambda>r. r < 0), through_stops = (\<lambda>r. False), traverse_ret = (\<lambda>r. r),
       mem_free_nulls = True,
       MIN_CTC_L3IF_ID = 1, CTC_FRAME_SIZE_MAX = 8, CTC_IP_VER_4 = 0, CTC_NH_RESERVED_NHID_FOR_DROP = 1,
       ipv4_mask_to_len = ref_mask_to_len, ipv4_len_to_mask = ref_len_to_mask,
       ipv6_mask_to_len = (\<lambda>m. sum_list (map ref_mask_to_len m)),
       ipv6_len_to_mask = (\<lambda>n. map ref_len_to_mask (ref_split_len n)),
       stack_junk = (\<lambda>i. 0),
       dbg_level = (\<lambda>d. case d of DBG_NONE \<Rightarrow> 0 | DBG_FUNC \<Rightarrow> 1 | DBG_PARAM \<Rightarrow> 2 | DBG_INFO \<Rightarrow> 4 | DBG_ERROR \<Rightarrow> 8),
       inet_ntop = (\<lambda>v6 ws. if v6 then ''::1'' else ''127.0.0.1''),
       oid_ops = alist_ops, ent_ops = alist_ops, vec_ops = alist_vec \<rparr>"

lemma filter_out_same: "k \<notin> fst ` set xs \<Longrightarrow> filter (\<lambda>x. fst x \<noteq> k) xs = xs"
  by (induction xs) auto

lemma map_fst_update: "map fst (map (\<lambda>x. if fst x = k then (k, b) else x) xs) = map fst xs"
  by (induction xs) auto

interpretation alist_hash: hash_table "alist_ops :: ('k, 'b, ('k \<times> 'b) list) hash_ops"
  by unfold_locales
     (auto simp: alist_ops_def map_of_eq_None_iff filter_out_same distinct_map_filter
        map_fst_update simp del: map_map)

lemma map_of_filter_neq: "map_of (filter (\<lambda>x. fst x \<noteq> i) xs) j = (if j = i then None else map_of xs j)"
  by (induction xs) auto

interpretation alist_vector: vec_table "alist_vec :: ('b, (u32 \<times> 'b) list) vec_ops"
  by unfold_locales (auto simp: alist_vec_def map_of_filter_neq)

lemma first_free_notin: "first_free n i used = Some j \<Longrightarrow> j \<notin> set used"
  by (induction n arbitrary: i) (auto split: if_splits)

lemma ref_err_inj: "inj ref_err"
proof (rule injI)
  fix a b assume "ref_err a = ref_err b"
  then show "a = b" by (cases a; cases b) simp_all
qed

interpretation ref_laws: ctc_lib_laws ref_lib
proof -
  have "\<not> traverse_stops ref_lib 0" "\<not> through_stops ref_lib 0" "err ref_lib CTC_E_NONE = 0" "inj (err ref_lib)"
    by (simp_all add: ref_lib_def ref_err_inj)
  moreover have "rc (env ref_lib t (OpfAlloc p l)) = 0 \<Longrightarrow>
      ucast (out_val 0 (env ref_lib t (OpfAlloc p l))) \<notin> set (opf_used t p l)" for t p l
    by (auto simp: ref_lib_def ref_env_def out_val_def split: option.splits dest: first_free_notin)
  moreover have "hash_table (oid_ops ref_lib)" "hash_table (ent_ops ref_lib)"
    "vec_table (vec_ops ref_lib)"
    by (simp_all add: ref_lib_def alist_hash.hash_table_axioms alist_vector.vec_table_axioms)
  ultimately show "ctc_lib_laws ref_lib"
    by (simp add: ctc_lib_laws_def ctc_lib_laws_axioms_def)
qed

end
