(* ===== verification/SAI_Db.thy ===== *)
theory SAI_Db
  imports SAI_Contracts
begin

text \<open>
  The object database (\<^verbatim>\<open>centec/src/ctc_sai_db.c\<close>): one table per object type from identifiers to
  module data, the identifier pools, the locks, and creation and destruction of a chip's database.
  The tables of entries keyed by structures are in \<open>SAI_Entry\<close>.

  The abstract view of the object tables is the partial map \<open>obj_map\<close> from identifiers to data;
  the refinement lemmas say what each operation does to it.
\<close>

section \<open>Checks and access to a chip's database\<close>

definition SAI_DB_INIT_CHECK :: "('o, 'e, 'v) sai_state \<Rightarrow> u8 \<Rightarrow> sai_status" where
  "SAI_DB_INIT_CHECK s l =
     (if CTC_SAI_MAX_CHIP_NUM \<le> l then SAI_STATUS_INVALID_PARAMETER
      else if \<not> inited s l then SAI_STATUS_UNINITIALIZED
      else SAI_STATUS_SUCCESS)"

definition set_db ::
    "u8 \<Rightarrow> ('o, 'e, 'v) sai_db \<Rightarrow> ('o, 'e, 'v) sai_state \<Rightarrow> ('o, 'e, 'v) sai_state" where
  "set_db l db s = s\<lparr>g_sai_db := (g_sai_db s)(l := Some db)\<rparr>"

text \<open>The local \<^verbatim>\<open>type\<close> that the functions read out of an identifier, initialised to \<^verbatim>\<open>NULL\<close>.\<close>

definition oid_type :: "sai_object_id \<Rightarrow> nat" where
  "oid_type oid = out_or SAI_OBJECT_TYPE_NULL (snd (ctc_sai_oid_get_type oid))"

section \<open>Error codes\<close>

definition ctc_sai_mapping_error_ctc :: "('o, 'e, 'v) ctc_lib \<Rightarrow> int \<Rightarrow> sai_status" where
  "ctc_sai_mapping_error_ctc L e =
     (if e = err L CTC_E_NONE then SAI_STATUS_SUCCESS
      else if e = err L CTC_E_INVALID_PTR then SAI_STATUS_INVALID_PARAMETER
      else if e = err L CTC_E_INVALID_PORT then SAI_STATUS_INVALID_PORT_NUMBER
      else if e \<in> err L ` {CTC_E_INVALID_PARAM, CTC_E_BADID, CTC_E_INVALID_CHIP_ID,
                            CTC_E_INVALID_CONFIG} then SAI_STATUS_INVALID_PARAMETER
      else if e = err L CTC_E_EXIST then SAI_STATUS_ITEM_ALREADY_EXISTS
      else if e = err L CTC_E_NOT_EXIST then SAI_STATUS_ITEM_NOT_FOUND
      else if e = err L CTC_E_NOT_READY then SAI_STATUS_INSUFFICIENT_RESOURCES
      else if e = err L CTC_E_IN_USE then SAI_STATUS_OBJECT_IN_USE
      else if e = err L CTC_E_NOT_SUPPORT then SAI_STATUS_NOT_SUPPORTED
      else if e \<in> err L ` {CTC_E_NO_RESOURCE, CTC_E_PROFILE_NO_RESOURCE}
        then SAI_STATUS_INSUFFICIENT_RESOURCES
      else if e = err L CTC_E_NO_MEMORY then SAI_STATUS_NO_MEMORY
      else if e = err L CTC_E_HASH_CONFLICT then SAI_STATUS_FAILURE
      else if e = err L CTC_E_NOT_INIT then SAI_STATUS_UNINITIALIZED
      else if e \<in> err L ` {CTC_E_INIT_FAIL, CTC_E_DMA, CTC_E_HW_TIME_OUT, CTC_E_HW_BUSY,
                            CTC_E_HW_INVALID_INDEX, CTC_E_HW_NOT_LOCK, CTC_E_HW_FAIL}
        then SAI_STATUS_FAILURE
      else if e = err L CTC_E_VERSION_MISMATCH then SAI_STATUS_SW_UPGRADE_VERSION_MISMATCH
      else if e = err L CTC_E_PARAM_CONFLICT then SAI_STATUS_FAILURE
      else if e = err L CTC_E_TOO_MANY_FRAGMENT then SAI_STATUS_FAILURE
      else if e = err L CTC_E_WB_BUSY then SAI_STATUS_NOT_EXECUTED
      else SAI_STATUS_FAILURE)"

section \<open>Identifier pools and locks\<close>

definition ctc_sai_db_alloc_id ::
    "('o, 'e, 'v) ctc_lib \<Rightarrow> u8 \<Rightarrow> nat \<Rightarrow> ('o, 'e, 'v) sai_state \<Rightarrow>
     (sai_status \<times> u32 option) \<times> ('o, 'e, 'v) sai_state" where
  "ctc_sai_db_alloc_id L l p s =
     (let st = SAI_DB_INIT_CHECK s l in
      if st \<noteq> SAI_STATUS_SUCCESS then ((st, None), s)
      else let (r, s) = ext_call L (OpfAlloc p l) s in
        ((ctc_sai_mapping_error_ctc L (rc r),
          if outs r = [] then None else Some (ucast (out_val 0 r))), s))"

definition ctc_sai_db_free_id ::
    "('o, 'e, 'v) ctc_lib \<Rightarrow> u8 \<Rightarrow> nat \<Rightarrow> u32 \<Rightarrow> ('o, 'e, 'v) sai_state \<Rightarrow>
     sai_status \<times> ('o, 'e, 'v) sai_state" where
  "ctc_sai_db_free_id L l p i s =
     (let st = SAI_DB_INIT_CHECK s l in
      if st \<noteq> SAI_STATUS_SUCCESS then (st, s)
      else let (r, s) = ext_call L (OpfFree p l i) s in (ctc_sai_mapping_error_ctc L (rc r), s))"

definition ctc_sai_db_alloc_id_from_position ::
    "('o, 'e, 'v) ctc_lib \<Rightarrow> u8 \<Rightarrow> nat \<Rightarrow> u32 \<Rightarrow> ('o, 'e, 'v) sai_state \<Rightarrow>
     sai_status \<times> ('o, 'e, 'v) sai_state" where
  "ctc_sai_db_alloc_id_from_position L l p i s =
     (let st = SAI_DB_INIT_CHECK s l in
      if st \<noteq> SAI_STATUS_SUCCESS then (st, s)
      else let (r, s) = ext_call L (OpfAllocPos p l i) s in (ctc_sai_mapping_error_ctc L (rc r), s))"

definition ctc_sai_db_lock ::
    "('o, 'e, 'v) ctc_lib \<Rightarrow> u8 \<Rightarrow> ('o, 'e, 'v) sai_state \<Rightarrow> sai_status \<times> ('o, 'e, 'v) sai_state" where
  "ctc_sai_db_lock L l s =
     (if CTC_SAI_MAX_CHIP_NUM \<le> l \<or> \<not> inited s l then (SAI_STATUS_UNINITIALIZED, s)
      else (SAI_STATUS_SUCCESS, snd (ext_call L (MutexLock l) s)))"

definition ctc_sai_db_unlock ::
    "('o, 'e, 'v) ctc_lib \<Rightarrow> u8 \<Rightarrow> ('o, 'e, 'v) sai_state \<Rightarrow> sai_status \<times> ('o, 'e, 'v) sai_state" where
  "ctc_sai_db_unlock L l s =
     (if CTC_SAI_MAX_CHIP_NUM \<le> l \<or> \<not> inited s l then (SAI_STATUS_UNINITIALIZED, s)
      else (SAI_STATUS_SUCCESS, snd (ext_call L (MutexUnlock l) s)))"

section \<open>Object properties\<close>

definition ctc_sai_db_check_object_property_exist ::
    "('o, 'e, 'v) ctc_lib \<Rightarrow> u8 \<Rightarrow> sai_object_id \<Rightarrow> ('o, 'e, 'v) sai_state \<Rightarrow> bool" where
  "ctc_sai_db_check_object_property_exist L l oid s =
     (if CTC_SAI_MAX_CHIP_NUM \<le> l then False
      else case g_sai_db s l of None \<Rightarrow> False
      | Some db \<Rightarrow>
          if \<not> ctc_sai_is_object_type_valid (oid_type oid) then False
          else hash_lookup (oid_ops L) (oid_hash db (oid_type oid)) oid \<noteq> None)"

definition ctc_sai_db_get_object_property ::
    "('o, 'e, 'v) ctc_lib \<Rightarrow> u8 \<Rightarrow> sai_object_id \<Rightarrow> ('o, 'e, 'v) sai_state \<Rightarrow> obj_data option" where
  "ctc_sai_db_get_object_property L l oid s =
     (if CTC_SAI_MAX_CHIP_NUM \<le> l then None
      else case g_sai_db s l of None \<Rightarrow> None
      | Some db \<Rightarrow>
          if \<not> ctc_sai_is_object_type_valid (oid_type oid) then None
          else case hash_lookup (oid_ops L) (oid_hash db (oid_type oid)) oid of
                 None \<Rightarrow> None | Some d \<Rightarrow> d)"

text \<open>The chip comes out of the identifier; its local is zero when that fails.\<close>

definition ctc_sai_db_check_object_exist ::
    "('o, 'e, 'v) ctc_lib \<Rightarrow> sai_object_id \<Rightarrow> ('o, 'e, 'v) sai_state \<Rightarrow> bool" where
  "ctc_sai_db_check_object_exist L oid s =
     (let l = out_or 0 (snd (ctc_sai_oid_get_lchip (inited s) oid)) in
      if CTC_SAI_MAX_CHIP_NUM \<le> l then False
      else case g_sai_db s l of None \<Rightarrow> False
      | Some db \<Rightarrow>
          if \<not> ctc_sai_is_object_type_valid (oid_type oid) then False
          else hash_lookup (oid_ops L) (oid_hash db (oid_type oid)) oid \<noteq> None)"

definition upd_oid_hash ::
    "nat \<Rightarrow> 'o \<Rightarrow> ('o, 'e, 'v) sai_db \<Rightarrow> ('o, 'e, 'v) sai_db" where
  "upd_oid_hash t h db = db\<lparr>oid_hash := (oid_hash db)(t := h)\<rparr>"

text \<open>
  A bucket whose data pointer is \<^verbatim>\<open>NULL\<close> is filled in place and then inserted again; any other
  bucket means that the object exists.
\<close>

definition ctc_sai_db_add_object_property ::
    "('o, 'e, 'v) ctc_lib \<Rightarrow> u8 \<Rightarrow> sai_object_id \<Rightarrow> obj_data option \<Rightarrow>
     ('o, 'e, 'v) sai_state \<Rightarrow> sai_status \<times> ('o, 'e, 'v) sai_state" where
  "ctc_sai_db_add_object_property L l oid d s =
     (let st = SAI_DB_INIT_CHECK s l; t = oid_type oid; H = oid_ops L in
      if st \<noteq> SAI_STATUS_SUCCESS then (st, s)
      else case g_sai_db s l of None \<Rightarrow> (st, s)
      | Some db \<Rightarrow>
          if \<not> ctc_sai_is_object_type_valid t then (SAI_STATUS_INVALID_PARAMETER, s)
          else case hash_lookup H (oid_hash db t) oid of
            Some (Some _) \<Rightarrow> (SAI_STATUS_ITEM_ALREADY_EXISTS, s)
          | Some None \<Rightarrow>
              (SAI_STATUS_SUCCESS,
               set_db l (upd_oid_hash t
                 (hash_insert H (hash_write H (oid_hash db t) oid d) oid d) db) s)
          | None \<Rightarrow>
              let (ok, s) = mem_malloc L s in
              if \<not> ok then (SAI_STATUS_NO_MEMORY, s)
              else (SAI_STATUS_SUCCESS,
                    set_db l (upd_oid_hash t (hash_insert H (oid_hash db t) oid d) db) s))"

definition ctc_sai_db_remove_object_property ::
    "('o, 'e, 'v) ctc_lib \<Rightarrow> u8 \<Rightarrow> sai_object_id \<Rightarrow> ('o, 'e, 'v) sai_state \<Rightarrow>
     sai_status \<times> ('o, 'e, 'v) sai_state" where
  "ctc_sai_db_remove_object_property L l oid s =
     (let st = SAI_DB_INIT_CHECK s l; t = oid_type oid; H = oid_ops L in
      if st \<noteq> SAI_STATUS_SUCCESS then (st, s)
      else case g_sai_db s l of None \<Rightarrow> (st, s)
      | Some db \<Rightarrow>
          if \<not> ctc_sai_is_object_type_valid t then (SAI_STATUS_INVALID_PARAMETER, s)
          else case hash_remove H (oid_hash db t) oid of
            (h, None) \<Rightarrow> (SAI_STATUS_ITEM_NOT_FOUND, set_db l (upd_oid_hash t h db) s)
          | (h, Some _) \<Rightarrow> (SAI_STATUS_SUCCESS, set_db l (upd_oid_hash t h db) s))"

text \<open>A store through the data pointer that \<open>ctc_sai_db_get_object_property\<close> returned.\<close>

definition object_store ::
    "('o, 'e, 'v) ctc_lib \<Rightarrow> u8 \<Rightarrow> sai_object_id \<Rightarrow> obj_data \<Rightarrow> ('o, 'e, 'v) sai_state \<Rightarrow>
     ('o, 'e, 'v) sai_state" where
  "object_store L l oid d s =
     (case g_sai_db s l of None \<Rightarrow> s\<lparr>fault := True\<rparr>
      | Some db \<Rightarrow>
          set_db l (upd_oid_hash (oid_type oid)
            (hash_write (oid_ops L) (oid_hash db (oid_type oid)) oid (Some d)) db) s)"

section \<open>Traversals and counts\<close>

text \<open>
  \<^verbatim>\<open>ctc_hash_traverse\<close> calls the callback on the buckets in the table's order until a return value
  stops it; what it answers then is up to the library.
\<close>

fun hash_traverse ::
    "(int \<Rightarrow> bool) \<Rightarrow> (int \<Rightarrow> int) \<Rightarrow> ('x \<Rightarrow> 's \<Rightarrow> int \<times> 's) \<Rightarrow> 'x list \<Rightarrow> 's \<Rightarrow> int \<times> 's" where
  "hash_traverse stops ret f [] s = (0, s)"
| "hash_traverse stops ret f (x # xs) s =
     (let (r, s) = f x s in if stops r then (ret r, s) else hash_traverse stops ret f xs s)"

definition ctc_sai_db_traverse_object_property ::
    "('o, 'e, 'v) ctc_lib \<Rightarrow> u8 \<Rightarrow> nat \<Rightarrow>
     (sai_object_id \<times> obj_data option \<Rightarrow> ('o, 'e, 'v) sai_state \<times> 'a \<Rightarrow>
      int \<times> ('o, 'e, 'v) sai_state \<times> 'a) \<Rightarrow>
     ('o, 'e, 'v) sai_state \<times> 'a \<Rightarrow> sai_status \<times> ('o, 'e, 'v) sai_state \<times> 'a" where
  "ctc_sai_db_traverse_object_property L l t f sa =
     (let st = SAI_DB_INIT_CHECK (fst sa) l in
      if st \<noteq> SAI_STATUS_SUCCESS then (st, sa)
      else case g_sai_db (fst sa) l of None \<Rightarrow> (st, sa)
      | Some db \<Rightarrow>
          if \<not> ctc_sai_is_object_type_valid t then (SAI_STATUS_INVALID_PARAMETER, sa)
          else let (r, sa') = hash_traverse (traverse_stops L) (traverse_ret L) f
                                (hash_items (oid_ops L) (oid_hash db t)) sa in
               if r < 0 then (r, sa') else (SAI_STATUS_SUCCESS, sa'))"

definition ctc_sai_db_get_object_property_count ::
    "('o, 'e, 'v) ctc_lib \<Rightarrow> u8 \<Rightarrow> nat \<Rightarrow> ('o, 'e, 'v) sai_state \<Rightarrow> sai_status \<times> u32 option" where
  "ctc_sai_db_get_object_property_count L l t s =
     (let st = SAI_DB_INIT_CHECK s l in
      if st \<noteq> SAI_STATUS_SUCCESS then (st, None)
      else case g_sai_db s l of None \<Rightarrow> (st, None)
      | Some db \<Rightarrow>
          if \<not> ctc_sai_is_object_type_valid t then (SAI_STATUS_INVALID_PARAMETER, None)
          else (SAI_STATUS_SUCCESS, Some (hash_count (oid_ops L) (oid_hash db t))))"

section \<open>The switch object\<close>

definition ctc_sai_get_switch_property ::
    "('o, 'e, 'v) ctc_lib \<Rightarrow> u8 \<Rightarrow> ('o, 'e, 'v) sai_state \<Rightarrow>
     obj_data option \<times> ('o, 'e, 'v) sai_state" where
  "ctc_sai_get_switch_property L l s =
     (let (r, s) = ext_call L (GetGchipId l) s;
          gchip = ucast (out_val 0 r) :: u8;
          oid = ctc_sai_create_object_id SAI_OBJECT_TYPE_SWITCH l 0 0 (ucast gchip)
      in (ctc_sai_db_get_object_property L l oid s, s))"

section \<open>Creating and destroying a database\<close>

text \<open>Pool types, counted from \<^verbatim>\<open>CTC_SAI_DB_ID_TYPE_COMMON\<close>.\<close>

abbreviation (input) CTC_SAI_DB_ID_TYPE_VRF :: nat where "CTC_SAI_DB_ID_TYPE_VRF \<equiv> 5"
abbreviation (input) CTC_SAI_DB_ID_TYPE_NEXTHOP :: nat where "CTC_SAI_DB_ID_TYPE_NEXTHOP \<equiv> 8"
abbreviation (input) CTC_SAI_DB_ID_TYPE_NEXTHOP_MEMBER :: nat where
  "CTC_SAI_DB_ID_TYPE_NEXTHOP_MEMBER \<equiv> 10"
abbreviation (input) CTC_SAI_DB_ID_TYPE_STP :: nat where "CTC_SAI_DB_ID_TYPE_STP \<equiv> 17"
abbreviation (input) CTC_SAI_DB_ID_TYPE_APS :: nat where "CTC_SAI_DB_ID_TYPE_APS \<equiv> 11"
abbreviation (input) CTC_SAI_DB_ID_TYPE_ISOLATION_GROUP :: nat where
  "CTC_SAI_DB_ID_TYPE_ISOLATION_GROUP \<equiv> 29"
abbreviation (input) CTC_SAI_DB_ID_TYPE_COUNTER :: nat where "CTC_SAI_DB_ID_TYPE_COUNTER \<equiv> 31"
abbreviation (input) CTC_SAI_DB_ID_TYPE_COMMON :: nat where "CTC_SAI_DB_ID_TYPE_COMMON \<equiv> 0"
abbreviation (input) CTC_SAI_DB_ID_TYPE_NPM :: nat where "CTC_SAI_DB_ID_TYPE_NPM \<equiv> 37"
abbreviation (input) CTC_SAI_DB_ID_TYPE_MAX :: nat where "CTC_SAI_DB_ID_TYPE_MAX \<equiv> 44"

text \<open>
  Pool, first offset and size, in the order of \<^verbatim>\<open>_ctc_sai_db_init_id\<close>. The size of the APS pool
  is the enumerator \<^verbatim>\<open>CTC_GLOBAL_CAPABILITY_APS_GROUP_NUM\<close>, as the code has it.
\<close>

definition db_id_pools :: "('o, 'e, 'v) ctc_lib \<Rightarrow> u8 \<Rightarrow> (nat \<times> u32 \<times> u32) list" where
  "db_id_pools L l = (let cap = capability L l in
     [(0, 1, 0xFFFFFFFE),
      (1, 1, cap CAP_VLAN_NUM - 2),
      (2, cap CAP_VLAN_NUM, cap CAP_MAX_FID - cap CAP_VLAN_NUM),
      (3, 1, 4095),
      (4, 1, cap CAP_LOGIC_PORT_NUM - 1),
      (5, 1, cap CAP_MAX_VRFID),
      (6, MIN_CTC_L3IF_ID L, cap CAP_L3IF_NUM - 2),
      (7, 1, cap CAP_ARP_ID_NUM - 1),
      (8, 3, cap CAP_EXTERNAL_NEXTHOP_NUM - 3),
      (9, 1, cap CAP_MPLS_TUNNEL_NUM - 1),
      (10, 0, 0xFFFF),
      (11, 0, cap_index L CAP_APS_GROUP_NUM),
      (12, 1, 0xFFFF),
      (13, 0, cap CAP_MCAST_GROUP_NUM - 1),
      (14, 4096, cap CAP_MCAST_GROUP_NUM - 1),
      (15, 0, 512),
      (16, 0, cap CAP_LINKAGG_GROUP_NUM),
      (17, 0, cap CAP_STP_INSTANCE_NUM),
      (18, 1, 1024), (19, 1, 32 * 1024), (20, 1, 64 * 1024), (21, 1, 1024), (22, 1, 12),
      (23, 1, 1024),
      (24, 0, 0x7FFFFFFF), (25, 1, 0x7FFFFFFF - 1), (26, 1, 0xFFFF0000), (27, 8, 0xFFFFFFFF - 8),
      (28, 0, CTC_FRAME_SIZE_MAX L), (29, 1, 32 - 1), (30, 1, 8192), (31, 1, 0xFFFFFFFE),
      (32, 1, 4096), (33, 1, 4096), (34, 1, 4096), (35, 1, 4096), (36, 1, 8),
      (39, 1, 4096), (40, 1, 4096), (41, 1, 4096), (38, 1, 255), (42, 1, 2), (43, 1, 2)])"

definition db_init_id ::
    "('o, 'e, 'v) ctc_lib \<Rightarrow> u8 \<Rightarrow> ('o, 'e, 'v) sai_state \<Rightarrow> sai_status \<times> ('o, 'e, 'v) sai_state" where
  "db_init_id L l s =
     (let n = capability L l CAP_MAX_LCHIP_NUM;
          s = fold (\<lambda>p s. snd (ext_call L (OpfInit p n) s)) [0 ..< CTC_SAI_DB_ID_TYPE_MAX] s;
          s = fold (\<lambda>(p, start, size) s. snd (ext_call L (OpfInitOffset p l start size) s))
                (db_id_pools L l) s
      in (SAI_STATUS_SUCCESS, s))"

definition db_deinit_id ::
    "('o, 'e, 'v) ctc_lib \<Rightarrow> u8 \<Rightarrow> ('o, 'e, 'v) sai_state \<Rightarrow> sai_status \<times> ('o, 'e, 'v) sai_state" where
  "db_deinit_id L l s =
     (SAI_STATUS_SUCCESS,
      fold (\<lambda>p s. snd (ext_call L (OpfFreePool p l) s)) [0 ..< CTC_SAI_DB_ID_TYPE_MAX] s)"

definition oid_hash_block :: "nat \<Rightarrow> nat \<times> nat" where
  "oid_hash_block t =
     (if t = SAI_OBJECT_TYPE_NEXT_HOP then (32, 128)
      else if t = SAI_OBJECT_TYPE_BRIDGE_PORT then (64, 64)
      else if t = SAI_OBJECT_TYPE_ACL_TABLE then (32, 1024)
      else if t = SAI_OBJECT_TYPE_ACL_ENTRY then (64, 1024)
      else (32, 32))"

definition key_hash_block :: "(nat \<times> nat) list" where
  "key_hash_block = [(64, 64), (64, 64), (64, 128), (64, 128), (64, 128), (32, 1024), (4, 1024),
                     (64, 64), (64, 64)]"

text \<open>
  The chip number is not checked before the global array of 32 slots is indexed with it: a number
  from 32 on is a fault, and the function goes on. Slot zero of the object tables stays cleared: the
  loop starts at \<^verbatim>\<open>SAI_OBJECT_TYPE_PORT\<close>.
\<close>

definition ctc_sai_db_init ::
    "('o, 'e, 'v) ctc_lib \<Rightarrow> u8 \<Rightarrow> ('o, 'e, 'v) sai_state \<Rightarrow> sai_status \<times> ('o, 'e, 'v) sai_state" where
  "ctc_sai_db_init L l s =
     (let s = (if CTC_SAI_MAX_CHIP_NUM \<le> l then s\<lparr>fault := True\<rparr> else s) in
      if inited s l then (SAI_STATUS_INVALID_PARAMETER, s)
      else let (ok, s) = mem_malloc L s in
        if \<not> ok then (SAI_STATUS_NO_MEMORY, s)
        else let (r, s) = ext_call L (MutexCreate l) s;
                 db = \<lparr> oid_hash = (\<lambda>t. hash_null (oid_ops L)),
                        entry_hash = (\<lambda>t. hash_null (ent_ops L)),
                        db_vector = (\<lambda>t. vec_null (vec_ops L)) \<rparr> in
          if out_val 0 r = 0 then
            (SAI_STATUS_NOT_EXECUTED, if mem_free_nulls L then s else set_db l db s)
          else
            let db = \<lparr> oid_hash = (\<lambda>t. if SAI_OBJECT_TYPE_PORT \<le> t \<and> t < SAI_OBJECT_TYPE_MAX
                          then hash_create (oid_ops L) (fst (oid_hash_block t)) (snd (oid_hash_block t))
                          else hash_null (oid_ops L)),
                        entry_hash = (\<lambda>t. if t < length key_hash_block
                          then hash_create (ent_ops L) (fst (key_hash_block ! t)) (snd (key_hash_block ! t))
                          else hash_null (ent_ops L)),
                        db_vector = (\<lambda>t. if t < 1 then vec_init (vec_ops L) 13 4
                          else vec_null (vec_ops L)) \<rparr>
            in db_init_id L l (set_db l db s))"

text \<open>
  Destroying walks the tables to free the buckets, which has no effect here beyond the memory,
  frees the pools and then the database; whether the global pointer is cleared is the business of
  \<^verbatim>\<open>mem_free\<close>.
\<close>

definition ctc_sai_db_deinit ::
    "('o, 'e, 'v) ctc_lib \<Rightarrow> u8 \<Rightarrow> ('o, 'e, 'v) sai_state \<Rightarrow> sai_status \<times> ('o, 'e, 'v) sai_state" where
  "ctc_sai_db_deinit L l s =
     (let st = SAI_DB_INIT_CHECK s l in
      if st \<noteq> SAI_STATUS_SUCCESS then (st, s)
      else let (r, s) = db_deinit_id L l s in
        (SAI_STATUS_SUCCESS,
         if mem_free_nulls L then s\<lparr>g_sai_db := (g_sai_db s)(l := None)\<rparr> else s))"

section \<open>Frame facts\<close>

lemma set_db_simps [simp]:
  "g_sai_db (set_db l db s) = (g_sai_db s)(l := Some db)"
  "trace (set_db l db s) = trace s" "fault (set_db l db s) = fault s"
  by (simp_all add: set_db_def)

lemma inited_set_db [simp]: "inited (set_db l db s) l' \<longleftrightarrow> l' = l \<or> inited s l'"
  by (simp add: inited_def)

lemma upd_oid_hash_simps [simp]:
  "oid_hash (upd_oid_hash t h db) = (oid_hash db)(t := h)"
  "entry_hash (upd_oid_hash t h db) = entry_hash db" "db_vector (upd_oid_hash t h db) = db_vector db"
  by (simp_all add: upd_oid_hash_def)

lemma oid_type_eq: "oid_type oid = unat (o_type (oid_unpack oid))"
  by (simp add: oid_type_def ctc_sai_oid_get_type_def ctc_sai_get_ctc_object_id_def)

lemma mem_malloc_frame [simp]:
  "g_sai_db (snd (mem_malloc L s)) = g_sai_db s" "fault (snd (mem_malloc L s)) = fault s"
  "inited (snd (mem_malloc L s)) = inited s"
  "trace (snd (mem_malloc L s)) = (MemAlloc, env L (trace s) MemAlloc) # trace s"
  "fst (mem_malloc L s) = (out_val 0 (env L (trace s) MemAlloc) \<noteq> 0)"
  by (simp_all add: mem_malloc_def ext_call_def Let_def inited_def fun_eq_iff)

lemma init_check_cases:
  "SAI_DB_INIT_CHECK s l = SAI_STATUS_SUCCESS \<longleftrightarrow> l < CTC_SAI_MAX_CHIP_NUM \<and> inited s l"
  by (auto simp: SAI_DB_INIT_CHECK_def not_le)

section \<open>Invariant\<close>

text \<open>
  The tables of a chip are sound, a table holds only identifiers of its own type and no bucket
  has a \<^verbatim>\<open>NULL\<close> data pointer.
\<close>

definition db_ok :: "('o, 'e, 'v) ctc_lib \<Rightarrow> ('o, 'e, 'v) sai_db \<Rightarrow> bool" where
  "db_ok L db \<longleftrightarrow>
     (\<forall>t. ctc_sai_is_object_type_valid t \<longrightarrow>
        hash_ok (oid_ops L) (oid_hash db t) \<and>
        (\<forall>(oid, d) \<in> set (hash_items (oid_ops L) (oid_hash db t)). oid_type oid = t \<and> d \<noteq> None)) \<and>
     (\<forall>t < 9. hash_ok (ent_ops L) (entry_hash db t)) \<and> vec_ok (vec_ops L) (db_vector db 0)"

definition state_ok :: "('o, 'e, 'v) ctc_lib \<Rightarrow> ('o, 'e, 'v) sai_state \<Rightarrow> bool" where
  "state_ok L s \<longleftrightarrow> (\<forall>l db. g_sai_db s l = Some db \<longrightarrow> l < CTC_SAI_MAX_CHIP_NUM \<and> db_ok L db)"

text \<open>
  A weaker condition that admits buckets without data, which the bridge module adds: the object
  tables of the chips are sound.
\<close>

definition tables_ok :: "('o, 'e, 'v) ctc_lib \<Rightarrow> ('o, 'e, 'v) sai_state \<Rightarrow> bool" where
  "tables_ok L s \<longleftrightarrow> (\<forall>l db. g_sai_db s l = Some db \<longrightarrow> l < CTC_SAI_MAX_CHIP_NUM \<and>
     (\<forall>t. ctc_sai_is_object_type_valid t \<longrightarrow> hash_ok (oid_ops L) (oid_hash db t)))"

lemma state_ok_tables: "state_ok L s \<Longrightarrow> tables_ok L s"
  by (simp add: state_ok_def tables_ok_def db_ok_def)

lemma state_ok_frame:
  "state_ok L s \<Longrightarrow> g_sai_db s' = g_sai_db s \<Longrightarrow> state_ok L s'"
  by (simp add: state_ok_def)

lemma state_ok_set_db:
  "state_ok L s \<Longrightarrow> l < CTC_SAI_MAX_CHIP_NUM \<Longrightarrow> db_ok L db \<Longrightarrow> state_ok L (set_db l db s)"
  by (auto simp: state_ok_def)

lemma state_ok_db: "state_ok L s \<Longrightarrow> g_sai_db s l = Some db \<Longrightarrow> db_ok L db"
  by (simp add: state_ok_def)

lemma state_ok_chip: "state_ok L s \<Longrightarrow> inited s l \<Longrightarrow> l < CTC_SAI_MAX_CHIP_NUM"
  by (auto simp: state_ok_def inited_def)

lemma get_frame:
  "g_sai_db s' = g_sai_db s \<Longrightarrow>
     ctc_sai_db_get_object_property L l oid s' = ctc_sai_db_get_object_property L l oid s"
  by (simp add: ctc_sai_db_get_object_property_def)

lemma get_valid:
  "ctc_sai_db_get_object_property L l oid s = Some d \<Longrightarrow>
     ctc_sai_is_object_type_valid (oid_type oid) \<and> inited s l \<and> l < CTC_SAI_MAX_CHIP_NUM"
  by (auto simp: ctc_sai_db_get_object_property_def inited_def not_le split: if_splits option.splits)

context ctc_lib_laws
begin

lemma db_ok_oid_hash: "db_ok L db \<Longrightarrow> ctc_sai_is_object_type_valid t \<Longrightarrow> hash_ok (oid_ops L) (oid_hash db t)"
  by (simp add: db_ok_def)

lemma db_ok_lookup:
  "db_ok L db \<Longrightarrow> ctc_sai_is_object_type_valid t \<Longrightarrow>
     hash_lookup (oid_ops L) (oid_hash db t) oid = Some d \<Longrightarrow> oid_type oid = t \<and> d \<noteq> None"
  using oid.lookup_Some_iff [of "oid_hash db t" oid d] unfolding db_ok_def by fastforce

lemma db_ok_upd:
  assumes "db_ok L db" and "hash_ok (oid_ops L) h"
    and "\<And>oid d. hash_lookup (oid_ops L) h oid = Some d \<Longrightarrow> oid_type oid = t \<and> d \<noteq> None"
  shows "db_ok L (upd_oid_hash t h db)"
  using assms oid.lookup_Some_iff [of h] unfolding db_ok_def by auto

lemma db_ok_insert:
  assumes ok: "db_ok L db" and t: "ctc_sai_is_object_type_valid t" "oid_type oid = t"
    and new: "hash_lookup (oid_ops L) (oid_hash db t) oid = None"
  shows "db_ok L (upd_oid_hash t (hash_insert (oid_ops L) (oid_hash db t) oid (Some d)) db)"
proof (rule db_ok_upd [OF ok])
  note h = db_ok_oid_hash [OF ok t(1)]
  show "hash_ok (oid_ops L) (hash_insert (oid_ops L) (oid_hash db t) oid (Some d))"
    by (rule oid.insert_ok [OF h new])
  fix oid' d'
  assume "hash_lookup (oid_ops L) (hash_insert (oid_ops L) (oid_hash db t) oid (Some d)) oid' = Some d'"
  then show "oid_type oid' = t \<and> d' \<noteq> None"
    using t(2) db_ok_lookup [OF ok t(1), of oid' d'] by (auto simp: oid.lookup_insert [OF h new] split: if_splits)
qed

lemma db_ok_remove:
  assumes ok: "db_ok L db" and t: "ctc_sai_is_object_type_valid t"
  shows "db_ok L (upd_oid_hash t (fst (hash_remove (oid_ops L) (oid_hash db t) oid)) db)"
proof (rule db_ok_upd [OF ok])
  note h = db_ok_oid_hash [OF ok t]
  show "hash_ok (oid_ops L) (fst (hash_remove (oid_ops L) (oid_hash db t) oid))"
    by (rule oid.remove_ok [OF h])
  fix oid' d'
  assume "hash_lookup (oid_ops L) (fst (hash_remove (oid_ops L) (oid_hash db t) oid)) oid' = Some d'"
  then show "oid_type oid' = t \<and> d' \<noteq> None"
    using db_ok_lookup [OF ok t, of oid' d'] by (auto simp: oid.lookup_remove [OF h] split: if_splits)
qed

lemma db_ok_write:
  assumes ok: "db_ok L db" and t: "ctc_sai_is_object_type_valid t" "oid_type oid = t"
    and old: "hash_lookup (oid_ops L) (oid_hash db t) oid \<noteq> None"
  shows "db_ok L (upd_oid_hash t (hash_write (oid_ops L) (oid_hash db t) oid (Some d)) db)"
proof (rule db_ok_upd [OF ok])
  note h = db_ok_oid_hash [OF ok t(1)]
  show "hash_ok (oid_ops L) (hash_write (oid_ops L) (oid_hash db t) oid (Some d))"
    by (rule oid.write_ok [OF h old])
  fix oid' d'
  assume "hash_lookup (oid_ops L) (hash_write (oid_ops L) (oid_hash db t) oid (Some d)) oid' = Some d'"
  then show "oid_type oid' = t \<and> d' \<noteq> None"
    using t(2) db_ok_lookup [OF ok t(1), of oid' d'] by (auto simp: oid.lookup_write [OF h old] split: if_splits)
qed

end

section \<open>The object store interface\<close>

text \<open>
  What the modules rely on of the database of one chip: a partial map from identifiers to data
  with \<open>add\<close>, \<open>remove\<close> and the store through a data pointer. \<open>add\<close> may fail for lack of memory and
  then changes nothing the map shows.
\<close>

locale obj_store =
  fixes get :: "'k \<Rightarrow> 's \<Rightarrow> 'd option" and add :: "'k \<Rightarrow> 'd \<Rightarrow> 's \<Rightarrow> int \<times> 's"
    and rem :: "'k \<Rightarrow> 's \<Rightarrow> int \<times> 's" and upd :: "'k \<Rightarrow> 'd \<Rightarrow> 's \<Rightarrow> 's"
    and inv :: "'s \<Rightarrow> bool" and valid :: "'k \<Rightarrow> bool"
  assumes get_only_valid: "get k s = Some d \<Longrightarrow> valid k"
    and add_new: "inv s \<Longrightarrow> fst (add k d s) = 0 \<Longrightarrow>
          get k' (snd (add k d s)) = (if k' = k then Some d else get k' s)"
    and add_was_new: "inv s \<Longrightarrow> fst (add k d s) = 0 \<Longrightarrow> get k s = None"
    and add_refused: "inv s \<Longrightarrow> fst (add k d s) \<noteq> 0 \<Longrightarrow> get k' (snd (add k d s)) = get k' s"
    and add_exists: "inv s \<Longrightarrow> get k s \<noteq> None \<Longrightarrow> fst (add k d s) = SAI_STATUS_ITEM_ALREADY_EXISTS"
    and rem_present: "inv s \<Longrightarrow> get k s \<noteq> None \<Longrightarrow> fst (rem k s) = 0"
    and rem_absent: "inv s \<Longrightarrow> valid k \<Longrightarrow> get k s = None \<Longrightarrow> fst (rem k s) = SAI_STATUS_ITEM_NOT_FOUND"
    and rem_get: "inv s \<Longrightarrow> valid k \<Longrightarrow> get k' (snd (rem k s)) = (if k' = k then None else get k' s)"
    and upd_get: "inv s \<Longrightarrow> get k s \<noteq> None \<Longrightarrow>
          get k' (upd k d s) = (if k' = k then Some d else get k' s)"
    and add_inv: "inv s \<Longrightarrow> inv (snd (add k d s))"
    and rem_inv: "inv s \<Longrightarrow> inv (snd (rem k s))"
    and upd_inv: "inv s \<Longrightarrow> get k s \<noteq> None \<Longrightarrow> inv (upd k d s)"
begin

text \<open>Adding an object and removing it again leaves the map as it was.\<close>

lemma add_then_rem:
  assumes "inv s" and "fst (add k d s) = 0"
  shows "get k' (snd (rem k (snd (add k d s)))) = get k' s"
    and "fst (rem k (snd (add k d s))) = 0"
proof -
  have got: "get k (snd (add k d s)) = Some d" using add_new [OF assms, of k] by simp
  then have v: "valid k" by (rule get_only_valid)
  show "fst (rem k (snd (add k d s))) = 0" by (simp add: rem_present add_inv assms(1) got)
  show "get k' (snd (rem k (snd (add k d s)))) = get k' s"
    using add_was_new [OF assms] by (simp add: rem_get add_inv v assms add_new)
qed

text \<open>An object is created at most once.\<close>

lemma add_twice:
  "inv s \<Longrightarrow> fst (add k d s) = 0 \<Longrightarrow>
     fst (add k d' (snd (add k d s))) = SAI_STATUS_ITEM_ALREADY_EXISTS"
  by (simp add: add_exists add_inv add_new)

end

text \<open>One chip of a library that meets its contract provides this interface.\<close>

definition chip_inv :: "('o, 'e, 'v) ctc_lib \<Rightarrow> u8 \<Rightarrow> ('o, 'e, 'v) sai_state \<Rightarrow> bool" where
  "chip_inv L l s \<longleftrightarrow> state_ok L s \<and> inited s l"

definition oid_valid :: "sai_object_id \<Rightarrow> bool" where
  "oid_valid oid \<longleftrightarrow> ctc_sai_is_object_type_valid (oid_type oid)"

lemma chip_inv_obtain:
  assumes "chip_inv L l s"
  obtains db where "g_sai_db s l = Some db" "db_ok L db" "l < CTC_SAI_MAX_CHIP_NUM"
    "SAI_DB_INIT_CHECK s l = SAI_STATUS_SUCCESS"
  using assms by (auto simp: chip_inv_def inited_def state_ok_def init_check_cases)

lemma chip_inv_frame: "chip_inv L l s \<Longrightarrow> g_sai_db s' = g_sai_db s \<Longrightarrow> chip_inv L l s'"
  by (simp add: chip_inv_def inited_def state_ok_def)

lemma chip_inv_ext [simp]:
  "chip_inv L l (snd (ext_call L' c s)) = chip_inv L l s"
  "chip_inv L l (snd (mem_malloc L' s)) = chip_inv L l s"
  by (simp_all add: chip_inv_def inited_def state_ok_def)

lemma chip_inv_set_db:
  "chip_inv L l s \<Longrightarrow> db_ok L db \<Longrightarrow> chip_inv L l (set_db l db s)"
  by (auto simp: chip_inv_def state_ok_def inited_def)

context ctc_lib_laws
begin

lemma get_set_db:
  assumes "chip_inv L l s" and "oid_valid oid"
  shows "ctc_sai_db_get_object_property L l oid (set_db l (upd_oid_hash t h db) s) =
    (case hash_lookup (oid_ops L) (if oid_type oid = t then h else oid_hash db (oid_type oid)) oid of
       None \<Rightarrow> None | Some d \<Rightarrow> d)"
  using assms by (auto simp: ctc_sai_db_get_object_property_def oid_valid_def not_le [symmetric]
      elim!: chip_inv_obtain)

lemma get_lookup:
  assumes "g_sai_db s l = Some db" "l < CTC_SAI_MAX_CHIP_NUM" "oid_valid oid"
  shows "ctc_sai_db_get_object_property L l oid s =
    (case hash_lookup (oid_ops L) (oid_hash db (oid_type oid)) oid of None \<Rightarrow> None | Some d \<Rightarrow> d)"
  using assms by (auto simp: ctc_sai_db_get_object_property_def oid_valid_def not_le [symmetric])

lemma get_None_iff:
  assumes "g_sai_db s l = Some db" "db_ok L db" "l < CTC_SAI_MAX_CHIP_NUM" "oid_valid oid"
  shows "ctc_sai_db_get_object_property L l oid s = None \<longleftrightarrow>
    hash_lookup (oid_ops L) (oid_hash db (oid_type oid)) oid = None"
  using assms db_ok_lookup [of db "oid_type oid" oid]
  by (auto simp: get_lookup oid_valid_def split: option.splits)

lemma get_invalid: "\<not> oid_valid oid \<Longrightarrow> ctc_sai_db_get_object_property L l oid s = None"
  by (auto simp: ctc_sai_db_get_object_property_def oid_valid_def split: option.splits)

lemma get_Some_valid: "ctc_sai_db_get_object_property L l oid s \<noteq> None \<Longrightarrow> oid_valid oid"
  by (rule ccontr) (simp add: get_invalid)

text \<open>The three ways an addition ends on a sound chip database.\<close>

lemma add_object_cases:
  assumes inv: "chip_inv L l s"
  shows "ctc_sai_db_add_object_property L l oid (Some d) s =
    (case g_sai_db s l of None \<Rightarrow> (SAI_STATUS_UNINITIALIZED, s)
     | Some db \<Rightarrow>
        if \<not> oid_valid oid then (SAI_STATUS_INVALID_PARAMETER, s)
        else if ctc_sai_db_get_object_property L l oid s \<noteq> None
        then (SAI_STATUS_ITEM_ALREADY_EXISTS, s)
        else if out_val 0 (env L (trace s) MemAlloc) = 0
        then (SAI_STATUS_NO_MEMORY, snd (mem_malloc L s))
        else (SAI_STATUS_SUCCESS,
              set_db l (upd_oid_hash (oid_type oid)
                (hash_insert (oid_ops L) (oid_hash db (oid_type oid)) oid (Some d)) db)
              (snd (mem_malloc L s))))"
proof -
  obtain db where db: "g_sai_db s l = Some db" "db_ok L db" "l < CTC_SAI_MAX_CHIP_NUM"
    "SAI_DB_INIT_CHECK s l = SAI_STATUS_SUCCESS"
    using inv by (rule chip_inv_obtain)
  show ?thesis
  proof (cases "oid_valid oid")
    case False
    then show ?thesis using db by (simp add: ctc_sai_db_add_object_property_def oid_valid_def)
  next
    case True
    have none: "ctc_sai_db_get_object_property L l oid s = None \<longleftrightarrow>
        hash_lookup (oid_ops L) (oid_hash db (oid_type oid)) oid = None"
      by (rule get_None_iff [OF db(1-3) True])
    have ok: "hash_lookup (oid_ops L) (oid_hash db (oid_type oid)) oid \<noteq> Some None"
      using db_ok_lookup [OF db(2), of "oid_type oid" oid None] True by (auto simp: oid_valid_def)
    have m: "mem_malloc L s =
        (out_val 0 (env L (trace s) MemAlloc) \<noteq> 0, snd (mem_malloc L s))"
      by (rule prod_eqI) simp_all
    show ?thesis
      unfolding ctc_sai_db_add_object_property_def
      using db True none ok m
      by (auto simp: oid_valid_def Let_def split: option.splits prod.splits)
  qed
qed

lemma remove_object_cases:
  assumes inv: "chip_inv L l s"
  shows "ctc_sai_db_remove_object_property L l oid s =
    (case g_sai_db s l of None \<Rightarrow> (SAI_STATUS_UNINITIALIZED, s)
     | Some db \<Rightarrow>
        if \<not> oid_valid oid then (SAI_STATUS_INVALID_PARAMETER, s)
        else (if ctc_sai_db_get_object_property L l oid s = None
              then SAI_STATUS_ITEM_NOT_FOUND else SAI_STATUS_SUCCESS,
              set_db l (upd_oid_hash (oid_type oid)
                (fst (hash_remove (oid_ops L) (oid_hash db (oid_type oid)) oid)) db) s))"
proof -
  obtain db where db: "g_sai_db s l = Some db" "db_ok L db" "l < CTC_SAI_MAX_CHIP_NUM"
    "SAI_DB_INIT_CHECK s l = SAI_STATUS_SUCCESS"
    using inv by (rule chip_inv_obtain)
  show ?thesis
  proof (cases "oid_valid oid")
    case False
    then show ?thesis using db by (simp add: ctc_sai_db_remove_object_property_def oid_valid_def)
  next
    case True
    obtain h r where hr: "hash_remove (oid_ops L) (oid_hash db (oid_type oid)) oid = (h, r)"
      by (rule prod.exhaust)
    have "r = hash_lookup (oid_ops L) (oid_hash db (oid_type oid)) oid"
      using oid.remove_result [OF db_ok_oid_hash [OF db(2), of "oid_type oid"], of oid] True hr
      by (simp add: oid_valid_def)
    then show ?thesis
      using db True hr get_None_iff [OF db(1-3) True]
      by (auto simp: ctc_sai_db_remove_object_property_def oid_valid_def split: option.splits)
  qed
qed

lemma add_object_get:
  assumes inv: "chip_inv L l s" and ok: "fst (ctc_sai_db_add_object_property L l oid (Some d) s) = 0"
  shows "ctc_sai_db_get_object_property L l oid' (snd (ctc_sai_db_add_object_property L l oid (Some d) s)) =
    (if oid' = oid then Some d else ctc_sai_db_get_object_property L l oid' s)"
proof -
  obtain db where db: "g_sai_db s l = Some db" "db_ok L db" "l < CTC_SAI_MAX_CHIP_NUM"
    using inv by (rule chip_inv_obtain)
  have v: "oid_valid oid" and new: "ctc_sai_db_get_object_property L l oid s = None"
    using ok by (auto simp: add_object_cases [OF inv] db split: if_splits)
  have lk: "hash_lookup (oid_ops L) (oid_hash db (oid_type oid)) oid = None"
    using get_None_iff [OF db v] new by simp
  have hok: "hash_ok (oid_ops L) (oid_hash db (oid_type oid))"
    using db_ok_oid_hash [OF db(2)] v by (simp add: oid_valid_def)
  show ?thesis
  proof (cases "oid_valid oid'")
    case False
    then show ?thesis using v by (auto simp: get_invalid)
  next
    case True
    have inv': "chip_inv L l (snd (mem_malloc L s))" using inv by simp
    show ?thesis
      using ok v new get_lookup [OF db(1,3) True]
      by (auto simp: add_object_cases [OF inv] db True v get_set_db [OF inv']
          oid.lookup_insert [OF hok lk] split: if_splits)
  qed
qed

lemma tables_remove:
  assumes ok: "tables_ok L s" and ex: "ctc_sai_db_get_object_property L l oid s \<noteq> None"
  shows "ctc_sai_db_get_object_property L l oid' (snd (ctc_sai_db_remove_object_property L l oid s)) =
      (if oid' = oid then None else ctc_sai_db_get_object_property L l oid' s)"
    and "tables_ok L (snd (ctc_sai_db_remove_object_property L l oid s))"
proof -
  obtain db where db: "g_sai_db s l = Some db" "l < CTC_SAI_MAX_CHIP_NUM" "ctc_sai_is_object_type_valid (oid_type oid)"
    using ex by (auto simp: ctc_sai_db_get_object_property_def not_le [symmetric] split: if_splits option.splits)
  have h: "hash_ok (oid_ops L) (oid_hash db (oid_type oid))" using ok db by (auto simp: tables_ok_def)
  let ?h = "fst (hash_remove (oid_ops L) (oid_hash db (oid_type oid)) oid)"
  have r: "snd (ctc_sai_db_remove_object_property L l oid s) = set_db l (upd_oid_hash (oid_type oid) ?h db) s"
    using db by (auto simp: ctc_sai_db_remove_object_property_def SAI_DB_INIT_CHECK_def inited_def not_le [symmetric] Let_def split: prod.split option.split)
  show "ctc_sai_db_get_object_property L l oid' (snd (ctc_sai_db_remove_object_property L l oid s)) =
      (if oid' = oid then None else ctc_sai_db_get_object_property L l oid' s)"
    unfolding r using db by (auto simp: ctc_sai_db_get_object_property_def oid.lookup_remove [OF h])
  show "tables_ok L (snd (ctc_sai_db_remove_object_property L l oid s))"
    unfolding r using ok db oid.remove_ok [OF h] by (auto simp: tables_ok_def)
qed

lemma add_object_refused:
  assumes inv: "chip_inv L l s" and ok: "fst (ctc_sai_db_add_object_property L l oid (Some d) s) \<noteq> 0"
  shows "g_sai_db (snd (ctc_sai_db_add_object_property L l oid (Some d) s)) = g_sai_db s"
  using ok by (auto simp: add_object_cases [OF inv] split: option.splits if_splits)

lemma add_object_inv:
  assumes inv: "chip_inv L l s"
  shows "chip_inv L l (snd (ctc_sai_db_add_object_property L l oid (Some d) s))"
proof (cases "fst (ctc_sai_db_add_object_property L l oid (Some d) s) = 0")
  case False
  show ?thesis by (rule chip_inv_frame [OF inv]) (rule add_object_refused [OF inv False])
next
  case True
  obtain db where db: "g_sai_db s l = Some db" "db_ok L db" "l < CTC_SAI_MAX_CHIP_NUM"
    using inv by (rule chip_inv_obtain)
  have v: "oid_valid oid" and new: "ctc_sai_db_get_object_property L l oid s = None"
    using True by (auto simp: add_object_cases [OF inv] db split: if_splits)
  have lk: "hash_lookup (oid_ops L) (oid_hash db (oid_type oid)) oid = None"
    using get_None_iff [OF db v] new by simp
  have "db_ok L (upd_oid_hash (oid_type oid)
      (hash_insert (oid_ops L) (oid_hash db (oid_type oid)) oid (Some d)) db)"
    using db_ok_insert [OF db(2) _ refl lk] v by (simp add: oid_valid_def)
  moreover have "chip_inv L l (snd (mem_malloc L s))" using inv by simp
  ultimately show ?thesis
    using True v new by (auto simp: add_object_cases [OF inv] db chip_inv_set_db)
qed

lemma remove_object_get:
  assumes inv: "chip_inv L l s" and v: "oid_valid oid"
  shows "ctc_sai_db_get_object_property L l oid' (snd (ctc_sai_db_remove_object_property L l oid s)) =
    (if oid' = oid then None else ctc_sai_db_get_object_property L l oid' s)"
proof -
  obtain db where db: "g_sai_db s l = Some db" "db_ok L db" "l < CTC_SAI_MAX_CHIP_NUM"
    using inv by (rule chip_inv_obtain)
  have hok: "hash_ok (oid_ops L) (oid_hash db (oid_type oid))"
    using db_ok_oid_hash [OF db(2)] v by (simp add: oid_valid_def)
  show ?thesis
  proof (cases "oid_valid oid'")
    case False
    then show ?thesis using v by (auto simp: get_invalid)
  next
    case True
    show ?thesis
      using v get_lookup [OF db(1,3) True]
      by (auto simp: remove_object_cases [OF inv] db True v get_set_db [OF inv]
          oid.lookup_remove [OF hok])
  qed
qed

lemma remove_object_inv:
  assumes inv: "chip_inv L l s"
  shows "chip_inv L l (snd (ctc_sai_db_remove_object_property L l oid s))"
proof -
  obtain db where db: "g_sai_db s l = Some db" "db_ok L db"
    using inv by (rule chip_inv_obtain)
  show ?thesis
    using inv db_ok_remove [OF db(2), of "oid_type oid" oid]
    by (auto simp: remove_object_cases [OF inv] db oid_valid_def chip_inv_set_db)
qed

lemma store_object_get:
  assumes inv: "chip_inv L l s" and old: "ctc_sai_db_get_object_property L l oid s \<noteq> None"
  shows "ctc_sai_db_get_object_property L l oid' (object_store L l oid d s) =
    (if oid' = oid then Some d else ctc_sai_db_get_object_property L l oid' s)"
    and "chip_inv L l (object_store L l oid d s)"
proof -
  obtain db where db: "g_sai_db s l = Some db" "db_ok L db" "l < CTC_SAI_MAX_CHIP_NUM"
    using inv by (rule chip_inv_obtain)
  have v: "oid_valid oid" using old by (rule get_Some_valid)
  have hok: "hash_ok (oid_ops L) (oid_hash db (oid_type oid))"
    using db_ok_oid_hash [OF db(2)] v by (simp add: oid_valid_def)
  have lk: "hash_lookup (oid_ops L) (oid_hash db (oid_type oid)) oid \<noteq> None"
    using get_None_iff [OF db v] old by simp
  show "chip_inv L l (object_store L l oid d s)"
    using inv db_ok_write [OF db(2) _ refl lk] v
    by (simp add: object_store_def db oid_valid_def chip_inv_set_db)
  show "ctc_sai_db_get_object_property L l oid' (object_store L l oid d s) =
    (if oid' = oid then Some d else ctc_sai_db_get_object_property L l oid' s)"
  proof (cases "oid_valid oid'")
    case False
    then show ?thesis using v by (auto simp: get_invalid)
  next
    case True
    show ?thesis
      using get_lookup [OF db(1,3) True]
      by (auto simp: object_store_def db True v get_set_db [OF inv] oid.lookup_write [OF hok lk])
  qed
qed

end

locale chip_db = ctc_lib_laws L for L :: "('o, 'e, 'v) ctc_lib" +
  fixes l :: u8

sublocale chip_db \<subseteq> store: obj_store
  "\<lambda>oid s. ctc_sai_db_get_object_property L l oid s"
  "\<lambda>oid d s. ctc_sai_db_add_object_property L l oid (Some d) s"
  "\<lambda>oid s. ctc_sai_db_remove_object_property L l oid s"
  "\<lambda>oid d s. object_store L l oid d s"
  "\<lambda>s. chip_inv L l s" oid_valid
proof unfold_locales
  fix k k' :: sai_object_id and s and d :: obj_data
  show "ctc_sai_db_get_object_property L l k s = Some d \<Longrightarrow> oid_valid k"
    using get_Some_valid [of l k s] by simp
  assume inv: "chip_inv L l s"
  obtain db where db: "g_sai_db s l = Some db" using inv by (rule chip_inv_obtain)
  show "fst (ctc_sai_db_add_object_property L l k (Some d) s) = 0 \<Longrightarrow>
      ctc_sai_db_get_object_property L l k' (snd (ctc_sai_db_add_object_property L l k (Some d) s)) =
      (if k' = k then Some d else ctc_sai_db_get_object_property L l k' s)"
    by (rule add_object_get [OF inv])
  show "fst (ctc_sai_db_add_object_property L l k (Some d) s) = 0 \<Longrightarrow>
      ctc_sai_db_get_object_property L l k s = None"
    by (auto simp: add_object_cases [OF inv] db split: if_splits)
  show "fst (ctc_sai_db_add_object_property L l k (Some d) s) \<noteq> 0 \<Longrightarrow>
      ctc_sai_db_get_object_property L l k' (snd (ctc_sai_db_add_object_property L l k (Some d) s)) =
      ctc_sai_db_get_object_property L l k' s"
    by (rule get_frame) (rule add_object_refused [OF inv])
  show "ctc_sai_db_get_object_property L l k s \<noteq> None \<Longrightarrow>
      fst (ctc_sai_db_add_object_property L l k (Some d) s) = SAI_STATUS_ITEM_ALREADY_EXISTS"
    using get_Some_valid [of l k s] by (auto simp: add_object_cases [OF inv] db)
  show "ctc_sai_db_get_object_property L l k s \<noteq> None \<Longrightarrow>
      fst (ctc_sai_db_remove_object_property L l k s) = 0"
    using get_Some_valid [of l k s] by (auto simp: remove_object_cases [OF inv] db)
  show "oid_valid k \<Longrightarrow> ctc_sai_db_get_object_property L l k s = None \<Longrightarrow>
      fst (ctc_sai_db_remove_object_property L l k s) = SAI_STATUS_ITEM_NOT_FOUND"
    by (simp add: remove_object_cases [OF inv] db)
  show "oid_valid k \<Longrightarrow>
      ctc_sai_db_get_object_property L l k' (snd (ctc_sai_db_remove_object_property L l k s)) =
      (if k' = k then None else ctc_sai_db_get_object_property L l k' s)"
    by (rule remove_object_get [OF inv])
  show "ctc_sai_db_get_object_property L l k s \<noteq> None \<Longrightarrow>
      ctc_sai_db_get_object_property L l k' (object_store L l k d s) =
      (if k' = k then Some d else ctc_sai_db_get_object_property L l k' s)"
    by (rule store_object_get(1) [OF inv])
  show "chip_inv L l (snd (ctc_sai_db_add_object_property L l k (Some d) s))"
    by (rule add_object_inv [OF inv])
  show "chip_inv L l (snd (ctc_sai_db_remove_object_property L l k s))"
    by (rule remove_object_inv [OF inv])
  show "ctc_sai_db_get_object_property L l k s \<noteq> None \<Longrightarrow> chip_inv L l (object_store L l k d s)"
    by (rule store_object_get(2) [OF inv])
qed

text \<open>Chip 0 of the reference library is a store.\<close>

interpretation ref_chip: chip_db ref_lib 0
  by (rule chip_db.intro) (rule ref_laws.ctc_lib_laws_axioms)

section \<open>Initialisation\<close>

lemma fold_ext_frame [simp]:
  "g_sai_db (fold (\<lambda>x s. snd (ext_call L (c x) s)) xs s) = g_sai_db s"
  "fault (fold (\<lambda>x s. snd (ext_call L (c x) s)) xs s) = fault s"
  by (induction xs arbitrary: s) simp_all

lemma fold_ext_trace:
  "fst ` set (trace (fold (\<lambda>x s. snd (ext_call L (c x) s)) xs s)) =
     c ` set xs \<union> fst ` set (trace s)"
  by (induction xs arbitrary: s) auto

lemma fold_pools_eq:
  "fold (\<lambda>(p, a, n) s. snd (ext_call L (OpfInitOffset p l a n) s)) xs s =
   fold (\<lambda>x s. snd (ext_call L (OpfInitOffset (fst x) l (fst (snd x)) (snd (snd x))) s)) xs s"
  by (rule fold_cong) auto

lemma db_init_id_simps [simp]:
  "fst (db_init_id L l s) = SAI_STATUS_SUCCESS"
  "g_sai_db (snd (db_init_id L l s)) = g_sai_db s" "fault (snd (db_init_id L l s)) = fault s"
  by (simp_all add: db_init_id_def Let_def fold_pools_eq)

lemma db_init_id_trace:
  "fst ` set (trace (snd (db_init_id L l s))) =
     (\<lambda>p. OpfInit p (capability L l CAP_MAX_LCHIP_NUM)) ` {0 ..< CTC_SAI_DB_ID_TYPE_MAX} \<union>
     (\<lambda>(p, a, n). OpfInitOffset p l a n) ` set (db_id_pools L l) \<union> fst ` set (trace s)"
  by (simp only: db_init_id_def Let_def snd_conv fold_pools_eq fold_ext_trace)
     (auto simp: case_prod_beta)

lemma db_pools_order:
  "map fst (db_id_pools L l) = [0 ..< 37] @ [39, 40, 41, 38, 42, 43]"
proof -
  have "[0 ..< 37] = [0, 1, 2, 3, 4, 5, 6, 7, 8, 9, 10, 11, 12, 13, 14, 15, 16, 17, 18, 19, 20, 21,
      22, 23, 24, 25, 26, 27, 28, 29, 30, 31, 32, 33, 34, 35, 36 :: nat]"
    by code_simp
  then show ?thesis by (simp only: db_id_pools_def Let_def list.map fst_conv append.simps)
qed

lemma db_pools_types:
  "fst ` set (db_id_pools L l) = {p. p < CTC_SAI_DB_ID_TYPE_MAX \<and> p \<noteq> CTC_SAI_DB_ID_TYPE_NPM}"
proof -
  have "fst ` set (db_id_pools L l) = set ([0 ..< 37] @ [39, 40, 41, 38, 42, 43])"
    by (simp only: db_pools_order [symmetric, of L l] set_map)
  then show ?thesis by auto
qed

text \<open>A fresh database, as the code builds it after the memory and the mutex are there.\<close>

definition fresh_db :: "('o, 'e, 'v) ctc_lib \<Rightarrow> ('o, 'e, 'v) sai_db" where
  "fresh_db L =
     \<lparr> oid_hash = (\<lambda>t. if SAI_OBJECT_TYPE_PORT \<le> t \<and> t < SAI_OBJECT_TYPE_MAX
          then hash_create (oid_ops L) (fst (oid_hash_block t)) (snd (oid_hash_block t))
          else hash_null (oid_ops L)),
       entry_hash = (\<lambda>t. if t < length key_hash_block
          then hash_create (ent_ops L) (fst (key_hash_block ! t)) (snd (key_hash_block ! t))
          else hash_null (ent_ops L)),
       db_vector = (\<lambda>t. if t < 1 then vec_init (vec_ops L) 13 4 else vec_null (vec_ops L)) \<rparr>"

lemma db_init_success:
  assumes "ctc_sai_db_init L l s = (SAI_STATUS_SUCCESS, s')"
  shows "\<not> inited s l"
    and "g_sai_db s' = (g_sai_db s)(l := Some (fresh_db L))" and "fault s' = (CTC_SAI_MAX_CHIP_NUM \<le> l \<or> fault s)"
    and "fst ` set (trace s') =
      (\<lambda>p. OpfInit p (capability L l CAP_MAX_LCHIP_NUM)) ` {0 ..< CTC_SAI_DB_ID_TYPE_MAX} \<union>
      (\<lambda>(p, a, n). OpfInitOffset p l a n) ` set (db_id_pools L l) \<union>
      {MutexCreate l, MemAlloc} \<union> fst ` set (trace s)"
proof -
  let ?s0 = "if CTC_SAI_MAX_CHIP_NUM \<le> l then s\<lparr>fault := True\<rparr> else s"
  let ?s1 = "snd (ext_call L (MutexCreate l) (snd (mem_malloc L ?s0)))"
  have r: "\<not> inited ?s0 l \<and> db_init_id L l (set_db l (fresh_db L) ?s1) = (SAI_STATUS_SUCCESS, s')"
    using assms unfolding ctc_sai_db_init_def fresh_db_def
    by (auto simp: Let_def case_prod_beta split: if_splits)
  then show "\<not> inited s l" by (auto simp: inited_def split: if_splits)
  have s': "s' = snd (db_init_id L l (set_db l (fresh_db L) ?s1))" using r by simp
  show "g_sai_db s' = (g_sai_db s)(l := Some (fresh_db L))" "fault s' = (CTC_SAI_MAX_CHIP_NUM \<le> l \<or> fault s)"
    by (simp_all add: s')
  show "fst ` set (trace s') =
      (\<lambda>p. OpfInit p (capability L l CAP_MAX_LCHIP_NUM)) ` {0 ..< CTC_SAI_DB_ID_TYPE_MAX} \<union>
      (\<lambda>(p, a, n). OpfInitOffset p l a n) ` set (db_id_pools L l) \<union>
      {MutexCreate l, MemAlloc} \<union> fst ` set (trace s)"
    unfolding s' db_init_id_trace by auto
qed

context ctc_lib_laws
begin

lemma fresh_db_ok: "db_ok L (fresh_db L)"
  by (auto simp: db_ok_def fresh_db_def ctc_sai_is_object_type_valid_def oid.create_ok
      oid.create_items ent.create_ok vec.init_ok key_hash_block_def)

lemma fresh_db_lookup:
  "ctc_sai_is_object_type_valid t \<Longrightarrow> hash_lookup (oid_ops L) (oid_hash (fresh_db L) t) oid = None"
  by (simp add: fresh_db_def ctc_sai_is_object_type_valid_def)

end

section \<open>Properties\<close>

text \<open>The state after the creation of chip 0 with the reference library, for the witnesses.\<close>

definition ref_state :: "(ref_oid, ref_ent, ref_vec) sai_state" where
  "ref_state = \<lparr> g_sai_db = (\<lambda>l. if l = 0 then Some (fresh_db ref_lib) else None),
                 trace = [], fault = False \<rparr>"

lemma ref_lib_simps:
  "env ref_lib = ref_env" "err ref_lib = ref_err" "capability ref_lib = (\<lambda>l c. 4096)"
  "mem_free_nulls ref_lib = True" "oid_ops ref_lib = alist_ops" "ent_ops ref_lib = alist_ops"
  "vec_ops ref_lib = alist_vec"
  by (simp_all add: ref_lib_def)

lemma ref_state_ok: "state_ok ref_lib ref_state"
  by (simp add: state_ok_def ref_state_def ref_laws.fresh_db_ok CTC_SAI_MAX_CHIP_NUM_def)

lemma add_object_status:
  assumes "ctc_lib_laws L" and "state_ok L s"
  shows "fst (ctc_sai_db_add_object_property L l oid (Some d) s) =
    (if CTC_SAI_MAX_CHIP_NUM \<le> l then SAI_STATUS_INVALID_PARAMETER
     else if \<not> inited s l then SAI_STATUS_UNINITIALIZED
     else if \<not> ctc_sai_is_object_type_valid (oid_type oid) then SAI_STATUS_INVALID_PARAMETER
     else if ctc_sai_db_get_object_property L l oid s \<noteq> None then SAI_STATUS_ITEM_ALREADY_EXISTS
     else if out_val 0 (env L (trace s) MemAlloc) = 0 then SAI_STATUS_NO_MEMORY
     else SAI_STATUS_SUCCESS)"
proof (cases "inited s l")
  case False
  then show ?thesis by (simp add: ctc_sai_db_add_object_property_def SAI_DB_INIT_CHECK_def)
next
  case True
  then have inv: "chip_inv L l s" using assms by (simp add: chip_inv_def)
  then obtain db where "g_sai_db s l = Some db" "l < CTC_SAI_MAX_CHIP_NUM" by (rule chip_inv_obtain)
  then show ?thesis
    using True ctc_lib_laws.add_object_cases [OF assms(1) inv, of oid d]
    by (auto simp: oid_valid_def)
qed

lemma add_object_chip_inv:
  assumes "ctc_lib_laws L" "state_ok L s" "ctc_sai_db_add_object_property L l oid (Some d) s = (0, s')"
  shows "chip_inv L l s"
  using assms add_object_status [OF assms(1,2), of l oid d] by (auto simp: chip_inv_def split: if_splits)

context chip_db
begin

lemma add_remove:
  assumes inv: "chip_inv L l s"
    and add: "ctc_sai_db_add_object_property L l oid (Some d) s = (SAI_STATUS_SUCCESS, s1)"
    and rem: "ctc_sai_db_remove_object_property L l oid s1 = (st, s2)"
  shows "st = SAI_STATUS_SUCCESS"
    and "ctc_sai_db_get_object_property L l oid' s2 = ctc_sai_db_get_object_property L l oid' s"
    and "fst (ctc_sai_db_remove_object_property L l oid s2) = SAI_STATUS_ITEM_NOT_FOUND"
proof -
  have a: "fst (ctc_sai_db_add_object_property L l oid (Some d) s) = 0" using add by simp
  note rt = store.add_then_rem [OF inv a]
  show "st = SAI_STATUS_SUCCESS" using rt(2) add rem by simp
  have same: "ctc_sai_db_get_object_property L l oid' s2 = ctc_sai_db_get_object_property L l oid' s"
    for oid'
    using rt(1) [of oid'] add rem by simp
  then show "ctc_sai_db_get_object_property L l oid' s2 = ctc_sai_db_get_object_property L l oid' s" .
  have "chip_inv L l s2" using store.rem_inv [OF store.add_inv [OF inv, of oid d], of oid] add rem by simp
  moreover have "oid_valid oid" using store.add_new [OF inv a, of oid] store.get_only_valid by simp
  ultimately show "fst (ctc_sai_db_remove_object_property L l oid s2) = SAI_STATUS_ITEM_NOT_FOUND"
    using store.add_was_new [OF inv a] same store.rem_absent by simp
qed

lemma add_again:
  "chip_inv L l s \<Longrightarrow> ctc_sai_db_add_object_property L l oid (Some d) s = (SAI_STATUS_SUCCESS, s1) \<Longrightarrow>
     fst (ctc_sai_db_add_object_property L l oid (Some d') s1) = SAI_STATUS_ITEM_ALREADY_EXISTS"
  using store.add_twice [of s oid d d'] by simp

end

text \<open>
  Property C1: what was added is found, and nothing else changes. After a successful addition a
  lookup on the chip gives the new data for the new identifier and the old answer for every other
  one, the other chips are untouched, and the database invariant holds again.
\<close>

theorem db_add_then_get:
  assumes "ctc_lib_laws L" and "state_ok L s"
    and "ctc_sai_db_add_object_property L l oid (Some d) s = (SAI_STATUS_SUCCESS, s')"
  shows "(\<forall>oid'. ctc_sai_db_get_object_property L l oid' s' =
            (if oid' = oid then Some d else ctc_sai_db_get_object_property L l oid' s)) \<and>
         (\<forall>l'. l' \<noteq> l \<longrightarrow> g_sai_db s' l' = g_sai_db s l') \<and> state_ok L s'"
proof -
  have inv: "chip_inv L l s" by (rule add_object_chip_inv [OF assms])
  have "g_sai_db s' l' = g_sai_db s l'" if "l' \<noteq> l" for l'
    using assms(3) that ctc_lib_laws.add_object_cases [OF assms(1) inv, of oid d]
    by (auto split: option.splits if_splits)
  moreover have "state_ok L s'"
    using ctc_lib_laws.add_object_inv [OF assms(1) inv, of oid d] assms(3) by (simp add: chip_inv_def)
  ultimately show ?thesis
    using ctc_lib_laws.add_object_get [OF assms(1) inv, of oid d] assms(3) by simp
qed

theorem db_add_then_get_witness:
  "\<exists>s'. ctc_sai_db_add_object_property ref_lib 0 (ctc_sai_create_object_id 3 0 0 0 5)
        (Some (OtherData 7)) ref_state = (SAI_STATUS_SUCCESS, s') \<and>
      ctc_sai_db_get_object_property ref_lib 0 (ctc_sai_create_object_id 3 0 0 0 5) s' =
        Some (OtherData 7) \<and> state_ok ref_lib s'"
proof -
  let ?r = "ctc_sai_db_add_object_property ref_lib 0 (ctc_sai_create_object_id 3 0 0 0 5)
        (Some (OtherData 7)) ref_state"
  have "?r = (SAI_STATUS_SUCCESS, snd ?r)" by (rule prod_eqI) (code_simp, simp)
  then show ?thesis
    using db_add_then_get [OF ref_laws.ctc_lib_laws_axioms ref_state_ok, OF \<open>?r = _\<close>] by auto
qed


text \<open>A bucket whose data pointer is \<^verbatim>\<open>NULL\<close>, as the bridge module adds for its bridges.\<close>

definition null_bucket :: "('o, 'e, 'v) ctc_lib \<Rightarrow> u8 \<Rightarrow> sai_object_id \<Rightarrow> ('o, 'e, 'v) sai_state \<Rightarrow> bool" where
  "null_bucket L l oid s =
     (case g_sai_db s l of None \<Rightarrow> False
      | Some db \<Rightarrow> hash_lookup (oid_ops L) (oid_hash db (oid_type oid)) oid = Some None)"

text \<open>
  Property C7: the status of an addition on every branch, in any state. The chip number, the
  initialisation, the object type, the absence of data for the identifier and the memory for a bucket
  are checked in this order; a bucket with a \<^verbatim>\<open>NULL\<close> pointer is reused, so no memory is asked for. A
  refused addition leaves every table of every chip as it was, and every addition the other chips.
\<close>

theorem db_add_status:
  "fst (ctc_sai_db_add_object_property L l oid d s) =
    (if CTC_SAI_MAX_CHIP_NUM \<le> l then SAI_STATUS_INVALID_PARAMETER
     else if \<not> inited s l then SAI_STATUS_UNINITIALIZED
     else if \<not> ctc_sai_is_object_type_valid (oid_type oid) then SAI_STATUS_INVALID_PARAMETER
     else if ctc_sai_db_get_object_property L l oid s \<noteq> None then SAI_STATUS_ITEM_ALREADY_EXISTS
     else if null_bucket L l oid s then SAI_STATUS_SUCCESS
     else if out_val 0 (env L (trace s) MemAlloc) = 0 then SAI_STATUS_NO_MEMORY
     else SAI_STATUS_SUCCESS) \<and>
   (fst (ctc_sai_db_add_object_property L l oid d s) \<noteq> SAI_STATUS_SUCCESS \<longrightarrow>
     g_sai_db (snd (ctc_sai_db_add_object_property L l oid d s)) = g_sai_db s) \<and>
   (\<forall>l'. l' \<noteq> l \<longrightarrow> g_sai_db (snd (ctc_sai_db_add_object_property L l oid d s)) l' = g_sai_db s l')"
proof (cases "g_sai_db s l")
  case None
  then show ?thesis
    by (simp add: ctc_sai_db_add_object_property_def SAI_DB_INIT_CHECK_def inited_def)
next
  case (Some db)
  then show ?thesis
    by (auto simp: ctc_sai_db_add_object_property_def SAI_DB_INIT_CHECK_def inited_def null_bucket_def
        ctc_sai_db_get_object_property_def mem_malloc_def ext_call_def Let_def case_prod_beta split: option.splits)
qed

theorem db_add_status_witness:
  "let oid = ctc_sai_create_object_id 57 0 0 0 5;
       s = snd (ctc_sai_db_add_object_property ref_lib 0 oid None ref_state) in
   null_bucket ref_lib 0 oid s \<and>
   fst (ctc_sai_db_add_object_property ref_lib 0 oid (Some (OtherData 7)) s) = SAI_STATUS_SUCCESS \<and>
   g_sai_db (snd (ctc_sai_db_add_object_property ref_lib 9 oid (Some (OtherData 7)) s)) = g_sai_db s"
proof -
  define oid where "oid = ctc_sai_create_object_id 57 0 0 0 5"
  define s where "s = snd (ctc_sai_db_add_object_property ref_lib 0 oid None ref_state)"
  have "let s = snd (ctc_sai_db_add_object_property ref_lib 0 (ctc_sai_create_object_id 57 0 0 0 5) None ref_state);
      oid = ctc_sai_create_object_id 57 0 0 0 5 in
      null_bucket ref_lib 0 oid s \<and> inited s 0 \<and> ctc_sai_is_object_type_valid (oid_type oid) \<and>
      ctc_sai_db_get_object_property ref_lib 0 oid s = None \<and> \<not> inited s 9"
    by code_simp
  then have k: "null_bucket ref_lib 0 oid s" "inited s 0" "ctc_sai_is_object_type_valid (oid_type oid)"
      "ctc_sai_db_get_object_property ref_lib 0 oid s = None" "\<not> inited s 9"
    unfolding Let_def s_def oid_def by blast+
  show ?thesis
    unfolding Let_def oid_def [symmetric] s_def [symmetric]
    using k db_add_status [of ref_lib 0 oid "Some (OtherData 7)" s] db_add_status [of ref_lib 9 oid "Some (OtherData 7)" s]
    by (simp add: CTC_SAI_MAX_CHIP_NUM_def)
qed

text \<open>
  Property C2: removal undoes an addition. After a successful addition the removal of the same
  identifier succeeds, every lookup on the chip answers as before the addition, and a second
  removal reports that the object is not there.
\<close>

theorem db_add_remove_roundtrip:
  assumes "ctc_lib_laws L" and "state_ok L s"
    and "ctc_sai_db_add_object_property L l oid (Some d) s = (SAI_STATUS_SUCCESS, s1)"
    and "ctc_sai_db_remove_object_property L l oid s1 = (st, s2)"
  shows "st = SAI_STATUS_SUCCESS \<and>
    (\<forall>oid'. ctc_sai_db_get_object_property L l oid' s2 = ctc_sai_db_get_object_property L l oid' s) \<and>
    fst (ctc_sai_db_remove_object_property L l oid s2) = SAI_STATUS_ITEM_NOT_FOUND"
proof -
  have c: "chip_db L" by (rule chip_db.intro [OF assms(1)])
  have inv: "chip_inv L l s" by (rule add_object_chip_inv [OF assms(1-3)])
  show ?thesis using chip_db.add_remove [OF c inv assms(3,4)] by blast
qed

theorem db_add_remove_roundtrip_witness:
  "\<exists>s1 s2. ctc_sai_db_add_object_property ref_lib 0 (ctc_sai_create_object_id 3 0 0 0 5)
        (Some (OtherData 7)) ref_state = (SAI_STATUS_SUCCESS, s1) \<and>
      ctc_sai_db_remove_object_property ref_lib 0 (ctc_sai_create_object_id 3 0 0 0 5) s1 =
        (SAI_STATUS_SUCCESS, s2) \<and>
      fst (ctc_sai_db_remove_object_property ref_lib 0 (ctc_sai_create_object_id 3 0 0 0 5) s2) =
        SAI_STATUS_ITEM_NOT_FOUND"
proof -
  let ?r = "ctc_sai_db_add_object_property ref_lib 0 (ctc_sai_create_object_id 3 0 0 0 5)
        (Some (OtherData 7)) ref_state"
  let ?q = "ctc_sai_db_remove_object_property ref_lib 0 (ctc_sai_create_object_id 3 0 0 0 5) (snd ?r)"
  have "?r = (SAI_STATUS_SUCCESS, snd ?r)" by (rule prod_eqI) (code_simp, simp)
  moreover have "?q = (fst ?q, snd ?q)" by simp
  ultimately show ?thesis
    using db_add_remove_roundtrip [OF ref_laws.ctc_lib_laws_axioms ref_state_ok] by metis
qed


lemma init_check_success_obtain:
  "SAI_DB_INIT_CHECK s l = SAI_STATUS_SUCCESS \<Longrightarrow> \<exists>db. g_sai_db s l = Some db"
  by (auto simp: init_check_cases inited_def)

lemma mapping_error_le: "ctc_sai_mapping_error_ctc L e \<le> SAI_STATUS_SUCCESS"
  by (simp add: ctc_sai_mapping_error_ctc_def)

context ctc_lib_laws
begin

lemma mapping_error_zero: "ctc_sai_mapping_error_ctc L e = SAI_STATUS_SUCCESS \<longleftrightarrow> e = 0"
  by (auto simp: ctc_sai_mapping_error_ctc_def err_none)

lemma alloc_free:
  assumes "ctc_sai_db_alloc_id L l p s = ((SAI_STATUS_SUCCESS, v), s1)"
  shows "out_or 0 v \<notin> set (opf_used (trace s) p l)"
    and "opf_used (trace s1) p l = out_or 0 v # opf_used (trace s) p l"
    and "inited s1 = inited s" and "SAI_DB_INIT_CHECK s l = SAI_STATUS_SUCCESS"
proof -
  let ?r = "env L (trace s) (OpfAlloc p l)"
  have chk: "SAI_DB_INIT_CHECK s l = SAI_STATUS_SUCCESS"
    using assms by (auto simp: ctc_sai_db_alloc_id_def Let_def split: if_splits)
  then have r: "rc ?r = 0" and v: "out_or 0 v = ucast (out_val 0 ?r)"
    and s1: "s1 = snd (ext_call L (OpfAlloc p l) s)"
    using assms by (auto simp: ctc_sai_db_alloc_id_def Let_def mapping_error_zero case_prod_beta
        out_val_def split: if_splits)
  show "out_or 0 v \<notin> set (opf_used (trace s) p l)" using opf_fresh [OF r] v by simp
  show "opf_used (trace s1) p l = out_or 0 v # opf_used (trace s) p l" using r v s1 by simp
  show "inited s1 = inited s" using s1 by simp
  show "SAI_DB_INIT_CHECK s l = SAI_STATUS_SUCCESS" by (rule chk)
qed

lemma free_used:
  assumes "ctc_sai_db_free_id L l p i s = (SAI_STATUS_SUCCESS, s1)"
  shows "opf_used (trace s1) p l = removeAll i (opf_used (trace s) p l)"
  using assms
  by (auto simp: ctc_sai_db_free_id_def Let_def mapping_error_zero case_prod_beta split: if_splits)

end

text \<open>
  Identifiers of a pool are handed out once. A successful allocation returns an
  offset that no earlier allocation of the pool still holds, marks exactly this one as used, and
  a successful free of it restores the pool.
\<close>

theorem db_alloc_id_fresh:
  assumes "ctc_lib_laws L"
    and "ctc_sai_db_alloc_id L l p s = ((SAI_STATUS_SUCCESS, v), s1)"
    and "ctc_sai_db_free_id L l p (out_or 0 v) s1 = (SAI_STATUS_SUCCESS, s2)"
  shows "out_or 0 v \<notin> set (opf_used (trace s) p l) \<and>
    opf_used (trace s1) p l = out_or 0 v # opf_used (trace s) p l \<and>
    opf_used (trace s2) p l = opf_used (trace s) p l"
  using ctc_lib_laws.alloc_free [OF assms(1,2)] ctc_lib_laws.free_used [OF assms(1,3)] by simp

theorem db_alloc_id_fresh_witness:
  "opf_used (trace (snd (ctc_sai_db_free_id ref_lib 0 5 1
      (snd (ctc_sai_db_alloc_id ref_lib 0 5 ref_state))))) 5 0 = []"
proof -
  let ?r = "ctc_sai_db_alloc_id ref_lib 0 5 ref_state"
  let ?q = "ctc_sai_db_free_id ref_lib 0 5 1 (snd ?r)"
  have "fst ?r = (SAI_STATUS_SUCCESS, Some 1)" "fst ?q = SAI_STATUS_SUCCESS" by code_simp+
  then have "?r = ((SAI_STATUS_SUCCESS, Some 1), snd ?r)" "?q = (SAI_STATUS_SUCCESS, snd ?q)"
    by (simp_all add: prod_eq_iff)
  moreover have "opf_used (trace ref_state) 5 0 = []" by code_simp
  ultimately show ?thesis
    using db_alloc_id_fresh [OF ref_laws.ctc_lib_laws_axioms, of 0 5 ref_state "Some 1"] by simp
qed


text \<open>
  Property C8: creation of a chip's database. A successful creation happens only on a chip that has
  no database yet; afterwards no object exists on the chip, the other chips are as before, and every
  identifier pool has an offset range except the one of the NPM sessions, which is never given one.
  The invariant holds for a chip number below 32; the number is not checked, and a larger one is a
  fault.
\<close>

theorem db_init_establishes:
  assumes "ctc_lib_laws L" and "state_ok L s"
    and "ctc_sai_db_init L l s = (SAI_STATUS_SUCCESS, s')"
  shows "\<not> inited s l \<and> inited s' l \<and> (l < CTC_SAI_MAX_CHIP_NUM \<longrightarrow> state_ok L s' \<and> fault s' = fault s) \<and>
    (CTC_SAI_MAX_CHIP_NUM \<le> l \<longrightarrow> fault s') \<and>
    (\<forall>oid. ctc_sai_db_get_object_property L l oid s' = None) \<and>
    (\<forall>l'. l' \<noteq> l \<longrightarrow> g_sai_db s' l' = g_sai_db s l') \<and>
    (\<forall>p < CTC_SAI_DB_ID_TYPE_MAX. p \<noteq> CTC_SAI_DB_ID_TYPE_NPM \<longrightarrow>
       (\<exists>a n. OpfInitOffset p l a n \<in> fst ` set (trace s'))) \<and>
    (\<forall>a n. OpfInitOffset CTC_SAI_DB_ID_TYPE_NPM l a n \<in> fst ` set (trace s') \<longrightarrow>
       OpfInitOffset CTC_SAI_DB_ID_TYPE_NPM l a n \<in> fst ` set (trace s))"
proof -
  note r = db_init_success [OF assms(3)]
  have "state_ok L s'" if "l < CTC_SAI_MAX_CHIP_NUM"
    using that assms(2) r(2) ctc_lib_laws.fresh_db_ok [OF assms(1)] by (auto simp: state_ok_def)
  moreover have "ctc_sai_db_get_object_property L l oid s' = None" for oid
    using r(2) ctc_lib_laws.fresh_db_lookup [OF assms(1)]
    by (simp add: ctc_sai_db_get_object_property_def)
  moreover have "\<exists>a n. OpfInitOffset p l a n \<in> fst ` set (trace s')"
    if p: "p < CTC_SAI_DB_ID_TYPE_MAX" "p \<noteq> CTC_SAI_DB_ID_TYPE_NPM" for p
  proof -
    have "p \<in> fst ` set (db_id_pools L l)" unfolding db_pools_types using p by simp
    then obtain a n where "(p, a, n) \<in> set (db_id_pools L l)" by auto
    then have "OpfInitOffset p l a n \<in> (\<lambda>(p, a, n). OpfInitOffset p l a n) ` set (db_id_pools L l)"
      by (rule rev_image_eqI) simp
    then show ?thesis unfolding r(4) by blast
  qed
  moreover have "OpfInitOffset CTC_SAI_DB_ID_TYPE_NPM l a n \<in> fst ` set (trace s)"
    if "OpfInitOffset CTC_SAI_DB_ID_TYPE_NPM l a n \<in> fst ` set (trace s')" for a n
  proof -
    have "CTC_SAI_DB_ID_TYPE_NPM \<notin> fst ` set (db_id_pools L l)" by (simp only: db_pools_types) simp
    then have "OpfInitOffset CTC_SAI_DB_ID_TYPE_NPM l a n
        \<notin> (\<lambda>(p, a, n). OpfInitOffset p l a n) ` set (db_id_pools L l)" by force
    then show ?thesis using that unfolding r(4) by auto
  qed
  ultimately show ?thesis using r(1-3) by (auto simp: inited_def)
qed

theorem db_init_establishes_witness:
  "\<exists>s'. ctc_sai_db_init ref_lib 3 ref_state = (SAI_STATUS_SUCCESS, s') \<and> inited s' 3 \<and> state_ok ref_lib s'"
proof -
  let ?r = "ctc_sai_db_init ref_lib 3 ref_state"
  have e: "?r = (SAI_STATUS_SUCCESS, snd ?r)"
    by (rule prod_eqI)
       (simp_all add: ctc_sai_db_init_def CTC_SAI_MAX_CHIP_NUM_def inited_def ref_state_def
          ref_lib_simps ref_env_def out_val_def case_prod_beta Let_def)
  show ?thesis
    using db_init_establishes [OF ref_laws.ctc_lib_laws_axioms ref_state_ok e] e
    by (intro exI [of _ "snd ?r"]) (simp add: CTC_SAI_MAX_CHIP_NUM_def)
qed

text \<open>
  The translation of library error codes. Exactly \<^verbatim>\<open>CTC_E_NONE\<close> becomes success,
  every other code becomes a negative status, and a code the translation does not name becomes
  \<^verbatim>\<open>SAI_STATUS_FAILURE\<close>.
\<close>

theorem db_error_mapping:
  assumes "ctc_lib_laws L"
  shows "(ctc_sai_mapping_error_ctc L e = SAI_STATUS_SUCCESS \<longleftrightarrow> e = err L CTC_E_NONE) \<and>
    (e \<noteq> err L CTC_E_NONE \<longrightarrow> ctc_sai_mapping_error_ctc L e < 0) \<and>
    (e \<notin> range (err L) \<longrightarrow> ctc_sai_mapping_error_ctc L e = SAI_STATUS_FAILURE) \<and>
    ctc_sai_mapping_error_ctc L (err L CTC_E_EXIST) = SAI_STATUS_ITEM_ALREADY_EXISTS \<and>
    ctc_sai_mapping_error_ctc L (err L CTC_E_NOT_EXIST) = SAI_STATUS_ITEM_NOT_FOUND \<and>
    ctc_sai_mapping_error_ctc L (err L CTC_E_NO_RESOURCE) = SAI_STATUS_INSUFFICIENT_RESOURCES \<and>
    ctc_sai_mapping_error_ctc L (err L CTC_E_NOT_SUPPORT) = SAI_STATUS_NOT_SUPPORTED \<and>
    ctc_sai_mapping_error_ctc L (err L CTC_E_NH_NOT_EXIST) = SAI_STATUS_FAILURE"
proof -
  note [simp] = ctc_lib_laws.err_eq_iff [OF assms]
  have "e \<notin> range (err L) \<Longrightarrow> e \<noteq> err L c" for c by blast
  then have "e \<notin> range (err L) \<Longrightarrow> ctc_sai_mapping_error_ctc L e = SAI_STATUS_FAILURE"
    by (simp add: ctc_sai_mapping_error_ctc_def)
  then show ?thesis by (simp add: ctc_sai_mapping_error_ctc_def)
qed

theorem db_error_mapping_witness:
  "ctc_sai_mapping_error_ctc ref_lib (- 1000) = SAI_STATUS_FAILURE \<and>
   ctc_sai_mapping_error_ctc ref_lib (- 8) = SAI_STATUS_ITEM_NOT_FOUND"
proof -
  have r: "err ref_lib CTC_E_NOT_EXIST = - 8" by code_simp
  have "err ref_lib c \<noteq> - 1000" for c by (cases c) (simp_all add: ref_lib_def)
  then have "- 1000 \<notin> range (err ref_lib)" by (metis imageE)
  then show ?thesis
    using db_error_mapping [OF ref_laws.ctc_lib_laws_axioms, of "- 1000"] r by simp
qed

end
