(* ===== verification/SAI_Entry.thy ===== *)
theory SAI_Entry
  imports SAI_Db
begin

text \<open>
  The part of \<^verbatim>\<open>centec/src/ctc_sai_db.c\<close> that keeps entries keyed by structures (neighbors, routes,
  multicast groups, labels, translations): the translation of a caller's entry structure to a
  bucket key and back, the tables, and the vectors of the mirror sessions.

  The C functions get the entry as a \<^verbatim>\<open>void*\<close> with a type tag; here the two are one value of
  \<open>sai_entry\<close>, whose constructor is the tag. An address union is 128 bits in memory order, an IPv4
  address in the low 32; the host is little endian, so \<^verbatim>\<open>sal_ntohl\<close> reverses bytes.
\<close>

section \<open>Entry structures\<close>

record sai_neighbor_entry =
  ne_switch_id :: sai_object_id
  ne_rif_id :: sai_object_id
  ne_ip_address :: sai_ip_address

record sai_ip_prefix =
  pf_family :: nat
  pf_addr :: "128 word"
  pf_mask :: "128 word"

record sai_route_entry =
  re_switch_id :: sai_object_id
  re_vr_id :: sai_object_id
  re_destination :: sai_ip_prefix

record sai_l2mc_entry =
  le_switch_id :: sai_object_id
  le_bv_id :: sai_object_id
  le_type :: nat
  le_destination :: sai_ip_address
  le_source :: sai_ip_address

record sai_ipmc_entry =
  pe_switch_id :: sai_object_id
  pe_vr_id :: sai_object_id
  pe_type :: nat
  pe_destination :: sai_ip_address
  pe_source :: sai_ip_address

record sai_mcast_fdb_entry =
  fe_switch_id :: sai_object_id
  fe_mac_address :: sai_mac
  fe_bv_id :: sai_object_id

record sai_inseg_entry =
  ie_switch_id :: sai_object_id
  ie_label :: u32

record sai_nat_fields =
  nf_src_ip :: u32
  nf_dst_ip :: u32
  nf_proto :: u8
  nf_l4_src_port :: u16
  nf_l4_dst_port :: u16

record sai_nat_entry =
  xe_switch_id :: sai_object_id
  xe_vr_id :: sai_object_id
  xe_key :: sai_nat_fields
  xe_mask :: sai_nat_fields

text \<open>\<open>OtherEntry\<close> is a pointer with a tag outside the enumeration.\<close>

datatype sai_entry =
    NeighborEntry sai_neighbor_entry
  | RouteEntry sai_route_entry
  | L2mcEntry sai_l2mc_entry
  | IpmcEntry sai_ipmc_entry
  | McastFdbEntry sai_mcast_fdb_entry
  | AclHwEntry u64
  | AclBindEntry sai_object_id
  | InsegEntry sai_inseg_entry
  | NatEntry sai_nat_entry
  | OtherEntry nat

abbreviation (input) CTC_SAI_DB_ENTRY_TYPE_MAX :: nat where "CTC_SAI_DB_ENTRY_TYPE_MAX \<equiv> 9"

fun entry_type :: "sai_entry \<Rightarrow> nat" where
  "entry_type (NeighborEntry _) = 0"
| "entry_type (RouteEntry _) = 1"
| "entry_type (L2mcEntry _) = 2"
| "entry_type (IpmcEntry _) = 3"
| "entry_type (McastFdbEntry _) = 4"
| "entry_type (AclHwEntry _) = 5"
| "entry_type (AclBindEntry _) = 6"
| "entry_type (InsegEntry _) = 7"
| "entry_type (NatEntry _) = 8"
| "entry_type (OtherEntry n) = CTC_SAI_DB_ENTRY_TYPE_MAX + n"

abbreviation (input) SAI_IP_ADDR_FAMILY_IPV4 :: nat where "SAI_IP_ADDR_FAMILY_IPV4 \<equiv> 0"
abbreviation (input) SAI_IP_ADDR_FAMILY_IPV6 :: nat where "SAI_IP_ADDR_FAMILY_IPV6 \<equiv> 1"
abbreviation (input) ENTRY_TYPE_SG :: nat where "ENTRY_TYPE_SG \<equiv> 0"
abbreviation (input) ENTRY_TYPE_XG :: nat where "ENTRY_TYPE_XG \<equiv> 1"

section \<open>Addresses in memory\<close>

definition bswap32 :: "u32 \<Rightarrow> u32" where
  "bswap32 x = push_bit 24 x OR (push_bit 8 x AND 0xFF0000) OR (drop_bit 8 x AND 0xFF00) OR drop_bit 24 x"

definition mask_words :: "128 word \<Rightarrow> u32 list" where
  "mask_words m = [ucast m, ucast (drop_bit 32 m), ucast (drop_bit 64 m), ucast (drop_bit 96 m)]"

definition words_mask :: "u32 list \<Rightarrow> 128 word" where
  "words_mask ws = ucast (ws ! 0) OR push_bit 32 (ucast (ws ! 1)) OR push_bit 64 (ucast (ws ! 2)) OR
     push_bit 96 (ucast (ws ! 3))"

text \<open>Copying the four bytes of an IPv4 address into a union leaves its other bytes.\<close>

definition set_ip4 :: "128 word \<Rightarrow> 128 word \<Rightarrow> 128 word" where
  "set_ip4 old new = (old AND NOT (mask 32)) OR take_bit 32 new"

definition copy_ip :: "bool \<Rightarrow> 128 word \<Rightarrow> 128 word \<Rightarrow> 128 word" where
  "copy_ip v4 old new = (if v4 then set_ip4 old new else new)"

section \<open>Forwarding identifiers\<close>

definition sai_object_type_query :: "sai_object_id \<Rightarrow> nat" where
  "sai_object_type_query oid = unat (o_type (oid_unpack oid))"

text \<open>\<open>fid\<close> is written as zero before any check; the data of a VLAN object is a \<open>VlanData\<close>.\<close>

definition ctc_sai_bridge_get_fid ::
    "('o, 'e, 'v) ctc_lib \<Rightarrow> sai_object_id \<Rightarrow> ('o, 'e, 'v) sai_state \<Rightarrow> sai_status \<times> u16" where
  "ctc_sai_bridge_get_fid L bv s =
     (let l = out_or 0 (snd (ctc_sai_oid_get_lchip (inited s) bv));
          t = sai_object_type_query bv in
      if t = SAI_OBJECT_TYPE_VLAN then
        (case ctc_sai_db_get_object_property L l bv s of
           None \<Rightarrow> (SAI_STATUS_INVALID_OBJECT_ID, 0)
         | Some d \<Rightarrow> (SAI_STATUS_SUCCESS, case d of VlanData p \<Rightarrow> p | _ \<Rightarrow> 0))
      else if t = SAI_OBJECT_TYPE_BRIDGE then
        (if \<not> ctc_sai_db_check_object_exist L bv s then (SAI_STATUS_INVALID_OBJECT_ID, 0)
         else (SAI_STATUS_SUCCESS, ucast (o_value (snd (ctc_sai_get_ctc_object_id SAI_OBJECT_TYPE_BRIDGE bv)))))
      else (SAI_STATUS_INVALID_PARAMETER, 0))"

section \<open>From an entry to its key\<close>

text \<open>The multicast arms: the address family is stored in one bit, and the bit is tested.\<close>

definition mcast_ip_key ::
    "u16 \<Rightarrow> bool \<Rightarrow> bool \<Rightarrow> nat \<Rightarrow> sai_ip_address \<Rightarrow> sai_ip_address \<Rightarrow> entry_key" where
  "mcast_ip_key vrf is_l2mc is_bridge ty dst src =
     (let ver = of_nat (addr_family dst) :: 1 word; v4 = (ver = 0); sg = (ty = ENTRY_TYPE_SG) in
      McastIpKey vrf (if sg then (if v4 then 32 else 128) else 0) ver is_l2mc False is_bridge
        (if sg then copy_ip v4 0 (addr src) else 0) (copy_ip v4 0 (addr dst)))"

definition route_key :: "('o, 'e, 'v) ctc_lib \<Rightarrow> sai_route_entry \<Rightarrow> entry_key" where
  "route_key L r =
     (let c = snd (ctc_sai_get_ctc_object_id SAI_OBJECT_TYPE_VIRTUAL_ROUTER (re_vr_id r));
          p = re_destination r; v4 = (pf_family p = SAI_IP_ADDR_FAMILY_IPV4);
          m = map bswap32 (mask_words (pf_mask p)) in
      RouteKey (ucast (o_value c))
        (if v4 then ipv4_mask_to_len L (m ! 0) else ipv6_mask_to_len L m)
        (of_nat (pf_family p)) (copy_ip v4 0 (pf_addr p)))"

definition ctc_sai_db_entry_mapping_key ::
    "('o, 'e, 'v) ctc_lib \<Rightarrow> ('o, 'e, 'v) sai_state \<Rightarrow> sai_entry \<Rightarrow> sai_status \<times> ent_key" where
  "ctc_sai_db_entry_mapping_key L s e =
     (case e of
        NeighborEntry n \<Rightarrow>
          (let c = snd (ctc_sai_get_ctc_object_id SAI_OBJECT_TYPE_ROUTER_INTERFACE (ne_rif_id n));
               a = ne_ip_address n in
           (SAI_STATUS_SUCCESS, entry_type e,
            NeighborKey (ucast (o_value c)) (ucast (o_sub_type c)) (of_nat (addr_family a))
              (copy_ip (addr_family a = SAI_IP_ADDR_FAMILY_IPV4) 0 (addr a))))
      | RouteEntry r \<Rightarrow> (SAI_STATUS_SUCCESS, entry_type e, route_key L r)
      | L2mcEntry m \<Rightarrow>
          (let (st, fid) = ctc_sai_bridge_get_fid L (le_bv_id m) s in
           if status_leaves st then (st, entry_type e, McastIpKey 0 0 0 False False False 0 0)
           else (SAI_STATUS_SUCCESS, entry_type e,
                 mcast_ip_key fid True (sai_object_type_query (le_bv_id m) = SAI_OBJECT_TYPE_BRIDGE)
                   (le_type m) (le_destination m) (le_source m)))
      | IpmcEntry m \<Rightarrow>
          (SAI_STATUS_SUCCESS, entry_type e,
           mcast_ip_key (ucast (o_value (snd (ctc_sai_get_ctc_object_id
               SAI_OBJECT_TYPE_VIRTUAL_ROUTER (pe_vr_id m))))) False False
             (pe_type m) (pe_destination m) (pe_source m))
      | McastFdbEntry f \<Rightarrow>
          (let (st, fid) = ctc_sai_bridge_get_fid L (fe_bv_id f) s in
           if status_leaves st then (st, entry_type e, McastFdbKey 0 0 False False)
           else (SAI_STATUS_SUCCESS, entry_type e,
                 McastFdbKey (fe_mac_address f) fid False
                   (sai_object_type_query (fe_bv_id f) = SAI_OBJECT_TYPE_BRIDGE)))
      | AclHwEntry h \<Rightarrow> (SAI_STATUS_SUCCESS, entry_type e, HardwareKey h)
      | AclBindEntry oid \<Rightarrow> (SAI_STATUS_SUCCESS, entry_type e, OidKey oid)
      | InsegEntry i \<Rightarrow> (SAI_STATUS_SUCCESS, entry_type e, MplsKey (ie_label i))
      | NatEntry x \<Rightarrow>
          (let c = snd (ctc_sai_get_ctc_object_id SAI_OBJECT_TYPE_VIRTUAL_ROUTER (xe_vr_id x)); k = xe_key x in
           (SAI_STATUS_SUCCESS, entry_type e,
            NatKey (ucast (o_value c)) (CTC_IP_VER_4 L) (nf_src_ip k) (nf_dst_ip k) (nf_proto k)
              (nf_l4_src_port k) (nf_l4_dst_port k)))
      | OtherEntry _ \<Rightarrow> (SAI_STATUS_SUCCESS, entry_type e, HardwareKey 0))"

section \<open>From a key back to an entry\<close>

definition switch_oid :: "u8 \<Rightarrow> u8 \<Rightarrow> sai_object_id" where
  "switch_oid l gchip = ctc_sai_create_object_id SAI_OBJECT_TYPE_SWITCH l 0 0 (ucast gchip)"

definition bv_oid :: "u8 \<Rightarrow> bool \<Rightarrow> u16 \<Rightarrow> sai_object_id" where
  "bv_oid l is_bridge fid =
     ctc_sai_create_object_id (if is_bridge then SAI_OBJECT_TYPE_BRIDGE else SAI_OBJECT_TYPE_VLAN)
       l 0 0 (ucast fid)"

definition mcast_entry_type :: "u8 \<Rightarrow> nat" where
  "mcast_entry_type len = (if len = 32 \<or> len = 128 then ENTRY_TYPE_SG else ENTRY_TYPE_XG)"

text \<open>
  The out structure keeps what is not written. For an IPv4 route only the first word of the local
  mask array is set; the other three are copied out uninitialised.
\<close>

definition route_of_key ::
    "('o, 'e, 'v) ctc_lib \<Rightarrow> u8 \<Rightarrow> u8 \<Rightarrow> entry_key \<Rightarrow> sai_route_entry \<Rightarrow> sai_route_entry" where
  "route_of_key L l gchip k old =
     (let v4 = (unat (rk_ip_ver k) = SAI_IP_ADDR_FAMILY_IPV4);
          m = (if v4 then [ipv4_len_to_mask L (rk_mask_len k), stack_junk L 1, stack_junk L 2, stack_junk L 3]
               else ipv6_len_to_mask L (rk_mask_len k)) in
      \<lparr> re_switch_id = switch_oid l gchip,
        re_vr_id = ctc_sai_create_object_id SAI_OBJECT_TYPE_VIRTUAL_ROUTER l 0 0 (ucast (rk_vrf k)),
        re_destination =
          \<lparr> pf_family = unat (rk_ip_ver k),
            pf_addr = copy_ip v4 (pf_addr (re_destination old)) (rk_addr k),
            pf_mask = words_mask (map bswap32 m) \<rparr> \<rparr>)"

definition mcast_addrs_of_key ::
    "entry_key \<Rightarrow> sai_ip_address \<Rightarrow> sai_ip_address \<Rightarrow> sai_ip_address \<times> sai_ip_address" where
  "mcast_addrs_of_key k dst src =
     (let v4 = (mk_ip_ver k = 0) in
      (\<lparr> addr_family = unat (mk_ip_ver k), addr = copy_ip v4 (addr dst) (mk_dst k) \<rparr>,
       if mcast_entry_type (mk_src_mask_len k) = ENTRY_TYPE_SG
       then src\<lparr>addr := copy_ip v4 (addr src) (mk_src k)\<rparr> else src))"

definition ctc_sai_db_entry_unmapping_key ::
    "('o, 'e, 'v) ctc_lib \<Rightarrow> u8 \<Rightarrow> entry_key \<Rightarrow> sai_entry \<Rightarrow> ('o, 'e, 'v) sai_state \<Rightarrow>
     (sai_status \<times> sai_entry) \<times> ('o, 'e, 'v) sai_state" where
  "ctc_sai_db_entry_unmapping_key L l k old s =
     (let (r, s) = ext_call L (GetGchipId l) s; g = ucast (out_val 0 r) :: u8;
          new = (case old of
             NeighborEntry n \<Rightarrow>
               (let v4 = (unat (nk_ip_ver k) = SAI_IP_ADDR_FAMILY_IPV4) in
                NeighborEntry
                \<lparr> ne_switch_id = switch_oid l g,
                  ne_rif_id = ctc_sai_create_object_id SAI_OBJECT_TYPE_ROUTER_INTERFACE l
                    (nk_rif_type k) 0 (ucast (nk_l3if k)),
                  ne_ip_address = \<lparr> addr_family = unat (nk_ip_ver k),
                    addr = copy_ip v4 (addr (ne_ip_address n)) (nk_addr k) \<rparr> \<rparr>)
           | RouteEntry r \<Rightarrow> RouteEntry (route_of_key L l g k r)
           | L2mcEntry m \<Rightarrow>
               (let (dst, src) = mcast_addrs_of_key k (le_destination m) (le_source m) in
                L2mcEntry
                \<lparr> le_switch_id = switch_oid l g, le_bv_id = bv_oid l (mk_is_bridge k) (mk_vrf k),
                  le_type = mcast_entry_type (mk_src_mask_len k),
                  le_destination = dst, le_source = src \<rparr>)
           | IpmcEntry m \<Rightarrow>
               (let (dst, src) = mcast_addrs_of_key k (pe_destination m) (pe_source m) in
                IpmcEntry
                (m\<lparr> pe_vr_id := ctc_sai_create_object_id SAI_OBJECT_TYPE_VIRTUAL_ROUTER l 0 0 (ucast (mk_vrf k)),
                   pe_type := mcast_entry_type (mk_src_mask_len k),
                   pe_destination := dst, pe_source := src \<rparr>))
           | McastFdbEntry f \<Rightarrow>
               McastFdbEntry (f\<lparr> fe_bv_id := bv_oid l (fk_is_bridge k) (fk_fid k), fe_mac_address := fk_mac k \<rparr>)
           | AclHwEntry _ \<Rightarrow> AclHwEntry (hk_id k)
           | AclBindEntry _ \<Rightarrow> AclBindEntry (ok_oid k)
           | InsegEntry i \<Rightarrow> InsegEntry (i\<lparr> ie_label := lk_label k \<rparr>)
           | NatEntry x \<Rightarrow>
               NatEntry
               \<lparr> xe_switch_id = switch_oid l g,
                 xe_vr_id = ctc_sai_create_object_id SAI_OBJECT_TYPE_VIRTUAL_ROUTER l 0 0 (ucast (xk_vrf k)),
                 xe_key = \<lparr> nf_src_ip = xk_src_ip k, nf_dst_ip = xk_dst_ip k, nf_proto = xk_proto k,
                   nf_l4_src_port = xk_src_port k, nf_l4_dst_port = xk_dst_port k \<rparr>,
                 xe_mask = \<lparr> nf_src_ip = 0xFFFFFFFF, nf_dst_ip = 0xFFFFFFFF, nf_proto = 0xFF,
                   nf_l4_src_port = 0xFFFF, nf_l4_dst_port = 0xFFFF \<rparr> \<rparr>
           | OtherEntry n \<Rightarrow> OtherEntry n)
      in ((SAI_STATUS_SUCCESS, new), s))"

section \<open>Entry tables\<close>

definition ctc_sai_db_get_db_entry_type :: "nat \<Rightarrow> sai_status \<times> nat option" where
  "ctc_sai_db_get_db_entry_type t =
     (if t = SAI_OBJECT_TYPE_NEIGHBOR_ENTRY then (SAI_STATUS_SUCCESS, Some 0)
      else if t = SAI_OBJECT_TYPE_ROUTE_ENTRY then (SAI_STATUS_SUCCESS, Some 1)
      else if t = SAI_OBJECT_TYPE_L2MC_ENTRY then (SAI_STATUS_SUCCESS, Some 2)
      else if t = SAI_OBJECT_TYPE_IPMC_ENTRY then (SAI_STATUS_SUCCESS, Some 3)
      else if t = SAI_OBJECT_TYPE_MCAST_FDB_ENTRY then (SAI_STATUS_SUCCESS, Some 4)
      else if t = SAI_OBJECT_TYPE_INSEG_ENTRY then (SAI_STATUS_SUCCESS, Some 7)
      else (SAI_STATUS_INVALID_PARAMETER, None))"

text \<open>The operations once the key is known; \<open>entry_lookup\<close> is the data pointer of the bucket.\<close>

definition entry_lookup ::
    "('o, 'e, 'v) ctc_lib \<Rightarrow> u8 \<Rightarrow> ent_key \<Rightarrow> ('o, 'e, 'v) sai_state \<Rightarrow> obj_data option option" where
  "entry_lookup L l k s =
     (if CTC_SAI_MAX_CHIP_NUM \<le> l \<or> CTC_SAI_DB_ENTRY_TYPE_MAX \<le> fst k then None
      else case g_sai_db s l of None \<Rightarrow> None
      | Some db \<Rightarrow> hash_lookup (ent_ops L) (entry_hash db (fst k)) k)"

definition upd_entry_hash ::
    "nat \<Rightarrow> 'e \<Rightarrow> ('o, 'e, 'v) sai_db \<Rightarrow> ('o, 'e, 'v) sai_db" where
  "upd_entry_hash t h db = db\<lparr>entry_hash := (entry_hash db)(t := h)\<rparr>"

definition entry_insert ::
    "('o, 'e, 'v) ctc_lib \<Rightarrow> u8 \<Rightarrow> ent_key \<Rightarrow> obj_data option \<Rightarrow> ('o, 'e, 'v) sai_state \<Rightarrow>
     sai_status \<times> ('o, 'e, 'v) sai_state" where
  "entry_insert L l k d s =
     (let st = SAI_DB_INIT_CHECK s l; H = ent_ops L; t = fst k in
      if st \<noteq> SAI_STATUS_SUCCESS then (st, s)
      else if CTC_SAI_DB_ENTRY_TYPE_MAX \<le> t then (SAI_STATUS_INVALID_PARAMETER, s)
      else case g_sai_db s l of None \<Rightarrow> (st, s)
      | Some db \<Rightarrow>
          if hash_lookup H (entry_hash db t) k \<noteq> None then (SAI_STATUS_ITEM_ALREADY_EXISTS, s)
          else let (ok, s) = mem_malloc L s in
            if \<not> ok then (SAI_STATUS_NO_MEMORY, s)
            else (SAI_STATUS_SUCCESS,
                  set_db l (upd_entry_hash t (hash_insert H (entry_hash db t) k d) db) s))"

definition entry_delete ::
    "('o, 'e, 'v) ctc_lib \<Rightarrow> u8 \<Rightarrow> ent_key \<Rightarrow> ('o, 'e, 'v) sai_state \<Rightarrow>
     sai_status \<times> ('o, 'e, 'v) sai_state" where
  "entry_delete L l k s =
     (let st = SAI_DB_INIT_CHECK s l; H = ent_ops L; t = fst k in
      if st \<noteq> SAI_STATUS_SUCCESS then (st, s)
      else if CTC_SAI_DB_ENTRY_TYPE_MAX \<le> t then (SAI_STATUS_INVALID_PARAMETER, s)
      else case g_sai_db s l of None \<Rightarrow> (st, s)
      | Some db \<Rightarrow>
          case hash_remove H (entry_hash db t) k of
            (h, None) \<Rightarrow> (SAI_STATUS_ITEM_NOT_FOUND, set_db l (upd_entry_hash t h db) s)
          | (h, Some _) \<Rightarrow> (SAI_STATUS_SUCCESS, set_db l (upd_entry_hash t h db) s))"

text \<open>A store through the pointer that a lookup returned.\<close>

definition entry_store ::
    "('o, 'e, 'v) ctc_lib \<Rightarrow> u8 \<Rightarrow> ent_key \<Rightarrow> obj_data option \<Rightarrow> ('o, 'e, 'v) sai_state \<Rightarrow>
     ('o, 'e, 'v) sai_state" where
  "entry_store L l k d s =
     (case g_sai_db s l of None \<Rightarrow> s\<lparr>fault := True\<rparr>
      | Some db \<Rightarrow>
          set_db l (upd_entry_hash (fst k) (hash_write (ent_ops L) (entry_hash db (fst k)) k d) db) s)"

text \<open>The public functions map the key first and ignore the status of that, as the code does.\<close>

definition ctc_sai_db_entry_property_get_property ::
    "('o, 'e, 'v) ctc_lib \<Rightarrow> u8 \<Rightarrow> sai_entry \<Rightarrow> ('o, 'e, 'v) sai_state \<Rightarrow>
     (ent_key \<times> obj_data option) option" where
  "ctc_sai_db_entry_property_get_property L l e s =
     (let k = snd (ctc_sai_db_entry_mapping_key L s e) in
      map_option (\<lambda>d. (k, d)) (entry_lookup L l k s))"

definition ctc_sai_db_entry_property_get ::
    "('o, 'e, 'v) ctc_lib \<Rightarrow> u8 \<Rightarrow> sai_entry \<Rightarrow> ('o, 'e, 'v) sai_state \<Rightarrow> obj_data option" where
  "ctc_sai_db_entry_property_get L l e s =
     (case entry_lookup L l (snd (ctc_sai_db_entry_mapping_key L s e)) s of
        None \<Rightarrow> None | Some d \<Rightarrow> d)"

definition ctc_sai_db_entry_property_add ::
    "('o, 'e, 'v) ctc_lib \<Rightarrow> u8 \<Rightarrow> sai_entry \<Rightarrow> obj_data option \<Rightarrow> ('o, 'e, 'v) sai_state \<Rightarrow>
     sai_status \<times> ('o, 'e, 'v) sai_state" where
  "ctc_sai_db_entry_property_add L l e d s =
     entry_insert L l (snd (ctc_sai_db_entry_mapping_key L s e)) d s"

definition ctc_sai_db_entry_property_remove ::
    "('o, 'e, 'v) ctc_lib \<Rightarrow> u8 \<Rightarrow> sai_entry \<Rightarrow> ('o, 'e, 'v) sai_state \<Rightarrow>
     sai_status \<times> ('o, 'e, 'v) sai_state" where
  "ctc_sai_db_entry_property_remove L l e s =
     entry_delete L l (snd (ctc_sai_db_entry_mapping_key L s e)) s"

definition ctc_sai_db_entry_property_traverse ::
    "('o, 'e, 'v) ctc_lib \<Rightarrow> u8 \<Rightarrow> nat \<Rightarrow>
     (ent_key \<times> obj_data option \<Rightarrow> ('o, 'e, 'v) sai_state \<times> 'a \<Rightarrow>
      int \<times> ('o, 'e, 'v) sai_state \<times> 'a) \<Rightarrow>
     ('o, 'e, 'v) sai_state \<times> 'a \<Rightarrow> sai_status \<times> ('o, 'e, 'v) sai_state \<times> 'a" where
  "ctc_sai_db_entry_property_traverse L l t f sa =
     (let st = SAI_DB_INIT_CHECK (fst sa) l in
      if st \<noteq> SAI_STATUS_SUCCESS then (st, sa)
      else if CTC_SAI_DB_ENTRY_TYPE_MAX \<le> t then (SAI_STATUS_INVALID_PARAMETER, sa)
      else case g_sai_db (fst sa) l of None \<Rightarrow> (st, sa)
      | Some db \<Rightarrow>
          let (r, sa') = hash_traverse (through_stops L) (traverse_ret L) f
                           (hash_items (ent_ops L) (entry_hash db t)) sa in
          if status_leaves r then (r, sa') else (SAI_STATUS_SUCCESS, sa'))"

definition ctc_sai_db_entry_property_get_cnt ::
    "('o, 'e, 'v) ctc_lib \<Rightarrow> u8 \<Rightarrow> nat \<Rightarrow> ('o, 'e, 'v) sai_state \<Rightarrow> sai_status \<times> u32 option" where
  "ctc_sai_db_entry_property_get_cnt L l t s =
     (let st = SAI_DB_INIT_CHECK s l in
      if st \<noteq> SAI_STATUS_SUCCESS then (st, None)
      else if CTC_SAI_DB_ENTRY_TYPE_MAX \<le> t then (SAI_STATUS_INVALID_PARAMETER, None)
      else case g_sai_db s l of None \<Rightarrow> (st, None)
      | Some db \<Rightarrow> (SAI_STATUS_SUCCESS, Some (hash_count (ent_ops L) (entry_hash db t))))"

section \<open>Vectors\<close>

definition upd_vector :: "nat \<Rightarrow> 'v \<Rightarrow> ('o, 'e, 'v) sai_db \<Rightarrow> ('o, 'e, 'v) sai_db" where
  "upd_vector t v db = db\<lparr>db_vector := (db_vector db)(t := v)\<rparr>"

abbreviation (input) CTC_SAI_DB_VECTOR_TYPE_MAX :: nat where "CTC_SAI_DB_VECTOR_TYPE_MAX \<equiv> 1"

definition ctc_sai_db_vector_get ::
    "('o, 'e, 'v) ctc_lib \<Rightarrow> u8 \<Rightarrow> nat \<Rightarrow> u32 \<Rightarrow> ('o, 'e, 'v) sai_state \<Rightarrow> obj_data option" where
  "ctc_sai_db_vector_get L l t i s =
     (if CTC_SAI_MAX_CHIP_NUM \<le> l \<or> CTC_SAI_DB_VECTOR_TYPE_MAX \<le> t then None
      else case g_sai_db s l of None \<Rightarrow> None
      | Some db \<Rightarrow> case vec_get (vec_ops L) (db_vector db t) i of None \<Rightarrow> None | Some d \<Rightarrow> d)"

definition ctc_sai_db_vector_add ::
    "('o, 'e, 'v) ctc_lib \<Rightarrow> u8 \<Rightarrow> nat \<Rightarrow> u32 \<Rightarrow> obj_data option \<Rightarrow> ('o, 'e, 'v) sai_state \<Rightarrow>
     sai_status \<times> ('o, 'e, 'v) sai_state" where
  "ctc_sai_db_vector_add L l t i d s =
     (let st = SAI_DB_INIT_CHECK s l in
      if st \<noteq> SAI_STATUS_SUCCESS then (st, s)
      else if CTC_SAI_DB_VECTOR_TYPE_MAX \<le> t then (SAI_STATUS_INVALID_PARAMETER, s)
      else case g_sai_db s l of None \<Rightarrow> (st, s)
      | Some db \<Rightarrow>
          if vec_get (vec_ops L) (db_vector db t) i \<noteq> None then (SAI_STATUS_ITEM_ALREADY_EXISTS, s)
          else let (ok, s) = mem_malloc L s in
            if \<not> ok then (SAI_STATUS_NO_MEMORY, s)
            else let (added, v) = vec_add (vec_ops L) (db_vector db t) i d;
                     s = set_db l (upd_vector t v db) s in
              if \<not> added then (SAI_STATUS_FAILURE, s) else (SAI_STATUS_SUCCESS, s))"

definition ctc_sai_db_vector_remove ::
    "('o, 'e, 'v) ctc_lib \<Rightarrow> u8 \<Rightarrow> nat \<Rightarrow> u32 \<Rightarrow> ('o, 'e, 'v) sai_state \<Rightarrow>
     sai_status \<times> ('o, 'e, 'v) sai_state" where
  "ctc_sai_db_vector_remove L l t i s =
     (let st = SAI_DB_INIT_CHECK s l in
      if st \<noteq> SAI_STATUS_SUCCESS then (st, s)
      else if CTC_SAI_DB_VECTOR_TYPE_MAX \<le> t then (SAI_STATUS_INVALID_PARAMETER, s)
      else case g_sai_db s l of None \<Rightarrow> (st, s)
      | Some db \<Rightarrow>
          let (v, d) = vec_del (vec_ops L) (db_vector db t) i; s = set_db l (upd_vector t v db) s in
          if d = None then (SAI_STATUS_ITEM_NOT_FOUND, s) else (SAI_STATUS_SUCCESS, s))"

definition ctc_sai_db_vector_traverse ::
    "('o, 'e, 'v) ctc_lib \<Rightarrow> u8 \<Rightarrow> nat \<Rightarrow>
     (u32 \<times> obj_data option \<Rightarrow> ('o, 'e, 'v) sai_state \<times> 'a \<Rightarrow>
      int \<times> ('o, 'e, 'v) sai_state \<times> 'a) \<Rightarrow>
     ('o, 'e, 'v) sai_state \<times> 'a \<Rightarrow> sai_status \<times> ('o, 'e, 'v) sai_state \<times> 'a" where
  "ctc_sai_db_vector_traverse L l t f sa =
     (let st = SAI_DB_INIT_CHECK (fst sa) l in
      if st \<noteq> SAI_STATUS_SUCCESS then (st, sa)
      else if CTC_SAI_DB_VECTOR_TYPE_MAX \<le> t then (SAI_STATUS_INVALID_PARAMETER, sa)
      else case g_sai_db (fst sa) l of None \<Rightarrow> (st, sa)
      | Some db \<Rightarrow>
          let (r, sa') = hash_traverse (traverse_stops L) (traverse_ret L) f
                           (vec_items (vec_ops L) (db_vector db t)) sa in
          if status_leaves r then (r, sa') else (SAI_STATUS_SUCCESS, sa'))"

section \<open>Bytes and words\<close>

lemma no_high_bit: "32 \<le> n \<Longrightarrow> \<not> bit (x :: u32) n"
  by (auto dest: bit_imp_le_length)

lemma bswap32_bytes:
  assumes "r < 8"
  shows "bit (bswap32 x) r = bit x (24 + r)" "bit (bswap32 x) (8 + r) = bit x (16 + r)"
    "bit (bswap32 x) (16 + r) = bit x (8 + r)" "bit (bswap32 x) (24 + r) = bit x r"
proof -
  have m: "(0xFF0000 :: u32) = push_bit 16 (mask 8)" "(0xFF00 :: u32) = push_bit 8 (mask 8)"
    by (simp_all add: mask_eq_exp_minus_1 push_bit_eq_mult)
  show "bit (bswap32 x) r = bit x (24 + r)" "bit (bswap32 x) (8 + r) = bit x (16 + r)"
    "bit (bswap32 x) (16 + r) = bit x (8 + r)" "bit (bswap32 x) (24 + r) = bit x r"
    using assms unfolding bswap32_def m by (auto simp: bit_simps no_high_bit add.commute)
qed

lemma byte_cases:
  assumes "n < (32 :: nat)"
  obtains r where "r < 8" "n = r" | r where "r < 8" "n = 8 + r" | r where "r < 8" "n = 16 + r"
    | r where "r < 8" "n = 24 + r"
proof -
  have "n < 8 \<or> n - 8 < 8 \<and> n = 8 + (n - 8) \<or> n - 16 < 8 \<and> n = 16 + (n - 16) \<or>
      n - 24 < 8 \<and> n = 24 + (n - 24)" using assms by arith
  then show ?thesis using that by metis
qed

lemma bswap32_bswap32 [simp]: "bswap32 (bswap32 x) = x"
proof (rule bit_word_eqI)
  fix n assume "n < LENGTH(32)"
  then have "n < 32" by simp
  then show "bit (bswap32 (bswap32 x)) n = bit x n"
    by (cases rule: byte_cases) (simp_all add: bswap32_bytes)
qed

lemma mask_words_mask:
  "length ws = 4 \<Longrightarrow> mask_words (words_mask ws) = ws"
proof -
  assume "length ws = 4"
  then obtain a b c d where ws: "ws = [a, b, c, d]"
    by (auto simp: length_Suc_conv numeral_eq_Suc)
  show ?thesis
    unfolding ws mask_words_def words_mask_def
    by (auto intro!: bit_word_eqI simp: bit_simps no_high_bit)
qed

lemma copy_ip_twice: "copy_ip v4 a (copy_ip v4 b x) = copy_ip v4 a x"
  by (auto simp: copy_ip_def set_ip4_def intro!: bit_word_eqI) (auto simp: bit_simps)

lemma copy_ip_into_zero: "copy_ip v4 0 (copy_ip v4 old x) = copy_ip v4 0 x"
  by (auto simp: copy_ip_def set_ip4_def intro!: bit_word_eqI) (auto simp: bit_simps)


section \<open>The entry tables as a store\<close>

lemma upd_entry_hash_simps [simp]:
  "entry_hash (upd_entry_hash t h db) = (entry_hash db)(t := h)"
  "oid_hash (upd_entry_hash t h db) = oid_hash db" "db_vector (upd_entry_hash t h db) = db_vector db"
  by (simp_all add: upd_entry_hash_def)

lemma upd_vector_simps [simp]:
  "db_vector (upd_vector t v db) = (db_vector db)(t := v)"
  "oid_hash (upd_vector t v db) = oid_hash db" "entry_hash (upd_vector t v db) = entry_hash db"
  by (simp_all add: upd_vector_def)

context ctc_lib_laws
begin

lemma db_ok_entry:
  "db_ok L db \<Longrightarrow> t < CTC_SAI_DB_ENTRY_TYPE_MAX \<Longrightarrow> hash_ok (ent_ops L) (entry_hash db t)"
  by (simp add: db_ok_def)

lemma db_ok_upd_entry:
  "db_ok L db \<Longrightarrow> hash_ok (ent_ops L) h \<Longrightarrow> db_ok L (upd_entry_hash t h db)"
  by (auto simp: db_ok_def)

lemma entry_lookup_set:
  assumes "chip_inv L l s" "fst k < CTC_SAI_DB_ENTRY_TYPE_MAX"
  shows "entry_lookup L l k (set_db l (upd_entry_hash t h db) s) =
    hash_lookup (ent_ops L) (if fst k = t then h else entry_hash db (fst k)) k"
  using assms by (auto simp: entry_lookup_def not_le [symmetric] elim!: chip_inv_obtain)

lemma entry_lookup_eq:
  assumes "g_sai_db s l = Some db" "l < CTC_SAI_MAX_CHIP_NUM" "fst k < CTC_SAI_DB_ENTRY_TYPE_MAX"
  shows "entry_lookup L l k s = hash_lookup (ent_ops L) (entry_hash db (fst k)) k"
  using assms by (simp add: entry_lookup_def not_le [symmetric])

lemma entry_lookup_valid: "entry_lookup L l k s \<noteq> None \<Longrightarrow> fst k < CTC_SAI_DB_ENTRY_TYPE_MAX"
  by (auto simp: entry_lookup_def split: if_splits)

lemma entry_insert_cases:
  assumes inv: "chip_inv L l s"
  shows "entry_insert L l k d s =
    (if CTC_SAI_DB_ENTRY_TYPE_MAX \<le> fst k then (SAI_STATUS_INVALID_PARAMETER, s)
     else if entry_lookup L l k s \<noteq> None then (SAI_STATUS_ITEM_ALREADY_EXISTS, s)
     else if out_val 0 (env L (trace s) MemAlloc) = 0 then (SAI_STATUS_NO_MEMORY, snd (mem_malloc L s))
     else (SAI_STATUS_SUCCESS,
           set_db l (upd_entry_hash (fst k)
             (hash_insert (ent_ops L) (entry_hash (the (g_sai_db s l)) (fst k)) k d)
             (the (g_sai_db s l))) (snd (mem_malloc L s))))"
  using inv
  by (auto simp: entry_insert_def entry_lookup_eq Let_def case_prod_beta elim!: chip_inv_obtain)

lemma entry_delete_cases:
  assumes inv: "chip_inv L l s"
  shows "entry_delete L l k s =
    (if CTC_SAI_DB_ENTRY_TYPE_MAX \<le> fst k then (SAI_STATUS_INVALID_PARAMETER, s)
     else (if entry_lookup L l k s = None then SAI_STATUS_ITEM_NOT_FOUND else SAI_STATUS_SUCCESS,
           set_db l (upd_entry_hash (fst k)
             (fst (hash_remove (ent_ops L) (entry_hash (the (g_sai_db s l)) (fst k)) k))
             (the (g_sai_db s l))) s))"
proof -
  obtain db where db: "g_sai_db s l = Some db" "db_ok L db" "l < CTC_SAI_MAX_CHIP_NUM"
    "SAI_DB_INIT_CHECK s l = SAI_STATUS_SUCCESS" using inv by (rule chip_inv_obtain)
  obtain h r where hr: "hash_remove (ent_ops L) (entry_hash db (fst k)) k = (h, r)" by (rule prod.exhaust)
  have "fst k < CTC_SAI_DB_ENTRY_TYPE_MAX \<Longrightarrow> r = entry_lookup L l k s"
    using ent.remove_result [OF db_ok_entry [OF db(2)], of "fst k" k] hr entry_lookup_eq [OF db(1,3)]
    by simp
  then show ?thesis using db hr by (auto simp: entry_delete_def split: option.splits)
qed

lemma entry_insert_get:
  assumes inv: "chip_inv L l s" and ok: "fst (entry_insert L l k d s) = 0"
  shows "entry_lookup L l k' (snd (entry_insert L l k d s)) =
      (if k' = k then Some d else entry_lookup L l k' s)" (is ?A)
    and "chip_inv L l (snd (entry_insert L l k d s))" (is ?B)
proof -
  obtain db where db: "g_sai_db s l = Some db" "db_ok L db" "l < CTC_SAI_MAX_CHIP_NUM"
    using inv by (rule chip_inv_obtain)
  have k: "fst k < CTC_SAI_DB_ENTRY_TYPE_MAX" and new: "entry_lookup L l k s = None"
    using ok by (auto simp: entry_insert_cases [OF inv] split: if_splits)
  note h = db_ok_entry [OF db(2) k]
  have lk: "hash_lookup (ent_ops L) (entry_hash db (fst k)) k = None"
    using new entry_lookup_eq [OF db(1,3) k] by simp
  have inv': "chip_inv L l (snd (mem_malloc L s))" using inv by simp
  show ?B
    using ok inv' k new db(1) db_ok_upd_entry [OF db(2) ent.insert_ok [OF h lk]]
    by (auto simp: entry_insert_cases [OF inv] chip_inv_set_db split: if_splits)
  show ?A
  proof (cases "fst k' < CTC_SAI_DB_ENTRY_TYPE_MAX")
    case True
    then show ?thesis
      using ok k new entry_lookup_eq [OF db(1,3) True]
      by (auto simp: entry_insert_cases [OF inv] db entry_lookup_set [OF inv'] ent.lookup_insert [OF h lk]
          split: if_splits)
  next
    case False
    then show ?thesis using k by (auto simp: entry_lookup_def)
  qed
qed

lemma entry_delete_get:
  assumes inv: "chip_inv L l s" and k: "fst k < CTC_SAI_DB_ENTRY_TYPE_MAX"
  shows "entry_lookup L l k' (snd (entry_delete L l k s)) =
      (if k' = k then None else entry_lookup L l k' s)" (is ?A)
    and "chip_inv L l (snd (entry_delete L l k s))" (is ?B)
proof -
  obtain db where db: "g_sai_db s l = Some db" "db_ok L db" "l < CTC_SAI_MAX_CHIP_NUM"
    using inv by (rule chip_inv_obtain)
  note h = db_ok_entry [OF db(2) k]
  show ?B
    using inv k db(1) db_ok_upd_entry [OF db(2) ent.remove_ok [OF h]]
    by (simp add: entry_delete_cases [OF inv] chip_inv_set_db)
  show ?A
  proof (cases "fst k' < CTC_SAI_DB_ENTRY_TYPE_MAX")
    case True
    then show ?thesis
      using k entry_lookup_eq [OF db(1,3) True]
      by (auto simp: entry_delete_cases [OF inv] db entry_lookup_set [OF inv] ent.lookup_remove [OF h])
  next
    case False
    then show ?thesis using k by (auto simp: entry_lookup_def)
  qed
qed

lemma entry_store_get:
  assumes inv: "chip_inv L l s" and old: "entry_lookup L l k s \<noteq> None"
  shows "entry_lookup L l k' (entry_store L l k d s) =
      (if k' = k then Some d else entry_lookup L l k' s)" (is ?A)
    and "chip_inv L l (entry_store L l k d s)" (is ?B)
proof -
  obtain db where db: "g_sai_db s l = Some db" "db_ok L db" "l < CTC_SAI_MAX_CHIP_NUM"
    using inv by (rule chip_inv_obtain)
  have k: "fst k < CTC_SAI_DB_ENTRY_TYPE_MAX" by (rule entry_lookup_valid [OF old])
  note h = db_ok_entry [OF db(2) k]
  have lk: "hash_lookup (ent_ops L) (entry_hash db (fst k)) k \<noteq> None"
    using old entry_lookup_eq [OF db(1,3) k] by simp
  show ?B
    using inv db_ok_upd_entry [OF db(2) ent.write_ok [OF h lk]]
    by (simp add: entry_store_def db chip_inv_set_db)
  show ?A
  proof (cases "fst k' < CTC_SAI_DB_ENTRY_TYPE_MAX")
    case True
    then show ?thesis
      using entry_lookup_eq [OF db(1,3) True]
      by (auto simp: entry_store_def db entry_lookup_set [OF inv] ent.lookup_write [OF h lk])
  next
    case False
    then show ?thesis using k by (auto simp: entry_lookup_def)
  qed
qed

end

sublocale chip_db \<subseteq> entries: obj_store
  "\<lambda>k s. entry_lookup L l k s" "\<lambda>k d s. entry_insert L l k d s" "\<lambda>k s. entry_delete L l k s"
  "\<lambda>k d s. entry_store L l k d s" "\<lambda>s. chip_inv L l s" "\<lambda>k. fst k < CTC_SAI_DB_ENTRY_TYPE_MAX"
proof unfold_locales
  fix k k' :: ent_key and s and d :: "obj_data option"
  show "entry_lookup L l k s = Some d \<Longrightarrow> fst k < CTC_SAI_DB_ENTRY_TYPE_MAX"
    using entry_lookup_valid [of l k s] by simp
  assume inv: "chip_inv L l s"
  show "fst (entry_insert L l k d s) = 0 \<Longrightarrow> entry_lookup L l k' (snd (entry_insert L l k d s)) =
      (if k' = k then Some d else entry_lookup L l k' s)"
    by (rule entry_insert_get(1) [OF inv])
  show "fst (entry_insert L l k d s) = 0 \<Longrightarrow> entry_lookup L l k s = None"
    by (auto simp: entry_insert_cases [OF inv] split: if_splits)
  show "fst (entry_insert L l k d s) \<noteq> 0 \<Longrightarrow>
      entry_lookup L l k' (snd (entry_insert L l k d s)) = entry_lookup L l k' s"
    by (auto simp: entry_insert_cases [OF inv] entry_lookup_def split: if_splits)
  show "entry_lookup L l k s \<noteq> None \<Longrightarrow>
      fst (entry_insert L l k d s) = SAI_STATUS_ITEM_ALREADY_EXISTS"
    using entry_lookup_valid [of l k s] by (auto simp: entry_insert_cases [OF inv])
  show "entry_lookup L l k s \<noteq> None \<Longrightarrow> fst (entry_delete L l k s) = 0"
    using entry_lookup_valid [of l k s] by (auto simp: entry_delete_cases [OF inv])
  show "fst k < CTC_SAI_DB_ENTRY_TYPE_MAX \<Longrightarrow> entry_lookup L l k s = None \<Longrightarrow>
      fst (entry_delete L l k s) = SAI_STATUS_ITEM_NOT_FOUND"
    by (auto simp: entry_delete_cases [OF inv])
  show "fst k < CTC_SAI_DB_ENTRY_TYPE_MAX \<Longrightarrow> entry_lookup L l k' (snd (entry_delete L l k s)) =
      (if k' = k then None else entry_lookup L l k' s)"
    by (rule entry_delete_get(1) [OF inv])
  show "entry_lookup L l k s \<noteq> None \<Longrightarrow> entry_lookup L l k' (entry_store L l k d s) =
      (if k' = k then Some d else entry_lookup L l k' s)"
    by (rule entry_store_get(1) [OF inv])
  show "chip_inv L l (snd (entry_insert L l k d s))"
  proof (cases "fst (entry_insert L l k d s) = 0")
    case True
    then show ?thesis by (rule entry_insert_get(2) [OF inv])
  next
    case False
    then show ?thesis using inv by (auto simp: entry_insert_cases [OF inv])
  qed
  show "chip_inv L l (snd (entry_delete L l k s))"
    using inv entry_delete_get(2) [OF inv, of k]
    by (cases "fst k < CTC_SAI_DB_ENTRY_TYPE_MAX") (simp_all add: entry_delete_cases [OF inv])
  show "entry_lookup L l k s \<noteq> None \<Longrightarrow> chip_inv L l (entry_store L l k d s)"
    by (rule entry_store_get(2) [OF inv])
qed


section \<open>Keys and back\<close>

lemma narrow_back [simp]:
  "(ucast (ucast (x :: u16) :: u32) :: u16) = x" "(ucast (ucast (y :: 3 word) :: u8) :: 3 word) = y"
  by (rule bit_word_eqI; simp add: bit_simps)+

text \<open>
  The library's macros between a prefix length and a mask: a mask made from a length has that
  length, lengths of IPv4 masks are at most 32 and of IPv6 masks at most 128.
\<close>

locale ip_mask_laws =
  fixes L :: "('o, 'e, 'v) ctc_lib"
  assumes v4_len: "n \<le> 32 \<Longrightarrow> ipv4_mask_to_len L (ipv4_len_to_mask L n) = n"
    and v4_bound: "ipv4_mask_to_len L m \<le> 32"
    and v6_len: "n \<le> 128 \<Longrightarrow> ipv6_mask_to_len L (ipv6_len_to_mask L n) = n"
    and v6_words: "length (ipv6_len_to_mask L n) = 4"
    and v6_bound: "length ws = 4 \<Longrightarrow> ipv6_mask_to_len L ws \<le> 128"
begin

lemma route_key_back:
  assumes fam: "pf_family (re_destination r) < 2"
  shows "route_key L (route_of_key L l g (route_key L r) old) = route_key L r"
proof -
  have f: "unat (of_nat (pf_family (re_destination r)) :: u8) = pf_family (re_destination r)"
    using fam by (simp add: unat_of_nat)
  have b: "ipv6_mask_to_len L (map bswap32 (mask_words m)) \<le> 128" for m
    by (rule v6_bound) (simp add: mask_words_def)
  show ?thesis
    using fam v6_words
    by (auto simp: route_key_def route_of_key_def Let_def ctc_sai_get_ctc_object_id_def create_fields f
        mask_words_mask v4_len v4_bound v6_len b copy_ip_into_zero copy_ip_twice comp_def)
qed

end

lemma u8_upto_cases:
  assumes "list_all (\<lambda>i. P (of_nat i)) [0..<Suc k]" and "n \<le> (of_nat k :: u8)" and "k < 256"
  shows "P n"
proof -
  have "unat n < Suc k" using assms(2,3) by (simp add: word_le_nat_alt unat_of_nat)
  then have "P (of_nat (unat n))" using assms(1) unfolding list_all_iff by fastforce
  then show ?thesis by simp
qed

lemma ref_mask_len: "unat (ref_mask_to_len m) \<le> 32"
proof -
  have "length (takeWhile (bit m) (rev [0..<32])) \<le> 32"
    using length_takeWhile_le [of "bit m" "rev [0..<32]"] by simp
  then show ?thesis by (simp add: ref_mask_to_len_def unat_of_nat)
qed

lemma u8_sum4: "unat a \<le> 32 \<Longrightarrow> unat b \<le> 32 \<Longrightarrow> unat c \<le> 32 \<Longrightarrow> unat d \<le> 32 \<Longrightarrow>
    unat (a + (b + (c + (d :: u8)))) \<le> 128"
  by (simp add: unat_word_ariths)

lemma ref_v4_len:
  assumes "n \<le> 32"
  shows "ref_mask_to_len (ref_len_to_mask n) = n"
proof (rule u8_upto_cases)
  show "list_all (\<lambda>i. ref_mask_to_len (ref_len_to_mask (of_nat i)) = of_nat i) [0..<Suc 32]"
    by code_simp
qed (use assms in simp_all)

lemma ref_split_sum:
  assumes "n \<le> 128"
  shows "sum_list (ref_split_len n) = n"
proof (rule u8_upto_cases)
  show "list_all (\<lambda>i. sum_list (ref_split_len (of_nat i)) = of_nat i) [0..<Suc 128]"
    by code_simp
qed (use assms in simp_all)

lemma ref_v6_len:
  assumes "n \<le> 128"
  shows "sum_list (map ref_mask_to_len (map ref_len_to_mask (ref_split_len n))) = n"
proof -
  have "of_nat (min 32 k) \<le> (32 :: u8)" for k
    by (simp add: word_le_nat_alt unat_of_nat)
  then have "map ref_mask_to_len (map ref_len_to_mask (ref_split_len n)) = ref_split_len n"
    by (auto simp: ref_split_len_def ref_v4_len)
  then show ?thesis using ref_split_sum [OF assms] by simp
qed

interpretation ref_masks: ip_mask_laws ref_lib
proof
  show "ipv4_mask_to_len ref_lib (ipv4_len_to_mask ref_lib n) = n" if "n \<le> 32" for n
    using ref_v4_len [OF that] by (simp add: ref_lib_def)
  show "ipv6_mask_to_len ref_lib (ipv6_len_to_mask ref_lib n) = n" if "n \<le> 128" for n
    using ref_v6_len [OF that] by (simp add: ref_lib_def)
  show "ipv4_mask_to_len ref_lib m \<le> 32" for m
    using ref_mask_len [of m] by (simp add: ref_lib_def word_le_nat_alt)
  show "length (ipv6_len_to_mask ref_lib n) = 4" for n
    by (simp add: ref_lib_def ref_split_len_def)
  show "ipv6_mask_to_len ref_lib ws \<le> 128" if len: "length ws = 4" for ws
  proof -
    obtain a b c d where ws: "ws = [a, b, c, d]"
      using len by (auto simp: length_Suc_conv numeral_eq_Suc)
    show ?thesis
      using u8_sum4 [OF ref_mask_len [of a] ref_mask_len [of b] ref_mask_len [of c] ref_mask_len [of d]]
      by (simp add: ws ref_lib_def word_le_nat_alt)
  qed
qed

section \<open>Properties\<close>

lemma mapping_key_type [simp]: "fst (snd (ctc_sai_db_entry_mapping_key L s e)) = entry_type e"
  by (cases e) (simp_all add: ctc_sai_db_entry_mapping_key_def Let_def case_prod_beta)

lemma mapping_key_frame:
  assumes "\<And>l. map_option oid_hash (g_sai_db s' l) = map_option oid_hash (g_sai_db s l)"
  shows "ctc_sai_db_entry_mapping_key L s' e = ctc_sai_db_entry_mapping_key L s e"
proof -
  have i: "inited s' = inited s"
  proof
    show "inited s' l = inited s l" for l
      using assms [of l] by (cases "g_sai_db s l") (auto simp: inited_def)
  qed
  have g: "ctc_sai_db_get_object_property L l oid s' = ctc_sai_db_get_object_property L l oid s" for l oid
    using assms [of l] by (auto simp: ctc_sai_db_get_object_property_def split: option.splits)
  have c: "ctc_sai_db_check_object_exist L oid s' = ctc_sai_db_check_object_exist L oid s" for oid
    using assms [of "out_or 0 (snd (ctc_sai_oid_get_lchip (inited s) oid))"]
    by (auto simp: ctc_sai_db_check_object_exist_def i Let_def split: option.splits)
  have "ctc_sai_bridge_get_fid L bv s' = ctc_sai_bridge_get_fid L bv s" for bv
    by (simp add: ctc_sai_bridge_get_fid_def Let_def i g c)
  then show ?thesis by (cases e) (simp_all add: ctc_sai_db_entry_mapping_key_def)
qed

lemma entry_insert_oid:
  "map_option oid_hash (g_sai_db (snd (entry_insert L l k d s)) l') = map_option oid_hash (g_sai_db s l')"
  by (auto simp: entry_insert_def Let_def case_prod_beta split: option.splits)

lemma entry_delete_oid:
  "map_option oid_hash (g_sai_db (snd (entry_delete L l k s)) l') = map_option oid_hash (g_sai_db s l')"
  by (auto simp: entry_delete_def Let_def split: option.splits prod.splits)

lemma entry_insert_inited:
  "state_ok L s \<Longrightarrow> fst (entry_insert L l k d s) = 0 \<Longrightarrow> chip_inv L l s"
  using init_check_cases [of s l] by (auto simp: entry_insert_def chip_inv_def Let_def split: if_splits)

context chip_db
begin

lemma entry_add_remove:
  assumes inv: "chip_inv L l s"
    and add: "ctc_sai_db_entry_property_add L l e (Some d) s = (SAI_STATUS_SUCCESS, s1)"
    and rem: "ctc_sai_db_entry_property_remove L l e s1 = (st, s2)"
  shows "ctc_sai_db_entry_property_get L l e' s1 =
      (if snd (ctc_sai_db_entry_mapping_key L s e') = snd (ctc_sai_db_entry_mapping_key L s e)
       then Some d else ctc_sai_db_entry_property_get L l e' s)"
    and "st = SAI_STATUS_SUCCESS"
    and "ctc_sai_db_entry_property_get L l e' s2 = ctc_sai_db_entry_property_get L l e' s"
proof -
  let ?k = "snd (ctc_sai_db_entry_mapping_key L s e)"
  have a: "fst (entry_insert L l ?k (Some d) s) = 0" and s1: "s1 = snd (entry_insert L l ?k (Some d) s)"
    using add by (simp_all add: ctc_sai_db_entry_property_add_def)
  have m1: "ctc_sai_db_entry_mapping_key L s1 = ctc_sai_db_entry_mapping_key L s"
    by (rule ext, rule mapping_key_frame) (simp add: s1 entry_insert_oid)
  have s2: "entry_delete L l ?k s1 = (st, s2)"
    using rem by (simp add: ctc_sai_db_entry_property_remove_def m1)
  have m2: "ctc_sai_db_entry_mapping_key L s2 = ctc_sai_db_entry_mapping_key L s1"
    using entry_delete_oid [of L l ?k s1] by (intro ext mapping_key_frame) (simp add: s2)
  show "ctc_sai_db_entry_property_get L l e' s1 =
      (if snd (ctc_sai_db_entry_mapping_key L s e') = ?k then Some d
       else ctc_sai_db_entry_property_get L l e' s)"
    using entries.add_new [OF inv a] by (simp add: ctc_sai_db_entry_property_get_def m1 s1 [symmetric])
  show "st = SAI_STATUS_SUCCESS" using entries.add_then_rem(2) [OF inv a] s2 s1 by simp
  have "entry_lookup L l k' s2 = entry_lookup L l k' s" for k'
    using entries.add_then_rem(1) [OF inv a, of k'] s2 s1 by simp
  then show "ctc_sai_db_entry_property_get L l e' s2 = ctc_sai_db_entry_property_get L l e' s"
    by (simp add: ctc_sai_db_entry_property_get_def m1 m2)
qed

end

text \<open>
  Property C9: entries are found by their key. After a successful addition every entry structure
  that maps to the same key finds the new data and every other one what it found before; removing
  the entry succeeds and restores all lookups.
\<close>

theorem db_entry_add_remove:
  assumes "ctc_lib_laws L" and "state_ok L s"
    and "ctc_sai_db_entry_property_add L l e (Some d) s = (SAI_STATUS_SUCCESS, s1)"
    and "ctc_sai_db_entry_property_remove L l e s1 = (st, s2)"
  shows "(\<forall>e'. ctc_sai_db_entry_property_get L l e' s1 =
            (if snd (ctc_sai_db_entry_mapping_key L s e') = snd (ctc_sai_db_entry_mapping_key L s e)
             then Some d else ctc_sai_db_entry_property_get L l e' s)) \<and>
    st = SAI_STATUS_SUCCESS \<and>
    (\<forall>e'. ctc_sai_db_entry_property_get L l e' s2 = ctc_sai_db_entry_property_get L l e' s)"
proof -
  have c: "chip_db L" by (rule chip_db.intro [OF assms(1)])
  have inv: "chip_inv L l s"
    using entry_insert_inited [OF assms(2)] assms(3) by (metis ctc_sai_db_entry_property_add_def fst_conv)
  show ?thesis using chip_db.entry_add_remove [OF c inv assms(3,4)] by blast
qed

definition ref_route :: sai_route_entry where
  "ref_route = \<lparr> re_switch_id = 0, re_vr_id = ctc_sai_create_object_id 3 0 0 0 7,
     re_destination = \<lparr> pf_family = 0, pf_addr = 0x000A0A0A, pf_mask = 0x00FFFFFF \<rparr> \<rparr>"

theorem db_entry_add_remove_witness:
  "\<exists>s1. ctc_sai_db_entry_property_add ref_lib 0 (RouteEntry ref_route) (Some (OtherData 4)) ref_state =
       (SAI_STATUS_SUCCESS, s1) \<and>
     ctc_sai_db_entry_property_get ref_lib 0 (RouteEntry ref_route) s1 = Some (OtherData 4)"
proof -
  let ?r = "ctc_sai_db_entry_property_add ref_lib 0 (RouteEntry ref_route) (Some (OtherData 4)) ref_state"
  have e: "?r = (SAI_STATUS_SUCCESS, snd ?r)" by (rule prod_eqI) (code_simp, simp)
  obtain st s2 where q: "ctc_sai_db_entry_property_remove ref_lib 0 (RouteEntry ref_route) (snd ?r) = (st, s2)"
    by (rule prod.exhaust)
  show ?thesis
    using db_entry_add_remove [OF ref_laws.ctc_lib_laws_axioms ref_state_ok e q] e by auto
qed

text \<open>
  Property C10: keys survive the translation to an entry structure and back. For neighbors,
  routes, IP multicast, labels, translations and the two access list tables, the structure that
  \<^verbatim>\<open>ctc_sai_db_entry_unmapping_key\<close> writes for the key of an entry maps to that key again, so the
  entries reported by a traversal name the buckets they came from. The address family of a
  neighbor or route is IPv4 or IPv6 and a multicast entry is of one of the two types.
\<close>

theorem db_entry_key_roundtrip:
  assumes "ip_mask_laws L" and "entry_type e \<notin> {2, 4}" and "entry_type e < 9"
    and "entry_type old = entry_type e"
    and "case e of NeighborEntry n \<Rightarrow> addr_family (ne_ip_address n) < 2
       | RouteEntry r \<Rightarrow> pf_family (re_destination r) < 2
       | IpmcEntry m \<Rightarrow> pe_type m < 2 | _ \<Rightarrow> True"
    and "ctc_sai_db_entry_mapping_key L s e = (st, t, k)"
    and "ctc_sai_db_entry_unmapping_key L l k old s1 = ((st', e'), s2)"
  shows "st = SAI_STATUS_SUCCESS \<and> st' = SAI_STATUS_SUCCESS \<and> entry_type e' = entry_type e \<and>
    ctc_sai_db_entry_mapping_key L s3 e' = (SAI_STATUS_SUCCESS, t, k)"
proof -
  note defs = ctc_sai_db_entry_mapping_key_def ctc_sai_db_entry_unmapping_key_def Let_def case_prod_beta
  show ?thesis
  proof (cases e)
    case (RouteEntry r)
    moreover obtain r' where "old = RouteEntry r'" using RouteEntry assms(4) by (cases old) simp_all
    ultimately show ?thesis
      using assms(5-7) ip_mask_laws.route_key_back [OF assms(1)] by (auto simp: defs)
  next
    case (NeighborEntry n)
    moreover obtain n' where "old = NeighborEntry n'" using NeighborEntry assms(4) by (cases old) simp_all
    ultimately show ?thesis
      using assms(5-7)
      by (auto simp: defs ctc_sai_get_ctc_object_id_def create_fields unat_of_nat copy_ip_into_zero copy_ip_twice)
  next
    case (IpmcEntry m)
    moreover obtain m' where "old = IpmcEntry m'" using IpmcEntry assms(4) by (cases old) simp_all
    ultimately show ?thesis
      using assms(5-7)
      by (auto simp: defs ctc_sai_get_ctc_object_id_def create_fields mcast_ip_key_def mcast_addrs_of_key_def
          mcast_entry_type_def copy_ip_into_zero copy_ip_twice)
  qed (use assms in \<open>cases old; auto simp: defs ctc_sai_get_ctc_object_id_def create_fields\<close>)+
qed

theorem db_entry_key_roundtrip_witness:
  "\<exists>st t k e' s2. ctc_sai_db_entry_mapping_key ref_lib ref_state (RouteEntry ref_route) = (st, t, k) \<and>
     ctc_sai_db_entry_unmapping_key ref_lib 0 k (RouteEntry ref_route) ref_state = ((0, e'), s2) \<and>
     ctc_sai_db_entry_mapping_key ref_lib s2 e' = (SAI_STATUS_SUCCESS, t, k)"
proof -
  obtain st t k where m: "ctc_sai_db_entry_mapping_key ref_lib ref_state (RouteEntry ref_route) = (st, t, k)"
    by (rule prod_cases3)
  obtain st' e' s2 where u:
    "ctc_sai_db_entry_unmapping_key ref_lib 0 k (RouteEntry ref_route) ref_state = ((st', e'), s2)"
    by (metis surj_pair)
  have "st' = SAI_STATUS_SUCCESS \<and> ctc_sai_db_entry_mapping_key ref_lib s2 e' = (SAI_STATUS_SUCCESS, t, k)"
    using db_entry_key_roundtrip [OF ref_masks.ip_mask_laws_axioms _ _ _ _ m u, where ?s3.0 = s2]
    by (simp add: ref_route_def)
  then show ?thesis using m u by blast
qed

end
