(* ===== verification/SAI_Attr.thy ===== *)
theory SAI_Attr
  imports SAI_Entry
begin

text \<open>
  The attribute machinery of \<^verbatim>\<open>centec/src/ctc_sai.c\<close> that every module's \<^verbatim>\<open>get\<close> and \<^verbatim>\<open>set\<close> entry point
  goes through: attribute values, the search in a caller's attribute list, the table of getters and
  setters of a module, the dispatch to them, and the copy of a list into a caller's buffer.

  The union \<^verbatim>\<open>sai_attribute_value_t\<close> is its first 16 bytes, little endian, so its scalar members are
  the low bits (a read of another member than the one written sees what the C program sees); an
  object list is its count, the low 32 bits, and the buffer its pointer refers to.
\<close>

section \<open>Attribute values\<close>

record sai_attribute_value =
  raw :: "128 word"
  objs :: "sai_object_id list"

record sai_attribute =
  attr_id :: u32
  attr_value :: sai_attribute_value

definition booldata :: "sai_attribute_value \<Rightarrow> bool" where
  "booldata v \<longleftrightarrow> (ucast (raw v) :: u8) \<noteq> 0"

definition u8data :: "sai_attribute_value \<Rightarrow> u8" where "u8data v = ucast (raw v)"
definition u32data :: "sai_attribute_value \<Rightarrow> u32" where "u32data v = ucast (raw v)"
definition oiddata :: "sai_attribute_value \<Rightarrow> sai_object_id" where "oiddata v = ucast (raw v)"
definition macdata :: "sai_attribute_value \<Rightarrow> sai_mac" where "macdata v = ucast (raw v)"
definition list_count :: "sai_attribute_value \<Rightarrow> u32" where "list_count v = ucast (raw v)"

text \<open>A store to a member leaves the other bytes of the union.\<close>

definition set_low :: "nat \<Rightarrow> 128 word \<Rightarrow> sai_attribute \<Rightarrow> sai_attribute" where
  "set_low n x a = a\<lparr>attr_value := (attr_value a)\<lparr>raw := (raw (attr_value a) AND NOT (mask n)) OR take_bit n x\<rparr>\<rparr>"

definition set_bool :: "bool \<Rightarrow> sai_attribute \<Rightarrow> sai_attribute" where
  "set_bool b = set_low 8 (if b then 1 else 0)"
definition set_u32 :: "u32 \<Rightarrow> sai_attribute \<Rightarrow> sai_attribute" where "set_u32 x = set_low 32 (ucast x)"
definition set_oid :: "sai_object_id \<Rightarrow> sai_attribute \<Rightarrow> sai_attribute" where "set_oid x = set_low 64 (ucast x)"
definition set_mac :: "sai_mac \<Rightarrow> sai_attribute \<Rightarrow> sai_attribute" where "set_mac x = set_low 48 (ucast x)"

definition set_objlist :: "u32 \<Rightarrow> sai_object_id list \<Rightarrow> sai_attribute \<Rightarrow> sai_attribute" where
  "set_objlist cnt xs a =
     (let a = set_u32 cnt a in a\<lparr>attr_value := (attr_value a)\<lparr>objs := xs\<rparr>\<rparr>)"

section \<open>Copying a list out\<close>

text \<open>
  \<^verbatim>\<open>data\<close> and \<^verbatim>\<open>list\<close> may be null pointers. The elements beyond the copied ones stay in the caller's
  buffer; a buffer shorter than the count the caller announced is the caller's error.
\<close>

record 'a obj_list =
  ol_count :: u32
  ol_list :: "'a list"

definition ctc_sai_fill_object_list ::
    "u32 \<Rightarrow> 'a list option \<Rightarrow> u32 \<Rightarrow> 'a obj_list option \<Rightarrow> sai_status \<times> 'a obj_list option" where
  "ctc_sai_fill_object_list element_size data cnt objlist =
     (case (data, objlist) of
        (Some d, Some ol) \<Rightarrow>
          if element_size = 0 then (SAI_STATUS_INVALID_PARAMETER, objlist)
          else if ol_count ol < cnt then
            (SAI_STATUS_BUFFER_OVERFLOW, Some (ol\<lparr>ol_count := cnt\<rparr>))
          else (SAI_STATUS_SUCCESS,
                Some \<lparr> ol_count = cnt, ol_list = take (unat cnt) d @ drop (unat cnt) (ol_list ol) \<rparr>)
      | _ \<Rightarrow> (SAI_STATUS_INVALID_PARAMETER, objlist))"

text \<open>The call on the object list of an attribute, whose address is never null.\<close>

definition fill_objlist :: "sai_object_id list option \<Rightarrow> u32 \<Rightarrow> sai_attribute \<Rightarrow> sai_status \<times> sai_attribute" where
  "fill_objlist data cnt a =
     (let ol = \<lparr>ol_count = list_count (attr_value a), ol_list = objs (attr_value a)\<rparr>;
          (st, r) = ctc_sai_fill_object_list 8 data cnt (Some ol);
          ol = out_or ol r in
      (st, set_objlist (ol_count ol) (ol_list ol) a))"

section \<open>Searching\<close>

text \<open>
  The attribute array has at least \<^verbatim>\<open>attr_count\<close> elements; its pointer may be null. The two out
  parameters are addresses of locals in every call, so they are not null.
\<close>

fun find_attrib :: "u32 \<Rightarrow> u32 \<Rightarrow> sai_attribute list \<Rightarrow> (sai_attribute_value \<times> u32) option" where
  "find_attrib i aid [] = None"
| "find_attrib i aid (a # as) = (if attr_id a = aid then Some (attr_value a, i) else find_attrib (i + 1) aid as)"

definition ctc_sai_find_attrib_in_list ::
    "u32 \<Rightarrow> sai_attribute list option \<Rightarrow> u32 \<Rightarrow> sai_status \<times> (sai_attribute_value \<times> u32) option" where
  "ctc_sai_find_attrib_in_list attr_count attr_list aid =
     (case attr_list of
        None \<Rightarrow> if attr_count \<noteq> 0 then (SAI_STATUS_INVALID_PARAMETER, None)
                else (SAI_STATUS_ITEM_NOT_FOUND, None)
      | Some as \<Rightarrow>
          (case find_attrib 0 aid (take (unat attr_count) as) of
             Some r \<Rightarrow> (SAI_STATUS_SUCCESS, Some r)
           | None \<Rightarrow> (SAI_STATUS_ITEM_NOT_FOUND, None)))"

section \<open>Getters and setters\<close>

text \<open>
  A module's table, without its end marker \<^verbatim>\<open>CTC_SAI_FUNC_ATTR_END_ID\<close>; an entry may lack a getter
  or a setter.
\<close>

record ('k, 's) attr_fn =
  fn_id :: u32
  fn_get :: "('k \<Rightarrow> sai_attribute \<Rightarrow> u32 \<Rightarrow> 's \<Rightarrow> (sai_status \<times> sai_attribute) \<times> 's) option"
  fn_set :: "('k \<Rightarrow> sai_attribute \<Rightarrow> 's \<Rightarrow> sai_status \<times> 's) option"

fun find_fn :: "u16 \<Rightarrow> u32 \<Rightarrow> ('k, 's) attr_fn list \<Rightarrow> (u16 \<times> ('k, 's) attr_fn) option" where
  "find_fn i aid [] = None"
| "find_fn i aid (f # fs) = (if aid = fn_id f then Some (i, f) else find_fn (i + 1) aid fs)"

definition ctc_sai_find_attribute_fn ::
    "u32 \<Rightarrow> ('k, 's) attr_fn list option \<Rightarrow> sai_status \<times> (u16 \<times> ('k, 's) attr_fn) option" where
  "ctc_sai_find_attribute_fn aid fns =
     (case fns of
        None \<Rightarrow> (SAI_STATUS_INVALID_PARAMETER, None)
      | Some fs \<Rightarrow>
          (case find_fn 0 aid fs of
             Some r \<Rightarrow> (SAI_STATUS_SUCCESS, Some r)
           | None \<Rightarrow> (SAI_STATUS_ITEM_NOT_FOUND, None)))"

abbreviation (input) SAI_COMMON_API_REMOVE :: nat where "SAI_COMMON_API_REMOVE \<equiv> 1"
abbreviation (input) SAI_COMMON_API_SET :: nat where "SAI_COMMON_API_SET \<equiv> 2"
abbreviation (input) SAI_COMMON_API_GET :: nat where "SAI_COMMON_API_GET \<equiv> 3"
abbreviation (input) SAI_COMMON_API_MAX :: nat where "SAI_COMMON_API_MAX \<equiv> 8"

text \<open>Null pointers are \<^const>\<open>None\<close>.\<close>

definition ctc_sai_check_attr_metadata ::
    "u32 \<Rightarrow> sai_attribute list option \<Rightarrow> nat \<Rightarrow> ('k, 's) attr_fn list option \<Rightarrow> nat \<Rightarrow> sai_status" where
  "ctc_sai_check_attr_metadata attr_count attr_list object_type fns oper =
     (if attr_count \<noteq> 0 \<and> attr_list = None then SAI_STATUS_INVALID_PARAMETER
      else if (case fns of None \<Rightarrow> True | Some _ \<Rightarrow> False) then SAI_STATUS_INVALID_PARAMETER
      else if SAI_COMMON_API_MAX \<le> oper then SAI_STATUS_INVALID_PARAMETER
      else if oper = SAI_COMMON_API_REMOVE then SAI_STATUS_NOT_IMPLEMENTED
      else if oper = SAI_COMMON_API_SET \<and> attr_count \<noteq> 1 then SAI_STATUS_INVALID_PARAMETER
      else if \<not> ctc_sai_is_object_type_valid object_type then SAI_STATUS_INVALID_PARAMETER
      else SAI_STATUS_SUCCESS)"

definition ctc_sai_set_attribute ::
    "'k \<Rightarrow> nat \<Rightarrow> ('k, 's) attr_fn list option \<Rightarrow> sai_attribute option \<Rightarrow> 's \<Rightarrow> sai_status \<times> 's" where
  "ctc_sai_set_attribute key object_type fns attr s =
     (let st = ctc_sai_check_attr_metadata 1 (map_option (\<lambda>a. [a]) attr) object_type fns SAI_COMMON_API_SET in
      if status_leaves st then (st, s)
      else case attr of None \<Rightarrow> (st, s)
      | Some a \<Rightarrow>
          (case ctc_sai_find_attribute_fn (attr_id a) fns of
             (st, Some (i, f)) \<Rightarrow>
               (case fn_set f of Some g \<Rightarrow> g key a s | None \<Rightarrow> (SAI_STATUS_INVALID_ATTRIBUTE_0, s))
           | (st, None) \<Rightarrow> (st, s)))"

definition ctc_sai_get_attribute ::
    "'k \<Rightarrow> nat \<Rightarrow> u32 \<Rightarrow> ('k, 's) attr_fn list option \<Rightarrow> sai_attribute option \<Rightarrow> 's \<Rightarrow>
     (sai_status \<times> sai_attribute option) \<times> 's" where
  "ctc_sai_get_attribute key object_type attr_index fns attr s =
     (let st = ctc_sai_check_attr_metadata 1 (map_option (\<lambda>a. [a]) attr) object_type fns SAI_COMMON_API_GET in
      if status_leaves st then ((st, attr), s)
      else case attr of None \<Rightarrow> ((st, attr), s)
      | Some a \<Rightarrow>
          (case ctc_sai_find_attribute_fn (attr_id a) fns of
             (st, Some (i, f)) \<Rightarrow>
               (case fn_get f of
                  Some g \<Rightarrow> (let ((st, a'), s') = g key a attr_index s in ((st, Some a'), s'))
                | None \<Rightarrow> ((int32 (SAI_STATUS_INVALID_ATTRIBUTE_0 + uint attr_index), attr), s))
           | (st, None) \<Rightarrow> ((st, attr), s)))"

section \<open>The attribute loop of an entry point\<close>

text \<open>
  Every module's \<^verbatim>\<open>create\<close> and \<^verbatim>\<open>get_attribute\<close> entry point walks its attribute array with an
  index of 8 bits, in some modules of 16, up to a 32-bit count. The index wraps, so the loop may not
  end: then the value is \<^const>\<open>None\<close>. The body says whether to leave the loop.
\<close>

partial_function (option) attr_loop ::
    "('i::len word \<Rightarrow> 's \<Rightarrow> bool \<times> 's) \<Rightarrow> u32 \<Rightarrow> 'i word \<Rightarrow> 's \<Rightarrow> 's option" where
  "attr_loop body attr_count i s =
     (if ucast i < attr_count then
        (case body i s of (stop, s') \<Rightarrow> if stop then Some s' else attr_loop body attr_count (i + 1) s')
      else Some s)"

declare attr_loop.simps [code]

text \<open>The loop for a bounded number of steps.\<close>

fun loop_steps :: "('i::len word \<Rightarrow> 's \<Rightarrow> bool \<times> 's) \<Rightarrow> nat \<Rightarrow> 'i word \<Rightarrow> 's \<Rightarrow> 's" where
  "loop_steps body 0 i s = s"
| "loop_steps body (Suc n) i s =
     (case body i s of (stop, s') \<Rightarrow> if stop then s' else loop_steps body n (i + 1) s')"

text \<open>The body of the \<^verbatim>\<open>get_attribute\<close> loops: leave on a negative status.\<close>

definition get_attr_body ::
    "'k \<Rightarrow> nat \<Rightarrow> ('k, ('o, 'e, 'v) sai_state) attr_fn list \<Rightarrow> 'i::len word \<Rightarrow>
     sai_status \<times> sai_attribute list \<times> ('o, 'e, 'v) sai_state \<Rightarrow>
     bool \<times> sai_status \<times> sai_attribute list \<times> ('o, 'e, 'v) sai_state" where
  "get_attr_body key t fns i x =
     (case x of (st, as, s) \<Rightarrow>
      if length as \<le> unat i then (True, st, as, s\<lparr>fault := True\<rparr>)
      else case ctc_sai_get_attribute key t (ucast i) (Some fns) (Some (as ! unat i)) s of
        ((st, a), s) \<Rightarrow> (status_leaves st, st, as[unat i := out_or (as ! unat i) a], s))"

section \<open>Lemmas\<close>

lemma unat_u8_less: "unat (i :: u8) < 256"
proof -
  have "unat i < 2 ^ LENGTH(8)" by (rule unsigned_less)
  then show ?thesis by simp
qed

lemma unat_index:
  assumes "LENGTH('i::len) \<le> 32"
  shows "unat (ucast (i :: 'i word) :: u32) = unat i"
proof -
  have "unat i < 2 ^ LENGTH('i)" by (rule unsigned_less)
  also have "(2 :: nat) ^ LENGTH('i) \<le> 2 ^ 32" using assms by (rule power_increasing) simp
  finally show ?thesis by (simp add: unsigned_ucast_eq take_bit_nat_eq_self_iff)
qed

lemma attr_loop_steps:
  fixes i :: "'i::len word"
  assumes "LENGTH('i) \<le> 32" "unat attr_count < 2 ^ LENGTH('i)"
  shows "unat i + n = unat attr_count \<Longrightarrow> attr_loop body attr_count i s = Some (loop_steps body n i s)"
proof (induction n arbitrary: i s)
  case 0
  then show ?case
    by (subst attr_loop.simps) (simp add: word_less_nat_alt unat_index [OF assms(1)])
next
  case (Suc n)
  have "unat i + 1 < 2 ^ LENGTH('i)" using Suc.prems assms(2) by simp
  then have "unat (i + 1) = unat i + 1" by (simp add: unat_word_ariths)
  moreover have "ucast i < attr_count"
    using Suc.prems by (simp add: word_less_nat_alt unat_index [OF assms(1)])
  ultimately have "attr_loop body attr_count (i + 1) s' = Some (loop_steps body n (i + 1) s')" for s'
    using Suc.IH [of "i + 1" s'] Suc.prems by simp
  with \<open>ucast i < attr_count\<close> show ?case by (subst attr_loop.simps) (simp split: prod.split)
qed

lemma attr_loop_returns:
  fixes body :: "u8 \<Rightarrow> 's \<Rightarrow> bool \<times> 's"
  shows "attr_count \<le> 255 \<Longrightarrow> attr_loop body attr_count 0 s = Some (loop_steps body (unat attr_count) 0 s)"
  by (rule attr_loop_steps) (simp_all add: word_le_nat_alt)

text \<open>A body that keeps \<open>J\<close> and never leaves runs for ever when the count has all values of the index below it.\<close>

lemma attr_loop_endless:
  fixes i :: "'i::len word"
  assumes "LENGTH('i) \<le> 32" "2 ^ LENGTH('i) \<le> unat attr_count" and "J s"
    and "\<And>i s. J s \<Longrightarrow> \<not> fst (body i s) \<and> J (snd (body i s))"
  shows "attr_loop body attr_count i s = None"
proof (rule ccontr)
  let ?P = "\<lambda>(b :: 'i word \<Rightarrow> 'a \<Rightarrow> bool \<times> 'a) (n :: u32) i s r.
    2 ^ LENGTH('i) \<le> unat n \<longrightarrow> J s \<longrightarrow> (\<forall>i s. J s \<longrightarrow> \<not> fst (b i s) \<and> J (snd (b i s))) \<longrightarrow> False"
  assume "attr_loop body attr_count i s \<noteq> None"
  then obtain r where "attr_loop body attr_count i s = Some r" by blast
  then have "?P body attr_count i s r"
  proof (rule attr_loop.raw_induct [where P = ?P, rotated 1])
    fix f b and n :: u32 and i :: "'i word" and s r
    assume IH: "\<And>b n i s r. f b n i s = Some r \<Longrightarrow> ?P b n i s r"
      and eq: "(if ucast i < n then case b i s of (stop, s') \<Rightarrow> if stop then Some s' else f b n (i + 1) s'
        else Some s) = Some r"
    show "?P b n i s r"
    proof (intro impI)
      assume n: "2 ^ LENGTH('i) \<le> unat n" and J: "J s" "\<forall>i s. J s \<longrightarrow> \<not> fst (b i s) \<and> J (snd (b i s))"
      have "unat i < unat n" by (rule less_le_trans [OF unsigned_less n])
      then have "ucast i < n" by (simp add: word_less_nat_alt unat_index [OF assms(1)])
      moreover have "\<not> fst (b i s)" "J (snd (b i s))" using J by blast+
      ultimately show False using eq IH [of b n "i + 1" "snd (b i s)" r] n J(2) by (auto simp: case_prod_beta)
    qed
  qed
  then show False using assms by blast
qed

lemma set_low_get:
  "n \<le> 128 \<Longrightarrow> take_bit n (raw (attr_value (set_low n x a))) = take_bit n x"
  by (rule bit_word_eqI) (auto simp: set_low_def bit_simps)

lemma attr_id_set_low [simp]: "attr_id (set_low n x a) = attr_id a"
  by (simp add: set_low_def)

lemma set_objlist_get:
  "list_count (attr_value (set_objlist cnt xs a)) = cnt" "objs (attr_value (set_objlist cnt xs a)) = xs"
proof -
  have "(ucast (raw (attr_value (set_low 32 (ucast cnt) a))) :: u32) = cnt"
    by (rule bit_word_eqI) (auto simp: set_low_def bit_simps)
  then show "list_count (attr_value (set_objlist cnt xs a)) = cnt"
    by (simp add: set_objlist_def list_count_def set_u32_def Let_def)
qed (simp add: set_objlist_def Let_def)

lemma find_attrib_Some:
  "find_attrib i aid as = Some (v, j) \<longleftrightarrow>
     (\<exists>k < length as. attr_id (as ! k) = aid \<and> attr_value (as ! k) = v \<and> j = i + of_nat k \<and>
        (\<forall>m < k. attr_id (as ! m) \<noteq> aid))"
proof (induction as arbitrary: i)
  case (Cons a as)
  show ?case
  proof (cases "attr_id a = aid")
    case True
    then show ?thesis by (auto simp: nth_Cons' split: if_splits)
  next
    case False
    have "(\<exists>k < length (a # as). attr_id ((a # as) ! k) = aid \<and> attr_value ((a # as) ! k) = v \<and>
          j = i + of_nat k \<and> (\<forall>m < k. attr_id ((a # as) ! m) \<noteq> aid)) \<longleftrightarrow>
        (\<exists>k < length as. attr_id (as ! k) = aid \<and> attr_value (as ! k) = v \<and>
          j = i + of_nat (Suc k) \<and> (\<forall>m < k. attr_id (as ! m) \<noteq> aid))"
      using False by (auto simp: Ex_less_Suc2 All_less_Suc2)
    then show ?thesis using False Cons.IH [of "i + 1"] by (simp add: algebra_simps)
  qed
qed simp

lemma find_attrib_None: "find_attrib i aid as = None \<longleftrightarrow> (\<forall>a \<in> set as. attr_id a \<noteq> aid)"
  by (induction as arbitrary: i) auto

lemma find_fn_Some:
  "find_fn i aid fs = Some (j, f) \<Longrightarrow> f \<in> set fs \<and> fn_id f = aid"
  by (induction fs arbitrary: i) (auto split: if_splits)

lemma find_fn_None: "find_fn i aid fs = None \<longleftrightarrow> (\<forall>f \<in> set fs. fn_id f \<noteq> aid)"
  by (induction fs arbitrary: i) auto

section \<open>Properties\<close>

text \<open>
  The search in an attribute list finds the first match. It succeeds exactly when
  one of the first \<^verbatim>\<open>attr_count\<close> attributes has the wanted identifier, and then returns the value
  and the index of the first one; otherwise it reports \<^verbatim>\<open>ITEM_NOT_FOUND\<close>.
\<close>

theorem find_attrib_first:
  assumes "unat attr_count \<le> length as"
  shows "(\<forall>v j. ctc_sai_find_attrib_in_list attr_count (Some as) aid = (SAI_STATUS_SUCCESS, Some (v, j)) \<longleftrightarrow>
      (\<exists>k < unat attr_count. attr_id (as ! k) = aid \<and> attr_value (as ! k) = v \<and> unat j = k \<and>
         (\<forall>m < k. attr_id (as ! m) \<noteq> aid))) \<and>
    ((\<forall>k < unat attr_count. attr_id (as ! k) \<noteq> aid) \<longrightarrow>
     ctc_sai_find_attrib_in_list attr_count (Some as) aid = (SAI_STATUS_ITEM_NOT_FOUND, None))"
proof -
  let ?as = "take (unat attr_count) as"
  have len: "length ?as = unat attr_count" using assms by simp
  have unat_idx: "j = of_nat k \<longleftrightarrow> unat j = k" if "k < unat attr_count" for j :: u32 and k
  proof -
    have "unat attr_count < 2 ^ LENGTH(32)" by (rule unsigned_less)
    then have "k < 2 ^ LENGTH(32)" using that by simp
    then show ?thesis by (auto simp: unat_of_nat)
  qed
  have "ctc_sai_find_attrib_in_list attr_count (Some as) aid = (SAI_STATUS_SUCCESS, Some (v, j)) \<longleftrightarrow>
      find_attrib 0 aid ?as = Some (v, j)" for v j
    by (auto simp: ctc_sai_find_attrib_in_list_def split: option.splits)
  moreover have "find_attrib 0 aid ?as = Some (v, j) \<longleftrightarrow>
      (\<exists>k < unat attr_count. attr_id (as ! k) = aid \<and> attr_value (as ! k) = v \<and> unat j = k \<and>
         (\<forall>m < k. attr_id (as ! m) \<noteq> aid))" for v j
    unfolding find_attrib_Some len using unat_idx by auto
  moreover have "ctc_sai_find_attrib_in_list attr_count (Some as) aid = (SAI_STATUS_ITEM_NOT_FOUND, None)"
    if "\<forall>k < unat attr_count. attr_id (as ! k) \<noteq> aid"
  proof -
    have "find_attrib 0 aid ?as = None"
      using that assms unfolding find_attrib_None by (force simp: in_set_conv_nth)
    then show ?thesis by (simp add: ctc_sai_find_attrib_in_list_def)
  qed
  ultimately show ?thesis by blast
qed

theorem find_attrib_first_witness:
  "ctc_sai_find_attrib_in_list 2
     (Some [\<lparr>attr_id = 4, attr_value = \<lparr>raw = 1, objs = []\<rparr>\<rparr>, \<lparr>attr_id = 9, attr_value = \<lparr>raw = 2, objs = []\<rparr>\<rparr>]) 9 =
   (SAI_STATUS_SUCCESS, Some (\<lparr>raw = 2, objs = []\<rparr>, 1))"
  using find_attrib_first [of 2 "[\<lparr>attr_id = 4, attr_value = \<lparr>raw = 1, objs = []\<rparr>\<rparr>,
      \<lparr>attr_id = 9, attr_value = \<lparr>raw = 2, objs = []\<rparr>\<rparr>]" 9]
  by simp

text \<open>
  Copying a list into a caller's buffer stays inside it. With a buffer of the
  announced size the call either reports \<^verbatim>\<open>BUFFER_OVERFLOW\<close>, leaves the buffer alone and announces
  the size that is needed, or copies exactly the first \<^verbatim>\<open>count\<close> elements, keeps the rest of the
  buffer and its length, and announces \<^verbatim>\<open>count\<close>.
\<close>

theorem fill_list_in_bounds:
  assumes "unat (ol_count ol) = length (ol_list ol)" and "unat cnt \<le> length d" and "sz \<noteq> 0"
    and "ctc_sai_fill_object_list sz (Some d) cnt (Some ol) = (st, Some ol')"
  shows "ol_count ol' = cnt \<and>
    (if ol_count ol < cnt then st = SAI_STATUS_BUFFER_OVERFLOW \<and> ol_list ol' = ol_list ol
     else st = SAI_STATUS_SUCCESS \<and> length (ol_list ol') = length (ol_list ol) \<and>
       (\<forall>k < length (ol_list ol). ol_list ol' ! k = (if k < unat cnt then d ! k else ol_list ol ! k)))"
proof -
  have "ol_count ol < cnt \<longleftrightarrow> length (ol_list ol) < unat cnt"
    using assms(1) by (simp add: word_less_nat_alt)
  then show ?thesis
    using assms(2-4)
    by (auto simp: ctc_sai_fill_object_list_def nth_append split: if_splits)
qed

theorem fill_list_in_bounds_witness:
  "ctc_sai_fill_object_list 8 (Some [7, 8 :: u64]) 2 (Some \<lparr>ol_count = 3, ol_list = [0, 0, 5]\<rparr>) =
     (SAI_STATUS_SUCCESS, Some \<lparr>ol_count = 2, ol_list = [7, 8, 5]\<rparr>)"
proof -
  obtain st ol' where r: "ctc_sai_fill_object_list 8 (Some [7, 8 :: u64]) 2
      (Some \<lparr>ol_count = 3, ol_list = [0, 0, 5]\<rparr>) = (st, Some ol')"
    by (auto simp: ctc_sai_fill_object_list_def)
  have "ol_count ol' = 2 \<and> st = SAI_STATUS_SUCCESS \<and> length (ol_list ol') = 3 \<and>
      (\<forall>k < 3. ol_list ol' ! k = (if k < 2 then [7, 8] ! k else [0, 0, 5] ! k))"
    using fill_list_in_bounds [OF _ _ _ r] by simp
  then have ol: "ol_count ol' = 2" "st = SAI_STATUS_SUCCESS" "length (ol_list ol') = 3"
    and h: "ol_list ol' ! 0 = 7" "ol_list ol' ! 1 = 8" "ol_list ol' ! 2 = 5"
    by simp_all
  from ol(3) obtain a b c where "ol_list ol' = [a, b, c]" by (auto simp: length_Suc_conv numeral_3_eq_3)
  then have "ol_list ol' = [7, 8, 5]" using h by simp
  then show ?thesis using r ol(1,2) by (cases ol') simp
qed
text \<open>
  Dispatch to getters and setters. For an attribute the table does not know, both
  dispatchers report \<^verbatim>\<open>ITEM_NOT_FOUND\<close> and change nothing; for a known attribute without setter or
  getter they report an attribute error and change nothing. The code computes that error as
  \<^verbatim>\<open>SAI_STATUS_INVALID_ATTRIBUTE_0 + attr_index\<close> on negative codes, so it lies in the range that
  the status header reserves for invalid attributes for index zero only.
\<close>

theorem attribute_dispatch_errors:
  assumes "ctc_sai_is_object_type_valid t" and "attr_index < 65536"
    and "find_fn 0 (attr_id a) fns = r"
  shows "(r = None \<longrightarrow>
       ctc_sai_set_attribute key t (Some fns) (Some a) s = (SAI_STATUS_ITEM_NOT_FOUND, s) \<and>
       ctc_sai_get_attribute key t attr_index (Some fns) (Some a) s =
         ((SAI_STATUS_ITEM_NOT_FOUND, Some a), s)) \<and>
    (\<forall>j f. r = Some (j, f) \<and> fn_set f = None \<longrightarrow>
       ctc_sai_set_attribute key t (Some fns) (Some a) s = (SAI_STATUS_INVALID_ATTRIBUTE_0, s)) \<and>
    (\<forall>j f. r = Some (j, f) \<and> fn_get f = None \<longrightarrow>
       (\<exists>st. ctc_sai_get_attribute key t attr_index (Some fns) (Some a) s = ((st, Some a), s) \<and>
          st = SAI_STATUS_INVALID_ATTRIBUTE_0 + uint attr_index \<and>
          (SAI_STATUS_INVALID_ATTRIBUTE_MAX \<le> st \<and> st \<le> SAI_STATUS_INVALID_ATTRIBUTE_0 \<longleftrightarrow>
           attr_index = 0)))"
proof -
  have i: "uint attr_index < 65536" using assms(2) by (simp add: word_less_def)
  have "int32 (SAI_STATUS_INVALID_ATTRIBUTE_0 + uint attr_index) =
      SAI_STATUS_INVALID_ATTRIBUTE_0 + uint attr_index"
    by (rule int32_id) (use i in simp_all)
  moreover have "uint attr_index \<le> 0 \<longleftrightarrow> attr_index = 0"
    by (metis order_antisym_conv unsigned_0 unsigned_word_eqI uint_ge_0)
  moreover have "0 \<le> uint attr_index" by simp
  ultimately show ?thesis
    using assms(1,3)
    by (auto simp: ctc_sai_set_attribute_def ctc_sai_get_attribute_def ctc_sai_check_attr_metadata_def
        ctc_sai_find_attribute_fn_def status_leaves_def Let_def)
qed

theorem attribute_dispatch_errors_witness:
  "fst (ctc_sai_get_attribute (0 :: u64) 3 2 (Some [\<lparr>fn_id = 5, fn_get = None, fn_set = None\<rparr>])
     (Some \<lparr>attr_id = 5, attr_value = \<lparr>raw = 0, objs = []\<rparr>\<rparr>) ()) =
   (- 65534, Some \<lparr>attr_id = 5, attr_value = \<lparr>raw = 0, objs = []\<rparr>\<rparr>)"
  using attribute_dispatch_errors [of 3 2 "\<lparr>attr_id = 5, attr_value = \<lparr>raw = 0, objs = []\<rparr>\<rparr>"
      "[\<lparr>fn_id = 5, fn_get = None, fn_set = None\<rparr>]" "Some (0, \<lparr>fn_id = 5, fn_get = None, fn_set = None\<rparr>)"
      "0 :: u64" "()"]
  by (auto simp: ctc_sai_is_object_type_valid_def)

end
