(* ===== verification/SAI_Objects.thy ===== *)
theory SAI_Objects
  imports SAI_Attr
begin

text \<open>
  What the modules share: the chip of an identifier, the typing of the data behind object
  identifiers, stores through data pointers, traversals that store to the objects they visit, and
  the frame \<open>frame_on\<close> of an operation that only writes to some objects. The lemmas say how locks,
  identifier pools and the tables move under the database calls that every module makes.
\<close>

section \<open>Chips of identifiers\<close>

text \<open>The identifier of a key object and of its chip; the chip is zero when it has no database.\<close>

definition oid_lchip :: "('o, 'e, 'v) sai_state \<Rightarrow> sai_object_id \<Rightarrow> u8" where
  "oid_lchip s oid = out_or 0 (snd (ctc_sai_oid_get_lchip (inited s) oid))"

section \<open>Typed objects\<close>

text \<open>
  The data of an object is of the structure its type has; the casts of the modules rely on it.
\<close>

fun data_fits :: "nat \<Rightarrow> obj_data \<Rightarrow> bool" where
  "data_fits t (VrData _) = (t = SAI_OBJECT_TYPE_VIRTUAL_ROUTER)"
| "data_fits t (RifData _) = (t = SAI_OBJECT_TYPE_ROUTER_INTERFACE)"
| "data_fits t (NhData _) = (t = SAI_OBJECT_TYPE_NEXT_HOP)"
| "data_fits t (NhGrpData _) = (t = SAI_OBJECT_TYPE_NEXT_HOP_GROUP)"
| "data_fits t (NhGrpMemberData _) = (t = SAI_OBJECT_TYPE_NEXT_HOP_GROUP_MEMBER)"
| "data_fits t (CounterData _) = (t = SAI_OBJECT_TYPE_COUNTER)"
| "data_fits t (IstGrpData _) = (t = SAI_OBJECT_TYPE_ISOLATION_GROUP)"
| "data_fits t (IstMemberData _) = (t = SAI_OBJECT_TYPE_ISOLATION_GROUP_MEMBER)"
| "data_fits t (WredData _) = (t = SAI_OBJECT_TYPE_WRED)"
| "data_fits t (QueueData _) = (t = SAI_OBJECT_TYPE_QUEUE)"
| "data_fits t (SwitchData _) = (t = SAI_OBJECT_TYPE_SWITCH)"
| "data_fits t (StpData _) = (t = SAI_OBJECT_TYPE_STP)"
| "data_fits t (StpPortData _) = (t = SAI_OBJECT_TYPE_STP_PORT)"
| "data_fits t (LagData _) = (t = SAI_OBJECT_TYPE_LAG)"
| "data_fits t (BridgePortData _) = (t = SAI_OBJECT_TYPE_BRIDGE_PORT)"
| "data_fits t FreedData = False"
| "data_fits t (VlanData _) = (t = SAI_OBJECT_TYPE_VLAN)"
| "data_fits t (NeighborData _) = False"
| "data_fits t (OtherData _) =
     (t \<notin> {SAI_OBJECT_TYPE_VIRTUAL_ROUTER, SAI_OBJECT_TYPE_ROUTER_INTERFACE, SAI_OBJECT_TYPE_NEXT_HOP,
           SAI_OBJECT_TYPE_NEXT_HOP_GROUP, SAI_OBJECT_TYPE_NEXT_HOP_GROUP_MEMBER,
           SAI_OBJECT_TYPE_COUNTER, SAI_OBJECT_TYPE_VLAN, SAI_OBJECT_TYPE_ISOLATION_GROUP,
           SAI_OBJECT_TYPE_ISOLATION_GROUP_MEMBER, SAI_OBJECT_TYPE_WRED, SAI_OBJECT_TYPE_QUEUE,
           SAI_OBJECT_TYPE_SWITCH, SAI_OBJECT_TYPE_STP, SAI_OBJECT_TYPE_STP_PORT, SAI_OBJECT_TYPE_LAG,
           SAI_OBJECT_TYPE_BRIDGE_PORT})"

definition chip_typed :: "('o, 'e, 'v) ctc_lib \<Rightarrow> u8 \<Rightarrow> ('o, 'e, 'v) sai_state \<Rightarrow> bool" where
  "chip_typed L l s \<longleftrightarrow>
     (\<forall>oid d. ctc_sai_db_get_object_property L l oid s = Some d \<longrightarrow> data_fits (oid_type oid) d)"

text \<open>Storing to a selection of buckets of a table, with a call to the device after each store.\<close>

type_synonym obj_bucket = "sai_object_id \<times> obj_data option"

definition store_step ::
    "('o, 'e, 'v) ctc_lib \<Rightarrow> u8 \<Rightarrow> (obj_bucket \<Rightarrow> bool) \<Rightarrow> (obj_bucket \<Rightarrow> obj_data) \<Rightarrow> (obj_bucket \<Rightarrow> ext) \<Rightarrow>
     obj_bucket \<Rightarrow> ('o, 'e, 'v) sai_state \<Rightarrow> ('o, 'e, 'v) sai_state" where
  "store_step L l skip new call x s =
     (if skip x then s else snd (ext_call L (call x) (object_store L l (fst x) (new x) s)))"

text \<open>
  What an operation that only writes to objects of \<open>X\<close> leaves alone: every other object, which
  objects exist, the locks and the identifier pools.
\<close>

definition frame_on ::
    "('o, 'e, 'v) ctc_lib \<Rightarrow> u8 \<Rightarrow> sai_object_id set \<Rightarrow> ('o, 'e, 'v) sai_state \<Rightarrow> ('o, 'e, 'v) sai_state \<Rightarrow> bool" where
  "frame_on L l X s s' \<longleftrightarrow>
     chip_inv L l s' \<and> chip_typed L l s' \<and> fault s' = fault s \<and>
     (\<forall>l'. lock_depth (trace s') l' = lock_depth (trace s) l') \<and>
     (\<forall>p l'. opf_used (trace s') p l' = opf_used (trace s) p l') \<and>
     (\<forall>oid. (ctc_sai_db_get_object_property L l oid s' = None) =
            (ctc_sai_db_get_object_property L l oid s = None)) \<and>
     (\<forall>oid. oid \<notin> X \<longrightarrow>
        ctc_sai_db_get_object_property L l oid s' = ctc_sai_db_get_object_property L l oid s)"

section \<open>Identifiers and chips\<close>

lemma chip_typed_frame: "g_sai_db s' = g_sai_db s \<Longrightarrow> chip_typed L l s' = chip_typed L l s"
  by (simp add: chip_typed_def get_frame [of s' s])

lemma oid_lchip_create:
  "l < CTC_SAI_MAX_CHIP_NUM \<Longrightarrow> inited s l \<Longrightarrow> oid_lchip s (ctc_sai_create_object_id t l b v2 v) = l"
proof -
  assume l: "l < CTC_SAI_MAX_CHIP_NUM" and i: "inited s l"
  have "(ucast (ucast l :: 6 word) :: u8) = l"
    by (rule ucast_field_back(1)) (use l in \<open>simp add: CTC_SAI_MAX_CHIP_NUM_def word_less_nat_alt\<close>)
  then show ?thesis
    using l i by (simp add: oid_lchip_def ctc_sai_oid_get_lchip_def ctc_sai_get_ctc_object_id_def create_fields
        not_le [symmetric])
qed

lemma create_type: "t < 128 \<Longrightarrow> oid_type (ctc_sai_create_object_id t l b v2 v) = t"
  by (simp add: oid_type_eq create_fields unat_type_field)

lemma get_lchip_Some:
  "ctc_sai_oid_get_lchip (inited s) oid = (st, Some l) \<Longrightarrow>
     l < CTC_SAI_MAX_CHIP_NUM \<and> inited s l \<and> st = SAI_STATUS_SUCCESS"
  by (auto simp: ctc_sai_oid_get_lchip_def Let_def not_le split: if_splits prod.splits)

lemma get_lchip_again:
  assumes "ctc_sai_oid_get_lchip (inited s) oid = (st, Some l)" and "inited s' l"
  shows "ctc_sai_oid_get_lchip (inited s') oid = (SAI_STATUS_SUCCESS, Some l)"
  using assms by (auto simp: ctc_sai_oid_get_lchip_def ctc_sai_get_ctc_object_id_def split: if_splits)

lemma set_bool_get: "booldata (attr_value (set_bool x b)) = x"
proof -
  have "(ucast (raw (attr_value (set_bool x b))) :: u8) = (if x then 1 else 0)"
    by (rule bit_word_eqI) (auto simp: set_bool_def set_low_def bit_simps)
  then show ?thesis by (simp add: booldata_def)
qed

lemma set_mac_get: "macdata (attr_value (set_mac x b)) = x"
  unfolding macdata_def set_mac_def set_low_def by (rule bit_word_eqI) (auto simp: bit_simps)

section \<open>Locks, pools and tables\<close>

lemma lock_frame [simp]:
  "g_sai_db (snd (ctc_sai_db_lock L l s)) = g_sai_db s" "fault (snd (ctc_sai_db_lock L l s)) = fault s"
  "g_sai_db (snd (ctc_sai_db_unlock L l s)) = g_sai_db s" "fault (snd (ctc_sai_db_unlock L l s)) = fault s"
  "opf_used (trace (snd (ctc_sai_db_lock L l s))) = opf_used (trace s)"
  "opf_used (trace (snd (ctc_sai_db_unlock L l s))) = opf_used (trace s)"
  by (simp_all add: ctc_sai_db_lock_def ctc_sai_db_unlock_def fun_eq_iff)

lemma lock_inited [simp]:
  "inited (snd (ctc_sai_db_lock L l s)) = inited s" "inited (snd (ctc_sai_db_unlock L l s)) = inited s"
  by (simp_all add: inited_def fun_eq_iff)

lemma lock_depth_lock:
  "chip_inv L l s \<Longrightarrow> lock_depth (trace (snd (ctc_sai_db_lock L l s))) l' =
     lock_depth (trace s) l' + (if l' = l then 1 else 0)"
  "chip_inv L l s \<Longrightarrow> lock_depth (trace (snd (ctc_sai_db_unlock L l s))) l' =
     lock_depth (trace s) l' - (if l' = l then 1 else 0)"
  by (auto simp: ctc_sai_db_lock_def ctc_sai_db_unlock_def chip_inv_def state_ok_def inited_def not_le [symmetric])

lemma chip_frame_eqs:
  assumes "g_sai_db s' = g_sai_db s"
  shows "chip_inv L l s' = chip_inv L l s" "chip_typed L l s' = chip_typed L l s"
    "ctc_sai_db_get_object_property L l oid s' = ctc_sai_db_get_object_property L l oid s"
    "inited s' = inited s"
  using assms by (simp_all add: chip_inv_def state_ok_def inited_def fun_eq_iff chip_typed_frame get_frame)

lemma id_ops_frame [simp]:
  "g_sai_db (snd (ctc_sai_db_alloc_id L l p s)) = g_sai_db s"
  "fault (snd (ctc_sai_db_alloc_id L l p s)) = fault s"
  "lock_depth (trace (snd (ctc_sai_db_alloc_id L l p s))) = lock_depth (trace s)"
  "g_sai_db (snd (ctc_sai_db_free_id L l p i s)) = g_sai_db s"
  "fault (snd (ctc_sai_db_free_id L l p i s)) = fault s"
  "lock_depth (trace (snd (ctc_sai_db_free_id L l p i s))) = lock_depth (trace s)"
  by (auto simp: ctc_sai_db_alloc_id_def ctc_sai_db_free_id_def Let_def case_prod_beta fun_eq_iff)

context ctc_lib_laws
begin

lemma add_object_trace:
  "lock_depth (trace (snd (ctc_sai_db_add_object_property L l oid d s))) l' = lock_depth (trace s) l'"
  "opf_used (trace (snd (ctc_sai_db_add_object_property L l oid d s))) p l' = opf_used (trace s) p l'"
  "fault (snd (ctc_sai_db_add_object_property L l oid d s)) = fault s"
  by (auto simp: ctc_sai_db_add_object_property_def Let_def case_prod_beta split: option.splits)

lemma remove_object_trace:
  "trace (snd (ctc_sai_db_remove_object_property L l oid s)) = trace s"
  "fault (snd (ctc_sai_db_remove_object_property L l oid s)) = fault s"
  by (auto simp: ctc_sai_db_remove_object_property_def Let_def split: option.splits prod.splits)

lemma alloc_id_status:
  "ctc_sai_db_alloc_id L l p s = ((st, v), s1) \<Longrightarrow> st \<le> 0"
  by (auto simp: ctc_sai_db_alloc_id_def SAI_DB_INIT_CHECK_def ctc_sai_mapping_error_ctc_def Let_def
      split: if_splits prod.splits)

end

section \<open>Storing through pointers\<close>

lemma object_store_trace [simp]: "trace (object_store L l oid d s) = trace s"
  by (simp add: object_store_def split: option.splits)

lemma object_store_inited: "inited s l \<Longrightarrow> fault (object_store L l oid d s) = fault s"
  by (auto simp: object_store_def inited_def)

lemma hash_traverse_fold:
  assumes "\<not> stops 0" and "\<And>x s. x \<in> set xs \<Longrightarrow> f x (s, ()) = (0, g x s, ())"
  shows "hash_traverse stops ret f xs (s, ()) = (0, fold g xs s, ())"
  using assms(2) by (induction xs arbitrary: s) (simp_all add: assms(1))

lemma hash_traverse_inv:
  assumes "\<And>x s. x \<in> set xs \<Longrightarrow> I s \<Longrightarrow> I (fst (snd (f x (s, ()))))" and "I s"
  shows "I (fst (snd (hash_traverse stops ret f xs (s, ()))))"
  using assms
proof (induction xs arbitrary: s)
  case (Cons x xs)
  obtain r s' where f: "f x (s, ()) = (r, s', ())" by (metis prod_cases3 unit.exhaust)
  have "I s'" using Cons.prems(1) [of x s] Cons.prems(2) f by simp
  then show ?case using Cons f by (simp add: Let_def)
qed simp

lemma frame_on_trans:
  "frame_on L l X s s1 \<Longrightarrow> frame_on L l Y s1 s2 \<Longrightarrow> X \<subseteq> Z \<Longrightarrow> Y \<subseteq> Z \<Longrightarrow> frame_on L l Z s s2"
  unfolding frame_on_def by (metis subsetD)

lemma frame_on_refl: "chip_inv L l s \<Longrightarrow> chip_typed L l s \<Longrightarrow> frame_on L l X s s"
  by (simp add: frame_on_def)

context ctc_lib_laws
begin

lemma store_step_get:
  assumes inv: "chip_inv L l s" and old: "ctc_sai_db_get_object_property L l (fst x) s \<noteq> None"
  shows "ctc_sai_db_get_object_property L l oid (store_step L l skip new call x s) =
      (if oid = fst x \<and> \<not> skip x then Some (new x) else ctc_sai_db_get_object_property L l oid s)"
    and "chip_inv L l (store_step L l skip new call x s)"
    and "fault (store_step L l skip new call x s) = fault s"
proof -
  have i: "inited s l" using inv by (simp add: chip_inv_def)
  show "ctc_sai_db_get_object_property L l oid (store_step L l skip new call x s) =
      (if oid = fst x \<and> \<not> skip x then Some (new x) else ctc_sai_db_get_object_property L l oid s)"
    using store_object_get(1) [OF inv old, of oid "new x"]
    by (auto simp: store_step_def get_frame [of "snd (ext_call L c t)" t for c t])
  show "chip_inv L l (store_step L l skip new call x s)"
    using inv store_object_get(2) [OF inv old] by (simp add: store_step_def)
  show "fault (store_step L l skip new call x s) = fault s"
    by (simp add: store_step_def object_store_inited [OF i])
qed

lemma store_fold_get:
  assumes "chip_inv L l s" and "distinct (map fst xs)"
    and "\<And>x. x \<in> set xs \<Longrightarrow> ctc_sai_db_get_object_property L l (fst x) s \<noteq> None"
  shows "ctc_sai_db_get_object_property L l oid (fold (store_step L l skip new call) xs s) =
      (case map_of xs oid of
         Some d \<Rightarrow> if skip (oid, d) then ctc_sai_db_get_object_property L l oid s else Some (new (oid, d))
       | None \<Rightarrow> ctc_sai_db_get_object_property L l oid s) \<and>
    chip_inv L l (fold (store_step L l skip new call) xs s) \<and>
    fault (fold (store_step L l skip new call) xs s) = fault s"
  using assms
proof (induction xs arbitrary: s)
  case (Cons x xs)
  let ?s = "store_step L l skip new call x s"
  have old: "ctc_sai_db_get_object_property L l (fst x) s \<noteq> None" using Cons.prems(3) by simp
  note step = store_step_get [OF Cons.prems(1) old, where skip = skip and new = new and call = call]
  have "ctc_sai_db_get_object_property L l (fst y) ?s \<noteq> None" if "y \<in> set xs" for y
    using Cons.prems(3) [of y] that by (auto simp: step(1))
  then have IH: "ctc_sai_db_get_object_property L l oid (fold (store_step L l skip new call) xs ?s) =
      (case map_of xs oid of
         Some d \<Rightarrow> if skip (oid, d) then ctc_sai_db_get_object_property L l oid ?s else Some (new (oid, d))
       | None \<Rightarrow> ctc_sai_db_get_object_property L l oid ?s) \<and>
      chip_inv L l (fold (store_step L l skip new call) xs ?s) \<and>
      fault (fold (store_step L l skip new call) xs ?s) = fault ?s"
    using Cons.IH [OF step(2)] Cons.prems(2) by simp
  have "map_of xs (fst x) = None" using Cons.prems(2) by (simp add: map_of_eq_None_iff)
  then show ?case
    using IH by (auto simp: step(1,3) split: option.splits)
qed simp

lemma store_fold_trace:
  assumes "\<And>x l'. lock_delta (call x) l' = 0" and "\<And>x r p l' u. opf_step (call x) r p l' u = u"
  shows "lock_depth (trace (fold (store_step L l skip new call) xs s)) l' = lock_depth (trace s) l' \<and>
    opf_used (trace (fold (store_step L l skip new call) xs s)) p l' = opf_used (trace s) p l'"
  using assms by (induction xs arbitrary: s) (simp_all add: store_step_def)

lemma object_store_frame:
  assumes inv: "chip_inv L l s" and typed: "chip_typed L l s"
    and old: "ctc_sai_db_get_object_property L l oid s \<noteq> None" and fits: "data_fits (oid_type oid) d"
    and X: "oid \<in> X"
  shows "frame_on L l X s (object_store L l oid d s)"
proof -
  note st = store_object_get [OF inv old, where d = d]
  have "chip_typed L l (object_store L l oid d s)"
    using typed fits by (auto simp: chip_typed_def st(1))
  moreover have "fault (object_store L l oid d s) = fault s"
    using inv by (simp add: object_store_inited chip_inv_def)
  ultimately show ?thesis using st(2) old X by (auto simp: frame_on_def st(1))
qed

end

section \<open>Sample states\<close>

lemma ref_state_typed: "chip_typed ref_lib 0 ref_state"
  using ref_laws.fresh_db_lookup
  by (auto simp: chip_typed_def ctc_sai_db_get_object_property_def ref_state_def split: if_splits option.splits)

definition ref_add ::
    "sai_object_id \<times> obj_data \<Rightarrow> (ref_oid, ref_ent, ref_vec) sai_state \<Rightarrow> (ref_oid, ref_ent, ref_vec) sai_state" where
  "ref_add x s = snd (ctc_sai_db_add_object_property ref_lib 0 (fst x) (Some (snd x)) s)"

lemma ref_add_inv:
  assumes "chip_inv ref_lib 0 s \<and> chip_typed ref_lib 0 s" and "data_fits (oid_type (fst x)) (snd x)"
  shows "chip_inv ref_lib 0 (ref_add x s) \<and> chip_typed ref_lib 0 (ref_add x s)"
proof -
  have inv: "chip_inv ref_lib 0 s" using assms(1) by simp
  let ?r = "ctc_sai_db_add_object_property ref_lib 0 (fst x) (Some (snd x)) s"
  have "chip_typed ref_lib 0 (snd ?r)"
  proof (cases "fst ?r = 0")
    case True
    show ?thesis using assms by (auto simp: chip_typed_def ref_laws.add_object_get [OF inv True])
  next
    case False
    show ?thesis using assms(1) chip_typed_frame [OF ref_laws.add_object_refused [OF inv False]] by simp
  qed
  then show ?thesis using ref_laws.add_object_inv [OF inv] by (simp add: ref_add_def)
qed

lemma ref_fold_inv:
  "chip_inv ref_lib 0 s \<and> chip_typed ref_lib 0 s \<Longrightarrow> \<forall>x \<in> set xs. data_fits (oid_type (fst x)) (snd x) \<Longrightarrow>
     chip_inv ref_lib 0 (fold ref_add xs s) \<and> chip_typed ref_lib 0 (fold ref_add xs s)"
proof (induction xs arbitrary: s)
  case (Cons x xs)
  then show ?case using Cons.IH [of "ref_add x s"] ref_add_inv [of s x] by simp
qed simp

end
