(* ===== verification/SAI_Virtual_Router.thy ===== *)
theory SAI_Virtual_Router
  imports SAI_Objects
begin

text \<open>
  The virtual router module (\<^verbatim>\<open>centec/src/ctc_sai_virtual_router.c\<close>): a virtual router is an object
  of the database with a router address and two administrative states; changing one of them is
  passed on to every router interface of that router, by the traversal of
  \<^verbatim>\<open>ctc_sai_router_interface.c\<close> that is modelled first.
\<close>

section \<open>Passing a change on to the router interfaces\<close>

datatype rif_set_type = CTC_SAI_RIF_SET_TYPE_PORT | CTC_SAI_RIF_SET_TYPE_VRF

text \<open>\<^verbatim>\<open>p_value\<close> points to a 32-bit value or to an address; here it is the low bits of a word.\<close>

record ctc_sai_rif_traverse_param =
  tp_lchip :: u8
  tp_set_type :: rif_set_type
  tp_cmp_value :: u32
  tp_l3if_prop :: l3if_prop
  tp_value :: u64

abbreviation (input) SAI_ROUTER_INTERFACE_TYPE_PORT :: "3 word" where "SAI_ROUTER_INTERFACE_TYPE_PORT \<equiv> 0"
abbreviation (input) SAI_ROUTER_INTERFACE_TYPE_SUB_PORT :: "3 word" where
  "SAI_ROUTER_INTERFACE_TYPE_SUB_PORT \<equiv> 4"

text \<open>Whether the callback leaves an interface alone.\<close>

definition rif_skipped :: "ctc_sai_rif_traverse_param \<Rightarrow> ctc_object_id \<Rightarrow> ctc_sai_router_interface \<Rightarrow> bool" where
  "rif_skipped p c r =
     (if tp_set_type p = CTC_SAI_RIF_SET_TYPE_PORT \<and>
         (o_sub_type c = SAI_ROUTER_INTERFACE_TYPE_PORT \<or> o_sub_type c = SAI_ROUTER_INTERFACE_TYPE_SUB_PORT)
      then rif_gport r \<noteq> tp_cmp_value p
      else if tp_set_type p = CTC_SAI_RIF_SET_TYPE_VRF then ucast (rif_vrf_id r) \<noteq> tp_cmp_value p
      else False)"

definition router_interface_traverse_set_cb ::
    "('o, 'e, 'v) ctc_lib \<Rightarrow> ctc_sai_rif_traverse_param \<Rightarrow> sai_object_id \<times> obj_data option \<Rightarrow>
     ('o, 'e, 'v) sai_state \<times> unit \<Rightarrow> int \<times> ('o, 'e, 'v) sai_state \<times> unit" where
  "router_interface_traverse_set_cb L p bucket su =
     (let s = fst su; oid = fst bucket; l = tp_lchip p;
          c = snd (ctc_sai_get_ctc_object_id SAI_OBJECT_TYPE_ROUTER_INTERFACE oid) in
      case snd bucket of
        Some (RifData r) \<Rightarrow>
          if rif_skipped p c r then (SAI_STATUS_SUCCESS, s, ())
          else (case tp_l3if_prop p of
              L3IF_PROP_ROUTE_MAC_LOW_8BITS \<Rightarrow>
                (let s = object_store L l oid (RifData (r\<lparr>rif_src_mac := ucast (tp_value p)\<rparr>)) s;
                     (e, s) = ext_call L (L3ifSetRouterMac l (o_value c) (ucast (tp_value p))) s;
                     rv = ctc_sai_mapping_error_ctc L (rc e) in
                 if status_leaves rv then (rv, s, ()) else (SAI_STATUS_SUCCESS, s, ()))
            | L3IF_PROP_IPV4_UCAST \<Rightarrow>
                (let s = object_store L l oid (RifData (r\<lparr>rif_v4_state := ucast (tp_value p)\<rparr>)) s;
                     s = snd (ext_call L (L3ifSetProperty l (o_value c) L3IF_PROP_IPV4_UCAST (ucast (tp_value p))) s) in
                 (SAI_STATUS_SUCCESS, s, ()))
            | L3IF_PROP_IPV6_UCAST \<Rightarrow>
                (let s = object_store L l oid (RifData (r\<lparr>rif_v6_state := ucast (tp_value p)\<rparr>)) s;
                     s = snd (ext_call L (L3ifSetProperty l (o_value c) L3IF_PROP_IPV6_UCAST (ucast (tp_value p))) s) in
                 (SAI_STATUS_SUCCESS, s, ())))
      | _ \<Rightarrow> (SAI_STATUS_SUCCESS, s\<lparr>fault := True\<rparr>, ()))"

text \<open>The status of the traversal is dropped. The pointers in the parameter are never null here.\<close>

definition ctc_sai_router_interface_traverse_set ::
    "('o, 'e, 'v) ctc_lib \<Rightarrow> ctc_sai_rif_traverse_param \<Rightarrow> ('o, 'e, 'v) sai_state \<Rightarrow>
     sai_status \<times> ('o, 'e, 'v) sai_state" where
  "ctc_sai_router_interface_traverse_set L p s =
     (case ctc_sai_db_traverse_object_property L (tp_lchip p) SAI_OBJECT_TYPE_ROUTER_INTERFACE
        (router_interface_traverse_set_cb L p) (s, ()) of (st, s, u) \<Rightarrow> (SAI_STATUS_SUCCESS, s))"

section \<open>Database records of virtual routers\<close>

text \<open>
  When the addition fails the record is freed and then written all the same.
\<close>

definition virtual_router_build_db ::
    "('o, 'e, 'v) ctc_lib \<Rightarrow> u8 \<Rightarrow> sai_object_id \<Rightarrow> ('o, 'e, 'v) sai_state \<Rightarrow>
     sai_status \<times> ('o, 'e, 'v) sai_state" where
  "virtual_router_build_db L l oid s =
     (let (ok, s) = mem_malloc L s in
      if \<not> ok then (SAI_STATUS_NO_MEMORY, s)
      else let (st, s) = ctc_sai_db_add_object_property L l oid
                           (Some (VrData \<lparr>vr_src_mac = 0, vr_v4_state = 0, vr_v6_state = 0\<rparr>)) s;
               (r, s) = ext_call L (L3ifGetRouterMac l) s in
        if CTC_SAI_ERROR st then (st, s\<lparr>fault := True\<rparr>)
        else (st, object_store L l oid
                    (VrData \<lparr>vr_src_mac = ucast (out_val 0 r), vr_v4_state = 1, vr_v6_state = 1\<rparr>) s))"

definition virtual_router_remove_db ::
    "('o, 'e, 'v) ctc_lib \<Rightarrow> u8 \<Rightarrow> sai_object_id \<Rightarrow> ('o, 'e, 'v) sai_state \<Rightarrow>
     sai_status \<times> ('o, 'e, 'v) sai_state" where
  "virtual_router_remove_db L l oid s =
     (case ctc_sai_db_get_object_property L l oid s of
        None \<Rightarrow> (SAI_STATUS_ITEM_NOT_FOUND, s)
      | Some _ \<Rightarrow> (SAI_STATUS_SUCCESS, snd (ctc_sai_db_remove_object_property L l oid s)))"

section \<open>Attributes\<close>

abbreviation (input) SAI_VIRTUAL_ROUTER_ATTR_ADMIN_V4_STATE :: u32 where
  "SAI_VIRTUAL_ROUTER_ATTR_ADMIN_V4_STATE \<equiv> 0"
abbreviation (input) SAI_VIRTUAL_ROUTER_ATTR_ADMIN_V6_STATE :: u32 where
  "SAI_VIRTUAL_ROUTER_ATTR_ADMIN_V6_STATE \<equiv> 1"
abbreviation (input) SAI_VIRTUAL_ROUTER_ATTR_SRC_MAC_ADDRESS :: u32 where
  "SAI_VIRTUAL_ROUTER_ATTR_SRC_MAC_ADDRESS \<equiv> 2"

definition virtual_router_set_attr ::
    "('o, 'e, 'v) ctc_lib \<Rightarrow> sai_object_id \<Rightarrow> sai_attribute \<Rightarrow> ('o, 'e, 'v) sai_state \<Rightarrow>
     sai_status \<times> ('o, 'e, 'v) sai_state" where
  "virtual_router_set_attr L oid a s =
     (let l = oid_lchip s oid;
          vr_id = out_or 0 (snd (ctc_sai_oid_get_vrf_id oid)) :: u16;
          param = (\<lambda>prop x. \<lparr> tp_lchip = l, tp_set_type = CTC_SAI_RIF_SET_TYPE_VRF,
                     tp_cmp_value = ucast vr_id, tp_l3if_prop = prop, tp_value = x \<rparr>) in
      case ctc_sai_db_get_object_property L l oid s of
        None \<Rightarrow> (SAI_STATUS_ITEM_NOT_FOUND, s)
      | Some (VrData v) \<Rightarrow>
          if attr_id a = SAI_VIRTUAL_ROUTER_ATTR_ADMIN_V4_STATE then
            (let x = (if booldata (attr_value a) then 1 else 0) :: u8;
                 s = object_store L l oid (VrData (v\<lparr>vr_v4_state := x\<rparr>)) s in
             (SAI_STATUS_SUCCESS,
              snd (ctc_sai_router_interface_traverse_set L (param L3IF_PROP_IPV4_UCAST (ucast x)) s)))
          else if attr_id a = SAI_VIRTUAL_ROUTER_ATTR_ADMIN_V6_STATE then
            (let x = (if booldata (attr_value a) then 1 else 0) :: u8;
                 s = object_store L l oid (VrData (v\<lparr>vr_v6_state := x\<rparr>)) s in
             (SAI_STATUS_SUCCESS,
              snd (ctc_sai_router_interface_traverse_set L (param L3IF_PROP_IPV6_UCAST (ucast x)) s)))
          else if attr_id a = SAI_VIRTUAL_ROUTER_ATTR_SRC_MAC_ADDRESS then
            (let x = macdata (attr_value a);
                 s = object_store L l oid (VrData (v\<lparr>vr_src_mac := x\<rparr>)) s in
             (SAI_STATUS_SUCCESS,
              snd (ctc_sai_router_interface_traverse_set L (param L3IF_PROP_ROUTE_MAC_LOW_8BITS (ucast x)) s)))
          else (SAI_STATUS_NOT_SUPPORTED, s)
      | Some _ \<Rightarrow> (SAI_STATUS_SUCCESS, s\<lparr>fault := True\<rparr>))"

definition virtual_router_get_attr ::
    "('o, 'e, 'v) ctc_lib \<Rightarrow> sai_object_id \<Rightarrow> sai_attribute \<Rightarrow> u32 \<Rightarrow> ('o, 'e, 'v) sai_state \<Rightarrow>
     (sai_status \<times> sai_attribute) \<times> ('o, 'e, 'v) sai_state" where
  "virtual_router_get_attr L oid a idx s =
     (case ctc_sai_db_get_object_property L (oid_lchip s oid) oid s of
        None \<Rightarrow> ((SAI_STATUS_ITEM_NOT_FOUND, a), s)
      | Some (VrData v) \<Rightarrow>
          if attr_id a = SAI_VIRTUAL_ROUTER_ATTR_ADMIN_V4_STATE then
            ((SAI_STATUS_SUCCESS, set_bool (vr_v4_state v \<noteq> 0) a), s)
          else if attr_id a = SAI_VIRTUAL_ROUTER_ATTR_ADMIN_V6_STATE then
            ((SAI_STATUS_SUCCESS, set_bool (vr_v6_state v \<noteq> 0) a), s)
          else if attr_id a = SAI_VIRTUAL_ROUTER_ATTR_SRC_MAC_ADDRESS then
            ((SAI_STATUS_SUCCESS, set_mac (vr_src_mac v) a), s)
          else ((int32 (SAI_STATUS_ATTR_NOT_SUPPORTED_0 + uint idx), a), s)
      | Some _ \<Rightarrow> ((SAI_STATUS_SUCCESS, a), s\<lparr>fault := True\<rparr>))"

definition vr_attr_fn_entries ::
    "('o, 'e, 'v) ctc_lib \<Rightarrow> (sai_object_id, ('o, 'e, 'v) sai_state) attr_fn list" where
  "vr_attr_fn_entries L =
     map (\<lambda>i. \<lparr> fn_id = i, fn_get = Some (virtual_router_get_attr L), fn_set = Some (virtual_router_set_attr L) \<rparr>)
       [0, 1, 2] @
     map (\<lambda>i. \<lparr> fn_id = i, fn_get = None, fn_set = None \<rparr>) [3, 4, 5]"

section \<open>Used by other modules\<close>

text \<open>The three out parameters, which the caller may decline; nothing is written on failure.\<close>

definition ctc_sai_virtual_router_get_vr_info ::
    "('o, 'e, 'v) ctc_lib \<Rightarrow> sai_object_id \<Rightarrow> ('o, 'e, 'v) sai_state \<Rightarrow>
     sai_status \<times> (u8 \<times> u8 \<times> sai_mac) option" where
  "ctc_sai_virtual_router_get_vr_info L oid s =
     (case ctc_sai_db_get_object_property L (oid_lchip s oid) oid s of
        None \<Rightarrow> (SAI_STATUS_ITEM_NOT_FOUND, None)
      | Some (VrData v) \<Rightarrow> (SAI_STATUS_SUCCESS, Some (vr_v4_state v, vr_v6_state v, vr_src_mac v))
      | Some _ \<Rightarrow> (SAI_STATUS_SUCCESS, None))"

definition virtual_router_wb_reload_cb ::
    "('o, 'e, 'v) ctc_lib \<Rightarrow> u8 \<Rightarrow> sai_object_id \<Rightarrow> ('o, 'e, 'v) sai_state \<Rightarrow>
     sai_status \<times> ('o, 'e, 'v) sai_state" where
  "virtual_router_wb_reload_cb L l oid s =
     (let vrf = out_or 0 (snd (ctc_sai_oid_get_vrf_id oid)) :: u16;
          (st, s) = ctc_sai_db_alloc_id_from_position L l CTC_SAI_DB_ID_TYPE_VRF (ucast vrf) s in
      if status_leaves st then (st, s) else (SAI_STATUS_SUCCESS, s))"

section \<open>The SAI entry points\<close>

text \<open>
  The loop over the attributes of a creation: only \<^verbatim>\<open>NOT_SUPPORTED\<close> leaves it; any other failure is
  kept as the status and overwritten by the next attribute. The first component says whether the
  loop was left for the roll-back.
\<close>

definition create_vr_body ::
    "('o, 'e, 'v) ctc_lib \<Rightarrow> sai_object_id \<Rightarrow> sai_attribute list \<Rightarrow> u8 \<Rightarrow>
     bool \<times> sai_status \<times> ('o, 'e, 'v) sai_state \<Rightarrow>
     bool \<times> bool \<times> sai_status \<times> ('o, 'e, 'v) sai_state" where
  "create_vr_body L oid as i x =
     (case x of (rb, st, s) \<Rightarrow>
      if length as \<le> unat i then (True, False, st, s\<lparr>fault := True\<rparr>)
      else case ctc_sai_set_attribute oid SAI_OBJECT_TYPE_VIRTUAL_ROUTER (Some (vr_attr_fn_entries L))
             (Some (as ! unat i)) s of (st, s) \<Rightarrow>
        if st = SAI_STATUS_NOT_SUPPORTED
        then (True, True, int32 (SAI_STATUS_ATTR_NOT_SUPPORTED_0 + uint i), s)
        else (False, False, st, s))"

definition ctc_sai_virtual_router_create_vr ::
    "('o, 'e, 'v) ctc_lib \<Rightarrow> bool \<Rightarrow> sai_object_id \<Rightarrow> u32 \<Rightarrow> sai_attribute list \<Rightarrow>
     ('o, 'e, 'v) sai_state \<Rightarrow> ((sai_status \<times> sai_object_id option) \<times> ('o, 'e, 'v) sai_state) option" where
  "ctc_sai_virtual_router_create_vr L null_out switch_id attr_count as s =
     (if null_out then Some ((SAI_STATUS_INVALID_PARAMETER, None), s)
      else case ctc_sai_oid_get_lchip (inited s) switch_id of
        (st, None) \<Rightarrow> Some ((st, None), s)
      | (st, Some l) \<Rightarrow>
          (let s = snd (ctc_sai_db_lock L l s);
               unlock = (\<lambda>s. snd (ctc_sai_db_unlock L l s));
               ((st, v), s) = ctc_sai_db_alloc_id L l CTC_SAI_DB_ID_TYPE_VRF s;
               vrf = out_or 0 v in
           if status_leaves st then Some ((st, None), unlock s)
           else
             let oid = ctc_sai_create_object_id SAI_OBJECT_TYPE_VIRTUAL_ROUTER l 0 0 vrf;
                 (st, s) = virtual_router_build_db L l oid s in
             if status_leaves st then
               Some ((st, None), unlock (snd (ctc_sai_db_free_id L l CTC_SAI_DB_ID_TYPE_VRF vrf s)))
             else
               (case attr_loop (create_vr_body L oid as) attr_count 0 (False, st, s) of
                  None \<Rightarrow> None
                | Some (rb, st, s) \<Rightarrow>
                    if rb then
                      (let s = snd (virtual_router_remove_db L l oid s);
                           s = snd (ctc_sai_db_free_id L l CTC_SAI_DB_ID_TYPE_VRF vrf s) in
                       Some ((st, None), unlock s))
                    else Some ((st, Some oid), unlock s))))"

definition ctc_sai_virtual_router_remove_vr ::
    "('o, 'e, 'v) ctc_lib \<Rightarrow> sai_object_id \<Rightarrow> ('o, 'e, 'v) sai_state \<Rightarrow>
     sai_status \<times> ('o, 'e, 'v) sai_state" where
  "ctc_sai_virtual_router_remove_vr L oid s =
     (case ctc_sai_oid_get_lchip (inited s) oid of
        (st, None) \<Rightarrow> (st, s)
      | (st, Some l) \<Rightarrow>
          (let s = snd (ctc_sai_db_lock L l s);
               (st, s) = virtual_router_remove_db L l oid s in
           if status_leaves st then (st, snd (ctc_sai_db_unlock L l s))
           else
             let vrf = out_or 0 (snd (ctc_sai_oid_get_vrf_id oid)) :: u16;
                 s = snd (ctc_sai_db_free_id L l CTC_SAI_DB_ID_TYPE_VRF (ucast vrf) s) in
             (st, snd (ctc_sai_db_unlock L l s))))"

definition ctc_sai_virtual_router_set_vr_attr ::
    "('o, 'e, 'v) ctc_lib \<Rightarrow> sai_object_id \<Rightarrow> sai_attribute option \<Rightarrow> ('o, 'e, 'v) sai_state \<Rightarrow>
     sai_status \<times> ('o, 'e, 'v) sai_state" where
  "ctc_sai_virtual_router_set_vr_attr L oid a s =
     (case ctc_sai_oid_get_lchip (inited s) oid of
        (st, None) \<Rightarrow> (st, s)
      | (st, Some l) \<Rightarrow>
          (let s = snd (ctc_sai_db_lock L l s);
               (st, s) = ctc_sai_set_attribute oid SAI_OBJECT_TYPE_VIRTUAL_ROUTER
                           (Some (vr_attr_fn_entries L)) a s in
           (st, snd (ctc_sai_db_unlock L l s))))"

definition ctc_sai_virtual_router_get_vr_attr ::
    "('o, 'e, 'v) ctc_lib \<Rightarrow> sai_object_id \<Rightarrow> u32 \<Rightarrow> sai_attribute list \<Rightarrow> ('o, 'e, 'v) sai_state \<Rightarrow>
     ((sai_status \<times> sai_attribute list) \<times> ('o, 'e, 'v) sai_state) option" where
  "ctc_sai_virtual_router_get_vr_attr L oid attr_count as s =
     (case ctc_sai_oid_get_lchip (inited s) oid of
        (st, None) \<Rightarrow> Some ((st, as), s)
      | (st, Some l) \<Rightarrow>
          (case attr_loop (get_attr_body oid SAI_OBJECT_TYPE_VIRTUAL_ROUTER (vr_attr_fn_entries L))
             attr_count (0 :: u8) (SAI_STATUS_SUCCESS, as, snd (ctc_sai_db_lock L l s)) of
             None \<Rightarrow> None
           | Some (st, as, s) \<Rightarrow> Some ((st, as), snd (ctc_sai_db_unlock L l s))))"

section \<open>The traversal of the router interfaces\<close>

definition rif_upd :: "ctc_sai_rif_traverse_param \<Rightarrow> ctc_sai_router_interface \<Rightarrow> ctc_sai_router_interface" where
  "rif_upd p r =
     (case tp_l3if_prop p of
        L3IF_PROP_ROUTE_MAC_LOW_8BITS \<Rightarrow> r\<lparr>rif_src_mac := ucast (tp_value p)\<rparr>
      | L3IF_PROP_IPV4_UCAST \<Rightarrow> r\<lparr>rif_v4_state := ucast (tp_value p)\<rparr>
      | L3IF_PROP_IPV6_UCAST \<Rightarrow> r\<lparr>rif_v6_state := ucast (tp_value p)\<rparr>)"

definition rif_call :: "ctc_sai_rif_traverse_param \<Rightarrow> sai_object_id \<Rightarrow> ext" where
  "rif_call p oid =
     (let l3if = o_value (oid_unpack oid) in
      case tp_l3if_prop p of
        L3IF_PROP_ROUTE_MAC_LOW_8BITS \<Rightarrow> L3ifSetRouterMac (tp_lchip p) l3if (ucast (tp_value p))
      | prop \<Rightarrow> L3ifSetProperty (tp_lchip p) l3if prop (ucast (tp_value p)))"

fun bucket_rif :: "obj_bucket \<Rightarrow> ctc_sai_router_interface" where
  "bucket_rif (oid, Some (RifData r)) = r"
| "bucket_rif x = \<lparr>rif_gport = 0, rif_vrf_id = 0, rif_src_mac = 0, rif_v4_state = 0, rif_v6_state = 0\<rparr>"

abbreviation rif_step ::
    "('o, 'e, 'v) ctc_lib \<Rightarrow> ctc_sai_rif_traverse_param \<Rightarrow> obj_bucket \<Rightarrow> ('o, 'e, 'v) sai_state \<Rightarrow>
     ('o, 'e, 'v) sai_state" where
  "rif_step L p \<equiv> store_step L (tp_lchip p)
     (\<lambda>x. rif_skipped p (oid_unpack (fst x)) (bucket_rif x))
     (\<lambda>x. RifData (rif_upd p (bucket_rif x))) (\<lambda>x. rif_call p (fst x))"

definition rif_oids :: "sai_object_id set" where
  "rif_oids = {oid. oid_type oid = SAI_OBJECT_TYPE_ROUTER_INTERFACE}"

abbreviation rif_frame ::
    "('o, 'e, 'v) ctc_lib \<Rightarrow> u8 \<Rightarrow> ('o, 'e, 'v) sai_state \<Rightarrow> ('o, 'e, 'v) sai_state \<Rightarrow> bool" where
  "rif_frame L l \<equiv> frame_on L l rif_oids"

text \<open>What setting a state attribute to \<open>b\<close> means for the router and for an interface of it.\<close>

definition vr_apply :: "u32 \<Rightarrow> bool \<Rightarrow> ctc_sai_virtual_router \<Rightarrow> ctc_sai_virtual_router" where
  "vr_apply aid b v =
     (if aid = SAI_VIRTUAL_ROUTER_ATTR_ADMIN_V4_STATE then v\<lparr>vr_v4_state := (if b then 1 else 0)\<rparr>
      else v\<lparr>vr_v6_state := (if b then 1 else 0)\<rparr>)"

definition rif_apply :: "u32 \<Rightarrow> bool \<Rightarrow> ctc_sai_router_interface \<Rightarrow> ctc_sai_router_interface" where
  "rif_apply aid b r =
     (if aid = SAI_VIRTUAL_ROUTER_ATTR_ADMIN_V4_STATE then r\<lparr>rif_v4_state := (if b then 1 else 0)\<rparr>
      else r\<lparr>rif_v6_state := (if b then 1 else 0)\<rparr>)"

lemma traverse_cb_step:
  assumes "snd x = Some (RifData r)"
  shows "fst (snd (router_interface_traverse_set_cb L p x (s, ()))) = rif_step L p x s"
    and "tp_l3if_prop p \<noteq> L3IF_PROP_ROUTE_MAC_LOW_8BITS \<Longrightarrow>
      fst (router_interface_traverse_set_cb L p x (s, ())) = SAI_STATUS_SUCCESS"
  using assms
  by (cases x; cases "tp_l3if_prop p";
      simp add: router_interface_traverse_set_cb_def store_step_def rif_upd_def rif_call_def Let_def
        ctc_sai_get_ctc_object_id_def case_prod_beta)+

lemma rif_call_quiet [simp]:
  "lock_delta (rif_call p oid) l = 0" "opf_step (rif_call p oid) r q l u = u"
  by (cases "tp_l3if_prop p"; simp add: rif_call_def Let_def)+

context ctc_lib_laws
begin

lemma rif_items:
  assumes inv: "chip_inv L l s" and typed: "chip_typed L l s" and db: "g_sai_db s l = Some db"
    and x: "x \<in> set (hash_items (oid_ops L) (oid_hash db SAI_OBJECT_TYPE_ROUTER_INTERFACE))"
  shows "oid_type (fst x) = SAI_OBJECT_TYPE_ROUTER_INTERFACE"
    and "ctc_sai_db_get_object_property L l (fst x) s = snd x"
    and "\<exists>r. snd x = Some (RifData r)"
proof -
  have ok: "db_ok L db" "l < CTC_SAI_MAX_CHIP_NUM" using inv db by (auto elim!: chip_inv_obtain)
  have v: "ctc_sai_is_object_type_valid SAI_OBJECT_TYPE_ROUTER_INTERFACE"
    by (simp add: ctc_sai_is_object_type_valid_def)
  have lk: "hash_lookup (oid_ops L) (oid_hash db SAI_OBJECT_TYPE_ROUTER_INTERFACE) (fst x) = Some (snd x)"
    using oid.lookup_Some_iff [OF db_ok_oid_hash [OF ok(1) v], of "fst x" "snd x"] x by simp
  have t: "oid_type (fst x) = SAI_OBJECT_TYPE_ROUTER_INTERFACE" "snd x \<noteq> None"
    using db_ok_lookup [OF ok(1) v lk] by simp_all
  show "oid_type (fst x) = SAI_OBJECT_TYPE_ROUTER_INTERFACE" by (rule t)
  show g: "ctc_sai_db_get_object_property L l (fst x) s = snd x"
    using get_lookup [OF db ok(2), of "fst x"] lk v t(1) by (simp add: oid_valid_def)
  obtain d where d: "snd x = Some d" using t(2) by blast
  then have "data_fits SAI_OBJECT_TYPE_ROUTER_INTERFACE d"
    using typed g t(1) unfolding chip_typed_def by metis
  then show "\<exists>r. snd x = Some (RifData r)" using d by (cases d) auto
qed

lemma rif_step_frame:
  assumes fr: "rif_frame L (tp_lchip p) s0 s" and t: "oid_type (fst x) = SAI_OBJECT_TYPE_ROUTER_INTERFACE"
    and ex: "ctc_sai_db_get_object_property L (tp_lchip p) (fst x) s0 \<noteq> None"
  shows "rif_frame L (tp_lchip p) s0 (rif_step L p x s)"
proof -
  have inv: "chip_inv L (tp_lchip p) s" and ex': "ctc_sai_db_get_object_property L (tp_lchip p) (fst x) s \<noteq> None"
    using fr ex by (auto simp: frame_on_def rif_oids_def)
  note st = store_step_get [OF inv ex', where skip = "\<lambda>x. rif_skipped p (oid_unpack (fst x)) (bucket_rif x)"
      and new = "\<lambda>x. RifData (rif_upd p (bucket_rif x))" and call = "\<lambda>x. rif_call p (fst x)"]
  have "chip_typed L (tp_lchip p) (rif_step L p x s)"
    using fr t by (auto simp: chip_typed_def frame_on_def rif_oids_def st(1))
  moreover have "lock_depth (trace (rif_step L p x s)) l' = lock_depth (trace s) l'" for l'
    by (simp add: store_step_def)
  moreover have "opf_used (trace (rif_step L p x s)) q l' = opf_used (trace s) q l'" for q l'
    by (simp add: store_step_def)
  ultimately show ?thesis using fr t ex ex' st(2,3) unfolding frame_on_def rif_oids_def by (auto simp: st(1))
qed

lemma traverse_set_frame:
  assumes inv: "chip_inv L (tp_lchip p) s" and typed: "chip_typed L (tp_lchip p) s"
  shows "rif_frame L (tp_lchip p) s (snd (ctc_sai_router_interface_traverse_set L p s))"
proof -
  obtain db where db: "g_sai_db s (tp_lchip p) = Some db"
    "SAI_DB_INIT_CHECK s (tp_lchip p) = SAI_STATUS_SUCCESS"
    using inv by (rule chip_inv_obtain)
  let ?xs = "hash_items (oid_ops L) (oid_hash db SAI_OBJECT_TYPE_ROUTER_INTERFACE)"
  have "rif_frame L (tp_lchip p) s
      (fst (snd (hash_traverse (traverse_stops L) (traverse_ret L) (router_interface_traverse_set_cb L p) ?xs (s, ()))))"
  proof (rule hash_traverse_inv)
    show "rif_frame L (tp_lchip p) s s" using inv typed by (simp add: frame_on_def rif_oids_def)
    fix x s' assume x: "x \<in> set ?xs" and fr: "rif_frame L (tp_lchip p) s s'"
    obtain r where r: "snd x = Some (RifData r)" using rif_items(3) [OF inv typed db(1) x] by blast
    show "rif_frame L (tp_lchip p) s (fst (snd (router_interface_traverse_set_cb L p x (s', ()))))"
      unfolding traverse_cb_step(1) [OF r]
      by (rule rif_step_frame [OF fr rif_items(1) [OF inv typed db(1) x]])
         (simp add: rif_items(2) [OF inv typed db(1) x] r)
  qed
  moreover have "ctc_sai_is_object_type_valid SAI_OBJECT_TYPE_ROUTER_INTERFACE"
    by (simp add: ctc_sai_is_object_type_valid_def)
  ultimately show ?thesis
    by (auto simp: ctc_sai_router_interface_traverse_set_def ctc_sai_db_traverse_object_property_def db Let_def
        split: prod.splits if_splits)
qed

text \<open>The administrative states reach every interface of the router, and only these.\<close>

lemma traverse_set_get:
  assumes inv: "chip_inv L (tp_lchip p) s" and typed: "chip_typed L (tp_lchip p) s"
    and notmac: "tp_l3if_prop p \<noteq> L3IF_PROP_ROUTE_MAC_LOW_8BITS"
  shows "ctc_sai_db_get_object_property L (tp_lchip p) oid (snd (ctc_sai_router_interface_traverse_set L p s)) =
    (case ctc_sai_db_get_object_property L (tp_lchip p) oid s of
       Some (RifData r) \<Rightarrow>
         Some (RifData (if rif_skipped p (oid_unpack oid) r then r else rif_upd p r))
     | d \<Rightarrow> d)"
proof -
  obtain db where db: "g_sai_db s (tp_lchip p) = Some db" "db_ok L db" "tp_lchip p < CTC_SAI_MAX_CHIP_NUM"
    "SAI_DB_INIT_CHECK s (tp_lchip p) = SAI_STATUS_SUCCESS"
    using inv by (rule chip_inv_obtain)
  have v: "ctc_sai_is_object_type_valid SAI_OBJECT_TYPE_ROUTER_INTERFACE"
    by (simp add: ctc_sai_is_object_type_valid_def)
  note hok = db_ok_oid_hash [OF db(2) v]
  let ?xs = "hash_items (oid_ops L) (oid_hash db SAI_OBJECT_TYPE_ROUTER_INTERFACE)"
  have cb: "router_interface_traverse_set_cb L p x (s', ()) = (0, rif_step L p x s', ())"
    if x: "x \<in> set ?xs" for x s'
  proof -
    obtain r where r: "snd x = Some (RifData r)" using rif_items(3) [OF inv typed db(1) x] by blast
    show ?thesis using traverse_cb_step [OF r, where L = L and p = p and s = s'] notmac by (simp add: prod_eq_iff)
  qed
  have s': "snd (ctc_sai_router_interface_traverse_set L p s) = fold (rif_step L p) ?xs s"
    using hash_traverse_fold [of "traverse_stops L" ?xs "router_interface_traverse_set_cb L p" "rif_step L p"]
      traverse_goes_on(1) cb v
    by (simp add: ctc_sai_router_interface_traverse_set_def ctc_sai_db_traverse_object_property_def db)
  have look: "map_of ?xs oid = hash_lookup (oid_ops L) (oid_hash db SAI_OBJECT_TYPE_ROUTER_INTERFACE) oid"
    by (simp add: oid.lookup_items [OF hok])
  have ex: "ctc_sai_db_get_object_property L (tp_lchip p) (fst x) s \<noteq> None" if "x \<in> set ?xs" for x
    using rif_items(2,3) [OF inv typed db(1) that] by auto
  have fold: "ctc_sai_db_get_object_property L (tp_lchip p) oid (fold (rif_step L p) ?xs s) =
      (case map_of ?xs oid of
         Some d \<Rightarrow> if rif_skipped p (oid_unpack oid) (bucket_rif (oid, d))
           then ctc_sai_db_get_object_property L (tp_lchip p) oid s
           else Some (RifData (rif_upd p (bucket_rif (oid, d))))
       | None \<Rightarrow> ctc_sai_db_get_object_property L (tp_lchip p) oid s)"
    by (subst store_fold_get [OF inv oid.items_distinct [OF hok], THEN conjunct1])
       (use ex in \<open>auto split: option.splits\<close>)
  show ?thesis
  proof (cases "map_of ?xs oid")
    case (Some d)
    have x: "(oid, d) \<in> set ?xs" using Some by (rule map_of_SomeD)
    obtain r where "d = Some (RifData r)" using rif_items(3) [OF inv typed db(1) x] by auto
    then show ?thesis unfolding s' fold using Some rif_items(2) [OF inv typed db(1) x] by simp
  next
    case None
    have "get \<noteq> Some (RifData r)" if "get = ctc_sai_db_get_object_property L (tp_lchip p) oid s" for get r
    proof
      assume g: "get = Some (RifData r)"
      then have "oid_type oid = SAI_OBJECT_TYPE_ROUTER_INTERFACE"
        using typed that unfolding chip_typed_def by (metis data_fits.simps(2))
      then show False
        using g that None look get_lookup [OF db(1,3), of oid] v by (simp add: oid_valid_def)
    qed
    then show ?thesis unfolding s' fold using None by (auto split: option.splits obj_data.splits)
  qed
qed

end

section \<open>Virtual routers\<close>

lemma vr_set_attribute_cases:
  "ctc_sai_set_attribute oid SAI_OBJECT_TYPE_VIRTUAL_ROUTER (Some (vr_attr_fn_entries L)) (Some a) s =
     (if attr_id a \<in> {0, 1, 2} then virtual_router_set_attr L oid a s
      else if attr_id a \<in> {3, 4, 5} then (SAI_STATUS_INVALID_ATTRIBUTE_0, s)
      else (SAI_STATUS_ITEM_NOT_FOUND, s))"
  by (simp add: ctc_sai_set_attribute_def ctc_sai_check_attr_metadata_def ctc_sai_is_object_type_valid_def
      ctc_sai_find_attribute_fn_def vr_attr_fn_entries_def status_leaves_def)

lemma vr_get_attribute_known:
  "attr_id a \<in> {0, 1, 2} \<Longrightarrow>
   ctc_sai_get_attribute oid SAI_OBJECT_TYPE_VIRTUAL_ROUTER i (Some (vr_attr_fn_entries L)) (Some a) s =
     (case virtual_router_get_attr L oid a i s of ((st, a'), s) \<Rightarrow> ((st, Some a'), s))"
  by (auto simp: ctc_sai_get_attribute_def ctc_sai_check_attr_metadata_def ctc_sai_is_object_type_valid_def
      ctc_sai_find_attribute_fn_def vr_attr_fn_entries_def status_leaves_def Let_def split: prod.splits)

context ctc_lib_laws
begin

lemma vr_set_frame:
  assumes inv: "chip_inv L l s" and typed: "chip_typed L l s" and l: "oid_lchip s oid = l"
    and vr: "ctc_sai_db_get_object_property L l oid s = Some (VrData v)"
  shows "frame_on L l (insert oid rif_oids) s (snd (virtual_router_set_attr L oid a s))"
proof -
  have t: "oid_type oid = SAI_OBJECT_TYPE_VIRTUAL_ROUTER"
    using typed vr unfolding chip_typed_def by (metis data_fits.simps(1))
  have both: "frame_on L l (insert oid rif_oids) s
      (snd (ctc_sai_router_interface_traverse_set L p (object_store L l oid (VrData v') s)))"
    if p: "tp_lchip p = l" for p v'
  proof -
    have f: "frame_on L l {oid} s (object_store L l oid (VrData v') s)"
      by (rule object_store_frame [OF inv typed]) (simp_all add: vr t)
    then have "rif_frame L l (object_store L l oid (VrData v') s)
        (snd (ctc_sai_router_interface_traverse_set L p (object_store L l oid (VrData v') s)))"
      using traverse_set_frame [of p] p by (simp add: frame_on_def)
    with f show ?thesis by (rule frame_on_trans) auto
  qed
  show ?thesis
    by (simp add: virtual_router_set_attr_def l vr Let_def both frame_on_refl [OF inv typed])
qed

lemma vr_stays:
  assumes "frame_on L l X s s'" and "ctc_sai_db_get_object_property L l oid s = Some (VrData v)"
    and "chip_typed L l s"
  shows "\<exists>v'. ctc_sai_db_get_object_property L l oid s' = Some (VrData v')"
proof -
  have t: "oid_type oid = SAI_OBJECT_TYPE_VIRTUAL_ROUTER"
    using assms(2,3) unfolding chip_typed_def by (metis data_fits.simps(1))
  obtain d where d: "ctc_sai_db_get_object_property L l oid s' = Some d"
    using assms(1,2) unfolding frame_on_def by (metis option.exhaust option.distinct(1))
  then have "data_fits SAI_OBJECT_TYPE_VIRTUAL_ROUTER d"
    using assms(1) t unfolding frame_on_def chip_typed_def by metis
  then show ?thesis using d by (cases d) auto
qed

end

context ctc_lib_laws
begin

text \<open>What creating the record of a virtual router does, when it succeeds and when not.\<close>

lemma vr_build_db:
  assumes inv: "chip_inv L l s" and typed: "chip_typed L l s"
    and t: "oid_type oid = SAI_OBJECT_TYPE_VIRTUAL_ROUTER"
    and r: "virtual_router_build_db L l oid s = (st, s')"
  shows "lock_depth (trace s') = lock_depth (trace s) \<and> opf_used (trace s') = opf_used (trace s) \<and>
    chip_inv L l s' \<and> chip_typed L l s' \<and> st \<le> 0"
    and "st < 0 \<Longrightarrow> ctc_sai_db_get_object_property L l oid' s' = ctc_sai_db_get_object_property L l oid' s"
    and "st = 0 \<Longrightarrow> fault s' = fault s \<and> ctc_sai_db_get_object_property L l oid s = None \<and>
       (\<exists>m. ctc_sai_db_get_object_property L l oid' s' =
         (if oid' = oid then Some (VrData \<lparr>vr_src_mac = m, vr_v4_state = 1, vr_v6_state = 1\<rparr>)
          else ctc_sai_db_get_object_property L l oid' s))"
proof -
  let ?init = "VrData \<lparr>vr_src_mac = 0, vr_v4_state = 0, vr_v6_state = 0\<rparr>"
  obtain ok s1 where m: "mem_malloc L s = (ok, s1)" by (rule prod.exhaust)
  obtain ast s2 where a: "ctc_sai_db_add_object_property L l oid (Some ?init) s1 = (ast, s2)" by (rule prod.exhaust)
  obtain e s3 where x: "ext_call L (L3ifGetRouterMac l) s2 = (e, s3)" by (rule prod.exhaust)
  let ?fin = "VrData \<lparr>vr_src_mac = ucast (out_val 0 e), vr_v4_state = 1, vr_v6_state = 1\<rparr>"
  have db1: "g_sai_db s1 = g_sai_db s" and db3: "g_sai_db s3 = g_sai_db s2"
    using mem_malloc_frame(1) [of L s] m ext_call_frame(1) [of L "L3ifGetRouterMac l" s2] x by simp_all
  have inv1: "chip_inv L l s1" and typed1: "chip_typed L l s1"
    and get1: "ctc_sai_db_get_object_property L l o' s1 = ctc_sai_db_get_object_property L l o' s" for o'
    using inv typed by (simp_all add: chip_frame_eqs [OF db1])
  have tr1: "lock_depth (trace s1) = lock_depth (trace s)" "opf_used (trace s1) = opf_used (trace s)"
    "fault s1 = fault s"
    using mem_malloc_frame [of L s] m by (simp_all add: fun_eq_iff)
  have tr2: "lock_depth (trace s2) = lock_depth (trace s1)" "opf_used (trace s2) = opf_used (trace s1)"
    "fault s2 = fault s1"
    using add_object_trace [of l oid "Some ?init" s1] a by (simp_all add: fun_eq_iff)
  have tr3: "lock_depth (trace s3) = lock_depth (trace s2)" "opf_used (trace s3) = opf_used (trace s2)"
    "fault s3 = fault s2"
    using ext_call_frame [of L "L3ifGetRouterMac l" s2] x by (simp_all add: fun_eq_iff)
  note tr = tr1 tr2 tr3
  have neg: "ast \<le> 0"
    using add_object_status [OF ctc_lib_laws_axioms, of s1 l oid ?init] inv1 a by (auto simp: chip_inv_def)
  consider (nomem) "st = SAI_STATUS_NO_MEMORY" "s' = s1"
    | (refused) "ast < 0" "st = ast" "s' = s3\<lparr>fault := True\<rparr>"
    | (added) "ast = 0" "st = 0" "s' = object_store L l oid ?fin s3"
    using r neg by (auto simp: virtual_router_build_db_def CTC_SAI_ERROR_def m a x split: if_splits)
  then have main: "(lock_depth (trace s') = lock_depth (trace s) \<and> opf_used (trace s') = opf_used (trace s) \<and>
      chip_inv L l s' \<and> chip_typed L l s' \<and> st \<le> 0) \<and>
    (st < 0 \<longrightarrow> (\<forall>o'. ctc_sai_db_get_object_property L l o' s' = ctc_sai_db_get_object_property L l o' s)) \<and>
    (st = 0 \<longrightarrow> fault s' = fault s \<and> ctc_sai_db_get_object_property L l oid s = None \<and>
       (\<forall>o'. ctc_sai_db_get_object_property L l o' s' =
         (if o' = oid then Some ?fin else ctc_sai_db_get_object_property L l o' s)))"
  proof cases
    case nomem
    then show ?thesis using inv1 typed1 get1 tr by simp
  next
    case refused
    have "g_sai_db s' = g_sai_db s1" using add_object_refused [OF inv1, of oid ?init] refused a db3 by simp
    then show ?thesis using refused inv1 typed1 get1 tr chip_frame_eqs [of s' s1] by simp
  next
    case added
    have inv3: "chip_inv L l s3" using add_object_inv [OF inv1, of oid ?init] a chip_frame_eqs [OF db3] by simp
    have get3: "ctc_sai_db_get_object_property L l o' s3 =
        (if o' = oid then Some ?init else ctc_sai_db_get_object_property L l o' s)" for o'
      using add_object_get [OF inv1, of oid ?init o'] added(1) a get1 chip_frame_eqs [OF db3] by simp
    have typed3: "chip_typed L l s3" using typed t by (auto simp: chip_typed_def get3)
    have ex3: "ctc_sai_db_get_object_property L l oid s3 \<noteq> None" by (simp add: get3)
    have fr: "frame_on L l {oid} s3 s'"
      unfolding added(3) by (rule object_store_frame [OF inv3 typed3 ex3]) (simp_all add: t)
    have new: "ctc_sai_db_get_object_property L l oid s = None"
      using added(1) a get1 add_object_status [OF ctc_lib_laws_axioms, of s1 l oid ?init] inv1
      by (auto simp: chip_inv_def split: if_splits)
    have "ctc_sai_db_get_object_property L l o' s' =
        (if o' = oid then Some ?fin else ctc_sai_db_get_object_property L l o' s)" for o'
      unfolding added(3) by (simp add: store_object_get(1) [OF inv3 ex3] get3)
    then show ?thesis using fr new tr added(2) by (simp add: frame_on_def fun_eq_iff)
  qed
  show "lock_depth (trace s') = lock_depth (trace s) \<and> opf_used (trace s') = opf_used (trace s) \<and>
      chip_inv L l s' \<and> chip_typed L l s' \<and> st \<le> 0" using main by (rule conjunct1)
  show "ctc_sai_db_get_object_property L l oid' s' = ctc_sai_db_get_object_property L l oid' s" if "st < 0"
    using main that by simp
  show "fault s' = fault s \<and> ctc_sai_db_get_object_property L l oid s = None \<and>
       (\<exists>m. ctc_sai_db_get_object_property L l oid' s' =
         (if oid' = oid then Some (VrData \<lparr>vr_src_mac = m, vr_v4_state = 1, vr_v6_state = 1\<rparr>)
          else ctc_sai_db_get_object_property L l oid' s))" if "st = 0"
    using main that by auto
qed

text \<open>The loop over the attributes of a new virtual router.\<close>

lemma vr_loop_frame:
  assumes inv: "chip_inv L l s" and typed: "chip_typed L l s" and l: "l < CTC_SAI_MAX_CHIP_NUM"
    and oid: "oid = ctc_sai_create_object_id SAI_OBJECT_TYPE_VIRTUAL_ROUTER l 0 0 vrf"
    and vr: "\<exists>v. ctc_sai_db_get_object_property L l oid s = Some (VrData v)"
    and len: "unat i + n \<le> length as" "unat i + n \<le> 256"
  shows "frame_on L l (insert oid rif_oids) s
    (snd (snd (loop_steps (create_vr_body L oid as) n i (False, st, s))))"
  using inv typed vr len
proof (induction n arbitrary: i st s)
  case 0
  then show ?case by (simp add: frame_on_refl)
next
  case (Suc n)
  obtain v where v: "ctc_sai_db_get_object_property L l oid s = Some (VrData v)" using Suc.prems(3) by blast
  obtain st1 s1 where set: "ctc_sai_set_attribute oid SAI_OBJECT_TYPE_VIRTUAL_ROUTER
      (Some (vr_attr_fn_entries L)) (Some (as ! unat i)) s = (st1, s1)" by (rule prod.exhaust)
  have body: "create_vr_body L oid as i (False, st, s) =
      (if st1 = SAI_STATUS_NOT_SUPPORTED
       then (True, True, int32 (SAI_STATUS_ATTR_NOT_SUPPORTED_0 + uint i), s1) else (False, False, st1, s1))"
    using set Suc.prems(4) by (simp add: create_vr_body_def)
  have ol: "oid_lchip s oid = l"
    unfolding oid by (rule oid_lchip_create [OF l]) (use Suc.prems(1) in \<open>simp add: chip_inv_def\<close>)
  have fr: "frame_on L l (insert oid rif_oids) s s1"
    using set vr_set_frame [OF Suc.prems(1,2) ol v, of "as ! unat i"] frame_on_refl [OF Suc.prems(1,2)]
    by (auto simp: vr_set_attribute_cases split: if_splits)
  have i: "unat (i + 1) = unat i + 1" if "n \<noteq> 0"
    using Suc.prems(5) that unat_u8_less [of i] by (simp add: unat_word_ariths)
  show ?case
  proof (cases "st1 = SAI_STATUS_NOT_SUPPORTED \<or> n = 0")
    case True
    then show ?thesis using fr by (auto simp: body)
  next
    case False
    have "frame_on L l (insert oid rif_oids) s1
        (snd (snd (loop_steps (create_vr_body L oid as) n (i + 1) (False, st1, s1))))"
      using Suc.IH [of s1 "i + 1" st1] fr vr_stays [OF fr v Suc.prems(2)] i False Suc.prems(4,5)
      by (simp add: frame_on_def)
    then have "frame_on L l (insert oid rif_oids) s
        (snd (snd (loop_steps (create_vr_body L oid as) n (i + 1) (False, st1, s1))))"
      by (rule frame_on_trans [OF fr]) simp_all
    then show ?thesis using False by (simp add: body)
  qed
qed

end

definition vr_created ::
    "('o, 'e, 'v) ctc_lib \<Rightarrow> u8 \<Rightarrow> sai_object_id option \<Rightarrow> ('o, 'e, 'v) sai_state \<Rightarrow> ('o, 'e, 'v) sai_state \<Rightarrow> bool" where
  "vr_created L l r s s' \<longleftrightarrow>
     (case r of
        None \<Rightarrow> \<forall>oid. oid \<notin> rif_oids \<longrightarrow>
          ctc_sai_db_get_object_property L l oid s' = ctc_sai_db_get_object_property L l oid s
      | Some oid \<Rightarrow>
          oid_type oid = SAI_OBJECT_TYPE_VIRTUAL_ROUTER \<and>
          ctc_sai_db_get_object_property L l oid s = None \<and>
          (\<exists>v. ctc_sai_db_get_object_property L l oid s' = Some (VrData v)) \<and>
          (\<forall>oid'. oid' \<noteq> oid \<longrightarrow> oid' \<notin> rif_oids \<longrightarrow>
             ctc_sai_db_get_object_property L l oid' s' = ctc_sai_db_get_object_property L l oid' s) \<and>
          fault s' = fault s \<and>
          o_value (oid_unpack oid) \<notin> set (opf_used (trace s) CTC_SAI_DB_ID_TYPE_VRF l) \<and>
          opf_used (trace s') CTC_SAI_DB_ID_TYPE_VRF l =
            o_value (oid_unpack oid) # opf_used (trace s) CTC_SAI_DB_ID_TYPE_VRF l)"

lemma vr_created_frame:
  assumes "g_sai_db s1' = g_sai_db s1" "g_sai_db s2' = g_sai_db s2"
    "fault s1' = fault s1" "fault s2' = fault s2"
    "opf_used (trace s1') = opf_used (trace s1)" "opf_used (trace s2') = opf_used (trace s2)"
  shows "vr_created L l r s1' s2' = vr_created L l r s1 s2"
  by (cases r) (simp_all add: vr_created_def assms get_frame [OF assms(1)] get_frame [OF assms(2)])

text \<open>The body of the creation, between locking and unlocking.\<close>

definition create_vr_locked ::
    "('o, 'e, 'v) ctc_lib \<Rightarrow> u8 \<Rightarrow> u32 \<Rightarrow> sai_attribute list \<Rightarrow> ('o, 'e, 'v) sai_state \<Rightarrow>
     ((sai_status \<times> sai_object_id option) \<times> ('o, 'e, 'v) sai_state) option" where
  "create_vr_locked L l attr_count as s =
     (case ctc_sai_db_alloc_id L l CTC_SAI_DB_ID_TYPE_VRF s of ((st, v), s) \<Rightarrow>
      if status_leaves st then Some ((st, None), s)
      else
        let vrf = out_or 0 v;
            oid = ctc_sai_create_object_id SAI_OBJECT_TYPE_VIRTUAL_ROUTER l 0 0 vrf;
            (st, s) = virtual_router_build_db L l oid s in
        if status_leaves st then Some ((st, None), snd (ctc_sai_db_free_id L l CTC_SAI_DB_ID_TYPE_VRF vrf s))
        else
          (case attr_loop (create_vr_body L oid as) attr_count 0 (False, st, s) of
             None \<Rightarrow> None
           | Some (rb, st, s) \<Rightarrow>
               if rb then Some ((st, None), snd (ctc_sai_db_free_id L l CTC_SAI_DB_ID_TYPE_VRF vrf
                                       (snd (virtual_router_remove_db L l oid s))))
               else Some ((st, Some oid), s)))"

lemma create_vr_unlock:
  assumes "ctc_sai_oid_get_lchip (inited s) switch_id = (st0, Some l)"
  shows "ctc_sai_virtual_router_create_vr L False switch_id attr_count as s =
    map_option (\<lambda>(r, s). (r, snd (ctc_sai_db_unlock L l s)))
      (create_vr_locked L l attr_count as (snd (ctc_sai_db_lock L l s)))"
  using assms
  by (auto simp: ctc_sai_virtual_router_create_vr_def create_vr_locked_def Let_def split: prod.splits option.splits)

context ctc_lib_laws
begin

lemma vr_remove_db_get:
  assumes inv: "chip_inv L l s" and ex: "ctc_sai_db_get_object_property L l oid s \<noteq> None"
  shows "ctc_sai_db_get_object_property L l oid' (snd (virtual_router_remove_db L l oid s)) =
      (if oid' = oid then None else ctc_sai_db_get_object_property L l oid' s)"
    and "chip_inv L l (snd (virtual_router_remove_db L l oid s))"
    and "trace (snd (virtual_router_remove_db L l oid s)) = trace s"
    and "fst (virtual_router_remove_db L l oid s) = SAI_STATUS_SUCCESS"
  using ex remove_object_get [OF inv get_Some_valid [OF ex]] remove_object_inv [OF inv]
  by (auto simp: virtual_router_remove_db_def remove_object_trace split: option.splits)

lemma create_vr_locked_ok:
  assumes inv: "chip_inv L l s" and typed: "chip_typed L l s"
    and len: "unat attr_count \<le> length as" "attr_count \<le> 255"
  shows "\<exists>st r s'. create_vr_locked L l attr_count as s = Some ((st, r), s') \<and> chip_inv L l s' \<and>
    lock_depth (trace s') = lock_depth (trace s) \<and> vr_created L l r s s'"
proof -
  obtain st v s1 where al: "ctc_sai_db_alloc_id L l CTC_SAI_DB_ID_TYPE_VRF s = ((st, v), s1)"
    by (metis surj_pair)
  have db1: "g_sai_db s1 = g_sai_db s" and f1: "fault s1 = fault s"
    and tr1: "lock_depth (trace s1) = lock_depth (trace s)"
    using id_ops_frame(1-3) [of L l CTC_SAI_DB_ID_TYPE_VRF s] al by simp_all
  note eq1 = chip_frame_eqs [OF db1]
  have l: "l < CTC_SAI_MAX_CHIP_NUM" using inv by (rule chip_inv_obtain)
  show ?thesis
  proof (cases "st = 0")
    case False
    then have "status_leaves st" using alloc_id_status [OF al] by (simp add: status_leaves_def)
    then show ?thesis
      using inv tr1 by (auto simp: create_vr_locked_def al eq1 vr_created_def)
  next
    case st: True
    note fresh = alloc_free [OF al [unfolded st]]
    define oid where "oid = ctc_sai_create_object_id SAI_OBJECT_TYPE_VIRTUAL_ROUTER l 0 0 (out_or 0 v)"
    have t: "oid_type oid = SAI_OBJECT_TYPE_VIRTUAL_ROUTER" and val: "o_value (oid_unpack oid) = out_or 0 v"
      by (simp_all add: oid_def create_type create_fields)
    have notrif: "oid \<notin> rif_oids" by (simp add: rif_oids_def t)
    obtain st2 s2 where bd: "virtual_router_build_db L l oid s1 = (st2, s2)" by (rule prod.exhaust)
    note b = vr_build_db [OF inv [folded eq1(1)] typed [folded eq1(2)] t bd]
    show ?thesis
    proof (cases "st2 = 0")
      case False
      then have "status_leaves st2" "st2 < 0" using b(1) by (auto simp: status_leaves_def)
      then show ?thesis
        using b(1,2) tr1 inv
        by (auto simp: create_vr_locked_def al st oid_def [symmetric] bd status_leaves_def Let_def vr_created_def
            eq1 chip_frame_eqs [of "snd (ctc_sai_db_free_id L l p i t)" t for p i t])
    next
      case st2: True
      let ?loop = "loop_steps (create_vr_body L oid as) (unat attr_count) 0 (False, st2, s2)"
      obtain rb st3 s3 where lp: "?loop = (rb, st3, s3)" by (rule prod_cases3)
      have loop: "attr_loop (create_vr_body L oid as) attr_count 0 (False, st2, s2) = Some (rb, st3, s3)"
        using attr_loop_returns [OF len(2), of "create_vr_body L oid as" "(False, st2, s2)"] lp by simp
      have vr2: "\<exists>v. ctc_sai_db_get_object_property L l oid s2 = Some (VrData v)"
        using b(3) [OF st2, of oid] by auto
      have "unat (0 :: u8) + unat attr_count \<le> 256" using len(2) by (simp add: word_le_nat_alt)
      then have fr: "frame_on L l (insert oid rif_oids) s2 s3"
        using vr_loop_frame [OF _ _ l oid_def vr2, of 0 "unat attr_count" as st2] b(1) len(1) lp by simp
      have ex3: "\<exists>v. ctc_sai_db_get_object_property L l oid s3 = Some (VrData v)"
        using vr2 vr_stays [OF fr] b(1) by blast
      have inv3: "chip_inv L l s3" using fr by (simp add: frame_on_def)
      have g3: "ctc_sai_db_get_object_property L l o' s3 = ctc_sai_db_get_object_property L l o' s"
        if "o' \<noteq> oid" "o' \<notin> rif_oids" for o'
        using fr that b(3) [OF st2, of o'] eq1(3) by (auto simp: frame_on_def)
      have tr3: "lock_depth (trace s3) = lock_depth (trace s)"
        "opf_used (trace s3) CTC_SAI_DB_ID_TYPE_VRF l = opf_used (trace s1) CTC_SAI_DB_ID_TYPE_VRF l"
        "fault s3 = fault s"
        using fr b(1) b(3) [OF st2, of oid] tr1 f1 by (auto simp: frame_on_def fun_eq_iff)
      show ?thesis
      proof (cases rb)
        case False
        have "vr_created L l (Some oid) s s3"
          using t val ex3 g3 tr3 fresh b(3) [OF st2, of oid] eq1(3) by (simp add: vr_created_def)
        then show ?thesis
          using False inv3 tr3(1)
          by (simp add: create_vr_locked_def al st oid_def [symmetric] bd st2 status_leaves_def loop [unfolded st2] Let_def)
      next
        case True
        let ?s4 = "snd (virtual_router_remove_db L l oid s3)"
        have ex3': "ctc_sai_db_get_object_property L l oid s3 \<noteq> None" using ex3 by auto
        note rm = vr_remove_db_get [OF inv3 ex3']
        have "vr_created L l None s ?s4"
          using g3 rm(1) b(3) [OF st2, of oid] eq1(3) by (simp add: vr_created_def)
        then show ?thesis
          using True rm(2,3) tr3(1)
          by (simp add: create_vr_locked_def al st oid_def [symmetric] bd st2 status_leaves_def loop [unfolded st2] Let_def
              vr_created_def chip_frame_eqs [of "snd (ctc_sai_db_free_id L l p i t)" t for p i t])
      qed
    qed
  qed
qed

end

section \<open>Properties\<close>

text \<open>
  Property C3: creating a virtual router is all or nothing for the database. With at most 255
  attributes the call returns, with the lock released as often as taken and the invariant kept.
  Either it returns the identifier of a new virtual router, with a fresh VRF number that is now
  in use, and no object but router interfaces changed otherwise, or it returns no identifier and
  no object but router interfaces changed at all.
\<close>

theorem vr_create_all_or_nothing:
  assumes "ctc_lib_laws L" and "state_ok L s" and "chip_typed L l s"
    and "ctc_sai_oid_get_lchip (inited s) switch_id = (st0, Some l)"
    and "unat attr_count \<le> length as" and "attr_count \<le> 255"
  shows "\<exists>st r s'. ctc_sai_virtual_router_create_vr L False switch_id attr_count as s = Some ((st, r), s') \<and>
    state_ok L s' \<and> lock_depth (trace s') = lock_depth (trace s) \<and> vr_created L l r s s'"
proof -
  have inv: "chip_inv L l s" using get_lchip_Some [OF assms(4)] assms(2) by (simp add: chip_inv_def)
  let ?s1 = "snd (ctc_sai_db_lock L l s)"
  have 1: "chip_inv L l ?s1" "chip_typed L l ?s1" using inv assms(3) by (simp_all add: chip_frame_eqs [of ?s1 s])
  obtain st r s2 where c: "create_vr_locked L l attr_count as ?s1 = Some ((st, r), s2)" "chip_inv L l s2"
    "lock_depth (trace s2) = lock_depth (trace ?s1)" "vr_created L l r ?s1 s2"
    using ctc_lib_laws.create_vr_locked_ok [OF assms(1) 1 assms(5,6)] by blast
  let ?s3 = "snd (ctc_sai_db_unlock L l s2)"
  have "lock_depth (trace ?s3) l' = lock_depth (trace s) l'" for l'
    using lock_depth_lock [OF inv] lock_depth_lock(2) [OF c(2)] c(3) by simp
  moreover have "vr_created L l r s ?s3" using c(4) vr_created_frame [of s ?s1 ?s3 s2 L l r] by simp
  moreover have "state_ok L ?s3" using c(2) by (simp add: chip_inv_def state_ok_def)
  ultimately show ?thesis by (auto simp: create_vr_unlock [OF assms(4)] c(1))
qed

theorem vr_create_all_or_nothing_witness:
  "\<exists>st r s'. ctc_sai_virtual_router_create_vr ref_lib False 0 1
       [\<lparr>attr_id = 0, attr_value = \<lparr>raw = 0, objs = []\<rparr>\<rparr>] ref_state = Some ((st, r), s') \<and>
     state_ok ref_lib s' \<and> lock_depth (trace s') = lock_depth (trace ref_state) \<and>
     vr_created ref_lib 0 r ref_state s'"
proof (rule vr_create_all_or_nothing [OF ref_laws.ctc_lib_laws_axioms ref_state_ok ref_state_typed])
  show "ctc_sai_oid_get_lchip (inited ref_state) 0 = (0, Some 0)" by code_simp
qed simp_all

lemma ucast_same_u16: "(ucast (x :: u16) :: u32) = ucast y \<longleftrightarrow> x = y"
  by (metis narrow_back(1))

context ctc_lib_laws
begin

lemma vr_set_state_get:
  assumes inv: "chip_inv L l s" and typed: "chip_typed L l s" and ol: "oid_lchip s vr = l"
    and vr: "ctc_sai_db_get_object_property L l vr s = Some (VrData v)" and a: "attr_id a \<in> {0, 1}"
  shows "fst (virtual_router_set_attr L vr a s) = SAI_STATUS_SUCCESS"
    and "ctc_sai_db_get_object_property L l oid (snd (virtual_router_set_attr L vr a s)) =
      (if oid = vr then Some (VrData (vr_apply (attr_id a) (booldata (attr_value a)) v))
       else case ctc_sai_db_get_object_property L l oid s of
         Some (RifData r) \<Rightarrow>
           Some (RifData (if rif_vrf_id r = ucast (o_value (oid_unpack vr))
             then rif_apply (attr_id a) (booldata (attr_value a)) r else r))
       | d \<Rightarrow> d)"
proof -
  have t: "oid_type vr = SAI_OBJECT_TYPE_VIRTUAL_ROUTER"
    using typed vr unfolding chip_typed_def by (metis data_fits.simps(1))
  then have vrf: "out_or 0 (snd (ctc_sai_oid_get_vrf_id vr)) = ucast (o_value (oid_unpack vr))"
    by (simp add: oid_accessor_defs oid_type_eq)
  let ?x = "(if booldata (attr_value a) then 1 else 0) :: u8"
  let ?s1 = "object_store L l vr (VrData (vr_apply (attr_id a) (booldata (attr_value a)) v)) s"
  let ?p = "\<lparr> tp_lchip = l, tp_set_type = CTC_SAI_RIF_SET_TYPE_VRF,
      tp_cmp_value = ucast (ucast (o_value (oid_unpack vr)) :: u16),
      tp_l3if_prop = (if attr_id a = 0 then L3IF_PROP_IPV4_UCAST else L3IF_PROP_IPV6_UCAST),
      tp_value = ucast ?x \<rparr>"
  have set: "virtual_router_set_attr L vr a s =
      (SAI_STATUS_SUCCESS, snd (ctc_sai_router_interface_traverse_set L ?p ?s1))"
    using a by (auto simp: virtual_router_set_attr_def ol vr vrf vr_apply_def Let_def)
  then show "fst (virtual_router_set_attr L vr a s) = SAI_STATUS_SUCCESS" by simp
  have ex: "ctc_sai_db_get_object_property L l vr s \<noteq> None" using vr by simp
  have f: "frame_on L l {vr} s ?s1" by (rule object_store_frame [OF inv typed ex]) (simp_all add: t)
  have g1: "ctc_sai_db_get_object_property L l oid ?s1 =
      (if oid = vr then Some (VrData (vr_apply (attr_id a) (booldata (attr_value a)) v))
       else ctc_sai_db_get_object_property L l oid s)"
    by (rule store_object_get(1) [OF inv ex])
  have g2: "ctc_sai_db_get_object_property L l oid (snd (ctc_sai_router_interface_traverse_set L ?p ?s1)) =
    (case ctc_sai_db_get_object_property L l oid ?s1 of
       Some (RifData r) \<Rightarrow>
         Some (RifData (if rif_skipped ?p (oid_unpack oid) r then r else rif_upd ?p r))
     | d \<Rightarrow> d)"
    using traverse_set_get [of ?p ?s1 oid] f by (simp add: frame_on_def)
  have sk: "rif_skipped ?p c r \<longleftrightarrow> rif_vrf_id r \<noteq> ucast (o_value (oid_unpack vr))" for c r
    by (simp add: rif_skipped_def ucast_same_u16)
  have up: "rif_upd ?p r = rif_apply (attr_id a) (booldata (attr_value a)) r" for r
    using a by (auto simp: rif_upd_def rif_apply_def)
  show "ctc_sai_db_get_object_property L l oid (snd (virtual_router_set_attr L vr a s)) =
      (if oid = vr then Some (VrData (vr_apply (attr_id a) (booldata (attr_value a)) v))
       else case ctc_sai_db_get_object_property L l oid s of
         Some (RifData r) \<Rightarrow>
           Some (RifData (if rif_vrf_id r = ucast (o_value (oid_unpack vr))
             then rif_apply (attr_id a) (booldata (attr_value a)) r else r))
       | d \<Rightarrow> d)"
    unfolding set snd_conv g2 g1 sk up by (auto split: option.splits obj_data.splits)
qed

end

text \<open>
  Property C4: an administrative state reaches exactly the interfaces of the router. Setting the
  IPv4 or IPv6 state of a virtual router succeeds, stores the state in the router and in every
  router interface whose VRF is the router's, and changes no other object; the lock is balanced
  and no memory is misused.
\<close>

theorem vr_set_state_reaches_interfaces:
  assumes "ctc_lib_laws L" and "state_ok L s" and "chip_typed L l s"
    and "ctc_sai_oid_get_lchip (inited s) vr = (st0, Some l)"
    and "ctc_sai_db_get_object_property L l vr s = Some (VrData v)" and "attr_id a \<in> {0, 1}"
  shows "\<exists>s'. ctc_sai_virtual_router_set_vr_attr L vr (Some a) s = (SAI_STATUS_SUCCESS, s') \<and>
    state_ok L s' \<and> fault s' = fault s \<and> lock_depth (trace s') = lock_depth (trace s) \<and>
    (\<forall>oid. ctc_sai_db_get_object_property L l oid s' =
      (if oid = vr then Some (VrData (vr_apply (attr_id a) (booldata (attr_value a)) v))
       else case ctc_sai_db_get_object_property L l oid s of
         Some (RifData r) \<Rightarrow>
           Some (RifData (if rif_vrf_id r = ucast (o_value (oid_unpack vr))
             then rif_apply (attr_id a) (booldata (attr_value a)) r else r))
       | d \<Rightarrow> d))"
proof -
  let ?s1 = "snd (ctc_sai_db_lock L l s)"
  let ?s2 = "snd (virtual_router_set_attr L vr a ?s1)"
  have inv: "chip_inv L l s" using get_lchip_Some [OF assms(4)] assms(2) by (simp add: chip_inv_def)
  note eq1 = chip_frame_eqs [OF lock_frame(1), of L l]
  have 1: "chip_inv L l ?s1" "chip_typed L l ?s1" "oid_lchip ?s1 vr = l"
    "ctc_sai_db_get_object_property L l vr ?s1 = Some (VrData v)"
    using inv assms(3-5) by (simp_all add: eq1 oid_lchip_def)
  note set = ctc_lib_laws.vr_set_state_get [OF assms(1) 1 assms(6)]
  have fr: "frame_on L l (insert vr rif_oids) ?s1 ?s2"
    by (rule ctc_lib_laws.vr_set_frame [OF assms(1) 1])
  have r: "ctc_sai_virtual_router_set_vr_attr L vr (Some a) s =
      (SAI_STATUS_SUCCESS, snd (ctc_sai_db_unlock L l ?s2))"
    using assms(4,6) set(1)
    by (auto simp: ctc_sai_virtual_router_set_vr_attr_def vr_set_attribute_cases Let_def case_prod_beta)
  have "lock_depth (trace (snd (ctc_sai_db_unlock L l ?s2))) = lock_depth (trace s)"
    using fr lock_depth_lock(1) [OF inv] lock_depth_lock(2) [of L l ?s2]
    by (auto simp: frame_on_def fun_eq_iff)
  moreover have "state_ok L (snd (ctc_sai_db_unlock L l ?s2))" "fault (snd (ctc_sai_db_unlock L l ?s2)) = fault s"
    using fr by (simp_all add: frame_on_def chip_inv_def state_ok_def)
  ultimately show ?thesis
    unfolding r using set(2) by (simp add: chip_frame_eqs(3) [OF lock_frame(3)] eq1(3))
qed

text \<open>A chip with a virtual router of VRF 5 and two interfaces, of VRF 5 and 6.\<close>

definition ref_vr :: sai_object_id where "ref_vr = ctc_sai_create_object_id 3 0 0 0 5"
definition ref_rif :: "u32 \<Rightarrow> sai_object_id" where "ref_rif i = ctc_sai_create_object_id 6 0 0 0 i"

definition ref_rif_data :: "u16 \<Rightarrow> obj_data" where
  "ref_rif_data vrf = RifData \<lparr>rif_gport = 0, rif_vrf_id = vrf, rif_src_mac = 0, rif_v4_state = 1, rif_v6_state = 1\<rparr>"

definition ref_vr_objs :: "(sai_object_id \<times> obj_data) list" where
  "ref_vr_objs = [(ref_vr, VrData \<lparr>vr_src_mac = 9, vr_v4_state = 1, vr_v6_state = 1\<rparr>),
     (ref_rif 1, ref_rif_data 5), (ref_rif 2, ref_rif_data 6)]"

definition ref_vr_state :: "(ref_oid, ref_ent, ref_vec) sai_state" where
  "ref_vr_state = fold ref_add ref_vr_objs ref_state"

lemma ref_vr_state_ok: "state_ok ref_lib ref_vr_state" "chip_typed ref_lib 0 ref_vr_state"
proof -
  have "chip_inv ref_lib 0 ref_state"
    using ref_state_ok by (simp add: chip_inv_def inited_def ref_state_def)
  moreover have "\<forall>x \<in> set ref_vr_objs. data_fits (oid_type (fst x)) (snd x)" by code_simp
  ultimately show "state_ok ref_lib ref_vr_state" "chip_typed ref_lib 0 ref_vr_state"
    using ref_fold_inv [of ref_state ref_vr_objs] ref_state_typed
    by (simp_all add: ref_vr_state_def chip_inv_def)
qed

lemma ref_vr_state_look:
  "ctc_sai_oid_get_lchip (inited ref_vr_state) ref_vr = (0, Some 0)"
  "ctc_sai_db_get_object_property ref_lib 0 ref_vr ref_vr_state =
     Some (VrData \<lparr>vr_src_mac = 9, vr_v4_state = 1, vr_v6_state = 1\<rparr>)"
  "ctc_sai_db_get_object_property ref_lib 0 (ref_rif 1) ref_vr_state = Some (ref_rif_data 5)"
  "ctc_sai_db_get_object_property ref_lib 0 (ref_rif 2) ref_vr_state = Some (ref_rif_data 6)"
  "ctc_sai_oid_get_lchip (inited ref_vr_state) (ref_rif 1) = (0, Some 0)"
proof -
  have "let s = ref_vr_state in
    ctc_sai_oid_get_lchip (inited s) ref_vr = (0, Some 0) \<and>
    ctc_sai_db_get_object_property ref_lib 0 ref_vr s = Some (VrData \<lparr>vr_src_mac = 9, vr_v4_state = 1, vr_v6_state = 1\<rparr>) \<and>
    ctc_sai_db_get_object_property ref_lib 0 (ref_rif 1) s = Some (ref_rif_data 5) \<and>
    ctc_sai_db_get_object_property ref_lib 0 (ref_rif 2) s = Some (ref_rif_data 6) \<and>
    ctc_sai_oid_get_lchip (inited s) (ref_rif 1) = (0, Some 0)"
    by code_simp
  then show "ctc_sai_oid_get_lchip (inited ref_vr_state) ref_vr = (0, Some 0)"
      "ctc_sai_db_get_object_property ref_lib 0 ref_vr ref_vr_state =
         Some (VrData \<lparr>vr_src_mac = 9, vr_v4_state = 1, vr_v6_state = 1\<rparr>)"
      "ctc_sai_db_get_object_property ref_lib 0 (ref_rif 1) ref_vr_state = Some (ref_rif_data 5)"
      "ctc_sai_db_get_object_property ref_lib 0 (ref_rif 2) ref_vr_state = Some (ref_rif_data 6)"
      "ctc_sai_oid_get_lchip (inited ref_vr_state) (ref_rif 1) = (0, Some 0)"
    by (simp_all only: Let_def)
qed

theorem vr_set_state_reaches_interfaces_witness:
  "\<exists>s'. ctc_sai_virtual_router_set_vr_attr ref_lib ref_vr
        (Some \<lparr>attr_id = 0, attr_value = \<lparr>raw = 0, objs = []\<rparr>\<rparr>) ref_vr_state = (SAI_STATUS_SUCCESS, s') \<and>
      ctc_sai_db_get_object_property ref_lib 0 (ref_rif 2) s' = Some (ref_rif_data 6) \<and>
      ctc_sai_db_get_object_property ref_lib 0 (ref_rif 1) s' =
        Some (RifData \<lparr>rif_gport = 0, rif_vrf_id = 5, rif_src_mac = 0, rif_v4_state = 0, rif_v6_state = 1\<rparr>)"
proof -
  have a: "attr_id \<lparr>attr_id = 0, attr_value = \<lparr>raw = 0, objs = []\<rparr>\<rparr> \<in> {0, 1}" by simp
  have n: "ref_rif 1 \<noteq> ref_vr" "ref_rif 2 \<noteq> ref_vr" "(ucast (o_value (oid_unpack ref_vr)) :: u16) = 5" by code_simp+
  show ?thesis
    using vr_set_state_reaches_interfaces [OF ref_laws.ctc_lib_laws_axioms ref_vr_state_ok ref_vr_state_look(1,2) a]
    by (auto simp: ref_vr_state_look n ref_rif_data_def rif_apply_def booldata_def)
qed

context ctc_lib_laws
begin

lemma vr_set_own:
  assumes inv: "chip_inv L l s" and typed: "chip_typed L l s" and ol: "oid_lchip s vr = l"
    and vr: "ctc_sai_db_get_object_property L l vr s = Some (VrData v)" and a: "attr_id a \<in> {0, 1, 2}"
  shows "fst (virtual_router_set_attr L vr a s) = SAI_STATUS_SUCCESS"
    and "ctc_sai_db_get_object_property L l vr (snd (virtual_router_set_attr L vr a s)) =
      Some (VrData (if attr_id a = 2 then v\<lparr>vr_src_mac := macdata (attr_value a)\<rparr>
                    else vr_apply (attr_id a) (booldata (attr_value a)) v))"
proof -
  have t: "oid_type vr = SAI_OBJECT_TYPE_VIRTUAL_ROUTER"
    using typed vr unfolding chip_typed_def by (metis data_fits.simps(1))
  have ex: "ctc_sai_db_get_object_property L l vr s \<noteq> None" using vr by simp
  have own: "ctc_sai_db_get_object_property L l vr
      (snd (ctc_sai_router_interface_traverse_set L p (object_store L l vr (VrData v') s))) = Some (VrData v')"
    if p: "tp_lchip p = l" for p v'
  proof -
    have "frame_on L l {vr} s (object_store L l vr (VrData v') s)"
      by (rule object_store_frame [OF inv typed ex]) (simp_all add: t)
    then have "rif_frame L l (object_store L l vr (VrData v') s)
        (snd (ctc_sai_router_interface_traverse_set L p (object_store L l vr (VrData v') s)))"
      using traverse_set_frame [of p] p by (simp add: frame_on_def)
    then show ?thesis
      using store_object_get(1) [OF inv ex, of vr "VrData v'"] t by (simp add: frame_on_def rif_oids_def)
  qed
  show "fst (virtual_router_set_attr L vr a s) = SAI_STATUS_SUCCESS"
    using a by (auto simp: virtual_router_set_attr_def ol vr Let_def)
  show "ctc_sai_db_get_object_property L l vr (snd (virtual_router_set_attr L vr a s)) =
      Some (VrData (if attr_id a = 2 then v\<lparr>vr_src_mac := macdata (attr_value a)\<rparr>
                    else vr_apply (attr_id a) (booldata (attr_value a)) v))"
    using a by (auto simp: virtual_router_set_attr_def ol vr Let_def own vr_apply_def)
qed

lemma vr_read_one:
  assumes gl: "ctc_sai_oid_get_lchip (inited s) vr = (st0, Some l)"
    and vr: "ctc_sai_db_get_object_property L l vr s = Some (VrData v)" and b: "attr_id b \<in> {0, 1, 2}"
  shows "ctc_sai_virtual_router_get_vr_attr L vr 1 [b] s =
    Some ((SAI_STATUS_SUCCESS,
           [if attr_id b = 0 then set_bool (vr_v4_state v \<noteq> 0) b
            else if attr_id b = 1 then set_bool (vr_v6_state v \<noteq> 0) b else set_mac (vr_src_mac v) b]),
          snd (ctc_sai_db_unlock L l (snd (ctc_sai_db_lock L l s))))"
proof -
  let ?s = "snd (ctc_sai_db_lock L l s)"
  let ?body = "get_attr_body vr SAI_OBJECT_TYPE_VIRTUAL_ROUTER (vr_attr_fn_entries L) :: u8 \<Rightarrow> _"
  let ?b = "if attr_id b = 0 then set_bool (vr_v4_state v \<noteq> 0) b
            else if attr_id b = 1 then set_bool (vr_v6_state v \<noteq> 0) b else set_mac (vr_src_mac v) b"
  have ol: "oid_lchip ?s vr = l" using gl by (simp add: oid_lchip_def)
  have g: "ctc_sai_db_get_object_property L l vr ?s = Some (VrData v)"
    using vr by (simp add: get_frame [of ?s s])
  have "virtual_router_get_attr L vr b 0 ?s = ((SAI_STATUS_SUCCESS, ?b), ?s)"
    using b by (auto simp: virtual_router_get_attr_def ol g)
  then have "?body 0 (SAI_STATUS_SUCCESS, [b], ?s) = (False, SAI_STATUS_SUCCESS, [?b], ?s)"
    by (simp add: get_attr_body_def vr_get_attribute_known [OF b] status_leaves_def)
  moreover have "unat (1 :: u32) = Suc 0" by simp
  ultimately have "loop_steps ?body (unat (1 :: u32)) 0 (SAI_STATUS_SUCCESS, [b], ?s) =
      (SAI_STATUS_SUCCESS, [?b], ?s)"
    by (simp only: loop_steps.simps prod.case if_False)
  then show ?thesis
    using gl attr_loop_returns [of 1 ?body "(SAI_STATUS_SUCCESS, [b], ?s)"]
    by (simp add: ctc_sai_virtual_router_get_vr_attr_def)
qed

end

text \<open>
  Property C5: a virtual router attribute reads back as it was set. After setting the IPv4
  state, the IPv6 state or the router address of a virtual router, reading this one attribute
  succeeds and gives the value that was set.
\<close>

theorem vr_set_get_roundtrip:
  assumes "ctc_lib_laws L" and "state_ok L s" and "chip_typed L l s"
    and "ctc_sai_oid_get_lchip (inited s) vr = (st0, Some l)"
    and "ctc_sai_db_get_object_property L l vr s = Some (VrData v)" and "attr_id a \<in> {0, 1, 2}"
    and "ctc_sai_virtual_router_set_vr_attr L vr (Some a) s = (st, s1)" and "attr_id b = attr_id a"
  shows "st = SAI_STATUS_SUCCESS \<and>
    (\<exists>b' s2. ctc_sai_virtual_router_get_vr_attr L vr 1 [b] s1 = Some ((SAI_STATUS_SUCCESS, [b']), s2) \<and>
       (if attr_id a = 2 then macdata (attr_value b') = macdata (attr_value a)
        else booldata (attr_value b') = booldata (attr_value a)))"
proof -
  let ?s1 = "snd (ctc_sai_db_lock L l s)"
  let ?s2 = "snd (virtual_router_set_attr L vr a ?s1)"
  have inv: "chip_inv L l s" using get_lchip_Some [OF assms(4)] assms(2) by (simp add: chip_inv_def)
  note eq1 = chip_frame_eqs [OF lock_frame(1), of L l]
  have 1: "chip_inv L l ?s1" "chip_typed L l ?s1" "oid_lchip ?s1 vr = l"
    "ctc_sai_db_get_object_property L l vr ?s1 = Some (VrData v)"
    using inv assms(3-5) by (simp_all add: eq1 oid_lchip_def)
  note own = ctc_lib_laws.vr_set_own [OF assms(1) 1 assms(6)]
  have r: "st = SAI_STATUS_SUCCESS" "s1 = snd (ctc_sai_db_unlock L l ?s2)"
    using assms(4,6,7) own(1)
    by (auto simp: ctc_sai_virtual_router_set_vr_attr_def vr_set_attribute_cases Let_def case_prod_beta)
  have "chip_inv L l ?s2"
    using ctc_lib_laws.vr_set_frame [OF assms(1) 1, of a] by (simp add: frame_on_def)
  then have "inited s1 l" unfolding r by (simp add: chip_inv_def)
  note gl = get_lchip_again [OF assms(4) this]
  obtain v' where v': "ctc_sai_db_get_object_property L l vr s1 = Some (VrData v')"
    "v' = (if attr_id a = 2 then v\<lparr>vr_src_mac := macdata (attr_value a)\<rparr>
       else vr_apply (attr_id a) (booldata (attr_value a)) v)"
    using own(2) unfolding r by (simp add: chip_frame_eqs(3) [OF lock_frame(3)])
  have "attr_id b \<in> {0, 1, 2}" using assms(6,8) by simp
  note rd = ctc_lib_laws.vr_read_one [OF assms(1) gl v'(1) this]
  show ?thesis
    unfolding rd using assms(6,8) r(1) v'(2) by (auto simp: set_bool_get set_mac_get vr_apply_def)
qed

theorem vr_set_get_roundtrip_witness:
  "\<exists>s1 b' s2. ctc_sai_virtual_router_set_vr_attr ref_lib ref_vr
        (Some \<lparr>attr_id = 2, attr_value = \<lparr>raw = 77, objs = []\<rparr>\<rparr>) ref_vr_state = (SAI_STATUS_SUCCESS, s1) \<and>
      ctc_sai_virtual_router_get_vr_attr ref_lib ref_vr 1
        [\<lparr>attr_id = 2, attr_value = \<lparr>raw = 0, objs = []\<rparr>\<rparr>] s1 = Some ((SAI_STATUS_SUCCESS, [b']), s2) \<and>
      macdata (attr_value b') = 77"
proof -
  let ?a = "\<lparr>attr_id = 2, attr_value = \<lparr>raw = 77, objs = []\<rparr>\<rparr>"
  let ?b = "\<lparr>attr_id = 2, attr_value = \<lparr>raw = 0, objs = []\<rparr>\<rparr>"
  obtain st s1 where r: "ctc_sai_virtual_router_set_vr_attr ref_lib ref_vr (Some ?a) ref_vr_state = (st, s1)"
    by (rule prod.exhaust)
  have "macdata (attr_value ?a) = 77" by (simp add: macdata_def)
  then show ?thesis
    using vr_set_get_roundtrip [OF ref_laws.ctc_lib_laws_axioms ref_vr_state_ok ref_vr_state_look(1,2) _ r, of ?b] r
    by auto
qed

section \<open>When the read of attributes returns\<close>

text \<open>What a read stores in an attribute of a known number.\<close>

definition vr_read :: "ctc_sai_virtual_router \<Rightarrow> sai_attribute \<Rightarrow> sai_attribute" where
  "vr_read v b =
     (if attr_id b = SAI_VIRTUAL_ROUTER_ATTR_ADMIN_V4_STATE then set_bool (vr_v4_state v \<noteq> 0) b
      else if attr_id b = SAI_VIRTUAL_ROUTER_ATTR_ADMIN_V6_STATE then set_bool (vr_v6_state v \<noteq> 0) b
      else set_mac (vr_src_mac v) b)"

lemma attr_id_vr_read [simp]: "attr_id (vr_read v b) = attr_id b"
  by (simp add: vr_read_def set_bool_def set_mac_def)

lemma vr_body:
  fixes i :: u8
  assumes "ctc_sai_oid_get_lchip (inited s) vr = (st0, Some l)"
    and "ctc_sai_db_get_object_property L l vr s = Some (VrData v)" and "\<forall>b \<in> set as. attr_id b \<in> {0, 1, 2}"
    and "unat i < length as"
  shows "get_attr_body vr SAI_OBJECT_TYPE_VIRTUAL_ROUTER (vr_attr_fn_entries L) i (st, as, s) =
    (False, SAI_STATUS_SUCCESS, as[unat i := vr_read v (as ! unat i)], s)"
proof -
  have b: "attr_id (as ! unat i) \<in> {0, 1, 2}" using assms(3,4) nth_mem by blast
  have "oid_lchip s vr = l" using assms(1) by (simp add: oid_lchip_def)
  then have "virtual_router_get_attr L vr (as ! unat i) (ucast i) s = ((SAI_STATUS_SUCCESS, vr_read v (as ! unat i)), s)"
    using b assms(2) by (auto simp: virtual_router_get_attr_def vr_read_def)
  then show ?thesis using assms(4) by (simp add: get_attr_body_def vr_get_attribute_known [OF b] status_leaves_def)
qed

lemma read_ids: "\<forall>b \<in> set as. attr_id b \<in> {0, 1, 2} \<Longrightarrow> j < length as \<Longrightarrow> \<forall>b \<in> set (as[j := vr_read v (as ! j)]). attr_id b \<in> {0, 1, 2}"
  using set_update_subset_insert [of as j "vr_read v (as ! j)"] nth_mem [of j as] by fastforce

lemma vr_steps:
  fixes i :: u8
  assumes "ctc_sai_oid_get_lchip (inited s) vr = (st0, Some l)"
    and "ctc_sai_db_get_object_property L l vr s = Some (VrData v)"
  shows "\<forall>b \<in> set as. attr_id b \<in> {0, 1, 2} \<Longrightarrow> unat i + n \<le> length as \<Longrightarrow> unat i + n < 256 \<Longrightarrow>
    loop_steps (get_attr_body vr SAI_OBJECT_TYPE_VIRTUAL_ROUTER (vr_attr_fn_entries L)) n i (SAI_STATUS_SUCCESS, as, s) =
    (SAI_STATUS_SUCCESS, take (unat i) as @ map (vr_read v) (take n (drop (unat i) as)) @ drop (unat i + n) as, s)"
proof (induction n arbitrary: i as)
  case (Suc n)
  let ?as = "as[unat i := vr_read v (as ! unat i)]"
  have i: "unat i < length as" "unat (i + 1) = Suc (unat i)" using Suc.prems by (simp_all add: unat_word_ariths)
  have "loop_steps (get_attr_body vr SAI_OBJECT_TYPE_VIRTUAL_ROUTER (vr_attr_fn_entries L)) n (i + 1) (SAI_STATUS_SUCCESS, ?as, s) =
    (SAI_STATUS_SUCCESS, take (Suc (unat i)) ?as @ map (vr_read v) (take n (drop (Suc (unat i)) ?as)) @ drop (Suc (unat i) + n) ?as, s)"
    using Suc.IH [of ?as "i + 1"] Suc.prems i read_ids [OF Suc.prems(1) i(1)] by simp
  moreover have "take (Suc (unat i)) ?as = take (unat i) as @ [vr_read v (as ! unat i)]"
    using i(1) by (simp add: take_Suc_conv_app_nth)
  moreover have "take (Suc n) (drop (unat i) as) = as ! unat i # take n (drop (Suc (unat i)) as)"
    using i(1) by (simp add: Cons_nth_drop_Suc [symmetric])
  ultimately show ?case using vr_body [OF assms Suc.prems(1) i(1)] by simp
qed simp

text \<open>
  Property C11: when the read of the attributes of a virtual router returns. A list of known
  attributes is read in order and completely while the count is at most 255. With a count of 256 or
  more the index of 8 bits wraps before it reaches the count: the call never returns, with the lock of
  the chip held.
\<close>

theorem vr_get_attr_returns:
  assumes "ctc_sai_oid_get_lchip (inited s) vr = (st0, Some l)"
    and "ctc_sai_db_get_object_property L l vr s = Some (VrData v)"
    and "\<forall>b \<in> set as. attr_id b \<in> {0, 1, 2}" and "unat attr_count \<le> length as"
  shows "ctc_sai_virtual_router_get_vr_attr L vr attr_count as s =
    (if attr_count \<le> 255 then
       Some ((SAI_STATUS_SUCCESS, map (vr_read v) (take (unat attr_count) as) @ drop (unat attr_count) as),
             snd (ctc_sai_db_unlock L l (snd (ctc_sai_db_lock L l s))))
     else None)"
proof -
  let ?s = "snd (ctc_sai_db_lock L l s)"
  let ?body = "get_attr_body vr SAI_OBJECT_TYPE_VIRTUAL_ROUTER (vr_attr_fn_entries L) :: u8 \<Rightarrow> _"
  have g: "ctc_sai_oid_get_lchip (inited ?s) vr = (st0, Some l)" "ctc_sai_db_get_object_property L l vr ?s = Some (VrData v)"
    using assms(1,2) by (simp_all add: get_frame [of ?s s])
  have small: "attr_loop ?body attr_count 0 (SAI_STATUS_SUCCESS, as, ?s) =
      Some (SAI_STATUS_SUCCESS, map (vr_read v) (take (unat attr_count) as) @ drop (unat attr_count) as, ?s)" if "attr_count \<le> 255"
    using attr_loop_returns [OF that, of ?body] vr_steps [OF g assms(3), of 0 "unat attr_count"] assms(4) that
    by (simp add: word_le_nat_alt)
  have large: "attr_loop ?body attr_count 0 (SAI_STATUS_SUCCESS, as, ?s) = None" if "\<not> attr_count \<le> 255"
  proof (rule attr_loop_endless [where J = "\<lambda>(st, bs, t). t = ?s \<and> length bs = length as \<and> (\<forall>b \<in> set bs. attr_id b \<in> {0, 1, 2})"])
    have n: "256 \<le> unat attr_count" using that by (simp add: word_le_nat_alt)
    then show "2 ^ LENGTH(8) \<le> unat attr_count" by simp
    fix i :: u8 and x :: "sai_status \<times> sai_attribute list \<times> ('a, 'b, 'c) sai_state"
    assume J: "case x of (st, bs, t) \<Rightarrow> t = ?s \<and> length bs = length as \<and> (\<forall>b \<in> set bs. attr_id b \<in> {0, 1, 2})"
    obtain st bs where x: "x = (st, bs, ?s)" "length bs = length as" "\<forall>b \<in> set bs. attr_id b \<in> {0, 1, 2}" using J by (cases x) auto
    have i: "unat i < length bs" using unat_u8_less [of i] n assms(4) x(2) by simp
    show "\<not> fst (?body i x) \<and> (case snd (?body i x) of (st, bs, t) \<Rightarrow> t = ?s \<and> length bs = length as \<and> (\<forall>b \<in> set bs. attr_id b \<in> {0, 1, 2}))"
      using x(2) read_ids [OF x(3) i] unfolding x(1) vr_body [OF g x(3) i] by simp
  qed (use assms(3) in simp_all)
  show ?thesis using assms(1) small large by (simp add: ctc_sai_virtual_router_get_vr_attr_def)
qed

theorem vr_get_attr_returns_witness:
  "ctc_sai_virtual_router_get_vr_attr ref_lib ref_vr 256 (replicate 256 \<lparr>attr_id = 1, attr_value = \<lparr>raw = 0, objs = []\<rparr>\<rparr>) ref_vr_state = None"
  using vr_get_attr_returns [OF ref_vr_state_look(1,2), of "replicate 256 \<lparr>attr_id = 1, attr_value = \<lparr>raw = 0, objs = []\<rparr>\<rparr>" 256] by simp

text \<open>
  Property C12: removal. Removing an identifier without data, be it unknown or that of a bucket with a
  \<^verbatim>\<open>NULL\<close> pointer, reports \<^verbatim>\<open>ITEM_NOT_FOUND\<close> and changes no table; otherwise exactly this object is
  gone and the call succeeds. The function never looks at the type of the object, so every object
  that has data is removed, whatever its type. The other objects may be buckets without data.
\<close>

theorem vr_remove_removes_any_object:
  assumes "ctc_lib_laws L" and "tables_ok L s"
    and "ctc_sai_oid_get_lchip (inited s) oid = (st0, Some l)"
    and "ctc_sai_virtual_router_remove_vr L oid s = (st, s')"
  shows "lock_depth (trace s') = lock_depth (trace s) \<and> tables_ok L s' \<and> (state_ok L s \<longrightarrow> state_ok L s') \<and>
    (if ctc_sai_db_get_object_property L l oid s = None
     then st = SAI_STATUS_ITEM_NOT_FOUND \<and> g_sai_db s' = g_sai_db s
     else st = SAI_STATUS_SUCCESS \<and>
       (\<forall>oid'. ctc_sai_db_get_object_property L l oid' s' =
          (if oid' = oid then None else ctc_sai_db_get_object_property L l oid' s)))"
proof -
  let ?s1 = "snd (ctc_sai_db_lock L l s)"
  note ch = get_lchip_Some [OF assms(3)]
  note eq1 = chip_frame_eqs [OF lock_frame(1), of L l]
  have ld: "lock_depth (trace ?s1) l' = lock_depth (trace s) l' + (if l' = l then 1 else 0)" for l'
    using ch by (auto simp: ctc_sai_db_lock_def inited_def not_le [symmetric])
  have ul: "lock_depth (trace (snd (ctc_sai_db_unlock L l t))) l' = lock_depth (trace t) l' - (if l' = l then 1 else 0)"
    if "inited t l" for t l'
    using ch that by (auto simp: ctc_sai_db_unlock_def inited_def not_le [symmetric])
  have t1: "tables_ok L ?s1" using assms(2) by (simp add: tables_ok_def)
  show ?thesis
  proof (cases "ctc_sai_db_get_object_property L l oid s = None")
    case True
    then have r: "st = SAI_STATUS_ITEM_NOT_FOUND" "s' = snd (ctc_sai_db_unlock L l ?s1)"
      using assms(3,4)
      by (simp_all add: ctc_sai_virtual_router_remove_vr_def virtual_router_remove_db_def eq1 status_leaves_def)
    have "lock_depth (trace s') = lock_depth (trace s)"
      unfolding r by (rule ext) (use ch in \<open>simp add: ul ld inited_def\<close>)
    then show ?thesis using True r assms(2) by (simp add: tables_ok_def state_ok_def)
  next
    case False
    then have ex: "ctc_sai_db_get_object_property L l oid ?s1 \<noteq> None" by (simp add: eq1)
    let ?vrf = "ucast (out_or 0 (snd (ctc_sai_oid_get_vrf_id oid)) :: u16) :: u32"
    let ?s2 = "snd (ctc_sai_db_remove_object_property L l oid ?s1)"
    let ?s3 = "snd (ctc_sai_db_free_id L l CTC_SAI_DB_ID_TYPE_VRF ?vrf ?s2)"
    note rm = ctc_lib_laws.tables_remove [OF assms(1) t1 ex]
    have db: "virtual_router_remove_db L l oid ?s1 = (SAI_STATUS_SUCCESS, ?s2)"
      using ex by (auto simp: virtual_router_remove_db_def)
    have r: "st = SAI_STATUS_SUCCESS" "s' = snd (ctc_sai_db_unlock L l ?s3)"
      using assms(3,4) by (simp_all add: ctc_sai_virtual_router_remove_vr_def db status_leaves_def Let_def case_prod_beta)
    have same: "g_sai_db s' = g_sai_db ?s2" by (simp add: r)
    have in3: "inited ?s3 l"
      using ch by (auto simp: inited_def ctc_sai_db_remove_object_property_def Let_def split: option.splits prod.splits if_splits)
    have "lock_depth (trace s') = lock_depth (trace s)"
      unfolding r by (rule ext) (simp add: ul [OF in3] ld ctc_lib_laws.remove_object_trace [OF assms(1)])
    moreover have "ctc_sai_db_get_object_property L l oid' s' =
        (if oid' = oid then None else ctc_sai_db_get_object_property L l oid' s)" for oid'
      using rm(1) [of oid'] by (simp add: get_frame [OF same] eq1)
    moreover have "state_ok L s'" if "state_ok L s"
    proof -
      have "chip_inv L l ?s1" using that ch by (simp add: chip_inv_def state_ok_def inited_def)
      then have "chip_inv L l ?s2" by (rule ctc_lib_laws.remove_object_inv [OF assms(1)])
      then show ?thesis using state_ok_frame [OF _ same] by (simp add: chip_inv_def)
    qed
    moreover have "tables_ok L s'" using rm(2) same by (simp add: tables_ok_def)
    ultimately show ?thesis using False r(1) by simp
  qed
qed

theorem vr_remove_removes_any_object_witness:
  "\<exists>s'. ctc_sai_virtual_router_remove_vr ref_lib (ref_rif 1) ref_vr_state = (SAI_STATUS_SUCCESS, s') \<and>
     ctc_sai_db_get_object_property ref_lib 0 (ref_rif 1) s' = None \<and>
     ctc_sai_db_get_object_property ref_lib 0 ref_vr s' \<noteq> None"
proof -
  obtain st s' where r: "ctc_sai_virtual_router_remove_vr ref_lib (ref_rif 1) ref_vr_state = (st, s')"
    by (rule prod.exhaust)
  have g: "ref_vr \<noteq> ref_rif 1" by code_simp
  show ?thesis
    using vr_remove_removes_any_object [OF ref_laws.ctc_lib_laws_axioms state_ok_tables [OF ref_vr_state_ok(1)] ref_vr_state_look(5) r] r g
    by (simp add: ref_vr_state_look)
qed

end
