(* ===== verification/SAI_Api.thy ===== *)
theory SAI_Api
  imports SAI_Objects
begin

text \<open>
  The adapter itself, \<^verbatim>\<open>centec/src/ctc_sai.c\<close>: the global \<^verbatim>\<open>g_api_master\<close> with the method table of
  every module, its initialisation, the query of a table, log levels, the dump file and the small
  formatting functions the modules share.

  A registered \<^verbatim>\<open>void*\<close> is the name of the structure type of the method table it points to, so a
  cast to another structure type can be told apart from a correct one. Printing leaves no trace;
  what \<^verbatim>\<open>ctc_sai_log\<close> would print is its result. The dump functions of the modules only print, so
  a call of one is the event \<open>ModuleDump\<close>.
\<close>

section \<open>API identifiers\<close>

abbreviation (input) SAI_API_UNSPECIFIED :: nat where "SAI_API_UNSPECIFIED \<equiv> 0"
abbreviation (input) SAI_API_SWITCH :: nat where "SAI_API_SWITCH \<equiv> 1"
abbreviation (input) SAI_API_PORT :: nat where "SAI_API_PORT \<equiv> 2"
abbreviation (input) SAI_API_FDB :: nat where "SAI_API_FDB \<equiv> 3"
abbreviation (input) SAI_API_VLAN :: nat where "SAI_API_VLAN \<equiv> 4"
abbreviation (input) SAI_API_VIRTUAL_ROUTER :: nat where "SAI_API_VIRTUAL_ROUTER \<equiv> 5"
abbreviation (input) SAI_API_ROUTE :: nat where "SAI_API_ROUTE \<equiv> 6"
abbreviation (input) SAI_API_NEXT_HOP :: nat where "SAI_API_NEXT_HOP \<equiv> 7"
abbreviation (input) SAI_API_NEXT_HOP_GROUP :: nat where "SAI_API_NEXT_HOP_GROUP \<equiv> 8"
abbreviation (input) SAI_API_ROUTER_INTERFACE :: nat where "SAI_API_ROUTER_INTERFACE \<equiv> 9"
abbreviation (input) SAI_API_NEIGHBOR :: nat where "SAI_API_NEIGHBOR \<equiv> 10"
abbreviation (input) SAI_API_ACL :: nat where "SAI_API_ACL \<equiv> 11"
abbreviation (input) SAI_API_HOSTIF :: nat where "SAI_API_HOSTIF \<equiv> 12"
abbreviation (input) SAI_API_MIRROR :: nat where "SAI_API_MIRROR \<equiv> 13"
abbreviation (input) SAI_API_SAMPLEPACKET :: nat where "SAI_API_SAMPLEPACKET \<equiv> 14"
abbreviation (input) SAI_API_STP :: nat where "SAI_API_STP \<equiv> 15"
abbreviation (input) SAI_API_LAG :: nat where "SAI_API_LAG \<equiv> 16"
abbreviation (input) SAI_API_POLICER :: nat where "SAI_API_POLICER \<equiv> 17"
abbreviation (input) SAI_API_WRED :: nat where "SAI_API_WRED \<equiv> 18"
abbreviation (input) SAI_API_QOS_MAP :: nat where "SAI_API_QOS_MAP \<equiv> 19"
abbreviation (input) SAI_API_QUEUE :: nat where "SAI_API_QUEUE \<equiv> 20"
abbreviation (input) SAI_API_SCHEDULER :: nat where "SAI_API_SCHEDULER \<equiv> 21"
abbreviation (input) SAI_API_SCHEDULER_GROUP :: nat where "SAI_API_SCHEDULER_GROUP \<equiv> 22"
abbreviation (input) SAI_API_BUFFER :: nat where "SAI_API_BUFFER \<equiv> 23"
abbreviation (input) SAI_API_HASH :: nat where "SAI_API_HASH \<equiv> 24"
abbreviation (input) SAI_API_UDF :: nat where "SAI_API_UDF \<equiv> 25"
abbreviation (input) SAI_API_TUNNEL :: nat where "SAI_API_TUNNEL \<equiv> 26"
abbreviation (input) SAI_API_L2MC :: nat where "SAI_API_L2MC \<equiv> 27"
abbreviation (input) SAI_API_IPMC :: nat where "SAI_API_IPMC \<equiv> 28"
abbreviation (input) SAI_API_RPF_GROUP :: nat where "SAI_API_RPF_GROUP \<equiv> 29"
abbreviation (input) SAI_API_L2MC_GROUP :: nat where "SAI_API_L2MC_GROUP \<equiv> 30"
abbreviation (input) SAI_API_IPMC_GROUP :: nat where "SAI_API_IPMC_GROUP \<equiv> 31"
abbreviation (input) SAI_API_MCAST_FDB :: nat where "SAI_API_MCAST_FDB \<equiv> 32"
abbreviation (input) SAI_API_BRIDGE :: nat where "SAI_API_BRIDGE \<equiv> 33"
abbreviation (input) SAI_API_TAM :: nat where "SAI_API_TAM \<equiv> 34"
abbreviation (input) SAI_API_SEGMENTROUTE :: nat where "SAI_API_SEGMENTROUTE \<equiv> 35"
abbreviation (input) SAI_API_MPLS :: nat where "SAI_API_MPLS \<equiv> 36"
abbreviation (input) SAI_API_DTEL :: nat where "SAI_API_DTEL \<equiv> 37"
abbreviation (input) SAI_API_BFD :: nat where "SAI_API_BFD \<equiv> 38"
abbreviation (input) SAI_API_ISOLATION_GROUP :: nat where "SAI_API_ISOLATION_GROUP \<equiv> 39"
abbreviation (input) SAI_API_NAT :: nat where "SAI_API_NAT \<equiv> 40"
abbreviation (input) SAI_API_COUNTER :: nat where "SAI_API_COUNTER \<equiv> 41"
abbreviation (input) SAI_API_DEBUG_COUNTER :: nat where "SAI_API_DEBUG_COUNTER \<equiv> 42"
abbreviation (input) SAI_API_TWAMP :: nat where "SAI_API_TWAMP \<equiv> 43"
abbreviation (input) SAI_API_NPM :: nat where "SAI_API_NPM \<equiv> 44"
abbreviation (input) SAI_API_ES :: nat where "SAI_API_ES \<equiv> 45"
abbreviation (input) SAI_API_Y1731 :: nat where "SAI_API_Y1731 \<equiv> 46"
abbreviation (input) SAI_API_PTP :: nat where "SAI_API_PTP \<equiv> 47"
abbreviation (input) SAI_API_SYNCE :: nat where "SAI_API_SYNCE \<equiv> 48"
abbreviation (input) SAI_API_MAX :: nat where "SAI_API_MAX \<equiv> 49"

text \<open>The structure type \<^verbatim>\<open>inc/sai.h\<close> documents for every identifier.\<close>

definition api_documented :: "string list" where
  "api_documented =
     [''unspecified'', ''sai_switch_api_t'', ''sai_port_api_t'', ''sai_fdb_api_t'',
      ''sai_vlan_api_t'', ''sai_virtual_router_api_t'', ''sai_route_api_t'',
      ''sai_next_hop_api_t'', ''sai_next_hop_group_api_t'', ''sai_router_interface_api_t'',
      ''sai_neighbor_api_t'', ''sai_acl_api_t'', ''sai_hostif_api_t'', ''sai_mirror_api_t'',
      ''sai_samplepacket_api_t'', ''sai_stp_api_t'', ''sai_lag_api_t'', ''sai_policer_api_t'',
      ''sai_wred_api_t'', ''sai_qos_map_api_t'', ''sai_queue_api_t'', ''sai_scheduler_api_t'',
      ''sai_scheduler_group_api_t'', ''sai_buffer_api_t'', ''sai_hash_api_t'', ''sai_udf_api_t'',
      ''sai_tunnel_api_t'', ''sai_l2mc_api_t'', ''sai_ipmc_api_t'', ''sai_rpf_group_api_t'',
      ''sai_l2mc_group_api_t'', ''sai_ipmc_group_api_t'', ''sai_mcast_fdb_api_t'',
      ''sai_bridge_api_t'', ''sai_tam_api_t'', ''sai_segmentroute_api_t'', ''sai_mpls_api_t'',
      ''sai_dtel_api_t'', ''sai_bfd_api_t'', ''sai_isolation_group_api_t'', ''sai_nat_api_t'',
      ''sai_counter_api_t'', ''sai_debug_counter_api_t'', ''sai_twamp_api_t'', ''sai_npm_api_t'',
      ''sai_es_api_t'', ''sai_y1731_api_t'', ''sai_ptp_api_t'', ''sai_synce_api_t'']"

section \<open>The global state\<close>

text \<open>A function pointer is its address, \<open>None\<close> for \<^verbatim>\<open>NULL\<close>.\<close>

record sai_service_method_table =
  profile_get_value :: "nat option"
  profile_get_next_value :: "nat option"

record sai_api_master =
  module_api :: "nat \<Rightarrow> string option"
  services :: sai_service_method_table
  log_level :: "nat \<Rightarrow> u32"
  api_status :: bool

definition zero_master :: sai_api_master where
  "zero_master =
     \<lparr> module_api = (\<lambda>i. None),
       services = \<lparr> profile_get_value = None, profile_get_next_value = None \<rparr>,
       log_level = (\<lambda>i. 0), api_status = False \<rparr>"

section \<open>Logging\<close>

definition ctc_sai_module_str :: "string list" where
  "ctc_sai_module_str =
     [''Common'', ''Switch'', ''Port'', ''FDB'', ''VLAN'', ''VRoute'', ''Route'', ''Nexthop'',
      ''NexthopGroup'', ''RIF'', ''Neighbor'', ''Acl'', ''HostIf'', ''Mirror'', ''SamplePacket'',
      ''STP'', ''LAG'', ''Policer'', ''WRED'', ''QosMap'', ''Queue'', ''Scheduler'',
      ''SchedulerGroup'', ''Buffer'', ''Hash'', ''UDF'', ''Tunnel'', ''L2MC'', ''IPMC'',
      ''RPF Group'', ''L2MC Group'', ''IPMC Group'', ''Mcast FDB'', ''Bridge'', ''TAM'', ''SR'',
      ''MPLS'', ''uBrust'', ''BFD'', ''IsolationGroup'', ''NAT'', ''Counter'', ''DebugCounter'',
      ''TWAMP'', ''NPM'', ''ES'', ''Y1731'', ''PTP'', ''SYNCE'']"

text \<open>The line a message becomes, if it is not suppressed; the comparison is unsigned.\<close>

definition ctc_sai_log :: "sai_api_master \<Rightarrow> int \<Rightarrow> nat \<Rightarrow> string \<Rightarrow> string option" where
  "ctc_sai_log m level api msg =
     (if (of_int level :: u32) < log_level m api then None
      else Some (ctc_sai_module_str ! api @ '': '' @ take 1022 msg))"

abbreviation (input) SAI_LOG_LEVEL_DEBUG :: u32 where "SAI_LOG_LEVEL_DEBUG \<equiv> 0"
abbreviation (input) SAI_LOG_LEVEL_INFO :: u32 where "SAI_LOG_LEVEL_INFO \<equiv> 1"
abbreviation (input) SAI_LOG_LEVEL_ERROR :: u32 where "SAI_LOG_LEVEL_ERROR \<equiv> 4"
abbreviation (input) SAI_LOG_LEVEL_CRITICAL :: u32 where "SAI_LOG_LEVEL_CRITICAL \<equiv> 5"

text \<open>The first switch of \<^verbatim>\<open>sai_log_set\<close>, with its fall-through.\<close>

definition debug_level :: "('o, 'e, 'v) ctc_lib \<Rightarrow> u32 \<Rightarrow> u8" where
  "debug_level L level =
     (let d = dbg_level L DBG_NONE;
          d = (if level = SAI_LOG_LEVEL_DEBUG then or d (or (dbg_level L DBG_PARAM) (dbg_level L DBG_FUNC)) else d);
          d = (if level \<le> SAI_LOG_LEVEL_INFO then or d (dbg_level L DBG_INFO) else d)
      in if level \<le> SAI_LOG_LEVEL_CRITICAL then or d (dbg_level L DBG_ERROR) else d)"

text \<open>The second switch: the SDK modules whose debug level follows the one of an API.\<close>

definition debug_flags :: "nat \<Rightarrow> (string \<times> string) list" where
  "debug_flags api =
     (if api = SAI_API_SWITCH then [(''chip'', ''chip'')]
      else if api = SAI_API_PORT \<or> api = SAI_API_ISOLATION_GROUP
        then [(''port'', ''port''), (''port'', ''mac''), (''port'', ''cl73'')]
      else if api = SAI_API_FDB then [(''l2'', ''fdb'')]
      else if api = SAI_API_VLAN
        then [(''vlan'', ''vlan''), (''vlan'', ''vlan_class''), (''vlan'', ''vlan_mapping''),
          (''vlan'', ''protocol_vlan'')]
      else if api = SAI_API_ROUTE \<or> api = SAI_API_NAT then [(''ip'', ''ipuc'')]
      else if api = SAI_API_NEXT_HOP then [(''nexthop'', ''nexthop'')]
      else if api = SAI_API_NEXT_HOP_GROUP then [(''nexthop'', ''nexthop'')]
      else if api = SAI_API_ROUTER_INTERFACE then [(''l3if'', ''l3if'')]
      else if api = SAI_API_NEIGHBOR then [(''ip'', ''ipuc'')]
      else if api = SAI_API_ACL then [(''acl'', ''acl'')]
      else if api = SAI_API_HOSTIF
        then [(''acl'', ''acl''), (''qos'', ''queue''), (''qos'', ''policer'')]
      else if api = SAI_API_MIRROR then [(''nexthop'', ''nexthop''), (''mirror'', ''mirror'')]
      else if api = SAI_API_SAMPLEPACKET then [(''acl'', ''acl''), (''mirror'', ''mirror'')]
      else if api = SAI_API_STP then [(''l2'', ''stp'')]
      else if api = SAI_API_LAG then [(''linkagg'', ''linkagg'')]
      else if api = SAI_API_POLICER then [(''security'', ''security''), (''qos'', ''policer'')]
      else if api = SAI_API_QOS_MAP then [(''qos'', ''class'')]
      else if api \<in> {SAI_API_WRED, SAI_API_QUEUE, SAI_API_SCHEDULER, SAI_API_SCHEDULER_GROUP,
        SAI_API_BUFFER}
        then [(''qos'', ''queue'')]
      else if api = SAI_API_HASH then [(''parser'', ''parser'')]
      else if api = SAI_API_UDF then [(''acl'', ''acl'')]
      else if api \<in> {SAI_API_L2MC, SAI_API_IPMC, SAI_API_RPF_GROUP, SAI_API_L2MC_GROUP,
        SAI_API_IPMC_GROUP, SAI_API_MCAST_FDB}
        then [(''nexthop'', ''nexthop''), (''ip'', ''ipmc''), (''l2'', ''fdb'')]
      else if api = SAI_API_BRIDGE
        then [(''l2'', ''fdb''), (''security'', ''security''), (''port'', ''port''), (''vlan'',
          ''vlan''), (''vlan'', ''vlan_mapping''), (''nexthop'', ''nexthop'')]
      else if api = SAI_API_MPLS then [(''mpls'', ''mpls'')]
      else if api = SAI_API_COUNTER \<or> api = SAI_API_DEBUG_COUNTER then [(''stats'', ''stats'')]
      else [])"

definition CTC_SAI_API_INIT_CHECK :: "sai_api_master \<Rightarrow> sai_status" where
  "CTC_SAI_API_INIT_CHECK m = (if \<not> api_status m then SAI_STATUS_UNINITIALIZED else SAI_STATUS_SUCCESS)"

definition sai_log_set ::
    "('o, 'e, 'v) ctc_lib \<Rightarrow> nat \<Rightarrow> u32 \<Rightarrow> sai_api_master \<times> ('o, 'e, 'v) sai_state \<Rightarrow>
     sai_status \<times> sai_api_master \<times> ('o, 'e, 'v) sai_state" where
  "sai_log_set L api level ms =
     (let (m, s) = ms in
      if \<not> api_status m then (SAI_STATUS_UNINITIALIZED, m, s)
      else if SAI_API_MAX \<le> api then (SAI_STATUS_INVALID_PARAMETER, m, s)
      else (SAI_STATUS_SUCCESS, m\<lparr>log_level := (log_level m)(api := level)\<rparr>,
            fold (\<lambda>(module, sub) s. snd (ext_call L (DebugSetFlag module sub (debug_level L level)) s))
              (debug_flags api) s))"

section \<open>Registration and initialisation\<close>

definition ctc_sai_register_module_api ::
    "nat \<Rightarrow> string \<Rightarrow> sai_api_master \<Rightarrow> sai_status \<times> sai_api_master" where
  "ctc_sai_register_module_api api tab m =
     (SAI_STATUS_SUCCESS, m\<lparr>module_api := (module_api m)(api := Some tab)\<rparr>)"

definition ctc_sai_get_services_fn :: "sai_api_master \<Rightarrow> sai_status \<times> sai_service_method_table" where
  "ctc_sai_get_services_fn m = (SAI_STATUS_SUCCESS, services m)"

text \<open>
  The module initialisers \<^verbatim>\<open>sai_api_initialize\<close> calls, in order, with the registrations each of
  them makes; they do nothing else.
\<close>

definition api_inits :: "(string \<times> (nat \<times> string) list) list" where
  "api_inits =
     [(''ctc_sai_switch_api_init'', [(SAI_API_SWITCH, ''sai_switch_api_t'')]),
      (''ctc_sai_bridge_api_init'', [(SAI_API_BRIDGE, ''sai_bridge_api_t'')]),
      (''ctc_sai_port_api_init'', [(SAI_API_PORT, ''sai_port_api_t'')]),
      (''ctc_sai_fdb_api_init'', [(SAI_API_FDB, ''sai_fdb_api_t'')]),
      (''ctc_sai_vlan_api_init'', [(SAI_API_VLAN, ''sai_vlan_api_t'')]),
      (''ctc_sai_virtual_router_api_init'', [(SAI_API_VIRTUAL_ROUTER,
        ''sai_virtual_router_api_t'')]),
      (''ctc_sai_router_interface_api_init'', [(SAI_API_ROUTER_INTERFACE,
        ''sai_router_interface_api_t'')]),
      (''ctc_sai_neighbor_api_init'', [(SAI_API_NEIGHBOR, ''sai_neighbor_api_t'')]),
      (''ctc_sai_next_hop_api_init'', [(SAI_API_NEXT_HOP, ''sai_next_hop_api_t'')]),
      (''ctc_sai_next_hop_group_api_init'', [(SAI_API_NEXT_HOP_GROUP,
        ''sai_next_hop_group_api_t'')]),
      (''ctc_sai_route_api_init'', [(SAI_API_ROUTE, ''sai_route_api_t'')]),
      (''ctc_sai_mcast_api_init'', [(SAI_API_L2MC_GROUP, ''sai_l2mc_group_api_t''), (SAI_API_L2MC,
        ''sai_l2mc_api_t''), (SAI_API_MCAST_FDB, ''sai_mcast_fdb_api_t''), (SAI_API_IPMC_GROUP,
          ''sai_ipmc_group_api_t''), (SAI_API_RPF_GROUP, ''sai_rpf_group_api_t''), (SAI_API_IPMC,
            ''sai_ipmc_api_t'')]),
      (''ctc_sai_policer_api_init'', [(SAI_API_POLICER, ''sai_policer_api_t'')]),
      (''ctc_sai_wred_api_init'', [(SAI_API_WRED, ''sai_wred_api_t'')]),
      (''ctc_sai_qos_map_api_init'', [(SAI_API_QOS_MAP, ''sai_qos_map_api_t'')]),
      (''ctc_sai_queue_api_init'', [(SAI_API_QUEUE, ''sai_queue_api_t'')]),
      (''ctc_sai_lag_api_init'', [(SAI_API_LAG, ''sai_lag_api_t'')]),
      (''ctc_sai_stp_api_init'', [(SAI_API_STP, ''sai_stp_api_t'')]),
      (''ctc_sai_ld_hash_api_init'', [(SAI_API_HASH, ''sai_hash_api_t'')]),
      (''ctc_sai_udf_api_init'', [(SAI_API_UDF, ''sai_udf_api_t'')]),
      (''ctc_sai_mirror_api_init'', [(SAI_API_MIRROR, ''sai_mirror_api_t'')]),
      (''ctc_sai_mpls_api_init'', [(SAI_API_MPLS, ''sai_mpls_api_t'')]),
      (''ctc_sai_hostif_api_init'', [(SAI_API_HOSTIF, ''sai_hostif_api_t'')]),
      (''ctc_sai_samplepacket_api_init'', [(SAI_API_SAMPLEPACKET, ''sai_samplepacket_api_t'')]),
      (''ctc_sai_acl_api_init'', [(SAI_API_ACL, ''sai_acl_api_t'')]),
      (''ctc_sai_tunnel_api_init'', [(SAI_API_TUNNEL, ''sai_tunnel_api_t'')]),
      (''ctc_sai_scheduler_api_init'', [(SAI_API_SCHEDULER, ''sai_scheduler_api_t'')]),
      (''ctc_sai_scheduler_group_api_init'', [(SAI_API_SCHEDULER_GROUP,
        ''sai_scheduler_group_api_t'')]),
      (''ctc_sai_buffer_api_init'', [(SAI_API_BUFFER, ''sai_buffer_api_t'')]),
      (''ctc_sai_isolation_group_api_init'', [(SAI_API_ISOLATION_GROUP,
        ''sai_isolation_group_api_t'')]),
      (''ctc_sai_counter_api_init'', [(SAI_API_COUNTER, ''sai_counter_api_t'')]),
      (''ctc_sai_debug_counter_api_init'', [(SAI_API_DEBUG_COUNTER, ''sai_debug_counter_api_t'')]),
      (''ctc_sai_nat_api_init'', [(SAI_API_NAT, ''sai_nat_api_t'')]),
      (''ctc_sai_twamp_api_init'', [(SAI_API_TWAMP, ''sai_twamp_api_t'')]),
      (''ctc_sai_bfd_api_init'', [(SAI_API_BFD, ''sai_bfd_api_t'')]),
      (''ctc_sai_npm_api_init'', [(SAI_API_NPM, ''sai_npm_api_t'')]),
      (''ctc_sai_ptp_api_init'', [(SAI_API_PTP, ''sai_ptp_api_t'')]),
      (''ctc_sai_y1731_api_init'', [(SAI_API_Y1731, ''sai_y1731_api_t'')]),
      (''ctc_sai_es_api_init'', [(SAI_API_ES, ''sai_es_api_t'')]),
      (''ctc_sai_synce_api_init'', [(SAI_API_SYNCE, ''sai_synce_api_t'')])]"

definition run_api_init :: "string \<times> (nat \<times> string) list \<Rightarrow> sai_api_master \<Rightarrow> sai_api_master" where
  "run_api_init i m = fold (\<lambda>(api, tab) m. snd (ctc_sai_register_module_api api tab m)) (snd i) m"

definition sai_api_initialize ::
    "('o, 'e, 'v) ctc_lib \<Rightarrow> u64 \<Rightarrow> sai_service_method_table option \<Rightarrow>
     sai_api_master \<times> ('o, 'e, 'v) sai_state \<Rightarrow> sai_status \<times> sai_api_master \<times> ('o, 'e, 'v) sai_state" where
  "sai_api_initialize L flags sv ms =
     (let m = zero_master; (r, s) = ext_call L MemMgrInit (snd ms) in
      if rc r \<noteq> 0 then (rc r, m, s) else
      let (r, s) = ext_call L DebugInit s in
      if rc r \<noteq> 0 then (rc r, m, s) else
      let (r, s) = ext_call L SalInit s in
      if rc r \<noteq> 0 then (rc r, m, s) else
      case sv of
        None \<Rightarrow> (SAI_STATUS_INVALID_PARAMETER, m, s)
      | Some v \<Rightarrow>
          if profile_get_next_value v = None \<or> profile_get_value v = None
          then (SAI_STATUS_INVALID_PARAMETER, m, s)
          else
            let m = m\<lparr>services := v\<rparr> in
            if flags \<noteq> 0 then (SAI_STATUS_INVALID_PARAMETER, m, s)
            else
              let m = fold run_api_init api_inits m;
                  m = m\<lparr>api_status := True\<rparr>
              in (SAI_STATUS_SUCCESS,
                  fold (\<lambda>api ms. snd (sai_log_set L api SAI_LOG_LEVEL_ERROR ms)) [0..<SAI_API_MAX] (m, s)))"

text \<open>The last argument is whether the caller passed a place for the table.\<close>

definition sai_api_query :: "sai_api_master \<Rightarrow> nat \<Rightarrow> bool \<Rightarrow> sai_status \<times> string option" where
  "sai_api_query m api has_out =
     (if CTC_SAI_API_INIT_CHECK m \<noteq> SAI_STATUS_SUCCESS then (CTC_SAI_API_INIT_CHECK m, None)
      else if SAI_API_MAX \<le> api then (SAI_STATUS_INVALID_PARAMETER, None)
      else if \<not> has_out then (SAI_STATUS_INVALID_PARAMETER, None)
      else case module_api m api of
        None \<Rightarrow> (SAI_STATUS_NOT_SUPPORTED, None)
      | Some t \<Rightarrow> (SAI_STATUS_SUCCESS, Some t))"

definition sai_api_uninitialize :: "sai_api_master \<Rightarrow> sai_status \<times> sai_api_master" where
  "sai_api_uninitialize m =
     (if CTC_SAI_API_INIT_CHECK m \<noteq> SAI_STATUS_SUCCESS then (CTC_SAI_API_INIT_CHECK m, m)
      else (SAI_STATUS_SUCCESS, zero_master))"

definition sai_switch_id_query :: "sai_object_id \<Rightarrow> sai_object_id" where
  "sai_switch_id_query oid = ucast (o_lchip (oid_unpack oid))"

section \<open>Formatting\<close>

text \<open>
  A string buffer the caller passes is \<open>None\<close> when the pointer is \<^verbatim>\<open>NULL\<close>; the result is its new
  contents. The standard library's \<^verbatim>\<open>inet_ntop\<close> is reached through the SDK.
\<close>

definition ctc_sai_get_ip_str ::
    "('o, 'e, 'v) ctc_lib \<Rightarrow> sai_ip_address option \<Rightarrow> string option \<Rightarrow> sai_status \<times> string option" where
  "ctc_sai_get_ip_str L ip buf =
     (case (ip, buf) of
        (Some a, Some b) \<Rightarrow>
          (SAI_STATUS_SUCCESS, Some
            (if addr_family a = SAI_IP_ADDR_FAMILY_IPV4
             then (if (ucast (addr a) :: u32) = 0 then ''-''
                   else inet_ntop L False [bswap32 (ucast (addr a))])
             else if addr_family a = SAI_IP_ADDR_FAMILY_IPV6
             then (if addr a = 0 then ''-'' else inet_ntop L True (map bswap32 (mask_words (addr a))))
             else b))
      | _ \<Rightarrow> (SAI_STATUS_INVALID_PARAMETER, buf))"

definition ctc_sai_get_ipv4_str ::
    "('o, 'e, 'v) ctc_lib \<Rightarrow> u32 option \<Rightarrow> string option \<Rightarrow> sai_status \<times> string option" where
  "ctc_sai_get_ipv4_str L ip buf =
     (case (ip, buf) of
        (Some a, Some b) \<Rightarrow>
          (SAI_STATUS_SUCCESS, Some (if a = 0 then ''-'' else inet_ntop L False [bswap32 a]))
      | _ \<Rightarrow> (SAI_STATUS_INVALID_PARAMETER, buf))"

text \<open>\<^verbatim>\<open>%.2x\<close> of a byte, and byte \<open>i\<close> of an address, the first at the low end of the word.\<close>

definition hex_digit :: "u8 \<Rightarrow> char" where
  "hex_digit d = char_of (if d < 10 then 48 + unat d else 87 + unat d)"

definition hex_byte :: "u8 \<Rightarrow> string" where
  "hex_byte b = [hex_digit (drop_bit 4 b), hex_digit (take_bit 4 b)]"

definition mac_byte :: "nat \<Rightarrow> sai_mac \<Rightarrow> u8" where
  "mac_byte i mac = ucast (drop_bit (8 * i) mac)"

definition ctc_sai_get_mac_str :: "sai_mac \<Rightarrow> string" where
  "ctc_sai_get_mac_str mac =
     (if mac = 0 then ''-''
      else hex_byte (mac_byte 0 mac) @ hex_byte (mac_byte 1 mac) @ ''.'' @
           hex_byte (mac_byte 2 mac) @ hex_byte (mac_byte 3 mac) @ ''.'' @
           hex_byte (mac_byte 4 mac) @ hex_byte (mac_byte 5 mac))"

definition ctc_sai_get_packet_action_desc :: "u8 \<Rightarrow> string option \<Rightarrow> sai_status \<times> string option" where
  "ctc_sai_get_packet_action_desc action buf =
     (if buf = None then (SAI_STATUS_INVALID_PARAMETER, None)
      else (SAI_STATUS_SUCCESS, Some
        (if action = 0 then ''DROP'' else if action = 1 then ''FORWARD''
         else if action = 2 then ''COPY'' else if action = 3 then ''COPY_CANCEL''
         else if action = 4 then ''TRAP'' else if action = 5 then ''LOG''
         else if action = 6 then ''DENY'' else if action = 7 then ''TRANSIT''
         else ''Error action_type'')))"

section \<open>The dump file\<close>

definition module_dumps :: "(nat \<times> string option) list" where
  "module_dumps =
     [(SAI_API_SWITCH, Some ''ctc_sai_switch_dump''),
      (SAI_API_PORT, Some ''ctc_sai_port_dump''),
      (SAI_API_FDB, Some ''ctc_sai_fdb_dump''),
      (SAI_API_VLAN, Some ''ctc_sai_vlan_dump''),
      (SAI_API_VIRTUAL_ROUTER, Some ''ctc_sai_virtual_router_dump''),
      (SAI_API_ROUTE, Some ''ctc_sai_route_dump''),
      (SAI_API_NEXT_HOP, Some ''ctc_sai_next_hop_dump''),
      (SAI_API_NEXT_HOP_GROUP, Some ''ctc_sai_next_hop_group_dump''),
      (SAI_API_ROUTER_INTERFACE, Some ''ctc_sai_router_interface_dump''),
      (SAI_API_NEIGHBOR, Some ''ctc_sai_neighbor_dump''),
      (SAI_API_ACL, Some ''ctc_sai_acl_dump''),
      (SAI_API_HOSTIF, Some ''ctc_sai_hostif_dump''),
      (SAI_API_MIRROR, Some ''ctc_sai_mirror_dump''),
      (SAI_API_SAMPLEPACKET, Some ''ctc_sai_samplepacket_dump''),
      (SAI_API_STP, Some ''ctc_sai_stp_dump''),
      (SAI_API_LAG, Some ''ctc_sai_lag_dump''),
      (SAI_API_POLICER, Some ''ctc_sai_policer_dump''),
      (SAI_API_WRED, Some ''ctc_sai_wred_dump''),
      (SAI_API_QOS_MAP, Some ''ctc_sai_qos_map_dump''),
      (SAI_API_QUEUE, Some ''ctc_sai_queue_dump''),
      (SAI_API_SCHEDULER, Some ''ctc_sai_scheduler_dump''),
      (SAI_API_SCHEDULER_GROUP, Some ''ctc_sai_scheduler_group_dump''),
      (SAI_API_BUFFER, Some ''ctc_sai_buffer_dump''),
      (SAI_API_HASH, Some ''ctc_sai_ld_hash_dump''),
      (SAI_API_UDF, Some ''ctc_sai_udf_dump''),
      (SAI_API_TUNNEL, Some ''ctc_sai_tunnel_dump''),
      (SAI_API_L2MC, Some ''ctc_sai_l2mc_dump''),
      (SAI_API_IPMC, Some ''ctc_sai_ipmc_dump''),
      (SAI_API_RPF_GROUP, Some ''ctc_sai_rpf_group_dump''),
      (SAI_API_L2MC_GROUP, Some ''ctc_sai_l2mc_group_dump''),
      (SAI_API_IPMC_GROUP, Some ''ctc_sai_ipmc_group_dump''),
      (SAI_API_MCAST_FDB, Some ''ctc_sai_mcast_fdb_dump''),
      (SAI_API_BRIDGE, Some ''ctc_sai_bridge_dump''),
      (SAI_API_TAM, None),
      (SAI_API_SEGMENTROUTE, None),
      (SAI_API_MPLS, Some ''ctc_sai_mpls_dump''),
      (SAI_API_ISOLATION_GROUP, Some ''ctc_sai_isolation_group_dump''),
      (SAI_API_NAT, Some ''ctc_sai_nat_dump''),
      (SAI_API_COUNTER, Some ''ctc_sai_counter_dump''),
      (SAI_API_DEBUG_COUNTER, Some ''ctc_sai_debug_counter_dump''),
      (SAI_API_TWAMP, Some ''ctc_sai_debug_counter_dump''),
      (SAI_API_BFD, Some ''ctc_sai_bfd_dump''),
      (SAI_API_Y1731, Some ''ctc_sai_y1731_dump''),
      (SAI_API_PTP, Some ''ctc_sai_ptp_dump''),
      (SAI_API_ES, Some ''ctc_sai_es_dump'')]"

text \<open>
  \<^verbatim>\<open>sal_memset(bmp, 0xFFFFFFFF, k)\<close> on an array of \<open>n\<close> cleared words, and the SDK's bit test.
\<close>

definition memset_ones :: "nat \<Rightarrow> nat \<Rightarrow> u32 list" where
  "memset_ones k n = map (\<lambda>i. mask (8 * min 4 (k - 4 * i))) [0..<n]"

definition CTC_BMP_ISSET :: "u32 list \<Rightarrow> nat \<Rightarrow> bool" where
  "CTC_BMP_ISSET bmp i = (i div 32 < length bmp \<and> bit (bmp ! (i div 32)) (i mod 32))"

text \<open>
  The line buffer has 121 bytes. \<^verbatim>\<open>sal_sprintf(line_buf + str_len, ...)\<close> writes the text and a zero
  byte from offset \<^verbatim>\<open>str_len\<close> on; writing past the buffer is a fault. The offset is a 16-bit number
  that starts at zero and is not reset from chip to chip.
\<close>

definition CTC_SAI_DUMP_LINE_LEN :: nat where
  "CTC_SAI_DUMP_LINE_LEN = 120"

definition line_print ::
    "string \<Rightarrow> u16 \<times> ('o, 'e, 'v) sai_state \<Rightarrow> u16 \<times> ('o, 'e, 'v) sai_state" where
  "line_print txt ls =
     (let (n, s) = ls in
      (n + of_nat (length txt),
       if CTC_SAI_DUMP_LINE_LEN + 1 < unat n + length txt + 1 then s\<lparr>fault := True\<rparr> else s))"

definition dump_prefix :: string where
  "dump_prefix = replicate 51 CHR ''-'' @ ''**** lchip: ''"

definition dump_suffix :: string where
  "dump_suffix = '' ****'' @ replicate 51 CHR ''-''"

definition dump_modules :: "('o, 'e, 'v) ctc_lib \<Rightarrow> u32 list \<Rightarrow> u8 \<Rightarrow> ('o, 'e, 'v) sai_state \<Rightarrow> ('o, 'e, 'v) sai_state" where
  "dump_modules L bmp l s =
     fold (\<lambda>(api, f) s.
             if CTC_BMP_ISSET bmp api
             then (case f of None \<Rightarrow> s | Some g \<Rightarrow> snd (ext_call L (ModuleDump l g) s)) else s)
       module_dumps s"

definition dump_chip ::
    "('o, 'e, 'v) ctc_lib \<Rightarrow> u32 list \<Rightarrow> u8 \<Rightarrow> u16 \<times> ('o, 'e, 'v) sai_state \<Rightarrow> u16 \<times> ('o, 'e, 'v) sai_state" where
  "dump_chip L bmp l ls =
     (if g_sai_db (snd ls) l = None then ls
      else
        let (n, s) = ls;
            s = snd (ctc_sai_db_lock L l s);
            (n, s) = line_print dump_suffix (line_print (dec_string (unat l)) (line_print dump_prefix (n, s)));
            s = snd (ext_call L (ModuleDump l ''_ctc_sai_dbg_sdk_dump'') s);
            s = snd (ext_call L (GetGchipId l) s);
            s = dump_modules L bmp l s
        in (n, snd (ctc_sai_db_unlock L l s)))"

definition sai_dbg_generate_dump ::
    "('o, 'e, 'v) ctc_lib \<Rightarrow> string \<Rightarrow> ('o, 'e, 'v) sai_state \<Rightarrow> sai_status \<times> ('o, 'e, 'v) sai_state" where
  "sai_dbg_generate_dump L name s =
     (let api_bmp = memset_ones (4 * (SAI_API_MAX - 1) div 32 + 1) ((SAI_API_MAX - 1) div 32 + 1);
          (r, s) = ext_call L (FileOpen name) s in
      if out_val 0 r = 0 then (SAI_STATUS_FAILURE, s)
      else
        let (n, s) = fold (\<lambda>l. dump_chip L api_bmp (of_nat l)) [0..<unat CTC_SAI_MAX_CHIP_NUM] (0, s);
            s = snd (ext_call L FileClose s)
        in (SAI_STATUS_SUCCESS, s))"

section \<open>Initialisation\<close>

lemma register_all:
  "module_api (fold (\<lambda>(api, tab) m. snd (ctc_sai_register_module_api api tab m)) rs m) =
     module_api m ++ map_of (rev rs)"
  by (induction rs arbitrary: m) (auto simp: ctc_sai_register_module_api_def fun_eq_iff map_add_def
      split: option.splits)

lemma register_frame:
  "services (fold (\<lambda>(api, tab) m. snd (ctc_sai_register_module_api api tab m)) rs m) = services m"
  "log_level (fold (\<lambda>(api, tab) m. snd (ctc_sai_register_module_api api tab m)) rs m) = log_level m"
  by (induction rs arbitrary: m) (auto simp: ctc_sai_register_module_api_def)

lemma inits_all:
  "module_api (fold run_api_init is m) = module_api m ++ map_of (rev (concat (map snd is)))"
  "services (fold run_api_init is m) = services m"
  "log_level (fold run_api_init is m) = log_level m"
  by (induction "is" arbitrary: m) (auto simp: run_api_init_def register_all register_frame)

lemma log_set_master:
  assumes "api_status m" "api < SAI_API_MAX"
  shows "fst (snd (sai_log_set L api level (m, s))) = m\<lparr>log_level := (log_level m)(api := level)\<rparr>"
    "fst (sai_log_set L api level (m, s)) = SAI_STATUS_SUCCESS"
  using assms by (simp_all add: sai_log_set_def)

lemma log_all:
  "api_status m \<Longrightarrow> \<forall>a \<in> set as. a < SAI_API_MAX \<Longrightarrow>
     fst (fold (\<lambda>api ms. snd (sai_log_set L api lv ms)) as (m, s)) =
     m\<lparr>log_level := (\<lambda>i. if i \<in> set as then lv else log_level m i)\<rparr>"
proof (induction as arbitrary: m s)
  case (Cons a as)
  obtain s' where s': "snd (sai_log_set L a lv (m, s)) = (m\<lparr>log_level := (log_level m)(a := lv)\<rparr>, s')"
    using log_set_master(1) [of m a L lv s] Cons.prems by (cases "snd (sai_log_set L a lv (m, s))") auto
  show ?case
    using Cons.IH [of "m\<lparr>log_level := (log_level m)(a := lv)\<rparr>" s'] Cons.prems
    by (auto simp: s' fun_eq_iff intro!: arg_cong [where f = "\<lambda>x. m\<lparr>log_level := x\<rparr>"])
qed simp

text \<open>The master after a successful initialisation.\<close>

definition ready_master :: "sai_service_method_table \<Rightarrow> sai_api_master" where
  "ready_master v =
     \<lparr> module_api = map_of (rev (concat (map snd api_inits))), services = v,
       log_level = (\<lambda>i. if i < SAI_API_MAX then SAI_LOG_LEVEL_ERROR else 0), api_status = True \<rparr>"

lemma initialize_success:
  assumes "sai_api_initialize L flags sv ms = (SAI_STATUS_SUCCESS, m, s)"
  shows "\<exists>v. sv = Some v \<and> m = ready_master v"
proof -
  obtain v s1 where v: "sv = Some v" and m: "m = fst (fold (\<lambda>api ms. snd (sai_log_set L api SAI_LOG_LEVEL_ERROR ms))
      [0..<SAI_API_MAX] ((fold run_api_init api_inits (zero_master\<lparr>services := v\<rparr>))\<lparr>api_status := True\<rparr>, s1))"
    using assms unfolding sai_api_initialize_def Let_def case_prod_beta
    by (auto split: if_splits option.splits simp del: upt_rec_numeral) (metis fst_conv)
  have "m = ready_master v"
    unfolding m by (subst log_all) (auto simp: ready_master_def zero_master_def inits_all fun_eq_iff)
  with v show ?thesis by simp
qed

lemma initialize_failure:
  assumes "sai_api_initialize L flags sv ms = (st, m, s)" "st \<noteq> SAI_STATUS_SUCCESS"
  shows "\<not> api_status m"
  using assms unfolding sai_api_initialize_def Let_def case_prod_beta
  by (auto split: if_splits option.splits simp: zero_master_def simp del: upt_rec_numeral)

lemma ready_tables:
  "\<forall>api \<in> set [0..<SAI_API_MAX]. map_of (rev (concat (map snd api_inits))) api =
     (if api \<in> set [SAI_API_UNSPECIFIED, SAI_API_TAM, SAI_API_SEGMENTROUTE, SAI_API_DTEL]
      then None else Some (api_documented ! api))"
  by code_simp

lemma ready_query:
  "sai_api_query (ready_master v) api True =
     (if SAI_API_MAX \<le> api then (SAI_STATUS_INVALID_PARAMETER, None)
      else if api \<in> {SAI_API_UNSPECIFIED, SAI_API_TAM, SAI_API_SEGMENTROUTE, SAI_API_DTEL}
      then (SAI_STATUS_NOT_SUPPORTED, None)
      else (SAI_STATUS_SUCCESS, Some (api_documented ! api)))"
proof (cases "api < SAI_API_MAX")
  case True
  with ready_tables have "module_api (ready_master v) api =
      (if api \<in> set [SAI_API_UNSPECIFIED, SAI_API_TAM, SAI_API_SEGMENTROUTE, SAI_API_DTEL]
       then None else Some (api_documented ! api))"
    by (simp add: ready_master_def del: upt_rec_numeral)
  then show ?thesis
    using True by (auto simp: sai_api_query_def CTC_SAI_API_INIT_CHECK_def ready_master_def)
qed (simp add: sai_api_query_def CTC_SAI_API_INIT_CHECK_def ready_master_def)

lemma api_query_documented_facts:
  assumes "sai_api_initialize L flags sv ms = (SAI_STATUS_SUCCESS, m, s)"
  shows "\<forall>api. sai_api_query m api True =
      (if SAI_API_MAX \<le> api then (SAI_STATUS_INVALID_PARAMETER, None)
       else if api \<in> {SAI_API_UNSPECIFIED, SAI_API_TAM, SAI_API_SEGMENTROUTE, SAI_API_DTEL}
       then (SAI_STATUS_NOT_SUPPORTED, None)
       else (SAI_STATUS_SUCCESS, Some (api_documented ! api)))"
    and "Some (snd (ctc_sai_get_services_fn m)) = sv"
    and "\<forall>api level msg. api < SAI_API_MAX \<longrightarrow> 0 \<le> level \<longrightarrow> level < 2 ^ 32 \<longrightarrow>
           (ctc_sai_log m level api msg = None) = (level < 4)"
    and "fst (sai_api_uninitialize m) = SAI_STATUS_SUCCESS"
    and "\<forall>api b. sai_api_query (snd (sai_api_uninitialize m)) api b = (SAI_STATUS_UNINITIALIZED, None)"
proof -
  obtain v where v: "sv = Some v" "m = ready_master v"
    using initialize_success [OF assms] by auto
  show "\<forall>api. sai_api_query m api True =
      (if SAI_API_MAX \<le> api then (SAI_STATUS_INVALID_PARAMETER, None)
       else if api \<in> {SAI_API_UNSPECIFIED, SAI_API_TAM, SAI_API_SEGMENTROUTE, SAI_API_DTEL}
       then (SAI_STATUS_NOT_SUPPORTED, None)
       else (SAI_STATUS_SUCCESS, Some (api_documented ! api)))"
    unfolding v(2) ready_query by blast
  show "Some (snd (ctc_sai_get_services_fn m)) = sv"
    by (simp add: v ctc_sai_get_services_fn_def ready_master_def)
  show "fst (sai_api_uninitialize m) = SAI_STATUS_SUCCESS"
    "\<forall>api b. sai_api_query (snd (sai_api_uninitialize m)) api b = (SAI_STATUS_UNINITIALIZED, None)"
    by (simp_all add: v sai_api_uninitialize_def sai_api_query_def CTC_SAI_API_INIT_CHECK_def
        ready_master_def zero_master_def)
  show "\<forall>api level msg. api < SAI_API_MAX \<longrightarrow> 0 \<le> level \<longrightarrow> level < 2 ^ 32 \<longrightarrow>
      (ctc_sai_log m level api msg = None) = (level < 4)"
  proof (intro allI impI)
    fix api :: nat and level :: int and msg :: string
    assume *: "api < SAI_API_MAX" "0 \<le> level" "level < 2 ^ 32"
    have "uint (of_int level :: u32) = level"
      using * by (simp add: uint_word_of_int_eq take_bit_int_eq_self)
    then show "(ctc_sai_log m level api msg = None) = (level < 4)"
      using * by (simp add: v ctc_sai_log_def ready_master_def word_less_def)
  qed
qed

text \<open>
  Property C13: After \<^verbatim>\<open>sai_api_initialize\<close> has succeeded, a query of an API identifier yields the
  method table of exactly the structure type \<^verbatim>\<open>sai.h\<close> documents for it; only the identifiers
  \<^verbatim>\<open>UNSPECIFIED\<close>, \<^verbatim>\<open>TAM\<close>, \<^verbatim>\<open>SEGMENTROUTE\<close> and \<^verbatim>\<open>DTEL\<close> are not supported and identifiers from
  \<^verbatim>\<open>SAI_API_MAX\<close> on are refused. The caller's services are kept, messages below the level
  \<^verbatim>\<open>ERROR\<close> are suppressed in every module, and after \<^verbatim>\<open>sai_api_uninitialize\<close> every query reports
  \<^verbatim>\<open>UNINITIALIZED\<close>.
\<close>

theorem api_query_documented:
  assumes "sai_api_initialize L flags sv ms = (SAI_STATUS_SUCCESS, m, s)"
  shows "(\<forall>api. sai_api_query m api True =
      (if SAI_API_MAX \<le> api then (SAI_STATUS_INVALID_PARAMETER, None)
       else if api \<in> {SAI_API_UNSPECIFIED, SAI_API_TAM, SAI_API_SEGMENTROUTE, SAI_API_DTEL}
       then (SAI_STATUS_NOT_SUPPORTED, None)
       else (SAI_STATUS_SUCCESS, Some (api_documented ! api)))) \<and>
    (Some (snd (ctc_sai_get_services_fn m)) = sv) \<and>
    (\<forall>api level msg. api < SAI_API_MAX \<longrightarrow> 0 \<le> level \<longrightarrow> level < 2 ^ 32 \<longrightarrow>
           (ctc_sai_log m level api msg = None) = (level < 4)) \<and>
    (fst (sai_api_uninitialize m) = SAI_STATUS_SUCCESS) \<and>
    (\<forall>api b. sai_api_query (snd (sai_api_uninitialize m)) api b = (SAI_STATUS_UNINITIALIZED, None))"
  using api_query_documented_facts [OF assms] by blast

definition ref_services :: sai_service_method_table where
  "ref_services = \<lparr> profile_get_value = Some 1, profile_get_next_value = Some 2 \<rparr>"

theorem api_query_documented_witness:
  "sai_api_query (fst (snd (sai_api_initialize ref_lib 0 (Some ref_services) (zero_master, ref_state))))
     SAI_API_VIRTUAL_ROUTER True = (SAI_STATUS_SUCCESS, Some ''sai_virtual_router_api_t'')"
proof -
  have "fst (sai_api_initialize ref_lib 0 (Some ref_services) (zero_master, ref_state)) = SAI_STATUS_SUCCESS"
    by (simp add: sai_api_initialize_def Let_def case_prod_beta ref_services_def ref_lib_def ref_env_def
        del: upt_rec_numeral)
  then obtain m s where r: "sai_api_initialize ref_lib 0 (Some ref_services) (zero_master, ref_state) =
      (SAI_STATUS_SUCCESS, m, s)"
    by (metis prod.collapse)
  show ?thesis
    unfolding r using api_query_documented [OF r, THEN conjunct1, rule_format, of SAI_API_VIRTUAL_ROUTER]
    by (simp add: api_documented_def)
qed

lemma api_initialize_outcome_facts:
  assumes "sai_api_initialize L flags sv (m0, s0) = (st, m, s)"
  shows "st = SAI_STATUS_SUCCESS \<longleftrightarrow>
      (rc (fst (ext_call L MemMgrInit s0)) = 0 \<and>
       rc (fst (ext_call L DebugInit (snd (ext_call L MemMgrInit s0)))) = 0 \<and>
       rc (fst (ext_call L SalInit (snd (ext_call L DebugInit (snd (ext_call L MemMgrInit s0)))))) = 0 \<and>
       (\<exists>v. sv = Some v \<and> profile_get_value v \<noteq> None \<and> profile_get_next_value v \<noteq> None) \<and> flags = 0)"
    and "st \<noteq> SAI_STATUS_SUCCESS \<Longrightarrow>
      (\<forall>api b. sai_api_query m api b = (SAI_STATUS_UNINITIALIZED, None)) \<and>
      (\<forall>api lv. sai_log_set L api lv (m, s) = (SAI_STATUS_UNINITIALIZED, m, s)) \<and>
      sai_api_uninitialize m = (SAI_STATUS_UNINITIALIZED, m)"
proof -
  show "st = SAI_STATUS_SUCCESS \<longleftrightarrow>
      (rc (fst (ext_call L MemMgrInit s0)) = 0 \<and>
       rc (fst (ext_call L DebugInit (snd (ext_call L MemMgrInit s0)))) = 0 \<and>
       rc (fst (ext_call L SalInit (snd (ext_call L DebugInit (snd (ext_call L MemMgrInit s0)))))) = 0 \<and>
       (\<exists>v. sv = Some v \<and> profile_get_value v \<noteq> None \<and> profile_get_next_value v \<noteq> None) \<and> flags = 0)"
    using assms unfolding sai_api_initialize_def Let_def case_prod_beta
    by (auto split: if_splits option.splits simp del: upt_rec_numeral ext_call_frame)
  assume "st \<noteq> SAI_STATUS_SUCCESS"
  with initialize_failure [OF assms] show "(\<forall>api b. sai_api_query m api b = (SAI_STATUS_UNINITIALIZED, None)) \<and>
      (\<forall>api lv. sai_log_set L api lv (m, s) = (SAI_STATUS_UNINITIALIZED, m, s)) \<and>
      sai_api_uninitialize m = (SAI_STATUS_UNINITIALIZED, m)"
    by (simp add: sai_api_query_def sai_log_set_def sai_api_uninitialize_def CTC_SAI_API_INIT_CHECK_def)
qed

text \<open>
  The initialisation succeeds exactly when the three SDK initialisers answer zero, the
  caller passes a service table with both functions and the flags are zero. When it fails, the
  adapter is left uninitialised: queries, log level changes and the uninitialisation all report
  \<^verbatim>\<open>UNINITIALIZED\<close> and do nothing.
\<close>

theorem api_initialize_outcome:
  assumes "sai_api_initialize L flags sv (m0, s0) = (st, m, s)"
  shows "(st = SAI_STATUS_SUCCESS \<longleftrightarrow>
      (rc (fst (ext_call L MemMgrInit s0)) = 0 \<and>
       rc (fst (ext_call L DebugInit (snd (ext_call L MemMgrInit s0)))) = 0 \<and>
       rc (fst (ext_call L SalInit (snd (ext_call L DebugInit (snd (ext_call L MemMgrInit s0)))))) = 0 \<and>
       (\<exists>v. sv = Some v \<and> profile_get_value v \<noteq> None \<and> profile_get_next_value v \<noteq> None) \<and> flags = 0)) \<and>
    (st \<noteq> SAI_STATUS_SUCCESS \<longrightarrow>
      (\<forall>api b. sai_api_query m api b = (SAI_STATUS_UNINITIALIZED, None)) \<and>
      (\<forall>api lv. sai_log_set L api lv (m, s) = (SAI_STATUS_UNINITIALIZED, m, s)) \<and>
      sai_api_uninitialize m = (SAI_STATUS_UNINITIALIZED, m))"
  using api_initialize_outcome_facts [OF assms] by blast

theorem api_initialize_outcome_witness:
  "sai_api_query (fst (snd (sai_api_initialize ref_lib 1 (Some ref_services) (zero_master, ref_state))))
     SAI_API_PORT True = (SAI_STATUS_UNINITIALIZED, None)"
proof -
  obtain st m s where r: "sai_api_initialize ref_lib 1 (Some ref_services) (zero_master, ref_state) = (st, m, s)"
    by (metis prod.collapse)
  show ?thesis
    unfolding r using api_initialize_outcome [OF r] by simp
qed

section \<open>The dump file\<close>

lemma unat_u16_add: "unat (n :: u16) + k < 65536 \<Longrightarrow> unat (n + of_nat k) = unat n + k"
  by (subst unat_add_lem [THEN iffD1]) (simp_all add: unat_of_nat take_bit_nat_eq_self)

lemma line_print_state:
  "g_sai_db (snd (line_print txt ls)) = g_sai_db (snd ls)" "trace (snd (line_print txt ls)) = trace (snd ls)"
  "unat (fst ls) + length txt < 65536 \<Longrightarrow> unat (fst (line_print txt ls)) = unat (fst ls) + length txt"
  "fault (snd (line_print txt ls)) \<longleftrightarrow> fault (snd ls) \<or> CTC_SAI_DUMP_LINE_LEN < unat (fst ls) + length txt"
  by (simp_all add: line_print_def case_prod_beta unat_u16_add)

lemma dump_modules_frame [simp]:
  "g_sai_db (dump_modules L bmp l s) = g_sai_db s" "fault (dump_modules L bmp l s) = fault s"
  "lock_depth (trace (dump_modules L bmp l s)) = lock_depth (trace s)"
  "opf_used (trace (dump_modules L bmp l s)) = opf_used (trace s)"
proof -
  let ?f = "\<lambda>(api, f) s. if CTC_BMP_ISSET bmp api
      then (case f of None \<Rightarrow> s | Some g \<Rightarrow> snd (ext_call L (ModuleDump l g) s)) else s"
  have "g_sai_db (fold ?f xs s) = g_sai_db s \<and> fault (fold ?f xs s) = fault s \<and>
      lock_depth (trace (fold ?f xs s)) = lock_depth (trace s) \<and>
      opf_used (trace (fold ?f xs s)) = opf_used (trace s)" for xs
    by (induction xs arbitrary: s) (auto simp: fun_eq_iff split: option.splits if_splits)
  then show "g_sai_db (dump_modules L bmp l s) = g_sai_db s" "fault (dump_modules L bmp l s) = fault s"
    "lock_depth (trace (dump_modules L bmp l s)) = lock_depth (trace s)"
    "opf_used (trace (dump_modules L bmp l s)) = opf_used (trace s)"
    unfolding dump_modules_def by simp_all
qed

text \<open>The length of the line a chip prints.\<close>

definition dump_line_len :: "nat \<Rightarrow> nat" where
  "dump_line_len l = 119 + length (dec_string l)"

lemma dump_chip_step:
  assumes "l < CTC_SAI_MAX_CHIP_NUM" "g_sai_db (snd ls) l \<noteq> None"
    "unat (fst ls) + dump_line_len (unat l) < 65536"
  shows "unat (fst (dump_chip L bmp l ls)) = unat (fst ls) + dump_line_len (unat l)"
    "g_sai_db (snd (dump_chip L bmp l ls)) = g_sai_db (snd ls)"
    "lock_depth (trace (snd (dump_chip L bmp l ls))) = lock_depth (trace (snd ls))"
    "fault (snd (dump_chip L bmp l ls)) \<longleftrightarrow>
       fault (snd ls) \<or> CTC_SAI_DUMP_LINE_LEN < unat (fst ls) + dump_line_len (unat l)"
  using assms
  by (auto simp: dump_chip_def Let_def case_prod_beta line_print_state dump_prefix_def dump_suffix_def
      dump_line_len_def fun_eq_iff ctc_sai_db_lock_def ctc_sai_db_unlock_def inited_def not_le [symmetric])

lemma dump_chip_skip: "g_sai_db (snd ls) l = None \<Longrightarrow> dump_chip L bmp l ls = ls"
  by (simp add: dump_chip_def)

lemma dump_fold:
  fixes L :: "('o, 'e, 'v) ctc_lib" and bmp :: "u32 list"
  assumes "\<forall>x \<in> set xs. x < 32" "unat (fst ls) + 121 * length xs < 65536"
  defines "r \<equiv> fold (\<lambda>l. dump_chip L bmp (of_nat l)) xs ls"
    and "cs \<equiv> filter (\<lambda>l. g_sai_db (snd ls) (of_nat l) \<noteq> None) xs"
  shows "g_sai_db (snd r) = g_sai_db (snd ls) \<and>
    lock_depth (trace (snd r)) = lock_depth (trace (snd ls)) \<and>
    (fault (snd r) \<longleftrightarrow> fault (snd ls) \<or>
       (cs \<noteq> [] \<and> CTC_SAI_DUMP_LINE_LEN < unat (fst ls) + sum_list (map dump_line_len cs)))"
  using assms(1,2) unfolding r_def cs_def
proof (induction xs arbitrary: ls)
  case (Cons x xs)
  have x: "unat (of_nat x :: u8) = x" "(of_nat x :: u8) < CTC_SAI_MAX_CHIP_NUM"
    using Cons.prems by (simp_all add: unat_of_nat take_bit_nat_eq_self CTC_SAI_MAX_CHIP_NUM_def word_less_nat_alt)
  have len: "dump_line_len x \<le> 121" "0 < dump_line_len x"
    using Cons.prems length_dec_string [of x] by (auto simp: dump_line_len_def)
  show ?case
  proof (cases "g_sai_db (snd ls) (of_nat x)")
    case None
    then show ?thesis using Cons.IH [of ls] Cons.prems by (simp add: dump_chip_skip)
  next
    case (Some db)
    let ?l' = "dump_chip L bmp (of_nat x) ls"
    note step = dump_chip_step [of "of_nat x" ls L bmp]
    have 1: "unat (fst ?l') = unat (fst ls) + dump_line_len x" "g_sai_db (snd ?l') = g_sai_db (snd ls)"
      "lock_depth (trace (snd ?l')) = lock_depth (trace (snd ls))"
      "fault (snd ?l') \<longleftrightarrow> fault (snd ls) \<or> CTC_SAI_DUMP_LINE_LEN < unat (fst ls) + dump_line_len x"
      using step Some Cons.prems len by (simp_all add: x)
    have 2: "\<forall>x \<in> set xs. x < 32" "unat (fst ?l') + 121 * length xs < 65536"
      using 1(1) len Cons.prems by auto
    show ?thesis
      using Cons.IH [OF 2] Some 1 by (cases "filter (\<lambda>l. g_sai_db (snd ls) (of_nat l) \<noteq> None) xs") auto
  qed
qed simp

text \<open>The chips that have a database.\<close>

definition dump_chips :: "('o, 'e, 'v) sai_state \<Rightarrow> nat list" where
  "dump_chips s = filter (\<lambda>l. g_sai_db s (of_nat l) \<noteq> None) [0..<32]"

lemma dump_line_fits:
  "(\<forall>l \<in> set cs. l < 32) \<Longrightarrow>
     (cs \<noteq> [] \<and> CTC_SAI_DUMP_LINE_LEN < sum_list (map dump_line_len cs)) \<longleftrightarrow> 2 \<le> length cs \<or> (\<exists>l \<in> set cs. 10 \<le> l)"
  by (cases cs; cases "tl cs")
     (auto simp: CTC_SAI_DUMP_LINE_LEN_def dump_line_len_def length_dec_string)

lemma dump_line_buffer_facts:
  fixes L :: "('o, 'e, 'v) ctc_lib"
  assumes "sai_dbg_generate_dump L name s = (st, s')"
  shows "g_sai_db s' = g_sai_db s" and "lock_depth (trace s') = lock_depth (trace s)"
    and "st = SAI_STATUS_SUCCESS \<longleftrightarrow> out_val 0 (fst (ext_call L (FileOpen name) s)) \<noteq> 0"
    and "st = SAI_STATUS_SUCCESS \<Longrightarrow>
      fault s' \<longleftrightarrow> fault s \<or> 2 \<le> length (dump_chips s) \<or> (\<exists>l \<in> set (dump_chips s). 10 \<le> l)"
proof -
  let ?b = "memset_ones (4 * (SAI_API_MAX - 1) div 32 + 1) ((SAI_API_MAX - 1) div 32 + 1)"
  let ?s1 = "snd (ext_call L (FileOpen name) s)"
  let ?r = "fold (\<lambda>l. dump_chip L ?b (of_nat l)) [0..<32] (0, ?s1)"
  have len: "unat CTC_SAI_MAX_CHIP_NUM = 32" by (simp add: CTC_SAI_MAX_CHIP_NUM_def)
  have eq: "sai_dbg_generate_dump L name s =
      (if out_val 0 (fst (ext_call L (FileOpen name) s)) = 0 then (SAI_STATUS_FAILURE, ?s1)
       else (SAI_STATUS_SUCCESS, snd (ext_call L FileClose (snd ?r))))"
    by (simp add: sai_dbg_generate_dump_def len Let_def case_prod_beta del: upt_rec_numeral)
  have fold: "g_sai_db (snd ?r) = g_sai_db s" "lock_depth (trace (snd ?r)) = lock_depth (trace s)"
    "fault (snd ?r) \<longleftrightarrow> fault s \<or> 2 \<le> length (dump_chips s) \<or> (\<exists>l \<in> set (dump_chips s). 10 \<le> l)"
    using dump_fold [of "[0..<32]" "(0, ?s1)" L ?b] dump_line_fits [of "dump_chips s"]
    by (auto simp: dump_chips_def fun_eq_iff simp del: upt_rec_numeral)
  show "g_sai_db s' = g_sai_db s" "lock_depth (trace s') = lock_depth (trace s)"
    using assms fold(1,2) unfolding eq by (auto split: if_splits simp: fun_eq_iff)
  show "st = SAI_STATUS_SUCCESS \<longleftrightarrow> out_val 0 (fst (ext_call L (FileOpen name) s)) \<noteq> 0"
    using assms unfolding eq by (auto split: if_splits)
  show "fault s' \<longleftrightarrow> fault s \<or> 2 \<le> length (dump_chips s) \<or> (\<exists>l \<in> set (dump_chips s). 10 \<le> l)"
    if "st = SAI_STATUS_SUCCESS"
    using assms that fold(3) unfolding eq by (auto split: if_splits)
qed

text \<open>
  Generating a dump fails only if the file cannot be opened; it leaves every table as
  it is and releases every lock it takes. The line buffer is overrun as soon as two chips have a
  database, because its offset is not reset from chip to chip, and also for a single chip with a
  number of two digits; with one chip numbered below ten it fits exactly.
\<close>

theorem dump_line_buffer:
  fixes L :: "('o, 'e, 'v) ctc_lib"
  assumes "sai_dbg_generate_dump L name s = (st, s')"
  shows "(g_sai_db s' = g_sai_db s) \<and>
    (lock_depth (trace s') = lock_depth (trace s)) \<and>
    (st = SAI_STATUS_SUCCESS \<longleftrightarrow> out_val 0 (fst (ext_call L (FileOpen name) s)) \<noteq> 0) \<and>
    (st = SAI_STATUS_SUCCESS \<longrightarrow>
      fault s' \<longleftrightarrow> fault s \<or> 2 \<le> length (dump_chips s) \<or> (\<exists>l \<in> set (dump_chips s). 10 \<le> l))"
  using dump_line_buffer_facts [OF assms] by blast

theorem dump_line_buffer_witness:
  "fault (snd (sai_dbg_generate_dump ref_lib ''dump'' ref_state)) = fault ref_state"
proof -
  obtain st s' where r: "sai_dbg_generate_dump ref_lib ''dump'' ref_state = (st, s')"
    by (cases "sai_dbg_generate_dump ref_lib ''dump'' ref_state")
  have "out_val 0 (env ref_lib (trace ref_state) (FileOpen ''dump'')) = 1"
    by (simp add: ref_lib_def ref_env_def out_val_def)
  moreover have "dump_chips ref_state = [0]" by code_simp
  ultimately show ?thesis
    using dump_line_buffer [OF r] r by simp
qed

section \<open>Formatting\<close>

lemma hex_digit_inj:
  assumes "a < 16" "b < 16" "hex_digit a = hex_digit b"
  shows "a = b"
proof -
  have *: "unat a < 16" "unat b < 16" using assms by (simp_all add: word_less_nat_alt)
  have "(if a < 10 then 48 + unat a else 87 + unat a) = (if b < 10 then 48 + unat b else 87 + unat b)"
    using arg_cong [OF assms(3), of "of_char :: char \<Rightarrow> nat"] *
    by (auto simp: hex_digit_def of_char_of split: if_splits)
  then show ?thesis
    using * by (auto simp: word_less_nat_alt word_unat_eq_iff split: if_splits)
qed

lemma hex_byte_inj: "hex_byte a = hex_byte b \<longleftrightarrow> a = b"
proof
  assume "hex_byte a = hex_byte b"
  then have h: "hex_digit (drop_bit 4 a) = hex_digit (drop_bit 4 b)"
    "hex_digit (take_bit 4 a) = hex_digit (take_bit 4 b)"
    by (simp_all add: hex_byte_def)
  have less: "drop_bit 4 x < 16" "take_bit 4 x < 16" for x :: u8
    using unat_u8_less [of x]
    by (simp_all add: word_less_nat_alt drop_bit_eq_div take_bit_eq_mod unat_div unat_mod
        less_mult_imp_div_less)
  have "push_bit 4 (drop_bit 4 a) + take_bit 4 a = push_bit 4 (drop_bit 4 b) + take_bit 4 b"
    using hex_digit_inj [OF less(1) less(1) h(1)] hex_digit_inj [OF less(2) less(2) h(2)] by simp
  then show "a = b" by (simp add: bits_ident)
qed simp

lemma mac_bytes_inj:
  assumes "\<forall>i < 6. mac_byte i a = mac_byte i b"
  shows "a = b"
proof (rule bit_word_eqI)
  fix n assume n: "n < LENGTH(48)"
  have "bit (mac_byte (n div 8) a) (n mod 8) = bit (mac_byte (n div 8) b) (n mod 8)"
    using assms n by simp
  then show "bit a n = bit b n"
    by (simp add: mac_byte_def bit_simps)
qed

lemma mac_str_injective_facts:
  "length (ctc_sai_get_mac_str a) \<le> 14" "ctc_sai_get_mac_str a = ctc_sai_get_mac_str b \<longleftrightarrow> a = b"
proof -
  have len: "length (hex_byte x) = 2" for x by (simp add: hex_byte_def)
  show "length (ctc_sai_get_mac_str a) \<le> 14" by (simp add: ctc_sai_get_mac_str_def len)
  have "a = b" if "ctc_sai_get_mac_str a = ctc_sai_get_mac_str b" "a \<noteq> 0" "b \<noteq> 0"
  proof (rule mac_bytes_inj)
    have "mac_byte 0 a = mac_byte 0 b \<and> mac_byte 1 a = mac_byte 1 b \<and> mac_byte 2 a = mac_byte 2 b \<and>
        mac_byte 3 a = mac_byte 3 b \<and> mac_byte 4 a = mac_byte 4 b \<and> mac_byte 5 a = mac_byte 5 b"
      using that by (simp add: ctc_sai_get_mac_str_def append_eq_append_conv len hex_byte_inj)
    then show "\<forall>i < 6. mac_byte i a = mac_byte i b"
      by (simp add: numeral_eq_Suc less_Suc_eq)
  qed
  moreover have "ctc_sai_get_mac_str x \<noteq> ctc_sai_get_mac_str 0" if "x \<noteq> 0" for x
    using that len by (auto simp: ctc_sai_get_mac_str_def dest!: arg_cong [where f = length])
  ultimately show "ctc_sai_get_mac_str a = ctc_sai_get_mac_str b \<longleftrightarrow> a = b" by metis
qed

text \<open>
  The text of a hardware address has at most 14 characters, so that it fits the
  20-byte buffers of its callers, and different addresses have different texts.
\<close>

theorem mac_str_injective:
  "(length (ctc_sai_get_mac_str a) \<le> 14) \<and>
    (ctc_sai_get_mac_str a = ctc_sai_get_mac_str b \<longleftrightarrow> a = b)"
  using mac_str_injective_facts by blast

end
