(* ===== verification/SAI_Query.thy ===== *)
theory SAI_Query
  imports SAI_Api
begin

text \<open>
  The object queries of \<^verbatim>\<open>centec/src/ctc_sai.c\<close>: counting and listing the objects of a type, reading
  one attribute of any object through the method table of its module, reading all attributes of
  many objects, and the availability query; and the two functions of \<^verbatim>\<open>centec/src/ctc_sai_fdb.c\<close> the
  listing of forwarding entries uses.

  The method a table holds is the parameter \<open>G\<close>, from the structure type of the table and the
  member name to the function behind it. A call through a null table, or through a table of another
  structure type than the cast says, is a fault.
\<close>

section \<open>Keys\<close>

record sai_fdb_entry =
  fdb_switch_id :: sai_object_id
  fdb_mac_address :: sai_mac
  fdb_bv_id :: sai_object_id

text \<open>The union \<^verbatim>\<open>sai_object_key_t\<close>, by the member last written.\<close>

datatype sai_object_key = KeyOid sai_object_id | KeyEntry sai_entry | KeyFdb sai_fdb_entry

text \<open>
  A store to element \<open>i\<close> of a caller's array; an index outside it is a fault.
\<close>

definition put_key ::
    "u32 \<Rightarrow> sai_object_key \<Rightarrow> sai_object_key list \<times> ('o, 'e, 'v) sai_state \<Rightarrow>
     sai_object_key list \<times> ('o, 'e, 'v) sai_state" where
  "put_key i k x =
     (if unat i < length (fst x) then ((fst x)[unat i := k], snd x) else (fst x, (snd x)\<lparr>fault := True\<rparr>))"

section \<open>Traversal callbacks\<close>

text \<open>
  The callbacks count and store; \<open>view\<close> reads the bytes a slot holds as an entry of the table, of
  which the key conversion keeps the fields it does not write.
\<close>

definition object_traversal_fn ::
    "sai_object_id \<times> obj_data option \<Rightarrow> ('o, 'e, 'v) sai_state \<times> u32 \<times> sai_object_key list \<Rightarrow>
     int \<times> ('o, 'e, 'v) sai_state \<times> u32 \<times> sai_object_key list" where
  "object_traversal_fn b x =
     (let (s, cnt, ks) = x; (ks, s) = put_key cnt (KeyOid (fst b)) (ks, s)
      in (SAI_STATUS_SUCCESS, s, cnt + 1, ks))"

definition entry_traversal_fn ::
    "('o, 'e, 'v) ctc_lib \<Rightarrow> (sai_object_key \<Rightarrow> sai_entry) \<Rightarrow> u8 \<Rightarrow> ent_key \<times> obj_data option \<Rightarrow>
     ('o, 'e, 'v) sai_state \<times> u32 \<times> sai_object_key list \<Rightarrow>
     int \<times> ('o, 'e, 'v) sai_state \<times> u32 \<times> sai_object_key list" where
  "entry_traversal_fn L view l b x =
     (let (s, cnt, ks) = x;
          ((st, e), s) = ctc_sai_db_entry_unmapping_key L l (snd (fst b))
             (if unat cnt < length ks then view (ks ! unat cnt) else view (KeyOid 0)) s;
          (ks, s) = put_key cnt (KeyEntry e) (ks, s)
      in (SAI_STATUS_SUCCESS, s, cnt + 1, ks))"

section \<open>Forwarding entries\<close>

definition ctc_sai_fdb_get_fdb_count ::
    "('o, 'e, 'v) ctc_lib \<Rightarrow> u8 \<Rightarrow> ('o, 'e, 'v) sai_state \<Rightarrow> u32 \<times> ('o, 'e, 'v) sai_state" where
  "ctc_sai_fdb_get_fdb_count L l s =
     (let (r, s) = ext_call L (L2GetFdbCount l) s in (ucast (out_val 0 r), s))"

text \<open>
  The answer to \<^verbatim>\<open>ctcs_l2_get_fdb_entry\<close>: whether the table ends, the next index, the number of
  entries, then address and forwarding identifier of each. The buffer holds 100 entries.
\<close>

definition fdb_dump_entry ::
    "('o, 'e, 'v) ctc_lib \<Rightarrow> u8 \<Rightarrow> sai_object_id \<Rightarrow> ext_ret \<Rightarrow> nat \<Rightarrow>
     u32 \<times> sai_object_key list \<times> ('o, 'e, 'v) sai_state \<Rightarrow> u32 \<times> sai_object_key list \<times> ('o, 'e, 'v) sai_state" where
  "fdb_dump_entry L l sw r i x =
     (let (cnt, ks, s) = x;
          s = (if 100 \<le> i then s\<lparr>fault := True\<rparr> else s);
          mac = ucast (out_val (3 + 2 * i) r) :: sai_mac;
          fid = ucast (out_val (4 + 2 * i) r) :: u16;
          bv = ctc_sai_create_object_id SAI_OBJECT_TYPE_VLAN l 0 0 (ucast fid);
          bv = (if ctc_sai_db_get_object_property L l bv s = None
                then ctc_sai_create_object_id SAI_OBJECT_TYPE_BRIDGE l 0 0 (ucast fid) else bv);
          (ks, s) = put_key cnt (KeyFdb \<lparr> fdb_switch_id = sw, fdb_mac_address = mac, fdb_bv_id = bv \<rparr>) (ks, s)
      in (cnt + 1, ks, s))"

text \<open>
  The loop of \<^verbatim>\<open>ctc_sai_fdb_dump_fdb_entrys\<close>; \<open>None\<close> is a call that does not return. Its inner loop
  counts with an 8-bit index and never ends for 256 entries or more.
\<close>

partial_function (option) fdb_dump_loop ::
    "('o, 'e, 'v) ctc_lib \<Rightarrow> u8 \<Rightarrow> sai_object_id \<Rightarrow> u32 \<Rightarrow> u32 \<Rightarrow> sai_object_key list \<Rightarrow> ('o, 'e, 'v) sai_state \<Rightarrow>
     (sai_status \<times> sai_object_key list \<times> ('o, 'e, 'v) sai_state) option" where
  "fdb_dump_loop L l sw start cnt ks s =
     (let (r, s) = ext_call L (L2GetFdbEntry l start) s;
          st = ctc_sai_mapping_error_ctc L (rc r); n = (ucast (out_val 2 r) :: u32) in
      if status_leaves st then Some (st, ks, s)
      else if 256 \<le> n then None
      else
        let (cnt, ks, s) = fold (fdb_dump_entry L l sw r) [0..<unat n] (cnt, ks, s) in
        if (ucast (out_val 0 r) :: u8) = 0 then fdb_dump_loop L l sw (ucast (out_val 1 r)) cnt ks s
        else Some (st, ks, s))"

definition ctc_sai_fdb_dump_fdb_entrys ::
    "('o, 'e, 'v) ctc_lib \<Rightarrow> u8 \<Rightarrow> u32 \<Rightarrow> sai_object_key list option \<Rightarrow> ('o, 'e, 'v) sai_state \<Rightarrow>
     (sai_status \<times> sai_object_key list option \<times> ('o, 'e, 'v) sai_state) option" where
  "ctc_sai_fdb_dump_fdb_entrys L l object_count kl s =
     (case kl of
        None \<Rightarrow> Some (SAI_STATUS_INVALID_PARAMETER, None, s)
      | Some ks \<Rightarrow>
          let (n, s) = ctc_sai_fdb_get_fdb_count L l s in
          if object_count < n then Some (SAI_STATUS_BUFFER_OVERFLOW, Some ks, s)
          else
            let (ok, s) = mem_malloc L s in
            if \<not> ok then Some (SAI_STATUS_NO_MEMORY, Some ks, s)
            else
              let (g, s) = ext_call L (GetGchipId l) s in
              map_option (\<lambda>(st, ks, s). (st, Some ks, s))
                (fdb_dump_loop L l (switch_oid l (ucast (out_val 0 g))) 0 0 ks s))"

section \<open>Counting and listing\<close>

definition entry_object_type :: "nat \<Rightarrow> bool" where
  "entry_object_type t \<longleftrightarrow>
     t = SAI_OBJECT_TYPE_NEIGHBOR_ENTRY \<or> t = SAI_OBJECT_TYPE_ROUTE_ENTRY \<or>
     t = SAI_OBJECT_TYPE_L2MC_ENTRY \<or> t = SAI_OBJECT_TYPE_IPMC_ENTRY \<or>
     t = SAI_OBJECT_TYPE_MCAST_FDB_ENTRY \<or> t = SAI_OBJECT_TYPE_INSEG_ENTRY"

text \<open>
  \<open>cnt\<close> is what the counter holds before the call, \<open>None\<close> for a null pointer. The status of the
  table operations is ignored.
\<close>

definition count_objects ::
    "('o, 'e, 'v) ctc_lib \<Rightarrow> u8 \<Rightarrow> nat \<Rightarrow> u32 \<Rightarrow> ('o, 'e, 'v) sai_state \<Rightarrow> u32 \<times> ('o, 'e, 'v) sai_state" where
  "count_objects L l t cnt s =
     (if t = SAI_OBJECT_TYPE_FDB_ENTRY then ctc_sai_fdb_get_fdb_count L l s
      else if entry_object_type t
      then (out_or cnt (snd (ctc_sai_db_entry_property_get_cnt L l
              (out_or 0 (snd (ctc_sai_db_get_db_entry_type t))) s)), s)
      else (out_or cnt (snd (ctc_sai_db_get_object_property_count L l t s)), s))"

definition sai_get_object_count ::
    "('o, 'e, 'v) ctc_lib \<Rightarrow> sai_object_id \<Rightarrow> nat \<Rightarrow> u32 option \<Rightarrow> ('o, 'e, 'v) sai_state \<Rightarrow>
     sai_status \<times> u32 option \<times> ('o, 'e, 'v) sai_state" where
  "sai_get_object_count L switch_id t cnt s =
     (case cnt of
        None \<Rightarrow> (SAI_STATUS_INVALID_PARAMETER, None, s)
      | Some c \<Rightarrow>
          if \<not> ctc_sai_is_object_type_valid t then (SAI_STATUS_INVALID_PARAMETER, cnt, s)
          else case ctc_sai_oid_get_lchip (inited s) switch_id of
            (st, None) \<Rightarrow> (st, cnt, s)
          | (st, Some l) \<Rightarrow>
              let s = snd (ctc_sai_db_lock L l s); (c, s) = count_objects L l t c s
              in (SAI_STATUS_SUCCESS, Some c, snd (ctc_sai_db_unlock L l s)))"

text \<open>\<^verbatim>\<open>*object_count\<close> is read only: the code never writes the number of objects back.\<close>

definition sai_get_object_key ::
    "('o, 'e, 'v) ctc_lib \<Rightarrow> (nat \<Rightarrow> sai_object_key \<Rightarrow> sai_entry) \<Rightarrow> sai_object_id \<Rightarrow> nat \<Rightarrow> u32 \<Rightarrow>
     sai_object_key list option \<Rightarrow> ('o, 'e, 'v) sai_state \<Rightarrow>
     (sai_status \<times> sai_object_key list option \<times> ('o, 'e, 'v) sai_state) option" where
  "sai_get_object_key L view switch_id t object_count kl s =
     (case kl of
        None \<Rightarrow> Some (SAI_STATUS_INVALID_PARAMETER, None, s)
      | Some ks \<Rightarrow>
          if \<not> ctc_sai_is_object_type_valid t then Some (SAI_STATUS_INVALID_PARAMETER, kl, s)
          else case ctc_sai_oid_get_lchip (inited s) switch_id of
            (st, None) \<Rightarrow> Some (st, kl, s)
          | (st, Some l) \<Rightarrow>
              let s = snd (ctc_sai_db_lock L l s); (cnt, s) = count_objects L l t 0 s in
              if object_count < cnt
              then Some (SAI_STATUS_BUFFER_OVERFLOW, kl, snd (ctc_sai_db_unlock L l s))
              else if t = SAI_OBJECT_TYPE_FDB_ENTRY
              then map_option (\<lambda>(st, kl, s). (SAI_STATUS_SUCCESS, kl, snd (ctc_sai_db_unlock L l s)))
                     (ctc_sai_fdb_dump_fdb_entrys L l object_count kl s)
              else
                let (st, s, n, ks) =
                  (if entry_object_type t
                   then let et = out_or 0 (snd (ctc_sai_db_get_db_entry_type t)) in
                        ctc_sai_db_entry_property_traverse L l et (entry_traversal_fn L (view et) l) (s, 0, ks)
                   else ctc_sai_db_traverse_object_property L l t object_traversal_fn (s, 0, ks))
                in Some (SAI_STATUS_SUCCESS, Some ks, snd (ctc_sai_db_unlock L l s)))"

section \<open>Reading one attribute of any object\<close>

text \<open>
  The switch of \<^verbatim>\<open>_ctc_sai_get_single_attribute\<close>, in two parts: object type, slot of the method
  tables, structure type of the cast, member that is called. \<^verbatim>\<open>FDB_FLUSH\<close> and every type without a
  row are not implemented.
\<close>

definition single_attr_table_1 :: "(nat \<times> nat \<times> string \<times> string) list" where
  "single_attr_table_1 =
     [(SAI_OBJECT_TYPE_FDB_ENTRY, SAI_API_FDB, ''sai_fdb_api_t'', ''get_fdb_entry_attribute''),
      (SAI_OBJECT_TYPE_NEIGHBOR_ENTRY, SAI_API_NEIGHBOR,
       ''sai_neighbor_api_t'', ''get_neighbor_entry_attribute''),
      (SAI_OBJECT_TYPE_ROUTE_ENTRY, SAI_API_ROUTE,
       ''sai_route_api_t'', ''get_route_entry_attribute''),
      (SAI_OBJECT_TYPE_L2MC_ENTRY, SAI_API_L2MC,
       ''sai_l2mc_api_t'', ''get_l2mc_entry_attribute''),
      (SAI_OBJECT_TYPE_IPMC_ENTRY, SAI_API_IPMC,
       ''sai_ipmc_api_t'', ''get_ipmc_entry_attribute''),
      (SAI_OBJECT_TYPE_MCAST_FDB_ENTRY, SAI_API_MCAST_FDB,
       ''sai_mcast_fdb_api_t'', ''get_mcast_fdb_entry_attribute''),
      (SAI_OBJECT_TYPE_INSEG_ENTRY, SAI_API_MPLS,
       ''sai_mpls_api_t'', ''get_inseg_entry_attribute''),
      (SAI_OBJECT_TYPE_NAT_ENTRY, SAI_API_NAT, ''sai_nat_api_t'', ''get_nat_entry_attribute''),
      (SAI_OBJECT_TYPE_PORT, SAI_API_PORT, ''sai_port_api_t'', ''get_port_attribute''),
      (SAI_OBJECT_TYPE_LAG, SAI_API_LAG, ''sai_lag_api_t'', ''get_lag_attribute''),
      (SAI_OBJECT_TYPE_VIRTUAL_ROUTER, SAI_API_VIRTUAL_ROUTER,
       ''sai_virtual_router_api_t'', ''get_virtual_router_attribute''),
      (SAI_OBJECT_TYPE_NEXT_HOP, SAI_API_NEXT_HOP,
       ''sai_next_hop_api_t'', ''get_next_hop_attribute''),
      (SAI_OBJECT_TYPE_NEXT_HOP_GROUP, SAI_API_NEXT_HOP_GROUP,
       ''sai_next_hop_group_api_t'', ''get_next_hop_group_attribute''),
      (SAI_OBJECT_TYPE_ROUTER_INTERFACE, SAI_API_ROUTER_INTERFACE,
       ''sai_router_interface_api_t'', ''get_router_interface_attribute''),
      (SAI_OBJECT_TYPE_ACL_TABLE, SAI_API_ACL, ''sai_acl_api_t'', ''get_acl_table_attribute''),
      (SAI_OBJECT_TYPE_ACL_ENTRY, SAI_API_ACL, ''sai_acl_api_t'', ''get_acl_entry_attribute''),
      (SAI_OBJECT_TYPE_ACL_COUNTER, SAI_API_ACL,
       ''sai_acl_api_t'', ''get_acl_counter_attribute''),
      (SAI_OBJECT_TYPE_ACL_RANGE, SAI_API_ACL, ''sai_acl_api_t'', ''get_acl_range_attribute''),
      (SAI_OBJECT_TYPE_ACL_TABLE_GROUP, SAI_API_ACL,
       ''sai_acl_api_t'', ''get_acl_table_group_attribute''),
      (SAI_OBJECT_TYPE_ACL_TABLE_GROUP_MEMBER, SAI_API_ACL,
       ''sai_acl_api_t'', ''get_acl_table_group_member_attribute''),
      (SAI_OBJECT_TYPE_HOSTIF, SAI_API_HOSTIF, ''sai_hostif_api_t'', ''get_hostif_attribute''),
      (SAI_OBJECT_TYPE_MIRROR_SESSION, SAI_API_MIRROR,
       ''sai_mirror_api_t'', ''get_mirror_session_attribute''),
      (SAI_OBJECT_TYPE_SAMPLEPACKET, SAI_API_SAMPLEPACKET,
       ''sai_samplepacket_api_t'', ''get_samplepacket_attribute''),
      (SAI_OBJECT_TYPE_STP, SAI_API_STP, ''sai_stp_api_t'', ''get_stp_attribute''),
      (SAI_OBJECT_TYPE_HOSTIF_TRAP_GROUP, SAI_API_HOSTIF,
       ''sai_hostif_api_t'', ''get_hostif_trap_group_attribute''),
      (SAI_OBJECT_TYPE_POLICER, SAI_API_POLICER,
       ''sai_policer_api_t'', ''get_policer_attribute''),
      (SAI_OBJECT_TYPE_WRED, SAI_API_WRED, ''sai_wred_api_t'', ''get_wred_attribute''),
      (SAI_OBJECT_TYPE_QOS_MAP, SAI_API_QOS_MAP,
       ''sai_qos_map_api_t'', ''get_qos_map_attribute''),
      (SAI_OBJECT_TYPE_QUEUE, SAI_API_QUEUE, ''sai_queue_api_t'', ''get_queue_attribute''),
      (SAI_OBJECT_TYPE_SCHEDULER, SAI_API_SCHEDULER,
       ''sai_scheduler_api_t'', ''get_scheduler_attribute''),
      (SAI_OBJECT_TYPE_SCHEDULER_GROUP, SAI_API_SCHEDULER_GROUP,
       ''sai_scheduler_group_api_t'', ''get_scheduler_group_attribute''),
      (SAI_OBJECT_TYPE_BUFFER_POOL, SAI_API_BUFFER,
       ''sai_buffer_api_t'', ''get_buffer_pool_attribute''),
      (SAI_OBJECT_TYPE_BUFFER_PROFILE, SAI_API_BUFFER,
       ''sai_buffer_api_t'', ''get_buffer_profile_attribute''),
      (SAI_OBJECT_TYPE_INGRESS_PRIORITY_GROUP, SAI_API_BUFFER,
       ''sai_buffer_api_t'', ''get_ingress_priority_group_attribute''),
      (SAI_OBJECT_TYPE_LAG_MEMBER, SAI_API_LAG, ''sai_lag_api_t'', ''get_lag_member_attribute''),
      (SAI_OBJECT_TYPE_HASH, SAI_API_HASH, ''sai_hash_api_t'', ''get_hash_attribute'')]"

definition single_attr_table_2 :: "(nat \<times> nat \<times> string \<times> string) list" where
  "single_attr_table_2 =
     [(SAI_OBJECT_TYPE_UDF, SAI_API_UDF, ''sai_udf_api_t'', ''get_udf_attribute''),
      (SAI_OBJECT_TYPE_UDF_MATCH, SAI_API_UDF, ''sai_udf_api_t'', ''get_udf_match_attribute''),
      (SAI_OBJECT_TYPE_UDF_GROUP, SAI_API_UDF, ''sai_udf_api_t'', ''get_udf_group_attribute''),
      (SAI_OBJECT_TYPE_SWITCH, SAI_API_SWITCH, ''sai_switch_api_t'', ''get_switch_attribute''),
      (SAI_OBJECT_TYPE_HOSTIF_TRAP, SAI_API_HOSTIF,
       ''sai_hostif_api_t'', ''get_hostif_trap_attribute''),
      (SAI_OBJECT_TYPE_HOSTIF_TABLE_ENTRY, SAI_API_HOSTIF,
       ''sai_hostif_api_t'', ''get_hostif_table_entry_attribute''),
      (SAI_OBJECT_TYPE_VLAN, SAI_API_VLAN, ''sai_vlan_api_t'', ''get_vlan_attribute''),
      (SAI_OBJECT_TYPE_VLAN_MEMBER, SAI_API_VLAN,
       ''sai_vlan_api_t'', ''get_vlan_member_attribute''),
      (SAI_OBJECT_TYPE_HOSTIF_PACKET, SAI_API_HOSTIF,
       ''sai_hostif_api_t'', ''get_hostif_attribute''),
      (SAI_OBJECT_TYPE_TUNNEL_MAP, SAI_API_TUNNEL,
       ''sai_tunnel_api_t'', ''get_tunnel_map_attribute''),
      (SAI_OBJECT_TYPE_TUNNEL, SAI_API_TUNNEL, ''sai_tunnel_api_t'', ''get_tunnel_attribute''),
      (SAI_OBJECT_TYPE_TUNNEL_TERM_TABLE_ENTRY, SAI_API_TUNNEL,
       ''sai_tunnel_api_t'', ''get_tunnel_term_table_entry_attribute''),
      (SAI_OBJECT_TYPE_NEXT_HOP_GROUP_MEMBER, SAI_API_NEXT_HOP_GROUP,
       ''sai_next_hop_group_api_t'', ''get_next_hop_group_member_attribute''),
      (SAI_OBJECT_TYPE_STP_PORT, SAI_API_STP, ''sai_stp_api_t'', ''get_stp_port_attribute''),
      (SAI_OBJECT_TYPE_RPF_GROUP, SAI_API_RPF_GROUP,
       ''sai_rpf_group_api_t'', ''get_rpf_group_attribute''),
      (SAI_OBJECT_TYPE_RPF_GROUP_MEMBER, SAI_API_RPF_GROUP,
       ''sai_rpf_group_api_t'', ''get_rpf_group_member_attribute''),
      (SAI_OBJECT_TYPE_L2MC_GROUP, SAI_API_L2MC,
       ''sai_l2mc_group_api_t'', ''get_l2mc_group_attribute''),
      (SAI_OBJECT_TYPE_L2MC_GROUP_MEMBER, SAI_API_L2MC,
       ''sai_l2mc_group_api_t'', ''get_l2mc_group_member_attribute''),
      (SAI_OBJECT_TYPE_IPMC_GROUP, SAI_API_IPMC,
       ''sai_ipmc_group_api_t'', ''get_ipmc_group_member_attribute''),
      (SAI_OBJECT_TYPE_IPMC_GROUP_MEMBER, SAI_API_IPMC,
       ''sai_ipmc_group_api_t'', ''get_ipmc_group_member_attribute''),
      (SAI_OBJECT_TYPE_HOSTIF_USER_DEFINED_TRAP, SAI_API_HOSTIF,
       ''sai_hostif_api_t'', ''get_hostif_user_defined_trap_attribute''),
      (SAI_OBJECT_TYPE_BRIDGE, SAI_API_BRIDGE, ''sai_bridge_api_t'', ''get_bridge_attribute''),
      (SAI_OBJECT_TYPE_BRIDGE_PORT, SAI_API_BRIDGE,
       ''sai_bridge_api_t'', ''get_bridge_port_attribute''),
      (SAI_OBJECT_TYPE_TUNNEL_MAP_ENTRY, SAI_API_TUNNEL,
       ''sai_tunnel_api_t'', ''get_tunnel_map_entry_attribute''),
      (SAI_OBJECT_TYPE_TAM, SAI_API_TAM, ''sai_tam_api_t'', ''get_tam_attribute''),
      (SAI_OBJECT_TYPE_SEGMENTROUTE_SIDLIST, SAI_API_SEGMENTROUTE,
       ''sai_segmentroute_api_t'', ''get_segmentroute_sidlist_attribute''),
      (SAI_OBJECT_TYPE_PORT_POOL, SAI_API_PORT, ''sai_port_api_t'', ''get_port_pool_attribute''),
      (SAI_OBJECT_TYPE_DTEL, SAI_API_DTEL, ''sai_dtel_api_t'', ''get_dtel_attribute''),
      (SAI_OBJECT_TYPE_DTEL_QUEUE_REPORT, SAI_API_DTEL,
       ''sai_dtel_api_t'', ''get_dtel_queue_report_attribute''),
      (SAI_OBJECT_TYPE_DTEL_INT_SESSION, SAI_API_DTEL,
       ''sai_dtel_api_t'', ''get_dtel_int_session_attribute''),
      (SAI_OBJECT_TYPE_DTEL_REPORT_SESSION, SAI_API_DTEL,
       ''sai_dtel_api_t'', ''get_dtel_report_session_attribute''),
      (SAI_OBJECT_TYPE_DTEL_EVENT, SAI_API_DTEL,
       ''sai_dtel_api_t'', ''get_dtel_event_attribute''),
      (SAI_OBJECT_TYPE_BFD_SESSION, SAI_API_BFD,
       ''sai_bfd_api_t'', ''get_bfd_session_attribute''),
      (SAI_OBJECT_TYPE_ISOLATION_GROUP, SAI_API_ISOLATION_GROUP,
       ''sai_isolation_group_api_t'', ''get_isolation_group_attribute''),
      (SAI_OBJECT_TYPE_ISOLATION_GROUP_MEMBER, SAI_API_ISOLATION_GROUP,
       ''sai_isolation_group_api_t'', ''get_isolation_group_member_attribute''),
      (SAI_OBJECT_TYPE_TAM_MATH_FUNC, SAI_API_TAM,
       ''sai_tam_api_t'', ''get_tam_math_func_attribute''),
      (SAI_OBJECT_TYPE_TAM_REPORT, SAI_API_TAM, ''sai_tam_api_t'', ''get_tam_report_attribute''),
      (SAI_OBJECT_TYPE_TAM_EVENT_THRESHOLD, SAI_API_TAM,
       ''sai_tam_api_t'', ''get_tam_event_threshold_attribute''),
      (SAI_OBJECT_TYPE_TAM_TEL_TYPE, SAI_API_TAM,
       ''sai_tam_api_t'', ''get_tam_tel_type_attribute''),
      (SAI_OBJECT_TYPE_TAM_TRANSPORT, SAI_API_TAM,
       ''sai_tam_api_t'', ''get_tam_transport_attribute''),
      (SAI_OBJECT_TYPE_TAM_TELEMETRY, SAI_API_TAM,
       ''sai_tam_api_t'', ''get_tam_telemetry_attribute''),
      (SAI_OBJECT_TYPE_TAM_COLLECTOR, SAI_API_TAM,
       ''sai_tam_api_t'', ''get_tam_collector_attribute''),
      (SAI_OBJECT_TYPE_TAM_EVENT_ACTION, SAI_API_TAM,
       ''sai_tam_api_t'', ''get_tam_event_action_attribute''),
      (SAI_OBJECT_TYPE_TAM_EVENT, SAI_API_TAM, ''sai_tam_api_t'', ''get_tam_event_attribute''),
      (SAI_OBJECT_TYPE_NAT_ZONE_COUNTER, SAI_API_NAT,
       ''sai_nat_api_t'', ''get_nat_zone_counter_attribute''),
      (SAI_OBJECT_TYPE_COUNTER, SAI_API_COUNTER,
       ''sai_counter_api_t'', ''get_counter_attribute'')]"

type_synonym ('o, 'e, 'v) getters =
  "string \<Rightarrow> string \<Rightarrow> sai_object_key \<Rightarrow> sai_attribute \<Rightarrow> ('o, 'e, 'v) sai_state \<Rightarrow>
   sai_status \<times> sai_attribute \<times> ('o, 'e, 'v) sai_state"

definition get_single_attribute ::
    "('o, 'e, 'v) getters \<Rightarrow> sai_api_master \<Rightarrow> nat \<Rightarrow> sai_object_key \<Rightarrow> sai_attribute \<Rightarrow> ('o, 'e, 'v) sai_state \<Rightarrow>
     sai_status \<times> sai_attribute \<times> ('o, 'e, 'v) sai_state" where
  "get_single_attribute G m t key a s =
     (case map_of (single_attr_table_1 @ single_attr_table_2) t of
        None \<Rightarrow> (SAI_STATUS_NOT_IMPLEMENTED, a, s)
      | Some (api, cast, member) \<Rightarrow>
          if module_api m api = Some cast then G cast member key a s
          else (SAI_STATUS_FAILURE, a, s\<lparr>fault := True\<rparr>))"

section \<open>Reading all attributes\<close>

text \<open>The table of \<^verbatim>\<open>sai_get_maximum_attribute_count\<close>: the end of the attributes of each object type.\<close>

definition attribute_counts :: "u32 list" where
  "attribute_counts =
     [0, 102, 8, 6, 14, 5, 19, 4439, 8239, 5, 2, 4, 3, 7, 23, 3, 3, 3, 11, 26, 2, 11, 7, 7, 7, 8,
      4, 4, 2, 5, 4, 3, 7, 161, 7, 5, 6, 6, 21, 3, 8, 2, 29, 6, 3, 6, 3, 2, 2, 2, 3, 2, 2, 2, 3,
      3, 3, 10, 16, 14, 4, 3, 3, 5, 10, 5, 6, 5, 3, 51, 2, 2, 1, 6, 6, 16, 5, 4, 7, 2, 5, 8, 14,
      25, 1, 5, 12, 0]"

definition sai_get_maximum_attribute_count :: "nat \<Rightarrow> u32 option \<Rightarrow> sai_status \<times> u32 option" where
  "sai_get_maximum_attribute_count t cnt =
     (if cnt = None then (SAI_STATUS_INVALID_PARAMETER, None)
      else if \<not> ctc_sai_is_object_type_valid t \<or> SAI_OBJECT_TYPE_ISOLATION_GROUP_MEMBER < t
      then (SAI_STATUS_INVALID_PARAMETER, cnt)
      else (SAI_STATUS_SUCCESS, Some (attribute_counts ! t)))"

text \<open>
  What the bulk read does for one object. \<^verbatim>\<open>attr\<close> is the address of element \<open>i\<close> of the array of
  pointers itself: attribute \<open>k\<close> is stored at byte \<open>8 * i + k * sz\<close> of that array, \<open>sz\<close> the size
  of an attribute structure, and not in the caller's attribute buffer. A store that does not end
  inside the array is a fault; \<open>bk_stored\<close> are the stores, newest first.
\<close>

record bulk_object =
  bk_count :: u32
  bk_actual :: u32
  bk_status :: sai_status
  bk_stored :: "(nat \<times> sai_attribute) list"

definition bulk_store ::
    "nat \<Rightarrow> nat \<Rightarrow> nat \<Rightarrow> sai_attribute \<Rightarrow> bulk_object \<times> ('o, 'e, 'v) sai_state \<Rightarrow> bulk_object \<times> ('o, 'e, 'v) sai_state" where
  "bulk_store sz n i a x =
     (let (b, s) = x; pos = 8 * i + unat (bk_actual b) * sz in
      (b\<lparr>bk_actual := bk_actual b + 1, bk_count := bk_actual b + 1, bk_stored := (pos, a) # bk_stored b\<rparr>,
       if 8 * n < pos + sz then s\<lparr>fault := True\<rparr> else s))"

fun bulk_attributes ::
    "('o, 'e, 'v) getters \<Rightarrow> sai_api_master \<Rightarrow> nat \<Rightarrow> nat \<Rightarrow> nat \<Rightarrow> nat \<Rightarrow> sai_object_key \<Rightarrow> nat list \<Rightarrow>
     bulk_object \<times> ('o, 'e, 'v) sai_state \<Rightarrow> bulk_object \<times> ('o, 'e, 'v) sai_state" where
  "bulk_attributes G m t sz n i key [] x = x"
| "bulk_attributes G m t sz n i key (j # js) x =
     (let (b, s) = x in
      if bk_count b < bk_actual b then (b\<lparr>bk_status := SAI_STATUS_BUFFER_OVERFLOW\<rparr>, s)
      else
        let (st, a, s) = get_single_attribute G m t key
              \<lparr> attr_id = of_nat j, attr_value = \<lparr> raw = 0, objs = [] \<rparr> \<rparr> s in
        if st = SAI_STATUS_SUCCESS \<or> st = SAI_STATUS_BUFFER_OVERFLOW
        then bulk_attributes G m t sz n i key js (bulk_store sz n i a (b, s))
        else if st = SAI_STATUS_NOT_SUPPORTED \<or>
          (SAI_STATUS_ATTR_NOT_SUPPORTED_0 \<le> st \<and> st < SAI_STATUS_ATTR_NOT_SUPPORTED_MAX)
        then bulk_attributes G m t sz n i key js (b, s)
        else (b\<lparr>bk_status := st\<rparr>, s))"

text \<open>The counts and statuses of the caller are the initial \<open>bk_count\<close> and \<open>bk_status\<close> of the objects.\<close>

fun bulk_objects ::
    "('o, 'e, 'v) getters \<Rightarrow> sai_api_master \<Rightarrow> nat \<Rightarrow> nat \<Rightarrow> nat \<Rightarrow> u32 \<Rightarrow> nat \<Rightarrow>
     (sai_object_key \<times> bulk_object) list \<Rightarrow> ('o, 'e, 'v) sai_state \<Rightarrow> bulk_object list \<times> ('o, 'e, 'v) sai_state" where
  "bulk_objects G m t sz n max_count i [] s = ([], s)"
| "bulk_objects G m t sz n max_count i ((key, b) # xs) s =
     (let (b, s) = bulk_attributes G m t sz n i key [0..<unat max_count] (b, s);
          (bs, s) = bulk_objects G m t sz n max_count (i + 1) xs s
      in (b # bs, s))"

definition sai_bulk_get_attribute ::
    "('o, 'e, 'v) getters \<Rightarrow> sai_api_master \<Rightarrow> nat \<Rightarrow> sai_object_id \<Rightarrow> nat \<Rightarrow>
     (sai_object_key \<times> u32 \<times> sai_status) list option \<Rightarrow> ('o, 'e, 'v) sai_state \<Rightarrow>
     sai_status \<times> bulk_object list \<times> ('o, 'e, 'v) sai_state" where
  "sai_bulk_get_attribute G m sz switch_id t xs s =
     (case xs of
        None \<Rightarrow> (SAI_STATUS_INVALID_PARAMETER, [], s)
      | Some xs \<Rightarrow>
          let bs = map (\<lambda>(k, c, st). (k, \<lparr> bk_count = c, bk_actual = 0, bk_status = st, bk_stored = [] \<rparr>)) xs in
          if \<not> ctc_sai_is_object_type_valid t then (SAI_STATUS_INVALID_PARAMETER, map snd bs, s)
          else case ctc_sai_oid_get_lchip (inited s) switch_id of
            (st, None) \<Rightarrow> (st, map snd bs, s)
          | (st, Some l) \<Rightarrow>
              (SAI_STATUS_SUCCESS, bulk_objects G m t sz (length bs)
                 (out_or 0 (snd (sai_get_maximum_attribute_count t (Some 0)))) 0 bs s))"

section \<open>Availability\<close>

text \<open>
  The comparison of one object with the caller's attributes; \<open>v\<close> is the uncleared local value, kept
  from call to call. A requested value that is equal makes the object count as not matching.
\<close>

fun availability_match ::
    "('o, 'e, 'v) getters \<Rightarrow> sai_api_master \<Rightarrow> nat \<Rightarrow> sai_object_key \<Rightarrow> sai_attribute list \<Rightarrow>
     sai_attribute_value \<times> ('o, 'e, 'v) sai_state \<Rightarrow> bool \<times> sai_attribute_value \<times> ('o, 'e, 'v) sai_state" where
  "availability_match G m t key [] x = (True, x)"
| "availability_match G m t key (q # qs) x =
     (let (st, a, s) = get_single_attribute G m t key \<lparr> attr_id = attr_id q, attr_value = fst x \<rparr> (snd x) in
      if st = SAI_STATUS_SUCCESS \<and> attr_value a \<noteq> attr_value q
      then availability_match G m t key qs (attr_value a, s)
      else (False, attr_value a, s))"

fun availability_loop ::
    "('o, 'e, 'v) getters \<Rightarrow> sai_api_master \<Rightarrow> nat \<Rightarrow> sai_attribute list \<Rightarrow> sai_object_key list \<Rightarrow>
     u64 \<times> sai_attribute_value \<times> ('o, 'e, 'v) sai_state \<Rightarrow> u64 \<times> sai_attribute_value \<times> ('o, 'e, 'v) sai_state" where
  "availability_loop G m t qs [] x = x"
| "availability_loop G m t qs (k # ks) x =
     (let (ok, v) = availability_match G m t k qs (snd x)
      in availability_loop G m t qs ks (if ok then fst x + 1 else fst x, v))"

text \<open>
  \<open>mem\<close> is what the allocated list holds before it is filled; when the allocation fails, reading an
  element is a fault. The counter is added to, not set.
\<close>

definition sai_object_type_get_availability ::
    "('o, 'e, 'v) ctc_lib \<Rightarrow> ('o, 'e, 'v) getters \<Rightarrow> sai_api_master \<Rightarrow> (nat \<Rightarrow> sai_object_key \<Rightarrow> sai_entry) \<Rightarrow>
     (nat \<Rightarrow> sai_object_key list) \<Rightarrow> sai_attribute_value \<Rightarrow> sai_object_id \<Rightarrow> nat \<Rightarrow> sai_attribute list option \<Rightarrow>
     u64 option \<Rightarrow> ('o, 'e, 'v) sai_state \<Rightarrow> (sai_status \<times> u64 option \<times> ('o, 'e, 'v) sai_state) option" where
  "sai_object_type_get_availability L G m view mem junk switch_id t attrs cnt s =
     (case (attrs, cnt) of
        (Some qs, Some c) \<Rightarrow>
          (if \<not> ctc_sai_is_object_type_valid t then Some (SAI_STATUS_INVALID_PARAMETER, cnt, s)
          else case ctc_sai_oid_get_lchip (inited s) switch_id of
            (st, None) \<Rightarrow> Some (st, cnt, s)
          | (st, Some l) \<Rightarrow>
              let (st, oc, s) = sai_get_object_count L switch_id t (Some 0) s;
                  n = out_or 0 oc;
                  (ok, s) = mem_malloc L s in
              case sai_get_object_key L view switch_id t n (if ok then Some (mem (unat n)) else None) s of
                None \<Rightarrow> None
              | Some (st, kl, s) \<Rightarrow>
                  (case kl of
                     None \<Rightarrow> Some (SAI_STATUS_SUCCESS, cnt, if n = 0 then s else s\<lparr>fault := True\<rparr>)
                   | Some ks \<Rightarrow>
                       let (c, v, s) = availability_loop G m t qs (take (unat n) ks) (c, junk, s)
                       in Some (SAI_STATUS_SUCCESS, Some c, s)))
      | _ \<Rightarrow> Some (SAI_STATUS_INVALID_PARAMETER, cnt, s))"

section \<open>Dispatch\<close>

text \<open>
  The object types whose row names a slot that holds no table, or a table of another structure type.
\<close>

definition misdirected_types :: "nat list" where
  "misdirected_types =
     [SAI_OBJECT_TYPE_L2MC_GROUP, SAI_OBJECT_TYPE_L2MC_GROUP_MEMBER, SAI_OBJECT_TYPE_IPMC_GROUP,
      SAI_OBJECT_TYPE_IPMC_GROUP_MEMBER, SAI_OBJECT_TYPE_TAM, SAI_OBJECT_TYPE_SEGMENTROUTE_SIDLIST,
      SAI_OBJECT_TYPE_DTEL, SAI_OBJECT_TYPE_DTEL_QUEUE_REPORT, SAI_OBJECT_TYPE_DTEL_INT_SESSION,
      SAI_OBJECT_TYPE_DTEL_REPORT_SESSION, SAI_OBJECT_TYPE_DTEL_EVENT, SAI_OBJECT_TYPE_TAM_MATH_FUNC,
      SAI_OBJECT_TYPE_TAM_REPORT, SAI_OBJECT_TYPE_TAM_EVENT_THRESHOLD, SAI_OBJECT_TYPE_TAM_TEL_TYPE,
      SAI_OBJECT_TYPE_TAM_TRANSPORT, SAI_OBJECT_TYPE_TAM_TELEMETRY, SAI_OBJECT_TYPE_TAM_COLLECTOR,
      SAI_OBJECT_TYPE_TAM_EVENT_ACTION, SAI_OBJECT_TYPE_TAM_EVENT]"

text \<open>The object types the switch has no row for.\<close>

definition unrouted_types :: "nat list" where
  "unrouted_types =
     [SAI_OBJECT_TYPE_NULL, SAI_OBJECT_TYPE_FDB_FLUSH, SAI_OBJECT_TYPE_TAM_INT, SAI_OBJECT_TYPE_DEBUG_COUNTER,
      SAI_OBJECT_TYPE_PORT_SERDES, SAI_OBJECT_TYPE_TWAMP, SAI_OBJECT_TYPE_NPM, SAI_OBJECT_TYPE_ES,
      SAI_OBJECT_TYPE_Y1731_MEG, SAI_OBJECT_TYPE_Y1731_SESSION, SAI_OBJECT_TYPE_Y1731_REMOTE_MEP,
      SAI_OBJECT_TYPE_PTP_DOMAIN, SAI_OBJECT_TYPE_SYNCE]"

text \<open>
  The headers of the interface: for each object type in the order of \<^verbatim>\<open>sai_object_type_t\<close>, the
  structure that declares the getter and the name of the type in it, so that the getter of \<^verbatim>\<open>VLAN_MEMBER\<close>
  is \<^verbatim>\<open>get_vlan_member_attribute\<close> of \<^verbatim>\<open>sai_vlan_api_t\<close>. The packets of a host interface have no getter
  of their own and are read as the interface; the empty rows have none at all.
\<close>

definition object_getters :: "(string \<times> string) list" where
  "object_getters =
     [('''', ''''), (''sai_port_api_t'', ''port''),
      (''sai_lag_api_t'', ''lag''), (''sai_virtual_router_api_t'', ''virtual_router''),
      (''sai_next_hop_api_t'', ''next_hop''), (''sai_next_hop_group_api_t'', ''next_hop_group''),
      (''sai_router_interface_api_t'', ''router_interface''), (''sai_acl_api_t'', ''acl_table''),
      (''sai_acl_api_t'', ''acl_entry''), (''sai_acl_api_t'', ''acl_counter''),
      (''sai_acl_api_t'', ''acl_range''), (''sai_acl_api_t'', ''acl_table_group''),
      (''sai_acl_api_t'', ''acl_table_group_member''), (''sai_hostif_api_t'', ''hostif''),
      (''sai_mirror_api_t'', ''mirror_session''), (''sai_samplepacket_api_t'', ''samplepacket''),
      (''sai_stp_api_t'', ''stp''), (''sai_hostif_api_t'', ''hostif_trap_group''),
      (''sai_policer_api_t'', ''policer''), (''sai_wred_api_t'', ''wred''),
      (''sai_qos_map_api_t'', ''qos_map''), (''sai_queue_api_t'', ''queue''),
      (''sai_scheduler_api_t'', ''scheduler''), (''sai_scheduler_group_api_t'', ''scheduler_group''),
      (''sai_buffer_api_t'', ''buffer_pool''), (''sai_buffer_api_t'', ''buffer_profile''),
      (''sai_buffer_api_t'', ''ingress_priority_group''), (''sai_lag_api_t'', ''lag_member''),
      (''sai_hash_api_t'', ''hash''), (''sai_udf_api_t'', ''udf''),
      (''sai_udf_api_t'', ''udf_match''), (''sai_udf_api_t'', ''udf_group''),
      (''sai_fdb_api_t'', ''fdb_entry''), (''sai_switch_api_t'', ''switch''),
      (''sai_hostif_api_t'', ''hostif_trap''), (''sai_hostif_api_t'', ''hostif_table_entry''),
      (''sai_neighbor_api_t'', ''neighbor_entry''), (''sai_route_api_t'', ''route_entry''),
      (''sai_vlan_api_t'', ''vlan''), (''sai_vlan_api_t'', ''vlan_member''),
      (''sai_hostif_api_t'', ''hostif''), (''sai_tunnel_api_t'', ''tunnel_map''),
      (''sai_tunnel_api_t'', ''tunnel''), (''sai_tunnel_api_t'', ''tunnel_term_table_entry''),
      ('''', ''''), (''sai_next_hop_group_api_t'', ''next_hop_group_member''),
      (''sai_stp_api_t'', ''stp_port''), (''sai_rpf_group_api_t'', ''rpf_group''),
      (''sai_rpf_group_api_t'', ''rpf_group_member''), (''sai_l2mc_group_api_t'', ''l2mc_group''),
      (''sai_l2mc_group_api_t'', ''l2mc_group_member''), (''sai_ipmc_group_api_t'', ''ipmc_group''),
      (''sai_ipmc_group_api_t'', ''ipmc_group_member''), (''sai_l2mc_api_t'', ''l2mc_entry''),
      (''sai_ipmc_api_t'', ''ipmc_entry''), (''sai_mcast_fdb_api_t'', ''mcast_fdb_entry''),
      (''sai_hostif_api_t'', ''hostif_user_defined_trap''), (''sai_bridge_api_t'', ''bridge''),
      (''sai_bridge_api_t'', ''bridge_port''), (''sai_tunnel_api_t'', ''tunnel_map_entry''),
      (''sai_tam_api_t'', ''tam''), (''sai_segmentroute_api_t'', ''segmentroute_sidlist''),
      (''sai_port_api_t'', ''port_pool''), (''sai_mpls_api_t'', ''inseg_entry''),
      (''sai_dtel_api_t'', ''dtel''), (''sai_dtel_api_t'', ''dtel_queue_report''),
      (''sai_dtel_api_t'', ''dtel_int_session''), (''sai_dtel_api_t'', ''dtel_report_session''),
      (''sai_dtel_api_t'', ''dtel_event''), (''sai_bfd_api_t'', ''bfd_session''),
      (''sai_isolation_group_api_t'', ''isolation_group''), (''sai_isolation_group_api_t'', ''isolation_group_member''),
      (''sai_tam_api_t'', ''tam_math_func''), (''sai_tam_api_t'', ''tam_report''),
      (''sai_tam_api_t'', ''tam_event_threshold''), (''sai_tam_api_t'', ''tam_tel_type''),
      (''sai_tam_api_t'', ''tam_transport''), (''sai_tam_api_t'', ''tam_telemetry''),
      (''sai_tam_api_t'', ''tam_collector''), (''sai_tam_api_t'', ''tam_event_action''),
      (''sai_tam_api_t'', ''tam_event''), (''sai_nat_api_t'', ''nat_zone_counter''),
      (''sai_nat_api_t'', ''nat_entry''), (''sai_tam_api_t'', ''tam_int''),
      (''sai_counter_api_t'', ''counter''), (''sai_debug_counter_api_t'', ''debug_counter''),
      (''sai_port_api_t'', ''port_serdes''), ('''', ''''),
      ('''', ''''), (''sai_es_api_t'', ''es''),
      (''sai_y1731_api_t'', ''y1731_meg''), (''sai_y1731_api_t'', ''y1731_session''),
      (''sai_y1731_api_t'', ''y1731_remote_mep''), (''sai_ptp_api_t'', ''ptp_domain''),
      (''sai_synce_api_t'', ''synce'')]"

definition documented_getter :: "nat \<Rightarrow> string \<times> string" where
  "documented_getter t =
     (fst (object_getters ! t), ''get_'' @ snd (object_getters ! t) @ ''_attribute'')"

lemma documented_rows:
  "list_all (\<lambda>(t, api, cast, member). t \<in> set misdirected_types \<or> documented_getter t = (cast, member)) single_attr_table_1"
  "list_all (\<lambda>(t, api, cast, member). t \<in> set misdirected_types \<or> documented_getter t = (cast, member)) single_attr_table_2"
  by code_simp+

lemma documented_row:
  assumes "(t, api, cast, member) \<in> set (single_attr_table_1 @ single_attr_table_2)" and "t \<notin> set misdirected_types"
  shows "documented_getter t = (cast, member)"
  using documented_rows assms unfolding list_all_iff set_append by fastforce

lemma dispatch_rows:
  "list_all (\<lambda>(t, api, cast, member). api < SAI_API_MAX \<and>
     (api \<notin> set [SAI_API_UNSPECIFIED, SAI_API_TAM, SAI_API_SEGMENTROUTE, SAI_API_DTEL] \<and>
      api_documented ! api = cast) = (t \<notin> set misdirected_types)) single_attr_table_1"
  "list_all (\<lambda>(t, api, cast, member). api < SAI_API_MAX \<and>
     (api \<notin> set [SAI_API_UNSPECIFIED, SAI_API_TAM, SAI_API_SEGMENTROUTE, SAI_API_DTEL] \<and>
      api_documented ! api = cast) = (t \<notin> set misdirected_types)) single_attr_table_2"
  by code_simp+

lemma dispatch_row:
  assumes "(t, api, cast, member) \<in> set (single_attr_table_1 @ single_attr_table_2)"
  shows "api < SAI_API_MAX"
    "(api \<notin> set [SAI_API_UNSPECIFIED, SAI_API_TAM, SAI_API_SEGMENTROUTE, SAI_API_DTEL] \<and>
      api_documented ! api = cast) = (t \<notin> set misdirected_types)"
proof -
  let ?P = "\<lambda>(t, api, cast, member :: string). api < SAI_API_MAX \<and>
     (api \<notin> set [SAI_API_UNSPECIFIED, SAI_API_TAM, SAI_API_SEGMENTROUTE, SAI_API_DTEL] \<and>
      api_documented ! api = cast) = (t \<notin> set misdirected_types)"
  have "list_all ?P (single_attr_table_1 @ single_attr_table_2)"
    unfolding list_all_append by (rule conjI [OF dispatch_rows])
  then have "?P (t, api, cast, member)" using assms unfolding list_all_iff by (rule bspec)
  then show "api < SAI_API_MAX"
    "(api \<notin> set [SAI_API_UNSPECIFIED, SAI_API_TAM, SAI_API_SEGMENTROUTE, SAI_API_DTEL] \<and>
      api_documented ! api = cast) = (t \<notin> set misdirected_types)"
    unfolding prod.case by (rule conjunct1, rule conjunct2)
qed

lemma dispatch_types:
  "sort (map fst (single_attr_table_1 @ single_attr_table_2) @ unrouted_types) = [0..<SAI_OBJECT_TYPE_MAX]"
  by code_simp

lemma dispatch_disjoint: "list_all (\<lambda>t. t \<notin> set misdirected_types) unrouted_types"
  by code_simp

lemma routed:
  assumes "m = ready_master v" and "t < SAI_OBJECT_TYPE_MAX"
  shows "t \<in> set misdirected_types \<Longrightarrow>
      get_single_attribute G m t key a s = (SAI_STATUS_FAILURE, a, s\<lparr>fault := True\<rparr>)"
    and "t \<in> set unrouted_types \<Longrightarrow>
      get_single_attribute G m t key a s = (SAI_STATUS_NOT_IMPLEMENTED, a, s)"
    and "t \<notin> set misdirected_types \<Longrightarrow> t \<notin> set unrouted_types \<Longrightarrow>
      get_single_attribute G m t key a s = G (fst (documented_getter t)) (snd (documented_getter t)) key a s"
proof -
  note m = assms(1)
  let ?T = "single_attr_table_1 @ single_attr_table_2"
  have slot: "module_api m api = (if api \<in> {SAI_API_UNSPECIFIED, SAI_API_TAM, SAI_API_SEGMENTROUTE, SAI_API_DTEL}
      then None else Some (api_documented ! api))" if "api < SAI_API_MAX" for api
    using that ready_tables by (simp add: m ready_master_def del: upt_rec_numeral)
  have row: "api < SAI_API_MAX \<and> (module_api m api = Some cast) = (t \<notin> set misdirected_types) \<and>
      (module_api m api = Some cast \<longrightarrow> cast = api_documented ! api)"
    if "map_of ?T t = Some (api, cast, member)" for api cast member
    using dispatch_row [OF map_of_SomeD [OF that]] slot [of api] by auto
  have all: "distinct (map fst ?T @ unrouted_types)" "set (map fst ?T @ unrouted_types) = {0..<SAI_OBJECT_TYPE_MAX}"
    using distinct_sort [of "\<lambda>x. x" "map fst ?T @ unrouted_types"] set_sort [of "\<lambda>x. x" "map fst ?T @ unrouted_types"]
    unfolding dispatch_types by (simp_all del: upt_rec_numeral map_append)
  have none: "map_of ?T t = None \<longleftrightarrow> t \<in> set unrouted_types"
    using all assms(2) unfolding map_of_eq_None_iff by (auto simp: set_eq_iff)
  show "get_single_attribute G m t key a s = (SAI_STATUS_FAILURE, a, s\<lparr>fault := True\<rparr>)"
    if "t \<in> set misdirected_types"
    using row none that dispatch_disjoint
    by (auto simp: get_single_attribute_def list_all_iff split: option.splits)
  show "get_single_attribute G m t key a s = (SAI_STATUS_NOT_IMPLEMENTED, a, s)" if "t \<in> set unrouted_types"
    using none that by (auto simp: get_single_attribute_def split: option.splits)
  show "get_single_attribute G m t key a s = G (fst (documented_getter t)) (snd (documented_getter t)) key a s"
    if no: "t \<notin> set misdirected_types" "t \<notin> set unrouted_types"
  proof -
    obtain api cast member where r: "map_of ?T t = Some (api, cast, member)"
      using none no by (cases "map_of ?T t") auto
    then show ?thesis
      using documented_row [OF map_of_SomeD [OF r] no(1)] row [OF r] no by (auto simp: get_single_attribute_def)
  qed
qed

lemma single_attr_dispatch_facts:
  assumes "sai_api_initialize L flags sv ms = (SAI_STATUS_SUCCESS, m, s0)" and "t < SAI_OBJECT_TYPE_MAX"
  shows "t \<in> set misdirected_types \<Longrightarrow>
      get_single_attribute G m t key a s = (SAI_STATUS_FAILURE, a, s\<lparr>fault := True\<rparr>)"
    and "t \<in> set unrouted_types \<Longrightarrow>
      get_single_attribute G m t key a s = (SAI_STATUS_NOT_IMPLEMENTED, a, s)"
    and "t \<notin> set misdirected_types \<Longrightarrow> t \<notin> set unrouted_types \<Longrightarrow>
      get_single_attribute G m t key a s = G (fst (documented_getter t)) (snd (documented_getter t)) key a s"
proof -
  obtain v where m: "m = ready_master v" using initialize_success [OF assms(1)] by auto
  show "t \<in> set misdirected_types \<Longrightarrow>
      get_single_attribute G m t key a s = (SAI_STATUS_FAILURE, a, s\<lparr>fault := True\<rparr>)"
    by (rule routed(1) [OF m assms(2)])
  show "t \<in> set unrouted_types \<Longrightarrow>
      get_single_attribute G m t key a s = (SAI_STATUS_NOT_IMPLEMENTED, a, s)"
    by (rule routed(2) [OF m assms(2)])
  show "t \<notin> set misdirected_types \<Longrightarrow> t \<notin> set unrouted_types \<Longrightarrow>
      get_single_attribute G m t key a s = G (fst (documented_getter t)) (snd (documented_getter t)) key a s"
    by (rule routed(3) [OF m assms(2)])
qed

text \<open>
  Property C15: After a successful initialisation the generic read of one attribute calls the getter
  that the headers of the interface declare for the object type, in the structure in which they
  declare it, for every object type but twenty: the groups of layer 2 and IP multicast, whose slot
  holds the table of the entries, and the telemetry, segment routing and data plane telemetry types, whose slot is empty. For these the
  call goes through a wrong or null table. Types without a row are not implemented, without effect.
\<close>

theorem single_attr_dispatch:
  assumes "sai_api_initialize L flags sv ms = (SAI_STATUS_SUCCESS, m, s0)" and "t < SAI_OBJECT_TYPE_MAX"
  shows "(t \<in> set misdirected_types \<longrightarrow>
      get_single_attribute G m t key a s = (SAI_STATUS_FAILURE, a, s\<lparr>fault := True\<rparr>)) \<and>
    (t \<in> set unrouted_types \<longrightarrow>
      get_single_attribute G m t key a s = (SAI_STATUS_NOT_IMPLEMENTED, a, s)) \<and>
    (t \<notin> set misdirected_types \<longrightarrow> t \<notin> set unrouted_types \<longrightarrow>
      get_single_attribute G m t key a s = G (fst (documented_getter t)) (snd (documented_getter t)) key a s)"
  using single_attr_dispatch_facts [OF assms] by blast

text \<open>Getters of the witnesses: every attribute reads as its own number, without an effect.\<close>

definition ref_getters :: "('o, 'e, 'v) getters" where
  "ref_getters tab member key a s =
     (SAI_STATUS_SUCCESS, a\<lparr>attr_value := \<lparr> raw = ucast (attr_id a), objs = [] \<rparr>\<rparr>, s)"

lemma ref_initialize:
  "\<exists>s. sai_api_initialize ref_lib 0 (Some ref_services) (zero_master, ref_state) =
     (SAI_STATUS_SUCCESS, ready_master ref_services, s)"
proof -
  obtain st m s where r: "sai_api_initialize ref_lib 0 (Some ref_services) (zero_master, ref_state) = (st, m, s)"
    by (metis prod.collapse)
  then have "st = SAI_STATUS_SUCCESS"
    by (auto simp: sai_api_initialize_def Let_def case_prod_beta ref_services_def ref_lib_def ref_env_def
        simp del: upt_rec_numeral)
  then show ?thesis using r initialize_success by force
qed

theorem single_attr_dispatch_witness:
  "get_single_attribute ref_getters (ready_master ref_services) SAI_OBJECT_TYPE_L2MC_GROUP (KeyOid 7)
     \<lparr> attr_id = 0, attr_value = \<lparr> raw = 0, objs = [] \<rparr> \<rparr> ref_state =
   (SAI_STATUS_FAILURE, \<lparr> attr_id = 0, attr_value = \<lparr> raw = 0, objs = [] \<rparr> \<rparr>, ref_state\<lparr>fault := True\<rparr>)"
proof -
  obtain s where r: "sai_api_initialize ref_lib 0 (Some ref_services) (zero_master, ref_state) =
      (SAI_STATUS_SUCCESS, ready_master ref_services, s)" using ref_initialize by auto
  show ?thesis
    using single_attr_dispatch [OF r, of SAI_OBJECT_TYPE_L2MC_GROUP ref_getters "KeyOid 7"
        "\<lparr> attr_id = 0, attr_value = \<lparr> raw = 0, objs = [] \<rparr> \<rparr>" ref_state]
    by (simp add: misdirected_types_def)
qed

section \<open>Listing\<close>

text \<open>The objects of a type a chip has.\<close>

definition objects_of ::
    "('o, 'e, 'v) ctc_lib \<Rightarrow> u8 \<Rightarrow> nat \<Rightarrow> ('o, 'e, 'v) sai_state \<Rightarrow> sai_object_id set" where
  "objects_of L l t s = {oid. oid_type oid = t \<and> ctc_sai_db_get_object_property L l oid s \<noteq> None}"

lemma objects_of_frame: "g_sai_db s' = g_sai_db s \<Longrightarrow> objects_of L l t s' = objects_of L l t s"
  by (simp add: objects_of_def get_frame [of s' s])

lemma unat_u32_Suc: "unat (n :: u32) + 1 < 2 ^ 32 \<Longrightarrow> unat (n + 1) = unat n + 1"
  by (subst unat_add_lem [THEN iffD1]) simp_all

text \<open>The callback fills the slots from the counter on, one per bucket.\<close>

lemma traverse_keys:
  assumes "\<not> stops 0" and "unat cnt + length xs \<le> length ks" "unat cnt + length xs < 2 ^ 32"
  shows "hash_traverse stops ret object_traversal_fn xs (s, cnt, ks) =
    (0, s, cnt + of_nat (length xs),
     take (unat cnt) ks @ map (KeyOid \<circ> fst) xs @ drop (unat cnt + length xs) ks)"
  using assms(2,3)
proof (induction xs arbitrary: cnt ks)
  case (Cons x xs)
  let ?ks = "ks[unat cnt := KeyOid (fst x)]"
  have c: "unat cnt < length ks" "unat (cnt + 1) = unat cnt + 1"
    using Cons.prems unat_u32_Suc [of cnt] by simp_all
  have IH: "hash_traverse stops ret object_traversal_fn xs (s, cnt + 1, ?ks) =
      (0, s, cnt + 1 + of_nat (length xs),
       take (unat cnt + 1) ?ks @ map (KeyOid \<circ> fst) xs @ drop (unat cnt + 1 + length xs) ?ks)"
    using Cons.IH [of "cnt + 1" ?ks] Cons.prems c by simp
  have "take (unat cnt + 1) ?ks = take (unat cnt) ks @ [KeyOid (fst x)]"
    using c(1) by (simp add: take_Suc_conv_app_nth)
  moreover have "object_traversal_fn x (s, cnt, ks) = (0, s, cnt + 1, ?ks)"
    using c(1) by (simp add: object_traversal_fn_def put_key_def)
  ultimately show ?case
    using IH c(1) assms(1) by (simp add: comp_def)
qed simp

context ctc_lib_laws
begin

lemma objects_of_items:
  assumes inv: "chip_inv L l s" and db: "g_sai_db s l = Some db" and t: "ctc_sai_is_object_type_valid t"
  shows "objects_of L l t s = fst ` set (hash_items (oid_ops L) (oid_hash db t))"
    and "card (objects_of L l t s) = length (hash_items (oid_ops L) (oid_hash db t))"
    and "distinct (map fst (hash_items (oid_ops L) (oid_hash db t)))"
proof -
  let ?xs = "hash_items (oid_ops L) (oid_hash db t)"
  have ok: "db_ok L db" "l < CTC_SAI_MAX_CHIP_NUM" using inv db by (auto simp: chip_inv_def state_ok_def)
  note h = db_ok_oid_hash [OF ok(1) t]
  have "oid \<in> objects_of L l t s \<longleftrightarrow> oid \<in> fst ` set ?xs" for oid
  proof (cases "oid_type oid = t")
    case True
    then have "ctc_sai_db_get_object_property L l oid s \<noteq> None \<longleftrightarrow>
        hash_lookup (oid_ops L) (oid_hash db t) oid \<noteq> None"
      using get_None_iff [OF db ok, of oid] t by (simp add: oid_valid_def)
    then show ?thesis
      using True by (simp add: objects_of_def oid.lookup_items [OF h] map_of_eq_None_iff)
  next
    case False
    have "oid_type o' = t" if "(o', d) \<in> set ?xs" for o' d
      using ok(1) t that unfolding db_ok_def by fastforce
    then show ?thesis using False by (auto simp: objects_of_def)
  qed
  then show eq: "objects_of L l t s = fst ` set ?xs" by blast
  show d: "distinct (map fst ?xs)" by (rule oid.items_distinct [OF h])
  show "card (objects_of L l t s) = length ?xs"
    using distinct_card [OF d] by (simp add: eq)
qed

lemma count_objects_of:
  assumes inv: "chip_inv L l s" and t: "ctc_sai_is_object_type_valid t"
    and ty: "t \<noteq> SAI_OBJECT_TYPE_FDB_ENTRY" "\<not> entry_object_type t"
  shows "count_objects L l t c s = (of_nat (card (objects_of L l t s)), s)"
proof -
  obtain db where db: "g_sai_db s l = Some db" "db_ok L db" "SAI_DB_INIT_CHECK s l = SAI_STATUS_SUCCESS"
    using inv by (rule chip_inv_obtain)
  show ?thesis
    using ty t db objects_of_items(2) [OF inv db(1) t] db_ok_oid_hash [OF db(2) t]
    by (simp add: count_objects_def ctc_sai_db_get_object_property_count_def oid.count_items)
qed

lemma list_objects:
  assumes inv: "chip_inv L l s" and t: "ctc_sai_is_object_type_valid t"
    and n: "card (objects_of L l t s) \<le> length ks" "card (objects_of L l t s) < 2 ^ 32"
  shows "\<exists>oids n. ctc_sai_db_traverse_object_property L l t object_traversal_fn (s, 0, ks) =
      (SAI_STATUS_SUCCESS, s, n, map KeyOid oids @ drop (length oids) ks) \<and>
    distinct oids \<and> set oids = objects_of L l t s"
proof -
  obtain db where db: "g_sai_db s l = Some db" "db_ok L db" "SAI_DB_INIT_CHECK s l = SAI_STATUS_SUCCESS"
    using inv by (rule chip_inv_obtain)
  note o = objects_of_items [OF inv db(1) t]
  let ?xs = "hash_items (oid_ops L) (oid_hash db t)"
  have "ctc_sai_db_traverse_object_property L l t object_traversal_fn (s, 0, ks) =
      (SAI_STATUS_SUCCESS, s, of_nat (length ?xs), map KeyOid (map fst ?xs) @ drop (length (map fst ?xs)) ks)"
    using t db n o(2) traverse_goes_on(1)
      traverse_keys [of "traverse_stops L" 0 ?xs ks "traverse_ret L" s]
    by (simp add: ctc_sai_db_traverse_object_property_def)
  then show ?thesis using o(1,3) by (metis image_set)
qed

end

lemma object_listing:
  assumes "ctc_lib_laws L" and "state_ok L s" and "ctc_sai_oid_get_lchip (inited s) switch_id = (st0, Some l)"
    and "ctc_sai_is_object_type_valid t" "t \<noteq> SAI_OBJECT_TYPE_FDB_ENTRY" "\<not> entry_object_type t"
    and "card (objects_of L l t s) < 2 ^ 32"
  shows "\<exists>s'. sai_get_object_count L switch_id t (Some c) s =
        (SAI_STATUS_SUCCESS, Some (of_nat (card (objects_of L l t s))), s') \<and>
      g_sai_db s' = g_sai_db s \<and> lock_depth (trace s') = lock_depth (trace s)"
    and "unat n < card (objects_of L l t s) \<Longrightarrow>
      \<exists>s'. sai_get_object_key L view switch_id t n (Some ks) s =
        Some (SAI_STATUS_BUFFER_OVERFLOW, Some ks, s') \<and>
      g_sai_db s' = g_sai_db s \<and> lock_depth (trace s') = lock_depth (trace s)"
    and "card (objects_of L l t s) \<le> unat n \<Longrightarrow> unat n \<le> length ks \<Longrightarrow>
      \<exists>oids s'. sai_get_object_key L view switch_id t n (Some ks) s =
        Some (SAI_STATUS_SUCCESS, Some (map KeyOid oids @ drop (length oids) ks), s') \<and>
      distinct oids \<and> set oids = objects_of L l t s \<and> fault s' = fault s \<and>
      g_sai_db s' = g_sai_db s \<and> lock_depth (trace s') = lock_depth (trace s)"
proof -
  have lc: "inited s l" "l < CTC_SAI_MAX_CHIP_NUM" using get_lchip_Some [OF assms(3)] by simp_all
  define s1 where "s1 = snd (ctc_sai_db_lock L l s)"
  have inv: "chip_inv L l s" using assms(2) lc by (simp add: chip_inv_def)
  then have inv1: "chip_inv L l s1" by (rule chip_inv_frame) (simp add: s1_def)
  have obj: "objects_of L l t s1 = objects_of L l t s" by (rule objects_of_frame) (simp add: s1_def)
  have unl: "lock_depth (trace (snd (ctc_sai_db_unlock L l s1))) = lock_depth (trace s)"
    using lock_depth_lock [OF inv] lock_depth_lock(2) [OF inv1] by (simp add: fun_eq_iff s1_def)
  note cnt = ctc_lib_laws.count_objects_of [OF assms(1) inv1 assms(4-6), unfolded obj]
  have c32: "unat (of_nat (card (objects_of L l t s)) :: u32) = card (objects_of L l t s)"
    using assms(7) by (simp add: unat_of_nat take_bit_nat_eq_self)
  show "\<exists>s'. sai_get_object_count L switch_id t (Some c) s =
        (SAI_STATUS_SUCCESS, Some (of_nat (card (objects_of L l t s))), s') \<and>
      g_sai_db s' = g_sai_db s \<and> lock_depth (trace s') = lock_depth (trace s)"
    using assms(3,4) unl cnt by (simp add: sai_get_object_count_def s1_def)
  show "\<exists>s'. sai_get_object_key L view switch_id t n (Some ks) s =
        Some (SAI_STATUS_BUFFER_OVERFLOW, Some ks, s') \<and>
      g_sai_db s' = g_sai_db s \<and> lock_depth (trace s') = lock_depth (trace s)"
    if "unat n < card (objects_of L l t s)"
    using assms(3,4) unl cnt that c32 by (simp add: sai_get_object_key_def s1_def word_less_nat_alt)
  assume n: "card (objects_of L l t s) \<le> unat n" "unat n \<le> length ks"
  obtain oids k where oids: "ctc_sai_db_traverse_object_property L l t object_traversal_fn (s1, 0, ks) =
      (SAI_STATUS_SUCCESS, s1, k, map KeyOid oids @ drop (length oids) ks)"
    "distinct oids" "set oids = objects_of L l t s"
    using ctc_lib_laws.list_objects [OF assms(1) inv1 assms(4), of ks] n assms(7) unfolding obj by auto
  have "\<not> n < of_nat (card (objects_of L l t s))" using n(1) c32 by (simp add: word_less_nat_alt)
  then have "sai_get_object_key L view switch_id t n (Some ks) s =
      Some (SAI_STATUS_SUCCESS, Some (map KeyOid oids @ drop (length oids) ks), snd (ctc_sai_db_unlock L l s1))"
    using assms(3-6) cnt oids(1) by (simp add: sai_get_object_key_def s1_def [symmetric])
  then show "\<exists>oids s'. sai_get_object_key L view switch_id t n (Some ks) s =
        Some (SAI_STATUS_SUCCESS, Some (map KeyOid oids @ drop (length oids) ks), s') \<and>
      distinct oids \<and> set oids = objects_of L l t s \<and> fault s' = fault s \<and>
      g_sai_db s' = g_sai_db s \<and> lock_depth (trace s') = lock_depth (trace s)"
    using oids(2,3) unl by (auto simp: s1_def)
qed

text \<open>
  Property C14: For every object type with an object table, \<^verbatim>\<open>sai_get_object_count\<close> answers the number
  of objects, and \<^verbatim>\<open>sai_get_object_key\<close> refuses a smaller buffer without touching it and otherwise
  writes the identifier of every object exactly once to the front of the buffer, leaving the rest.
  Neither changes a table, keeps a lock or writes outside the buffer.
\<close>

theorem object_listing_complete:
  assumes "ctc_lib_laws L" and "state_ok L s" and "ctc_sai_oid_get_lchip (inited s) switch_id = (st0, Some l)"
    and "ctc_sai_is_object_type_valid t" "t \<noteq> SAI_OBJECT_TYPE_FDB_ENTRY" "\<not> entry_object_type t"
    and "card (objects_of L l t s) < 2 ^ 32"
  shows "(\<exists>s'. sai_get_object_count L switch_id t (Some c) s =
        (SAI_STATUS_SUCCESS, Some (of_nat (card (objects_of L l t s))), s') \<and>
      g_sai_db s' = g_sai_db s \<and> lock_depth (trace s') = lock_depth (trace s)) \<and>
    (unat n < card (objects_of L l t s) \<longrightarrow>
      (\<exists>s'. sai_get_object_key L view switch_id t n (Some ks) s =
        Some (SAI_STATUS_BUFFER_OVERFLOW, Some ks, s') \<and>
      g_sai_db s' = g_sai_db s \<and> lock_depth (trace s') = lock_depth (trace s))) \<and>
    (card (objects_of L l t s) \<le> unat n \<longrightarrow> unat n \<le> length ks \<longrightarrow>
      (\<exists>oids s'. sai_get_object_key L view switch_id t n (Some ks) s =
        Some (SAI_STATUS_SUCCESS, Some (map KeyOid oids @ drop (length oids) ks), s') \<and>
      distinct oids \<and> set oids = objects_of L l t s \<and> fault s' = fault s \<and>
      g_sai_db s' = g_sai_db s \<and> lock_depth (trace s') = lock_depth (trace s)))"
  using object_listing(1) [OF assms(1-7), of c] object_listing(2) [OF assms(1-7), of n view ks]
    object_listing(3) [OF assms(1-7), of n ks view] by blast

text \<open>A chip with one virtual router, for the witnesses.\<close>

definition ref_query_state :: "(ref_oid, ref_ent, ref_vec) sai_state" where
  "ref_query_state = ref_add (ctc_sai_create_object_id SAI_OBJECT_TYPE_VIRTUAL_ROUTER 0 0 0 5,
     VrData \<lparr> vr_src_mac = 1, vr_v4_state = 1, vr_v6_state = 0 \<rparr>) ref_state"

definition ref_switch :: sai_object_id where
  "ref_switch = ctc_sai_create_object_id SAI_OBJECT_TYPE_SWITCH 0 0 0 0"

lemma ref_query_state_facts:
  "state_ok ref_lib ref_query_state" "ctc_sai_oid_get_lchip (inited ref_query_state) ref_switch = (0, Some 0)"
  "card (objects_of ref_lib 0 SAI_OBJECT_TYPE_VIRTUAL_ROUTER ref_query_state) = 1"
proof -
  have "chip_inv ref_lib 0 ref_state" using ref_state_ok by (simp add: chip_inv_def inited_def ref_state_def)
  then have inv: "chip_inv ref_lib 0 ref_query_state"
    using ref_add_inv [of ref_state] ref_state_typed by (simp add: ref_query_state_def create_type)
  then show "state_ok ref_lib ref_query_state" by (simp add: chip_inv_def)
  show "ctc_sai_oid_get_lchip (inited ref_query_state) ref_switch = (0, Some 0)" by code_simp
  have db: "g_sai_db ref_query_state 0 = Some (the (g_sai_db ref_query_state 0))"
    using inv by (simp add: chip_inv_def inited_def)
  have "length (hash_items (oid_ops ref_lib) (oid_hash (the (g_sai_db ref_query_state 0)) SAI_OBJECT_TYPE_VIRTUAL_ROUTER)) = 1"
    by code_simp
  then show "card (objects_of ref_lib 0 SAI_OBJECT_TYPE_VIRTUAL_ROUTER ref_query_state) = 1"
    using ref_laws.objects_of_items(2) [OF inv db] by (simp add: ctc_sai_is_object_type_valid_def)
qed

theorem object_listing_complete_witness:
  "\<exists>oids s'. sai_get_object_key ref_lib (\<lambda>et k. OtherEntry 0) ref_switch SAI_OBJECT_TYPE_VIRTUAL_ROUTER 2
       (Some [KeyOid 0, KeyOid 9]) ref_query_state =
     Some (SAI_STATUS_SUCCESS, Some (map KeyOid oids @ drop (length oids) [KeyOid 0, KeyOid 9]), s') \<and>
   set oids = objects_of ref_lib 0 SAI_OBJECT_TYPE_VIRTUAL_ROUTER ref_query_state \<and> fault s' = fault ref_query_state"
  using object_listing_complete [OF ref_laws.ctc_lib_laws_axioms ref_query_state_facts(1,2),
      of SAI_OBJECT_TYPE_VIRTUAL_ROUTER 0 2 "\<lambda>et k. OtherEntry 0" "[KeyOid 0, KeyOid 9]"] ref_query_state_facts(3)
  by (auto simp: ctc_sai_is_object_type_valid_def entry_object_type_def)

section \<open>Bulk reads\<close>

text \<open>The type of an object decides how many attributes are asked for.\<close>

definition bulk_limit :: "nat \<Rightarrow> u32" where
  "bulk_limit t = out_or 0 (snd (sai_get_maximum_attribute_count t (Some 0)))"

lemma bulk_limit_high: "SAI_OBJECT_TYPE_ISOLATION_GROUP_MEMBER < t \<Longrightarrow> bulk_limit t = 0"
  by (simp add: bulk_limit_def sai_get_maximum_attribute_count_def)

lemma bulk_nothing: "bulk_objects G m t sz n 0 i bs s = (map snd bs, s)"
  by (induction G m t sz n "0 :: u32" i bs s rule: bulk_objects.induct) (simp_all add: Let_def)

text \<open>
  When every read succeeds, all attributes are stored, however many the caller has room for, one after
  the other from element \<open>i\<close> of the array of pointers on.
\<close>

lemma bulk_all_stored:
  assumes "\<And>a s. fst (get_single_attribute G m t key a s) = SAI_STATUS_SUCCESS"
    and "\<And>a s. fault s \<Longrightarrow> fault (snd (snd (get_single_attribute G m t key a s)))"
    and "bk_actual b \<le> bk_count b" "unat (bk_actual b) + length js < 2 ^ 32"
  shows "\<exists>b' s'. bulk_attributes G m t sz n i key js (b, s) = (b', s') \<and>
    bk_actual b' = bk_actual b + of_nat (length js) \<and>
    bk_count b' = (if js = [] then bk_count b else bk_actual b + of_nat (length js)) \<and>
    bk_status b' = bk_status b \<and>
    map fst (bk_stored b') = rev (map (\<lambda>k. 8 * i + (unat (bk_actual b) + k) * sz) [0..<length js]) @ map fst (bk_stored b) \<and>
    (fault s \<or> js \<noteq> [] \<and> 8 * n < 8 * i + (unat (bk_actual b) + length js) * sz \<longrightarrow> fault s')"
  using assms(3,4)
proof (induction js arbitrary: b s)
  case (Cons j js)
  let ?a = "\<lparr> attr_id = of_nat j, attr_value = \<lparr> raw = 0, objs = [] \<rparr> \<rparr>"
  let ?k = "unat (bk_actual b)"
  obtain a s1 where g: "get_single_attribute G m t key ?a s = (SAI_STATUS_SUCCESS, a, s1)"
    using assms(1) [of ?a s] by (metis prod.collapse)
  have f1: "fault s \<Longrightarrow> fault s1" using assms(2) [of s ?a] g by simp
  obtain b2 s2 where st: "bulk_store sz n i a (b, s1) = (b2, s2)" by (cases "bulk_store sz n i a (b, s1)")
  have u: "unat (bk_actual b + 1) = Suc ?k" using Cons.prems(2) unat_u32_Suc [of "bk_actual b"] by simp
  have b2: "bk_actual b2 = bk_actual b + 1" "bk_count b2 = bk_actual b + 1" "bk_status b2 = bk_status b"
    "map fst (bk_stored b2) = (8 * i + ?k * sz) # map fst (bk_stored b)"
    "fault s \<or> 8 * n < 8 * i + Suc ?k * sz \<Longrightarrow> fault s2"
    using st f1 by (auto simp: bulk_store_def Let_def algebra_simps split: if_splits)
  have "unat (bk_actual b2) + length js < 2 ^ 32" using Cons.prems(2) u by (simp add: b2)
  then obtain b' s' where r: "bulk_attributes G m t sz n i key js (b2, s2) = (b', s')"
    "bk_actual b' = bk_actual b2 + of_nat (length js)"
    "bk_count b' = (if js = [] then bk_count b2 else bk_actual b2 + of_nat (length js))"
    "bk_status b' = bk_status b2"
    "map fst (bk_stored b') = rev (map (\<lambda>k. 8 * i + (Suc ?k + k) * sz) [0..<length js]) @ map fst (bk_stored b2)"
    "fault s2 \<or> js \<noteq> [] \<and> 8 * n < 8 * i + (Suc ?k + length js) * sz \<longrightarrow> fault s'"
    using Cons.IH [of b2 s2] b2(1,2) unfolding u [symmetric] b2(1) by auto
  have "[0..<length (j # js)] = 0 # map Suc [0..<length js]" by (simp add: map_Suc_upt upt_conv_Cons del: upt_Suc)
  then have "map fst (bk_stored b') = rev (map (\<lambda>k. 8 * i + (?k + k) * sz) [0..<length (j # js)]) @ map fst (bk_stored b)"
    unfolding r(5) b2(4) by (simp add: o_def)
  moreover have "fault s'" if "fault s \<or> j # js \<noteq> [] \<and> 8 * n < 8 * i + (?k + length (j # js)) * sz"
    using that b2(5) r(1,6) by (cases "js = []") auto
  ultimately show ?case
    using Cons.prems(1) g st b2 r(1-4) by (auto simp: Let_def)
qed simp

text \<open>Getters that only read: the value of an attribute of an object.\<close>

definition reading_getters ::
    "('o, 'e, 'v) getters \<Rightarrow> sai_api_master \<Rightarrow> nat \<Rightarrow> (sai_object_key \<Rightarrow> u32 \<Rightarrow> sai_attribute_value) \<Rightarrow> bool" where
  "reading_getters G m t val \<longleftrightarrow>
     (\<forall>k a s. get_single_attribute G m t k a s =
        (SAI_STATUS_SUCCESS, a\<lparr>attr_value := val k (attr_id a)\<rparr>, s))"

lemma ref_reading:
  "reading_getters ref_getters (ready_master ref_services) SAI_OBJECT_TYPE_VIRTUAL_ROUTER
     (\<lambda>k i. \<lparr> raw = ucast i, objs = [] \<rparr>)"
proof -
  have "get_single_attribute ref_getters (ready_master ref_services) SAI_OBJECT_TYPE_VIRTUAL_ROUTER k a s =
      ref_getters (fst (documented_getter SAI_OBJECT_TYPE_VIRTUAL_ROUTER)) (snd (documented_getter SAI_OBJECT_TYPE_VIRTUAL_ROUTER)) k a s"
    for k a and s :: "('a, 'b, 'c) sai_state"
    using routed(3) [OF refl, of SAI_OBJECT_TYPE_VIRTUAL_ROUTER ref_getters ref_services k a s]
    by (simp add: misdirected_types_def unrouted_types_def)
  then show ?thesis by (simp add: reading_getters_def ref_getters_def)
qed

text \<open>
  Property C16: A bulk read of one object whose attributes can all be read stores every attribute its
  type has, whatever number of attributes the caller has room for, and leaves the status of the object
  as the caller had it. The attributes are stored one after the other over the caller's array of one
  attribute pointer, from its first byte on, and when they take more than its eight bytes memory
  outside the array is written. The getters keep a fault that has happened.
\<close>

theorem bulk_get_unchecked:
  assumes "\<forall>a s. fst (get_single_attribute G m t key a s) = SAI_STATUS_SUCCESS \<and>
      (fault s \<longrightarrow> fault (snd (snd (get_single_attribute G m t key a s))))"
    and "ctc_sai_is_object_type_valid t" and "ctc_sai_oid_get_lchip (inited s) switch_id = (st, Some l)"
    and "0 < bulk_limit t"
  shows "\<exists>b s'. sai_bulk_get_attribute G m sz switch_id t (Some [(key, room, st0)]) s =
      (SAI_STATUS_SUCCESS, [b], s') \<and> bk_count b = bulk_limit t \<and> bk_status b = st0 \<and>
      map fst (rev (bk_stored b)) = map (\<lambda>k. k * sz) [0..<unat (bulk_limit t)] \<and>
      (8 < unat (bulk_limit t) * sz \<longrightarrow> fault s')"
proof -
  let ?b0 = "\<lparr> bk_count = room, bk_actual = 0, bk_status = st0, bk_stored = [] \<rparr>"
  let ?js = "[0..<unat (bulk_limit t)]"
  have n: "?js \<noteq> []" using assms(4) by (simp add: word_gt_0 unat_eq_0)
  have "unat (bk_actual ?b0) + length ?js < 2 ^ 32"
    using unsigned_less [of "bulk_limit t"] by simp
  then obtain b s' where b: "bulk_attributes G m t sz 1 0 key ?js (?b0, s) = (b, s')"
    "bk_count b = bulk_limit t" "bk_status b = st0" "map fst (bk_stored b) = rev (map (\<lambda>k. k * sz) ?js)"
    "8 < unat (bulk_limit t) * sz \<longrightarrow> fault s'"
    using bulk_all_stored [of G m t key ?b0 ?js sz 1 0 s] assms(1) n by auto
  have "sai_bulk_get_attribute G m sz switch_id t (Some [(key, room, st0)]) s = (SAI_STATUS_SUCCESS, [b], s')"
    using assms(2,3) b(1) by (simp add: sai_bulk_get_attribute_def bulk_limit_def [symmetric])
  moreover have "map fst (rev (bk_stored b)) = map (\<lambda>k. k * sz) ?js" by (simp add: rev_map [symmetric] b(4))
  ultimately show ?thesis using b(2,3,5) by blast
qed

theorem bulk_get_unchecked_witness:
  "\<exists>b s'. sai_bulk_get_attribute ref_getters (ready_master ref_services) 24 ref_switch
      SAI_OBJECT_TYPE_VIRTUAL_ROUTER (Some [(KeyOid 7, 0, 5)]) ref_query_state = (SAI_STATUS_SUCCESS, [b], s') \<and>
    bk_count b = 6 \<and> bk_status b = 5 \<and> fault s'"
proof -
  have "get_single_attribute ref_getters (ready_master ref_services) SAI_OBJECT_TYPE_VIRTUAL_ROUTER k a s =
      (0, a\<lparr>attr_value := \<lparr> raw = ucast (attr_id a), objs = [] \<rparr>\<rparr>, s)" for k a and s :: "(ref_oid, ref_ent, ref_vec) sai_state"
    by (simp add: ref_reading [unfolded reading_getters_def, rule_format])
  moreover have "bulk_limit SAI_OBJECT_TYPE_VIRTUAL_ROUTER = 6" by code_simp
  ultimately show ?thesis
    using bulk_get_unchecked [of ref_getters "ready_master ref_services" SAI_OBJECT_TYPE_VIRTUAL_ROUTER "KeyOid 7"
        ref_query_state ref_switch 0 0 24 0 5] ref_query_state_facts(2)
    by (auto simp: ctc_sai_is_object_type_valid_def)
qed

lemma bulk_get_unsupported_facts:
  assumes "ctc_sai_is_object_type_valid t" and "ctc_sai_oid_get_lchip (inited s) switch_id = (st, Some l)"
  shows "\<lbrakk>get_single_attribute G m t key \<lparr> attr_id = 0, attr_value = \<lparr> raw = 0, objs = [] \<rparr> \<rparr> s = (r, a, s1);
        SAI_STATUS_ATTR_NOT_SUPPORTED_MAX \<le> r; r \<le> SAI_STATUS_ATTR_NOT_SUPPORTED_0; 0 < bulk_limit t\<rbrakk> \<Longrightarrow>
      sai_bulk_get_attribute G m sz switch_id t (Some [(key, room, st0)]) s =
        (SAI_STATUS_SUCCESS, [\<lparr> bk_count = room, bk_actual = 0, bk_status = r, bk_stored = [] \<rparr>], s1)"
    and "SAI_OBJECT_TYPE_ISOLATION_GROUP_MEMBER < t \<Longrightarrow>
      sai_bulk_get_attribute G m sz switch_id t (Some xs) s =
        (SAI_STATUS_SUCCESS,
         map (\<lambda>(k, c, st). \<lparr> bk_count = c, bk_actual = 0, bk_status = st, bk_stored = [] \<rparr>) xs, s)"
proof -
  assume r: "get_single_attribute G m t key \<lparr> attr_id = 0, attr_value = \<lparr> raw = 0, objs = [] \<rparr> \<rparr> s = (r, a, s1)"
    "SAI_STATUS_ATTR_NOT_SUPPORTED_MAX \<le> r" "r \<le> SAI_STATUS_ATTR_NOT_SUPPORTED_0" "0 < bulk_limit t"
  have "[0..<unat (bulk_limit t)] = 0 # [1..<unat (bulk_limit t)]"
    using r(4) by (simp add: upt_conv_Cons word_gt_0 unat_gt_0)
  then show "sai_bulk_get_attribute G m sz switch_id t (Some [(key, room, st0)]) s =
        (SAI_STATUS_SUCCESS, [\<lparr> bk_count = room, bk_actual = 0, bk_status = r, bk_stored = [] \<rparr>], s1)"
    using assms r(1-3) by (simp add: sai_bulk_get_attribute_def bulk_limit_def [symmetric])
next
  assume "SAI_OBJECT_TYPE_ISOLATION_GROUP_MEMBER < t"
  then show "sai_bulk_get_attribute G m sz switch_id t (Some xs) s =
        (SAI_STATUS_SUCCESS,
         map (\<lambda>(k, c, st). \<lparr> bk_count = c, bk_actual = 0, bk_status = st, bk_stored = [] \<rparr>) xs, s)"
    using assms bulk_limit_high
    by (auto simp: sai_bulk_get_attribute_def bulk_limit_def [symmetric] bulk_nothing case_prod_beta)
qed

text \<open>
  A bulk read treats an attribute that is not supported as the end of the object: for any
  code of the documented range \<^verbatim>\<open>SAI_STATUS_ATTR_NOT_SUPPORTED_0\<close> to \<^verbatim>\<open>_MAX\<close> the code becomes the
  status of the object and no later attribute is read. For object types above
  \<^verbatim>\<open>ISOLATION_GROUP_MEMBER\<close> nothing is read at all, and the call still succeeds.
\<close>

theorem bulk_get_unsupported:
  assumes "ctc_sai_is_object_type_valid t" and "ctc_sai_oid_get_lchip (inited s) switch_id = (st, Some l)"
  shows "(get_single_attribute G m t key \<lparr> attr_id = 0, attr_value = \<lparr> raw = 0, objs = [] \<rparr> \<rparr> s = (r, a, s1) \<longrightarrow> SAI_STATUS_ATTR_NOT_SUPPORTED_MAX \<le> r \<longrightarrow> r \<le> SAI_STATUS_ATTR_NOT_SUPPORTED_0 \<longrightarrow> 0 < bulk_limit t \<longrightarrow>
      sai_bulk_get_attribute G m sz switch_id t (Some [(key, room, st0)]) s =
        (SAI_STATUS_SUCCESS, [\<lparr> bk_count = room, bk_actual = 0, bk_status = r, bk_stored = [] \<rparr>], s1)) \<and>
    (SAI_OBJECT_TYPE_ISOLATION_GROUP_MEMBER < t \<longrightarrow>
      sai_bulk_get_attribute G m sz switch_id t (Some xs) s =
        (SAI_STATUS_SUCCESS,
         map (\<lambda>(k, c, st). \<lparr> bk_count = c, bk_actual = 0, bk_status = st, bk_stored = [] \<rparr>) xs, s))"
  using bulk_get_unsupported_facts [OF assms] by blast

theorem bulk_get_unsupported_witness:
  "sai_bulk_get_attribute ref_getters (ready_master ref_services) 24 ref_switch SAI_OBJECT_TYPE_COUNTER
     (Some [(KeyOid 7, 3, 5)]) ref_query_state =
   (SAI_STATUS_SUCCESS, [\<lparr> bk_count = 3, bk_actual = 0, bk_status = 5, bk_stored = [] \<rparr>], ref_query_state)"
  using bulk_get_unsupported [of SAI_OBJECT_TYPE_COUNTER ref_query_state ref_switch 0 0 ref_getters
      "ready_master ref_services" "KeyOid 7" _ _ _ 24 3 5 "[(KeyOid 7, 3, 5)]"] ref_query_state_facts(2)
  by (simp add: ctc_sai_is_object_type_valid_def)

section \<open>Availability\<close>

lemma availability_match_reading:
  assumes "reading_getters G m t val"
  shows "\<exists>v'. availability_match G m t k qs (v, s) =
    ((\<forall>q \<in> set qs. val k (attr_id q) \<noteq> attr_value q), v', s)"
  using assms by (induction qs arbitrary: v) (auto simp: reading_getters_def)

lemma availability_loop_reading:
  assumes "reading_getters G m t val"
  shows "\<exists>v'. availability_loop G m t qs ks (c, v, s) =
    (c + of_nat (length (filter (\<lambda>k. \<forall>q \<in> set qs. val k (attr_id q) \<noteq> attr_value q) ks)), v', s)"
proof (induction ks arbitrary: c v)
  case (Cons k ks)
  obtain v1 where v1: "availability_match G m t k qs (v, s) =
      ((\<forall>q \<in> set qs. val k (attr_id q) \<noteq> attr_value q), v1, s)"
    using availability_match_reading [OF assms] by blast
  obtain v2 where "availability_loop G m t qs ks
      (if \<forall>q \<in> set qs. val k (attr_id q) \<noteq> attr_value q then c + 1 else c, v1, s) =
      ((if \<forall>q \<in> set qs. val k (attr_id q) \<noteq> attr_value q then c + 1 else c) +
       of_nat (length (filter (\<lambda>k. \<forall>q \<in> set qs. val k (attr_id q) \<noteq> attr_value q) ks)), v2, s)"
    using Cons.IH by blast
  then show ?case by (auto simp: v1 split: if_splits)
qed simp

text \<open>
  With getters that only read, the availability query adds to the caller's counter the
  number of objects none of whose attributes has the value asked for. An object that has all the
  values asked for is never counted when at least one attribute is asked for.
\<close>

theorem availability_counts_mismatches:
  assumes "ctc_lib_laws L" and "state_ok L s" and "ctc_sai_oid_get_lchip (inited s) switch_id = (st0, Some l)"
    and "ctc_sai_is_object_type_valid t" "t \<noteq> SAI_OBJECT_TYPE_FDB_ENTRY" "\<not> entry_object_type t"
    and "card (objects_of L l t s) < 2 ^ 32" and "reading_getters G m t val" and "\<forall>n. length (mem n) = n"
    and "\<forall>tr. out_val 0 (env L tr MemAlloc) \<noteq> 0"
  shows "\<exists>s'. sai_object_type_get_availability L G m view mem junk switch_id t (Some qs) (Some c) s =
    Some (SAI_STATUS_SUCCESS,
      Some (c + of_nat (card {oid \<in> objects_of L l t s. \<forall>q \<in> set qs. val (KeyOid oid) (attr_id q) \<noteq> attr_value q})), s')"
proof -
  let ?n = "of_nat (card (objects_of L l t s)) :: u32"
  let ?ok = "\<lambda>k. \<forall>q \<in> set qs. val k (attr_id q) \<noteq> attr_value q"
  obtain s1 where s1: "sai_get_object_count L switch_id t (Some 0) s = (SAI_STATUS_SUCCESS, Some ?n, s1)"
    "g_sai_db s1 = g_sai_db s"
    using object_listing(1) [OF assms(1-7)] by blast
  obtain s2 where s2: "mem_malloc L s1 = (True, s2)" "g_sai_db s2 = g_sai_db s"
    using assms(10) s1(2) mem_malloc_frame [of L s1] by (cases "mem_malloc L s1") (auto simp: mem_malloc_def)
  have lc: "inited s l" using get_lchip_Some [OF assms(3)] by simp
  have n: "unat ?n = card (objects_of L l t s)" using assms(7) by (simp add: unat_of_nat take_bit_nat_eq_self)
  have eq: "objects_of L l t s2 = objects_of L l t s" by (rule objects_of_frame [OF s2(2)])
  have ok2: "state_ok L s2" by (rule state_ok_frame [OF assms(2) s2(2)])
  have lc2: "ctc_sai_oid_get_lchip (inited s2) switch_id = (SAI_STATUS_SUCCESS, Some l)"
    by (rule get_lchip_again [OF assms(3)]) (use lc s2(2) in \<open>simp add: inited_def\<close>)
  obtain oids s3 where k: "sai_get_object_key L view switch_id t ?n (Some (mem (unat ?n))) s2 =
      Some (SAI_STATUS_SUCCESS, Some (map KeyOid oids @ drop (length oids) (mem (unat ?n))), s3)"
    "distinct oids" "set oids = objects_of L l t s"
    using object_listing(3) [OF assms(1) ok2 lc2 assms(4-6), of ?n "mem (unat ?n)" view] assms(7,9) n
    by (auto simp: eq)
  have len: "length oids = unat ?n" using distinct_card [OF k(2)] n by (simp add: k(3))
  then have ks: "take (unat ?n) (map KeyOid oids @ drop (length oids) (mem (unat ?n))) = map KeyOid oids" by simp
  obtain v' where "availability_loop G m t qs (map KeyOid oids) (c, junk, s3) =
      (c + of_nat (length (filter ?ok (map KeyOid oids))), v', s3)"
    using availability_loop_reading [OF assms(8)] by blast
  moreover have "length (filter ?ok (map KeyOid oids)) =
      card {oid \<in> objects_of L l t s. ?ok (KeyOid oid)}"
    using k(2,3) distinct_card [of "filter (?ok \<circ> KeyOid) oids"] by (simp add: filter_map comp_def)
  ultimately show ?thesis
    using assms(3,4) s1(1) s2(1) k(1) ks by (simp add: sai_object_type_get_availability_def)
qed

theorem availability_counts_mismatches_witness:
  "\<exists>s'. sai_object_type_get_availability ref_lib ref_getters (ready_master ref_services) (\<lambda>et k. OtherEntry 0)
     (\<lambda>n. replicate n (KeyOid 0)) \<lparr> raw = 0, objs = [] \<rparr> ref_switch SAI_OBJECT_TYPE_VIRTUAL_ROUTER
     (Some [\<lparr> attr_id = 3, attr_value = \<lparr> raw = 3, objs = [] \<rparr> \<rparr>]) (Some 0) ref_query_state =
   Some (SAI_STATUS_SUCCESS, Some 0, s')"
proof -
  have "\<forall>tr. out_val 0 (env ref_lib tr MemAlloc) \<noteq> 0" by (simp add: ref_lib_def ref_env_def out_val_def)
  then show ?thesis
    using availability_counts_mismatches [OF ref_laws.ctc_lib_laws_axioms ref_query_state_facts(1,2) _ _ _ _ ref_reading,
        of "\<lambda>n. replicate n (KeyOid 0)" "\<lambda>et k. OtherEntry 0" "\<lparr> raw = 0, objs = [] \<rparr>"
        "[\<lparr> attr_id = 3, attr_value = \<lparr> raw = 3, objs = [] \<rparr> \<rparr>]" 0] ref_query_state_facts(3)
    by (simp add: ctc_sai_is_object_type_valid_def entry_object_type_def)
qed

end
