(* ===== verification/SAI_Store.thy ===== *)
theory SAI_Store
  imports SAI_Objects
begin

text \<open>
  The steps that the modules' operations are made of, each with what it does to the object database
  and what it leaves alone: locks, identifier pools, allocation, addition, removal and stores. The
  modules' proofs chain these facts. \<open>obj_map L l s\<close> is the object database of a chip as a map, the
  abstract state the operations are specified on, and \<open>sound\<close> the invariant they keep.
\<close>

definition obj_map :: "('o, 'e, 'v) ctc_lib \<Rightarrow> u8 \<Rightarrow> ('o, 'e, 'v) sai_state \<Rightarrow> sai_object_id \<Rightarrow> obj_data option" where
  "obj_map L l s = (\<lambda>oid. ctc_sai_db_get_object_property L l oid s)"

lemma obj_map_get: "ctc_sai_db_get_object_property L l oid s = obj_map L l s oid"
  by (simp add: obj_map_def)

definition sound :: "('o, 'e, 'v) ctc_lib \<Rightarrow> u8 \<Rightarrow> ('o, 'e, 'v) sai_state \<Rightarrow> bool" where
  "sound L l s \<longleftrightarrow> chip_inv L l s \<and> chip_typed L l s"

text \<open>Nothing but the object database moves.\<close>

definition quiet :: "('o, 'e, 'v) sai_state \<Rightarrow> ('o, 'e, 'v) sai_state \<Rightarrow> bool" where
  "quiet s s' \<longleftrightarrow> fault s' = fault s \<and> lock_depth (trace s') = lock_depth (trace s) \<and>
     opf_used (trace s') = opf_used (trace s)"

lemma quiet_refl [simp]: "quiet s s" by (simp add: quiet_def)

lemma quiet_trans [trans]: "quiet s s1 \<Longrightarrow> quiet s1 s2 \<Longrightarrow> quiet s s2" by (simp add: quiet_def)

lemma sound_frame: "g_sai_db s' = g_sai_db s \<Longrightarrow> sound L l s' = sound L l s"
  unfolding sound_def using chip_frame_eqs(1,2) [of s' s L l] by simp

lemma obj_map_frame: "g_sai_db s' = g_sai_db s \<Longrightarrow> obj_map L l s' = obj_map L l s"
  unfolding obj_map_def by (rule ext) (rule get_frame)

lemma db_frame:
  assumes "sound L l s" and "g_sai_db s' = g_sai_db s"
  shows "sound L l s'" "obj_map L l s' = obj_map L l s"
  using assms(1) sound_frame [OF assms(2)] obj_map_frame [OF assms(2)] by simp_all

lemma sound_chip: "sound L l s \<Longrightarrow> l < CTC_SAI_MAX_CHIP_NUM \<and> inited s l"
  by (auto simp: sound_def inited_def elim!: chip_inv_obtain)

lemma sound_fits: "sound L l s \<Longrightarrow> obj_map L l s oid = Some d \<Longrightarrow> data_fits (oid_type oid) d"
  by (simp add: sound_def chip_typed_def obj_map_def)

lemma sound_lchip:
  assumes "sound L l s" and "ctc_sai_oid_get_lchip i oid = (st, Some l)"
  shows "ctc_sai_oid_get_lchip (inited s) oid = (SAI_STATUS_SUCCESS, Some l)"
  using assms sound_chip [OF assms(1)]
  by (auto simp: ctc_sai_oid_get_lchip_def ctc_sai_get_ctc_object_id_def split: if_splits)

lemma ext_quiet:
  assumes "\<And>l'. lock_delta c l' = 0" and "\<And>r p l' u. opf_step c r p l' u = u"
  shows "quiet s (snd (ext_call L c s))"
  using assms by (simp add: quiet_def fun_eq_iff)

lemma lock_step:
  assumes "sound L l s"
  shows "g_sai_db (snd (ctc_sai_db_lock L l s)) = g_sai_db s" "sound L l (snd (ctc_sai_db_lock L l s))"
    "obj_map L l (snd (ctc_sai_db_lock L l s)) = obj_map L l s"
  using assms sound_frame [of "snd (ctc_sai_db_lock L l s)" s] obj_map_frame [of "snd (ctc_sai_db_lock L l s)" s]
  by simp_all

text \<open>A section between a lock and an unlock of the chip is quiet when what it brackets is.\<close>

lemma lock_section:
  assumes s: "sound L l s" and s2: "sound L l s2" and q: "quiet (snd (ctc_sai_db_lock L l s)) s2"
  shows "quiet s (snd (ctc_sai_db_unlock L l s2))"
    and "sound L l (snd (ctc_sai_db_unlock L l s2))"
    and "obj_map L l (snd (ctc_sai_db_unlock L l s2)) = obj_map L l s2"
    and "g_sai_db (snd (ctc_sai_db_unlock L l s2)) = g_sai_db s2"
proof -
  have "chip_inv L l s" "chip_inv L l s2" using s s2 by (simp_all add: sound_def)
  then show "quiet s (snd (ctc_sai_db_unlock L l s2))"
    using q by (simp add: quiet_def fun_eq_iff lock_depth_lock)
qed (use s2 sound_frame [of "snd (ctc_sai_db_unlock L l s2)" s2] obj_map_frame [of "snd (ctc_sai_db_unlock L l s2)" s2]
    in simp_all)

lemma lock_section_depth:
  assumes s: "sound L l s" and s2: "sound L l s2"
    and q: "lock_depth (trace s2) = lock_depth (trace (snd (ctc_sai_db_lock L l s)))"
  shows "lock_depth (trace (snd (ctc_sai_db_unlock L l s2))) = lock_depth (trace s)"
proof -
  have "chip_inv L l s" "chip_inv L l s2" using s s2 by (simp_all add: sound_def)
  then show ?thesis using q by (simp add: fun_eq_iff lock_depth_lock)
qed

lemma malloc_step [simp]:
  "g_sai_db (snd (mem_malloc L s)) = g_sai_db s" "quiet s (snd (mem_malloc L s))"
  by (simp_all add: quiet_def mem_malloc_def Let_def case_prod_beta fun_eq_iff)

context ctc_lib_laws
begin

lemma alloc_step:
  assumes "ctc_sai_db_alloc_id L l p s = ((st, v), s')"
  shows "st = SAI_STATUS_SUCCESS \<or> st < 0" "g_sai_db s' = g_sai_db s" "fault s' = fault s"
    "lock_depth (trace s') = lock_depth (trace s)"
    "st = SAI_STATUS_SUCCESS \<Longrightarrow> out_or 0 v \<notin> set (opf_used (trace s) p l)"
    "st = SAI_STATUS_SUCCESS \<Longrightarrow> opf_used (trace s') p l = out_or 0 v # opf_used (trace s) p l"
  using assms alloc_id_status [OF assms] id_ops_frame(1-3) [of L l p s] alloc_free(1,2) [of l p s v s']
  by (auto simp: less_le)

lemma add_step:
  assumes s: "sound L l s" and fits: "data_fits (oid_type oid) d"
    and run: "ctc_sai_db_add_object_property L l oid (Some d) s = (st, s')"
  shows "st = SAI_STATUS_SUCCESS \<or> st < 0" "sound L l s'" "quiet s s'"
    "st \<noteq> SAI_STATUS_SUCCESS \<Longrightarrow> g_sai_db s' = g_sai_db s"
    "st = SAI_STATUS_SUCCESS \<Longrightarrow> obj_map L l s oid = None"
    "st = SAI_STATUS_SUCCESS \<Longrightarrow> obj_map L l s' = (obj_map L l s)(oid \<mapsto> d)"
proof -
  have inv: "chip_inv L l s" and typed: "chip_typed L l s" using s by (simp_all add: sound_def)
  have f: "fst (ctc_sai_db_add_object_property L l oid (Some d) s) = st"
    "snd (ctc_sai_db_add_object_property L l oid (Some d) s) = s'" using run by simp_all
  show "st = SAI_STATUS_SUCCESS \<or> st < 0"
    using run by (auto simp: add_object_cases [OF inv] split: option.splits if_splits)
  show "quiet s s'" using f(2) add_object_trace [of l oid "Some d" s] by (auto simp: quiet_def fun_eq_iff)
  show db: "g_sai_db s' = g_sai_db s" if "st \<noteq> SAI_STATUS_SUCCESS"
    using add_object_refused [OF inv, of oid d] that f by simp
  show "obj_map L l s oid = None" if "st = SAI_STATUS_SUCCESS"
    using run that by (auto simp: obj_map_def add_object_cases [OF inv] split: option.splits if_splits)
  show o: "obj_map L l s' = (obj_map L l s)(oid \<mapsto> d)" if "st = SAI_STATUS_SUCCESS"
    using add_object_get [OF inv, of oid d] that f by (auto simp: fun_eq_iff obj_map_def)
  show "sound L l s'"
  proof (cases "st = SAI_STATUS_SUCCESS")
    case True
    have "chip_inv L l s'" using add_object_inv [OF inv, of oid d] f by simp
    then show ?thesis using typed fits by (auto simp: sound_def chip_typed_def obj_map_get o [OF True] split: if_splits)
  next
    case False
    then show ?thesis using s sound_frame [OF db] by simp
  qed
qed

lemma remove_step:
  assumes s: "sound L l s" and ex: "obj_map L l s oid \<noteq> None"
  shows "sound L l (snd (ctc_sai_db_remove_object_property L l oid s))"
    "quiet s (snd (ctc_sai_db_remove_object_property L l oid s))"
    "obj_map L l (snd (ctc_sai_db_remove_object_property L l oid s)) = (obj_map L l s)(oid := None)"
proof -
  have inv: "chip_inv L l s" and typed: "chip_typed L l s" using s by (simp_all add: sound_def)
  note get = remove_object_get [OF inv get_Some_valid [OF ex [unfolded obj_map_def]]]
  show "sound L l (snd (ctc_sai_db_remove_object_property L l oid s))"
    using remove_object_inv [OF inv] typed by (auto simp: sound_def chip_typed_def get)
  show "quiet s (snd (ctc_sai_db_remove_object_property L l oid s))" by (simp add: quiet_def remove_object_trace)
  show "obj_map L l (snd (ctc_sai_db_remove_object_property L l oid s)) = (obj_map L l s)(oid := None)"
    by (simp add: fun_eq_iff obj_map_def get)
qed

text \<open>A removal whose status nobody reads: the object is gone afterwards, whether it was there or not.\<close>

lemma discard_step:
  assumes s: "sound L l s"
  shows "sound L l (snd (ctc_sai_db_remove_object_property L l oid s))"
    "quiet s (snd (ctc_sai_db_remove_object_property L l oid s))"
    "obj_map L l (snd (ctc_sai_db_remove_object_property L l oid s)) = (obj_map L l s)(oid := None)"
proof -
  have inv: "chip_inv L l s" and typed: "chip_typed L l s" using s by (simp_all add: sound_def)
  show m: "obj_map L l (snd (ctc_sai_db_remove_object_property L l oid s)) = (obj_map L l s)(oid := None)"
  proof (cases "oid_valid oid")
    case True
    then show ?thesis by (simp add: fun_eq_iff obj_map_def remove_object_get [OF inv])
  next
    case False
    then have "snd (ctc_sai_db_remove_object_property L l oid s) = s"
      by (simp add: remove_object_cases [OF inv] split: option.splits)
    moreover have "obj_map L l s oid = None"
      using get_Some_valid [where l = l and oid = oid and s = s] False unfolding obj_map_def by blast
    ultimately show ?thesis by (simp add: fun_eq_iff)
  qed
  show "sound L l (snd (ctc_sai_db_remove_object_property L l oid s))"
    using remove_object_inv [OF inv] typed by (auto simp: sound_def chip_typed_def obj_map_get m split: if_splits)
  show "quiet s (snd (ctc_sai_db_remove_object_property L l oid s))" by (simp add: quiet_def remove_object_trace)
qed

lemma store_step:
  assumes s: "sound L l s" and ex: "obj_map L l s oid \<noteq> None" and fits: "data_fits (oid_type oid) d"
  shows "sound L l (object_store L l oid d s)" "quiet s (object_store L l oid d s)"
    "obj_map L l (object_store L l oid d s) = (obj_map L l s)(oid \<mapsto> d)"
proof -
  have inv: "chip_inv L l s" and typed: "chip_typed L l s" using s by (simp_all add: sound_def)
  have fr: "frame_on L l {oid} s (object_store L l oid d s)"
    by (rule object_store_frame) (use inv typed ex fits in \<open>auto simp: obj_map_def\<close>)
  show "sound L l (object_store L l oid d s)" using fr by (simp add: sound_def frame_on_def)
  show "quiet s (object_store L l oid d s)" using fr by (simp add: quiet_def frame_on_def fun_eq_iff)
  show "obj_map L l (object_store L l oid d s) = (obj_map L l s)(oid \<mapsto> d)"
    using store_object_get(1) [OF inv ex [unfolded obj_map_def]] by (simp add: fun_eq_iff obj_map_def)
qed

end

lemma free_step:
  "g_sai_db (snd (ctc_sai_db_free_id L l p i s)) = g_sai_db s"
  "fault (snd (ctc_sai_db_free_id L l p i s)) = fault s"
  "lock_depth (trace (snd (ctc_sai_db_free_id L l p i s))) = lock_depth (trace s)"
  by simp_all

text \<open>Identifiers made for a chip are read back to it, and a type of the object table makes them valid.\<close>

lemma created_lchip:
  assumes "sound L l s"
  shows "ctc_sai_oid_get_lchip (inited s) (ctc_sai_create_object_id t l b v2 v) = (SAI_STATUS_SUCCESS, Some l)"
proof -
  have l: "l < CTC_SAI_MAX_CHIP_NUM" "inited s l" using sound_chip [OF assms] by simp_all
  have "(ucast (ucast l :: 6 word) :: u8) = l"
    by (rule ucast_field_back(1)) (use l in \<open>simp add: CTC_SAI_MAX_CHIP_NUM_def word_less_nat_alt\<close>)
  then show ?thesis
    using l by (simp add: ctc_sai_oid_get_lchip_def ctc_sai_get_ctc_object_id_def create_fields not_le [symmetric])
qed

section \<open>For the samples\<close>

definition ref_attr :: "u32 \<Rightarrow> 64 word \<Rightarrow> sai_attribute" where
  "ref_attr i v = \<lparr>attr_id = i, attr_value = \<lparr>raw = ucast v, objs = []\<rparr>\<rparr>"

lemma ref_state_sound: "sound ref_lib 0 ref_state"
  using ref_state_ok ref_state_typed by (simp add: sound_def chip_inv_def inited_def ref_state_def)

lemma run_state: "fst r = x \<Longrightarrow> \<exists>s. r = (x, s)"
  by (cases r) simp

end
