(* ===== verification/SAI_Counter.thy ===== *)
theory SAI_Counter
  imports SAI_Store
begin

text \<open>
  The counter module (\<^verbatim>\<open>centec/src/ctc_sai_counter.c\<close>). A counter object is idle until another module
  binds it (\<^verbatim>\<open>ctc_sai_counter_id_create\<close>), which takes a statistics identifier of the device; only an
  idle counter may be removed. The operations are modelled first; then the life of a counter is an
  abstract state machine, which every sequence of operations refines.
\<close>

section \<open>Constants\<close>

abbreviation (input) CTC_SAI_COUNTER_TYPE_ROUTE :: nat where "CTC_SAI_COUNTER_TYPE_ROUTE \<equiv> 0"
abbreviation (input) CTC_SAI_COUNTER_TYPE_NEXTHOP :: nat where "CTC_SAI_COUNTER_TYPE_NEXTHOP \<equiv> 1"
abbreviation (input) CTC_SAI_COUNTER_TYPE_NEXTHOP_MPLS_PW :: nat where
  "CTC_SAI_COUNTER_TYPE_NEXTHOP_MPLS_PW \<equiv> 2"
abbreviation (input) CTC_SAI_COUNTER_TYPE_NEXTHOP_MPLS_LSP :: nat where
  "CTC_SAI_COUNTER_TYPE_NEXTHOP_MPLS_LSP \<equiv> 3"
abbreviation (input) CTC_SAI_COUNTER_TYPE_ECMP :: nat where "CTC_SAI_COUNTER_TYPE_ECMP \<equiv> 4"
abbreviation (input) CTC_SAI_COUNTER_TYPE_TUNNEL_IGS :: nat where "CTC_SAI_COUNTER_TYPE_TUNNEL_IGS \<equiv> 5"
abbreviation (input) CTC_SAI_COUNTER_TYPE_TUNNEL_EGS :: nat where "CTC_SAI_COUNTER_TYPE_TUNNEL_EGS \<equiv> 6"
abbreviation (input) CTC_SAI_COUNTER_TYPE_HOSTIF :: nat where "CTC_SAI_COUNTER_TYPE_HOSTIF \<equiv> 7"
abbreviation (input) CTC_SAI_COUNTER_TYPE_MAX :: nat where "CTC_SAI_COUNTER_TYPE_MAX \<equiv> 8"
abbreviation (input) SAI_COUNTER_ATTR_TYPE :: u32 where "SAI_COUNTER_ATTR_TYPE \<equiv> 0"
abbreviation (input) SAI_COUNTER_TYPE_REGULAR :: u32 where "SAI_COUNTER_TYPE_REGULAR \<equiv> 0"
abbreviation (input) SAI_COUNTER_STAT_PACKETS :: u32 where "SAI_COUNTER_STAT_PACKETS \<equiv> 0"
abbreviation (input) SAI_COUNTER_STAT_BYTES :: u32 where "SAI_COUNTER_STAT_BYTES \<equiv> 1"
abbreviation (input) SAI_STATS_MODE_READ :: nat where "SAI_STATS_MODE_READ \<equiv> 0"

text \<open>The two halves of \<^verbatim>\<open>statsinfo\<close> that a trap counter uses.\<close>

definition cnt_queue_id :: "ctc_sai_counter \<Rightarrow> u16" where "cnt_queue_id c = ucast (cnt_statsinfo c)"
definition cnt_cpu_reason :: "ctc_sai_counter \<Rightarrow> u16" where
  "cnt_cpu_reason c = ucast (drop_bit 16 (cnt_statsinfo c))"
definition hostif_queue :: "u16 \<Rightarrow> u16 \<Rightarrow> u32" where
  "hostif_queue reason queue = push_bit 16 (ucast reason) OR ucast queue"

section \<open>Database records\<close>

definition counter_build_db ::
    "('o, 'e, 'v) ctc_lib \<Rightarrow> u8 \<Rightarrow> sai_object_id \<Rightarrow> ('o, 'e, 'v) sai_state \<Rightarrow>
     sai_status \<times> ('o, 'e, 'v) sai_state" where
  "counter_build_db L l oid s =
     (let (ok, s) = mem_malloc L s in
      if \<not> ok then (SAI_STATUS_NO_MEMORY, s)
      else
        let (st, s) = ctc_sai_db_add_object_property L l oid
              (Some (CounterData \<lparr>cnt_counter_type = 0, cnt_ctc_type = 0, cnt_is_trap = 0, cnt_statsinfo = 0\<rparr>)) s in
        if CTC_SAI_ERROR st then (st, s) else (SAI_STATUS_SUCCESS, s))"

definition counter_remove_db ::
    "('o, 'e, 'v) ctc_lib \<Rightarrow> u8 \<Rightarrow> sai_object_id \<Rightarrow> ('o, 'e, 'v) sai_state \<Rightarrow>
     sai_status \<times> ('o, 'e, 'v) sai_state" where
  "counter_remove_db L l oid s =
     (case ctc_sai_db_get_object_property L l oid s of
        None \<Rightarrow> (SAI_STATUS_ITEM_NOT_FOUND, s)
      | Some _ \<Rightarrow> (SAI_STATUS_SUCCESS, snd (ctc_sai_db_remove_object_property L l oid s)))"

definition counter_create_attr_check :: "u32 \<Rightarrow> sai_attribute list option \<Rightarrow> sai_status" where
  "counter_create_attr_check attr_count as =
     (case ctc_sai_find_attrib_in_list attr_count as SAI_COUNTER_ATTR_TYPE of
        (st, Some (v, i)) \<Rightarrow>
          if u32data v \<noteq> SAI_COUNTER_TYPE_REGULAR then SAI_STATUS_INVALID_PARAMETER else SAI_STATUS_SUCCESS
      | (st, None) \<Rightarrow> SAI_STATUS_SUCCESS)"

section \<open>Attributes\<close>

definition counter_set_attr ::
    "('o, 'e, 'v) ctc_lib \<Rightarrow> sai_object_id \<Rightarrow> sai_attribute \<Rightarrow> ('o, 'e, 'v) sai_state \<Rightarrow>
     sai_status \<times> ('o, 'e, 'v) sai_state" where
  "counter_set_attr L oid a s =
     (let l = oid_lchip s oid in
      case ctc_sai_db_get_object_property L l oid s of
        None \<Rightarrow> (SAI_STATUS_ITEM_NOT_FOUND, s)
      | Some (CounterData c) \<Rightarrow>
          if attr_id a = SAI_COUNTER_ATTR_TYPE
          then (SAI_STATUS_SUCCESS,
                object_store L l oid (CounterData (c\<lparr>cnt_counter_type := u32data (attr_value a)\<rparr>)) s)
          else (SAI_STATUS_SUCCESS, s)
      | Some _ \<Rightarrow> (SAI_STATUS_SUCCESS, s\<lparr>fault := True\<rparr>))"

definition counter_get_attr ::
    "('o, 'e, 'v) ctc_lib \<Rightarrow> sai_object_id \<Rightarrow> sai_attribute \<Rightarrow> u32 \<Rightarrow> ('o, 'e, 'v) sai_state \<Rightarrow>
     (sai_status \<times> sai_attribute) \<times> ('o, 'e, 'v) sai_state" where
  "counter_get_attr L oid a idx s =
     (case ctc_sai_db_get_object_property L (oid_lchip s oid) oid s of
        None \<Rightarrow> ((SAI_STATUS_ITEM_NOT_FOUND, a), s)
      | Some (CounterData c) \<Rightarrow>
          if attr_id a = SAI_COUNTER_ATTR_TYPE then ((SAI_STATUS_SUCCESS, set_u32 (cnt_counter_type c) a), s)
          else ((SAI_STATUS_NOT_SUPPORTED, a), s)
      | Some _ \<Rightarrow> ((SAI_STATUS_SUCCESS, a), s\<lparr>fault := True\<rparr>))"

definition counter_attr_fn_entries ::
    "('o, 'e, 'v) ctc_lib \<Rightarrow> (sai_object_id, ('o, 'e, 'v) sai_state) attr_fn list" where
  "counter_attr_fn_entries L =
     [\<lparr> fn_id = SAI_COUNTER_ATTR_TYPE, fn_get = Some (counter_get_attr L), fn_set = Some (counter_set_attr L) \<rparr>]"

text \<open>
  This table, unlike every other one, lacks its end marker, so the search for any other attribute
  reads past the array.
\<close>

definition counter_table_overrun :: "sai_attribute option \<Rightarrow> bool" where
  "counter_table_overrun a = (case a of None \<Rightarrow> False | Some a \<Rightarrow> attr_id a \<noteq> SAI_COUNTER_ATTR_TYPE)"

definition counter_wb_reload_cb ::
    "('o, 'e, 'v) ctc_lib \<Rightarrow> u8 \<Rightarrow> sai_object_id \<Rightarrow> ('o, 'e, 'v) sai_state \<Rightarrow>
     sai_status \<times> ('o, 'e, 'v) sai_state" where
  "counter_wb_reload_cb L l oid s =
     (let c = snd (ctc_sai_get_ctc_object_id SAI_OBJECT_TYPE_NULL oid);
          (st, s) = ctc_sai_db_alloc_id_from_position L l CTC_SAI_DB_ID_TYPE_COUNTER (o_value c) s in
      if status_leaves st then (st, s) else (SAI_STATUS_SUCCESS, s))"

section \<open>Binding a counter to another object\<close>

definition ctc_sai_counter_id_hostif_trap_create ::
    "('o, 'e, 'v) ctc_lib \<Rightarrow> sai_object_id \<Rightarrow> nat \<Rightarrow> u16 \<Rightarrow> u16 \<Rightarrow> ('o, 'e, 'v) sai_state \<Rightarrow>
     sai_status \<times> ('o, 'e, 'v) sai_state" where
  "ctc_sai_counter_id_hostif_trap_create L oid counter_type cpu_reason queue_id s =
     (case ctc_sai_oid_get_lchip (inited s) oid of
        (st, None) \<Rightarrow> (st, s)
      | (st, Some l) \<Rightarrow>
          (case ctc_sai_db_get_object_property L l oid s of
             None \<Rightarrow> (SAI_STATUS_ITEM_NOT_FOUND, s)
           | Some (CounterData c) \<Rightarrow>
               (SAI_STATUS_SUCCESS,
                object_store L l oid (CounterData (c\<lparr>cnt_counter_type := of_nat counter_type,
                  cnt_statsinfo := hostif_queue cpu_reason queue_id\<rparr>)) s)
           | Some _ \<Rightarrow> (SAI_STATUS_SUCCESS, s\<lparr>fault := True\<rparr>)))"

definition ctc_sai_counter_id_hostif_trap_remove ::
    "('o, 'e, 'v) ctc_lib \<Rightarrow> sai_object_id \<Rightarrow> nat \<Rightarrow> ('o, 'e, 'v) sai_state \<Rightarrow>
     sai_status \<times> ('o, 'e, 'v) sai_state" where
  "ctc_sai_counter_id_hostif_trap_remove L oid counter_type s =
     (case ctc_sai_oid_get_lchip (inited s) oid of
        (st, None) \<Rightarrow> (st, s)
      | (st, Some l) \<Rightarrow>
          (case ctc_sai_db_get_object_property L l oid s of
             None \<Rightarrow> (SAI_STATUS_ITEM_NOT_FOUND, s)
           | Some (CounterData c) \<Rightarrow>
               (SAI_STATUS_SUCCESS,
                object_store L l oid (CounterData (c\<lparr>cnt_counter_type := of_nat CTC_SAI_COUNTER_TYPE_MAX,
                  cnt_statsinfo := hostif_queue 0 0\<rparr>)) s)
           | Some _ \<Rightarrow> (SAI_STATUS_SUCCESS, s\<lparr>fault := True\<rparr>)))"

text \<open>
  The kind of statistics a counter type asks the device for. For any other type the two fields of
  the local structure are never written.
\<close>

definition counter_statsid :: "nat \<Rightarrow> (stats_type \<times> ctc_dir) option" where
  "counter_statsid counter_type =
     (if counter_type = CTC_SAI_COUNTER_TYPE_ROUTE then Some (STATSID_IP, CTC_INGRESS)
      else if counter_type = CTC_SAI_COUNTER_TYPE_NEXTHOP then Some (STATSID_NEXTHOP, CTC_EGRESS)
      else if counter_type = CTC_SAI_COUNTER_TYPE_NEXTHOP_MPLS_PW then Some (STATSID_MPLS_PW, CTC_EGRESS)
      else if counter_type = CTC_SAI_COUNTER_TYPE_NEXTHOP_MPLS_LSP then Some (STATSID_MPLS_LSP, CTC_EGRESS)
      else if counter_type = CTC_SAI_COUNTER_TYPE_ECMP then Some (STATSID_ECMP, CTC_INGRESS)
      else if counter_type = CTC_SAI_COUNTER_TYPE_TUNNEL_IGS then Some (STATSID_TUNNEL, CTC_INGRESS)
      else if counter_type = CTC_SAI_COUNTER_TYPE_TUNNEL_EGS then Some (STATSID_TUNNEL, CTC_EGRESS)
      else None)"

definition ctc_sai_counter_id_create ::
    "('o, 'e, 'v) ctc_lib \<Rightarrow> sai_object_id \<Rightarrow> nat \<Rightarrow> ('o, 'e, 'v) sai_state \<Rightarrow>
     (sai_status \<times> u32 option) \<times> ('o, 'e, 'v) sai_state" where
  "ctc_sai_counter_id_create L oid counter_type s =
     (case ctc_sai_oid_get_lchip (inited s) oid of
        (st, None) \<Rightarrow> ((st, None), s)
      | (st, Some l) \<Rightarrow>
          (case ctc_sai_db_get_object_property L l oid s of
             None \<Rightarrow> ((SAI_STATUS_ITEM_NOT_FOUND, None), s)
           | Some (CounterData c) \<Rightarrow>
               (let (e, s) = ext_call L (StatsCreate l (counter_statsid counter_type)) s;
                    rv = ctc_sai_mapping_error_ctc L (rc e);
                    stats_id = ucast (out_val 0 e) in
                if status_leaves rv then ((rv, None), s)
                else ((SAI_STATUS_SUCCESS, Some stats_id),
                      object_store L l oid
                        (CounterData (c\<lparr>cnt_statsinfo := stats_id, cnt_ctc_type := counter_type\<rparr>)) s))
           | Some _ \<Rightarrow> ((SAI_STATUS_SUCCESS, None), s\<lparr>fault := True\<rparr>)))"

definition ctc_sai_counter_id_remove ::
    "('o, 'e, 'v) ctc_lib \<Rightarrow> sai_object_id \<Rightarrow> nat \<Rightarrow> ('o, 'e, 'v) sai_state \<Rightarrow>
     sai_status \<times> ('o, 'e, 'v) sai_state" where
  "ctc_sai_counter_id_remove L oid counter_type s =
     (if oid = SAI_NULL_OBJECT_ID then (SAI_STATUS_SUCCESS, s)
      else if counter_type = CTC_SAI_COUNTER_TYPE_HOSTIF then (SAI_STATUS_NOT_SUPPORTED, s)
      else case ctc_sai_oid_get_lchip (inited s) oid of
        (st, None) \<Rightarrow> (st, s)
      | (st, Some l) \<Rightarrow>
          (case ctc_sai_db_get_object_property L l oid s of
             None \<Rightarrow> (SAI_STATUS_ITEM_NOT_FOUND, s)
           | Some (CounterData c) \<Rightarrow>
               (let (e, s) = ext_call L (StatsDestroy l (cnt_statsinfo c)) s;
                    rv = ctc_sai_mapping_error_ctc L (rc e) in
                if status_leaves rv then (rv, s)
                else (SAI_STATUS_SUCCESS,
                      object_store L l oid
                        (CounterData (c\<lparr>cnt_statsinfo := 0, cnt_ctc_type := CTC_SAI_COUNTER_TYPE_MAX\<rparr>)) s))
           | Some _ \<Rightarrow> (SAI_STATUS_SUCCESS, s\<lparr>fault := True\<rparr>)))"

section \<open>The SAI entry points\<close>

text \<open>
  The status of the search for the optional type attribute is the status of the whole call, so a
  counter created without it is returned together with \<^verbatim>\<open>ITEM_NOT_FOUND\<close>.
\<close>

definition ctc_sai_counter_create_counter ::
    "('o, 'e, 'v) ctc_lib \<Rightarrow> bool \<Rightarrow> sai_object_id \<Rightarrow> u32 \<Rightarrow> sai_attribute list option \<Rightarrow>
     ('o, 'e, 'v) sai_state \<Rightarrow> (sai_status \<times> sai_object_id option) \<times> ('o, 'e, 'v) sai_state" where
  "ctc_sai_counter_create_counter L null_out switch_id attr_count as s =
     (if null_out then ((SAI_STATUS_INVALID_PARAMETER, None), s)
      else case ctc_sai_oid_get_lchip (inited s) switch_id of
        (st, None) \<Rightarrow> ((st, None), s)
      | (st, Some l) \<Rightarrow>
          if status_leaves (counter_create_attr_check attr_count as)
          then ((counter_create_attr_check attr_count as, None), s)
          else
            (let s = snd (ctc_sai_db_lock L l s);
                 unlock = (\<lambda>s. snd (ctc_sai_db_unlock L l s));
                 ((st, v), s) = ctc_sai_db_alloc_id L l CTC_SAI_DB_ID_TYPE_COUNTER s;
                 stats_id = out_or 0 v in
             if status_leaves st then ((st, None), unlock s)
             else
               let oid = ctc_sai_create_object_id SAI_OBJECT_TYPE_COUNTER l 0 0 stats_id;
                   (st, s) = counter_build_db L l oid s in
               if status_leaves st then
                 ((st, None), unlock (snd (ctc_sai_db_free_id L l CTC_SAI_DB_ID_TYPE_COUNTER stats_id s)))
               else
                 let (st, found) = ctc_sai_find_attrib_in_list attr_count as SAI_COUNTER_ATTR_TYPE;
                     ct = (case found of Some (v, i) \<Rightarrow> u32data v | None \<Rightarrow> 0);
                     s = object_store L l oid (CounterData \<lparr>cnt_counter_type = ct,
                           cnt_ctc_type = CTC_SAI_COUNTER_TYPE_MAX, cnt_is_trap = 0, cnt_statsinfo = 0\<rparr>) s in
                 ((st, Some oid), unlock s)))"

text \<open>Two of the exits of a removal do not release the lock of the chip.\<close>

definition ctc_sai_counter_remove_counter ::
    "('o, 'e, 'v) ctc_lib \<Rightarrow> sai_object_id \<Rightarrow> ('o, 'e, 'v) sai_state \<Rightarrow>
     sai_status \<times> ('o, 'e, 'v) sai_state" where
  "ctc_sai_counter_remove_counter L oid s =
     (case ctc_sai_oid_get_lchip (inited s) oid of
        (st, None) \<Rightarrow> (st, s)
      | (st, Some l) \<Rightarrow>
          (let s = snd (ctc_sai_db_lock L l s) in
           case ctc_sai_db_get_object_property L l oid s of
             None \<Rightarrow> (SAI_STATUS_ITEM_NOT_FOUND, s)
           | Some (CounterData c) \<Rightarrow>
               if cnt_ctc_type c \<noteq> CTC_SAI_COUNTER_TYPE_MAX then (SAI_STATUS_OBJECT_IN_USE, s)
               else
                 (let cnt_id = out_or 0 (snd (ctc_sai_oid_get_counter_id oid));
                      (st, s) = ctc_sai_db_free_id L l CTC_SAI_DB_ID_TYPE_COUNTER cnt_id s in
                  if status_leaves st then (st, snd (ctc_sai_db_unlock L l s))
                  else
                    let (st, s) = counter_remove_db L l oid s in
                    (st, snd (ctc_sai_db_unlock L l s)))
           | Some _ \<Rightarrow> (SAI_STATUS_SUCCESS, s\<lparr>fault := True\<rparr>)))"

definition ctc_sai_counter_set_counter_attribute ::
    "('o, 'e, 'v) ctc_lib \<Rightarrow> sai_object_id \<Rightarrow> sai_attribute option \<Rightarrow> ('o, 'e, 'v) sai_state \<Rightarrow>
     sai_status \<times> ('o, 'e, 'v) sai_state" where
  "ctc_sai_counter_set_counter_attribute L oid a s =
     (case ctc_sai_oid_get_lchip (inited s) oid of
        (st, None) \<Rightarrow> (st, s)
      | (st, Some l) \<Rightarrow>
          (let s = snd (ctc_sai_db_lock L l s);
               (st, s) = ctc_sai_set_attribute oid SAI_OBJECT_TYPE_COUNTER
                           (Some (counter_attr_fn_entries L)) a s;
               s = (if counter_table_overrun a then s\<lparr>fault := True\<rparr> else s) in
           (st, snd (ctc_sai_db_unlock L l s))))"

definition counter_get_body ::
    "('o, 'e, 'v) ctc_lib \<Rightarrow> sai_object_id \<Rightarrow> u8 \<Rightarrow> sai_status \<times> sai_attribute list \<times> ('o, 'e, 'v) sai_state \<Rightarrow>
     bool \<times> sai_status \<times> sai_attribute list \<times> ('o, 'e, 'v) sai_state" where
  "counter_get_body L oid i x =
     (case x of (st, as, s) \<Rightarrow>
      if unat i < length as \<and> counter_table_overrun (Some (as ! unat i)) then (True, st, as, s\<lparr>fault := True\<rparr>)
      else get_attr_body oid SAI_OBJECT_TYPE_COUNTER (counter_attr_fn_entries L) i x)"

definition ctc_sai_counter_get_counter_attribute ::
    "('o, 'e, 'v) ctc_lib \<Rightarrow> sai_object_id \<Rightarrow> u32 \<Rightarrow> sai_attribute list \<Rightarrow> ('o, 'e, 'v) sai_state \<Rightarrow>
     ((sai_status \<times> sai_attribute list) \<times> ('o, 'e, 'v) sai_state) option" where
  "ctc_sai_counter_get_counter_attribute L oid attr_count as s =
     (case ctc_sai_oid_get_lchip (inited s) oid of
        (st, None) \<Rightarrow> Some ((st, as), s)
      | (st, Some l) \<Rightarrow>
          (case attr_loop (counter_get_body L oid) attr_count 0
             (SAI_STATUS_SUCCESS, as, snd (ctc_sai_db_lock L l s)) of
             None \<Rightarrow> None
           | Some (st, as, s) \<Rightarrow> Some ((st, as), snd (ctc_sai_db_unlock L l s))))"

section \<open>Statistics\<close>

text \<open>
  What the loops over the wanted statistics write to the caller's array, which has at least as many
  elements; an unknown statistic leaves the loop with the rest of the array untouched.
\<close>

fun counter_stats_loop :: "u64 \<Rightarrow> u64 \<Rightarrow> u32 list \<Rightarrow> u64 list \<Rightarrow> sai_status \<times> u64 list" where
  "counter_stats_loop packets bytes [] out = (SAI_STATUS_SUCCESS, out)"
| "counter_stats_loop packets bytes (i # ids) out =
     (if i = SAI_COUNTER_STAT_PACKETS then
        (let (st, rest) = counter_stats_loop packets bytes ids (tl out) in (st, packets # rest))
      else if i = SAI_COUNTER_STAT_BYTES then
        (let (st, rest) = counter_stats_loop packets bytes ids (tl out) in (st, bytes # rest))
      else (SAI_STATUS_INVALID_PARAMETER, out))"

text \<open>
  The two readings share everything but the refused mode and what the query structure of a trap
  queue holds besides the queue: it is cleared by one of them only.
\<close>

definition counter_read_stats ::
    "('o, 'e, 'v) ctc_lib \<Rightarrow> u8 \<Rightarrow> u32 \<Rightarrow> ctc_sai_counter \<Rightarrow> u32 list \<Rightarrow> u64 list \<Rightarrow>
     ('o, 'e, 'v) sai_state \<Rightarrow> (sai_status \<times> u64 list) \<times> ('o, 'e, 'v) sai_state" where
  "counter_read_stats L l rest c ids counters s =
     (if cnt_ctc_type c < CTC_SAI_COUNTER_TYPE_HOSTIF then
        (let (e, s) = ext_call L (StatsGet l (cnt_statsinfo c)) s;
             rv = ctc_sai_mapping_error_ctc L (rc e) in
         if status_leaves rv then ((rv, counters), s)
         else (counter_stats_loop (out_val 0 e) (out_val 1 e) ids counters, s))
      else if cnt_ctc_type c = CTC_SAI_COUNTER_TYPE_HOSTIF then
        (let (e, s) = ext_call L (QueueStatsQuery l (cnt_queue_id c) (cnt_cpu_reason c) rest) s;
             rv = ctc_sai_mapping_error_ctc L (rc e) in
         if status_leaves rv then ((rv, counters), s)
         else (counter_stats_loop (out_val 0 e) (out_val 1 e) ids counters, s))
      else ((SAI_STATUS_NOT_SUPPORTED, counters), s))"

definition ctc_sai_counter_get_counter_stats ::
    "('o, 'e, 'v) ctc_lib \<Rightarrow> sai_object_id \<Rightarrow> u32 \<Rightarrow> u32 list \<Rightarrow> u64 list \<Rightarrow> ('o, 'e, 'v) sai_state \<Rightarrow>
     (sai_status \<times> u64 list) \<times> ('o, 'e, 'v) sai_state" where
  "ctc_sai_counter_get_counter_stats L oid number_of_counters counter_ids counters s =
     (case ctc_sai_oid_get_lchip (inited s) oid of
        (st, None) \<Rightarrow> ((st, counters), s)
      | (st, Some l) \<Rightarrow>
          (case ctc_sai_db_get_object_property L l oid s of
             None \<Rightarrow> ((SAI_STATUS_ITEM_NOT_FOUND, counters), s)
           | Some (CounterData c) \<Rightarrow>
               counter_read_stats L l 0 c (take (unat number_of_counters) counter_ids) counters s
           | Some _ \<Rightarrow> ((SAI_STATUS_SUCCESS, counters), s\<lparr>fault := True\<rparr>)))"

definition ctc_sai_counter_get_counter_stats_ext ::
    "('o, 'e, 'v) ctc_lib \<Rightarrow> sai_object_id \<Rightarrow> u32 \<Rightarrow> u32 list \<Rightarrow> nat \<Rightarrow> u64 list \<Rightarrow> ('o, 'e, 'v) sai_state \<Rightarrow>
     (sai_status \<times> u64 list) \<times> ('o, 'e, 'v) sai_state" where
  "ctc_sai_counter_get_counter_stats_ext L oid number_of_counters counter_ids mode counters s =
     (case ctc_sai_oid_get_lchip (inited s) oid of
        (st, None) \<Rightarrow> ((st, counters), s)
      | (st, Some l) \<Rightarrow>
          (case ctc_sai_db_get_object_property L l oid s of
             None \<Rightarrow> ((SAI_STATUS_ITEM_NOT_FOUND, counters), s)
           | Some (CounterData c) \<Rightarrow>
               if mode = SAI_STATS_MODE_READ then ((SAI_STATUS_NOT_SUPPORTED, counters), s)
               else counter_read_stats L l (stack_junk L 0) c (take (unat number_of_counters) counter_ids) counters s
           | Some _ \<Rightarrow> ((SAI_STATUS_SUCCESS, counters), s\<lparr>fault := True\<rparr>)))"

definition counter_ids_known :: "u32 list \<Rightarrow> bool" where
  "counter_ids_known ids = list_all (\<lambda>i. i = SAI_COUNTER_STAT_PACKETS \<or> i = SAI_COUNTER_STAT_BYTES) ids"

definition ctc_sai_counter_clear_counter_stats ::
    "('o, 'e, 'v) ctc_lib \<Rightarrow> sai_object_id \<Rightarrow> u32 \<Rightarrow> u32 list \<Rightarrow> ('o, 'e, 'v) sai_state \<Rightarrow>
     sai_status \<times> ('o, 'e, 'v) sai_state" where
  "ctc_sai_counter_clear_counter_stats L oid number_of_counters counter_ids s =
     (case ctc_sai_oid_get_lchip (inited s) oid of
        (st, None) \<Rightarrow> (st, s)
      | (st, Some l) \<Rightarrow>
          (case ctc_sai_db_get_object_property L l oid s of
             None \<Rightarrow> (SAI_STATUS_ITEM_NOT_FOUND, s)
           | Some (CounterData c) \<Rightarrow>
               (let ids = take (unat number_of_counters) counter_ids in
                if \<not> counter_ids_known ids then (SAI_STATUS_INVALID_PARAMETER, s)
                else if SAI_COUNTER_STAT_PACKETS \<in> set ids \<and> SAI_COUNTER_STAT_BYTES \<in> set ids then
                  (if cnt_ctc_type c = CTC_SAI_COUNTER_TYPE_ROUTE \<or> cnt_ctc_type c = CTC_SAI_COUNTER_TYPE_NEXTHOP then
                     (let (e, s) = ext_call L (StatsClear l (cnt_statsinfo c)) s;
                          rv = ctc_sai_mapping_error_ctc L (rc e) in
                      if status_leaves rv then (rv, s) else (SAI_STATUS_SUCCESS, s))
                   else if cnt_ctc_type c = CTC_SAI_COUNTER_TYPE_HOSTIF then
                     (let (e, s) = ext_call L
                            (QueueStatsClear l (cnt_queue_id c) (cnt_cpu_reason c) (stack_junk L 0)) s;
                          rv = ctc_sai_mapping_error_ctc L (rc e) in
                      if status_leaves rv then (rv, s) else (SAI_STATUS_SUCCESS, s))
                   else (SAI_STATUS_SUCCESS, s))
                else (SAI_STATUS_NOT_SUPPORTED, s))
           | Some _ \<Rightarrow> (SAI_STATUS_SUCCESS, s\<lparr>fault := True\<rparr>)))"

section \<open>The life of a counter, abstractly\<close>

text \<open>
  What a module may do to a counter, and the abstract machine: a counter is absent, idle, or bound
  with a type and a word of statistics information. A step has a status and the number of chip locks
  that it leaves held.
\<close>

datatype counter_op = BindOp nat | UnbindOp nat | TrapOp u16 u16 | DestroyOp

datatype counter_state = Absent | Idle | Bound nat u32

inductive counter_step :: "counter_op \<Rightarrow> counter_state \<Rightarrow> sai_status \<times> nat \<Rightarrow> counter_state \<Rightarrow> bool" where
  bind: "a \<noteq> Absent \<Longrightarrow> counter_step (BindOp t) a (SAI_STATUS_SUCCESS, 0) (Bound t i)"
| unbind: "a \<noteq> Absent \<Longrightarrow> t \<noteq> CTC_SAI_COUNTER_TYPE_HOSTIF \<Longrightarrow>
    counter_step (UnbindOp t) a (SAI_STATUS_SUCCESS, 0) Idle"
| refused: "st < 0 \<Longrightarrow> op \<noteq> DestroyOp \<Longrightarrow> counter_step op a (st, 0) a"
| trap_idle: "counter_step (TrapOp r q) Idle (SAI_STATUS_SUCCESS, 0) Idle"
| trap_bound: "counter_step (TrapOp r q) (Bound t i) (SAI_STATUS_SUCCESS, 0) (Bound t (hostif_queue r q))"
| destroy: "counter_step DestroyOp Idle (SAI_STATUS_SUCCESS, 0) Absent"
| destroy_refused: "st < 0 \<Longrightarrow> counter_step DestroyOp Idle (st, 0) Idle"
| destroy_absent: "counter_step DestroyOp Absent (SAI_STATUS_ITEM_NOT_FOUND, 1) Absent"
| destroy_bound: "counter_step DestroyOp (Bound t i) (SAI_STATUS_OBJECT_IN_USE, 1) (Bound t i)"

inductive_cases counter_stepE: "counter_step op a lab a'"

inductive counter_steps ::
    "counter_op list \<Rightarrow> counter_state \<Rightarrow> (sai_status \<times> nat) list \<Rightarrow> counter_state \<Rightarrow> bool" where
  none: "counter_steps [] a [] a"
| more: "counter_step op a lab a' \<Longrightarrow> counter_steps ops a' labs a'' \<Longrightarrow>
    counter_steps (op # ops) a (lab # labs) a''"

text \<open>The operations of the code, and the abstract state of a counter in a state of the program.\<close>

definition counter_do ::
    "('o, 'e, 'v) ctc_lib \<Rightarrow> sai_object_id \<Rightarrow> counter_op \<Rightarrow> ('o, 'e, 'v) sai_state \<Rightarrow>
     sai_status \<times> ('o, 'e, 'v) sai_state" where
  "counter_do L oid op s =
     (case op of
        BindOp t \<Rightarrow> (let ((st, v), s) = ctc_sai_counter_id_create L oid t s in (st, s))
      | UnbindOp t \<Rightarrow> ctc_sai_counter_id_remove L oid t s
      | TrapOp r q \<Rightarrow> ctc_sai_counter_id_hostif_trap_create L oid CTC_SAI_COUNTER_TYPE_HOSTIF r q s
      | DestroyOp \<Rightarrow> ctc_sai_counter_remove_counter L oid s)"

fun counter_run ::
    "('o, 'e, 'v) ctc_lib \<Rightarrow> sai_object_id \<Rightarrow> counter_op list \<Rightarrow> ('o, 'e, 'v) sai_state \<Rightarrow>
     sai_status list \<times> ('o, 'e, 'v) sai_state" where
  "counter_run L oid [] s = ([], s)"
| "counter_run L oid (op # ops) s =
     (let (st, s) = counter_do L oid op s; (sts, s) = counter_run L oid ops s in (st # sts, s))"

definition counter_abs :: "('o, 'e, 'v) ctc_lib \<Rightarrow> u8 \<Rightarrow> sai_object_id \<Rightarrow> ('o, 'e, 'v) sai_state \<Rightarrow> counter_state" where
  "counter_abs L l oid s =
     (case ctc_sai_db_get_object_property L l oid s of
        Some (CounterData c) \<Rightarrow>
          if cnt_ctc_type c = CTC_SAI_COUNTER_TYPE_MAX then Idle else Bound (cnt_ctc_type c) (cnt_statsinfo c)
      | _ \<Rightarrow> Absent)"

fun counter_op_ok :: "counter_op \<Rightarrow> bool" where
  "counter_op_ok (BindOp t) = (t < CTC_SAI_COUNTER_TYPE_MAX)"
| "counter_op_ok _ = True"

text \<open>What relates a state of the program to the abstract machine, and what a run must keep.\<close>

definition counter_ready :: "('o, 'e, 'v) ctc_lib \<Rightarrow> u8 \<Rightarrow> sai_object_id \<Rightarrow> ('o, 'e, 'v) sai_state \<Rightarrow> bool" where
  "counter_ready L l oid s \<longleftrightarrow>
     chip_inv L l s \<and> chip_typed L l s \<and> oid_type oid = SAI_OBJECT_TYPE_COUNTER \<and>
     ctc_sai_oid_get_lchip (inited s) oid = (SAI_STATUS_SUCCESS, Some l)"

definition counter_sim ::
    "('o, 'e, 'v) ctc_lib \<Rightarrow> u8 \<Rightarrow> sai_object_id \<Rightarrow> nat \<Rightarrow> ('o, 'e, 'v) sai_state \<Rightarrow> ('o, 'e, 'v) sai_state \<Rightarrow> bool" where
  "counter_sim L l oid k s s' \<longleftrightarrow>
     counter_ready L l oid s' \<and> fault s' = fault s \<and>
     (\<forall>l'. lock_depth (trace s') l' = lock_depth (trace s) l' + (if l' = l then int k else 0)) \<and>
     (\<forall>oid'. oid' \<noteq> oid \<longrightarrow>
        ctc_sai_db_get_object_property L l oid' s' = ctc_sai_db_get_object_property L l oid' s)"

lemma counter_sim_trans:
  "counter_sim L l oid k s s1 \<Longrightarrow> counter_sim L l oid m s1 s2 \<Longrightarrow> counter_sim L l oid (k + m) s s2"
  by (auto simp: counter_sim_def)

lemma counter_sim_refl: "counter_ready L l oid s \<Longrightarrow> counter_sim L l oid 0 s s"
  by (simp add: counter_sim_def)

lemma counter_ready_frame:
  assumes "counter_ready L l oid s" and "g_sai_db s' = g_sai_db s"
  shows "counter_ready L l oid s'"
  using assms(1) unfolding counter_ready_def chip_frame_eqs [OF assms(2)] .

lemma counter_sim_same_db:
  assumes "counter_ready L l oid s" and "g_sai_db s' = g_sai_db s" "fault s' = fault s"
    and "\<And>l'. lock_depth (trace s') l' = lock_depth (trace s) l' + (if l' = l then int k else 0)"
  shows "counter_sim L l oid k s s'" and "counter_abs L l oid s' = counter_abs L l oid s"
  using assms(3,4) counter_ready_frame [OF assms(1,2)]
  by (auto simp: counter_sim_def counter_abs_def chip_frame_eqs(3) [OF assms(2)])

lemma counter_data:
  assumes "counter_ready L l oid s" and "ctc_sai_db_get_object_property L l oid s = Some d"
  obtains c where "d = CounterData c"
proof -
  have "data_fits SAI_OBJECT_TYPE_COUNTER d"
    using assms unfolding counter_ready_def chip_typed_def by metis
  then show ?thesis using that by (cases d) auto
qed

lemma counter_get_cases:
  assumes "counter_ready L l oid s"
  obtains (none) "ctc_sai_db_get_object_property L l oid s = None" "counter_abs L l oid s = Absent"
  | (some) c where "ctc_sai_db_get_object_property L l oid s = Some (CounterData c)"
      "counter_abs L l oid s \<noteq> Absent"
      "counter_abs L l oid s = (if cnt_ctc_type c = CTC_SAI_COUNTER_TYPE_MAX then Idle
         else Bound (cnt_ctc_type c) (cnt_statsinfo c))"
proof (cases "ctc_sai_db_get_object_property L l oid s")
  case None
  then show ?thesis by (intro none) (simp_all add: counter_abs_def)
next
  case (Some d)
  then obtain c where "d = CounterData c" using counter_data [OF assms] by blast
  then show ?thesis using Some by (intro some [of c]) (simp_all add: counter_abs_def)
qed

context ctc_lib_laws
begin

lemma counter_store_sim:
  assumes ready: "counter_ready L l oid s" and old: "ctc_sai_db_get_object_property L l oid s = Some (CounterData c)"
  shows "counter_sim L l oid 0 s (object_store L l oid (CounterData c') s)"
    and "counter_abs L l oid (object_store L l oid (CounterData c') s) =
      (if cnt_ctc_type c' = CTC_SAI_COUNTER_TYPE_MAX then Idle else Bound (cnt_ctc_type c') (cnt_statsinfo c'))"
proof -
  let ?s = "object_store L l oid (CounterData c') s"
  have inv: "chip_inv L l s" "chip_typed L l s" "oid_type oid = SAI_OBJECT_TYPE_COUNTER"
    using ready by (simp_all add: counter_ready_def)
  have fr: "frame_on L l {oid} s ?s" by (rule object_store_frame) (simp_all add: inv old)
  then have "inited ?s l" by (simp add: frame_on_def chip_inv_def)
  then have "ctc_sai_oid_get_lchip (inited ?s) oid = (SAI_STATUS_SUCCESS, Some l)"
    using ready get_lchip_again [of s oid] by (auto simp: counter_ready_def)
  then show "counter_sim L l oid 0 s ?s" using fr inv(3) by (auto simp: counter_sim_def counter_ready_def frame_on_def)
  show "counter_abs L l oid ?s =
      (if cnt_ctc_type c' = CTC_SAI_COUNTER_TYPE_MAX then Idle else Bound (cnt_ctc_type c') (cnt_statsinfo c'))"
    using store_object_get(1) [OF inv(1), of oid oid "CounterData c'"] old by (simp add: counter_abs_def)
qed

lemma counter_remove_sim:
  assumes ready: "counter_ready L l oid s" and old: "ctc_sai_db_get_object_property L l oid s \<noteq> None"
  shows "counter_sim L l oid 0 s (snd (ctc_sai_db_remove_object_property L l oid s))"
    and "counter_abs L l oid (snd (ctc_sai_db_remove_object_property L l oid s)) = Absent"
proof -
  let ?s = "snd (ctc_sai_db_remove_object_property L l oid s)"
  have inv: "chip_inv L l s" "chip_typed L l s" "oid_type oid = SAI_OBJECT_TYPE_COUNTER"
    using ready by (simp_all add: counter_ready_def)
  note get = remove_object_get [OF inv(1) get_Some_valid [OF old]]
  have ok: "chip_inv L l ?s" by (rule remove_object_inv [OF inv(1)])
  have "chip_typed L l ?s" using inv(2) by (auto simp: chip_typed_def get)
  moreover have "ctc_sai_oid_get_lchip (inited ?s) oid = (SAI_STATUS_SUCCESS, Some l)"
    using ready get_lchip_again [of s oid] ok by (auto simp: counter_ready_def chip_inv_def)
  ultimately show "counter_sim L l oid 0 s ?s"
    using ok inv(3) by (auto simp: counter_sim_def counter_ready_def get remove_object_trace)
  show "counter_abs L l oid ?s = Absent" by (simp add: counter_abs_def get)
qed

lemma counter_ext_sim:
  assumes "counter_ready L l oid s" and "\<And>l'. lock_delta c l' = 0"
  shows "counter_ready L l oid (snd (ext_call L c s))"
    and "counter_sim L l oid 0 s (snd (ext_call L c s))"
    and "counter_abs L l oid (snd (ext_call L c s)) = counter_abs L l oid s"
    and "ctc_sai_db_get_object_property L l oid (snd (ext_call L c s)) = ctc_sai_db_get_object_property L l oid s"
  using counter_sim_same_db [OF assms(1), of "snd (ext_call L c s)" 0] assms(2)
    counter_ready_frame [OF assms(1), of "snd (ext_call L c s)"] chip_frame_eqs(3) [of "snd (ext_call L c s)" s]
  by simp_all

lemma bind_sim:
  assumes ready: "counter_ready L l oid s" and t: "t < CTC_SAI_COUNTER_TYPE_MAX"
    and run: "counter_do L oid (BindOp t) s = (st, s')"
  shows "\<exists>k. counter_step (BindOp t) (counter_abs L l oid s) (st, k) (counter_abs L l oid s') \<and>
    counter_sim L l oid k s s'"
  using ready
proof (cases rule: counter_get_cases)
  case none
  then have "st = SAI_STATUS_ITEM_NOT_FOUND" "s' = s"
    using run ready by (auto simp: counter_do_def ctc_sai_counter_id_create_def counter_ready_def)
  then show ?thesis using counter_sim_refl [OF ready] by (auto intro!: exI [of _ 0] counter_step.refused)
next
  case (some c)
  let ?c = "StatsCreate l (counter_statsid t)"
  let ?e = "env L (trace s) ?c" and ?s1 = "snd (ext_call L ?c s)"
  note ext = counter_ext_sim [OF ready, of ?c]
  show ?thesis
  proof (cases "status_leaves (ctc_sai_mapping_error_ctc L (rc ?e))")
    case True
    then have "st = ctc_sai_mapping_error_ctc L (rc ?e)" "s' = ?s1"
      using run ready some by (auto simp: counter_do_def ctc_sai_counter_id_create_def counter_ready_def case_prod_beta Let_def)
    then show ?thesis using True ext by (auto simp: status_leaves_def intro!: exI [of _ 0] counter_step.refused)
  next
    case False
    let ?c' = "c\<lparr>cnt_statsinfo := ucast (out_val 0 ?e), cnt_ctc_type := t\<rparr>"
    have s': "st = SAI_STATUS_SUCCESS" "s' = object_store L l oid (CounterData ?c') ?s1"
      using False run ready some by (auto simp: counter_do_def ctc_sai_counter_id_create_def counter_ready_def case_prod_beta Let_def)
    have "ctc_sai_db_get_object_property L l oid ?s1 = Some (CounterData c)" using ext(4) some(1) by simp
    note sim = counter_store_sim [OF ext(1) this, of ?c']
    show ?thesis
      using counter_sim_trans [OF ext(2) sim(1)] sim(2) t some(2) s' ext(3)
      by (auto intro!: exI [of _ 0] counter_step.bind)
  qed
qed

lemma unbind_sim:
  assumes ready: "counter_ready L l oid s" and run: "counter_do L oid (UnbindOp t) s = (st, s')"
  shows "\<exists>k. counter_step (UnbindOp t) (counter_abs L l oid s) (st, k) (counter_abs L l oid s') \<and>
    counter_sim L l oid k s s'"
proof -
  have nz: "oid \<noteq> SAI_NULL_OBJECT_ID"
    using ready by (auto simp: counter_ready_def oid_type_eq oid_unpack_def)
  have refused: ?thesis if "st < 0" "s' = s"
    using that counter_sim_refl [OF ready] by (auto intro!: exI [of _ 0] counter_step.refused)
  show ?thesis
  proof (cases "t = CTC_SAI_COUNTER_TYPE_HOSTIF")
    case True
    then show ?thesis using run nz by (intro refused) (auto simp: counter_do_def ctc_sai_counter_id_remove_def)
  next
    case host: False
    show ?thesis
      using ready
    proof (cases rule: counter_get_cases)
      case none
      then show ?thesis using run ready nz host
        by (intro refused) (auto simp: counter_do_def ctc_sai_counter_id_remove_def counter_ready_def)
    next
      case (some c)
      let ?c = "StatsDestroy l (cnt_statsinfo c)"
      let ?e = "env L (trace s) ?c" and ?s1 = "snd (ext_call L ?c s)"
      note ext = counter_ext_sim [OF ready, of ?c]
      show ?thesis
      proof (cases "status_leaves (ctc_sai_mapping_error_ctc L (rc ?e))")
        case True
        then have "st = ctc_sai_mapping_error_ctc L (rc ?e)" "s' = ?s1"
          using run ready some nz host
          by (auto simp: counter_do_def ctc_sai_counter_id_remove_def counter_ready_def case_prod_beta Let_def)
        then show ?thesis using True ext by (auto simp: status_leaves_def intro!: exI [of _ 0] counter_step.refused)
      next
        case False
        let ?c' = "c\<lparr>cnt_statsinfo := 0, cnt_ctc_type := CTC_SAI_COUNTER_TYPE_MAX\<rparr>"
        have s': "st = SAI_STATUS_SUCCESS" "s' = object_store L l oid (CounterData ?c') ?s1"
          using False run ready some nz host
          by (auto simp: counter_do_def ctc_sai_counter_id_remove_def counter_ready_def case_prod_beta Let_def)
        have "ctc_sai_db_get_object_property L l oid ?s1 = Some (CounterData c)" using ext(4) some(1) by simp
        note sim = counter_store_sim [OF ext(1) this, of ?c']
        show ?thesis
          using counter_sim_trans [OF ext(2) sim(1)] sim(2) some(2) s' ext(3) host
          by (auto intro!: exI [of _ 0] counter_step.unbind)
      qed
    qed
  qed
qed

lemma trap_sim:
  assumes ready: "counter_ready L l oid s" and run: "counter_do L oid (TrapOp r q) s = (st, s')"
  shows "\<exists>k. counter_step (TrapOp r q) (counter_abs L l oid s) (st, k) (counter_abs L l oid s') \<and>
    counter_sim L l oid k s s'"
  using ready
proof (cases rule: counter_get_cases)
  case none
  then have "st = SAI_STATUS_ITEM_NOT_FOUND" "s' = s"
    using run ready by (auto simp: counter_do_def ctc_sai_counter_id_hostif_trap_create_def counter_ready_def)
  then show ?thesis using counter_sim_refl [OF ready] by (auto intro!: exI [of _ 0] counter_step.refused)
next
  case (some c)
  let ?c' = "c\<lparr>cnt_counter_type := of_nat CTC_SAI_COUNTER_TYPE_HOSTIF, cnt_statsinfo := hostif_queue r q\<rparr>"
  have "st = SAI_STATUS_SUCCESS" "s' = object_store L l oid (CounterData ?c') s"
    using run ready some by (auto simp: counter_do_def ctc_sai_counter_id_hostif_trap_create_def counter_ready_def)
  then show ?thesis
    using counter_store_sim [OF ready some(1), of ?c'] some(3)
    by (auto intro!: exI [of _ 0] counter_step.trap_idle counter_step.trap_bound)
qed

lemma destroy_sim:
  assumes ready: "counter_ready L l oid s" and run: "counter_do L oid DestroyOp s = (st, s')"
  shows "\<exists>k. counter_step DestroyOp (counter_abs L l oid s) (st, k) (counter_abs L l oid s') \<and>
    counter_sim L l oid k s s'"
proof -
  have inv: "chip_inv L l s" using ready by (simp add: counter_ready_def)
  let ?s1 = "snd (ctc_sai_db_lock L l s)"
  have s1: "g_sai_db ?s1 = g_sai_db s" "fault ?s1 = fault s" by simp_all
  have ready1: "counter_ready L l oid ?s1" by (rule counter_ready_frame [OF ready s1(1)])
  have get1: "ctc_sai_db_get_object_property L l oid ?s1 = ctc_sai_db_get_object_property L l oid s"
    by (rule chip_frame_eqs(3) [OF s1(1)])
  have lock1: "counter_sim L l oid 1 s ?s1" "counter_abs L l oid ?s1 = counter_abs L l oid s"
    by (rule counter_sim_same_db [OF ready s1, of 1]; simp add: lock_depth_lock [OF inv])+
  have unlock: "counter_sim L l oid 0 s (snd (ctc_sai_db_unlock L l s2))"
      "counter_abs L l oid (snd (ctc_sai_db_unlock L l s2)) = counter_abs L l oid s2"
    if "counter_sim L l oid 0 ?s1 s2" for s2
  proof -
    have "chip_inv L l s2" using that by (simp add: counter_sim_def counter_ready_def)
    moreover have "counter_ready L l oid (snd (ctc_sai_db_unlock L l s2))"
      using that by (auto simp: counter_sim_def elim: counter_ready_frame)
    ultimately show "counter_sim L l oid 0 s (snd (ctc_sai_db_unlock L l s2))"
      using counter_sim_trans [OF lock1(1) that] chip_frame_eqs(3) [of "snd (ctc_sai_db_unlock L l s2)" s2]
      by (auto simp: counter_sim_def lock_depth_lock)
    show "counter_abs L l oid (snd (ctc_sai_db_unlock L l s2)) = counter_abs L l oid s2"
      by (simp add: counter_abs_def chip_frame_eqs(3) [of "snd (ctc_sai_db_unlock L l s2)" s2])
  qed
  show ?thesis
    using ready
  proof (cases rule: counter_get_cases)
    case none
    then have "st = SAI_STATUS_ITEM_NOT_FOUND" "s' = ?s1"
      using run ready get1 by (auto simp: counter_do_def ctc_sai_counter_remove_counter_def counter_ready_def)
    then show ?thesis using lock1 none by (auto intro!: exI [of _ 1] counter_step.destroy_absent)
  next
    case (some c)
    show ?thesis
    proof (cases "cnt_ctc_type c = CTC_SAI_COUNTER_TYPE_MAX")
      case False
      then have "st = SAI_STATUS_OBJECT_IN_USE" "s' = ?s1"
        using run ready get1 some by (auto simp: counter_do_def ctc_sai_counter_remove_counter_def counter_ready_def)
      then show ?thesis using lock1 some False by (auto intro!: exI [of _ 1] counter_step.destroy_bound)
    next
      case idle: True
      let ?f = "ctc_sai_db_free_id L l CTC_SAI_DB_ID_TYPE_COUNTER (out_or 0 (snd (ctc_sai_oid_get_counter_id oid))) ?s1"
      have sim2: "counter_sim L l oid 0 ?s1 (snd ?f)" "counter_abs L l oid (snd ?f) = counter_abs L l oid s"
        using counter_sim_same_db [OF ready1, of "snd ?f" 0] lock1(2) by simp_all
      have ready2: "counter_ready L l oid (snd ?f)" using sim2(1) by (simp add: counter_sim_def)
      have get2: "ctc_sai_db_get_object_property L l oid (snd ?f) = Some (CounterData c)"
        using get1 some(1) chip_frame_eqs(3) [of "snd ?f" ?s1] by simp
      show ?thesis
      proof (cases "status_leaves (fst ?f)")
        case True
        then have "st = fst ?f" "s' = snd (ctc_sai_db_unlock L l (snd ?f))"
          using run ready get1 some idle
          by (auto simp: counter_do_def ctc_sai_counter_remove_counter_def counter_ready_def case_prod_beta Let_def)
        then show ?thesis using True unlock [OF sim2(1)] sim2(2) some(3) idle
          by (auto simp: status_leaves_def intro!: exI [of _ 0] counter_step.destroy_refused)
      next
        case False
        let ?r = "snd (ctc_sai_db_remove_object_property L l oid (snd ?f))"
        have s': "st = SAI_STATUS_SUCCESS" "s' = snd (ctc_sai_db_unlock L l ?r)"
          using run ready get1 get2 some idle False
          by (auto simp: counter_do_def ctc_sai_counter_remove_counter_def counter_remove_db_def counter_ready_def
              case_prod_beta Let_def)
        note rem = counter_remove_sim [OF ready2]
        have sim3: "counter_sim L l oid 0 ?s1 ?r" using counter_sim_trans [OF sim2(1) rem(1)] get2 by simp
        show ?thesis using s' unlock [OF sim3] rem(2) get2 some(3) idle
          by (auto intro!: exI [of _ 0] counter_step.destroy)
      qed
    qed
  qed
qed

lemma counter_do_sim:
  assumes "counter_ready L l oid s" and "counter_op_ok op" and "counter_do L oid op s = (st, s')"
  shows "\<exists>k. counter_step op (counter_abs L l oid s) (st, k) (counter_abs L l oid s') \<and> counter_sim L l oid k s s'"
  using assms bind_sim unbind_sim trap_sim destroy_sim by (cases op) simp_all

lemma counter_run_sim:
  assumes "counter_ready L l oid s" and "list_all counter_op_ok ops" and "counter_run L oid ops s = (sts, s')"
  shows "\<exists>ks. length ks = length sts \<and>
    counter_steps ops (counter_abs L l oid s) (zip sts ks) (counter_abs L l oid s') \<and>
    counter_sim L l oid (sum_list ks) s s'"
  using assms
proof (induction ops arbitrary: s sts)
  case Nil
  then show ?case by (intro exI [of _ "[]"]) (simp add: counter_steps.none counter_sim_refl)
next
  case (Cons op ops)
  have ok: "counter_op_ok op" "list_all counter_op_ok ops" using Cons.prems(2) by simp_all
  obtain st s1 where do: "counter_do L oid op s = (st, s1)" by (meson surj_pair)
  obtain sts1 where run: "counter_run L oid ops s1 = (sts1, s')" "sts = st # sts1"
    using Cons.prems(3) by (simp add: do Let_def split: prod.splits)
  obtain k where k: "counter_step op (counter_abs L l oid s) (st, k) (counter_abs L l oid s1)" "counter_sim L l oid k s s1"
    using counter_do_sim [OF Cons.prems(1) ok(1) do] by blast
  then have ready1: "counter_ready L l oid s1" by (simp add: counter_sim_def)
  obtain ks where ks: "length ks = length sts1"
      "counter_steps ops (counter_abs L l oid s1) (zip sts1 ks) (counter_abs L l oid s')"
      "counter_sim L l oid (sum_list ks) s1 s'"
    using Cons.IH [OF ready1 ok(2) run(1)] by blast
  then have "length (k # ks) = length sts \<and>
      counter_steps (op # ops) (counter_abs L l oid s) (zip sts (k # ks)) (counter_abs L l oid s') \<and>
      counter_sim L l oid (sum_list (k # ks)) s s'"
    using counter_sim_trans [OF k(2) ks(3)] counter_steps.more [OF k(1) ks(2)] run(2) by simp
  then show ?case by blast
qed

end

lemma counter_steps_unbound:
  "counter_steps ops a labs a' \<Longrightarrow> a = Bound t i \<Longrightarrow> a' = Absent \<Longrightarrow>
     \<exists>j < length ops. \<exists>u. ops ! j = UnbindOp u \<and> fst (labs ! j) = SAI_STATUS_SUCCESS"
proof (induction arbitrary: t i rule: counter_steps.induct)
  case (more op a lab a' ops labs a'')
  show ?case
  proof (cases a')
    case (Bound t' i')
    then obtain j u where "j < length ops" "ops ! j = UnbindOp u" "fst (labs ! j) = SAI_STATUS_SUCCESS"
      using more.IH more.prems(2) by blast
    then show ?thesis by (intro exI [of _ "Suc j"]) auto
  qed (use more in \<open>auto elim!: counter_stepE\<close>)
qed simp

lemma hostif_queue_parts:
  "(ucast (hostif_queue r q) :: u16) = q" "(ucast (drop_bit 16 (hostif_queue r q)) :: u16) = r"
  unfolding hostif_queue_def by (rule bit_word_eqI; auto simp: bit_simps dest: bit_imp_le_length)+

text \<open>The part of a creation under the chip's lock.\<close>

definition counter_create_locked ::
    "('o, 'e, 'v) ctc_lib \<Rightarrow> u8 \<Rightarrow> u32 \<Rightarrow> sai_attribute list option \<Rightarrow>
     ('o, 'e, 'v) sai_state \<Rightarrow> (sai_status \<times> sai_object_id option) \<times> ('o, 'e, 'v) sai_state" where
  "counter_create_locked L l attr_count as s =
     (let ((st, v), s) = ctc_sai_db_alloc_id L l CTC_SAI_DB_ID_TYPE_COUNTER s;
          stats_id = out_or 0 v;
          oid = ctc_sai_create_object_id SAI_OBJECT_TYPE_COUNTER l 0 0 stats_id in
      if status_leaves st then ((st, None), s)
      else let (st, s) = counter_build_db L l oid s in
      if status_leaves st then ((st, None), snd (ctc_sai_db_free_id L l CTC_SAI_DB_ID_TYPE_COUNTER stats_id s))
      else let (st, found) = ctc_sai_find_attrib_in_list attr_count as SAI_COUNTER_ATTR_TYPE;
               ct = (case found of Some (v, i) \<Rightarrow> u32data v | None \<Rightarrow> 0) in
      ((st, Some oid), object_store L l oid (CounterData \<lparr>cnt_counter_type = ct,
           cnt_ctc_type = CTC_SAI_COUNTER_TYPE_MAX, cnt_is_trap = 0, cnt_statsinfo = 0\<rparr>) s))"

lemma create_counter_unlock:
  assumes "ctc_sai_oid_get_lchip (inited s) switch_id = (st0, Some l)"
    and "\<not> status_leaves (counter_create_attr_check attr_count as)"
  shows "ctc_sai_counter_create_counter L False switch_id attr_count as s =
    (case counter_create_locked L l attr_count as (snd (ctc_sai_db_lock L l s)) of
       (r, s) \<Rightarrow> (r, snd (ctc_sai_db_unlock L l s)))"
  using assms by (simp add: ctc_sai_counter_create_counter_def counter_create_locked_def Let_def case_prod_beta)

definition counter_created ::
    "('o, 'e, 'v) ctc_lib \<Rightarrow> u8 \<Rightarrow> sai_object_id option \<Rightarrow> ('o, 'e, 'v) sai_state \<Rightarrow> ('o, 'e, 'v) sai_state \<Rightarrow> bool" where
  "counter_created L l v s s' \<longleftrightarrow>
     (case v of
        None \<Rightarrow> obj_map L l s' = obj_map L l s
      | Some oid \<Rightarrow> obj_map L l s oid = None \<and> counter_ready L l oid s' \<and> counter_abs L l oid s' = Idle \<and>
          (\<forall>oid'. oid' \<noteq> oid \<longrightarrow> obj_map L l s' oid' = obj_map L l s oid'))"

lemma counter_created_frame:
  assumes "g_sai_db s1 = g_sai_db s" and "g_sai_db s2 = g_sai_db s'"
  shows "counter_created L l v s1 s2 = counter_created L l v s s'"
proof -
  have "counter_ready L l oid s2 = counter_ready L l oid s'" for oid
    using counter_ready_frame assms(2) by metis
  moreover have "counter_abs L l oid s2 = counter_abs L l oid s'" for oid
    by (simp add: counter_abs_def get_frame [OF assms(2)])
  ultimately show ?thesis
    by (simp add: counter_created_def obj_map_frame [OF assms(1)] obj_map_frame [OF assms(2)] cong: option.case_cong)
qed

context ctc_lib_laws
begin

lemma counter_build_step:
  assumes s: "sound L l s" and t: "oid_type oid = SAI_OBJECT_TYPE_COUNTER"
    and run: "counter_build_db L l oid s = (st, s')"
  shows "st = SAI_STATUS_SUCCESS \<or> st < 0" "sound L l s'" "quiet s s'"
    "st \<noteq> SAI_STATUS_SUCCESS \<Longrightarrow> g_sai_db s' = g_sai_db s"
    "st = SAI_STATUS_SUCCESS \<Longrightarrow> obj_map L l s oid = None"
    "st = SAI_STATUS_SUCCESS \<Longrightarrow> \<exists>c. obj_map L l s' = (obj_map L l s)(oid \<mapsto> CounterData c)"
proof -
  let ?s1 = "snd (mem_malloc L s)"
  let ?d = "CounterData \<lparr>cnt_counter_type = 0, cnt_ctc_type = 0, cnt_is_trap = 0, cnt_statsinfo = 0\<rparr>"
  have s1: "sound L l ?s1" "obj_map L l ?s1 = obj_map L l s"
    using db_frame [OF s, of ?s1] by simp_all
  obtain st1 s2 where ad: "ctc_sai_db_add_object_property L l oid (Some ?d) ?s1 = (st1, s2)" by (metis surj_pair)
  note step = add_step [OF s1(1) _ ad]
  have fits: "data_fits (oid_type oid) ?d" by (simp add: t)
  have "(\<not> fst (mem_malloc L s) \<and> st = SAI_STATUS_NO_MEMORY \<and> s' = ?s1) \<or> (fst (mem_malloc L s) \<and> st = st1 \<and> s' = s2)"
    using run ad by (auto simp: counter_build_db_def Let_def case_prod_beta CTC_SAI_ERROR_def split: if_splits)
  then show "st = SAI_STATUS_SUCCESS \<or> st < 0" "sound L l s'" "quiet s s'"
    "st \<noteq> SAI_STATUS_SUCCESS \<Longrightarrow> g_sai_db s' = g_sai_db s"
    "st = SAI_STATUS_SUCCESS \<Longrightarrow> obj_map L l s oid = None"
    "st = SAI_STATUS_SUCCESS \<Longrightarrow> \<exists>c. obj_map L l s' = (obj_map L l s)(oid \<mapsto> CounterData c)"
    using step [OF fits] s1 quiet_trans [of s ?s1 s2] by auto
qed

lemma counter_create_locked_step:
  assumes s: "sound L l s" and run: "counter_create_locked L l attr_count as s = ((st, v), s')"
  shows "lock_depth (trace s') = lock_depth (trace s)" "sound L l s'" "counter_created L l v s s'"
    "v = None \<Longrightarrow> st < 0"
    "v \<noteq> None \<Longrightarrow> st = fst (ctc_sai_find_attrib_in_list attr_count as SAI_COUNTER_ATTR_TYPE)"
proof -
  obtain al i s1 where al: "ctc_sai_db_alloc_id L l CTC_SAI_DB_ID_TYPE_COUNTER s = ((al, i), s1)" by (metis surj_pair)
  note a = alloc_step [OF al]
  let ?oid = "ctc_sai_create_object_id SAI_OBJECT_TYPE_COUNTER l 0 0 (out_or 0 i)"
  have s1: "sound L l s1" "obj_map L l s1 = obj_map L l s" using db_frame [OF s a(2)] by simp_all
  have t: "oid_type ?oid = SAI_OBJECT_TYPE_COUNTER" by (rule create_type) simp
  obtain bl s2 where bl: "counter_build_db L l ?oid s1 = (bl, s2)" by (metis surj_pair)
  note b = counter_build_step [OF s1(1) t bl]
  consider (alloc) "al < 0" "v = None" "st = al" "s' = s1"
    | (build) "bl < 0" "v = None" "st = bl"
        "s' = snd (ctc_sai_db_free_id L l CTC_SAI_DB_ID_TYPE_COUNTER (out_or 0 i) s2)"
    | (ok) ct where "bl = SAI_STATUS_SUCCESS" "v = Some ?oid"
        "st = fst (ctc_sai_find_attrib_in_list attr_count as SAI_COUNTER_ATTR_TYPE)"
        "s' = object_store L l ?oid (CounterData \<lparr>cnt_counter_type = ct,
           cnt_ctc_type = CTC_SAI_COUNTER_TYPE_MAX, cnt_is_trap = 0, cnt_statsinfo = 0\<rparr>) s2"
    using run al bl a(1) b(1)
    by (auto simp: counter_create_locked_def Let_def status_leaves_def case_prod_beta split: if_splits)
  then have "lock_depth (trace s') = lock_depth (trace s) \<and> sound L l s' \<and> counter_created L l v s s' \<and>
    (v = None \<longrightarrow> st < 0) \<and>
    (v \<noteq> None \<longrightarrow> st = fst (ctc_sai_find_attrib_in_list attr_count as SAI_COUNTER_ATTR_TYPE))"
  proof cases
    case alloc
    then show ?thesis using s1 a(4) by (simp add: counter_created_def)
  next
    case build
    have "g_sai_db s' = g_sai_db s" using build b(4) a(2) by simp
    from db_frame [OF s this] show ?thesis
      using build b(3) a(4) by (simp add: counter_created_def quiet_def)
  next
    case ok
    let ?c = "\<lparr>cnt_counter_type = ct, cnt_ctc_type = CTC_SAI_COUNTER_TYPE_MAX, cnt_is_trap = 0, cnt_statsinfo = 0\<rparr>"
    obtain c where c: "obj_map L l s2 = (obj_map L l s)(?oid \<mapsto> CounterData c)" using b(6) ok(1) s1(2) by auto
    have st: "sound L l s'" "quiet s2 s'" "obj_map L l s' = (obj_map L l s)(?oid \<mapsto> CounterData ?c)"
      using store_step [OF b(2), of ?oid "CounterData ?c"] c t ok(4) by simp_all
    have "counter_ready L l ?oid s'"
      using st(1) t created_lchip [OF st(1)] by (simp add: counter_ready_def sound_def)
    then show ?thesis
      using ok st b(3,5) s1(2) a(4)
      by (simp add: counter_created_def counter_abs_def obj_map_get quiet_def)
  qed
  then show "lock_depth (trace s') = lock_depth (trace s)" "sound L l s'" "counter_created L l v s s'"
    "v = None \<Longrightarrow> st < 0"
    "v \<noteq> None \<Longrightarrow> st = fst (ctc_sai_find_attrib_in_list attr_count as SAI_COUNTER_ATTR_TYPE)"
    by blast+
qed

end

section \<open>A sample counter\<close>

definition ref_cnt :: sai_object_id where
  "ref_cnt = ctc_sai_create_object_id SAI_OBJECT_TYPE_COUNTER 0 0 0 5"

definition ref_cnt_state :: "(ref_oid, ref_ent, ref_vec) sai_state" where
  "ref_cnt_state = ref_add (ref_cnt, CounterData \<lparr>cnt_counter_type = 0, cnt_ctc_type = 8, cnt_is_trap = 0,
     cnt_statsinfo = 0\<rparr>) ref_state"

lemma ref_cnt_ready: "counter_ready ref_lib 0 ref_cnt ref_cnt_state"
proof -
  have "chip_inv ref_lib 0 ref_state"
    using ref_state_ok by (simp add: chip_inv_def inited_def ref_state_def)
  moreover have "oid_type ref_cnt = SAI_OBJECT_TYPE_COUNTER" by code_simp
  moreover have "ctc_sai_oid_get_lchip (inited ref_cnt_state) ref_cnt = (0, Some 0)" by code_simp
  ultimately show ?thesis
    using ref_add_inv [of ref_state] ref_state_typed by (simp add: ref_cnt_state_def counter_ready_def)
qed

section \<open>Properties\<close>

text \<open>
  Property C17: the counter module refines its abstract machine. For every library that meets its
  contract, every sequence of binding, unbinding, trap and removal calls on a counter is a run of the
  abstract machine with the same statuses, from the abstract state of the counter before to the one
  after; the database stays sound and typed, no other object changes, and the chip's lock is left
  held once for every removal of a counter that was absent or bound.
\<close>

theorem counter_runs_refine:
  assumes "ctc_lib_laws L" and "counter_ready L l oid s" and "list_all counter_op_ok ops"
    and "counter_run L oid ops s = (sts, s')"
  shows "\<exists>ks. length ks = length sts \<and>
    counter_steps ops (counter_abs L l oid s) (zip sts ks) (counter_abs L l oid s') \<and>
    counter_sim L l oid (sum_list ks) s s'"
  by (rule ctc_lib_laws.counter_run_sim [OF assms])

theorem counter_runs_refine_witness:
  "\<exists>s' ks. counter_run ref_lib ref_cnt [BindOp 0, DestroyOp, UnbindOp 0, DestroyOp] ref_cnt_state =
      ([SAI_STATUS_SUCCESS, SAI_STATUS_OBJECT_IN_USE, SAI_STATUS_SUCCESS, SAI_STATUS_SUCCESS], s') \<and> length ks = 4 \<and>
    counter_steps [BindOp 0, DestroyOp, UnbindOp 0, DestroyOp] Idle
      (zip [SAI_STATUS_SUCCESS, SAI_STATUS_OBJECT_IN_USE, SAI_STATUS_SUCCESS, SAI_STATUS_SUCCESS] ks) Absent"
proof -
  let ?ops = "[BindOp 0, DestroyOp, UnbindOp 0, DestroyOp]"
  let ?r = "counter_run ref_lib ref_cnt ?ops ref_cnt_state"
  have "let s = ref_cnt_state; r = counter_run ref_lib ref_cnt ?ops s in
      fst r = [SAI_STATUS_SUCCESS, SAI_STATUS_OBJECT_IN_USE, SAI_STATUS_SUCCESS, SAI_STATUS_SUCCESS] \<and>
      counter_abs ref_lib 0 ref_cnt (snd r) = Absent \<and> counter_abs ref_lib 0 ref_cnt s = Idle"
    by code_simp
  then have "fst ?r = [SAI_STATUS_SUCCESS, SAI_STATUS_OBJECT_IN_USE, SAI_STATUS_SUCCESS, SAI_STATUS_SUCCESS]"
    and a: "counter_abs ref_lib 0 ref_cnt (snd ?r) = Absent" "counter_abs ref_lib 0 ref_cnt ref_cnt_state = Idle"
    by (simp_all only: Let_def)
  then obtain s' where r: "?r = ([SAI_STATUS_SUCCESS, SAI_STATUS_OBJECT_IN_USE, SAI_STATUS_SUCCESS, SAI_STATUS_SUCCESS], s')"
      "counter_abs ref_lib 0 ref_cnt s' = Absent"
    by (metis prod.collapse)
  have ok: "list_all counter_op_ok ?ops" by simp
  from counter_runs_refine [OF ref_laws.ctc_lib_laws_axioms ref_cnt_ready ok r(1)]
  obtain ks where "length ks = length [SAI_STATUS_SUCCESS, SAI_STATUS_OBJECT_IN_USE, SAI_STATUS_SUCCESS, SAI_STATUS_SUCCESS]"
      "counter_steps ?ops Idle (zip [SAI_STATUS_SUCCESS, SAI_STATUS_OBJECT_IN_USE, SAI_STATUS_SUCCESS, SAI_STATUS_SUCCESS] ks) Absent"
    unfolding r(2) a(2) by blast
  then show ?thesis using r(1) by (intro exI [of _ s'] exI [of _ ks]) simp
qed

text \<open>
  A counter in use is not removed. When a sequence of calls takes a counter from bound
  to absent, one of the calls is an unbinding that succeeded.
\<close>

theorem counter_removed_only_unbound:
  assumes "ctc_lib_laws L" and "counter_ready L l oid s" and "list_all counter_op_ok ops"
    and "counter_run L oid ops s = (sts, s')"
    and "counter_abs L l oid s = Bound t i" and "counter_abs L l oid s' = Absent"
  shows "\<exists>j < length ops. \<exists>u. ops ! j = UnbindOp u \<and> sts ! j = SAI_STATUS_SUCCESS"
proof -
  obtain ks where ks: "length ks = length sts"
      "counter_steps ops (Bound t i) (zip sts ks) Absent"
    using ctc_lib_laws.counter_run_sim [OF assms(1-4)] assms(5,6) by auto
  have "length (zip sts ks) = length ops"
    using ks(2) by (induction rule: counter_steps.induct) auto
  then show ?thesis
    using counter_steps_unbound [OF ks(2)] ks(1) by fastforce
qed

theorem counter_removed_only_unbound_witness:
  "\<exists>j < 3. \<exists>u. [DestroyOp, UnbindOp 4, DestroyOp] ! j = UnbindOp u \<and>
     fst (counter_run ref_lib ref_cnt [DestroyOp, UnbindOp 4, DestroyOp]
       (snd (counter_do ref_lib ref_cnt (BindOp 4) ref_cnt_state))) ! j = SAI_STATUS_SUCCESS"
proof -
  let ?s = "snd (counter_do ref_lib ref_cnt (BindOp 4) ref_cnt_state)"
  let ?ops = "[DestroyOp, UnbindOp 4, DestroyOp]"
  have "counter_op_ok (BindOp 4)" by simp
  from ref_laws.counter_do_sim [OF ref_cnt_ready this prod.collapse [symmetric]]
  have rdy: "counter_ready ref_lib 0 ref_cnt ?s" unfolding counter_sim_def by blast
  have "let s = ?s in counter_abs ref_lib 0 ref_cnt s = Bound 4 1 \<and>
      counter_abs ref_lib 0 ref_cnt (snd (counter_run ref_lib ref_cnt ?ops s)) = Absent"
    by code_simp
  then have "counter_abs ref_lib 0 ref_cnt ?s = Bound 4 1" "counter_abs ref_lib 0 ref_cnt (snd (counter_run ref_lib ref_cnt ?ops ?s)) = Absent"
    by (simp_all only: Let_def)
  moreover have "list_all counter_op_ok ?ops" by simp
  moreover obtain sts s' where "counter_run ref_lib ref_cnt ?ops ?s = (sts, s')" by (rule prod.exhaust)
  ultimately show ?thesis
    using counter_removed_only_unbound [OF ref_laws.ctc_lib_laws_axioms rdy, of ?ops sts s' 4 1]
    by (simp only: fst_conv snd_conv) (simp add: numeral_3_eq_3)
qed

text \<open>
  Property C18: creating a counter. The lock of the chip is released and the database stays sound.
  Either an error is reported and no object changes, or exactly one new object appears, an idle
  counter that is returned. The status of the second outcome is the one of the search for the
  optional type attribute: a counter created without it exists, and yet the call reports a failure.
\<close>

theorem counter_create_outcome:
  assumes "ctc_lib_laws L" and "sound L l s"
    and "ctc_sai_oid_get_lchip (inited s) switch_id = (st0, Some l)"
    and "counter_create_attr_check attr_count as = SAI_STATUS_SUCCESS"
    and "ctc_sai_counter_create_counter L False switch_id attr_count as s = ((st, v), s')"
  shows "lock_depth (trace s') = lock_depth (trace s) \<and> sound L l s' \<and> counter_created L l v s s' \<and>
    (v = None \<longrightarrow> st < 0) \<and>
    (v \<noteq> None \<longrightarrow> st = fst (ctc_sai_find_attrib_in_list attr_count as SAI_COUNTER_ATTR_TYPE))"
proof -
  let ?s0 = "snd (ctc_sai_db_lock L l s)"
  obtain r s2 where r: "counter_create_locked L l attr_count as ?s0 = (r, s2)" by (metis surj_pair)
  have ok: "\<not> status_leaves (counter_create_attr_check attr_count as)" using assms(4) by (simp add: status_leaves_def)
  have eq: "r = (st, v)" "s' = snd (ctc_sai_db_unlock L l s2)"
    using assms(5) create_counter_unlock [OF assms(3) ok, of L] r by auto
  note step = ctc_lib_laws.counter_create_locked_step [OF assms(1) lock_step(2) [OF assms(2)] r [unfolded eq(1)]]
  have "sound L l s'" using db_frame(1) [OF step(2), of s'] eq(2) by simp
  moreover have "counter_created L l v s s'"
    using step(3) counter_created_frame [of s ?s0 s' s2 L l v] eq(2) by simp
  moreover have "lock_depth (trace s') = lock_depth (trace s)"
    using lock_section_depth [OF assms(2) step(2) step(1)] eq(2) by simp
  ultimately show ?thesis using step(4,5) by blast
qed

theorem counter_create_outcome_witness:
  "\<exists>oid s'. ctc_sai_counter_create_counter ref_lib False 0 0 (Some []) ref_state =
       ((SAI_STATUS_ITEM_NOT_FOUND, Some oid), s') \<and>
     counter_abs ref_lib 0 oid s' = Idle \<and> lock_depth (trace s') = lock_depth (trace ref_state)"
proof -
  let ?r = "ctc_sai_counter_create_counter ref_lib False 0 0 (Some []) ref_state"
  have "fst ?r = (SAI_STATUS_ITEM_NOT_FOUND, Some (ctc_sai_create_object_id SAI_OBJECT_TYPE_COUNTER 0 0 0 1)) \<and>
      ctc_sai_oid_get_lchip (inited ref_state) 0 = (0, Some 0) \<and> counter_create_attr_check 0 (Some []) = SAI_STATUS_SUCCESS"
    by code_simp
  then have st: "fst (fst ?r) = SAI_STATUS_ITEM_NOT_FOUND" "snd (fst ?r) = Some (ctc_sai_create_object_id SAI_OBJECT_TYPE_COUNTER 0 0 0 1)"
    and sw: "ctc_sai_oid_get_lchip (inited ref_state) 0 = (0, Some 0)"
    and chk: "counter_create_attr_check 0 (Some []) = SAI_STATUS_SUCCESS"
    by (simp_all only: fst_conv snd_conv)
  have "sound ref_lib 0 ref_state"
    using ref_state_ok ref_state_typed by (simp add: sound_def chip_inv_def inited_def ref_state_def)
  moreover obtain s' where r: "?r = ((SAI_STATUS_ITEM_NOT_FOUND, Some (ctc_sai_create_object_id SAI_OBJECT_TYPE_COUNTER 0 0 0 1)), s')"
    using st by (metis prod.collapse)
  ultimately show ?thesis
    using counter_create_outcome [OF ref_laws.ctc_lib_laws_axioms _ sw chk r] r
    unfolding counter_created_def by auto
qed

text \<open>
  A trap counter cannot be read. After a counter that is idle is bound to a trap queue,
  its record holds the queue and the reason but still the type of an idle counter, because the
  binding writes the type to another field: reading its statistics is refused as unsupported in
  every mode, and the counter stays removable while the trap uses it.
\<close>

theorem trap_counter_unreadable:
  assumes "ctc_lib_laws L" and "counter_ready L l oid s" and "counter_abs L l oid s = Idle"
    and "ctc_sai_counter_id_hostif_trap_create L oid CTC_SAI_COUNTER_TYPE_HOSTIF reason queue s = (st, s')"
  shows "st = SAI_STATUS_SUCCESS \<and> counter_abs L l oid s' = Idle \<and>
    (\<exists>c. ctc_sai_db_get_object_property L l oid s' = Some (CounterData c) \<and>
       cnt_queue_id c = queue \<and> cnt_cpu_reason c = reason) \<and>
    (\<forall>n ids out. ctc_sai_counter_get_counter_stats L oid n ids out s' = ((SAI_STATUS_NOT_SUPPORTED, out), s')) \<and>
    (\<forall>n ids mode out.
       ctc_sai_counter_get_counter_stats_ext L oid n ids mode out s' = ((SAI_STATUS_NOT_SUPPORTED, out), s'))"
proof -
  obtain c where c: "ctc_sai_db_get_object_property L l oid s = Some (CounterData c)"
      "cnt_ctc_type c = CTC_SAI_COUNTER_TYPE_MAX"
    using assms(2,3) by (auto elim!: counter_get_cases split: if_splits)
  let ?c = "c\<lparr>cnt_counter_type := of_nat CTC_SAI_COUNTER_TYPE_HOSTIF, cnt_statsinfo := hostif_queue reason queue\<rparr>"
  have s': "st = SAI_STATUS_SUCCESS" "s' = object_store L l oid (CounterData ?c) s"
    using assms(2,4) c by (auto simp: ctc_sai_counter_id_hostif_trap_create_def counter_ready_def)
  note sim = ctc_lib_laws.counter_store_sim [OF assms(1,2) c(1), of ?c, folded s'(2)]
  have inv: "chip_inv L l s" using assms(2) by (simp add: counter_ready_def)
  have get: "ctc_sai_db_get_object_property L l oid s' = Some (CounterData ?c)"
    using ctc_lib_laws.store_object_get(1) [OF assms(1) inv, of oid oid] c(1) s'(2) by simp
  have lc: "ctc_sai_oid_get_lchip (inited s') oid = (SAI_STATUS_SUCCESS, Some l)"
    using sim(1) by (simp add: counter_sim_def counter_ready_def)
  show ?thesis
    using s'(1) sim(2) get lc c(2)
    by (simp add: ctc_sai_counter_get_counter_stats_def ctc_sai_counter_get_counter_stats_ext_def
        counter_read_stats_def cnt_queue_id_def cnt_cpu_reason_def hostif_queue_parts)
qed

theorem trap_counter_unreadable_witness:
  "fst (ctc_sai_counter_get_counter_stats ref_lib ref_cnt 1 [0] [7]
     (snd (ctc_sai_counter_id_hostif_trap_create ref_lib ref_cnt CTC_SAI_COUNTER_TYPE_HOSTIF 3 9 ref_cnt_state))) =
   (SAI_STATUS_NOT_SUPPORTED, [7])"
proof -
  have idle: "counter_abs ref_lib 0 ref_cnt ref_cnt_state = Idle" by code_simp
  obtain st s' where r: "ctc_sai_counter_id_hostif_trap_create ref_lib ref_cnt CTC_SAI_COUNTER_TYPE_HOSTIF 3 9
      ref_cnt_state = (st, s')" by (rule prod.exhaust)
  show ?thesis
    using trap_counter_unreadable [OF ref_laws.ctc_lib_laws_axioms ref_cnt_ready idle r] r by simp
qed

end
