(* ===== verification/SAI_Next_Hop_Group.thy ===== *)
theory SAI_Next_Hop_Group
  imports SAI_Counter
begin

text \<open>
  The next hop group module (\<^verbatim>\<open>centec/src/ctc_sai_next_hop_group.c\<close>). A group is either an ECMP group of
  the device, whose members the device keeps, or a protection group, whose record holds the working
  and the protection next hop and which is set up in the device when both are there. A member is an
  object of its own that names its group. Two functions of the next hop and neighbor modules that
  it calls are modelled first.
\<close>

section \<open>Constants\<close>

abbreviation (input) SAI_NEXT_HOP_GROUP_TYPE_ECMP :: nat where "SAI_NEXT_HOP_GROUP_TYPE_ECMP \<equiv> 0"
abbreviation (input) SAI_NEXT_HOP_GROUP_TYPE_PROTECTION :: nat where "SAI_NEXT_HOP_GROUP_TYPE_PROTECTION \<equiv> 1"
abbreviation (input) SAI_NEXT_HOP_TYPE_IP :: nat where "SAI_NEXT_HOP_TYPE_IP \<equiv> 0"
abbreviation (input) SAI_NEXT_HOP_TYPE_MPLS :: nat where "SAI_NEXT_HOP_TYPE_MPLS \<equiv> 1"
abbreviation (input) SAI_NEXT_HOP_GROUP_ATTR_NEXT_HOP_COUNT :: u32 where
  "SAI_NEXT_HOP_GROUP_ATTR_NEXT_HOP_COUNT \<equiv> 0"
abbreviation (input) SAI_NEXT_HOP_GROUP_ATTR_NEXT_HOP_MEMBER_LIST :: u32 where
  "SAI_NEXT_HOP_GROUP_ATTR_NEXT_HOP_MEMBER_LIST \<equiv> 1"
abbreviation (input) SAI_NEXT_HOP_GROUP_ATTR_TYPE :: u32 where "SAI_NEXT_HOP_GROUP_ATTR_TYPE \<equiv> 2"
abbreviation (input) SAI_NEXT_HOP_GROUP_ATTR_SET_SWITCHOVER :: u32 where
  "SAI_NEXT_HOP_GROUP_ATTR_SET_SWITCHOVER \<equiv> 3"
abbreviation (input) SAI_NEXT_HOP_GROUP_ATTR_COUNTER_ID :: u32 where "SAI_NEXT_HOP_GROUP_ATTR_COUNTER_ID \<equiv> 4"
abbreviation (input) SAI_NEXT_HOP_GROUP_MEMBER_ATTR_NEXT_HOP_GROUP_ID :: u32 where
  "SAI_NEXT_HOP_GROUP_MEMBER_ATTR_NEXT_HOP_GROUP_ID \<equiv> 0"
abbreviation (input) SAI_NEXT_HOP_GROUP_MEMBER_ATTR_NEXT_HOP_ID :: u32 where
  "SAI_NEXT_HOP_GROUP_MEMBER_ATTR_NEXT_HOP_ID \<equiv> 1"
abbreviation (input) SAI_NEXT_HOP_GROUP_MEMBER_ATTR_CONFIGURED_ROLE :: u32 where
  "SAI_NEXT_HOP_GROUP_MEMBER_ATTR_CONFIGURED_ROLE \<equiv> 3"
abbreviation (input) SAI_NEXT_HOP_GROUP_MEMBER_ATTR_OBSERVED_ROLE :: u32 where
  "SAI_NEXT_HOP_GROUP_MEMBER_ATTR_OBSERVED_ROLE \<equiv> 4"
abbreviation (input) ROLE_PRIMARY :: u32 where "ROLE_PRIMARY \<equiv> 0"
abbreviation (input) ROLE_STANDBY :: u32 where "ROLE_STANDBY \<equiv> 1"
abbreviation (input) ROLE_ACTIVE :: u32 where "ROLE_ACTIVE \<equiv> 0"
abbreviation (input) ROLE_INACTIVE :: u32 where "ROLE_INACTIVE \<equiv> 1"
abbreviation (input) SAI_BULK_OP_ERROR_MODE_STOP_ON_ERROR :: nat where
  "SAI_BULK_OP_ERROR_MODE_STOP_ON_ERROR \<equiv> 0"

definition sub_type :: "sai_object_id \<Rightarrow> nat" where
  "sub_type oid = unat (o_sub_type (oid_unpack oid))"

text \<open>A parameter for adding or removing one member.\<close>

definition ecmp_member :: "ecmp_upd \<Rightarrow> u32 \<Rightarrow> ecmp_param" where
  "ecmp_member upd nh_id =
     \<lparr>ep_static = False, ep_member_num = 0, ep_nhid = nh_id, ep_nh_num = 1, ep_stats_id = 0, ep_upd = Some upd\<rparr>"

section \<open>Used of the next hop and neighbor modules\<close>

definition ctc_sai_neighbor_get_arp_id ::
    "('o, 'e, 'v) ctc_lib \<Rightarrow> u8 \<Rightarrow> sai_object_id \<Rightarrow> sai_ip_address \<Rightarrow> ('o, 'e, 'v) sai_state \<Rightarrow>
     sai_status \<times> u16 option" where
  "ctc_sai_neighbor_get_arp_id L l rif ip s =
     (case ctc_sai_db_entry_property_get L l
         (NeighborEntry \<lparr>ne_switch_id = 0, ne_rif_id = rif, ne_ip_address = ip\<rparr>) s of
        Some (NeighborData arp_id) \<Rightarrow> (SAI_STATUS_SUCCESS, Some arp_id)
      | Some _ \<Rightarrow> (SAI_STATUS_SUCCESS, None)
      | None \<Rightarrow> (SAI_STATUS_ITEM_NOT_FOUND, None))"

definition ctc_sai_next_hop_get_arp_id ::
    "('o, 'e, 'v) ctc_lib \<Rightarrow> sai_object_id \<Rightarrow> ('o, 'e, 'v) sai_state \<Rightarrow> sai_status \<times> u16 option" where
  "ctc_sai_next_hop_get_arp_id L oid s =
     (case ctc_sai_oid_get_lchip (inited s) oid of
        (st, None) \<Rightarrow> (st, None)
      | (st, Some l) \<Rightarrow>
          (case ctc_sai_db_get_object_property L l oid s of
             None \<Rightarrow> (SAI_STATUS_ITEM_NOT_FOUND, None)
           | Some (NhData n) \<Rightarrow>
               (let (st, v) = ctc_sai_neighbor_get_arp_id L l (nh_rif_id n) (nh_ip_address n) s in
                if status_leaves st then (st, v) else (SAI_STATUS_SUCCESS, v))
           | Some _ \<Rightarrow> (SAI_STATUS_SUCCESS, None)))"

section \<open>Protection groups in the device\<close>

text \<open>
  Reading the third label of a next hop; the array is as long as its count, so reading it for a
  count of two is outside it. The second component says that it was.
\<close>

definition third_label :: "ctc_sai_next_hop \<Rightarrow> mpls_label \<times> bool" where
  "third_label n =
     (let w = (if 2 < length (nh_label n) then nh_label n ! 2 else 0) in
      (\<lparr>ml_ttl = ucast (w AND 0xFF), ml_exp = ucast (drop_bit 9 w AND 7), ml_label = drop_bit 12 w AND 0xFFFFF\<rparr>,
       length (nh_label n) \<le> 2))"

text \<open>
  The label of the protection path is written over the one of the working path, in the structure of
  the working path.
\<close>

definition aps_push_label :: "ctc_sai_next_hop \<Rightarrow> ctc_sai_next_hop \<Rightarrow> mpls_label option \<times> bool" where
  "aps_push_label w p =
     (let lab = (if length (nh_label w) = 3 then Some (fst (third_label w)) else None) in
      if 1 < length (nh_label p) then (Some (fst (third_label p)), snd (third_label p)) else (lab, False))"

text \<open>The last part of the creation, after the bridge group exists; a failure destroys it again.\<close>

definition aps_add_nh ::
    "('o, 'e, 'v) ctc_lib \<Rightarrow> u8 \<Rightarrow> u16 \<Rightarrow> u32 \<Rightarrow> sai_object_id \<Rightarrow> sai_object_id \<Rightarrow> ('o, 'e, 'v) sai_state \<Rightarrow>
     sai_status \<times> ('o, 'e, 'v) sai_state" where
  "aps_add_nh L l aps nh_id w_oid p_oid s =
     (let undo = (\<lambda>st s. (st, snd (ext_call L (ApsDestroy l aps) s))) in
      if sub_type w_oid = SAI_NEXT_HOP_TYPE_IP then
        (let (st1, a1) = ctc_sai_next_hop_get_arp_id L w_oid s;
             (st2, a2) = ctc_sai_next_hop_get_arp_id L p_oid s;
             (e, s) = ext_call L (NhAddIpuc l nh_id aps (out_or 0 a1) (out_or 0 a2)) s;
             st = (st1 OR st2) OR rc e in
         if CTC_SAI_ERROR st then undo (ctc_sai_mapping_error_ctc L st) s else (SAI_STATUS_SUCCESS, s))
      else if sub_type w_oid = SAI_NEXT_HOP_TYPE_MPLS then
        (case (ctc_sai_db_get_object_property L l w_oid s, ctc_sai_db_get_object_property L l p_oid s) of
           (None, _) \<Rightarrow> undo SAI_STATUS_ITEM_NOT_FOUND s
         | (_, None) \<Rightarrow> undo SAI_STATUS_ITEM_NOT_FOUND s
         | (Some (NhData w), Some (NhData p)) \<Rightarrow>
             if length (nh_label w) \<noteq> length (nh_label p) then undo SAI_STATUS_INVALID_PARAMETER s
             else
               (let (lab, over) = aps_push_label w p;
                    s = (if over then s\<lparr>fault := True\<rparr> else s);
                    (e, s) = ext_call L (NhAddMpls l nh_id aps (nh_mpls_tunnel_id w, nh_mpls_tunnel_id p) lab) s;
                    st = ctc_sai_mapping_error_ctc L (rc e) in
                if status_leaves st then undo st s else (SAI_STATUS_SUCCESS, s))
         | _ \<Rightarrow> (SAI_STATUS_SUCCESS, s\<lparr>fault := True\<rparr>))
      else (SAI_STATUS_SUCCESS, s))"

text \<open>The interface of a next hop object, a missing record and a failed decoding being errors.\<close>

definition nh_l3if ::
    "('o, 'e, 'v) ctc_lib \<Rightarrow> u8 \<Rightarrow> sai_object_id \<Rightarrow> ('o, 'e, 'v) sai_state \<Rightarrow>
     (sai_status \<times> u16) \<times> ('o, 'e, 'v) sai_state" where
  "nh_l3if L l oid s =
     (case ctc_sai_db_get_object_property L l oid s of
        None \<Rightarrow> ((SAI_STATUS_ITEM_NOT_FOUND, 0), s)
      | Some (NhData n) \<Rightarrow>
          (let (st, v) = ctc_sai_oid_get_l3if_id (nh_rif_id n) in ((st, out_or 0 v), s))
      | Some _ \<Rightarrow> ((SAI_STATUS_SUCCESS, 0), s\<lparr>fault := True\<rparr>))"

text \<open>The port of a next hop; the code of the device is returned as it is.\<close>

definition nh_gport ::
    "('o, 'e, 'v) ctc_lib \<Rightarrow> u8 \<Rightarrow> sai_object_id \<Rightarrow> ('o, 'e, 'v) sai_state \<Rightarrow>
     (int \<times> u32) \<times> ('o, 'e, 'v) sai_state" where
  "nh_gport L l oid s =
     (let (st, v) = ctc_sai_oid_get_nexthop_id oid in
      if status_leaves st then ((st, 0), s)
      else let (e, s) = ext_call L (NhGetNhInfo l (out_or 0 v)) s in ((rc e, ucast (out_val 0 e)), s))"

definition next_hop_group_create_aps_nh ::
    "('o, 'e, 'v) ctc_lib \<Rightarrow> u8 \<Rightarrow> u16 \<Rightarrow> u32 \<Rightarrow> sai_object_id \<Rightarrow> sai_object_id \<Rightarrow> ('o, 'e, 'v) sai_state \<Rightarrow>
     sai_status \<times> ('o, 'e, 'v) sai_state" where
  "next_hop_group_create_aps_nh L l aps nh_id w_oid p_oid s =
     (if sub_type w_oid \<noteq> sub_type p_oid then (SAI_STATUS_INVALID_PARAMETER, s)
      else let ((st, w_gport), s) = nh_gport L l w_oid s in
      if status_leaves st then (st, s)
      else let ((st, p_gport), s) = nh_gport L l p_oid s in
      if status_leaves st then (st, s)
      else let ((st, w_l3if), s) = nh_l3if L l w_oid s in
      if status_leaves st then (st, s)
      else let ((st, p_l3if), s) = nh_l3if L l p_oid s in
      if status_leaves st then (st, s)
      else let (e, s) = ext_call L (ApsCreate l aps (w_gport, p_gport) (w_l3if, p_l3if)) s;
               st = ctc_sai_mapping_error_ctc L (rc e) in
      if status_leaves st then (st, s) else aps_add_nh L l aps nh_id w_oid p_oid s)"

definition next_hop_group_remove_aps_nh ::
    "('o, 'e, 'v) ctc_lib \<Rightarrow> u8 \<Rightarrow> u16 \<Rightarrow> u32 \<Rightarrow> sai_object_id \<Rightarrow> ('o, 'e, 'v) sai_state \<Rightarrow>
     sai_status \<times> ('o, 'e, 'v) sai_state" where
  "next_hop_group_remove_aps_nh L l aps nh_id nh_oid s =
     (let s = (if sub_type nh_oid = SAI_NEXT_HOP_TYPE_IP then snd (ext_call L (NhRemoveIpuc l nh_id) s) else s);
          s = snd (ext_call L (ApsDestroy l aps) s) in
      (SAI_STATUS_SUCCESS, s))"

section \<open>Members\<close>

text \<open>
  The device part of a new member: for a protection group its next hop takes the role it is
  configured with and, when both roles are taken, the group is set up. The result says which
  next hops the group has and whether the new one is the working one.
\<close>

definition member_hw_add ::
    "('o, 'e, 'v) ctc_lib \<Rightarrow> u8 \<Rightarrow> sai_object_id \<Rightarrow> obj_data \<Rightarrow> sai_object_id \<Rightarrow> u32 \<Rightarrow>
     u32 \<Rightarrow> sai_attribute list option \<Rightarrow> ('o, 'e, 'v) sai_state \<Rightarrow>
     (sai_status \<times> bool \<times> sai_object_id \<times> sai_object_id) \<times> ('o, 'e, 'v) sai_state" where
  "member_hw_add L l grp d nh_oid nh_id attr_count as s =
     (let c = oid_unpack grp in
      if sub_type grp = SAI_NEXT_HOP_GROUP_TYPE_ECMP then
        (let (e, s) = ext_call L (NhUpdateEcmp l (o_value c) (ecmp_member ECMP_ADD_MEMBER nh_id)) s in
         ((ctc_sai_mapping_error_ctc L (rc e), False, 0, 0), s))
      else
        (case ctc_sai_find_attrib_in_list attr_count as SAI_NEXT_HOP_GROUP_MEMBER_ATTR_CONFIGURED_ROLE of
           (st, None) \<Rightarrow> ((SAI_STATUS_MANDATORY_ATTRIBUTE_MISSING, False, 0, 0), s)
         | (st, Some (v, i)) \<Rightarrow>
             (case d of
                NhGrpData g \<Rightarrow>
                  (let work = (u32data v = ROLE_PRIMARY);
                       w = (if work then nh_oid else w_nh_oid g);
                       p = (if work then p_nh_oid g else nh_oid);
                       (st, s) = (if w \<noteq> 0 \<and> p \<noteq> 0
                                  then next_hop_group_create_aps_nh L l (o_value2 c) (o_value c) w p s
                                  else (SAI_STATUS_SUCCESS, s)) in
                   if status_leaves st then ((st, work, w, p), s)
                   else ((SAI_STATUS_SUCCESS, work, w, p),
                         object_store L l grp (NhGrpData (g\<lparr>w_nh_oid := w, p_nh_oid := p\<rparr>)) s))
              | _ \<Rightarrow> ((SAI_STATUS_SUCCESS, False, 0, 0), s\<lparr>fault := True\<rparr>))))"

text \<open>The undoing of the device part; the roles in the group's record stay as they are.\<close>

definition member_hw_undo ::
    "('o, 'e, 'v) ctc_lib \<Rightarrow> u8 \<Rightarrow> sai_object_id \<Rightarrow> sai_object_id \<Rightarrow> sai_object_id \<Rightarrow> sai_object_id \<Rightarrow> u32 \<Rightarrow>
     ('o, 'e, 'v) sai_state \<Rightarrow> ('o, 'e, 'v) sai_state" where
  "member_hw_undo L l grp nh_oid w p nh_id s =
     (let c = oid_unpack grp in
      if sub_type grp = SAI_NEXT_HOP_GROUP_TYPE_ECMP then
        snd (ext_call L (NhUpdateEcmp l (o_value c)
          (ecmp_member ECMP_REMOVE_MEMBER (out_or nh_id (snd (ctc_sai_oid_get_nexthop_id nh_oid))))) s)
      else if w \<noteq> 0 \<and> p \<noteq> 0 then snd (next_hop_group_remove_aps_nh L l (o_value2 c) (o_value c) w s)
      else s)"

definition next_hop_group_create_member ::
    "('o, 'e, 'v) ctc_lib \<Rightarrow> sai_object_id \<Rightarrow> u32 \<Rightarrow> sai_attribute list option \<Rightarrow>
     ('o, 'e, 'v) sai_state \<Rightarrow> (sai_status \<times> sai_object_id option) \<times> ('o, 'e, 'v) sai_state" where
  "next_hop_group_create_member L switch_id attr_count as s =
     (let l = oid_lchip s switch_id in
      case ctc_sai_find_attrib_in_list attr_count as SAI_NEXT_HOP_GROUP_MEMBER_ATTR_NEXT_HOP_GROUP_ID of
        (st, None) \<Rightarrow> ((SAI_STATUS_MANDATORY_ATTRIBUTE_MISSING, None), s)
      | (st, Some (v, i)) \<Rightarrow>
         (let grp = oiddata v in
          case ctc_sai_db_get_object_property L l grp s of
            None \<Rightarrow> ((SAI_STATUS_INVALID_PARAMETER, None), s)
          | Some d \<Rightarrow>
             (case ctc_sai_find_attrib_in_list attr_count as SAI_NEXT_HOP_GROUP_MEMBER_ATTR_NEXT_HOP_ID of
                (st, None) \<Rightarrow> ((SAI_STATUS_MANDATORY_ATTRIBUTE_MISSING, None), s)
              | (st, Some (v, i)) \<Rightarrow>
                 (let nh_oid = oiddata v;
                      nh_id = out_or 0 (snd (ctc_sai_oid_get_nexthop_id nh_oid));
                      (ok, s) = mem_malloc L s in
                  if \<not> ok then ((SAI_STATUS_NO_MEMORY, None), s)
                  else
                    let ((st, m), s) = ctc_sai_db_alloc_id L l CTC_SAI_DB_ID_TYPE_NEXTHOP_MEMBER s;
                        mem_id = out_or 0 m in
                    if status_leaves st then ((st, None), s)
                    else
                      let ((st, work, w, p), s) = member_hw_add L l grp d nh_oid nh_id attr_count as s in
                      if status_leaves st then
                        ((st, None), snd (ctc_sai_db_free_id L l CTC_SAI_DB_ID_TYPE_NEXTHOP_MEMBER mem_id s))
                      else
                        let oid = ctc_sai_create_object_id SAI_OBJECT_TYPE_NEXT_HOP_GROUP_MEMBER l
                                    (if work then 1 else 0) (ucast mem_id) nh_id;
                            (st, s) = ctc_sai_db_add_object_property L l oid
                                        (Some (NhGrpMemberData \<lparr>nh_grp_oid = grp\<rparr>)) s in
                        if status_leaves st then
                          ((st, None), snd (ctc_sai_db_free_id L l CTC_SAI_DB_ID_TYPE_NEXTHOP_MEMBER mem_id
                             (member_hw_undo L l grp nh_oid w p nh_id s)))
                        else ((st, Some oid), s)))))"

text \<open>
  The device part of a removal. A code of the device that means that the member is not there is
  tolerated, but stays the status of the call. For a protection group the role of the member is
  cleared, and the group is taken down when no role is left. The first component says to leave.
\<close>

definition member_hw_remove ::
    "('o, 'e, 'v) ctc_lib \<Rightarrow> u8 \<Rightarrow> sai_object_id \<Rightarrow> obj_data \<Rightarrow> sai_object_id \<Rightarrow> ('o, 'e, 'v) sai_state \<Rightarrow>
     (bool \<times> int) \<times> ('o, 'e, 'v) sai_state" where
  "member_hw_remove L l grp d oid s =
     (let c = oid_unpack grp; m = oid_unpack oid in
      if sub_type grp = SAI_NEXT_HOP_GROUP_TYPE_ECMP then
        (let (e, s) = ext_call L (NhUpdateEcmp l (o_value c) (ecmp_member ECMP_REMOVE_MEMBER (o_value m))) s in
         if rc e \<noteq> 0 \<and> rc e \<noteq> err L CTC_E_NH_NOT_EXIST \<and> rc e \<noteq> err L CTC_E_NOT_EXIST
         then ((True, ctc_sai_mapping_error_ctc L (rc e)), s)
         else ((False, rc e), s))
      else
        (case d of
           NhGrpData g \<Rightarrow>
             (let work = (o_sub_type m = 1);
                  old = (if work then w_nh_oid g else p_nh_oid g);
                  g' = (if work then g\<lparr>w_nh_oid := 0\<rparr> else g\<lparr>p_nh_oid := 0\<rparr>);
                  s = object_store L l grp (NhGrpData g') s;
                  s = (if w_nh_oid g' + p_nh_oid g' = 0
                       then snd (next_hop_group_remove_aps_nh L l (o_value2 c) (o_value c) old s) else s) in
              ((False, SAI_STATUS_SUCCESS), s))
         | _ \<Rightarrow> ((False, SAI_STATUS_SUCCESS), s\<lparr>fault := True\<rparr>)))"

definition next_hop_group_remove_member ::
    "('o, 'e, 'v) ctc_lib \<Rightarrow> sai_object_id \<Rightarrow> ('o, 'e, 'v) sai_state \<Rightarrow>
     sai_status \<times> ('o, 'e, 'v) sai_state" where
  "next_hop_group_remove_member L oid s =
     (let l = oid_lchip s oid in
      case ctc_sai_db_get_object_property L l oid s of
        None \<Rightarrow> (SAI_STATUS_ITEM_NOT_FOUND, s)
      | Some (NhGrpMemberData m) \<Rightarrow>
          (case ctc_sai_db_get_object_property L l (nh_grp_oid m) s of
             None \<Rightarrow> (SAI_STATUS_ITEM_NOT_FOUND, s)
           | Some d \<Rightarrow>
               (let ((leave, st), s) = member_hw_remove L l (nh_grp_oid m) d oid s in
                if leave then (st, s)
                else
                  let s = snd (ctc_sai_db_free_id L l CTC_SAI_DB_ID_TYPE_NEXTHOP_MEMBER
                                 (ucast (o_value2 (oid_unpack oid))) s);
                      s = snd (ctc_sai_db_remove_object_property L l oid s) in
                  (st, s)))
      | Some _ \<Rightarrow> (SAI_STATUS_SUCCESS, s\<lparr>fault := True\<rparr>))"

section \<open>Attributes\<close>

text \<open>
  Writes to the object list of an attribute: the buffer is the caller's, and a write outside it is a
  fault. The traversal for the members counts from one, the first element being its parameter.
\<close>

definition list_put :: "u32 \<Rightarrow> sai_object_id \<Rightarrow> sai_object_id list \<Rightarrow> bool \<times> sai_object_id list" where
  "list_put i x xs = (length xs \<le> unat i, xs[unat i := x])"

definition next_hop_group_get_members_from_db ::
    "sai_object_id \<times> obj_data option \<Rightarrow> ('o, 'e, 'v) sai_state \<times> u32 \<times> sai_object_id list \<Rightarrow>
     int \<times> ('o, 'e, 'v) sai_state \<times> u32 \<times> sai_object_id list" where
  "next_hop_group_get_members_from_db bucket x =
     (case x of (s, cnt, xs) \<Rightarrow>
      case snd bucket of
        Some (NhGrpMemberData m) \<Rightarrow>
          if xs \<noteq> [] \<and> nh_grp_oid m = hd xs then
            (let (over, xs) = list_put cnt (fst bucket) xs in
             (SAI_STATUS_SUCCESS, (if over then s\<lparr>fault := True\<rparr> else s), cnt + 1, xs))
          else (SAI_STATUS_SUCCESS, s, cnt, xs)
      | _ \<Rightarrow> (SAI_STATUS_SUCCESS, s\<lparr>fault := True\<rparr>, cnt, xs))"

text \<open>The member list of an ECMP group; the last member found moves to the first place.\<close>

definition ecmp_member_list ::
    "('o, 'e, 'v) ctc_lib \<Rightarrow> u8 \<Rightarrow> sai_object_id \<Rightarrow> sai_attribute \<Rightarrow> ('o, 'e, 'v) sai_state \<Rightarrow>
     sai_attribute \<times> ('o, 'e, 'v) sai_state" where
  "ecmp_member_list L l grp a s =
     (let (over, xs) = list_put 0 grp (objs (attr_value a));
          s = (if over then s\<lparr>fault := True\<rparr> else s) in
      case ctc_sai_db_traverse_object_property L l SAI_OBJECT_TYPE_NEXT_HOP_GROUP_MEMBER
             next_hop_group_get_members_from_db (s, 1, xs) of
        (st, s, cnt, xs) \<Rightarrow>
          if 1 < cnt then
            (let (over, xs') = list_put 0 (if unat (cnt - 1) < length xs then xs ! unat (cnt - 1) else 0) xs in
             (set_objlist (cnt - 1) xs' a, if length xs \<le> unat (cnt - 1) then s\<lparr>fault := True\<rparr> else s))
          else (set_objlist 0 (snd (list_put 0 SAI_NULL_OBJECT_ID xs)) a, s))"

text \<open>The member list of a protection group names its next hops, and not its members.\<close>

definition protection_member_list ::
    "ctc_sai_next_hop_grp \<Rightarrow> sai_attribute \<Rightarrow> ('o, 'e, 'v) sai_state \<Rightarrow> sai_attribute \<times> ('o, 'e, 'v) sai_state" where
  "protection_member_list g a s =
     (let xs = objs (attr_value a);
          (over1, cnt, xs) = (if w_nh_oid g \<noteq> 0 then (let (o1, xs) = list_put 0 (w_nh_oid g) xs in (o1, 1, xs))
                              else (False, 0, xs));
          (over2, cnt, xs) = (if p_nh_oid g \<noteq> 0 then (let (o2, xs) = list_put cnt (p_nh_oid g) xs in (o2, cnt + 1, xs))
                              else (False, cnt, xs)) in
      (set_objlist cnt xs a, if over1 \<or> over2 then s\<lparr>fault := True\<rparr> else s))"

definition next_hop_group_set_grp_attr ::
    "('o, 'e, 'v) ctc_lib \<Rightarrow> sai_object_id \<Rightarrow> sai_attribute \<Rightarrow> ('o, 'e, 'v) sai_state \<Rightarrow>
     sai_status \<times> ('o, 'e, 'v) sai_state" where
  "next_hop_group_set_grp_attr L oid a s =
     (if attr_id a = SAI_NEXT_HOP_GROUP_ATTR_SET_SWITCHOVER then
        (let c = oid_unpack oid in
         if sub_type oid \<noteq> SAI_NEXT_HOP_GROUP_TYPE_PROTECTION then (SAI_STATUS_NOT_SUPPORTED, s)
         else
           let (e, s) = ext_call L (ApsSetBridge (ucast (o_lchip c)) (o_value2 c) (booldata (attr_value a))) s;
               st = ctc_sai_mapping_error_ctc L (rc e) in
           if status_leaves st then (st, s) else (SAI_STATUS_SUCCESS, s))
      else (SAI_STATUS_NOT_SUPPORTED, s))"

definition next_hop_group_get_grp_attr ::
    "('o, 'e, 'v) ctc_lib \<Rightarrow> sai_object_id \<Rightarrow> sai_attribute \<Rightarrow> u32 \<Rightarrow> ('o, 'e, 'v) sai_state \<Rightarrow>
     (sai_status \<times> sai_attribute) \<times> ('o, 'e, 'v) sai_state" where
  "next_hop_group_get_grp_attr L oid a idx s =
     (let c = oid_unpack oid; l = ucast (o_lchip c); d = ctc_sai_db_get_object_property L l oid s in
      if attr_id a = SAI_NEXT_HOP_GROUP_ATTR_TYPE then ((SAI_STATUS_SUCCESS, set_u32 (ucast (o_sub_type c)) a), s)
      else if attr_id a = SAI_NEXT_HOP_GROUP_ATTR_SET_SWITCHOVER then
        (let (e, s) = ext_call L (ApsGetBridge l (o_value2 c)) s in
         ((SAI_STATUS_SUCCESS, if outs e = [] then a else set_bool (out_val 0 e \<noteq> 0) a), s))
      else if attr_id a = SAI_NEXT_HOP_GROUP_ATTR_COUNTER_ID then
        (case d of
           None \<Rightarrow> ((SAI_STATUS_ITEM_NOT_FOUND, a), s)
         | Some d \<Rightarrow>
             if sub_type oid \<noteq> SAI_NEXT_HOP_GROUP_TYPE_ECMP then ((SAI_STATUS_NOT_SUPPORTED, a), s)
             else case d of
               NhGrpData g \<Rightarrow> ((SAI_STATUS_SUCCESS, set_oid (grp_counter_oid g) a), s)
             | _ \<Rightarrow> ((SAI_STATUS_SUCCESS, a), s\<lparr>fault := True\<rparr>))
      else if sub_type oid = SAI_NEXT_HOP_GROUP_TYPE_ECMP then
        (let (e, s) = ext_call L (NhGetNhInfo l (o_value c)) s;
             st = ctc_sai_mapping_error_ctc L (rc e) in
         if status_leaves st then ((st, a), s)
         else if out_val 1 e = 0 then ((SAI_STATUS_FAILURE, a), s)
         else if attr_id a = SAI_NEXT_HOP_GROUP_ATTR_NEXT_HOP_COUNT then
           ((SAI_STATUS_SUCCESS, set_u32 (ucast (out_val 2 e)) a), s)
         else if attr_id a = SAI_NEXT_HOP_GROUP_ATTR_NEXT_HOP_MEMBER_LIST then
           (let (a, s) = ecmp_member_list L l oid a s in ((SAI_STATUS_SUCCESS, a), s))
         else ((SAI_STATUS_SUCCESS, a), s))
      else if sub_type oid = SAI_NEXT_HOP_GROUP_TYPE_PROTECTION then
        (case d of
           None \<Rightarrow> ((SAI_STATUS_ITEM_NOT_FOUND, a), s)
         | Some (NhGrpData g) \<Rightarrow>
             if attr_id a = SAI_NEXT_HOP_GROUP_ATTR_NEXT_HOP_COUNT then
               ((SAI_STATUS_SUCCESS,
                 set_u32 ((if w_nh_oid g \<noteq> 0 then 1 else 0) + (if p_nh_oid g \<noteq> 0 then 1 else 0)) a), s)
             else if attr_id a = SAI_NEXT_HOP_GROUP_ATTR_NEXT_HOP_MEMBER_LIST then
               (let (a, s) = protection_member_list g a s in ((SAI_STATUS_SUCCESS, a), s))
             else ((SAI_STATUS_SUCCESS, a), s)
         | Some _ \<Rightarrow> ((SAI_STATUS_SUCCESS, a), s\<lparr>fault := True\<rparr>))
      else ((SAI_STATUS_SUCCESS, a), s))"

text \<open>
  The next hop of a member is rebuilt from the number in its identifier, always with sub type zero.
\<close>

definition next_hop_group_get_member_attr ::
    "('o, 'e, 'v) ctc_lib \<Rightarrow> sai_object_id \<Rightarrow> sai_attribute \<Rightarrow> u32 \<Rightarrow> ('o, 'e, 'v) sai_state \<Rightarrow>
     (sai_status \<times> sai_attribute) \<times> ('o, 'e, 'v) sai_state" where
  "next_hop_group_get_member_attr L oid a idx s =
     (let l = oid_lchip s oid in
      case ctc_sai_db_get_object_property L l oid s of
        None \<Rightarrow> ((SAI_STATUS_ITEM_NOT_FOUND, a), s)
      | Some (NhGrpMemberData m) \<Rightarrow>
          (case ctc_sai_db_get_object_property L l (nh_grp_oid m) s of
             None \<Rightarrow> ((SAI_STATUS_ITEM_NOT_FOUND, a), s)
           | Some d \<Rightarrow>
               (let grp = nh_grp_oid m; c = oid_unpack grp;
                    prot = (sub_type grp = SAI_NEXT_HOP_GROUP_TYPE_PROTECTION);
                    nh_oid = ctc_sai_create_object_id SAI_OBJECT_TYPE_NEXT_HOP l 0 0 (o_value (oid_unpack oid));
                    (work, s) = (if prot then case d of NhGrpData g \<Rightarrow> (nh_oid = w_nh_oid g, s)
                                                      | _ \<Rightarrow> (False, s\<lparr>fault := True\<rparr>)
                                 else (False, s));
                    aps = (if prot then o_value2 c else 0) in
                if attr_id a = SAI_NEXT_HOP_GROUP_MEMBER_ATTR_NEXT_HOP_GROUP_ID then
                  ((SAI_STATUS_SUCCESS, set_oid grp a), s)
                else if attr_id a = SAI_NEXT_HOP_GROUP_MEMBER_ATTR_NEXT_HOP_ID then
                  ((SAI_STATUS_SUCCESS, set_oid nh_oid a), s)
                else if attr_id a = SAI_NEXT_HOP_GROUP_MEMBER_ATTR_CONFIGURED_ROLE then
                  (if sub_type grp = SAI_NEXT_HOP_GROUP_TYPE_ECMP then ((SAI_STATUS_INVALID_PARAMETER, a), s)
                   else ((SAI_STATUS_SUCCESS, set_u32 (if work then ROLE_PRIMARY else ROLE_STANDBY) a), s))
                else if attr_id a = SAI_NEXT_HOP_GROUP_MEMBER_ATTR_OBSERVED_ROLE then
                  (if sub_type grp = SAI_NEXT_HOP_GROUP_TYPE_ECMP then ((SAI_STATUS_INVALID_PARAMETER, a), s)
                   else
                     let (e, s) = ext_call L (ApsGetBridge l aps) s;
                         protect = (out_val 0 e \<noteq> 0) in
                     ((SAI_STATUS_SUCCESS,
                       set_u32 (if work = protect then ROLE_INACTIVE else ROLE_ACTIVE) a), s))
                else ((int32 (SAI_STATUS_ATTR_NOT_SUPPORTED_0 + uint idx), a), s)))
      | Some _ \<Rightarrow> ((SAI_STATUS_SUCCESS, a), s\<lparr>fault := True\<rparr>))"

definition nh_grp_attr_fn_entries ::
    "('o, 'e, 'v) ctc_lib \<Rightarrow> (sai_object_id, ('o, 'e, 'v) sai_state) attr_fn list" where
  "nh_grp_attr_fn_entries L =
     map (\<lambda>(i, set). \<lparr> fn_id = i, fn_get = Some (next_hop_group_get_grp_attr L),
                       fn_set = (if set then Some (next_hop_group_set_grp_attr L) else None) \<rparr>)
       [(0, False), (1, False), (2, False), (3, True), (4, False)]"

definition nh_grp_member_attr_fn_entries ::
    "('o, 'e, 'v) ctc_lib \<Rightarrow> (sai_object_id, ('o, 'e, 'v) sai_state) attr_fn list" where
  "nh_grp_member_attr_fn_entries L =
     map (\<lambda>i. \<lparr> fn_id = i, fn_get = Some (next_hop_group_get_member_attr L), fn_set = None \<rparr>) [0, 1, 2, 3, 4, 5]"

section \<open>Reload after a warm boot\<close>

definition next_hop_group_wb_reload_cb ::
    "('o, 'e, 'v) ctc_lib \<Rightarrow> u8 \<Rightarrow> sai_object_id \<Rightarrow> ('o, 'e, 'v) sai_state \<Rightarrow>
     sai_status \<times> ('o, 'e, 'v) sai_state" where
  "next_hop_group_wb_reload_cb L l oid s =
     (let c = oid_unpack oid;
          (st, s) = ctc_sai_db_alloc_id_from_position L l CTC_SAI_DB_ID_TYPE_NEXTHOP (o_value c) s in
      if status_leaves st then (st, s)
      else
        let (st, s) = ctc_sai_db_alloc_id_from_position L l CTC_SAI_DB_ID_TYPE_APS (ucast (o_value2 c)) s in
        if status_leaves st then (st, s) else (SAI_STATUS_SUCCESS, s))"

definition next_hop_group_member_wb_reload_cb ::
    "('o, 'e, 'v) ctc_lib \<Rightarrow> u8 \<Rightarrow> sai_object_id \<Rightarrow> ('o, 'e, 'v) sai_state \<Rightarrow>
     sai_status \<times> ('o, 'e, 'v) sai_state" where
  "next_hop_group_member_wb_reload_cb L l oid s =
     (let (st, s) = ctc_sai_db_alloc_id_from_position L l CTC_SAI_DB_ID_TYPE_NEXTHOP_MEMBER
                      (ucast (o_value2 (oid_unpack oid))) s in
      if status_leaves st then (st, s) else (SAI_STATUS_SUCCESS, s))"

section \<open>The SAI entry points of groups\<close>

text \<open>
  What a creation does before it has an object. The first component says how it goes on: to the
  object (\<open>Go\<close>), to the roll-back, which releases the counter and the next hop number (\<open>Undo\<close>), or
  straight out of the function, past the unlocking of the chip (\<open>Out\<close>).
\<close>

datatype grp_go = Go | Undo | Out

definition grp_hw_create ::
    "('o, 'e, 'v) ctc_lib \<Rightarrow> u8 \<Rightarrow> u8 \<Rightarrow> sai_object_id \<Rightarrow> u32 \<Rightarrow> ('o, 'e, 'v) sai_state \<Rightarrow>
     (grp_go \<times> sai_status \<times> u32) \<times> ('o, 'e, 'v) sai_state" where
  "grp_hw_create L l group_type counter_oid nh_id s =
     (if unat group_type = SAI_NEXT_HOP_GROUP_TYPE_ECMP then
        (let ((st, v), s) = (if counter_oid \<noteq> SAI_NULL_OBJECT_ID
                             then ctc_sai_counter_id_create L counter_oid CTC_SAI_COUNTER_TYPE_ECMP s
                             else ((SAI_STATUS_SUCCESS, Some 0), s)) in
         if status_leaves st then ((Out, st, 0), s)
         else
           let par = \<lparr>ep_static = True, ep_member_num = 64, ep_nhid = CTC_NH_RESERVED_NHID_FOR_DROP L, ep_nh_num = 1,
                      ep_stats_id = out_or 0 v, ep_upd = None\<rparr>;
               (e, s) = ext_call L (NhAddEcmp l nh_id par) s;
               st = ctc_sai_mapping_error_ctc L (rc e) in
           if status_leaves st then ((Undo, st, 0), s)
           else
             let s = snd (ext_call L (NhUpdateEcmp l nh_id (par\<lparr>ep_upd := Some ECMP_REMOVE_MEMBER\<rparr>)) s) in
             ((Go, SAI_STATUS_SUCCESS, 0), s))
      else if unat group_type = SAI_NEXT_HOP_GROUP_TYPE_PROTECTION then
        (let ((st, v), s) = ctc_sai_db_alloc_id L l CTC_SAI_DB_ID_TYPE_APS s in
         if status_leaves st then ((Undo, st, 0), s) else ((Go, SAI_STATUS_SUCCESS, out_or 0 v), s))
      else ((Undo, SAI_STATUS_INVALID_PARAMETER, 0), s))"

text \<open>The roll-backs \<^verbatim>\<open>error2\<close> and \<^verbatim>\<open>error1\<close>.\<close>

definition grp_undo_hw ::
    "('o, 'e, 'v) ctc_lib \<Rightarrow> u8 \<Rightarrow> u8 \<Rightarrow> u32 \<Rightarrow> u32 \<Rightarrow> ('o, 'e, 'v) sai_state \<Rightarrow> ('o, 'e, 'v) sai_state" where
  "grp_undo_hw L l group_type nh_id aps s =
     (if unat group_type = SAI_NEXT_HOP_GROUP_TYPE_ECMP then snd (ext_call L (NhRemoveEcmp l nh_id) s)
      else if unat group_type = SAI_NEXT_HOP_GROUP_TYPE_PROTECTION then
        snd (ctc_sai_db_free_id L l CTC_SAI_DB_ID_TYPE_APS aps s)
      else s)"

definition grp_undo_ids ::
    "('o, 'e, 'v) ctc_lib \<Rightarrow> u8 \<Rightarrow> u8 \<Rightarrow> sai_object_id \<Rightarrow> u32 \<Rightarrow> ('o, 'e, 'v) sai_state \<Rightarrow> ('o, 'e, 'v) sai_state" where
  "grp_undo_ids L l group_type counter_oid nh_id s =
     (let s = (if unat group_type = SAI_NEXT_HOP_GROUP_TYPE_ECMP \<and> counter_oid \<noteq> SAI_NULL_OBJECT_ID
               then snd (ctc_sai_counter_id_remove L counter_oid CTC_SAI_COUNTER_TYPE_ECMP s) else s) in
      snd (ctc_sai_db_free_id L l CTC_SAI_DB_ID_TYPE_NEXTHOP nh_id s))"

text \<open>
  The section of a creation under the lock; its second result says whether the lock is released at
  the end.
\<close>

definition create_nh_grp_locked ::
    "('o, 'e, 'v) ctc_lib \<Rightarrow> u8 \<Rightarrow> u8 \<Rightarrow> sai_object_id \<Rightarrow> ('o, 'e, 'v) sai_state \<Rightarrow>
     (sai_status \<times> sai_object_id option) \<times> bool \<times> ('o, 'e, 'v) sai_state" where
  "create_nh_grp_locked L l group_type counter_oid s =
     (let ((st, v), s) = ctc_sai_db_alloc_id L l CTC_SAI_DB_ID_TYPE_NEXTHOP s; nh_id = out_or 0 v in
      if status_leaves st then ((st, None), True, s)
      else
        let ((go, st, aps), s) = grp_hw_create L l group_type counter_oid nh_id s in
        if go = Out then ((st, None), False, s)
        else if go = Undo then ((st, None), True, grp_undo_ids L l group_type counter_oid nh_id s)
        else
          let oid = ctc_sai_create_object_id SAI_OBJECT_TYPE_NEXT_HOP_GROUP l group_type (ucast aps) nh_id;
              undo = (\<lambda>st s. ((st, None), True,
                        grp_undo_ids L l group_type counter_oid nh_id (grp_undo_hw L l group_type nh_id aps s)));
              (ok, s) = mem_malloc L s in
          if \<not> ok then undo SAI_STATUS_NO_MEMORY s
          else
            let (st, s) = ctc_sai_db_add_object_property L l oid
                            (Some (NhGrpData \<lparr>w_nh_oid = 0, p_nh_oid = 0, grp_counter_oid = counter_oid\<rparr>)) s in
            if status_leaves st then undo st s else ((st, Some oid), True, s))"

definition ctc_sai_next_hop_group_create_nh_grp ::
    "('o, 'e, 'v) ctc_lib \<Rightarrow> bool \<Rightarrow> sai_object_id \<Rightarrow> u32 \<Rightarrow> sai_attribute list option \<Rightarrow>
     ('o, 'e, 'v) sai_state \<Rightarrow> (sai_status \<times> sai_object_id option) \<times> ('o, 'e, 'v) sai_state" where
  "ctc_sai_next_hop_group_create_nh_grp L null_out switch_id attr_count as s =
     (if null_out then ((SAI_STATUS_INVALID_PARAMETER, None), s)
      else case ctc_sai_oid_get_lchip (inited s) switch_id of
        (st, None) \<Rightarrow> ((st, None), s)
      | (st, Some l) \<Rightarrow>
          (case ctc_sai_find_attrib_in_list attr_count as SAI_NEXT_HOP_GROUP_ATTR_TYPE of
             (st, None) \<Rightarrow> ((SAI_STATUS_MANDATORY_ATTRIBUTE_MISSING, None), s)
           | (st, Some (v, i)) \<Rightarrow>
               (let counter_oid = (case ctc_sai_find_attrib_in_list attr_count as SAI_NEXT_HOP_GROUP_ATTR_COUNTER_ID of
                                     (st, Some (v, i)) \<Rightarrow> oiddata v | (st, None) \<Rightarrow> 0);
                    (r, unlock, s) = create_nh_grp_locked L l (u8data v) counter_oid (snd (ctc_sai_db_lock L l s)) in
                (r, if unlock then snd (ctc_sai_db_unlock L l s) else s))))"

definition remove_nh_grp_locked ::
    "('o, 'e, 'v) ctc_lib \<Rightarrow> u8 \<Rightarrow> sai_object_id \<Rightarrow> ('o, 'e, 'v) sai_state \<Rightarrow>
     sai_status \<times> ('o, 'e, 'v) sai_state" where
  "remove_nh_grp_locked L l oid s =
     (let c = oid_unpack oid;
          finish = (\<lambda>s.
            let s = snd (ctc_sai_db_free_id L l CTC_SAI_DB_ID_TYPE_NEXTHOP (o_value c) s) in
            (SAI_STATUS_SUCCESS, snd (ctc_sai_db_remove_object_property L l oid s))) in
      case ctc_sai_db_get_object_property L l oid s of
        None \<Rightarrow> (SAI_STATUS_ITEM_NOT_FOUND, s)
      | Some d \<Rightarrow>
          if sub_type oid = SAI_NEXT_HOP_GROUP_TYPE_ECMP then
            (let (e, s) = ext_call L (NhRemoveEcmp l (o_value c)) s in
             if rc e \<noteq> 0 then (ctc_sai_mapping_error_ctc L (rc e), s)
             else case d of
               NhGrpData g \<Rightarrow>
                 if grp_counter_oid g \<noteq> SAI_NULL_OBJECT_ID then
                   (let (st, s) = ctc_sai_counter_id_remove L (grp_counter_oid g) CTC_SAI_COUNTER_TYPE_ECMP s in
                    if st \<noteq> SAI_STATUS_SUCCESS then (st, s) else finish s)
                 else finish s
             | _ \<Rightarrow> (SAI_STATUS_SUCCESS, s\<lparr>fault := True\<rparr>))
          else if sub_type oid = SAI_NEXT_HOP_GROUP_TYPE_PROTECTION then
            (let s = snd (ext_call L (NhRemoveIpuc l (o_value c)) s);
                 s = snd (ext_call L (ApsDestroy l (o_value2 c)) s) in
             finish (snd (ctc_sai_db_free_id L l CTC_SAI_DB_ID_TYPE_APS (ucast (o_value2 c)) s)))
          else finish s)"

definition ctc_sai_next_hop_group_remove_nh_grp ::
    "('o, 'e, 'v) ctc_lib \<Rightarrow> sai_object_id \<Rightarrow> ('o, 'e, 'v) sai_state \<Rightarrow>
     sai_status \<times> ('o, 'e, 'v) sai_state" where
  "ctc_sai_next_hop_group_remove_nh_grp L oid s =
     (case ctc_sai_oid_get_lchip (inited s) oid of
        (st, None) \<Rightarrow> (st, s)
      | (st, Some l) \<Rightarrow>
          (let (st, s) = remove_nh_grp_locked L l oid (snd (ctc_sai_db_lock L l s)) in
           (st, snd (ctc_sai_db_unlock L l s))))"

definition ctc_sai_next_hop_group_set_grp_attr ::
    "('o, 'e, 'v) ctc_lib \<Rightarrow> sai_object_id \<Rightarrow> sai_attribute option \<Rightarrow> ('o, 'e, 'v) sai_state \<Rightarrow>
     sai_status \<times> ('o, 'e, 'v) sai_state" where
  "ctc_sai_next_hop_group_set_grp_attr L oid a s =
     (case ctc_sai_oid_get_lchip (inited s) oid of
        (st, None) \<Rightarrow> (st, s)
      | (st, Some l) \<Rightarrow>
          (let (st, s) = ctc_sai_set_attribute oid SAI_OBJECT_TYPE_NEXT_HOP_GROUP
                           (Some (nh_grp_attr_fn_entries L)) a (snd (ctc_sai_db_lock L l s)) in
           (st, snd (ctc_sai_db_unlock L l s))))"

definition ctc_sai_next_hop_group_get_grp_attr ::
    "('o, 'e, 'v) ctc_lib \<Rightarrow> sai_object_id \<Rightarrow> u32 \<Rightarrow> sai_attribute list \<Rightarrow> ('o, 'e, 'v) sai_state \<Rightarrow>
     ((sai_status \<times> sai_attribute list) \<times> ('o, 'e, 'v) sai_state) option" where
  "ctc_sai_next_hop_group_get_grp_attr L oid attr_count as s =
     (case ctc_sai_oid_get_lchip (inited s) oid of
        (st, None) \<Rightarrow> Some ((st, as), s)
      | (st, Some l) \<Rightarrow>
          (case attr_loop (get_attr_body oid SAI_OBJECT_TYPE_NEXT_HOP_GROUP (nh_grp_attr_fn_entries L))
             attr_count (0 :: u8) (SAI_STATUS_SUCCESS, as, snd (ctc_sai_db_lock L l s)) of
             None \<Rightarrow> None
           | Some (st, as, s) \<Rightarrow> Some ((st, as), snd (ctc_sai_db_unlock L l s))))"

section \<open>The SAI entry points of members\<close>

definition ctc_sai_next_hop_group_create_member ::
    "('o, 'e, 'v) ctc_lib \<Rightarrow> bool \<Rightarrow> sai_object_id \<Rightarrow> u32 \<Rightarrow> sai_attribute list option \<Rightarrow>
     ('o, 'e, 'v) sai_state \<Rightarrow> (sai_status \<times> sai_object_id option) \<times> ('o, 'e, 'v) sai_state" where
  "ctc_sai_next_hop_group_create_member L null_out switch_id attr_count as s =
     (case ctc_sai_oid_get_lchip (inited s) switch_id of
        (st, None) \<Rightarrow> ((st, None), s)
      | (st, Some l) \<Rightarrow>
          if null_out then ((SAI_STATUS_INVALID_PARAMETER, None), s)
          else
            (let (r, s) = next_hop_group_create_member L switch_id attr_count as (snd (ctc_sai_db_lock L l s)) in
             (r, snd (ctc_sai_db_unlock L l s))))"

definition ctc_sai_next_hop_group_remove_member ::
    "('o, 'e, 'v) ctc_lib \<Rightarrow> sai_object_id \<Rightarrow> ('o, 'e, 'v) sai_state \<Rightarrow>
     sai_status \<times> ('o, 'e, 'v) sai_state" where
  "ctc_sai_next_hop_group_remove_member L oid s =
     (case ctc_sai_oid_get_lchip (inited s) oid of
        (st, None) \<Rightarrow> (st, s)
      | (st, Some l) \<Rightarrow>
          (let (st, s) = next_hop_group_remove_member L oid (snd (ctc_sai_db_lock L l s)) in
           (st, snd (ctc_sai_db_unlock L l s))))"

definition ctc_sai_next_hop_group_set_member_attr ::
    "('o, 'e, 'v) ctc_lib \<Rightarrow> sai_object_id \<Rightarrow> sai_attribute option \<Rightarrow> ('o, 'e, 'v) sai_state \<Rightarrow>
     sai_status \<times> ('o, 'e, 'v) sai_state" where
  "ctc_sai_next_hop_group_set_member_attr L oid a s =
     (case ctc_sai_oid_get_lchip (inited s) oid of
        (st, None) \<Rightarrow> (st, s)
      | (st, Some l) \<Rightarrow>
          (let (st, s) = ctc_sai_set_attribute oid SAI_OBJECT_TYPE_NEXT_HOP_GROUP_MEMBER
                           (Some (nh_grp_member_attr_fn_entries L)) a (snd (ctc_sai_db_lock L l s)) in
           (st, snd (ctc_sai_db_unlock L l s))))"

definition ctc_sai_next_hop_group_get_member_attr ::
    "('o, 'e, 'v) ctc_lib \<Rightarrow> sai_object_id \<Rightarrow> u32 \<Rightarrow> sai_attribute list \<Rightarrow> ('o, 'e, 'v) sai_state \<Rightarrow>
     ((sai_status \<times> sai_attribute list) \<times> ('o, 'e, 'v) sai_state) option" where
  "ctc_sai_next_hop_group_get_member_attr L oid attr_count as s =
     (case ctc_sai_oid_get_lchip (inited s) oid of
        (st, None) \<Rightarrow> Some ((st, as), s)
      | (st, Some l) \<Rightarrow>
          (case attr_loop (get_attr_body oid SAI_OBJECT_TYPE_NEXT_HOP_GROUP_MEMBER (nh_grp_member_attr_fn_entries L))
             attr_count (0 :: u8) (SAI_STATUS_SUCCESS, as, snd (ctc_sai_db_lock L l s)) of
             None \<Rightarrow> None
           | Some (st, as, s) \<Rightarrow> Some ((st, as), snd (ctc_sai_db_unlock L l s))))"

text \<open>
  The bulk calls: one result per object that was tried, in order; the caller's arrays keep their
  contents beyond these.
\<close>

fun bulk_create_loop ::
    "('o, 'e, 'v) ctc_lib \<Rightarrow> sai_object_id \<Rightarrow> nat \<Rightarrow> (u32 \<times> sai_attribute list option) list \<Rightarrow>
     sai_status \<Rightarrow> ('o, 'e, 'v) sai_state \<Rightarrow>
     (sai_status \<times> (sai_status \<times> sai_object_id option) list) \<times> ('o, 'e, 'v) sai_state" where
  "bulk_create_loop L switch_id mode [] st s = ((st, []), s)"
| "bulk_create_loop L switch_id mode ((attr_count, as) # xs) st s =
     (let (r, s) = next_hop_group_create_member L switch_id attr_count as s;
          st = (if CTC_SAI_ERROR (fst r) then SAI_STATUS_FAILURE else st) in
      if CTC_SAI_ERROR (fst r) \<and> mode = SAI_BULK_OP_ERROR_MODE_STOP_ON_ERROR then ((st, [r]), s)
      else let ((st, rs), s) = bulk_create_loop L switch_id mode xs st s in ((st, r # rs), s))"

definition ctc_sai_next_hop_group_bulk_create_members ::
    "('o, 'e, 'v) ctc_lib \<Rightarrow> sai_object_id \<Rightarrow> (u32 \<times> sai_attribute list option) list \<Rightarrow> nat \<Rightarrow>
     ('o, 'e, 'v) sai_state \<Rightarrow> (sai_status \<times> (sai_status \<times> sai_object_id option) list) \<times> ('o, 'e, 'v) sai_state" where
  "ctc_sai_next_hop_group_bulk_create_members L switch_id xs mode s =
     (case ctc_sai_oid_get_lchip (inited s) switch_id of
        (st, None) \<Rightarrow> ((st, []), s)
      | (st, Some l) \<Rightarrow>
          (let (r, s) = bulk_create_loop L switch_id mode xs SAI_STATUS_SUCCESS (snd (ctc_sai_db_lock L l s)) in
           (r, snd (ctc_sai_db_unlock L l s))))"

text \<open>The chip that is unlocked in the end is the one of the last member that was looked at.\<close>

fun bulk_remove_loop ::
    "('o, 'e, 'v) ctc_lib \<Rightarrow> nat \<Rightarrow> sai_object_id list \<Rightarrow> u8 \<Rightarrow> sai_status \<Rightarrow> ('o, 'e, 'v) sai_state \<Rightarrow>
     (sai_status \<times> sai_status list \<times> u8) \<times> ('o, 'e, 'v) sai_state" where
  "bulk_remove_loop L mode [] l st s = ((st, [], l), s)"
| "bulk_remove_loop L mode (oid # xs) l st s =
     (case ctc_sai_oid_get_lchip (inited s) oid of
        (e, None) \<Rightarrow> ((e, [], l), s)
      | (e, Some l) \<Rightarrow>
          (let (r, s) = next_hop_group_remove_member L oid s;
               st = (if CTC_SAI_ERROR r then SAI_STATUS_FAILURE else e) in
           if CTC_SAI_ERROR r \<and> mode = SAI_BULK_OP_ERROR_MODE_STOP_ON_ERROR then ((st, [r], l), s)
           else let ((st, rs, l), s) = bulk_remove_loop L mode xs l st s in ((st, r # rs, l), s)))"

definition ctc_sai_next_hop_group_bulk_remove_members ::
    "('o, 'e, 'v) ctc_lib \<Rightarrow> sai_object_id list \<Rightarrow> nat \<Rightarrow> ('o, 'e, 'v) sai_state \<Rightarrow>
     (sai_status \<times> sai_status list) \<times> ('o, 'e, 'v) sai_state" where
  "ctc_sai_next_hop_group_bulk_remove_members L xs mode s =
     (let ((st, rs, l), s) = bulk_remove_loop L mode xs 0 SAI_STATUS_SUCCESS (snd (ctc_sai_db_lock L 0 s)) in
      ((st, rs), snd (ctc_sai_db_unlock L l s)))"

section \<open>What the parts leave alone\<close>

text \<open>Calls to the device that move neither the database nor locks nor pools.\<close>

definition device_only :: "('o, 'e, 'v) sai_state \<Rightarrow> ('o, 'e, 'v) sai_state \<Rightarrow> bool" where
  "device_only s s' \<longleftrightarrow> g_sai_db s' = g_sai_db s \<and> lock_depth (trace s') = lock_depth (trace s) \<and>
     opf_used (trace s') = opf_used (trace s)"

lemma device_only_refl [simp]: "device_only s s" by (simp add: device_only_def)

lemma device_only_trans [trans]: "device_only s s1 \<Longrightarrow> device_only s1 s2 \<Longrightarrow> device_only s s2"
  by (simp add: device_only_def)

lemma device_only_fault [simp]: "device_only s (s'\<lparr>fault := b\<rparr>) = device_only s s'"
  by (simp add: device_only_def)

lemma device_only_ext:
  assumes "device_only s s'" and "\<And>l. lock_delta c l = 0" and "\<And>r p l u. opf_step c r p l u = u"
  shows "device_only s (snd (ext_call L c s'))"
  using assms by (simp add: device_only_def fun_eq_iff)

lemma device_only_db:
  assumes "device_only s s'" and "sound L l s"
  shows "sound L l s'" "obj_map L l s' = obj_map L l s"
  using db_frame [OF assms(2), of s'] assms(1) by (simp_all add: device_only_def)

lemma nh_gport_device: "device_only s0 s \<Longrightarrow> device_only s0 (snd (nh_gport L l oid s))"
  by (auto simp: nh_gport_def Let_def case_prod_beta intro!: device_only_ext)

lemma nh_l3if_device: "device_only s0 s \<Longrightarrow> device_only s0 (snd (nh_l3if L l oid s))"
  by (auto simp: nh_l3if_def Let_def case_prod_beta split: option.splits obj_data.splits)

lemma aps_add_nh_device: "device_only s0 s \<Longrightarrow> device_only s0 (snd (aps_add_nh L l aps nh w p s))"
  by (auto simp: aps_add_nh_def Let_def case_prod_beta intro!: device_only_ext
      split: option.splits obj_data.splits if_splits)

lemma create_aps_nh_device:
  "device_only s (snd (next_hop_group_create_aps_nh L l aps nh w p s))"
  by (auto simp: next_hop_group_create_aps_nh_def Let_def case_prod_beta
      intro!: aps_add_nh_device device_only_ext nh_gport_device nh_l3if_device)

lemma remove_aps_nh_device:
  "device_only s (snd (next_hop_group_remove_aps_nh L l aps nh oid s))"
  by (auto simp: next_hop_group_remove_aps_nh_def Let_def intro!: device_only_ext)

lemma hw_undo_device: "device_only s (member_hw_undo L l grp nh w p i s)"
  by (auto simp: member_hw_undo_def Let_def intro!: device_only_ext remove_aps_nh_device)

text \<open>The record of a group after a member with a role has been added or removed.\<close>

definition grp_with :: "sai_object_id \<Rightarrow> bool \<Rightarrow> sai_object_id \<Rightarrow> ctc_sai_next_hop_grp \<Rightarrow> ctc_sai_next_hop_grp" where
  "grp_with grp work nh g =
     (if sub_type grp = SAI_NEXT_HOP_GROUP_TYPE_ECMP then g
      else if work then g\<lparr>w_nh_oid := nh\<rparr> else g\<lparr>p_nh_oid := nh\<rparr>)"

lemma grp_with_twice [simp]: "grp_with grp work nh (grp_with grp work nh' g) = grp_with grp work nh g"
  by (simp add: grp_with_def)

context ctc_lib_laws
begin

lemma hw_add_step:
  assumes s: "sound L l s" and g: "obj_map L l s grp = Some (NhGrpData g)"
    and run: "member_hw_add L l grp (NhGrpData g) nh nh_id attr_count as s = ((st, work, w, p), s')"
  shows "st = SAI_STATUS_SUCCESS \<or> st < 0" "sound L l s'"
    "lock_depth (trace s') = lock_depth (trace s)" "opf_used (trace s') = opf_used (trace s)"
    "st < 0 \<Longrightarrow> obj_map L l s' = obj_map L l s"
    "st = SAI_STATUS_SUCCESS \<Longrightarrow> obj_map L l s' = (obj_map L l s)(grp \<mapsto> NhGrpData (grp_with grp work nh g))"
proof -
  have grp: "oid_type grp = SAI_OBJECT_TYPE_NEXT_HOP_GROUP" using sound_fits [OF s g] by simp
  have all: "(st = SAI_STATUS_SUCCESS \<or> st < 0) \<and> sound L l s' \<and> lock_depth (trace s') = lock_depth (trace s) \<and>
    opf_used (trace s') = opf_used (trace s) \<and> (st < 0 \<longrightarrow> obj_map L l s' = obj_map L l s) \<and>
    (st = SAI_STATUS_SUCCESS \<longrightarrow> obj_map L l s' = (obj_map L l s)(grp \<mapsto> NhGrpData (grp_with grp work nh g)))"
  proof (cases "sub_type grp = SAI_NEXT_HOP_GROUP_TYPE_ECMP")
    case True
    let ?c = "NhUpdateEcmp l (o_value (oid_unpack grp)) (ecmp_member ECMP_ADD_MEMBER nh_id)"
    have eq: "st = ctc_sai_mapping_error_ctc L (rc (env L (trace s) ?c))" "s' = snd (ext_call L ?c s)"
      using run True by (auto simp: member_hw_add_def Let_def case_prod_beta)
    have dev: "device_only s s'" unfolding eq by (rule device_only_ext) simp_all
    have "st \<le> 0" using mapping_error_le [of L] eq(1) by simp
    then show ?thesis
      using device_only_db [OF dev s] dev g True by (auto simp: device_only_def grp_with_def fun_upd_idem)
  next
    case False
    let ?w = "if work then nh else w_nh_oid g" and ?p = "if work then p_nh_oid g else nh"
    let ?r = "if ?w \<noteq> 0 \<and> ?p \<noteq> 0
      then next_hop_group_create_aps_nh L l (o_value2 (oid_unpack grp)) (o_value (oid_unpack grp)) ?w ?p s
      else (SAI_STATUS_SUCCESS, s)"
    show ?thesis
    proof (cases "snd (ctc_sai_find_attrib_in_list attr_count as SAI_NEXT_HOP_GROUP_MEMBER_ATTR_CONFIGURED_ROLE)")
      case None
      then have "st = SAI_STATUS_MANDATORY_ATTRIBUTE_MISSING" "s' = s"
        using run False by (auto simp: member_hw_add_def Let_def split: prod.splits)
      then show ?thesis using s by simp
    next
      case (Some vi)
      have eq: "(st < 0 \<and> st = fst ?r \<and> s' = snd ?r) \<or> (st = SAI_STATUS_SUCCESS \<and>
          s' = object_store L l grp (NhGrpData (grp_with grp work nh g)) (snd ?r))"
        using run False Some
        by (cases "next_hop_group_create_aps_nh L l (o_value2 (oid_unpack grp)) (o_value (oid_unpack grp)) ?w ?p s")
           (auto simp: member_hw_add_def Let_def grp_with_def status_leaves_def split: prod.splits if_splits)
      have dev: "device_only s (snd ?r)" by (simp add: create_aps_nh_device)
      note d = device_only_db [OF dev s]
      note st = store_step [OF d(1), of grp "NhGrpData (grp_with grp work nh g)"]
      show ?thesis
        using eq st d dev g grp by (auto simp: device_only_def quiet_def)
    qed
  qed
  then show "st = SAI_STATUS_SUCCESS \<or> st < 0" "sound L l s'"
    "lock_depth (trace s') = lock_depth (trace s)" "opf_used (trace s') = opf_used (trace s)"
    "st < 0 \<Longrightarrow> obj_map L l s' = obj_map L l s"
    "st = SAI_STATUS_SUCCESS \<Longrightarrow> obj_map L l s' = (obj_map L l s)(grp \<mapsto> NhGrpData (grp_with grp work nh g))"
    by blast+
qed

lemma create_member_step:
  assumes s: "sound L l s" and ol: "oid_lchip s switch_id = l"
    and a1: "ctc_sai_find_attrib_in_list attr_count as SAI_NEXT_HOP_GROUP_MEMBER_ATTR_NEXT_HOP_GROUP_ID = (st1, Some (v1, i1))"
    and a2: "ctc_sai_find_attrib_in_list attr_count as SAI_NEXT_HOP_GROUP_MEMBER_ATTR_NEXT_HOP_ID = (st2, Some (v2, i2))"
    and g: "obj_map L l s (oiddata v1) = Some (NhGrpData g)"
    and run: "next_hop_group_create_member L switch_id attr_count as s = ((st, v), s')"
  shows "sound L l s'" "lock_depth (trace s') = lock_depth (trace s)"
    "v = None \<Longrightarrow> st < 0 \<and> (obj_map L l s' = obj_map L l s \<or>
       (\<exists>work. obj_map L l s' = (obj_map L l s)(oiddata v1 \<mapsto> NhGrpData (grp_with (oiddata v1) work (oiddata v2) g))))"
    "v = Some oid \<Longrightarrow> st = SAI_STATUS_SUCCESS \<and> obj_map L l s oid = None \<and>
       oid_type oid = SAI_OBJECT_TYPE_NEXT_HOP_GROUP_MEMBER \<and>
       ctc_sai_oid_get_lchip (inited s') oid = (SAI_STATUS_SUCCESS, Some l) \<and>
       obj_map L l s' = (obj_map L l s)
         (oiddata v1 \<mapsto> NhGrpData (grp_with (oiddata v1) (o_sub_type (oid_unpack oid) = 1) (oiddata v2) g),
          oid \<mapsto> NhGrpMemberData \<lparr>nh_grp_oid = oiddata v1\<rparr>)"
proof -
  let ?grp = "oiddata v1" and ?nh = "oiddata v2"
  let ?nh_id = "out_or 0 (snd (ctc_sai_oid_get_nexthop_id ?nh))"
  let ?s1 = "snd (mem_malloc L s)"
  have grp: "oid_type ?grp = SAI_OBJECT_TYPE_NEXT_HOP_GROUP" using sound_fits [OF s g] by simp
  note s1 = db_frame [OF s malloc_step(1) [of L]]
  have q1: "lock_depth (trace ?s1) = lock_depth (trace s)" using malloc_step(2) [of s L] by (simp add: quiet_def)
  obtain al m s2 where al: "ctc_sai_db_alloc_id L l CTC_SAI_DB_ID_TYPE_NEXTHOP_MEMBER ?s1 = ((al, m), s2)" by (metis surj_pair)
  note a = alloc_step [OF al]
  note s2 = db_frame [OF s1(1) a(2)]
  have g2: "obj_map L l s2 ?grp = Some (NhGrpData g)" using g s1(2) s2(2) by simp
  obtain hw work w p s3 where hw: "member_hw_add L l ?grp (NhGrpData g) ?nh ?nh_id attr_count as s2 = ((hw, work, w, p), s3)"
    by (metis surj_pair)
  note h = hw_add_step [OF s2(1) g2 hw]
  define new where "new = ctc_sai_create_object_id SAI_OBJECT_TYPE_NEXT_HOP_GROUP_MEMBER l (if work then 1 else 0) (ucast (out_or 0 m)) ?nh_id"
  have t: "oid_type new = SAI_OBJECT_TYPE_NEXT_HOP_GROUP_MEMBER" unfolding new_def by (rule create_type) simp
  have sub: "o_sub_type (oid_unpack new) = 1 \<longleftrightarrow> work" by (simp add: new_def create_fields)
  let ?d = "NhGrpMemberData \<lparr>nh_grp_oid = ?grp\<rparr>"
  obtain ad s4 where ad: "ctc_sai_db_add_object_property L l new (Some ?d) s3 = (ad, s4)" by (metis surj_pair)
  have fits: "data_fits (oid_type new) ?d" by (simp add: t)
  note b = add_step [OF h(2) fits ad]
  let ?free = "\<lambda>s. snd (ctc_sai_db_free_id L l CTC_SAI_DB_ID_TYPE_NEXTHOP_MEMBER (out_or 0 m) s)"
  let ?undo = "member_hw_undo L l ?grp ?nh w p ?nh_id s4"
  have eq: "next_hop_group_create_member L switch_id attr_count as s =
      (if \<not> fst (mem_malloc L s) then ((SAI_STATUS_NO_MEMORY, None), ?s1)
       else if status_leaves al then ((al, None), s2)
       else if status_leaves hw then ((hw, None), ?free s3)
       else if status_leaves ad then ((ad, None), ?free ?undo)
       else ((ad, Some new), s4))"
    unfolding next_hop_group_create_member_def ol a1 a2
    by (simp add: g obj_map_get al hw ad [unfolded new_def] Let_def case_prod_beta new_def)
  consider (mem) "v = None" "st = SAI_STATUS_NO_MEMORY" "s' = ?s1"
    | (alloc) "v = None" "st = al" "al < 0" "s' = s2"
    | (hw) "v = None" "st = hw" "hw < 0" "s' = ?free s3"
    | (add) "v = None" "st = ad" "hw = SAI_STATUS_SUCCESS" "ad < 0" "s' = ?free ?undo"
    | (ok) "v = Some new" "st = SAI_STATUS_SUCCESS" "hw = SAI_STATUS_SUCCESS" "ad = SAI_STATUS_SUCCESS" "s' = s4"
    using run [unfolded eq] a(1) h(1) b(1) by (auto simp: status_leaves_def split: if_splits)
  then have all: "sound L l s' \<and> lock_depth (trace s') = lock_depth (trace s) \<and>
    (v = None \<longrightarrow> st < 0 \<and> (obj_map L l s' = obj_map L l s \<or>
       (\<exists>work. obj_map L l s' = (obj_map L l s)(?grp \<mapsto> NhGrpData (grp_with ?grp work ?nh g))))) \<and>
    (v = Some oid \<longrightarrow> st = SAI_STATUS_SUCCESS \<and> obj_map L l s oid = None \<and>
       oid_type oid = SAI_OBJECT_TYPE_NEXT_HOP_GROUP_MEMBER \<and>
       ctc_sai_oid_get_lchip (inited s') oid = (SAI_STATUS_SUCCESS, Some l) \<and>
       obj_map L l s' = (obj_map L l s)
         (?grp \<mapsto> NhGrpData (grp_with ?grp (o_sub_type (oid_unpack oid) = 1) ?nh g), oid \<mapsto> ?d))"
  proof cases
    case mem
    then show ?thesis using s1 q1 by simp
  next
    case alloc
    then show ?thesis using s1 s2 q1 a(4) by simp
  next
    case hw
    have "g_sai_db s' = g_sai_db s3" using hw by simp
    from db_frame [OF h(2) this] show ?thesis using hw h(3,5) s1(2) s2(2) q1 a(4) by simp
  next
    case add
    have u: "device_only s4 ?undo" by (rule hw_undo_device)
    have "g_sai_db s' = g_sai_db s3" using add u b(4) by (simp add: device_only_def)
    note f = db_frame [OF h(2) this]
    have "obj_map L l s' = (obj_map L l s)(?grp \<mapsto> NhGrpData (grp_with ?grp work ?nh g))"
      using f(2) h(6) [OF add(3)] s1(2) s2(2) by simp
    moreover have "lock_depth (trace s') = lock_depth (trace s)"
      using add(5) u b(3) h(3) q1 a(4) by (simp add: device_only_def quiet_def)
    ultimately show ?thesis using add(1,2,4) f(1) by (intro conjI impI disjI2) auto
  next
    case ok
    have "?grp \<noteq> new" using t grp by auto
    then have "obj_map L l s new = None" using b(5) ok h(6) s1(2) s2(2) by simp
    moreover have "obj_map L l s' = (obj_map L l s)
        (?grp \<mapsto> NhGrpData (grp_with ?grp (o_sub_type (oid_unpack new) = 1) ?nh g), new \<mapsto> ?d)"
      using b(6) [OF ok(4)] h(6) [OF ok(3)] s1(2) s2(2) ok(5) by (simp only: sub)
    moreover have "lock_depth (trace s') = lock_depth (trace s)"
      using ok(5) b(3) h(3) q1 a(4) by (simp add: quiet_def)
    moreover have "sound L l s'" "ctc_sai_oid_get_lchip (inited s') new = (SAI_STATUS_SUCCESS, Some l)"
      using ok(5) b(2) created_lchip [OF b(2)] by (simp_all add: new_def)
    moreover have "v \<noteq> None" "v = Some oid \<Longrightarrow> oid = new" using ok(1) by simp_all
    ultimately show ?thesis using ok(2) t by blast
  qed
  then show "sound L l s'" "lock_depth (trace s') = lock_depth (trace s)"
    "v = None \<Longrightarrow> st < 0 \<and> (obj_map L l s' = obj_map L l s \<or>
       (\<exists>work. obj_map L l s' = (obj_map L l s)(?grp \<mapsto> NhGrpData (grp_with ?grp work ?nh g))))"
    "v = Some oid \<Longrightarrow> st = SAI_STATUS_SUCCESS \<and> obj_map L l s oid = None \<and>
       oid_type oid = SAI_OBJECT_TYPE_NEXT_HOP_GROUP_MEMBER \<and>
       ctc_sai_oid_get_lchip (inited s') oid = (SAI_STATUS_SUCCESS, Some l) \<and>
       obj_map L l s' = (obj_map L l s)
         (?grp \<mapsto> NhGrpData (grp_with ?grp (o_sub_type (oid_unpack oid) = 1) ?nh g), oid \<mapsto> ?d)"
    by blast+
qed

lemma hw_remove_step:
  assumes s: "sound L l s" and g: "obj_map L l s grp = Some (NhGrpData g)"
    and run: "member_hw_remove L l grp (NhGrpData g) oid s = ((leave, st), s')"
  shows "sound L l s'" "lock_depth (trace s') = lock_depth (trace s)"
    "leave \<Longrightarrow> sub_type grp = SAI_NEXT_HOP_GROUP_TYPE_ECMP \<and> st < 0 \<and> obj_map L l s' = obj_map L l s"
    "\<not> leave \<Longrightarrow> (st = SAI_STATUS_SUCCESS \<or> sub_type grp = SAI_NEXT_HOP_GROUP_TYPE_ECMP \<and>
        st \<in> {err L CTC_E_NH_NOT_EXIST, err L CTC_E_NOT_EXIST}) \<and>
      obj_map L l s' = (obj_map L l s)(grp \<mapsto> NhGrpData (grp_with grp (o_sub_type (oid_unpack oid) = 1) 0 g))"
proof -
  have grp: "oid_type grp = SAI_OBJECT_TYPE_NEXT_HOP_GROUP" using sound_fits [OF s g] by simp
  have "sound L l s' \<and> lock_depth (trace s') = lock_depth (trace s) \<and>
    (leave \<longrightarrow> sub_type grp = SAI_NEXT_HOP_GROUP_TYPE_ECMP \<and> st < 0 \<and> obj_map L l s' = obj_map L l s) \<and>
    (\<not> leave \<longrightarrow> (st = SAI_STATUS_SUCCESS \<or> sub_type grp = SAI_NEXT_HOP_GROUP_TYPE_ECMP \<and>
        st \<in> {err L CTC_E_NH_NOT_EXIST, err L CTC_E_NOT_EXIST}) \<and>
      obj_map L l s' = (obj_map L l s)(grp \<mapsto> NhGrpData (grp_with grp (o_sub_type (oid_unpack oid) = 1) 0 g)))"
  proof (cases "sub_type grp = SAI_NEXT_HOP_GROUP_TYPE_ECMP")
    case True
    let ?c = "NhUpdateEcmp l (o_value (oid_unpack grp)) (ecmp_member ECMP_REMOVE_MEMBER (o_value (oid_unpack oid)))"
    let ?e = "rc (env L (trace s) ?c)"
    have s': "s' = snd (ext_call L ?c s)"
      and st: "if ?e \<noteq> 0 \<and> ?e \<noteq> err L CTC_E_NH_NOT_EXIST \<and> ?e \<noteq> err L CTC_E_NOT_EXIST
        then leave \<and> st = ctc_sai_mapping_error_ctc L ?e else \<not> leave \<and> st = ?e"
      using run True by (auto simp: member_hw_remove_def Let_def case_prod_beta split: if_splits)
    have dev: "device_only s s'" unfolding s' by (rule device_only_ext) simp_all
    have "ctc_sai_mapping_error_ctc L ?e < 0" if "?e \<noteq> 0"
      using that mapping_error_le [of L ?e] mapping_error_zero [of ?e] by linarith
    then show ?thesis
      using device_only_db [OF dev s] dev g st True
      by (auto simp: device_only_def grp_with_def fun_upd_idem split: if_splits)
  next
    case False
    let ?g = "grp_with grp (o_sub_type (oid_unpack oid) = 1) 0 g"
    let ?s1 = "object_store L l grp (NhGrpData ?g) s"
    note st = store_step [OF s, of grp "NhGrpData ?g"]
    obtain aps n old where "leave = False" "st = SAI_STATUS_SUCCESS"
        "s' = ?s1 \<or> s' = snd (next_hop_group_remove_aps_nh L l aps n old ?s1)"
      using run False by (auto simp: member_hw_remove_def Let_def grp_with_def split: if_splits)
    moreover have "device_only ?s1 ?s1" "device_only ?s1 (snd (next_hop_group_remove_aps_nh L l aps n old ?s1))"
      by (simp_all add: remove_aps_nh_device)
    ultimately have r: "leave = False" "st = SAI_STATUS_SUCCESS" "device_only ?s1 s'" by auto
    show ?thesis
      using r st device_only_db [OF r(3)] g grp by (auto simp: device_only_def quiet_def)
  qed
  then show "sound L l s'" "lock_depth (trace s') = lock_depth (trace s)"
    "leave \<Longrightarrow> sub_type grp = SAI_NEXT_HOP_GROUP_TYPE_ECMP \<and> st < 0 \<and> obj_map L l s' = obj_map L l s"
    "\<not> leave \<Longrightarrow> (st = SAI_STATUS_SUCCESS \<or> sub_type grp = SAI_NEXT_HOP_GROUP_TYPE_ECMP \<and>
        st \<in> {err L CTC_E_NH_NOT_EXIST, err L CTC_E_NOT_EXIST}) \<and>
      obj_map L l s' = (obj_map L l s)(grp \<mapsto> NhGrpData (grp_with grp (o_sub_type (oid_unpack oid) = 1) 0 g))"
    by blast+
qed

lemma remove_member_step:
  assumes s: "sound L l s" and ol: "oid_lchip s oid = l"
    and m: "obj_map L l s oid = Some (NhGrpMemberData \<lparr>nh_grp_oid = grp\<rparr>)"
    and g: "obj_map L l s grp = Some (NhGrpData g)"
    and run: "next_hop_group_remove_member L oid s = (st, s')"
  shows "sound L l s'" "lock_depth (trace s') = lock_depth (trace s)"
    "sub_type grp = SAI_NEXT_HOP_GROUP_TYPE_ECMP \<and> st < 0 \<and> obj_map L l s' = obj_map L l s \<or>
     (st = SAI_STATUS_SUCCESS \<or> sub_type grp = SAI_NEXT_HOP_GROUP_TYPE_ECMP \<and>
        st \<in> {err L CTC_E_NH_NOT_EXIST, err L CTC_E_NOT_EXIST}) \<and>
     obj_map L l s' = (obj_map L l s)
       (grp \<mapsto> NhGrpData (grp_with grp (o_sub_type (oid_unpack oid) = 1) 0 g), oid := None)"
proof -
  have ne: "oid \<noteq> grp" using m g by auto
  obtain leave st1 s1 where hw: "member_hw_remove L l grp (NhGrpData g) oid s = ((leave, st1), s1)" by (metis surj_pair)
  note h = hw_remove_step [OF s g hw]
  define s2 where "s2 = snd (ctc_sai_db_free_id L l CTC_SAI_DB_ID_TYPE_NEXTHOP_MEMBER (ucast (o_value2 (oid_unpack oid))) s1)"
  have eq: "next_hop_group_remove_member L oid s =
      (if leave then (st1, s1) else (st1, snd (ctc_sai_db_remove_object_property L l oid s2)))"
    unfolding next_hop_group_remove_member_def ol by (simp add: obj_map_get m g hw s2_def Let_def)
  have db2: "g_sai_db s2 = g_sai_db s1" "lock_depth (trace s2) = lock_depth (trace s1)" by (simp_all add: s2_def)
  note s2 = db_frame [OF h(1) db2(1)]
  have "sound L l s' \<and> lock_depth (trace s') = lock_depth (trace s) \<and>
    (sub_type grp = SAI_NEXT_HOP_GROUP_TYPE_ECMP \<and> st < 0 \<and> obj_map L l s' = obj_map L l s \<or>
     (st = SAI_STATUS_SUCCESS \<or> sub_type grp = SAI_NEXT_HOP_GROUP_TYPE_ECMP \<and>
        st \<in> {err L CTC_E_NH_NOT_EXIST, err L CTC_E_NOT_EXIST}) \<and>
     obj_map L l s' = (obj_map L l s)
       (grp \<mapsto> NhGrpData (grp_with grp (o_sub_type (oid_unpack oid) = 1) 0 g), oid := None))"
  proof (cases leave)
    case True
    then show ?thesis using run [unfolded eq] h(1,2,3) by auto
  next
    case False
    have ex: "obj_map L l s2 oid \<noteq> None" using s2(2) h(4) [OF False] m ne by simp
    note r = remove_step [OF s2(1) ex]
    have "st = st1" "s' = snd (ctc_sai_db_remove_object_property L l oid s2)" using run [unfolded eq] False by auto
    then show ?thesis using r h(2,4) s2(2) db2(2) False by (auto simp: quiet_def)
  qed
  then show "sound L l s'" "lock_depth (trace s') = lock_depth (trace s)"
    "sub_type grp = SAI_NEXT_HOP_GROUP_TYPE_ECMP \<and> st < 0 \<and> obj_map L l s' = obj_map L l s \<or>
     (st = SAI_STATUS_SUCCESS \<or> sub_type grp = SAI_NEXT_HOP_GROUP_TYPE_ECMP \<and>
        st \<in> {err L CTC_E_NH_NOT_EXIST, err L CTC_E_NOT_EXIST}) \<and>
     obj_map L l s' = (obj_map L l s)
       (grp \<mapsto> NhGrpData (grp_with grp (o_sub_type (oid_unpack oid) = 1) 0 g), oid := None)"
    by blast+
qed

end

text \<open>Binding and unbinding the counter of a group touches nothing but the counter.\<close>

definition but_counter ::
    "('o, 'e, 'v) ctc_lib \<Rightarrow> u8 \<Rightarrow> sai_object_id \<Rightarrow> ('o, 'e, 'v) sai_state \<Rightarrow> ('o, 'e, 'v) sai_state \<Rightarrow> bool" where
  "but_counter L l c s s' \<longleftrightarrow> sound L l s' \<and> (c \<noteq> 0 \<longrightarrow> counter_ready L l c s') \<and>
     lock_depth (trace s') = lock_depth (trace s) \<and> (\<forall>oid. oid \<noteq> c \<longrightarrow> obj_map L l s' oid = obj_map L l s oid)"

lemma but_counter_trans [trans]: "but_counter L l c s s1 \<Longrightarrow> but_counter L l c s1 s2 \<Longrightarrow> but_counter L l c s s2"
  by (simp add: but_counter_def)

lemma but_counter_frame:
  assumes "but_counter L l c s s1" and "g_sai_db s2 = g_sai_db s1" and "lock_depth (trace s2) = lock_depth (trace s1)"
  shows "but_counter L l c s s2"
  using assms(1,3) db_frame [OF _ assms(2)] counter_ready_frame [OF _ assms(2)]
  unfolding but_counter_def by metis

lemma but_counter_refl: "sound L l s \<Longrightarrow> (c \<noteq> 0 \<Longrightarrow> counter_ready L l c s) \<Longrightarrow> but_counter L l c s s"
  by (simp add: but_counter_def)

lemma counter_sim_but:
  "counter_sim L l c 0 s s' \<Longrightarrow> but_counter L l c s s'"
  by (auto simp: counter_sim_def but_counter_def counter_ready_def sound_def obj_map_def)

context ctc_lib_laws
begin

lemma counter_bind_but:
  assumes "counter_ready L l c s" and "t < CTC_SAI_COUNTER_TYPE_MAX" and "ctc_sai_counter_id_create L c t s = ((st, v), s')"
  shows "but_counter L l c s s'" "st = SAI_STATUS_SUCCESS \<or> st < 0"
proof -
  have "counter_do L c (BindOp t) s = (st, s')" using assms(3) by (simp add: counter_do_def)
  then obtain k where k: "counter_step (BindOp t) (counter_abs L l c s) (st, k) (counter_abs L l c s')"
      "counter_sim L l c k s s'"
    using bind_sim [OF assms(1,2)] by blast
  then show "but_counter L l c s s'" "st = SAI_STATUS_SUCCESS \<or> st < 0"
    by (auto elim!: counter_stepE intro: counter_sim_but)
qed

lemma counter_unbind_but:
  assumes "counter_ready L l c s"
  shows "but_counter L l c s (snd (ctc_sai_counter_id_remove L c t s))"
    and "fst (ctc_sai_counter_id_remove L c t s) = SAI_STATUS_SUCCESS \<or> fst (ctc_sai_counter_id_remove L c t s) < 0"
proof -
  have "counter_do L c (UnbindOp t) s = (fst (ctc_sai_counter_id_remove L c t s), snd (ctc_sai_counter_id_remove L c t s))"
    by (simp add: counter_do_def)
  then obtain k where k: "counter_step (UnbindOp t) (counter_abs L l c s) (fst (ctc_sai_counter_id_remove L c t s), k)
        (counter_abs L l c (snd (ctc_sai_counter_id_remove L c t s)))"
      "counter_sim L l c k s (snd (ctc_sai_counter_id_remove L c t s))"
    using unbind_sim [OF assms] by blast
  then show "but_counter L l c s (snd (ctc_sai_counter_id_remove L c t s))"
    and "fst (ctc_sai_counter_id_remove L c t s) = SAI_STATUS_SUCCESS \<or> fst (ctc_sai_counter_id_remove L c t s) < 0"
    by (auto elim!: counter_stepE intro: counter_sim_but)
qed

lemma undo_ids_but:
  assumes "but_counter L l c s0 s"
  shows "but_counter L l c s0 (grp_undo_ids L l gt c nh s)"
proof -
  let ?s = "if unat gt = SAI_NEXT_HOP_GROUP_TYPE_ECMP \<and> c \<noteq> SAI_NULL_OBJECT_ID
    then snd (ctc_sai_counter_id_remove L c CTC_SAI_COUNTER_TYPE_ECMP s) else s"
  have "but_counter L l c s0 ?s"
  proof (cases "unat gt = SAI_NEXT_HOP_GROUP_TYPE_ECMP \<and> c \<noteq> SAI_NULL_OBJECT_ID")
    case True
    then have "counter_ready L l c s" using assms by (simp add: but_counter_def)
    then show ?thesis using True but_counter_trans [OF assms counter_unbind_but(1)] by simp
  next
    case False
    then show ?thesis using assms by auto
  qed
  then show ?thesis unfolding grp_undo_ids_def Let_def by (rule but_counter_frame) simp_all
qed

lemma undo_hw_but:
  assumes "but_counter L l c s0 s"
  shows "but_counter L l c s0 (grp_undo_hw L l gt nh aps s)"
  using assms
  by (cases "unat gt = SAI_NEXT_HOP_GROUP_TYPE_ECMP"; cases "unat gt = SAI_NEXT_HOP_GROUP_TYPE_PROTECTION")
     (auto simp: grp_undo_hw_def fun_eq_iff intro: but_counter_frame)

lemma hw_create_but:
  assumes s: "but_counter L l c s0 s" and run: "grp_hw_create L l gt c nh s = ((go, st, aps), s')"
  shows "but_counter L l c s0 s'" "go = Go \<longleftrightarrow> st = SAI_STATUS_SUCCESS" "st = SAI_STATUS_SUCCESS \<or> st < 0"
    "go = Out \<Longrightarrow> unat gt = SAI_NEXT_HOP_GROUP_TYPE_ECMP \<and> c \<noteq> 0"
    "go = Go \<Longrightarrow> unat gt = SAI_NEXT_HOP_GROUP_TYPE_ECMP \<or> unat gt = SAI_NEXT_HOP_GROUP_TYPE_PROTECTION"
proof -
  let ?goal = "but_counter L l c s0 s' \<and> (go = Go \<longleftrightarrow> st = SAI_STATUS_SUCCESS) \<and> (st = SAI_STATUS_SUCCESS \<or> st < 0) \<and>
    (go = Out \<longrightarrow> unat gt = SAI_NEXT_HOP_GROUP_TYPE_ECMP \<and> c \<noteq> 0) \<and>
    (go = Go \<longrightarrow> unat gt = SAI_NEXT_HOP_GROUP_TYPE_ECMP \<or> unat gt = SAI_NEXT_HOP_GROUP_TYPE_PROTECTION)"
  consider (ecmp) "unat gt = 0" | (prot) "unat gt = 1" | (other) "unat gt \<noteq> 0" "unat gt \<noteq> 1" by blast
  then have ?goal
  proof cases
    case ecmp
    obtain bst v s1 where b: "(if c \<noteq> SAI_NULL_OBJECT_ID then ctc_sai_counter_id_create L c CTC_SAI_COUNTER_TYPE_ECMP s
        else ((SAI_STATUS_SUCCESS, Some 0), s)) = ((bst, v), s1)" by (metis surj_pair)
    have s1: "but_counter L l c s0 s1 \<and> (bst = SAI_STATUS_SUCCESS \<or> bst < 0 \<and> c \<noteq> 0)"
    proof (cases "c = 0")
      case False
      then have "counter_ready L l c s" using s by (simp add: but_counter_def)
      from counter_bind_but [OF this _ , of CTC_SAI_COUNTER_TYPE_ECMP bst v s1] show ?thesis
        using b False but_counter_trans [OF s] by auto
    qed (use b s in auto)
    define par where "par = \<lparr>ep_static = True, ep_member_num = 64, ep_nhid = CTC_NH_RESERVED_NHID_FOR_DROP L, ep_nh_num = 1,
      ep_stats_id = out_or 0 v, ep_upd = None\<rparr>"
    define e where "e = ctc_sai_mapping_error_ctc L (rc (env L (trace s1) (NhAddEcmp l nh par)))"
    let ?s2 = "snd (ext_call L (NhAddEcmp l nh par) s1)"
    let ?s3 = "snd (ext_call L (NhUpdateEcmp l nh (par\<lparr>ep_upd := Some ECMP_REMOVE_MEMBER\<rparr>)) ?s2)"
    have eq: "grp_hw_create L l gt c nh s =
        (if status_leaves bst then ((Out, bst, 0), s1) else if status_leaves e then ((Undo, e, 0), ?s2)
         else ((Go, SAI_STATUS_SUCCESS, 0), ?s3))"
      by (simp add: grp_hw_create_def ecmp b Let_def case_prod_beta e_def par_def)
    have e: "e \<le> 0" by (simp add: e_def mapping_error_le)
    have "but_counter L l c s0 ?s2" "but_counter L l c s0 ?s3"
      by (rule but_counter_frame [OF conjunct1 [OF s1]]; simp add: fun_eq_iff)+
    then show ?thesis using run [unfolded eq] s1 e ecmp by (auto simp: status_leaves_def split: if_splits)
  next
    case prot
    obtain al v s1 where al: "ctc_sai_db_alloc_id L l CTC_SAI_DB_ID_TYPE_APS s = ((al, v), s1)" by (metis surj_pair)
    note a = alloc_step [OF al]
    have "but_counter L l c s0 s1" by (rule but_counter_frame [OF s a(2) a(4)])
    then show ?thesis
      using run a(1) prot by (auto simp: grp_hw_create_def al status_leaves_def split: if_splits)
  next
    case other
    then show ?thesis using run s by (auto simp: grp_hw_create_def)
  qed
  then show "but_counter L l c s0 s'" "go = Go \<longleftrightarrow> st = SAI_STATUS_SUCCESS" "st = SAI_STATUS_SUCCESS \<or> st < 0"
    "go = Out \<Longrightarrow> unat gt = SAI_NEXT_HOP_GROUP_TYPE_ECMP \<and> c \<noteq> 0"
    "go = Go \<Longrightarrow> unat gt = SAI_NEXT_HOP_GROUP_TYPE_ECMP \<or> unat gt = SAI_NEXT_HOP_GROUP_TYPE_PROTECTION"
    by blast+
qed

lemma create_nh_grp_locked_step:
  assumes s: "sound L l s" and c': "c \<noteq> 0 \<longrightarrow> counter_ready L l c s"
    and run: "create_nh_grp_locked L l gt c s = ((st, v), unlock, s')"
  shows "sound L l s'" "lock_depth (trace s') = lock_depth (trace s)"
    "\<not> unlock \<Longrightarrow> v = None \<and> unat gt = SAI_NEXT_HOP_GROUP_TYPE_ECMP \<and> c \<noteq> 0"
    "v = None \<Longrightarrow> st < 0 \<and> but_counter L l c s s'"
    "v = Some oid \<Longrightarrow> st = SAI_STATUS_SUCCESS \<and> obj_map L l s oid = None \<and>
       oid_type oid = SAI_OBJECT_TYPE_NEXT_HOP_GROUP \<and> sub_type oid = unat gt \<and>
       obj_map L l s' oid = Some (NhGrpData \<lparr>w_nh_oid = 0, p_nh_oid = 0, grp_counter_oid = c\<rparr>) \<and>
       (\<forall>oid'. oid' \<noteq> oid \<and> oid' \<noteq> c \<longrightarrow> obj_map L l s' oid' = obj_map L l s oid')"
proof -
  note c = c' [rule_format]
  obtain al i s1 where al: "ctc_sai_db_alloc_id L l CTC_SAI_DB_ID_TYPE_NEXTHOP s = ((al, i), s1)" by (metis surj_pair)
  note a = alloc_step [OF al]
  have b1: "but_counter L l c s s1" by (rule but_counter_frame [OF but_counter_refl [OF s c] a(2,4)])
  obtain go hw aps s2 where hw: "grp_hw_create L l gt c (out_or 0 i) s1 = ((go, hw, aps), s2)" by (metis surj_pair)
  note h = hw_create_but [OF b1 hw]
  define new where "new = ctc_sai_create_object_id SAI_OBJECT_TYPE_NEXT_HOP_GROUP l gt (ucast aps) (out_or 0 i)"
  have t: "oid_type new = SAI_OBJECT_TYPE_NEXT_HOP_GROUP" unfolding new_def by (rule create_type) simp
  let ?s3 = "snd (mem_malloc L s2)"
  have b3: "but_counter L l c s ?s3"
    by (rule but_counter_frame [OF h(1)]) (use malloc_step(2) [of s2 L] in \<open>simp_all add: quiet_def\<close>)
  then have s3: "sound L l ?s3" by (simp add: but_counter_def)
  let ?d = "NhGrpData \<lparr>w_nh_oid = 0, p_nh_oid = 0, grp_counter_oid = c\<rparr>"
  obtain ad s4 where ad: "ctc_sai_db_add_object_property L l new (Some ?d) ?s3 = (ad, s4)" by (metis surj_pair)
  have fits: "data_fits (oid_type new) ?d" by (simp add: t)
  note d = add_step [OF s3 fits ad]
  let ?undo = "\<lambda>s. grp_undo_ids L l gt c (out_or 0 i) (grp_undo_hw L l gt (out_or 0 i) aps s)"
  have eq: "create_nh_grp_locked L l gt c s =
      (if status_leaves al then ((al, None), True, s1)
       else if go = Out then ((hw, None), False, s2)
       else if go = Undo then ((hw, None), True, grp_undo_ids L l gt c (out_or 0 i) s2)
       else if \<not> fst (mem_malloc L s2) then ((SAI_STATUS_NO_MEMORY, None), True, ?undo ?s3)
       else if status_leaves ad then ((ad, None), True, ?undo s4)
       else ((ad, Some new), True, s4))"
    unfolding create_nh_grp_locked_def by (simp add: al hw ad [unfolded new_def] Let_def case_prod_beta new_def)
  have sub: "sub_type new = unat gt" if "go = Go"
  proof -
    have "unat gt < 2 ^ 3" using h(5) [OF that] by auto
    then have "unat (ucast gt :: 3 word) = unat gt"
      by (simp add: unsigned_ucast_eq unsigned_take_bit_eq take_bit_nat_eq_self)
    then show ?thesis by (simp add: sub_type_def new_def create_fields)
  qed
  have b4: "but_counter L l c s s4" if "ad < 0"
  proof (rule but_counter_frame [OF b3])
    show "g_sai_db s4 = g_sai_db ?s3" using d(4) that by simp
    show "lock_depth (trace s4) = lock_depth (trace ?s3)" using d(3) by (simp add: quiet_def)
  qed
  have "oid_type 0 = 0" by (simp add: oid_type_eq oid_unpack_def)
  then have nc: "new \<noteq> c" using c t by (cases "c = 0") (auto simp: counter_ready_def)
  consider (fail) "v = None" "st < 0" "unlock" "but_counter L l c s s'"
    | (out) "v = None" "st < 0" "\<not> unlock" "but_counter L l c s s'" "go = Out"
    | (ok) "v = Some new" "st = SAI_STATUS_SUCCESS" "unlock" "s' = s4" "ad = SAI_STATUS_SUCCESS" "go = Go"
    using run [unfolded eq] a(1) h(1,2,3) d(1) b1 b3 b4 undo_ids_but undo_hw_but
    by (auto simp: status_leaves_def split: if_splits intro: grp_go.exhaust [of go])
  then have "sound L l s' \<and> lock_depth (trace s') = lock_depth (trace s) \<and>
    (\<not> unlock \<longrightarrow> v = None \<and> unat gt = SAI_NEXT_HOP_GROUP_TYPE_ECMP \<and> c \<noteq> 0) \<and>
    (v = None \<longrightarrow> st < 0 \<and> but_counter L l c s s') \<and>
    (v = Some oid \<longrightarrow> st = SAI_STATUS_SUCCESS \<and> obj_map L l s oid = None \<and>
       oid_type oid = SAI_OBJECT_TYPE_NEXT_HOP_GROUP \<and> sub_type oid = unat gt \<and>
       obj_map L l s' oid = Some ?d \<and>
       (\<forall>oid'. oid' \<noteq> oid \<and> oid' \<noteq> c \<longrightarrow> obj_map L l s' oid' = obj_map L l s oid'))"
  proof cases
    case fail
    then show ?thesis by (simp add: but_counter_def)
  next
    case out
    then show ?thesis using h(4) by (simp add: but_counter_def)
  next
    case ok
    have "obj_map L l s new = None"
      using b3 d(5) [OF ok(5)] nc by (auto simp: but_counter_def)
    moreover have "obj_map L l s' = (obj_map L l ?s3)(new \<mapsto> ?d)" using d(6) [OF ok(5)] ok(4) by simp
    moreover have "lock_depth (trace s') = lock_depth (trace s)"
      using b3 d(3) ok(4) by (simp add: but_counter_def quiet_def)
    ultimately show ?thesis
      using ok d(2) t sub b3 by (auto simp: but_counter_def)
  qed
  then show "sound L l s'" "lock_depth (trace s') = lock_depth (trace s)"
    "\<not> unlock \<Longrightarrow> v = None \<and> unat gt = SAI_NEXT_HOP_GROUP_TYPE_ECMP \<and> c \<noteq> 0"
    "v = None \<Longrightarrow> st < 0 \<and> but_counter L l c s s'"
    "v = Some oid \<Longrightarrow> st = SAI_STATUS_SUCCESS \<and> obj_map L l s oid = None \<and>
       oid_type oid = SAI_OBJECT_TYPE_NEXT_HOP_GROUP \<and> sub_type oid = unat gt \<and>
       obj_map L l s' oid = Some ?d \<and>
       (\<forall>oid'. oid' \<noteq> oid \<and> oid' \<noteq> c \<longrightarrow> obj_map L l s' oid' = obj_map L l s oid')"
    by blast+
qed

lemma create_nh_grp_leak:
  assumes c: "c \<noteq> 0" "counter_ready L l c s" "obj_map L l s c = None"
    and gt: "unat gt = SAI_NEXT_HOP_GROUP_TYPE_ECMP"
    and al: "fst (fst (ctc_sai_db_alloc_id L l CTC_SAI_DB_ID_TYPE_NEXTHOP s)) = SAI_STATUS_SUCCESS"
  shows "create_nh_grp_locked L l gt c s =
    ((SAI_STATUS_ITEM_NOT_FOUND, None), False, snd (ctc_sai_db_alloc_id L l CTC_SAI_DB_ID_TYPE_NEXTHOP s))"
proof -
  let ?s = "snd (ctc_sai_db_alloc_id L l CTC_SAI_DB_ID_TYPE_NEXTHOP s)"
  have db: "g_sai_db ?s = g_sai_db s" by simp
  have "counter_ready L l c ?s" by (rule counter_ready_frame [OF c(2) db])
  moreover have "ctc_sai_db_get_object_property L l c ?s = None" using c(3) get_frame [OF db] by (simp add: obj_map_def)
  ultimately have "ctc_sai_counter_id_create L c CTC_SAI_COUNTER_TYPE_ECMP ?s = ((SAI_STATUS_ITEM_NOT_FOUND, None), ?s)"
    by (simp add: ctc_sai_counter_id_create_def counter_ready_def)
  then show ?thesis
    using al c(1) gt
    by (simp add: create_nh_grp_locked_def grp_hw_create_def Let_def case_prod_beta status_leaves_def)
qed

lemma remove_nh_grp_step:
  assumes s: "sound L l s" and g: "obj_map L l s oid = Some (NhGrpData g)"
    and c': "grp_counter_oid g \<noteq> 0 \<longrightarrow> counter_ready L l (grp_counter_oid g) s"
    and run: "remove_nh_grp_locked L l oid s = (SAI_STATUS_SUCCESS, s')"
  shows "sound L l s'" "lock_depth (trace s') = lock_depth (trace s)" "obj_map L l s' oid = None"
    "oid' \<noteq> oid \<Longrightarrow> oid' \<noteq> grp_counter_oid g \<Longrightarrow> obj_map L l s' oid' = obj_map L l s oid'"
proof -
  note c = c' [rule_format]
  let ?c = "grp_counter_oid g"
  have t: "oid_type oid = SAI_OBJECT_TYPE_NEXT_HOP_GROUP" using sound_fits [OF s g] by simp
  have "oid_type 0 = 0" by (simp add: oid_type_eq oid_unpack_def)
  then have nc: "oid \<noteq> ?c" using c t by (cases "?c = 0") (auto simp: counter_ready_def)
  define fin where "fin = (\<lambda>s. snd (ctc_sai_db_remove_object_property L l oid
    (snd (ctc_sai_db_free_id L l CTC_SAI_DB_ID_TYPE_NEXTHOP (o_value (oid_unpack oid)) s))))"
  have keeps: "sound L l (fin s1) \<and> lock_depth (trace (fin s1)) = lock_depth (trace s) \<and>
      obj_map L l (fin s1) oid = None \<and>
      (oid' \<noteq> oid \<longrightarrow> oid' \<noteq> ?c \<longrightarrow> obj_map L l (fin s1) oid' = obj_map L l s oid')"
    if b: "but_counter L l ?c s s1" for s1
  proof -
    let ?s2 = "snd (ctc_sai_db_free_id L l CTC_SAI_DB_ID_TYPE_NEXTHOP (o_value (oid_unpack oid)) s1)"
    have b2: "but_counter L l ?c s ?s2" by (rule but_counter_frame [OF b]) simp_all
    have "obj_map L l ?s2 oid \<noteq> None" using b2 g nc by (simp add: but_counter_def)
    then show ?thesis
      using remove_step [of l ?s2 oid] b2 by (auto simp: but_counter_def quiet_def fin_def)
  qed
  have b0: "but_counter L l ?c s s" using s c by (rule but_counter_refl)
  have "\<exists>s1. but_counter L l ?c s s1 \<and> s' = fin s1"
  proof (cases "sub_type oid = SAI_NEXT_HOP_GROUP_TYPE_ECMP")
    case ecmp: True
    let ?s1 = "snd (ext_call L (NhRemoveEcmp l (o_value (oid_unpack oid))) s)"
    let ?e = "rc (env L (trace s) (NhRemoveEcmp l (o_value (oid_unpack oid))))"
    have b1: "but_counter L l ?c s ?s1" by (rule but_counter_frame [OF b0]) (simp_all add: fun_eq_iff)
    have rc0: "ctc_sai_mapping_error_ctc L e = SAI_STATUS_SUCCESS \<longleftrightarrow> e = 0" for e by (rule mapping_error_zero)
    show ?thesis
    proof (cases "?c = 0")
      case True
      then have "remove_nh_grp_locked L l oid s = (if ?e \<noteq> 0 then (ctc_sai_mapping_error_ctc L ?e, ?s1) else (SAI_STATUS_SUCCESS, fin ?s1))"
        by (simp add: remove_nh_grp_locked_def obj_map_get g ecmp fin_def Let_def case_prod_beta)
      then have "s' = fin ?s1" using run rc0 [of ?e] by (simp split: if_splits)
      then show ?thesis using b1 by blast
    next
      case False
      define r where "r = ctc_sai_counter_id_remove L ?c CTC_SAI_COUNTER_TYPE_ECMP ?s1"
      have "remove_nh_grp_locked L l oid s = (if ?e \<noteq> 0 then (ctc_sai_mapping_error_ctc L ?e, ?s1)
          else if fst r \<noteq> SAI_STATUS_SUCCESS then (fst r, snd r) else (SAI_STATUS_SUCCESS, fin (snd r)))"
        by (simp add: remove_nh_grp_locked_def obj_map_get g ecmp False fin_def r_def Let_def case_prod_beta)
      then have "s' = fin (snd r)" using run rc0 [of ?e] by (cases r) (simp split: if_splits)
      moreover have "counter_ready L l ?c ?s1" using b1 False by (simp add: but_counter_def)
      ultimately show ?thesis using but_counter_trans [OF b1 counter_unbind_but(1)] unfolding r_def by blast
    qed
  next
    case ne: False
    show ?thesis
    proof (cases "sub_type oid = SAI_NEXT_HOP_GROUP_TYPE_PROTECTION")
      case True
      let ?s1 = "snd (ctc_sai_db_free_id L l CTC_SAI_DB_ID_TYPE_APS (ucast (o_value2 (oid_unpack oid)))
        (snd (ext_call L (ApsDestroy l (o_value2 (oid_unpack oid)))
          (snd (ext_call L (NhRemoveIpuc l (o_value (oid_unpack oid))) s)))))"
      have "but_counter L l ?c s ?s1" by (rule but_counter_frame [OF b0]) (simp_all add: fun_eq_iff)
      moreover have "s' = fin ?s1" using run ne True by (simp add: remove_nh_grp_locked_def obj_map_get g Let_def fin_def)
      ultimately show ?thesis by blast
    next
      case False
      then have "s' = fin s" using run ne by (simp add: remove_nh_grp_locked_def obj_map_get g Let_def fin_def)
      then show ?thesis using b0 by blast
    qed
  qed
  then obtain s1 where s1: "but_counter L l ?c s s1" "s' = fin s1" by blast
  show "sound L l s'" "lock_depth (trace s') = lock_depth (trace s)" "obj_map L l s' oid = None"
    "oid' \<noteq> oid \<Longrightarrow> oid' \<noteq> ?c \<Longrightarrow> obj_map L l s' oid' = obj_map L l s oid'"
    using keeps [OF s1(1)] s1(2) by simp_all
qed

end

section \<open>The member list\<close>

text \<open>The members of a group among the buckets of a table, in the order of the traversal.\<close>

definition members_in :: "sai_object_id \<Rightarrow> obj_bucket list \<Rightarrow> sai_object_id list" where
  "members_in grp ys = map fst (filter (\<lambda>y. snd y = Some (NhGrpMemberData \<lparr>nh_grp_oid = grp\<rparr>)) ys)"

definition members_of :: "('o, 'e, 'v) ctc_lib \<Rightarrow> u8 \<Rightarrow> sai_object_id \<Rightarrow> ('o, 'e, 'v) sai_state \<Rightarrow> sai_object_id set" where
  "members_of L l grp s = {oid. obj_map L l s oid = Some (NhGrpMemberData \<lparr>nh_grp_oid = grp\<rparr>)}"

definition member_buckets :: "obj_bucket list \<Rightarrow> bool" where
  "member_buckets ys \<longleftrightarrow> (\<forall>y \<in> set ys. \<exists>g. snd y = Some (NhGrpMemberData \<lparr>nh_grp_oid = g\<rparr>))"

lemma get_members_step:
  assumes "snd y = Some (NhGrpMemberData \<lparr>nh_grp_oid = g\<rparr>)" and "xs \<noteq> []" and "hd xs = grp"
  shows "next_hop_group_get_members_from_db y (s, cnt, xs) =
    (if g = grp then (SAI_STATUS_SUCCESS, (if length xs \<le> unat cnt then s\<lparr>fault := True\<rparr> else s), cnt + 1, xs[unat cnt := fst y])
     else (SAI_STATUS_SUCCESS, s, cnt, xs))"
  using assms by (auto simp: next_hop_group_get_members_from_db_def list_put_def)

lemma traverse_members_content:
  assumes "member_buckets ys" and "\<not> stops 0" and "length (members_in grp ys) \<le> length rest"
    and "cnt = of_nat (Suc (length pre))" and "Suc (length pre + length rest) < 2 ^ 32"
  shows "hash_traverse stops ret next_hop_group_get_members_from_db ys (s, cnt, grp # pre @ rest) =
    (0, s, cnt + of_nat (length (members_in grp ys)),
     grp # pre @ members_in grp ys @ drop (length (members_in grp ys)) rest)"
  using assms
proof (induction ys arbitrary: pre rest cnt)
  case Nil
  then show ?case by (simp add: members_in_def)
next
  case (Cons y ys)
  obtain g where g: "snd y = Some (NhGrpMemberData \<lparr>nh_grp_oid = g\<rparr>)" using Cons.prems(1) by (auto simp: member_buckets_def)
  have ys: "member_buckets ys" using Cons.prems(1) by (simp add: member_buckets_def)
  show ?case
  proof (cases "g = grp")
    case False
    then show ?thesis
      using Cons.IH [OF ys Cons.prems(2) _ Cons.prems(4,5)] Cons.prems(2,3) g
      by (simp add: get_members_step [OF g] members_in_def)
  next
    case True
    have m: "members_in grp (y # ys) = fst y # members_in grp ys" using g True by (simp add: members_in_def)
    then obtain r rs where rest: "rest = r # rs" using Cons.prems(3) by (cases rest) auto
    have "Suc (length pre) < 2 ^ 32" using Cons.prems(5) by simp
    then have u: "unat cnt = Suc (length pre)" unfolding Cons.prems(4) by (simp add: unat_of_nat del: of_nat_Suc)
    have "cnt + 1 = of_nat (Suc (length (pre @ [fst y])))" using Cons.prems(4) by simp
    moreover have "length (members_in grp ys) \<le> length rs" "Suc (length (pre @ [fst y]) + length rs) < 2 ^ 32"
      using Cons.prems(3,5) m rest by simp_all
    ultimately show ?thesis
      using Cons.IH [OF ys Cons.prems(2), of rs "cnt + 1" "pre @ [fst y]"] u rest m g True Cons.prems(2)
      by (simp add: get_members_step [OF g] algebra_simps)
  qed
qed

lemma traverse_members_fault:
  assumes "member_buckets ys" and "\<not> stops 0" and "xs \<noteq> []" "hd xs = grp" and "1 \<le> unat cnt"
    and "unat cnt + length (members_in grp ys) < 2 ^ 32"
  shows "fault (fst (snd (hash_traverse stops ret next_hop_group_get_members_from_db ys (s, cnt, xs)))) \<longleftrightarrow>
    fault s \<or> members_in grp ys \<noteq> [] \<and> length xs < unat cnt + length (members_in grp ys)"
  using assms
proof (induction ys arbitrary: s cnt xs)
  case Nil
  then show ?case by (simp add: members_in_def)
next
  case (Cons y ys)
  obtain g where g: "snd y = Some (NhGrpMemberData \<lparr>nh_grp_oid = g\<rparr>)" using Cons.prems(1) by (auto simp: member_buckets_def)
  have ys: "member_buckets ys" using Cons.prems(1) by (simp add: member_buckets_def)
  show ?case
  proof (cases "g = grp")
    case False
    then show ?thesis
      using Cons.IH [OF ys Cons.prems(2-5)] Cons.prems g by (simp add: get_members_step [OF g] members_in_def)
  next
    case True
    have m: "members_in grp (y # ys) = fst y # members_in grp ys" using g True by (simp add: members_in_def)
    have u: "unat (cnt + 1) = Suc (unat cnt)"
      using Cons.prems(6) m by (simp add: unat_word_ariths)
    have h: "xs[unat cnt := fst y] \<noteq> []" "hd (xs[unat cnt := fst y]) = grp"
      using Cons.prems(3-5) by (auto simp: hd_conv_nth)
    show ?thesis
      using Cons.IH [OF ys Cons.prems(2) h, of "cnt + 1"] u Cons.prems(2,3,4,6) m True
      by (cases "members_in grp ys") (auto simp: get_members_step [OF g])
  qed
qed

lemma empty_traverse:
  assumes "member_buckets ys" and "\<not> stops 0"
  shows "hash_traverse stops ret next_hop_group_get_members_from_db ys (s, cnt, []) = (0, s, cnt, [])"
  using assms by (induction ys) (auto simp: member_buckets_def next_hop_group_get_members_from_db_def)

lemma rotate_first:
  assumes "ms \<noteq> []"
  shows "take (length ms) ((g # ms @ r)[0 := last ms]) = last ms # butlast ms"
    and "set (last ms # butlast ms) = set ms" and "distinct ms \<Longrightarrow> distinct (last ms # butlast ms)"
proof -
  show "take (length ms) ((g # ms @ r)[0 := last ms]) = last ms # butlast ms"
    using assms by (simp add: take_Cons' butlast_conv_take)
  have ms: "ms = butlast ms @ [last ms]" using assms by simp
  show "set (last ms # butlast ms) = set ms" by (subst (3) ms) simp
  assume "distinct ms"
  then have "distinct (butlast ms @ [last ms])" using ms by simp
  then show "distinct (last ms # butlast ms)" by simp
qed

context ctc_lib_laws
begin

lemma member_items:
  assumes s: "sound L l s" and db: "g_sai_db s l = Some db"
    and ys_def: "ys = hash_items (oid_ops L) (oid_hash db SAI_OBJECT_TYPE_NEXT_HOP_GROUP_MEMBER)"
  shows "member_buckets ys" "distinct (members_in grp ys)" "set (members_in grp ys) = members_of L l grp s"
proof -
  have ok: "db_ok L db" "l < CTC_SAI_MAX_CHIP_NUM"
    using s db by (auto simp: sound_def elim!: chip_inv_obtain)
  have v: "ctc_sai_is_object_type_valid SAI_OBJECT_TYPE_NEXT_HOP_GROUP_MEMBER"
    by (simp add: ctc_sai_is_object_type_valid_def)
  note h = db_ok_oid_hash [OF ok(1) v]
  have y: "oid_type (fst y) = SAI_OBJECT_TYPE_NEXT_HOP_GROUP_MEMBER \<and> snd y \<noteq> None \<and> obj_map L l s (fst y) = snd y"
    if "y \<in> set ys" for y
  proof -
    have lk: "hash_lookup (oid_ops L) (oid_hash db SAI_OBJECT_TYPE_NEXT_HOP_GROUP_MEMBER) (fst y) = Some (snd y)"
      using oid.lookup_Some_iff [OF h, of "fst y" "snd y"] that by (simp add: ys_def)
    then have "oid_type (fst y) = SAI_OBJECT_TYPE_NEXT_HOP_GROUP_MEMBER \<and> snd y \<noteq> None" by (rule db_ok_lookup [OF ok(1) v])
    then show ?thesis using get_lookup [OF db ok(2), of "fst y"] lk v by (simp add: oid_valid_def obj_map_def)
  qed
  have shape: "\<exists>g. d = NhGrpMemberData \<lparr>nh_grp_oid = g\<rparr>" if fits: "data_fits SAI_OBJECT_TYPE_NEXT_HOP_GROUP_MEMBER d" for d
  proof -
    obtain m where "d = NhGrpMemberData m" using fits by (cases d) auto
    then show ?thesis by (cases m) simp
  qed
  show "member_buckets ys"
    unfolding member_buckets_def using y shape sound_fits [OF s] by (metis not_None_eq)
  have d: "distinct (map fst ys)" unfolding ys_def by (rule oid.items_distinct [OF h])
  then show "distinct (members_in grp ys)" unfolding members_in_def by (rule distinct_map_filter)
  have "oid \<in> set (members_in grp ys) \<longleftrightarrow> obj_map L l s oid = Some (NhGrpMemberData \<lparr>nh_grp_oid = grp\<rparr>)" for oid
  proof
    assume "oid \<in> set (members_in grp ys)"
    then show "obj_map L l s oid = Some (NhGrpMemberData \<lparr>nh_grp_oid = grp\<rparr>)" using y by (auto simp: members_in_def)
  next
    assume m: "obj_map L l s oid = Some (NhGrpMemberData \<lparr>nh_grp_oid = grp\<rparr>)"
    then have t: "oid_type oid = SAI_OBJECT_TYPE_NEXT_HOP_GROUP_MEMBER" using sound_fits [OF s m] by simp
    then have "hash_lookup (oid_ops L) (oid_hash db SAI_OBJECT_TYPE_NEXT_HOP_GROUP_MEMBER) oid =
        Some (Some (NhGrpMemberData \<lparr>nh_grp_oid = grp\<rparr>))"
      using get_lookup [OF db ok(2), of oid] m v by (auto simp: oid_valid_def obj_map_def split: option.splits)
    then have "(oid, Some (NhGrpMemberData \<lparr>nh_grp_oid = grp\<rparr>)) \<in> set ys"
      using oid.lookup_Some_iff [OF h] by (simp add: ys_def)
    then show "oid \<in> set (members_in grp ys)" by (force simp: members_in_def)
  qed
  then show "set (members_in grp ys) = members_of L l grp s" by (auto simp: members_of_def)
qed

end

section \<open>A sample state\<close>

text \<open>A chip with an ECMP group and one member of it.\<close>

definition ref_grp :: sai_object_id where
  "ref_grp = ctc_sai_create_object_id SAI_OBJECT_TYPE_NEXT_HOP_GROUP 0 0 0 7"

definition ref_mem :: sai_object_id where
  "ref_mem = ctc_sai_create_object_id SAI_OBJECT_TYPE_NEXT_HOP_GROUP_MEMBER 0 0 9 4"

definition ref_grp_data :: ctc_sai_next_hop_grp where
  "ref_grp_data = \<lparr>w_nh_oid = 0, p_nh_oid = 0, grp_counter_oid = 0\<rparr>"

definition ref_nhg_objs :: "(sai_object_id \<times> obj_data) list" where
  "ref_nhg_objs = [(ref_grp, NhGrpData ref_grp_data), (ref_mem, NhGrpMemberData \<lparr>nh_grp_oid = ref_grp\<rparr>)]"

definition ref_nhg_state :: "(ref_oid, ref_ent, ref_vec) sai_state" where
  "ref_nhg_state = fold ref_add ref_nhg_objs ref_state"

lemma ref_nhg_sound: "sound ref_lib 0 ref_nhg_state"
proof -
  have "\<forall>x \<in> set ref_nhg_objs. data_fits (oid_type (fst x)) (snd x)" by code_simp
  then show ?thesis
    using ref_fold_inv [of ref_state ref_nhg_objs] ref_state_sound by (simp add: ref_nhg_state_def sound_def)
qed

lemma ref_nhg_look:
  "ctc_sai_oid_get_lchip (inited ref_nhg_state) 0 = (0, Some 0)"
  "ctc_sai_oid_get_lchip (inited ref_nhg_state) ref_grp = (0, Some 0)"
  "ctc_sai_oid_get_lchip (inited ref_nhg_state) ref_mem = (0, Some 0)"
  "obj_map ref_lib 0 ref_nhg_state ref_grp = Some (NhGrpData ref_grp_data)"
  "obj_map ref_lib 0 ref_nhg_state ref_mem = Some (NhGrpMemberData \<lparr>nh_grp_oid = ref_grp\<rparr>)"
  "\<not> fault ref_nhg_state"
proof -
  have "let s = ref_nhg_state in
    ctc_sai_oid_get_lchip (inited s) 0 = (0, Some 0) \<and> ctc_sai_oid_get_lchip (inited s) ref_grp = (0, Some 0) \<and>
    ctc_sai_oid_get_lchip (inited s) ref_mem = (0, Some 0) \<and> obj_map ref_lib 0 s ref_grp = Some (NhGrpData ref_grp_data) \<and>
    obj_map ref_lib 0 s ref_mem = Some (NhGrpMemberData \<lparr>nh_grp_oid = ref_grp\<rparr>) \<and> \<not> fault s"
    by code_simp
  then show "ctc_sai_oid_get_lchip (inited ref_nhg_state) 0 = (0, Some 0)"
      "ctc_sai_oid_get_lchip (inited ref_nhg_state) ref_grp = (0, Some 0)"
      "ctc_sai_oid_get_lchip (inited ref_nhg_state) ref_mem = (0, Some 0)"
      "obj_map ref_lib 0 ref_nhg_state ref_grp = Some (NhGrpData ref_grp_data)"
      "obj_map ref_lib 0 ref_nhg_state ref_mem = Some (NhGrpMemberData \<lparr>nh_grp_oid = ref_grp\<rparr>)"
      "\<not> fault ref_nhg_state"
    by (simp_all only: Let_def not_False_eq_True)
qed

section \<open>Properties\<close>

text \<open>
  Property C20: creating a next hop group. When the type is given and a counter, if any, belongs to
  the same chip, the database stays sound. Either the call succeeds, exactly one new group with no
  next hop appears and the lock is released; or it fails and no object but the counter changes. A
  failure releases the lock too, with one exception: when the counter of an ECMP group cannot be
  bound. In particular, if the counter does not exist, the call returns with the chip locked and
  the next hop number still taken.
\<close>

theorem nhg_create_outcome:
  assumes "ctc_lib_laws L" and "sound L l s"
    and "ctc_sai_oid_get_lchip (inited s) switch_id = (st0, Some l)"
    and "ctc_sai_find_attrib_in_list attr_count as SAI_NEXT_HOP_GROUP_ATTR_TYPE = (st1, Some (tv, ti))"
    and "ctc_sai_find_attrib_in_list attr_count as SAI_NEXT_HOP_GROUP_ATTR_COUNTER_ID = (st2, cv)"
    and "c = (case cv of Some (v, i) \<Rightarrow> oiddata v | None \<Rightarrow> 0)" and "c \<noteq> 0 \<longrightarrow> counter_ready L l c s"
    and "ctc_sai_next_hop_group_create_nh_grp L False switch_id attr_count as s = ((st, v), s')"
  shows "sound L l s' \<and>
    (\<forall>oid. v = Some oid \<longrightarrow> st = SAI_STATUS_SUCCESS \<and> obj_map L l s oid = None \<and> sub_type oid = unat (u8data tv) \<and>
       obj_map L l s' oid = Some (NhGrpData \<lparr>w_nh_oid = 0, p_nh_oid = 0, grp_counter_oid = c\<rparr>) \<and>
       (\<forall>oid'. oid' \<noteq> oid \<and> oid' \<noteq> c \<longrightarrow> obj_map L l s' oid' = obj_map L l s oid') \<and>
       lock_depth (trace s') = lock_depth (trace s)) \<and>
    (v = None \<longrightarrow> st < 0 \<and> (\<forall>oid'. oid' \<noteq> c \<longrightarrow> obj_map L l s' oid' = obj_map L l s oid') \<and>
       (lock_depth (trace s') = lock_depth (trace s) \<or>
        unat (u8data tv) = SAI_NEXT_HOP_GROUP_TYPE_ECMP \<and> c \<noteq> 0 \<and>
          lock_depth (trace s') = (lock_depth (trace s))(l := lock_depth (trace s) l + 1))) \<and>
    (c \<noteq> 0 \<and> obj_map L l s c = None \<and> unat (u8data tv) = SAI_NEXT_HOP_GROUP_TYPE_ECMP \<and>
     fst (fst (ctc_sai_db_alloc_id L l CTC_SAI_DB_ID_TYPE_NEXTHOP (snd (ctc_sai_db_lock L l s)))) = SAI_STATUS_SUCCESS \<longrightarrow>
       st = SAI_STATUS_ITEM_NOT_FOUND \<and> v = None \<and>
       lock_depth (trace s') = (lock_depth (trace s))(l := lock_depth (trace s) l + 1) \<and>
       (\<exists>nh. opf_used (trace s') CTC_SAI_DB_ID_TYPE_NEXTHOP l = nh # opf_used (trace s) CTC_SAI_DB_ID_TYPE_NEXTHOP l))"
proof -
  let ?s0 = "snd (ctc_sai_db_lock L l s)"
  let ?gt = "u8data tv"
  note s0 = lock_step [OF assms(2)]
  have inv: "chip_inv L l s" using assms(2) by (simp add: sound_def)
  have up: "lock_depth (trace ?s0) = (lock_depth (trace s))(l := lock_depth (trace s) l + 1)"
    by (simp add: fun_eq_iff lock_depth_lock [OF inv])
  have c0: "c \<noteq> 0 \<longrightarrow> counter_ready L l c ?s0" using assms(7) counter_ready_frame [OF _ s0(1)] by blast
  obtain r unlock s2 where run: "create_nh_grp_locked L l ?gt c ?s0 = (r, unlock, s2)" by (metis surj_pair)
  have eq: "r = (st, v)" "s' = (if unlock then snd (ctc_sai_db_unlock L l s2) else s2)"
    using assms(8) run
    by (auto simp: ctc_sai_next_hop_group_create_nh_grp_def assms(3-6) Let_def split: option.splits prod.splits)
  note step = ctc_lib_laws.create_nh_grp_locked_step [OF assms(1) s0(2) c0 run [unfolded eq(1)]]
  have db: "sound L l s'" "obj_map L l s' = obj_map L l s2"
    using db_frame [OF step(1), of s'] eq(2) by auto
  have depth: "lock_depth (trace s') = (if unlock then lock_depth (trace s) else lock_depth (trace ?s0))"
    using lock_section_depth [OF assms(2) step(1,2)] step(2) eq(2) by simp
  have leak: "st = SAI_STATUS_ITEM_NOT_FOUND \<and> v = None \<and>
      lock_depth (trace s') = (lock_depth (trace s))(l := lock_depth (trace s) l + 1) \<and>
      (\<exists>nh. opf_used (trace s') CTC_SAI_DB_ID_TYPE_NEXTHOP l = nh # opf_used (trace s) CTC_SAI_DB_ID_TYPE_NEXTHOP l)"
    if h: "c \<noteq> 0" "obj_map L l s c = None" "unat ?gt = SAI_NEXT_HOP_GROUP_TYPE_ECMP"
      "fst (fst (ctc_sai_db_alloc_id L l CTC_SAI_DB_ID_TYPE_NEXTHOP ?s0)) = SAI_STATUS_SUCCESS"
  proof -
    obtain nv s1 where al: "ctc_sai_db_alloc_id L l CTC_SAI_DB_ID_TYPE_NEXTHOP ?s0 = ((SAI_STATUS_SUCCESS, nv), s1)"
      using h(4) by (metis prod.collapse)
    have "obj_map L l ?s0 c = None" using h(2) s0(3) by simp
    then have "r = (SAI_STATUS_ITEM_NOT_FOUND, None)" "unlock = False" "s2 = s1"
      using ctc_lib_laws.create_nh_grp_leak [OF assms(1) h(1) c0 [rule_format, OF h(1)] _ h(3,4)] run al by simp_all
    then show ?thesis
      using eq depth up ctc_lib_laws.alloc_step(6) [OF assms(1) al] by simp
  qed
  have some: "st = SAI_STATUS_SUCCESS \<and> obj_map L l s oid = None \<and> sub_type oid = unat ?gt \<and>
       obj_map L l s' oid = Some (NhGrpData \<lparr>w_nh_oid = 0, p_nh_oid = 0, grp_counter_oid = c\<rparr>) \<and>
       (\<forall>oid'. oid' \<noteq> oid \<and> oid' \<noteq> c \<longrightarrow> obj_map L l s' oid' = obj_map L l s oid') \<and>
       lock_depth (trace s') = lock_depth (trace s)" if "v = Some oid" for oid
    using step(5) [OF that] step(3) that db(2) depth s0(3) by auto
  have none: "st < 0 \<and> (\<forall>oid'. oid' \<noteq> c \<longrightarrow> obj_map L l s' oid' = obj_map L l s oid') \<and>
       (lock_depth (trace s') = lock_depth (trace s) \<or> unat ?gt = SAI_NEXT_HOP_GROUP_TYPE_ECMP \<and> c \<noteq> 0 \<and>
          lock_depth (trace s') = (lock_depth (trace s))(l := lock_depth (trace s) l + 1))" if "v = None"
    using step(4) [OF that] step(3) db(2) depth s0(3) up by (auto simp: but_counter_def)
  show ?thesis
  proof (intro conjI [OF db(1)] conjI [OF _ conjI], goal_cases)
    case 1
    show ?case by (intro allI impI) (rule some)
  next
    case 2
    show ?case by (intro impI) (rule none)
  next
    case 3
    show ?case by (intro impI, elim conjE) (rule leak)
  qed
qed

theorem nhg_create_outcome_witness:
  "\<exists>s' nh. ctc_sai_next_hop_group_create_nh_grp ref_lib False 0 2
        (Some [ref_attr SAI_NEXT_HOP_GROUP_ATTR_TYPE 0, ref_attr SAI_NEXT_HOP_GROUP_ATTR_COUNTER_ID ref_cnt]) ref_state =
      ((SAI_STATUS_ITEM_NOT_FOUND, None), s') \<and>
    lock_depth (trace s') = (lock_depth (trace ref_state))(0 := lock_depth (trace ref_state) 0 + 1) \<and>
    opf_used (trace s') CTC_SAI_DB_ID_TYPE_NEXTHOP 0 = nh # opf_used (trace ref_state) CTC_SAI_DB_ID_TYPE_NEXTHOP 0"
proof -
  let ?as = "Some [ref_attr SAI_NEXT_HOP_GROUP_ATTR_TYPE 0, ref_attr SAI_NEXT_HOP_GROUP_ATTR_COUNTER_ID ref_cnt]"
  define tv where "tv = attr_value (ref_attr SAI_NEXT_HOP_GROUP_ATTR_TYPE 0)"
  define cv where "cv = attr_value (ref_attr SAI_NEXT_HOP_GROUP_ATTR_COUNTER_ID ref_cnt)"
  have f: "ctc_sai_find_attrib_in_list 2 ?as SAI_NEXT_HOP_GROUP_ATTR_TYPE = (0, Some (tv, 0))"
      "ctc_sai_find_attrib_in_list 2 ?as SAI_NEXT_HOP_GROUP_ATTR_COUNTER_ID = (0, Some (cv, 1))"
      "ref_cnt = (case Some (cv, 1 :: u32) of Some (v, i) \<Rightarrow> oiddata v | None \<Rightarrow> 0)" "unat (u8data tv) = 0"
    unfolding tv_def cv_def by code_simp+
  have "ref_cnt \<noteq> 0 \<and> obj_map ref_lib 0 ref_state ref_cnt = None \<and> oid_type ref_cnt = SAI_OBJECT_TYPE_COUNTER \<and>
      ctc_sai_oid_get_lchip (inited ref_state) ref_cnt = (0, Some 0) \<and> ctc_sai_oid_get_lchip (inited ref_state) 0 = (0, Some 0) \<and>
      fst (fst (ctc_sai_db_alloc_id ref_lib 0 CTC_SAI_DB_ID_TYPE_NEXTHOP (snd (ctc_sai_db_lock ref_lib 0 ref_state)))) = SAI_STATUS_SUCCESS"
    by code_simp
  then have e: "ref_cnt \<noteq> 0" "obj_map ref_lib 0 ref_state ref_cnt = None" "oid_type ref_cnt = SAI_OBJECT_TYPE_COUNTER"
      "ctc_sai_oid_get_lchip (inited ref_state) ref_cnt = (0, Some 0)" "ctc_sai_oid_get_lchip (inited ref_state) 0 = (0, Some 0)"
      "fst (fst (ctc_sai_db_alloc_id ref_lib 0 CTC_SAI_DB_ID_TYPE_NEXTHOP (snd (ctc_sai_db_lock ref_lib 0 ref_state)))) = SAI_STATUS_SUCCESS"
    by simp_all
  have rdy: "ref_cnt \<noteq> 0 \<longrightarrow> counter_ready ref_lib 0 ref_cnt ref_state"
    using ref_state_sound e by (simp add: counter_ready_def sound_def)
  obtain st v s' where r: "ctc_sai_next_hop_group_create_nh_grp ref_lib False 0 2 ?as ref_state = ((st, v), s')"
    by (metis prod.exhaust)
  show ?thesis
    using nhg_create_outcome [OF ref_laws.ctc_lib_laws_axioms ref_state_sound e(5) f(1,2,3) rdy r] e f(4)
    unfolding r by auto
qed

text \<open>
  Property C19: a member that is created and then removed. The member is a new object that names
  its group. The removal either fails, which only the device can make it do and only for an ECMP
  group, and then changes no object; or the member is gone and the database is the one before the
  creation, but for the role of the member in a protection group, which is cleared whatever next
  hop it had before. A removed member of an ECMP group may yet be reported with a code of the
  device. The locks are balanced in every case.
\<close>

theorem nhg_member_roundtrip:
  assumes "ctc_lib_laws L" and "sound L l s"
    and "ctc_sai_oid_get_lchip (inited s) switch_id = (st0, Some l)"
    and "ctc_sai_find_attrib_in_list attr_count as SAI_NEXT_HOP_GROUP_MEMBER_ATTR_NEXT_HOP_GROUP_ID = (st1, Some (v1, i1))"
    and "ctc_sai_find_attrib_in_list attr_count as SAI_NEXT_HOP_GROUP_MEMBER_ATTR_NEXT_HOP_ID = (st2, Some (v2, i2))"
    and "obj_map L l s (oiddata v1) = Some (NhGrpData g)"
    and "ctc_sai_next_hop_group_create_member L False switch_id attr_count as s = ((st, Some oid), s1)"
    and "ctc_sai_next_hop_group_remove_member L oid s1 = (st', s2)"
  shows "st = SAI_STATUS_SUCCESS \<and> obj_map L l s oid = None \<and>
    obj_map L l s1 oid = Some (NhGrpMemberData \<lparr>nh_grp_oid = oiddata v1\<rparr>) \<and>
    sound L l s2 \<and> lock_depth (trace s1) = lock_depth (trace s) \<and> lock_depth (trace s2) = lock_depth (trace s) \<and>
    (sub_type (oiddata v1) = SAI_NEXT_HOP_GROUP_TYPE_ECMP \<and> st' < 0 \<and> obj_map L l s2 = obj_map L l s1 \<or>
     (st' = SAI_STATUS_SUCCESS \<or> sub_type (oiddata v1) = SAI_NEXT_HOP_GROUP_TYPE_ECMP \<and>
        st' \<in> {err L CTC_E_NH_NOT_EXIST, err L CTC_E_NOT_EXIST}) \<and>
     obj_map L l s2 = (obj_map L l s)
       (oiddata v1 \<mapsto> NhGrpData (grp_with (oiddata v1) (o_sub_type (oid_unpack oid) = 1) 0 g)))"
proof -
  let ?grp = "oiddata v1" and ?w = "o_sub_type (oid_unpack oid) = 1"
  let ?s0 = "snd (ctc_sai_db_lock L l s)"
  note s0 = lock_step [OF assms(2)]
  obtain t1 where c: "next_hop_group_create_member L switch_id attr_count as ?s0 = ((st, Some oid), t1)"
      "s1 = snd (ctc_sai_db_unlock L l t1)"
    using assms(7) by (auto simp: ctc_sai_next_hop_group_create_member_def assms(3) split: prod.splits)
  have ol: "oid_lchip ?s0 switch_id = l" using assms(3) by (simp add: oid_lchip_def)
  have g0: "obj_map L l ?s0 ?grp = Some (NhGrpData g)" using assms(6) s0(3) by simp
  note cs = ctc_lib_laws.create_member_step [OF assms(1) s0(2) ol assms(4,5) g0 c(1)]
  note new = cs(4) [OF refl]
  have s1: "sound L l s1" "obj_map L l s1 = obj_map L l t1" using db_frame [OF cs(1), of s1] c(2) by simp_all
  have d1: "lock_depth (trace s1) = lock_depth (trace s)"
    using lock_section_depth [OF assms(2) cs(1,2)] c(2) by simp
  have ne: "oid \<noteq> ?grp" using new g0 by auto
  have o1: "obj_map L l s1 = (obj_map L l s)(?grp \<mapsto> NhGrpData (grp_with ?grp ?w (oiddata v2) g),
      oid \<mapsto> NhGrpMemberData \<lparr>nh_grp_oid = ?grp\<rparr>)"
    using new s1(2) s0(3) by simp
  have lc: "ctc_sai_oid_get_lchip (inited s1) oid = (SAI_STATUS_SUCCESS, Some l)"
    using sound_lchip [OF s1(1)] new by blast
  let ?u0 = "snd (ctc_sai_db_lock L l s1)"
  note u0 = lock_step [OF s1(1)]
  obtain u1 where r: "next_hop_group_remove_member L oid ?u0 = (st', u1)" "s2 = snd (ctc_sai_db_unlock L l u1)"
    using assms(8) by (auto simp: ctc_sai_next_hop_group_remove_member_def lc split: prod.splits)
  have ol': "oid_lchip ?u0 oid = l" using lc by (simp add: oid_lchip_def)
  have m: "obj_map L l ?u0 oid = Some (NhGrpMemberData \<lparr>nh_grp_oid = ?grp\<rparr>)"
    and g1: "obj_map L l ?u0 ?grp = Some (NhGrpData (grp_with ?grp ?w (oiddata v2) g))"
    using u0(3) o1 ne by simp_all
  note rs = ctc_lib_laws.remove_member_step [OF assms(1) u0(2) ol' m g1 r(1)]
  have s2: "sound L l s2" "obj_map L l s2 = obj_map L l u1" using db_frame [OF rs(1), of s2] r(2) by simp_all
  have d2: "lock_depth (trace s2) = lock_depth (trace s)"
    using lock_section_depth [OF s1(1) rs(1,2)] r(2) d1 by simp
  have "(obj_map L l s1)(?grp \<mapsto> NhGrpData (grp_with ?grp ?w 0 g), oid := None) =
      (obj_map L l s)(?grp \<mapsto> NhGrpData (grp_with ?grp ?w 0 g))"
    using new s0(3) ne by (auto simp: o1 fun_eq_iff)
  then show ?thesis
    using rs(3) s2 d1 d2 new o1 u0(3) s0(3) by auto
qed

theorem nhg_member_roundtrip_witness:
  "\<exists>s1 s2 oid. ctc_sai_next_hop_group_create_member ref_lib False 0 2
        (Some [ref_attr SAI_NEXT_HOP_GROUP_MEMBER_ATTR_NEXT_HOP_GROUP_ID ref_grp,
               ref_attr SAI_NEXT_HOP_GROUP_MEMBER_ATTR_NEXT_HOP_ID (ctc_sai_create_object_id SAI_OBJECT_TYPE_NEXT_HOP 0 0 0 3)])
        ref_nhg_state = ((SAI_STATUS_SUCCESS, Some oid), s1) \<and>
      obj_map ref_lib 0 s1 oid = Some (NhGrpMemberData \<lparr>nh_grp_oid = ref_grp\<rparr>) \<and>
      ctc_sai_next_hop_group_remove_member ref_lib oid s1 = (SAI_STATUS_SUCCESS, s2) \<and>
      obj_map ref_lib 0 s2 = obj_map ref_lib 0 ref_nhg_state"
proof -
  define g where "g = ref_attr SAI_NEXT_HOP_GROUP_MEMBER_ATTR_NEXT_HOP_GROUP_ID ref_grp"
  define h where "h = ref_attr SAI_NEXT_HOP_GROUP_MEMBER_ATTR_NEXT_HOP_ID (ctc_sai_create_object_id SAI_OBJECT_TYPE_NEXT_HOP 0 0 0 3)"
  define oid where "oid = ctc_sai_create_object_id SAI_OBJECT_TYPE_NEXT_HOP_GROUP_MEMBER 0 0 1 3"
  let ?c = "ctc_sai_next_hop_group_create_member ref_lib False 0 2 (Some [g, h]) ref_nhg_state"
  have f: "ctc_sai_find_attrib_in_list 2 (Some [g, h]) SAI_NEXT_HOP_GROUP_MEMBER_ATTR_NEXT_HOP_GROUP_ID = (0, Some (attr_value g, 0))"
      "ctc_sai_find_attrib_in_list 2 (Some [g, h]) SAI_NEXT_HOP_GROUP_MEMBER_ATTR_NEXT_HOP_ID = (0, Some (attr_value h, 1))"
    and o: "oiddata (attr_value g) = ref_grp"
    and w: "grp_with ref_grp (o_sub_type (oid_unpack oid) = 1) 0 ref_grp_data = ref_grp_data"
    unfolding g_def h_def oid_def by code_simp+
  have "let r = ?c in fst r = (SAI_STATUS_SUCCESS, Some oid) \<and> fst (ctc_sai_next_hop_group_remove_member ref_lib oid (snd r)) = SAI_STATUS_SUCCESS"
    unfolding g_def h_def oid_def by code_simp
  then have c: "fst ?c = (SAI_STATUS_SUCCESS, Some oid)"
    and d: "fst (ctc_sai_next_hop_group_remove_member ref_lib oid (snd ?c)) = SAI_STATUS_SUCCESS"
    by (simp_all only: Let_def)
  obtain s1 where c': "?c = ((SAI_STATUS_SUCCESS, Some oid), s1)" using run_state [OF c] by blast
  obtain s2 where d': "ctc_sai_next_hop_group_remove_member ref_lib oid s1 = (SAI_STATUS_SUCCESS, s2)"
    using run_state [OF d] unfolding c' snd_conv by blast
  have g0: "obj_map ref_lib 0 ref_nhg_state (oiddata (attr_value g)) = Some (NhGrpData ref_grp_data)"
    using ref_nhg_look(4) o by simp
  have "(obj_map ref_lib 0 ref_nhg_state)(ref_grp \<mapsto> NhGrpData ref_grp_data) = obj_map ref_lib 0 ref_nhg_state"
    using ref_nhg_look(4) by auto
  then have "obj_map ref_lib 0 s1 oid = Some (NhGrpMemberData \<lparr>nh_grp_oid = ref_grp\<rparr>)"
      "obj_map ref_lib 0 s2 = obj_map ref_lib 0 ref_nhg_state"
    using nhg_member_roundtrip [OF ref_laws.ctc_lib_laws_axioms ref_nhg_sound ref_nhg_look(1) f g0 c' d'] w
    by (simp_all only: o less_irrefl simp_thms)
  then show ?thesis using c' d' unfolding g_def h_def by blast
qed

text \<open>A member whose group is gone.\<close>

lemma orphan_member:
  assumes "sound L l t" and "ctc_sai_oid_get_lchip (inited s) oid = (st1, Some l)"
    and "obj_map L l t grp = None" and "obj_map L l t oid = Some (NhGrpMemberData \<lparr>nh_grp_oid = grp\<rparr>)"
  shows "fst (ctc_sai_next_hop_group_remove_member L oid t) = SAI_STATUS_ITEM_NOT_FOUND"
    and "obj_map L l (snd (ctc_sai_next_hop_group_remove_member L oid t)) = obj_map L l t"
    and "next_hop_group_get_member_attr L oid a i t = ((SAI_STATUS_ITEM_NOT_FOUND, a), t)"
proof -
  have lc: "ctc_sai_oid_get_lchip (inited t) oid = (SAI_STATUS_SUCCESS, Some l)"
    by (rule sound_lchip [OF assms(1,2)])
  let ?u = "snd (ctc_sai_db_lock L l t)"
  note u = lock_step [OF assms(1)]
  have "oid_lchip ?u oid = l" "oid_lchip t oid = l" using lc by (simp_all add: oid_lchip_def)
  then have rm: "next_hop_group_remove_member L oid ?u = (SAI_STATUS_ITEM_NOT_FOUND, ?u)"
    and "next_hop_group_get_member_attr L oid a i t = ((SAI_STATUS_ITEM_NOT_FOUND, a), t)"
    using u(3) assms(3,4)
    by (simp_all add: next_hop_group_remove_member_def next_hop_group_get_member_attr_def obj_map_get Let_def)
  then show "next_hop_group_get_member_attr L oid a i t = ((SAI_STATUS_ITEM_NOT_FOUND, a), t)" by blast
  have r: "ctc_sai_next_hop_group_remove_member L oid t = (SAI_STATUS_ITEM_NOT_FOUND, snd (ctc_sai_db_unlock L l ?u))"
    by (simp add: ctc_sai_next_hop_group_remove_member_def lc rm)
  then show "fst (ctc_sai_next_hop_group_remove_member L oid t) = SAI_STATUS_ITEM_NOT_FOUND" by simp
  show "obj_map L l (snd (ctc_sai_next_hop_group_remove_member L oid t)) = obj_map L l t"
    using obj_map_frame [of "snd (ctc_sai_db_unlock L l ?u)" t] by (simp add: r)
qed

text \<open>
  Property C21: removing a group orphans its members. The removal of a group looks at no member: the
  group disappears and its members stay. Then and in every later state in which the member is still
  there and no new group has got the identifier of the old one, the member can neither be removed
  nor read; both calls report \<^verbatim>\<open>ITEM_NOT_FOUND\<close> and change no object.
\<close>

theorem nhg_remove_orphans_members:
  assumes "ctc_lib_laws L" and "sound L l s"
    and "ctc_sai_oid_get_lchip (inited s) grp = (st0, Some l)"
    and "obj_map L l s grp = Some (NhGrpData g)"
    and "grp_counter_oid g \<noteq> 0 \<longrightarrow> counter_ready L l (grp_counter_oid g) s"
    and "ctc_sai_oid_get_lchip (inited s) oid = (st1, Some l)"
    and "obj_map L l s oid = Some (NhGrpMemberData \<lparr>nh_grp_oid = grp\<rparr>)"
    and "ctc_sai_next_hop_group_remove_nh_grp L grp s = (SAI_STATUS_SUCCESS, s')"
  shows "sound L l s' \<and> lock_depth (trace s') = lock_depth (trace s) \<and> obj_map L l s' grp = None \<and>
    obj_map L l s' oid = Some (NhGrpMemberData \<lparr>nh_grp_oid = grp\<rparr>) \<and>
    (\<forall>t. sound L l t \<and> obj_map L l t grp = None \<and> obj_map L l t oid = Some (NhGrpMemberData \<lparr>nh_grp_oid = grp\<rparr>) \<longrightarrow>
      fst (ctc_sai_next_hop_group_remove_member L oid t) = SAI_STATUS_ITEM_NOT_FOUND \<and>
      obj_map L l (snd (ctc_sai_next_hop_group_remove_member L oid t)) = obj_map L l t \<and>
      (\<forall>a i. next_hop_group_get_member_attr L oid a i t = ((SAI_STATUS_ITEM_NOT_FOUND, a), t)))"
proof -
  let ?s0 = "snd (ctc_sai_db_lock L l s)"
  note s0 = lock_step [OF assms(2)]
  obtain t1 where r: "remove_nh_grp_locked L l grp ?s0 = (SAI_STATUS_SUCCESS, t1)" "s' = snd (ctc_sai_db_unlock L l t1)"
    using assms(8) by (auto simp: ctc_sai_next_hop_group_remove_nh_grp_def assms(3) split: prod.splits)
  have g0: "obj_map L l ?s0 grp = Some (NhGrpData g)" using assms(4) s0(3) by simp
  have c0: "grp_counter_oid g \<noteq> 0 \<longrightarrow> counter_ready L l (grp_counter_oid g) ?s0"
    using assms(5) counter_ready_frame [OF _ s0(1)] by blast
  note step = ctc_lib_laws.remove_nh_grp_step [OF assms(1) s0(2) g0 c0 r(1)]
  have s': "sound L l s'" "obj_map L l s' = obj_map L l t1" using db_frame [OF step(1), of s'] r(2) by simp_all
  have "oid_type oid = SAI_OBJECT_TYPE_NEXT_HOP_GROUP_MEMBER" using sound_fits [OF assms(2,7)] by simp
  moreover have "oid_type 0 = 0" by (simp add: oid_type_eq oid_unpack_def)
  ultimately have "oid \<noteq> grp_counter_oid g" using assms(5) by (auto simp: counter_ready_def)
  moreover have "oid \<noteq> grp" using assms(4,7) by auto
  ultimately have m: "obj_map L l s' oid = Some (NhGrpMemberData \<lparr>nh_grp_oid = grp\<rparr>)"
    using step(4) assms(7) s0(3) s'(2) by simp
  have n: "obj_map L l s' grp = None" using step(3) s'(2) by simp
  have "lock_depth (trace s') = lock_depth (trace s)"
    using lock_section_depth [OF assms(2) step(1,2)] r(2) by simp
  then show ?thesis using s'(1) m n orphan_member [OF _ assms(6)] by blast
qed

theorem nhg_remove_orphans_members_witness:
  "\<exists>s'. ctc_sai_next_hop_group_remove_nh_grp ref_lib ref_grp ref_nhg_state = (SAI_STATUS_SUCCESS, s') \<and>
     obj_map ref_lib 0 s' ref_grp = None \<and>
     fst (ctc_sai_next_hop_group_remove_member ref_lib ref_mem s') = SAI_STATUS_ITEM_NOT_FOUND"
proof -
  have "fst (ctc_sai_next_hop_group_remove_nh_grp ref_lib ref_grp ref_nhg_state) = SAI_STATUS_SUCCESS" by code_simp
  then obtain s' where r: "ctc_sai_next_hop_group_remove_nh_grp ref_lib ref_grp ref_nhg_state = (SAI_STATUS_SUCCESS, s')"
    by (metis prod.collapse)
  have c: "grp_counter_oid ref_grp_data \<noteq> 0 \<longrightarrow> counter_ready ref_lib 0 (grp_counter_oid ref_grp_data) ref_nhg_state"
    by (simp add: ref_grp_data_def)
  show ?thesis
    using nhg_remove_orphans_members [OF ref_laws.ctc_lib_laws_axioms ref_nhg_sound ref_nhg_look(2,4) c ref_nhg_look(3,5) r] r
    by blast
qed

text \<open>
  Property C22: the member list of an ECMP group. Let the caller's buffer have fewer than 2 to the 32
  elements. When it has more elements than the group has members, the list returned is exactly the
  members, each once, and nothing is written outside the buffer. A buffer with as many elements as
  members is not enough: the code uses the first element as scratch and writes beyond the last.
\<close>

theorem nhg_member_list_bounds:
  assumes "ctc_lib_laws L" and "sound L l s"
    and "length (objs (attr_value a)) < 2 ^ 32" and "card (members_of L l grp s) < 2 ^ 32 - 1"
    and "ecmp_member_list L l grp a s = (a', s')"
  shows "(card (members_of L l grp s) < length (objs (attr_value a)) \<longrightarrow>
      (let n = unat (list_count (attr_value a')) in
       n = card (members_of L l grp s) \<and> set (take n (objs (attr_value a'))) = members_of L l grp s \<and>
       distinct (take n (objs (attr_value a'))) \<and> length (objs (attr_value a')) = length (objs (attr_value a)) \<and>
       fault s' = fault s)) \<and>
    (length (objs (attr_value a)) \<le> card (members_of L l grp s) \<longrightarrow> fault s')"
proof -
  obtain db where db: "g_sai_db s l = Some db" "db_ok L db" "l < CTC_SAI_MAX_CHIP_NUM"
      "SAI_DB_INIT_CHECK s l = SAI_STATUS_SUCCESS"
    using assms(2) by (auto simp: sound_def elim!: chip_inv_obtain)
  define ys where "ys = hash_items (oid_ops L) (oid_hash db SAI_OBJECT_TYPE_NEXT_HOP_GROUP_MEMBER)"
  define ms where "ms = members_in grp ys"
  note it = ctc_lib_laws.member_items [OF assms(1,2) db(1) ys_def]
  have M: "members_of L l grp s = set ms" "card (members_of L l grp s) = length ms" "distinct ms"
    using it(2,3) [of grp] distinct_card [of ms] by (simp_all add: ms_def)
  have k: "length ms < 2 ^ 32 - 1" using assms(4) M(2) by simp
  have v: "ctc_sai_is_object_type_valid SAI_OBJECT_TYPE_NEXT_HOP_GROUP_MEMBER"
    by (simp add: ctc_sai_is_object_type_valid_def)
  have ns: "\<not> traverse_stops L 0" using assms(1) by (simp add: ctc_lib_laws_def ctc_lib_laws_axioms_def)
  let ?tr = "\<lambda>s xs. hash_traverse (traverse_stops L) (traverse_ret L) next_hop_group_get_members_from_db ys (s, 1, xs)"
  have tr: "snd (ctc_sai_db_traverse_object_property L l SAI_OBJECT_TYPE_NEXT_HOP_GROUP_MEMBER
      next_hop_group_get_members_from_db (s1, 1, xs)) = snd (?tr s1 xs)"
    if "g_sai_db s1 = g_sai_db s" for s1 xs
    using db v that
    by (simp add: ctc_sai_db_traverse_object_property_def ys_def SAI_DB_INIT_CHECK_def Let_def case_prod_beta inited_def
        not_le [symmetric])
  show ?thesis
  proof (cases "objs (attr_value a)")
    case Nil
    have "fault (fst (snd (?tr (s\<lparr>fault := True\<rparr>) [])))"
      by (simp add: empty_traverse [where stops = "traverse_stops L", OF it(1) ns])
    then have "fault s'"
      using assms(5) tr [of "s\<lparr>fault := True\<rparr>" "[]"] Nil
      by (auto simp: ecmp_member_list_def list_put_def Let_def split: prod.splits if_splits)
    then show ?thesis using Nil by simp
  next
    case (Cons x rest)
    define r where "r = ctc_sai_db_traverse_object_property L l SAI_OBJECT_TYPE_NEXT_HOP_GROUP_MEMBER
      next_hop_group_get_members_from_db (s, 1, grp # rest)"
    have r: "snd r = snd (?tr s (grp # rest))" unfolding r_def by (rule tr) simp
    have eq: "ecmp_member_list L l grp a s = (case snd r of (s, cnt, xs) \<Rightarrow>
        if 1 < cnt then (set_objlist (cnt - 1) (xs[0 := if unat (cnt - 1) < length xs then xs ! unat (cnt - 1) else 0]) a,
            if length xs \<le> unat (cnt - 1) then s\<lparr>fault := True\<rparr> else s)
        else (set_objlist 0 (xs[0 := SAI_NULL_OBJECT_ID]) a, s))"
      by (simp add: ecmp_member_list_def list_put_def Cons r_def case_prod_beta Let_def)
    show ?thesis
    proof (cases "length ms \<le> length rest")
      case True
      have "?tr s (grp # rest) = (0, s, 1 + of_nat (length ms), grp # ms @ drop (length ms) rest)"
        using traverse_members_content [where stops = "traverse_stops L" and ret = "traverse_ret L" and s = s and grp = grp
          and rest = rest and cnt = 1 and pre = "[]", OF it(1) ns] True assms(3) Cons
        by (simp add: ms_def)
      then have sr: "snd r = (s, 1 + of_nat (length ms), grp # ms @ drop (length ms) rest)" using r by simp
      show ?thesis
      proof (cases "ms = []")
        case True
        then have "a' = set_objlist 0 (SAI_NULL_OBJECT_ID # rest) a" "s' = s" using assms(5) eq sr by simp_all
        then show ?thesis using True M Cons by (simp add: set_objlist_get)
      next
        case False
        have u: "unat (of_nat (length ms) :: u32) = length ms" "(1 :: u32) < 1 + of_nat (length ms)"
          using k False by (simp_all add: unat_of_nat word_less_nat_alt unat_word_ariths)
        have "(grp # ms @ drop (length ms) rest) ! length ms = last ms"
          using False by (simp add: nth_append last_conv_nth nth_Cons')
        then have a': "a' = set_objlist (of_nat (length ms)) ((grp # ms @ drop (length ms) rest)[0 := last ms]) a" "s' = s"
          using assms(5) eq sr u True False by simp_all
        note rot = rotate_first(1) [OF False, of grp "drop (length ms) rest"] rotate_first(2,3) [OF False]
        have n: "unat (list_count (attr_value a')) = length ms" using a' u by (simp add: set_objlist_get)
        have o: "objs (attr_value a') = (grp # ms @ drop (length ms) rest)[0 := last ms]" using a'(1) by (simp only: set_objlist_get)
        show ?thesis
          unfolding Let_def n using rot M True a'(2) Cons by (simp only: o) simp
      qed
    next
      case False
      have "fault (fst (snd (?tr s (grp # rest))))"
        using traverse_members_fault [where stops = "traverse_stops L" and ret = "traverse_ret L" and s = s and grp = grp
          and xs = "grp # rest" and cnt = 1, OF it(1) ns] False k
        by (auto simp: ms_def)
      then have "fault (fst (snd r))" using r by simp
      then have "fault s'" using assms(5) eq by (auto split: prod.splits if_splits)
      then show ?thesis using False M Cons by simp
    qed
  qed
qed

theorem nhg_member_list_bounds_witness:
  "(let (a', s') = ecmp_member_list ref_lib 0 ref_grp \<lparr>attr_id = 1, attr_value = \<lparr>raw = 2, objs = [0, 0]\<rparr>\<rparr> ref_nhg_state in
      take (unat (list_count (attr_value a'))) (objs (attr_value a')) = [ref_mem] \<and> \<not> fault s') \<and>
   fault (snd (ecmp_member_list ref_lib 0 ref_grp \<lparr>attr_id = 1, attr_value = \<lparr>raw = 1, objs = [0]\<rparr>\<rparr> ref_nhg_state))"
proof -
  let ?a = "\<lambda>n xs. \<lparr>attr_id = 1, attr_value = \<lparr>raw = n, objs = xs\<rparr>\<rparr> :: sai_attribute"
  have "map_option (\<lambda>db. members_in ref_grp (hash_items (oid_ops ref_lib)
      (oid_hash db SAI_OBJECT_TYPE_NEXT_HOP_GROUP_MEMBER))) (g_sai_db ref_nhg_state 0) = Some [ref_mem]"
    by code_simp
  then obtain db where "g_sai_db ref_nhg_state 0 = Some db"
      "members_in ref_grp (hash_items (oid_ops ref_lib) (oid_hash db SAI_OBJECT_TYPE_NEXT_HOP_GROUP_MEMBER)) = [ref_mem]"
    by auto
  from this(2) ref_laws.member_items(3) [OF ref_nhg_sound this(1) refl, of ref_grp]
  have m: "members_of ref_lib 0 ref_grp ref_nhg_state = {ref_mem}" by simp
  obtain a1 s1 where r1: "ecmp_member_list ref_lib 0 ref_grp (?a 2 [0, 0]) ref_nhg_state = (a1, s1)" by (rule prod.exhaust)
  obtain a2 s2 where r2: "ecmp_member_list ref_lib 0 ref_grp (?a 1 [0]) ref_nhg_state = (a2, s2)" by (rule prod.exhaust)
  note nf = ref_nhg_look(6)
  have one: "xs = [ref_mem]" if "set xs = {ref_mem}" "distinct xs" for xs
    using that distinct_card [of xs] by (cases xs; cases "tl xs") auto
  have "fault s2"
    using nhg_member_list_bounds [OF ref_laws.ctc_lib_laws_axioms ref_nhg_sound _ _ r2] m by simp
  have l: "length (objs (attr_value (?a 2 [0, 0]))) < 2 ^ 32" "card (members_of ref_lib 0 ref_grp ref_nhg_state) < 2 ^ 32 - 1"
      "card (members_of ref_lib 0 ref_grp ref_nhg_state) < length (objs (attr_value (?a 2 [0, 0])))"
    by (simp_all add: m)
  note b = nhg_member_list_bounds [OF ref_laws.ctc_lib_laws_axioms ref_nhg_sound l(1,2) r1,
      THEN conjunct1, THEN mp, OF l(3), unfolded Let_def m]
  then have "set (take (unat (list_count (attr_value a1))) (objs (attr_value a1))) = {ref_mem} \<and>
      distinct (take (unat (list_count (attr_value a1))) (objs (attr_value a1))) \<and> \<not> fault s1"
    using nf by blast
  with \<open>fault s2\<close> show ?thesis
    using one [of "take (unat (list_count (attr_value a1))) (objs (attr_value a1))"] unfolding r1 r2 by simp
qed

end
