(* ===== verification/SAI_Isolation_Group.thy ===== *)
theory SAI_Isolation_Group
  imports SAI_Store
begin

text \<open>
  The isolation group module (\<^verbatim>\<open>centec/src/ctc_sai_isolation_group.c\<close>). A group holds a linked list of
  the records of its members, and a member is an object of its own that names its group, so the
  relation between the two is kept twice. The invariant \<open>linked\<close> says that both agree. The lists are
  the SDK's: their operations are the parameter \<open>Q\<close>, with the locale \<open>slist\<close> as its contract.
\<close>

section \<open>Constants\<close>

abbreviation (input) SAI_ISOLATION_GROUP_ATTR_TYPE :: u32 where "SAI_ISOLATION_GROUP_ATTR_TYPE \<equiv> 0"
abbreviation (input) SAI_ISOLATION_GROUP_ATTR_ISOLATION_MEMBER_LIST :: u32 where
  "SAI_ISOLATION_GROUP_ATTR_ISOLATION_MEMBER_LIST \<equiv> 1"
abbreviation (input) SAI_ISOLATION_GROUP_MEMBER_ATTR_ISOLATION_GROUP_ID :: u32 where
  "SAI_ISOLATION_GROUP_MEMBER_ATTR_ISOLATION_GROUP_ID \<equiv> 0"
abbreviation (input) SAI_ISOLATION_GROUP_MEMBER_ATTR_ISOLATION_OBJECT :: u32 where
  "SAI_ISOLATION_GROUP_MEMBER_ATTR_ISOLATION_OBJECT \<equiv> 1"
abbreviation (input) SAI_ISOLATION_GROUP_TYPE_PORT :: u32 where "SAI_ISOLATION_GROUP_TYPE_PORT \<equiv> 0"
abbreviation (input) SAI_ISOLATION_GROUP_TYPE_BRIDGE_PORT :: u32 where "SAI_ISOLATION_GROUP_TYPE_BRIDGE_PORT \<equiv> 1"
abbreviation (input) SAI_BRIDGE_PORT_TYPE_PORT :: nat where "SAI_BRIDGE_PORT_TYPE_PORT \<equiv> 0"

section \<open>Lists of the SDK\<close>

text \<open>
  A list is its nodes in order, a node being named by the object whose record it is the head of. The
  contract: a node is added at the end, and a node of a list without repetition is unlinked from it.
\<close>

record slist_ops =
  slist_add_tail :: "sai_object_id \<Rightarrow> sai_object_id list \<Rightarrow> sai_object_id list"
  slist_delete_node :: "sai_object_id \<Rightarrow> sai_object_id list \<Rightarrow> sai_object_id list"

locale slist =
  fixes Q :: slist_ops
  assumes add_tail: "slist_add_tail Q x xs = xs @ [x]"
    and delete_node: "distinct xs \<Longrightarrow> x \<in> set xs \<Longrightarrow> slist_delete_node Q x xs = remove1 x xs"
begin

lemma add_tail_set: "set (slist_add_tail Q x xs) = insert x (set xs)"
  by (simp add: add_tail)

lemma add_tail_distinct: "distinct xs \<Longrightarrow> x \<notin> set xs \<Longrightarrow> distinct (slist_add_tail Q x xs)"
  by (simp add: add_tail)

lemma delete_node_set: "distinct xs \<Longrightarrow> x \<in> set xs \<Longrightarrow> set (slist_delete_node Q x xs) = set xs - {x}"
  by (simp add: delete_node)

lemma delete_node_distinct: "distinct xs \<Longrightarrow> x \<in> set xs \<Longrightarrow> distinct (slist_delete_node Q x xs)"
  by (simp add: delete_node)

lemma delete_added: "distinct xs \<Longrightarrow> x \<notin> set xs \<Longrightarrow> slist_delete_node Q x (slist_add_tail Q x xs) = xs"
  by (simp add: add_tail delete_node remove1_append)

end

definition ref_slist :: slist_ops where
  "ref_slist = \<lparr>slist_add_tail = (\<lambda>x xs. xs @ [x]), slist_delete_node = remove1\<rparr>"

interpretation ref_list: slist ref_slist
  by unfold_locales (simp_all add: ref_slist_def)

section \<open>Groups\<close>

definition isolation_group_alloc_group ::
    "('o, 'e, 'v) ctc_lib \<Rightarrow> ('o, 'e, 'v) sai_state \<Rightarrow>
     (sai_status \<times> ctc_sai_isolation_group option) \<times> ('o, 'e, 'v) sai_state" where
  "isolation_group_alloc_group L s =
     (let (ok, s) = mem_malloc L s in
      if \<not> ok then ((SAI_STATUS_NO_MEMORY, None), s)
      else
        let (e, s) = ext_call L SlistNew s in
        if out_val 0 e = 0 then ((SAI_STATUS_NO_MEMORY, None), s)
        else ((SAI_STATUS_SUCCESS, Some \<lparr>ist_grp_id = 0, ist_type = 0, port_list = []\<rparr>), s))"

text \<open>
  Freeing a group frees the records its list links. They are the records of the members' objects,
  and an object that is still in the database has a freed record from then on; freeing one that is
  not there, or twice, is a fault.
\<close>

definition isolation_group_free_member ::
    "('o, 'e, 'v) ctc_lib \<Rightarrow> u8 \<Rightarrow> sai_object_id \<Rightarrow> ('o, 'e, 'v) sai_state \<Rightarrow> ('o, 'e, 'v) sai_state" where
  "isolation_group_free_member L l m s =
     (case ctc_sai_db_get_object_property L l m s of
        Some (IstMemberData _) \<Rightarrow> object_store L l m FreedData s
      | _ \<Rightarrow> s\<lparr>fault := True\<rparr>)"

definition isolation_group_free_group ::
    "('o, 'e, 'v) ctc_lib \<Rightarrow> u8 \<Rightarrow> ctc_sai_isolation_group \<Rightarrow> ('o, 'e, 'v) sai_state \<Rightarrow> ('o, 'e, 'v) sai_state" where
  "isolation_group_free_group L l g s = fold (isolation_group_free_member L l) (port_list g) s"

text \<open>
  The number of the group selects a bit of a 32-bit map; a number above 31 would be shifted out of
  it. The output parameter is written before the object is added, so a later failure leaves it set.
\<close>

definition create_ist_grp_locked ::
    "('o, 'e, 'v) ctc_lib \<Rightarrow> u8 \<Rightarrow> ctc_sai_isolation_group \<Rightarrow> ('o, 'e, 'v) sai_state \<Rightarrow>
     (sai_status \<times> sai_object_id option) \<times> ('o, 'e, 'v) sai_state" where
  "create_ist_grp_locked L l g s =
     (let ((st, v), s) = ctc_sai_db_alloc_id L l CTC_SAI_DB_ID_TYPE_ISOLATION_GROUP s;
          i = out_or 0 v in
      if status_leaves st then ((st, None), s)
      else
        let g = g\<lparr>ist_grp_id := i\<rparr>;
            oid = ctc_sai_create_object_id SAI_OBJECT_TYPE_ISOLATION_GROUP l 0 0 i;
            free = (\<lambda>s. snd (ctc_sai_db_free_id L l CTC_SAI_DB_ID_TYPE_ISOLATION_GROUP i s));
            (st, s) = ctc_sai_db_add_object_property L l oid (Some (IstGrpData g)) s in
        if status_leaves st then ((st, Some oid), free s)
        else
          let s = (if 32 \<le> i then s\<lparr>fault := True\<rparr> else s);
              (e, s) = ext_call L (PortSetIsolation l i (push_bit (unat i) 1)) s;
              st = ctc_sai_mapping_error_ctc L (rc e) in
          if status_leaves st then
            ((st, Some oid), free (snd (ctc_sai_db_remove_object_property L l oid s)))
          else ((SAI_STATUS_SUCCESS, Some oid), s))"

definition ctc_sai_isolation_group_create_group ::
    "('o, 'e, 'v) ctc_lib \<Rightarrow> bool \<Rightarrow> sai_object_id \<Rightarrow> u32 \<Rightarrow> sai_attribute list option \<Rightarrow>
     ('o, 'e, 'v) sai_state \<Rightarrow> (sai_status \<times> sai_object_id option) \<times> ('o, 'e, 'v) sai_state" where
  "ctc_sai_isolation_group_create_group L null_out switch_id attr_count as s =
     (if null_out \<or> as = None then ((SAI_STATUS_INVALID_PARAMETER, None), s)
      else case ctc_sai_oid_get_lchip (inited s) switch_id of
        (st, None) \<Rightarrow> ((st, None), s)
      | (st, Some l) \<Rightarrow>
          (case ctc_sai_find_attrib_in_list attr_count as SAI_ISOLATION_GROUP_ATTR_TYPE of
             (st, None) \<Rightarrow> ((SAI_STATUS_MANDATORY_ATTRIBUTE_MISSING, None), s)
           | (st, Some (v, i)) \<Rightarrow>
               (case isolation_group_alloc_group L s of
                  ((st, None), s) \<Rightarrow> ((st, None), s)
                | ((st, Some g), s) \<Rightarrow>
                    (let (r, s) = create_ist_grp_locked L l (g\<lparr>ist_type := u32data v\<rparr>) (snd (ctc_sai_db_lock L l s)) in
                     (r, snd (ctc_sai_db_unlock L l s))))))"

text \<open>
  A removal takes the object out of the database under the lock; the device, the number and the
  records of the group and of its members are released after it.
\<close>

definition ctc_sai_isolation_group_remove_group ::
    "('o, 'e, 'v) ctc_lib \<Rightarrow> sai_object_id \<Rightarrow> ('o, 'e, 'v) sai_state \<Rightarrow> sai_status \<times> ('o, 'e, 'v) sai_state" where
  "ctc_sai_isolation_group_remove_group L oid s =
     (let l = ucast (o_lchip (snd (ctc_sai_get_ctc_object_id SAI_OBJECT_TYPE_ISOLATION_GROUP oid)));
          s = snd (ctc_sai_db_lock L l s) in
      case ctc_sai_db_get_object_property L l oid s of
        None \<Rightarrow> (SAI_STATUS_INVALID_OBJECT_ID, snd (ctc_sai_db_unlock L l s))
      | Some d \<Rightarrow>
          (let s = snd (ctc_sai_db_remove_object_property L l oid s);
               s = snd (ctc_sai_db_unlock L l s) in
           case d of
             IstGrpData g \<Rightarrow>
               (let s = snd (ext_call L (PortSetIsolation l (ist_grp_id g) 0) s);
                    s = snd (ctc_sai_db_free_id L l CTC_SAI_DB_ID_TYPE_ISOLATION_GROUP (ist_grp_id g) s) in
                (SAI_STATUS_SUCCESS, isolation_group_free_group L l g s))
           | _ \<Rightarrow> (SAI_STATUS_SUCCESS, s\<lparr>fault := True\<rparr>)))"

section \<open>Group attributes\<close>

text \<open>
  The member list reads the number of every linked record; a record that is not there any more is
  read after it was freed. The array for the list is not checked for null.
\<close>

definition linked_member_oid ::
    "('o, 'e, 'v) ctc_lib \<Rightarrow> u8 \<Rightarrow> ('o, 'e, 'v) sai_state \<Rightarrow> sai_object_id \<Rightarrow> sai_object_id option" where
  "linked_member_oid L l s m =
     (case ctc_sai_db_get_object_property L l m s of
        Some (IstMemberData r) \<Rightarrow>
          Some (ctc_sai_create_object_id SAI_OBJECT_TYPE_ISOLATION_GROUP_MEMBER l 0 0 (mem_id r))
      | _ \<Rightarrow> None)"

definition ctc_sai_isolation_group_get_group_property ::
    "('o, 'e, 'v) ctc_lib \<Rightarrow> sai_object_id \<Rightarrow> sai_attribute \<Rightarrow> u32 \<Rightarrow> ('o, 'e, 'v) sai_state \<Rightarrow>
     (sai_status \<times> sai_attribute) \<times> ('o, 'e, 'v) sai_state" where
  "ctc_sai_isolation_group_get_group_property L oid a attr_idx s =
     (case ctc_sai_oid_get_lchip (inited s) oid of
        (st, None) \<Rightarrow> ((st, a), s)
      | (st, Some l) \<Rightarrow>
          (case ctc_sai_db_get_object_property L l oid s of
             None \<Rightarrow> ((SAI_STATUS_INVALID_OBJECT_ID, a), s)
           | Some (IstGrpData g) \<Rightarrow>
               if attr_id a = SAI_ISOLATION_GROUP_ATTR_TYPE then
                 ((SAI_STATUS_SUCCESS, set_u32 (ist_type g) a), s)
               else if attr_id a = SAI_ISOLATION_GROUP_ATTR_ISOLATION_MEMBER_LIST then
                 (let (ok, s) = mem_malloc L s;
                      xs = map (linked_member_oid L l s) (port_list g);
                      s = (if (\<not> ok \<and> xs \<noteq> []) \<or> None \<in> set xs then s\<lparr>fault := True\<rparr> else s);
                      (st, a) = fill_objlist (if ok then Some (map (out_or 0) xs) else None)
                                  (of_nat (length xs)) a in
                  ((if CTC_SAI_ERROR st then int32 (SAI_STATUS_INVALID_ATTR_VALUE_0 + uint attr_idx) else st, a), s))
               else ((int32 (SAI_STATUS_ATTR_NOT_IMPLEMENTED_0 + uint attr_idx), a), s)
           | Some _ \<Rightarrow> ((SAI_STATUS_SUCCESS, a), s\<lparr>fault := True\<rparr>)))"

definition isolation_group_attr_fn_entries ::
    "('o, 'e, 'v) ctc_lib \<Rightarrow> (sai_object_id, ('o, 'e, 'v) sai_state) attr_fn list" where
  "isolation_group_attr_fn_entries L =
     [\<lparr>fn_id = SAI_ISOLATION_GROUP_ATTR_TYPE, fn_get = Some (ctc_sai_isolation_group_get_group_property L), fn_set = None\<rparr>,
      \<lparr>fn_id = SAI_ISOLATION_GROUP_ATTR_ISOLATION_MEMBER_LIST,
       fn_get = Some (ctc_sai_isolation_group_get_group_property L), fn_set = None\<rparr>]"

definition ctc_sai_isolation_group_set_group_attribute ::
    "('o, 'e, 'v) ctc_lib \<Rightarrow> sai_object_id \<Rightarrow> sai_attribute option \<Rightarrow> ('o, 'e, 'v) sai_state \<Rightarrow>
     sai_status \<times> ('o, 'e, 'v) sai_state" where
  "ctc_sai_isolation_group_set_group_attribute L oid a s =
     (if a = None then (SAI_STATUS_INVALID_PARAMETER, s)
      else case ctc_sai_oid_get_lchip (inited s) oid of
        (st, None) \<Rightarrow> (st, s)
      | (st, Some l) \<Rightarrow>
          (let (st, s) = ctc_sai_set_attribute oid SAI_OBJECT_TYPE_ISOLATION_GROUP
                 (Some (isolation_group_attr_fn_entries L)) a (snd (ctc_sai_db_lock L l s)) in
           (st, snd (ctc_sai_db_unlock L l s))))"

definition ctc_sai_isolation_group_get_group_attribute ::
    "('o, 'e, 'v) ctc_lib \<Rightarrow> sai_object_id \<Rightarrow> u32 \<Rightarrow> sai_attribute list option \<Rightarrow> ('o, 'e, 'v) sai_state \<Rightarrow>
     ((sai_status \<times> sai_attribute list option) \<times> ('o, 'e, 'v) sai_state) option" where
  "ctc_sai_isolation_group_get_group_attribute L oid attr_count as s =
     (case as of
        None \<Rightarrow> Some ((SAI_STATUS_INVALID_PARAMETER, None), s)
      | Some as \<Rightarrow>
          (case ctc_sai_oid_get_lchip (inited s) oid of
             (st, None) \<Rightarrow> Some ((st, Some as), s)
           | (st, Some l) \<Rightarrow>
               (case attr_loop (get_attr_body oid SAI_OBJECT_TYPE_ISOLATION_GROUP (isolation_group_attr_fn_entries L))
                       attr_count (0 :: u16) (SAI_STATUS_SUCCESS, as, snd (ctc_sai_db_lock L l s)) of
                  None \<Rightarrow> None
                | Some (st, as, s) \<Rightarrow> Some ((st, Some as), snd (ctc_sai_db_unlock L l s)))))"

section \<open>Members\<close>

text \<open>
  The number of a member is the number of its port, whatever the kind of the port, so the object of
  a second member for the same number is refused. The group is looked up after the member has been
  added, and a record of another kind is read as a group.
\<close>

definition create_ist_member_locked ::
    "('o, 'e, 'v) ctc_lib \<Rightarrow> slist_ops \<Rightarrow> u8 \<Rightarrow> sai_object_id \<Rightarrow> u32 \<Rightarrow> sai_object_id \<Rightarrow>
     ('o, 'e, 'v) sai_state \<Rightarrow> (sai_status \<times> sai_object_id option) \<times> ('o, 'e, 'v) sai_state" where
  "create_ist_member_locked L Q l grp grp_idx port s =
     (let c = oid_unpack port;
          oid = ctc_sai_create_object_id SAI_OBJECT_TYPE_ISOLATION_GROUP_MEMBER l 0 0 (o_value c);
          undo = (\<lambda>s. snd (ctc_sai_db_remove_object_property L l oid s));
          (st, s) = ctc_sai_db_add_object_property L l oid
            (Some (IstMemberData \<lparr>mem_ist_grp = grp, mem_port_id = port, mem_id = o_value c\<rparr>)) s in
      if status_leaves st then ((st, Some oid), s)
      else case ctc_sai_db_get_object_property L l grp s of
        None \<Rightarrow> ((SAI_STATUS_FAILURE, Some oid), undo s)
      | Some (IstGrpData g) \<Rightarrow>
          if ist_type g = SAI_ISOLATION_GROUP_TYPE_PORT \<and> unat (o_type c) \<noteq> SAI_OBJECT_TYPE_PORT \<or>
             ist_type g = SAI_ISOLATION_GROUP_TYPE_BRIDGE_PORT \<and> unat (o_type c) \<noteq> SAI_OBJECT_TYPE_BRIDGE_PORT
          then ((int32 (SAI_STATUS_INVALID_ATTR_VALUE_0 + uint grp_idx), Some oid), undo s)
          else
            (let s = object_store L l grp (IstGrpData (g\<lparr>port_list := slist_add_tail Q oid (port_list g)\<rparr>)) s;
                 (e, s) = ext_call L (PortSetRestriction l (o_value c) (o_value (oid_unpack grp))) s;
                 st = ctc_sai_mapping_error_ctc L (rc e) in
             if status_leaves st then
               ((st, Some oid), undo (object_store L l grp
                  (IstGrpData (g\<lparr>port_list := slist_delete_node Q oid (slist_add_tail Q oid (port_list g))\<rparr>)) s))
             else ((SAI_STATUS_SUCCESS, Some oid), s))
      | Some _ \<Rightarrow> ((SAI_STATUS_SUCCESS, Some oid), s\<lparr>fault := True\<rparr>))"

definition ctc_sai_isolation_group_create_member ::
    "('o, 'e, 'v) ctc_lib \<Rightarrow> slist_ops \<Rightarrow> bool \<Rightarrow> sai_object_id \<Rightarrow> u32 \<Rightarrow> sai_attribute list option \<Rightarrow>
     ('o, 'e, 'v) sai_state \<Rightarrow> (sai_status \<times> sai_object_id option) \<times> ('o, 'e, 'v) sai_state" where
  "ctc_sai_isolation_group_create_member L Q null_out switch_id attr_count as s =
     (if null_out \<or> as = None then ((SAI_STATUS_INVALID_PARAMETER, None), s)
      else case ctc_sai_oid_get_lchip (inited s) switch_id of
        (st, None) \<Rightarrow> ((st, None), s)
      | (st, Some l) \<Rightarrow>
          (case (ctc_sai_find_attrib_in_list attr_count as SAI_ISOLATION_GROUP_MEMBER_ATTR_ISOLATION_GROUP_ID,
                 ctc_sai_find_attrib_in_list attr_count as SAI_ISOLATION_GROUP_MEMBER_ATTR_ISOLATION_OBJECT) of
             ((st, None), _) \<Rightarrow> ((SAI_STATUS_MANDATORY_ATTRIBUTE_MISSING, None), s)
           | (_, (st, None)) \<Rightarrow> ((SAI_STATUS_MANDATORY_ATTRIBUTE_MISSING, None), s)
           | ((_, Some (gv, gi)), (_, Some (pv, pi))) \<Rightarrow>
               (let c = oid_unpack (oiddata pv) in
                if unat (o_type c) \<noteq> SAI_OBJECT_TYPE_PORT \<and> unat (o_type c) \<noteq> SAI_OBJECT_TYPE_BRIDGE_PORT
                then ((SAI_STATUS_INVALID_PARAMETER, None), s)
                else if unat (o_type c) = SAI_OBJECT_TYPE_BRIDGE_PORT \<and> unat (o_sub_type c) \<noteq> SAI_BRIDGE_PORT_TYPE_PORT
                then ((SAI_STATUS_NOT_SUPPORTED, None), s)
                else
                  let (ok, s) = mem_malloc L s in
                  if \<not> ok then ((SAI_STATUS_NO_MEMORY, None), s)
                  else
                    let (r, s) = create_ist_member_locked L Q l (oiddata gv) gi (oiddata pv) (snd (ctc_sai_db_lock L l s)) in
                    (r, snd (ctc_sai_db_unlock L l s)))))"

definition remove_ist_member_locked ::
    "('o, 'e, 'v) ctc_lib \<Rightarrow> slist_ops \<Rightarrow> u8 \<Rightarrow> sai_object_id \<Rightarrow> ('o, 'e, 'v) sai_state \<Rightarrow>
     sai_status \<times> ('o, 'e, 'v) sai_state" where
  "remove_ist_member_locked L Q l oid s =
     (case ctc_sai_db_get_object_property L l oid s of
        None \<Rightarrow> (SAI_STATUS_INVALID_OBJECT_ID, s)
      | Some (IstMemberData m) \<Rightarrow>
          (case ctc_sai_db_get_object_property L l (mem_ist_grp m) s of
             None \<Rightarrow> (SAI_STATUS_INVALID_OBJECT_ID, s)
           | Some (IstGrpData g) \<Rightarrow>
               (let s = object_store L l (mem_ist_grp m)
                          (IstGrpData (g\<lparr>port_list := slist_delete_node Q oid (port_list g)\<rparr>)) s;
                    s = snd (ctc_sai_db_remove_object_property L l oid s) in
                (SAI_STATUS_SUCCESS, snd (ext_call L (PortSetRestriction l (o_value (oid_unpack oid)) 0) s)))
           | Some _ \<Rightarrow> (SAI_STATUS_SUCCESS, s\<lparr>fault := True\<rparr>))
      | Some _ \<Rightarrow> (SAI_STATUS_SUCCESS, s\<lparr>fault := True\<rparr>))"

definition ctc_sai_isolation_group_remove_member ::
    "('o, 'e, 'v) ctc_lib \<Rightarrow> slist_ops \<Rightarrow> sai_object_id \<Rightarrow> ('o, 'e, 'v) sai_state \<Rightarrow>
     sai_status \<times> ('o, 'e, 'v) sai_state" where
  "ctc_sai_isolation_group_remove_member L Q oid s =
     (let l = ucast (o_lchip (snd (ctc_sai_get_ctc_object_id SAI_OBJECT_TYPE_ISOLATION_GROUP_MEMBER oid)));
          (st, s) = remove_ist_member_locked L Q l oid (snd (ctc_sai_db_lock L l s)) in
      (st, snd (ctc_sai_db_unlock L l s)))"

section \<open>Member attributes\<close>

definition ctc_sai_isolation_group_get_member_property ::
    "('o, 'e, 'v) ctc_lib \<Rightarrow> sai_object_id \<Rightarrow> sai_attribute \<Rightarrow> u32 \<Rightarrow> ('o, 'e, 'v) sai_state \<Rightarrow>
     (sai_status \<times> sai_attribute) \<times> ('o, 'e, 'v) sai_state" where
  "ctc_sai_isolation_group_get_member_property L oid a attr_idx s =
     (case ctc_sai_oid_get_lchip (inited s) oid of
        (st, None) \<Rightarrow> ((st, a), s)
      | (st, Some l) \<Rightarrow>
          (case ctc_sai_db_get_object_property L l oid s of
             None \<Rightarrow> ((SAI_STATUS_INVALID_OBJECT_ID, a), s)
           | Some (IstMemberData m) \<Rightarrow>
               if attr_id a = SAI_ISOLATION_GROUP_MEMBER_ATTR_ISOLATION_GROUP_ID then
                 ((SAI_STATUS_SUCCESS, set_oid (mem_ist_grp m) a), s)
               else if attr_id a = SAI_ISOLATION_GROUP_MEMBER_ATTR_ISOLATION_OBJECT then
                 ((SAI_STATUS_SUCCESS, set_oid (mem_port_id m) a), s)
               else ((int32 (SAI_STATUS_ATTR_NOT_IMPLEMENTED_0 + uint attr_idx), a), s)
           | Some _ \<Rightarrow> ((SAI_STATUS_SUCCESS, a), s\<lparr>fault := True\<rparr>)))"

definition isolation_group_member_attr_fn_entries ::
    "('o, 'e, 'v) ctc_lib \<Rightarrow> (sai_object_id, ('o, 'e, 'v) sai_state) attr_fn list" where
  "isolation_group_member_attr_fn_entries L =
     [\<lparr>fn_id = SAI_ISOLATION_GROUP_MEMBER_ATTR_ISOLATION_GROUP_ID,
       fn_get = Some (ctc_sai_isolation_group_get_member_property L), fn_set = None\<rparr>,
      \<lparr>fn_id = SAI_ISOLATION_GROUP_MEMBER_ATTR_ISOLATION_OBJECT,
       fn_get = Some (ctc_sai_isolation_group_get_member_property L), fn_set = None\<rparr>]"

definition ctc_sai_isolation_group_set_member_attribute ::
    "('o, 'e, 'v) ctc_lib \<Rightarrow> sai_object_id \<Rightarrow> sai_attribute option \<Rightarrow> ('o, 'e, 'v) sai_state \<Rightarrow>
     sai_status \<times> ('o, 'e, 'v) sai_state" where
  "ctc_sai_isolation_group_set_member_attribute L oid a s =
     (if a = None then (SAI_STATUS_INVALID_PARAMETER, s)
      else case ctc_sai_oid_get_lchip (inited s) oid of
        (st, None) \<Rightarrow> (st, s)
      | (st, Some l) \<Rightarrow>
          (let (st, s) = ctc_sai_set_attribute oid SAI_OBJECT_TYPE_ISOLATION_GROUP_MEMBER
                 (Some (isolation_group_member_attr_fn_entries L)) a (snd (ctc_sai_db_lock L l s)) in
           (st, snd (ctc_sai_db_unlock L l s))))"

definition ctc_sai_isolation_group_get_member_attribute ::
    "('o, 'e, 'v) ctc_lib \<Rightarrow> sai_object_id \<Rightarrow> u32 \<Rightarrow> sai_attribute list option \<Rightarrow> ('o, 'e, 'v) sai_state \<Rightarrow>
     ((sai_status \<times> sai_attribute list option) \<times> ('o, 'e, 'v) sai_state) option" where
  "ctc_sai_isolation_group_get_member_attribute L oid attr_count as s =
     (case as of
        None \<Rightarrow> Some ((SAI_STATUS_INVALID_PARAMETER, None), s)
      | Some as \<Rightarrow>
          (case ctc_sai_oid_get_lchip (inited s) oid of
             (st, None) \<Rightarrow> Some ((st, Some as), s)
           | (st, Some l) \<Rightarrow>
               (case attr_loop (get_attr_body oid SAI_OBJECT_TYPE_ISOLATION_GROUP_MEMBER
                       (isolation_group_member_attr_fn_entries L))
                       attr_count (0 :: u16) (SAI_STATUS_SUCCESS, as, snd (ctc_sai_db_lock L l s)) of
                  None \<Rightarrow> None
                | Some (st, as, s) \<Rightarrow> Some ((st, Some as), snd (ctc_sai_db_unlock L l s)))))"

section \<open>Reload after a warm boot\<close>

text \<open>The records that the reload passes are the ones it has added to the database before.\<close>

definition isolation_group_wb_reload_member_cb ::
    "('o, 'e, 'v) ctc_lib \<Rightarrow> slist_ops \<Rightarrow> u8 \<Rightarrow> sai_object_id \<Rightarrow> ctc_sai_isolation_group_member \<Rightarrow>
     ('o, 'e, 'v) sai_state \<Rightarrow> sai_status \<times> ('o, 'e, 'v) sai_state" where
  "isolation_group_wb_reload_member_cb L Q l key m s =
     (let (st, s) = ctc_sai_db_alloc_id_from_position L l CTC_SAI_DB_ID_TYPE_COMMON (o_value (oid_unpack key)) s in
      if status_leaves st then (st, s)
      else case ctc_sai_db_get_object_property L l (mem_ist_grp m) s of
        None \<Rightarrow> (SAI_STATUS_FAILURE, s)
      | Some (IstGrpData g) \<Rightarrow>
          (SAI_STATUS_SUCCESS,
           object_store L l (mem_ist_grp m) (IstGrpData (g\<lparr>port_list := slist_add_tail Q key (port_list g)\<rparr>)) s)
      | Some _ \<Rightarrow> (SAI_STATUS_SUCCESS, s\<lparr>fault := True\<rparr>))"

definition isolation_group_wb_reload_group_cb ::
    "('o, 'e, 'v) ctc_lib \<Rightarrow> u8 \<Rightarrow> sai_object_id \<Rightarrow> ctc_sai_isolation_group \<Rightarrow>
     ('o, 'e, 'v) sai_state \<Rightarrow> sai_status \<times> ('o, 'e, 'v) sai_state" where
  "isolation_group_wb_reload_group_cb L l key g s =
     (let (st, s) = ctc_sai_db_alloc_id_from_position L l CTC_SAI_DB_ID_TYPE_ISOLATION_GROUP
                      (o_value (oid_unpack key)) s in
      if status_leaves st then (st, s)
      else
        let (e, s) = ext_call L SlistNew s;
            s = object_store L l key (IstGrpData (g\<lparr>port_list := []\<rparr>)) s in
        (if out_val 0 e = 0 then SAI_STATUS_NO_MEMORY else SAI_STATUS_SUCCESS, s))"

section \<open>The relation between groups and members\<close>

text \<open>
  On the map of a chip's objects: the list of a group has no repetition and links exactly the
  members that name the group, every member names a group that exists, and its number is the one of
  its identifier.
\<close>

definition iso_members :: "(sai_object_id \<rightharpoonup> obj_data) \<Rightarrow> sai_object_id \<Rightarrow> sai_object_id set" where
  "iso_members M grp = {m. \<exists>r. M m = Some (IstMemberData r) \<and> mem_ist_grp r = grp}"

definition linked :: "u8 \<Rightarrow> (sai_object_id \<rightharpoonup> obj_data) \<Rightarrow> bool" where
  "linked l M \<longleftrightarrow>
     (\<forall>grp g. M grp = Some (IstGrpData g) \<longrightarrow> distinct (port_list g) \<and> set (port_list g) = iso_members M grp) \<and>
     (\<forall>m r. M m = Some (IstMemberData r) \<longrightarrow> (\<exists>g. M (mem_ist_grp r) = Some (IstGrpData g)) \<and>
        m = ctc_sai_create_object_id SAI_OBJECT_TYPE_ISOLATION_GROUP_MEMBER l 0 0 (mem_id r))"

lemma linked_group:
  "linked l M \<Longrightarrow> M grp = Some (IstGrpData g) \<Longrightarrow> distinct (port_list g) \<and> set (port_list g) = iso_members M grp"
  by (simp add: linked_def)

lemma linked_member:
  "linked l M \<Longrightarrow> M m = Some (IstMemberData r) \<Longrightarrow> (\<exists>g. M (mem_ist_grp r) = Some (IstGrpData g)) \<and>
     m = ctc_sai_create_object_id SAI_OBJECT_TYPE_ISOLATION_GROUP_MEMBER l 0 0 (mem_id r)"
  by (simp add: linked_def)

lemma linked_no_members: "linked l M \<Longrightarrow> M grp = None \<Longrightarrow> iso_members M grp = {}"
  unfolding linked_def iso_members_def by fastforce

lemma linked_new_group:
  assumes "linked l M" "M oid = None" "port_list g = []"
  shows "linked l (M(oid \<mapsto> IstGrpData g))"
proof -
  have "iso_members (M(oid \<mapsto> IstGrpData g)) grp = iso_members M grp" for grp
    using assms(2) by (auto simp: iso_members_def)
  then show ?thesis
    using assms linked_no_members [OF assms(1,2)] unfolding linked_def by (auto split: if_splits)
qed

lemma linked_drop_group:
  assumes "linked l M" "M grp = Some (IstGrpData g)" "port_list g = []"
  shows "linked l (M(grp := None))"
proof -
  have "iso_members M grp = {}" using linked_group [OF assms(1,2)] assms(3) by simp
  moreover have "iso_members (M(grp := None)) x = iso_members M x" for x
    using assms(2) by (auto simp: iso_members_def)
  ultimately show ?thesis
    using assms(1) unfolding linked_def iso_members_def by (auto split: if_splits)
qed

context slist
begin

lemma linked_add_member:
  assumes ok: "linked l M" and new: "M oid = None" and grp: "M grp = Some (IstGrpData g)"
    and oid: "oid = ctc_sai_create_object_id SAI_OBJECT_TYPE_ISOLATION_GROUP_MEMBER l 0 0 (mem_id r)"
    and r: "mem_ist_grp r = grp"
  shows "linked l (M(oid \<mapsto> IstMemberData r, grp \<mapsto> IstGrpData (g\<lparr>port_list := slist_add_tail Q oid (port_list g)\<rparr>)))"
    (is "linked l ?M")
proof -
  have ne: "oid \<noteq> grp" using new grp by auto
  have mem: "iso_members ?M x = iso_members M x \<union> (if x = grp then {oid} else {})" for x
    using ne new grp r by (auto simp: iso_members_def split: if_splits)
  have "oid \<notin> iso_members M x" for x using new by (simp add: iso_members_def)
  then have "distinct (port_list h) \<and> set (port_list h) = iso_members ?M x" if "?M x = Some (IstGrpData h)" for x h
    using that ne linked_group [OF ok, of x] linked_group [OF ok grp]
    unfolding mem by (auto simp: add_tail split: if_splits)
  moreover have "(\<exists>g. ?M (mem_ist_grp q) = Some (IstGrpData g)) \<and>
      m = ctc_sai_create_object_id SAI_OBJECT_TYPE_ISOLATION_GROUP_MEMBER l 0 0 (mem_id q)"
    if "?M m = Some (IstMemberData q)" for m q
    using that ne r oid linked_member [OF ok, of m q] new grp by (auto split: if_splits)
  ultimately show ?thesis unfolding linked_def by blast
qed

lemma linked_drop_member:
  assumes ok: "linked l M" and m: "M oid = Some (IstMemberData r)" and grp: "M (mem_ist_grp r) = Some (IstGrpData g)"
  shows "linked l (M(mem_ist_grp r \<mapsto> IstGrpData (g\<lparr>port_list := slist_delete_node Q oid (port_list g)\<rparr>), oid := None))"
    (is "linked l ?M")
proof -
  let ?g = "mem_ist_grp r"
  have ne: "oid \<noteq> ?g" using m grp by auto
  have mem: "iso_members ?M x = iso_members M x - {oid}" for x
    using ne m grp by (auto simp: iso_members_def split: if_splits)
  have "oid \<in> iso_members M ?g" "x \<noteq> ?g \<Longrightarrow> oid \<notin> iso_members M x" for x using m by (auto simp: iso_members_def)
  then have "distinct (port_list h) \<and> set (port_list h) = iso_members ?M x" if "?M x = Some (IstGrpData h)" for x h
    using that ne linked_group [OF ok, of x] linked_group [OF ok grp]
    unfolding mem by (auto simp: delete_node_set delete_node_distinct split: if_splits)
  moreover have "(\<exists>g. ?M (mem_ist_grp q) = Some (IstGrpData g)) \<and>
      m' = ctc_sai_create_object_id SAI_OBJECT_TYPE_ISOLATION_GROUP_MEMBER l 0 0 (mem_id q)"
    if "?M m' = Some (IstMemberData q)" for m' q
  proof -
    have "M m' = Some (IstMemberData q)" using that by (auto split: if_splits)
    from linked_member [OF ok this] show ?thesis using ne m by auto
  qed
  ultimately show ?thesis unfolding linked_def by blast
qed

end

section \<open>What the operations do\<close>

lemma free_id_db:
  "sound L l (snd (ctc_sai_db_free_id L l' p i s)) = sound L l s"
  "obj_map L l (snd (ctc_sai_db_free_id L l' p i s)) = obj_map L l s"
  by (rule sound_frame obj_map_frame, simp)+

lemma alloc_group_step:
  assumes "isolation_group_alloc_group L s = ((st, v), s')"
  shows "g_sai_db s' = g_sai_db s" "quiet s s'" "v = None \<Longrightarrow> st < 0"
    "v = Some g \<Longrightarrow> port_list g = []"
  using assms
  by (auto simp: isolation_group_alloc_group_def quiet_def mem_malloc_def Let_def case_prod_beta fun_eq_iff split: if_splits)

locale iso_lib = ctc_lib_laws L + slist Q for L :: "('o, 'e, 'v) ctc_lib" and Q :: slist_ops
begin

lemma create_grp_locked_step:
  assumes s: "sound L l s" and g: "port_list g = []"
    and run: "create_ist_grp_locked L l g s = ((st, v), s')"
  shows "sound L l s'" "lock_depth (trace s') = lock_depth (trace s)"
    "st \<noteq> SAI_STATUS_SUCCESS \<Longrightarrow> st < 0 \<and> obj_map L l s' = obj_map L l s"
    "st = SAI_STATUS_SUCCESS \<Longrightarrow> \<exists>oid i. v = Some oid \<and> obj_map L l s oid = None \<and>
       obj_map L l s' = (obj_map L l s)(oid \<mapsto> IstGrpData (g\<lparr>ist_grp_id := i\<rparr>))"
proof -
  obtain st1 v1 s1 where al: "ctc_sai_db_alloc_id L l CTC_SAI_DB_ID_TYPE_ISOLATION_GROUP s = ((st1, v1), s1)"
    by (metis prod.exhaust)
  define i where "i = out_or 0 v1"
  define oid where "oid = ctc_sai_create_object_id SAI_OBJECT_TYPE_ISOLATION_GROUP l 0 0 i"
  note a = alloc_step [OF al]
  have s1: "sound L l s1" "obj_map L l s1 = obj_map L l s" using db_frame [OF s a(2)] by simp_all
  obtain st2 s2 where ad: "ctc_sai_db_add_object_property L l oid (Some (IstGrpData (g\<lparr>ist_grp_id := i\<rparr>))) s1 = (st2, s2)"
    by (rule prod.exhaust)
  have "data_fits (oid_type oid) (IstGrpData (g\<lparr>ist_grp_id := i\<rparr>))"
    by (simp add: oid_def oid_type_eq create_fields unat_type_field)
  note b = add_step [OF s1(1) this ad]
  define s3 where "s3 = (if 32 \<le> i then s2\<lparr>fault := True\<rparr> else s2)"
  obtain r s4 where x: "ext_call L (PortSetIsolation l i (push_bit (unat i) 1)) s3 = (r, s4)" by (rule prod.exhaust)
  have d4: "g_sai_db s4 = g_sai_db s2" "lock_depth (trace s4) = lock_depth (trace s2)"
    using ext_call_frame [of L "PortSetIsolation l i (push_bit (unat i) 1)" s3]
    unfolding x by (auto simp: s3_def fun_eq_iff)
  define e where "e = ctc_sai_mapping_error_ctc L (rc r)"
  have eq: "create_ist_grp_locked L l g s =
     (if status_leaves st1 then ((st1, None), s1)
      else if status_leaves st2 then ((st2, Some oid), snd (ctc_sai_db_free_id L l CTC_SAI_DB_ID_TYPE_ISOLATION_GROUP i s2))
      else if status_leaves e then ((e, Some oid), snd (ctc_sai_db_free_id L l CTC_SAI_DB_ID_TYPE_ISOLATION_GROUP i
             (snd (ctc_sai_db_remove_object_property L l oid s4))))
      else ((SAI_STATUS_SUCCESS, Some oid), s4))"
    by (simp only: create_ist_grp_locked_def al prod.case Let_def i_def [symmetric] oid_def [symmetric] ad s3_def [symmetric]
        x e_def [symmetric])
  have q2: "lock_depth (trace s2) = lock_depth (trace s)" using b(3) a(4) by (simp add: quiet_def)
  have f2: "sound L l s2" "obj_map L l s2 = obj_map L l s" if "status_leaves st2"
    using that b db_frame [OF s1(1)] s1(2) by (auto simp: status_leaves_def)
  have n2: "sound L l s4" "obj_map L l s4 = (obj_map L l s)(oid \<mapsto> IstGrpData (g\<lparr>ist_grp_id := i\<rparr>))" "obj_map L l s oid = None"
    if "\<not> status_leaves st2"
    using that b s1 db_frame [OF b(2) d4(1)] by (auto simp: status_leaves_def)
  have f4: "sound L l (snd (ctc_sai_db_remove_object_property L l oid s4))"
      "quiet s4 (snd (ctc_sai_db_remove_object_property L l oid s4))"
      "obj_map L l (snd (ctc_sai_db_remove_object_property L l oid s4)) = obj_map L l s"
    if "\<not> status_leaves st2"
    using remove_step [OF n2(1) [OF that], of oid] n2(2,3) [OF that] by auto
  consider (no_id) "status_leaves st1" "st = st1" "s' = s1" | (no_obj) "\<not> status_leaves st1" "status_leaves st2" "st = st2"
      "s' = snd (ctc_sai_db_free_id L l CTC_SAI_DB_ID_TYPE_ISOLATION_GROUP i s2)"
    | (no_dev) "\<not> status_leaves st2" "status_leaves e" "st = e"
      "s' = snd (ctc_sai_db_free_id L l CTC_SAI_DB_ID_TYPE_ISOLATION_GROUP i (snd (ctc_sai_db_remove_object_property L l oid s4)))"
    | (ok) "\<not> status_leaves st2" "st = SAI_STATUS_SUCCESS" "v = Some oid" "s' = s4"
    using run unfolding eq by (auto split: if_splits)
  then have "sound L l s' \<and> lock_depth (trace s') = lock_depth (trace s) \<and>
      (st \<noteq> SAI_STATUS_SUCCESS \<longrightarrow> st < 0 \<and> obj_map L l s' = obj_map L l s) \<and>
      (st = SAI_STATUS_SUCCESS \<longrightarrow> (\<exists>oid i. v = Some oid \<and> obj_map L l s oid = None \<and>
       obj_map L l s' = (obj_map L l s)(oid \<mapsto> IstGrpData (g\<lparr>ist_grp_id := i\<rparr>))))"
  proof cases
    case no_id
    then show ?thesis using s1 a(4) by (simp add: status_leaves_def)
  next
    case no_obj
    then show ?thesis using f2 q2 by (simp add: status_leaves_def free_id_db)
  next
    case no_dev
    then show ?thesis using f4 q2 d4(2) by (simp add: status_leaves_def free_id_db quiet_def)
  next
    case ok
    then show ?thesis using n2 q2 d4(2) by auto
  qed
  then show "sound L l s'" "lock_depth (trace s') = lock_depth (trace s)"
    "st \<noteq> SAI_STATUS_SUCCESS \<Longrightarrow> st < 0 \<and> obj_map L l s' = obj_map L l s"
    "st = SAI_STATUS_SUCCESS \<Longrightarrow> \<exists>oid i. v = Some oid \<and> obj_map L l s oid = None \<and>
       obj_map L l s' = (obj_map L l s)(oid \<mapsto> IstGrpData (g\<lparr>ist_grp_id := i\<rparr>))"
    by blast+
qed

text \<open>The last part of a new member: the group of the right kind links it, and the device is told.\<close>

lemma link_member_step:
  assumes s: "sound L l s" and ok: "distinct (port_list g)" "oid \<notin> set (port_list g)" and ne: "grp \<noteq> oid"
    and g: "obj_map L l s grp = Some (IstGrpData g)" and m: "obj_map L l s oid = Some (IstMemberData r)"
    and x: "ext_call L (PortSetRestriction l p q)
      (object_store L l grp (IstGrpData (g\<lparr>port_list := slist_add_tail Q oid (port_list g)\<rparr>)) s) = (e, s1)"
    and u: "u = snd (ctc_sai_db_remove_object_property L l oid (object_store L l grp
      (IstGrpData (g\<lparr>port_list := slist_delete_node Q oid (slist_add_tail Q oid (port_list g))\<rparr>)) s1))"
  shows "sound L l s1" "quiet s s1"
    "obj_map L l s1 = (obj_map L l s)(grp \<mapsto> IstGrpData (g\<lparr>port_list := slist_add_tail Q oid (port_list g)\<rparr>))"
    "sound L l u" "quiet s u" "obj_map L l u = (obj_map L l s)(oid := None)"
proof -
  let ?g1 = "IstGrpData (g\<lparr>port_list := slist_add_tail Q oid (port_list g)\<rparr>)"
  have ty: "data_fits (oid_type grp) (IstGrpData h)" for h using sound_fits [OF s g] by simp
  note st = store_step [OF s _ ty, of "g\<lparr>port_list := slist_add_tail Q oid (port_list g)\<rparr>", unfolded g, simplified]
  have x': "g_sai_db s1 = g_sai_db (object_store L l grp ?g1 s)" "quiet (object_store L l grp ?g1 s) s1"
    using ext_call_frame(1) [of L "PortSetRestriction l p q" "object_store L l grp ?g1 s"]
      ext_quiet [of "PortSetRestriction l p q" "object_store L l grp ?g1 s" L]
    unfolding x by simp_all
  show s1: "sound L l s1" "obj_map L l s1 = (obj_map L l s)(grp \<mapsto> ?g1)"
    using db_frame [OF st(1) x'(1)] st(3) by simp_all
  show q1: "quiet s s1" by (rule quiet_trans [OF st(2) x'(2)])
  let ?g2 = "g\<lparr>port_list := slist_delete_node Q oid (slist_add_tail Q oid (port_list g))\<rparr>"
  have same: "?g2 = g" using delete_added [OF ok] by simp
  have ex: "obj_map L l s1 grp \<noteq> None" using s1(2) by simp
  note st2 = store_step [OF s1(1) ex ty, of ?g2]
  have o2: "obj_map L l (object_store L l grp (IstGrpData ?g2) s1) = obj_map L l s"
    using st2(3) g unfolding same s1(2) by auto
  have ex2: "obj_map L l (object_store L l grp (IstGrpData ?g2) s1) oid \<noteq> None" unfolding o2 m by simp
  note rm = remove_step [OF st2(1) ex2, folded u]
  show "sound L l u" "obj_map L l u = (obj_map L l s)(oid := None)" using rm unfolding o2 by simp_all
  show "quiet s u" by (rule quiet_trans [OF quiet_trans [OF q1 st2(2)] rm(2)])
qed

lemma create_member_locked_step:
  assumes s: "sound L l s" and ok: "linked l (obj_map L l s)" and ty: "oid_type grp = SAI_OBJECT_TYPE_ISOLATION_GROUP"
    and run: "create_ist_member_locked L Q l grp gi port s = ((st, v), s')"
  shows "sound L l s' \<and> lock_depth (trace s') = lock_depth (trace s) \<and> fault s' = fault s \<and>
    (obj_map L l s' = obj_map L l s \<or>
     st = SAI_STATUS_SUCCESS \<and> (\<exists>oid r g. v = Some oid \<and> obj_map L l s oid = None \<and>
       oid = ctc_sai_create_object_id SAI_OBJECT_TYPE_ISOLATION_GROUP_MEMBER l 0 0 (mem_id r) \<and> mem_ist_grp r = grp \<and>
       mem_port_id r = port \<and> obj_map L l s grp = Some (IstGrpData g) \<and>
       obj_map L l s' = (obj_map L l s)(oid \<mapsto> IstMemberData r, grp \<mapsto> IstGrpData (g\<lparr>port_list := slist_add_tail Q oid (port_list g)\<rparr>))))"
proof -
  define c where "c = oid_unpack port"
  define oid where "oid = ctc_sai_create_object_id SAI_OBJECT_TYPE_ISOLATION_GROUP_MEMBER l 0 0 (o_value c)"
  define r where "r = \<lparr>mem_ist_grp = grp, mem_port_id = port, mem_id = o_value c\<rparr>"
  have mty: "oid_type oid = SAI_OBJECT_TYPE_ISOLATION_GROUP_MEMBER" by (simp add: oid_def oid_type_eq create_fields unat_type_field)
  obtain st1 s1 where ad: "ctc_sai_db_add_object_property L l oid (Some (IstMemberData r)) s = (st1, s1)" by (rule prod.exhaust)
  have "data_fits (oid_type oid) (IstMemberData r)" using mty by simp
  note b = add_step [OF s this ad]
  note run' = run [unfolded create_ist_member_locked_def Let_def c_def [symmetric] oid_def [symmetric] r_def [symmetric] ad prod.case]
  show ?thesis
  proof (cases "status_leaves st1")
    case True
    then have "st = st1" "s' = s1" "st1 \<noteq> SAI_STATUS_SUCCESS" using run' by (simp_all add: status_leaves_def)
    then show ?thesis using b db_frame [OF s b(4)] by (simp add: quiet_def)
  next
    case False
    then have st1: "st1 = SAI_STATUS_SUCCESS" using b(1) by (simp add: status_leaves_def)
    note M1 = b(5,6) [OF st1]
    have ne: "grp \<noteq> oid" using ty mty by auto
    have undo: "sound L l (snd (ctc_sai_db_remove_object_property L l oid t))"
        "quiet t (snd (ctc_sai_db_remove_object_property L l oid t))"
        "obj_map L l (snd (ctc_sai_db_remove_object_property L l oid t)) = obj_map L l s"
      if "sound L l t" "obj_map L l t = (obj_map L l s)(oid \<mapsto> IstMemberData r)" for t
      using remove_step [OF that(1), of oid] that(2) M1(1) by auto
    show ?thesis
    proof (cases "obj_map L l s grp")
      case None
      then have "ctc_sai_db_get_object_property L l grp s1 = None" using M1(2) ne by (simp add: obj_map_get)
      then have "st = SAI_STATUS_FAILURE" "s' = snd (ctc_sai_db_remove_object_property L l oid s1)"
        using run' False by simp_all
      then show ?thesis using undo [OF b(2) M1(2)] b(3) by (simp add: quiet_def)
    next
      case (Some d)
      then obtain g where g: "obj_map L l s grp = Some (IstGrpData g)" using sound_fits [OF s Some] ty by (cases d) auto
      have get: "ctc_sai_db_get_object_property L l grp s1 = Some (IstGrpData g)" using M1(2) ne g by (simp add: obj_map_get)
      have g1: "obj_map L l s1 grp = Some (IstGrpData g)" "obj_map L l s1 oid = Some (IstMemberData r)"
        using M1(2) ne g by simp_all
      have fresh: "distinct (port_list g)" "oid \<notin> set (port_list g)"
        using linked_group [OF ok g] M1(1) by (simp_all add: iso_members_def)
      obtain e s2 where x: "ext_call L (PortSetRestriction l (o_value c) (o_value (oid_unpack grp)))
          (object_store L l grp (IstGrpData (g\<lparr>port_list := slist_add_tail Q oid (port_list g)\<rparr>)) s1) = (e, s2)"
        by (rule prod.exhaust)
      note link = link_member_step [OF b(2) fresh ne g1 x refl]
      define u where "u = snd (ctc_sai_db_remove_object_property L l oid (object_store L l grp
          (IstGrpData (g\<lparr>port_list := slist_delete_node Q oid (slist_add_tail Q oid (port_list g))\<rparr>)) s2))"
      have same: "(obj_map L l s1)(oid := None) = obj_map L l s" using M1 by auto
      note link' = link [folded u_def, unfolded same]
      let ?bad = "ist_type g = SAI_ISOLATION_GROUP_TYPE_PORT \<and> unat (o_type c) \<noteq> SAI_OBJECT_TYPE_PORT \<or>
             ist_type g = SAI_ISOLATION_GROUP_TYPE_BRIDGE_PORT \<and> unat (o_type c) \<noteq> SAI_OBJECT_TYPE_BRIDGE_PORT"
      have "((st, v), s') = (if ?bad then ((int32 (SAI_STATUS_INVALID_ATTR_VALUE_0 + uint gi), Some oid),
            snd (ctc_sai_db_remove_object_property L l oid s1))
          else if status_leaves (ctc_sai_mapping_error_ctc L (rc e)) then ((ctc_sai_mapping_error_ctc L (rc e), Some oid), u)
          else ((SAI_STATUS_SUCCESS, Some oid), s2))"
        using run' False by (simp only: get x prod.case option.case obj_data.case if_False u_def)
      then consider "s' = snd (ctc_sai_db_remove_object_property L l oid s1)" | "s' = u"
        | "st = SAI_STATUS_SUCCESS" "v = Some oid" "s' = s2"
        by (auto split: if_splits)
      then show ?thesis
      proof cases
        case 1
        then show ?thesis using undo [OF b(2) M1(2)] b(3) by (simp add: quiet_def)
      next
        case 2
        then show ?thesis using link' b(3) by (simp add: quiet_def)
      next
        case 3
        have "obj_map L l s2 = (obj_map L l s)(oid \<mapsto> IstMemberData r,
            grp \<mapsto> IstGrpData (g\<lparr>port_list := slist_add_tail Q oid (port_list g)\<rparr>))"
          using link'(3) M1(2) by simp
        moreover have "mem_ist_grp r = grp" "mem_port_id r = port"
          "oid = ctc_sai_create_object_id SAI_OBJECT_TYPE_ISOLATION_GROUP_MEMBER l 0 0 (mem_id r)"
          by (simp_all add: r_def oid_def)
        ultimately show ?thesis using 3 link'(1,2) b(3) M1(1) g by (auto simp: quiet_def)
      qed
    qed
  qed
qed

lemma remove_member_locked_step:
  assumes s: "sound L l s" and ok: "linked l (obj_map L l s)" and ty: "oid_type oid = SAI_OBJECT_TYPE_ISOLATION_GROUP_MEMBER"
    and run: "remove_ist_member_locked L Q l oid s = (st, s')"
  shows "sound L l s' \<and> lock_depth (trace s') = lock_depth (trace s) \<and> fault s' = fault s \<and>
    (if obj_map L l s oid = None then st = SAI_STATUS_INVALID_OBJECT_ID \<and> obj_map L l s' = obj_map L l s
     else st = SAI_STATUS_SUCCESS \<and> (\<exists>r g. obj_map L l s oid = Some (IstMemberData r) \<and>
       obj_map L l s (mem_ist_grp r) = Some (IstGrpData g) \<and> obj_map L l s' = (obj_map L l s)
         (mem_ist_grp r \<mapsto> IstGrpData (g\<lparr>port_list := slist_delete_node Q oid (port_list g)\<rparr>), oid := None)))"
proof (cases "obj_map L l s oid")
  case None
  then show ?thesis using run s by (simp add: remove_ist_member_locked_def obj_map_get)
next
  case (Some d)
  then obtain r where r: "obj_map L l s oid = Some (IstMemberData r)" using sound_fits [OF s Some] ty by (cases d) auto
  obtain g where g: "obj_map L l s (mem_ist_grp r) = Some (IstGrpData g)" using linked_member [OF ok r] by blast
  define g1 where "g1 = g\<lparr>port_list := slist_delete_node Q oid (port_list g)\<rparr>"
  define s1 where "s1 = object_store L l (mem_ist_grp r) (IstGrpData g1) s"
  define s2 where "s2 = snd (ctc_sai_db_remove_object_property L l oid s1)"
  have "data_fits (oid_type (mem_ist_grp r)) (IstGrpData g1)" using sound_fits [OF s g] by simp
  note st1 = store_step [OF s _ this, unfolded g, folded s1_def, simplified]
  have ne: "oid \<noteq> mem_ist_grp r" using r g by auto
  have "obj_map L l s1 oid \<noteq> None" using st1(3) r ne by simp
  note st2 = remove_step [OF st1(1) this, folded s2_def]
  have "st = SAI_STATUS_SUCCESS" and s': "s' = snd (ext_call L (PortSetRestriction l (o_value (oid_unpack oid)) 0) s2)"
    using run by (simp_all add: remove_ist_member_locked_def obj_map_get r g Let_def g1_def s1_def s2_def)
  moreover have "sound L l s'" "obj_map L l s' = obj_map L l s2" using db_frame [OF st2(1), of s'] s' by simp_all
  moreover have "quiet s s'"
    unfolding s' by (rule quiet_trans [OF quiet_trans [OF st1(2) st2(2)] ext_quiet]) simp_all
  ultimately show ?thesis using r g st2(3) st1(3) by (simp add: quiet_def g1_def)
qed

lemma remove_empty_group_step:
  assumes s: "sound L l s" and ty: "oid_type grp = SAI_OBJECT_TYPE_ISOLATION_GROUP" and l: "ucast (o_lchip (oid_unpack grp)) = l"
    and run: "ctc_sai_isolation_group_remove_group L grp s = (st, s')"
  shows "obj_map L l s grp = None \<Longrightarrow> st = SAI_STATUS_INVALID_OBJECT_ID \<and> sound L l s' \<and>
      lock_depth (trace s') = lock_depth (trace s) \<and> obj_map L l s' = obj_map L l s"
    "obj_map L l s grp = Some (IstGrpData g) \<Longrightarrow> st = SAI_STATUS_SUCCESS \<and>
      (\<exists>t. s' = isolation_group_free_group L l g t \<and> sound L l t \<and> fault t = fault s \<and>
         lock_depth (trace t) = lock_depth (trace s) \<and> obj_map L l t = (obj_map L l s)(grp := None))"
proof -
  let ?s0 = "snd (ctc_sai_db_lock L l s)"
  note s0 = lock_step [OF s]
  show "st = SAI_STATUS_INVALID_OBJECT_ID \<and> sound L l s' \<and>
      lock_depth (trace s') = lock_depth (trace s) \<and> obj_map L l s' = obj_map L l s" if "obj_map L l s grp = None"
  proof -
    have "st = SAI_STATUS_INVALID_OBJECT_ID" "s' = snd (ctc_sai_db_unlock L l ?s0)"
      using run that s0(3)
      by (simp_all add: ctc_sai_isolation_group_remove_group_def ctc_sai_get_ctc_object_id_def l obj_map_get Let_def)
    then show ?thesis using lock_section [OF s s0(2) quiet_refl] s0(3) by (simp add: quiet_def)
  qed
  show "st = SAI_STATUS_SUCCESS \<and> (\<exists>t. s' = isolation_group_free_group L l g t \<and> sound L l t \<and> fault t = fault s \<and>
         lock_depth (trace t) = lock_depth (trace s) \<and> obj_map L l t = (obj_map L l s)(grp := None))"
    if g: "obj_map L l s grp = Some (IstGrpData g)"
  proof -
    define s1 where "s1 = snd (ctc_sai_db_remove_object_property L l grp ?s0)"
    have "obj_map L l ?s0 grp \<noteq> None" using g s0(3) by simp
    note r = remove_step [OF s0(2) this, folded s1_def]
    define s2 where "s2 = snd (ctc_sai_db_unlock L l s1)"
    note u = lock_section [OF s r(1,2), folded s2_def]
    define t where "t = snd (ctc_sai_db_free_id L l CTC_SAI_DB_ID_TYPE_ISOLATION_GROUP (ist_grp_id g)
        (snd (ext_call L (PortSetIsolation l (ist_grp_id g) 0) s2)))"
    have "st = SAI_STATUS_SUCCESS" "s' = isolation_group_free_group L l g t"
      using run g s0(3)
      by (simp_all add: ctc_sai_isolation_group_remove_group_def ctc_sai_get_ctc_object_id_def l obj_map_get Let_def
          t_def s2_def s1_def)
    moreover have "sound L l t" "obj_map L l t = obj_map L l s2"
      using db_frame [OF u(2), of t] by (simp_all add: t_def)
    moreover have "fault t = fault s" "lock_depth (trace t) = lock_depth (trace s)"
      using u(1) by (simp_all add: t_def quiet_def fun_eq_iff)
    ultimately show ?thesis using u(3) r(3) s0(3) by auto
  qed
qed

lemma free_members_step:
  assumes "chip_inv L l s" and "distinct xs" and "\<forall>m \<in> set xs. \<exists>r. obj_map L l s m = Some (IstMemberData r)"
  shows "chip_inv L l (fold (isolation_group_free_member L l) xs s) \<and>
    trace (fold (isolation_group_free_member L l) xs s) = trace s \<and> fault (fold (isolation_group_free_member L l) xs s) = fault s \<and>
    (\<forall>m. obj_map L l (fold (isolation_group_free_member L l) xs s) m = (if m \<in> set xs then Some FreedData else obj_map L l s m))"
  using assms
proof (induction xs arbitrary: s)
  case (Cons x xs)
  obtain r where r: "obj_map L l s x = Some (IstMemberData r)" using Cons.prems(3) by auto
  have eq: "isolation_group_free_member L l x s = object_store L l x FreedData s"
    using r by (simp add: isolation_group_free_member_def obj_map_get)
  have "ctc_sai_db_get_object_property L l x s \<noteq> None" using r by (simp add: obj_map_get)
  note st = store_object_get [OF Cons.prems(1) this, where d = FreedData]
  have o: "obj_map L l (object_store L l x FreedData s) m = (if m = x then Some FreedData else obj_map L l s m)" for m
    using st(1) by (simp add: obj_map_def)
  have "\<forall>m \<in> set xs. \<exists>r. obj_map L l (object_store L l x FreedData s) m = Some (IstMemberData r)"
    using Cons.prems(2,3) by (auto simp: o)
  moreover have "inited s l" using Cons.prems(1) by (auto simp: inited_def elim!: chip_inv_obtain)
  ultimately show ?case
    using Cons.IH [OF st(2)] Cons.prems(2) by (simp add: eq o object_store_inited)
qed simp

end

text \<open>The states that the calls lead to, groups being removed only when they have no member.\<close>

inductive iso_reach ::
    "('o, 'e, 'v) ctc_lib \<Rightarrow> slist_ops \<Rightarrow> u8 \<Rightarrow> ('o, 'e, 'v) sai_state \<Rightarrow> ('o, 'e, 'v) sai_state \<Rightarrow> bool"
  for L Q l s0 where
  start: "iso_reach L Q l s0 s0"
| create_group: "iso_reach L Q l s0 s \<Longrightarrow> ctc_sai_oid_get_lchip (inited s) switch_id = (st, Some l) \<Longrightarrow>
    ctc_sai_isolation_group_create_group L null switch_id cnt as s = (r, s') \<Longrightarrow> iso_reach L Q l s0 s'"
| create_member: "iso_reach L Q l s0 s \<Longrightarrow> ctc_sai_oid_get_lchip (inited s) switch_id = (st, Some l) \<Longrightarrow>
    (\<forall>st v i. ctc_sai_find_attrib_in_list cnt as SAI_ISOLATION_GROUP_MEMBER_ATTR_ISOLATION_GROUP_ID = (st, Some (v, i)) \<longrightarrow>
       oid_type (oiddata v) = SAI_OBJECT_TYPE_ISOLATION_GROUP) \<Longrightarrow>
    ctc_sai_isolation_group_create_member L Q null switch_id cnt as s = (r, s') \<Longrightarrow> iso_reach L Q l s0 s'"
| remove_member: "iso_reach L Q l s0 s \<Longrightarrow> oid_type oid = SAI_OBJECT_TYPE_ISOLATION_GROUP_MEMBER \<Longrightarrow>
    ucast (o_lchip (oid_unpack oid)) = l \<Longrightarrow>
    ctc_sai_isolation_group_remove_member L Q oid s = (st, s') \<Longrightarrow> iso_reach L Q l s0 s'"
| remove_group: "iso_reach L Q l s0 s \<Longrightarrow> oid_type grp = SAI_OBJECT_TYPE_ISOLATION_GROUP \<Longrightarrow>
    ucast (o_lchip (oid_unpack grp)) = l \<Longrightarrow> iso_members (obj_map L l s) grp = {} \<Longrightarrow>
    ctc_sai_isolation_group_remove_group L grp s = (st, s') \<Longrightarrow> iso_reach L Q l s0 s'"

text \<open>What every call keeps.\<close>

definition iso_kept :: "('o, 'e, 'v) ctc_lib \<Rightarrow> u8 \<Rightarrow> ('o, 'e, 'v) sai_state \<Rightarrow> ('o, 'e, 'v) sai_state \<Rightarrow> bool" where
  "iso_kept L l s s' \<longleftrightarrow> sound L l s' \<and> linked l (obj_map L l s') \<and> lock_depth (trace s') = lock_depth (trace s)"

lemma iso_kept_frame:
  "sound L l s \<Longrightarrow> linked l (obj_map L l s) \<Longrightarrow> g_sai_db s' = g_sai_db s \<Longrightarrow>
     lock_depth (trace s') = lock_depth (trace s) \<Longrightarrow> iso_kept L l s s'"
  using db_frame [of L l s s'] by (simp add: iso_kept_def)

lemma iso_kept_section:
  assumes "sound L l s" and "sound L l s2" and "linked l (obj_map L l s2)"
    and "lock_depth (trace s2) = lock_depth (trace (snd (ctc_sai_db_lock L l s)))"
  shows "iso_kept L l s (snd (ctc_sai_db_unlock L l s2))"
  using db_frame [OF assms(2), of "snd (ctc_sai_db_unlock L l s2)"] lock_section_depth [OF assms(1,2,4)] assms(3)
  by (simp add: iso_kept_def)

context iso_lib
begin

lemma create_group_kept:
  assumes s: "sound L l s" "linked l (obj_map L l s)" and sw: "ctc_sai_oid_get_lchip (inited s) switch_id = (st, Some l)"
    and run: "ctc_sai_isolation_group_create_group L null switch_id cnt as s = (r, s')"
  shows "iso_kept L l s s'"
proof -
  obtain st1 v1 s1 where al: "isolation_group_alloc_group L s = ((st1, v1), s1)" by (metis prod.exhaust)
  note a = alloc_group_step [OF al]
  have k1: "iso_kept L l s s1" using iso_kept_frame [OF s a(1)] a(2) by (simp add: quiet_def)
  have k0: "iso_kept L l s s" using s by (simp add: iso_kept_def)
  have s1: "sound L l s1" "linked l (obj_map L l s1)" using k1 by (simp_all add: iso_kept_def)
  show ?thesis
  proof (cases "s' = s \<or> s' = s1")
    case False
    then obtain v g st2 v2 s2 where g: "v1 = Some g"
      and c: "create_ist_grp_locked L l (g\<lparr>ist_type := u32data v\<rparr>) (snd (ctc_sai_db_lock L l s1)) = ((st2, v2), s2)"
      and s': "s' = snd (ctc_sai_db_unlock L l s2)"
      using run by (cases r) (auto simp: ctc_sai_isolation_group_create_group_def sw al split: if_splits prod.splits option.splits)
    have "port_list (g\<lparr>ist_type := u32data v\<rparr>) = []" using a(4) [OF g] by simp
    note st = create_grp_locked_step [OF lock_step(2) [OF s1(1)] this c]
    have "iso_kept L l s1 s'"
      unfolding s'
    proof (rule iso_kept_section [OF s1(1)])
      show "sound L l s2" "lock_depth (trace s2) = lock_depth (trace (snd (ctc_sai_db_lock L l s1)))"
        using st(1,2) by simp_all
      show "linked l (obj_map L l s2)"
      proof (cases "st2 = SAI_STATUS_SUCCESS")
        case True
        then show ?thesis using st(4) linked_new_group [OF s1(2)] lock_step(3) [OF s1(1)] a(4) [OF g] by auto
      next
        case False
        then show ?thesis using st(3) s1(2) lock_step(3) [OF s1(1)] by simp
      qed
    qed
    then show ?thesis using k1 by (simp add: iso_kept_def)
  qed (use k0 k1 in auto)
qed

lemma create_member_kept:
  assumes s: "sound L l s" "linked l (obj_map L l s)" and sw: "ctc_sai_oid_get_lchip (inited s) switch_id = (st, Some l)"
    and ty: "\<forall>st v i. ctc_sai_find_attrib_in_list cnt as SAI_ISOLATION_GROUP_MEMBER_ATTR_ISOLATION_GROUP_ID =
      (st, Some (v, i)) \<longrightarrow> oid_type (oiddata v) = SAI_OBJECT_TYPE_ISOLATION_GROUP"
    and run: "ctc_sai_isolation_group_create_member L Q null switch_id cnt as s = (r, s')"
  shows "iso_kept L l s s'"
proof -
  define s1 where "s1 = snd (mem_malloc L s)"
  have k1: "iso_kept L l s s1" using iso_kept_frame [OF s, of s1] malloc_step(2) [where L = L and s = s] by (simp add: s1_def quiet_def)
  have k0: "iso_kept L l s s" using s by (simp add: iso_kept_def)
  have s1: "sound L l s1" "linked l (obj_map L l s1)" using k1 by (simp_all add: iso_kept_def)
  show ?thesis
  proof (cases "s' = s \<or> s' = s1")
    case False
    then obtain gv gi pv st0 st2 v2 s2 where
        f: "ctc_sai_find_attrib_in_list cnt as SAI_ISOLATION_GROUP_MEMBER_ATTR_ISOLATION_GROUP_ID = (st0, Some (gv, gi))"
      and c: "create_ist_member_locked L Q l (oiddata gv) gi (oiddata pv) (snd (ctc_sai_db_lock L l s1)) = ((st2, v2), s2)"
      and s': "s' = snd (ctc_sai_db_unlock L l s2)"
      using run by (cases r) (auto simp: ctc_sai_isolation_group_create_member_def sw Let_def s1_def split: if_splits prod.splits option.splits)
    note s0 = lock_step [OF s1(1)]
    have "linked l (obj_map L l (snd (ctc_sai_db_lock L l s1)))" using s0(3) s1(2) by simp
    note st = create_member_locked_step [OF s0(2) this _ c]
    have "iso_kept L l s1 s'"
      unfolding s'
    proof (rule iso_kept_section [OF s1(1)])
      show "sound L l s2" "lock_depth (trace s2) = lock_depth (trace (snd (ctc_sai_db_lock L l s1)))"
        using st ty f by blast+
      show "linked l (obj_map L l s2)"
        using st ty f linked_add_member [OF s1(2)] s1(2) unfolding s0(3) by metis
    qed
    then show ?thesis using k1 by (simp add: iso_kept_def)
  qed (use k0 k1 in auto)
qed

lemma remove_member_kept:
  assumes s: "sound L l s" "linked l (obj_map L l s)" and ty: "oid_type oid = SAI_OBJECT_TYPE_ISOLATION_GROUP_MEMBER"
    and l: "ucast (o_lchip (oid_unpack oid)) = l" and run: "ctc_sai_isolation_group_remove_member L Q oid s = (st, s')"
  shows "iso_kept L l s s'"
proof -
  note s0 = lock_step [OF s(1)]
  obtain s2 where c: "remove_ist_member_locked L Q l oid (snd (ctc_sai_db_lock L l s)) = (st, s2)"
      "s' = snd (ctc_sai_db_unlock L l s2)"
    using run by (auto simp: ctc_sai_isolation_group_remove_member_def ctc_sai_get_ctc_object_id_def l split: prod.splits)
  have "linked l (obj_map L l (snd (ctc_sai_db_lock L l s)))" using s0(3) s(2) by simp
  note st = remove_member_locked_step [OF s0(2) this ty c(1)]
  show ?thesis
    unfolding c(2)
  proof (rule iso_kept_section [OF s(1)])
    show "sound L l s2" "lock_depth (trace s2) = lock_depth (trace (snd (ctc_sai_db_lock L l s)))" using st by blast+
    show "linked l (obj_map L l s2)"
      using st linked_drop_member [OF s(2)] s(2) unfolding s0(3) by (auto split: if_splits)
  qed
qed

lemma remove_group_kept:
  assumes s: "sound L l s" "linked l (obj_map L l s)" and ty: "oid_type grp = SAI_OBJECT_TYPE_ISOLATION_GROUP"
    and l: "ucast (o_lchip (oid_unpack grp)) = l" and empty: "iso_members (obj_map L l s) grp = {}"
    and run: "ctc_sai_isolation_group_remove_group L grp s = (st, s')"
  shows "iso_kept L l s s'"
proof (cases "obj_map L l s grp")
  case None
  then show ?thesis using remove_empty_group_step(1) [OF s(1) ty l run] s(2) by (simp add: iso_kept_def)
next
  case (Some d)
  then obtain g where g: "obj_map L l s grp = Some (IstGrpData g)" using sound_fits [OF s(1) Some] ty by (cases d) auto
  have "port_list g = []" using linked_group [OF s(2) g] empty by simp
  then show ?thesis
    using remove_empty_group_step(2) [OF s(1) ty l run g] linked_drop_group [OF s(2) g]
    by (auto simp: iso_kept_def isolation_group_free_group_def)
qed

lemma reach_kept:
  assumes "iso_reach L Q l s0 s" and "sound L l s0" "linked l (obj_map L l s0)"
  shows "iso_kept L l s0 s"
  using assms(1)
proof induction
  case start
  show ?case using assms(2,3) by (simp add: iso_kept_def)
next
  case (create_group s switch_id st null cnt as r s')
  then show ?case using create_group_kept [OF _ _ create_group(2,3)] by (simp add: iso_kept_def)
next
  case (create_member s switch_id st cnt as null r s')
  then show ?case using create_member_kept [OF _ _ create_member(2,3,4)] by (simp add: iso_kept_def)
next
  case (remove_member s oid st s')
  then show ?case using remove_member_kept [OF _ _ remove_member(2,3,4)] by (simp add: iso_kept_def)
next
  case (remove_group s grp st s')
  then show ?case using remove_group_kept [OF _ _ remove_group(2,3,4,5)] by (simp add: iso_kept_def)
qed

lemma member_list_step:
  assumes ok: "linked l (obj_map L l s)" and lc: "ctc_sai_oid_get_lchip (inited s) grp = (st0, Some l)"
    and g: "obj_map L l s grp = Some (IstGrpData g)" and a: "attr_id a = SAI_ISOLATION_GROUP_ATTR_ISOLATION_MEMBER_LIST"
    and m: "fst (mem_malloc L s)"
  shows "ctc_sai_isolation_group_get_group_property L grp a i s =
    (let (st, a) = fill_objlist (Some (port_list g)) (of_nat (length (port_list g))) a in
     ((if CTC_SAI_ERROR st then int32 (SAI_STATUS_INVALID_ATTR_VALUE_0 + uint i) else st, a), snd (mem_malloc L s)))"
proof -
  define s1 where "s1 = snd (mem_malloc L s)"
  have ml: "mem_malloc L s = (True, s1)" using m prod.collapse [of "mem_malloc L s"] by (simp add: s1_def)
  have o: "obj_map L l s1 = obj_map L l s" using obj_map_frame [of s1 s] by (simp add: s1_def)
  have el: "linked_member_oid L l s1 x = Some x" if x: "x \<in> set (port_list g)" for x
  proof -
    obtain r where "obj_map L l s x = Some (IstMemberData r)" using x linked_group [OF ok g] by (auto simp: iso_members_def)
    then show ?thesis using linked_member [OF ok] o by (simp add: linked_member_oid_def obj_map_get)
  qed
  have "map (\<lambda>x. out_or 0 (linked_member_oid L l s1 x)) (port_list g) = port_list g"
      "None \<notin> linked_member_oid L l s1 ` set (port_list g)"
    using el by (auto simp: map_idI)
  then show ?thesis
    by (simp add: ctc_sai_isolation_group_get_group_property_def lc obj_map_get g a ml Let_def s1_def [symmetric] o_def)
qed

lemma created_chip:
  assumes "chip_inv L l s"
  shows "ctc_sai_oid_get_lchip (inited s) (ctc_sai_create_object_id t l b v2 v) = (SAI_STATUS_SUCCESS, Some l)"
    "ucast (o_lchip (oid_unpack (ctc_sai_create_object_id t l b v2 v))) = l"
proof -
  have l: "l < CTC_SAI_MAX_CHIP_NUM" "inited s l" using assms by (auto simp: inited_def elim!: chip_inv_obtain)
  have "(ucast (ucast l :: 6 word) :: u8) = l"
    by (rule ucast_field_back(1)) (use l in \<open>simp add: CTC_SAI_MAX_CHIP_NUM_def word_less_nat_alt\<close>)
  then show "ctc_sai_oid_get_lchip (inited s) (ctc_sai_create_object_id t l b v2 v) = (SAI_STATUS_SUCCESS, Some l)"
    "ucast (o_lchip (oid_unpack (ctc_sai_create_object_id t l b v2 v))) = l"
    using l by (simp_all add: ctc_sai_oid_get_lchip_def ctc_sai_get_ctc_object_id_def create_fields not_le [symmetric])
qed

text \<open>A freed member is read by every call on it.\<close>

lemma freed_member_calls:
  assumes inv: "chip_inv L l s" and m: "m = ctc_sai_create_object_id SAI_OBJECT_TYPE_ISOLATION_GROUP_MEMBER l 0 0 n"
    and f: "obj_map L l s m = Some FreedData"
  shows "fault (snd (ctc_sai_isolation_group_get_member_property L m a i s))"
    "fault (snd (ctc_sai_isolation_group_remove_member L Q m s))"
proof -
  note c = created_chip [OF inv, of SAI_OBJECT_TYPE_ISOLATION_GROUP_MEMBER 0 0 n, folded m]
  show "fault (snd (ctc_sai_isolation_group_get_member_property L m a i s))"
    by (simp add: ctc_sai_isolation_group_get_member_property_def c obj_map_get f)
  have "obj_map L l (snd (ctc_sai_db_lock L l s)) m = Some FreedData"
    using f obj_map_frame [of "snd (ctc_sai_db_lock L l s)" s] by simp
  then show "fault (snd (ctc_sai_isolation_group_remove_member L Q m s))"
    by (simp add: ctc_sai_isolation_group_remove_member_def ctc_sai_get_ctc_object_id_def c(2) remove_ist_member_locked_def
        obj_map_get Let_def)
qed

end

interpretation ref_iso: iso_lib ref_lib ref_slist
  by (intro iso_lib.intro ref_laws.ctc_lib_laws_axioms ref_list.slist_axioms)

section \<open>Properties\<close>

text \<open>
  Property C23: groups and members agree. However groups and members are created and removed, as long as
  a group is removed only when it has no member and a member is created for an identifier of the type
  of a group, every group's list links exactly the members that name the group, each once, every member's group exists, the database stays sound and the locks are
  balanced, whatever the device answers and also when calls fail half way.
\<close>

theorem isolation_reach_linked:
  assumes "iso_lib L Q" and "sound L l s0" and "linked l (obj_map L l s0)" and "iso_reach L Q l s0 s"
  shows "sound L l s \<and> linked l (obj_map L l s) \<and> lock_depth (trace s) = lock_depth (trace s0)"
  using iso_lib.reach_kept [OF assms(1,4,2,3)] by (simp add: iso_kept_def)

text \<open>
  Property C24: the member list of an isolation group. In a database where groups and members agree,
  reading the list touches no freed memory. Into a buffer that is large enough it writes exactly the
  members, each once; a smaller one is left alone and the size that is needed is announced, but the
  status is the one of an invalid value and not the overflow that the interface documents.
\<close>

theorem isolation_member_list_exact:
  assumes "iso_lib L Q" and "sound L l s" and "linked l (obj_map L l s)"
    and "ctc_sai_oid_get_lchip (inited s) grp = (st0, Some l)" and "obj_map L l s grp = Some (IstGrpData g)"
    and "attr_id a = SAI_ISOLATION_GROUP_ATTR_ISOLATION_MEMBER_LIST" and "fst (mem_malloc L s)"
    and "unat (list_count (attr_value a)) = length (objs (attr_value a))" and "length (port_list g) < 2 ^ 32"
    and "ctc_sai_isolation_group_get_group_property L grp a i s = ((st, a'), s')"
  shows "fault s' = fault s \<and> obj_map L l s' = obj_map L l s \<and>
    unat (list_count (attr_value a')) = card (iso_members (obj_map L l s) grp) \<and>
    length (objs (attr_value a')) = length (objs (attr_value a)) \<and>
    (if length (objs (attr_value a)) < card (iso_members (obj_map L l s) grp) then
       objs (attr_value a') = objs (attr_value a) \<and> st = int32 (SAI_STATUS_INVALID_ATTR_VALUE_0 + uint i)
     else st = SAI_STATUS_SUCCESS \<and>
       (let ms = take (card (iso_members (obj_map L l s) grp)) (objs (attr_value a')) in
        set ms = iso_members (obj_map L l s) grp \<and> distinct ms))"
proof -
  let ?n = "of_nat (length (port_list g)) :: u32"
  have n: "unat ?n = length (port_list g)" using assms(9) by (simp add: unat_of_nat)
  have P: "distinct (port_list g)" "set (port_list g) = iso_members (obj_map L l s) grp"
      "card (iso_members (obj_map L l s) grp) = length (port_list g)"
    using linked_group [OF assms(3,5)] distinct_card [of "port_list g"] by auto
  have lt: "list_count (attr_value a) < ?n \<longleftrightarrow> length (objs (attr_value a)) < length (port_list g)"
    using assms(8) n by (simp add: word_less_nat_alt)
  have r: "st = (if length (objs (attr_value a)) < length (port_list g) then int32 (SAI_STATUS_INVALID_ATTR_VALUE_0 + uint i)
        else SAI_STATUS_SUCCESS)" "s' = snd (mem_malloc L s)"
      "a' = (if length (objs (attr_value a)) < length (port_list g) then set_objlist ?n (objs (attr_value a)) a
        else set_objlist ?n (port_list g @ drop (length (port_list g)) (objs (attr_value a))) a)"
    using iso_lib.member_list_step [OF assms(1,3-7), of i] assms(10) lt n
    by (auto simp: fill_objlist_def ctc_sai_fill_object_list_def Let_def CTC_SAI_ERROR_def split: if_splits)
  have "obj_map L l s' = obj_map L l s" "fault s' = fault s"
    using r(2) obj_map_frame [of s' s] malloc_step(2) [where L = L and s = s] by (simp_all add: quiet_def)
  then show ?thesis using r P n by (auto simp: set_objlist_get Let_def)
qed

text \<open>
  Property C25: removing a group that has members leaves freed records behind. The call succeeds and the
  group is gone, but every member stays in the database with a record that has been freed, and both
  removing it and reading an attribute of it access freed memory.
\<close>

theorem isolation_remove_frees_members:
  assumes "iso_lib L Q" and "sound L l s" and "linked l (obj_map L l s)"
    and "oid_type grp = SAI_OBJECT_TYPE_ISOLATION_GROUP" and "ucast (o_lchip (oid_unpack grp)) = l"
    and "obj_map L l s grp = Some (IstGrpData g)"
    and "ctc_sai_isolation_group_remove_group L grp s = (st, s')"
  shows "st = SAI_STATUS_SUCCESS \<and> fault s' = fault s \<and> obj_map L l s' grp = None \<and>
    (\<forall>m. m \<in> iso_members (obj_map L l s) grp \<longrightarrow> obj_map L l s' m = Some FreedData \<and>
       fault (snd (ctc_sai_isolation_group_get_member_property L m a i s')) \<and>
       fault (snd (ctc_sai_isolation_group_remove_member L Q m s')))"
proof -
  obtain t where t: "st = SAI_STATUS_SUCCESS" "s' = isolation_group_free_group L l g t" "sound L l t" "fault t = fault s"
      "obj_map L l t = (obj_map L l s)(grp := None)"
    using iso_lib.remove_empty_group_step(2) [OF assms(1,2,4,5,7,6)] by blast
  have P: "distinct (port_list g)" "set (port_list g) = iso_members (obj_map L l s) grp" using linked_group [OF assms(3,6)] by auto
  have M: "\<forall>m \<in> set (port_list g). \<exists>r. obj_map L l t m = Some (IstMemberData r)"
    using P(2) t(5) assms(6) by (auto simp: iso_members_def)
  have inv: "chip_inv L l t" using t(3) by (simp add: sound_def)
  note fr = iso_lib.free_members_step [OF assms(1) inv P(1) M, folded isolation_group_free_group_def t(2)]
  have "fault (snd (ctc_sai_isolation_group_get_member_property L m a i s')) \<and>
      fault (snd (ctc_sai_isolation_group_remove_member L Q m s'))" if m: "m \<in> iso_members (obj_map L l s) grp" for m
  proof -
    obtain n where "m = ctc_sai_create_object_id SAI_OBJECT_TYPE_ISOLATION_GROUP_MEMBER l 0 0 n"
      using m linked_member [OF assms(3)] by (auto simp: iso_members_def)
    moreover have "obj_map L l s' m = Some FreedData" using fr m P(2) by simp
    ultimately show ?thesis using iso_lib.freed_member_calls [OF assms(1)] fr by blast
  qed
  moreover have "grp \<notin> set (port_list g)" using assms(6) unfolding P(2) by (simp add: iso_members_def)
  ultimately show ?thesis using fr t P(2) by simp
qed

section \<open>A sample\<close>

text \<open>A chip with one group of ports and one member in it, made by the calls themselves.\<close>

definition ref_ist_grp :: sai_object_id where
  "ref_ist_grp = ctc_sai_create_object_id SAI_OBJECT_TYPE_ISOLATION_GROUP 0 0 0 1"

definition ref_ist_mem :: sai_object_id where
  "ref_ist_mem = ctc_sai_create_object_id SAI_OBJECT_TYPE_ISOLATION_GROUP_MEMBER 0 0 0 6"

definition ref_ist_1 :: "(sai_status \<times> sai_object_id option) \<times> (ref_oid, ref_ent, ref_vec) sai_state" where
  "ref_ist_1 = ctc_sai_isolation_group_create_group ref_lib False 0 1 (Some [ref_attr SAI_ISOLATION_GROUP_ATTR_TYPE 0]) ref_state"

definition ref_ist_attrs :: "sai_attribute list" where
  "ref_ist_attrs = [ref_attr SAI_ISOLATION_GROUP_MEMBER_ATTR_ISOLATION_GROUP_ID ref_ist_grp,
     ref_attr SAI_ISOLATION_GROUP_MEMBER_ATTR_ISOLATION_OBJECT (ctc_sai_create_object_id SAI_OBJECT_TYPE_PORT 0 0 0 6)]"

definition ref_ist_2 :: "(sai_status \<times> sai_object_id option) \<times> (ref_oid, ref_ent, ref_vec) sai_state" where
  "ref_ist_2 = ctc_sai_isolation_group_create_member ref_lib ref_slist False 0 2 (Some ref_ist_attrs) (snd ref_ist_1)"

lemma ref_ist_reach: "iso_reach ref_lib ref_slist 0 ref_state (snd ref_ist_2)"
proof -
  have sw: "ctc_sai_oid_get_lchip (inited ref_state) 0 = (0, Some 0)"
      "ctc_sai_oid_get_lchip (inited (snd ref_ist_1)) 0 = (0, Some 0)"
    and f: "ctc_sai_find_attrib_in_list 2 (Some ref_ist_attrs) SAI_ISOLATION_GROUP_MEMBER_ATTR_ISOLATION_GROUP_ID =
        (0, Some (attr_value (ref_attr SAI_ISOLATION_GROUP_MEMBER_ATTR_ISOLATION_GROUP_ID ref_ist_grp), 0))"
      "oid_type (oiddata (attr_value (ref_attr SAI_ISOLATION_GROUP_MEMBER_ATTR_ISOLATION_GROUP_ID ref_ist_grp))) =
        SAI_OBJECT_TYPE_ISOLATION_GROUP"
    by code_simp+
  have "iso_reach ref_lib ref_slist 0 ref_state (snd ref_ist_1)"
    by (rule iso_reach.create_group [OF iso_reach.start sw(1), where r = "fst ref_ist_1" and null = False and cnt = 1
          and as = "Some [ref_attr SAI_ISOLATION_GROUP_ATTR_TYPE 0]"])
       (simp only: ref_ist_1_def [symmetric] prod.collapse)
  from iso_reach.create_member [OF this sw(2), where r = "fst ref_ist_2" and cnt = 2 and as = "Some ref_ist_attrs" and null = False]
  show ?thesis using f by (simp only: ref_ist_2_def [symmetric] prod.collapse) simp
qed

lemma ref_ist_linked: "linked 0 (obj_map ref_lib 0 ref_state)"
  using ref_laws.fresh_db_lookup
  by (auto simp: linked_def obj_map_def ctc_sai_db_get_object_property_def ref_state_def split: if_splits option.splits)

lemma ref_ist_look:
  "obj_map ref_lib 0 (snd ref_ist_2) ref_ist_grp = Some (IstGrpData \<lparr>ist_grp_id = 1, ist_type = 0, port_list = [ref_ist_mem]\<rparr>)"
  "oid_type ref_ist_grp = SAI_OBJECT_TYPE_ISOLATION_GROUP" "ucast (o_lchip (oid_unpack ref_ist_grp)) = (0 :: u8)"
  "ctc_sai_oid_get_lchip (inited (snd ref_ist_2)) ref_ist_grp = (0, Some 0)" "fst (mem_malloc ref_lib (snd ref_ist_2))"
proof -
  have "let s = snd ref_ist_2 in
    obj_map ref_lib 0 s ref_ist_grp = Some (IstGrpData \<lparr>ist_grp_id = 1, ist_type = 0, port_list = [ref_ist_mem]\<rparr>) \<and>
    ctc_sai_oid_get_lchip (inited s) ref_ist_grp = (0, Some 0) \<and> fst (mem_malloc ref_lib s)"
    by code_simp
  then show "obj_map ref_lib 0 (snd ref_ist_2) ref_ist_grp = Some (IstGrpData \<lparr>ist_grp_id = 1, ist_type = 0, port_list = [ref_ist_mem]\<rparr>)"
      "ctc_sai_oid_get_lchip (inited (snd ref_ist_2)) ref_ist_grp = (0, Some 0)" "fst (mem_malloc ref_lib (snd ref_ist_2))"
    by (simp_all only: Let_def)
  show "oid_type ref_ist_grp = SAI_OBJECT_TYPE_ISOLATION_GROUP" "ucast (o_lchip (oid_unpack ref_ist_grp)) = (0 :: u8)" by code_simp+
qed

lemma ref_ist_ok: "sound ref_lib 0 (snd ref_ist_2)" "linked 0 (obj_map ref_lib 0 (snd ref_ist_2))"
  using ref_iso.reach_kept [OF ref_ist_reach ref_state_sound ref_ist_linked] by (simp_all add: iso_kept_def)

theorem isolation_reach_linked_witness:
  "sound ref_lib 0 (snd ref_ist_2) \<and> linked 0 (obj_map ref_lib 0 (snd ref_ist_2)) \<and>
   iso_members (obj_map ref_lib 0 (snd ref_ist_2)) ref_ist_grp = {ref_ist_mem}"
proof -
  note r = isolation_reach_linked [OF ref_iso.iso_lib_axioms ref_state_sound ref_ist_linked ref_ist_reach]
  then have "linked 0 (obj_map ref_lib 0 (snd ref_ist_2))" by simp
  from linked_group [OF this ref_ist_look(1)] show ?thesis using r by simp
qed

theorem isolation_member_list_exact_witness:
  "\<exists>a s'. ctc_sai_isolation_group_get_group_property ref_lib ref_ist_grp
      \<lparr>attr_id = 1, attr_value = \<lparr>raw = 1, objs = [0]\<rparr>\<rparr> 0 (snd ref_ist_2) = ((SAI_STATUS_SUCCESS, a), s') \<and>
    set (objs (attr_value a)) = {ref_ist_mem}"
proof -
  let ?a = "\<lparr>attr_id = 1, attr_value = \<lparr>raw = 1, objs = [0]\<rparr>\<rparr> :: sai_attribute"
  obtain st a' s' where r: "ctc_sai_isolation_group_get_group_property ref_lib ref_ist_grp ?a 0 (snd ref_ist_2) = ((st, a'), s')"
    by (metis prod.exhaust)
  have a: "attr_id ?a = SAI_ISOLATION_GROUP_ATTR_ISOLATION_MEMBER_LIST"
      "unat (list_count (attr_value ?a)) = length (objs (attr_value ?a))"
      "length (port_list \<lparr>ist_grp_id = 1, ist_type = 0, port_list = [ref_ist_mem]\<rparr>) < 2 ^ 32"
    by (simp_all add: list_count_def)
  have m: "iso_members (obj_map ref_lib 0 (snd ref_ist_2)) ref_ist_grp = {ref_ist_mem}"
    using linked_group [OF ref_ist_ok(2) ref_ist_look(1)] by simp
  note e = isolation_member_list_exact [OF ref_iso.iso_lib_axioms ref_ist_ok ref_ist_look(4,1) a(1) ref_ist_look(5) a(2,3) r]
  then have tk: "take (Suc 0) (objs (attr_value a')) = objs (attr_value a')" by simp
  have c: "card {ref_ist_mem} = Suc 0" by simp
  have "st = SAI_STATUS_SUCCESS \<and> set (objs (attr_value a')) = {ref_ist_mem}"
    using e unfolding m Let_def c tk by simp
  then show ?thesis using r by blast
qed

theorem isolation_remove_frees_members_witness:
  "\<exists>s'. ctc_sai_isolation_group_remove_group ref_lib ref_ist_grp (snd ref_ist_2) = (SAI_STATUS_SUCCESS, s') \<and>
     obj_map ref_lib 0 s' ref_ist_mem = Some FreedData \<and>
     fault (snd (ctc_sai_isolation_group_remove_member ref_lib ref_slist ref_ist_mem s'))"
proof -
  obtain st s' where r: "ctc_sai_isolation_group_remove_group ref_lib ref_ist_grp (snd ref_ist_2) = (st, s')" by (rule prod.exhaust)
  have m: "ref_ist_mem \<in> iso_members (obj_map ref_lib 0 (snd ref_ist_2)) ref_ist_grp"
    using linked_group [OF ref_ist_ok(2) ref_ist_look(1)] by auto
  show ?thesis
    using isolation_remove_frees_members [OF ref_iso.iso_lib_axioms ref_ist_ok ref_ist_look(2,3,1) r] m r by blast
qed

end
