(* ===== verification/SAI_Wred.thy ===== *)
theory SAI_Wred
  imports SAI_Store
begin

text \<open>
  WRED profiles (\<^verbatim>\<open>centec/src/ctc_sai_wred.c\<close>) and what the queue module (\<^verbatim>\<open>centec/src/ctc_sai_queue.c\<close>)
  does with them: the records of the queues, the traversal that passes a changed profile on to the
  queues that use it, and the binding of a profile to a queue. A profile counts its users in 16 bits
  and is removed only when the count is zero.
\<close>

section \<open>Constants\<close>

abbreviation (input) SAI_WRED_ATTR_GREEN_ENABLE :: u32 where "SAI_WRED_ATTR_GREEN_ENABLE \<equiv> 0"
abbreviation (input) SAI_WRED_ATTR_GREEN_MIN_THRESHOLD :: u32 where "SAI_WRED_ATTR_GREEN_MIN_THRESHOLD \<equiv> 1"
abbreviation (input) SAI_WRED_ATTR_GREEN_MAX_THRESHOLD :: u32 where "SAI_WRED_ATTR_GREEN_MAX_THRESHOLD \<equiv> 2"
abbreviation (input) SAI_WRED_ATTR_GREEN_DROP_PROBABILITY :: u32 where "SAI_WRED_ATTR_GREEN_DROP_PROBABILITY \<equiv> 3"
abbreviation (input) SAI_WRED_ATTR_YELLOW_ENABLE :: u32 where "SAI_WRED_ATTR_YELLOW_ENABLE \<equiv> 4"
abbreviation (input) SAI_WRED_ATTR_YELLOW_MIN_THRESHOLD :: u32 where "SAI_WRED_ATTR_YELLOW_MIN_THRESHOLD \<equiv> 5"
abbreviation (input) SAI_WRED_ATTR_YELLOW_MAX_THRESHOLD :: u32 where "SAI_WRED_ATTR_YELLOW_MAX_THRESHOLD \<equiv> 6"
abbreviation (input) SAI_WRED_ATTR_YELLOW_DROP_PROBABILITY :: u32 where "SAI_WRED_ATTR_YELLOW_DROP_PROBABILITY \<equiv> 7"
abbreviation (input) SAI_WRED_ATTR_RED_ENABLE :: u32 where "SAI_WRED_ATTR_RED_ENABLE \<equiv> 8"
abbreviation (input) SAI_WRED_ATTR_RED_MIN_THRESHOLD :: u32 where "SAI_WRED_ATTR_RED_MIN_THRESHOLD \<equiv> 9"
abbreviation (input) SAI_WRED_ATTR_RED_MAX_THRESHOLD :: u32 where "SAI_WRED_ATTR_RED_MAX_THRESHOLD \<equiv> 10"
abbreviation (input) SAI_WRED_ATTR_RED_DROP_PROBABILITY :: u32 where "SAI_WRED_ATTR_RED_DROP_PROBABILITY \<equiv> 11"
abbreviation (input) SAI_WRED_ATTR_WEIGHT :: u32 where "SAI_WRED_ATTR_WEIGHT \<equiv> 12"
abbreviation (input) SAI_WRED_ATTR_ECN_MARK_MODE :: u32 where "SAI_WRED_ATTR_ECN_MARK_MODE \<equiv> 13"
abbreviation (input) SAI_PACKET_COLOR_GREEN :: nat where "SAI_PACKET_COLOR_GREEN \<equiv> 0"
abbreviation (input) SAI_PACKET_COLOR_YELLOW :: nat where "SAI_PACKET_COLOR_YELLOW \<equiv> 1"
abbreviation (input) SAI_PACKET_COLOR_RED :: nat where "SAI_PACKET_COLOR_RED \<equiv> 2"
abbreviation (input) SAI_QUEUE_TYPE_MULTICAST :: nat where "SAI_QUEUE_TYPE_MULTICAST \<equiv> 2"
abbreviation (input) CTC_QOS_BASIC_Q_NUM :: u32 where "CTC_QOS_BASIC_Q_NUM \<equiv> 8"
abbreviation (input) CTC_SAI_Q_SET_TYPE_WRED :: nat where "CTC_SAI_Q_SET_TYPE_WRED \<equiv> 0"
abbreviation (input) CTC_SAI_Q_SET_TYPE_BUFFER :: nat where "CTC_SAI_Q_SET_TYPE_BUFFER \<equiv> 1"

section \<open>From attributes to the record and to the device\<close>

definition put_en :: "nat \<Rightarrow> sai_attribute_value \<Rightarrow> ctc_sai_wred_db \<Rightarrow> ctc_sai_wred_db" where
  "put_en c v w = w\<lparr>color_en := (color_en w)[c := if booldata v then 1 else 0]\<rparr>"

definition put_min :: "nat \<Rightarrow> sai_attribute_value \<Rightarrow> ctc_sai_wred_db \<Rightarrow> ctc_sai_wred_db" where
  "put_min c v w = w\<lparr>min_th := (min_th w)[c := ucast (u32data v)]\<rparr>"

definition put_max :: "nat \<Rightarrow> sai_attribute_value \<Rightarrow> ctc_sai_wred_db \<Rightarrow> ctc_sai_wred_db" where
  "put_max c v w = w\<lparr>max_th := (max_th w)[c := ucast (u32data v)]\<rparr>"

definition put_prob :: "nat \<Rightarrow> sai_attribute_value \<Rightarrow> ctc_sai_wred_db \<Rightarrow> ctc_sai_wred_db" where
  "put_prob c v w = w\<lparr>drop_prob := (drop_prob w)[c := ucast (u32data v)]\<rparr>"

definition put_found ::
    "u32 \<Rightarrow> sai_attribute list option \<Rightarrow> u32 \<Rightarrow> (sai_attribute_value \<Rightarrow> ctc_sai_wred_db \<Rightarrow> ctc_sai_wred_db) \<Rightarrow>
     ctc_sai_wred_db \<Rightarrow> ctc_sai_wred_db" where
  "put_found attr_count as aid put w =
     (case ctc_sai_find_attrib_in_list attr_count as aid of (st, Some (v, i)) \<Rightarrow> put v w | (st, None) \<Rightarrow> w)"

definition wred_map_attr_to_db ::
    "sai_attribute list option \<Rightarrow> u32 \<Rightarrow> ctc_sai_wred_db \<Rightarrow> ctc_sai_wred_db" where
  "wred_map_attr_to_db as attr_count w =
     (let w = put_found attr_count as SAI_WRED_ATTR_GREEN_ENABLE (put_en SAI_PACKET_COLOR_GREEN) w;
          w = put_found attr_count as SAI_WRED_ATTR_GREEN_MIN_THRESHOLD (put_min SAI_PACKET_COLOR_GREEN) w;
          w = put_found attr_count as SAI_WRED_ATTR_GREEN_MAX_THRESHOLD (put_max SAI_PACKET_COLOR_GREEN) w;
          w = put_found attr_count as SAI_WRED_ATTR_GREEN_DROP_PROBABILITY (put_prob SAI_PACKET_COLOR_GREEN) w;
          w = put_found attr_count as SAI_WRED_ATTR_YELLOW_ENABLE (put_en SAI_PACKET_COLOR_YELLOW) w;
          w = put_found attr_count as SAI_WRED_ATTR_YELLOW_MIN_THRESHOLD (put_min SAI_PACKET_COLOR_YELLOW) w;
          w = put_found attr_count as SAI_WRED_ATTR_YELLOW_MAX_THRESHOLD (put_max SAI_PACKET_COLOR_YELLOW) w;
          w = put_found attr_count as SAI_WRED_ATTR_YELLOW_DROP_PROBABILITY (put_prob SAI_PACKET_COLOR_YELLOW) w;
          w = put_found attr_count as SAI_WRED_ATTR_RED_ENABLE (put_en SAI_PACKET_COLOR_RED) w;
          w = put_found attr_count as SAI_WRED_ATTR_RED_MIN_THRESHOLD (put_min SAI_PACKET_COLOR_RED) w;
          w = put_found attr_count as SAI_WRED_ATTR_RED_MAX_THRESHOLD (put_max SAI_PACKET_COLOR_RED) w
      in put_found attr_count as SAI_WRED_ATTR_RED_DROP_PROBABILITY (put_prob SAI_PACKET_COLOR_RED) w)"

text \<open>One turn of the loop over the colors; the device numbers them the other way round.\<close>

definition drop_color :: "ctc_sai_wred_db \<Rightarrow> nat \<Rightarrow> ctc_qos_drop \<Rightarrow> ctc_qos_drop" where
  "drop_color w idx d =
     (let ctc_idx = (if idx = SAI_PACKET_COLOR_GREEN then 2 else if idx = SAI_PACKET_COLOR_YELLOW then 1 else 0);
          d = d\<lparr>dr_drop_prob := (dr_drop_prob d)[ctc_idx := ucast (drop_prob w ! idx) * 31 div 100]\<rparr> in
      if color_en w ! idx = 0 then d
      else d\<lparr>dr_min_th := (dr_min_th d)[ctc_idx := ucast (min_th w ! idx)],
             dr_max_th := (dr_max_th d)[ctc_idx := ucast (max_th w ! idx)]\<rparr>)"

definition wred_map_db_to_ctc_drop :: "ctc_sai_wred_db \<Rightarrow> ctc_qos_drop \<Rightarrow> ctc_qos_drop" where
  "wred_map_db_to_ctc_drop w d = fold (drop_color w) [SAI_PACKET_COLOR_GREEN ..< Suc SAI_PACKET_COLOR_RED] d"

section \<open>Queues\<close>

record ctc_sai_queue_traverse_param =
  qp_lchip :: u8
  qp_set_type :: nat
  qp_cmp_value :: "u32 option"
  qp_value :: "ctc_qos_drop option"

definition drop_queue_id :: "ctc_object_id \<Rightarrow> ctc_sai_switch_master \<Rightarrow> u32" where
  "drop_queue_id c sw =
     (if unat (o_sub_type c) = SAI_QUEUE_TYPE_MULTICAST \<and> port_queues sw = 16
      then ucast (o_value2 c) + CTC_QOS_BASIC_Q_NUM else ucast (o_value2 c))"

definition queue_traverse_set_cb ::
    "('o, 'e, 'v) ctc_lib \<Rightarrow> ctc_sai_queue_traverse_param \<Rightarrow> sai_object_id \<times> obj_data option \<Rightarrow>
     ('o, 'e, 'v) sai_state \<times> unit \<Rightarrow> int \<times> ('o, 'e, 'v) sai_state \<times> unit" where
  "queue_traverse_set_cb L p bucket x =
     (let s = fst x in
      if qp_set_type p = CTC_SAI_Q_SET_TYPE_WRED \<or> qp_set_type p = CTC_SAI_Q_SET_TYPE_BUFFER then
        (case (snd bucket, qp_cmp_value p, qp_value p) of
           (Some (QueueData q), Some cmp, Some d) \<Rightarrow>
             if qp_set_type p = CTC_SAI_Q_SET_TYPE_WRED \<and> cmp \<noteq> q_wred_id q then (SAI_STATUS_SUCCESS, s, ())
             else if qp_set_type p = CTC_SAI_Q_SET_TYPE_BUFFER \<and> cmp \<noteq> q_buf_id q then (SAI_STATUS_SUCCESS, s, ())
             else
               (let l = qp_lchip p; c = oid_unpack (fst bucket) in
                if l \<noteq> ucast (o_lchip c) then (SAI_STATUS_SUCCESS, s, ())
                else
                  (case ctc_sai_get_switch_property L l s of
                     (None, s) \<Rightarrow> (SAI_STATUS_FAILURE, s, ())
                   | (Some (SwitchData sw), s) \<Rightarrow>
                       (let (e, s) = ext_call L (QosSetDropScheme l
                              (d\<lparr>dr_gport := o_value c, dr_queue_id := drop_queue_id c sw\<rparr>)) s;
                            st = ctc_sai_mapping_error_ctc L (rc e) in
                        (if status_leaves st then st else SAI_STATUS_SUCCESS, s, ()))
                   | (Some _, s) \<Rightarrow> (SAI_STATUS_SUCCESS, s\<lparr>fault := True\<rparr>, ())))
         | _ \<Rightarrow> (SAI_STATUS_SUCCESS, s\<lparr>fault := True\<rparr>, ()))
      else (SAI_STATUS_NOT_IMPLEMENTED, s, ()))"

text \<open>The status of the traversal is dropped.\<close>

definition ctc_sai_queue_traverse_set ::
    "('o, 'e, 'v) ctc_lib \<Rightarrow> ctc_sai_queue_traverse_param option \<Rightarrow> ('o, 'e, 'v) sai_state \<Rightarrow>
     sai_status \<times> ('o, 'e, 'v) sai_state" where
  "ctc_sai_queue_traverse_set L p s =
     (case p of
        None \<Rightarrow> (SAI_STATUS_INVALID_PARAMETER, s)
      | Some p \<Rightarrow>
          if qp_cmp_value p = None \<or> qp_value p = None then (SAI_STATUS_INVALID_PARAMETER, s)
          else
            let (st, s, u) = ctc_sai_db_traverse_object_property L (qp_lchip p) SAI_OBJECT_TYPE_QUEUE
                               (queue_traverse_set_cb L p) (s, ()) in
            (SAI_STATUS_SUCCESS, s))"

definition queue_get_queue_db ::
    "('o, 'e, 'v) ctc_lib \<Rightarrow> sai_object_id \<Rightarrow> ('o, 'e, 'v) sai_state \<Rightarrow>
     (sai_status \<times> obj_data option) \<times> ('o, 'e, 'v) sai_state" where
  "queue_get_queue_db L queue_id s =
     (let c = snd (ctc_sai_get_ctc_object_id SAI_OBJECT_TYPE_QUEUE queue_id); l = ucast (o_lchip c) in
      if unat (o_type c) \<noteq> SAI_OBJECT_TYPE_QUEUE then ((SAI_STATUS_INVALID_OBJECT_TYPE, None), s)
      else case ctc_sai_db_get_object_property L l queue_id s of
        Some d \<Rightarrow> ((SAI_STATUS_SUCCESS, Some d), s)
      | None \<Rightarrow>
          (let (ok, s) = mem_malloc L s in
           if \<not> ok then ((SAI_STATUS_NO_MEMORY, None), s)
           else
             let d = QueueData \<lparr>sch_grp = 0, q_wred_id = 0, q_buf_id = 0, q_sch_id = 0\<rparr>;
                 (st, s) = ctc_sai_db_add_object_property L l queue_id (Some d) s in
             if status_leaves st then ((st, None), s) else ((SAI_STATUS_SUCCESS, Some d), s)))"

section \<open>Profile attributes\<close>

definition wred_read :: "u32 \<Rightarrow> ctc_sai_wred_db \<Rightarrow> sai_attribute \<Rightarrow> sai_attribute option" where
  "wred_read aid w a =
     (if aid = SAI_WRED_ATTR_GREEN_ENABLE then Some (set_bool (color_en w ! SAI_PACKET_COLOR_GREEN \<noteq> 0) a)
      else if aid = SAI_WRED_ATTR_GREEN_MIN_THRESHOLD then Some (set_u32 (ucast (min_th w ! SAI_PACKET_COLOR_GREEN)) a)
      else if aid = SAI_WRED_ATTR_GREEN_MAX_THRESHOLD then Some (set_u32 (ucast (max_th w ! SAI_PACKET_COLOR_GREEN)) a)
      else if aid = SAI_WRED_ATTR_GREEN_DROP_PROBABILITY then Some (set_u32 (ucast (drop_prob w ! SAI_PACKET_COLOR_GREEN)) a)
      else if aid = SAI_WRED_ATTR_YELLOW_ENABLE then Some (set_bool (color_en w ! SAI_PACKET_COLOR_YELLOW \<noteq> 0) a)
      else if aid = SAI_WRED_ATTR_YELLOW_MIN_THRESHOLD then Some (set_u32 (ucast (min_th w ! SAI_PACKET_COLOR_YELLOW)) a)
      else if aid = SAI_WRED_ATTR_YELLOW_MAX_THRESHOLD then Some (set_u32 (ucast (max_th w ! SAI_PACKET_COLOR_YELLOW)) a)
      else if aid = SAI_WRED_ATTR_YELLOW_DROP_PROBABILITY then Some (set_u32 (ucast (drop_prob w ! SAI_PACKET_COLOR_YELLOW)) a)
      else if aid = SAI_WRED_ATTR_RED_ENABLE then Some (set_bool (color_en w ! SAI_PACKET_COLOR_RED \<noteq> 0) a)
      else if aid = SAI_WRED_ATTR_RED_MIN_THRESHOLD then Some (set_u32 (ucast (min_th w ! SAI_PACKET_COLOR_RED)) a)
      else if aid = SAI_WRED_ATTR_RED_MAX_THRESHOLD then Some (set_u32 (ucast (max_th w ! SAI_PACKET_COLOR_RED)) a)
      else if aid = SAI_WRED_ATTR_RED_DROP_PROBABILITY then Some (set_u32 (ucast (drop_prob w ! SAI_PACKET_COLOR_RED)) a)
      else None)"

definition wred_get_attr ::
    "('o, 'e, 'v) ctc_lib \<Rightarrow> sai_object_id \<Rightarrow> sai_attribute \<Rightarrow> u32 \<Rightarrow> ('o, 'e, 'v) sai_state \<Rightarrow>
     (sai_status \<times> sai_attribute) \<times> ('o, 'e, 'v) sai_state" where
  "wred_get_attr L oid a attr_idx s =
     (case ctc_sai_oid_get_lchip (inited s) oid of
        (st, None) \<Rightarrow> ((st, a), s)
      | (st, Some l) \<Rightarrow>
          (case ctc_sai_db_get_object_property L l oid s of
             None \<Rightarrow> ((SAI_STATUS_ITEM_NOT_FOUND, a), s)
           | Some (WredData w) \<Rightarrow>
               (case wred_read (attr_id a) w a of
                  Some a \<Rightarrow> ((SAI_STATUS_SUCCESS, a), s)
                | None \<Rightarrow> ((SAI_STATUS_NOT_IMPLEMENTED, a), s))
           | Some _ \<Rightarrow> ((SAI_STATUS_SUCCESS, a), s\<lparr>fault := True\<rparr>)))"

definition zero_drop :: "drop_mode \<Rightarrow> ctc_qos_drop" where
  "zero_drop m = \<lparr>dr_gport = 0, dr_queue_id = 0, dr_mode = m, dr_min_th = [0, 0, 0], dr_max_th = [0, 0, 0],
     dr_drop_prob = [0, 0, 0]\<rparr>"

definition wred_set_attr ::
    "('o, 'e, 'v) ctc_lib \<Rightarrow> sai_object_id \<Rightarrow> sai_attribute \<Rightarrow> ('o, 'e, 'v) sai_state \<Rightarrow>
     sai_status \<times> ('o, 'e, 'v) sai_state" where
  "wred_set_attr L oid a s =
     (let c = snd (ctc_sai_get_ctc_object_id SAI_OBJECT_TYPE_WRED oid); l = ucast (o_lchip c) in
      case ctc_sai_db_get_object_property L l oid s of
        None \<Rightarrow> (SAI_STATUS_ITEM_NOT_FOUND, s)
      | Some (WredData w) \<Rightarrow>
          (let w' = wred_map_attr_to_db (Some [a]) 1 w;
               (st, s) =
                 (if used_cnt w \<noteq> 0 then
                    ctc_sai_queue_traverse_set L
                      (Some \<lparr>qp_lchip = l, qp_set_type = CTC_SAI_Q_SET_TYPE_WRED, qp_cmp_value = Some (o_value c),
                             qp_value = Some (wred_map_db_to_ctc_drop w' (zero_drop CTC_QUEUE_DROP_WRED))\<rparr>) s
                  else (SAI_STATUS_SUCCESS, s)) in
           if status_leaves st then (st, s)
           else (SAI_STATUS_SUCCESS, object_store L l oid (WredData w') s))
      | Some _ \<Rightarrow> (SAI_STATUS_SUCCESS, s\<lparr>fault := True\<rparr>))"

definition wred_attr_fn_entries ::
    "('o, 'e, 'v) ctc_lib \<Rightarrow> (sai_object_id, ('o, 'e, 'v) sai_state) attr_fn list" where
  "wred_attr_fn_entries L =
     map (\<lambda>aid. \<lparr>fn_id = aid, fn_get = Some (wred_get_attr L), fn_set = Some (wred_set_attr L)\<rparr>)
       [SAI_WRED_ATTR_GREEN_ENABLE, SAI_WRED_ATTR_GREEN_MIN_THRESHOLD, SAI_WRED_ATTR_GREEN_MAX_THRESHOLD,
        SAI_WRED_ATTR_GREEN_DROP_PROBABILITY, SAI_WRED_ATTR_YELLOW_ENABLE, SAI_WRED_ATTR_YELLOW_MIN_THRESHOLD,
        SAI_WRED_ATTR_YELLOW_MAX_THRESHOLD, SAI_WRED_ATTR_YELLOW_DROP_PROBABILITY, SAI_WRED_ATTR_RED_ENABLE,
        SAI_WRED_ATTR_RED_MIN_THRESHOLD, SAI_WRED_ATTR_RED_MAX_THRESHOLD, SAI_WRED_ATTR_RED_DROP_PROBABILITY] @
     [\<lparr>fn_id = SAI_WRED_ATTR_WEIGHT, fn_get = None, fn_set = None\<rparr>,
      \<lparr>fn_id = SAI_WRED_ATTR_ECN_MARK_MODE, fn_get = None, fn_set = None\<rparr>]"

section \<open>Binding a profile to a queue\<close>

text \<open>
  The device fills in the thresholds and probabilities that are set for the queue, in the order of
  its answer. The count of the new profile goes up before the old one is looked for.
\<close>

definition drop_scheme :: "ext_ret \<Rightarrow> ctc_qos_drop \<Rightarrow> ctc_qos_drop" where
  "drop_scheme e d = d\<lparr>dr_min_th := map (\<lambda>i. ucast (out_val i e)) [0, 1, 2],
     dr_max_th := map (\<lambda>i. ucast (out_val i e)) [3, 4, 5], dr_drop_prob := map (\<lambda>i. ucast (out_val i e)) [6, 7, 8]\<rparr>"

definition wred_oid :: "u8 \<Rightarrow> u32 \<Rightarrow> sai_object_id" where
  "wred_oid l i = ctc_sai_create_object_id SAI_OBJECT_TYPE_WRED l 0 0 i"

definition wred_unuse :: "('o, 'e, 'v) ctc_lib \<Rightarrow> u8 \<Rightarrow> u32 \<Rightarrow> ('o, 'e, 'v) sai_state \<Rightarrow> sai_status \<times> ('o, 'e, 'v) sai_state" where
  "wred_unuse L l i s =
     (case ctc_sai_db_get_object_property L l (wred_oid l i) s of
        None \<Rightarrow> (SAI_STATUS_ITEM_NOT_FOUND, s)
      | Some (WredData w) \<Rightarrow>
          (SAI_STATUS_SUCCESS,
           if used_cnt w \<noteq> 0 then object_store L l (wred_oid l i) (WredData (w\<lparr>used_cnt := used_cnt w - 1\<rparr>)) s else s)
      | Some _ \<Rightarrow> (SAI_STATUS_SUCCESS, s\<lparr>fault := True\<rparr>))"

definition wred_enable ::
    "('o, 'e, 'v) ctc_lib \<Rightarrow> u8 \<Rightarrow> ctc_qos_drop \<Rightarrow> u32 \<Rightarrow> u32 \<Rightarrow> ctc_sai_wred_db \<Rightarrow> ('o, 'e, 'v) sai_state \<Rightarrow>
     sai_status \<times> ('o, 'e, 'v) sai_state" where
  "wred_enable L l d wred_id old_wred_id w s =
     (let d = d\<lparr>dr_mode := CTC_QUEUE_DROP_WRED\<rparr>;
          (e, s) = ext_call L (QosGetDropScheme l (dr_gport d) (dr_queue_id d) (dr_mode d)) s;
          st = ctc_sai_mapping_error_ctc L (rc e) in
      if status_leaves st then (st, s)
      else
        let d = wred_map_db_to_ctc_drop w (drop_scheme e d);
            (e, s) = ext_call L (QosSetDropScheme l d) s;
            st = ctc_sai_mapping_error_ctc L (rc e) in
        if status_leaves st then (st, s)
        else
          let s = object_store L l (wred_oid l wred_id) (WredData (w\<lparr>used_cnt := used_cnt w + 1\<rparr>)) s in
          if old_wred_id \<noteq> 0 then wred_unuse L l old_wred_id s else (SAI_STATUS_SUCCESS, s))"

definition ctc_sai_wred_queue_set_wred ::
    "('o, 'e, 'v) ctc_lib \<Rightarrow> sai_object_id \<Rightarrow> u32 \<Rightarrow> u32 \<Rightarrow> bool \<Rightarrow> ('o, 'e, 'v) sai_state \<Rightarrow>
     sai_status \<times> ('o, 'e, 'v) sai_state" where
  "ctc_sai_wred_queue_set_wred L queue_id wred_id old_wred_id enable s =
     (let c = snd (ctc_sai_get_ctc_object_id SAI_OBJECT_TYPE_QUEUE queue_id); l = ucast (o_lchip c) in
      case ctc_sai_db_get_object_property L l (wred_oid l wred_id) s of
        None \<Rightarrow> (SAI_STATUS_ITEM_NOT_FOUND, s)
      | Some (WredData w) \<Rightarrow>
          (case ctc_sai_get_switch_property L l s of
             (None, s) \<Rightarrow> (SAI_STATUS_FAILURE, s)
           | (Some (SwitchData sw), s) \<Rightarrow>
               (let d = (zero_drop CTC_QUEUE_DROP_WTD)\<lparr>dr_gport := o_value c, dr_queue_id := drop_queue_id c sw\<rparr> in
                if enable then wred_enable L l d wred_id old_wred_id w s
                else
                  let (e, s) = ext_call L (QosSetDropScheme l
                        (d\<lparr>dr_max_th := map ucast [default_wtd_thrd sw ! SAI_PACKET_COLOR_RED,
                            default_wtd_thrd sw ! SAI_PACKET_COLOR_YELLOW, default_wtd_thrd sw ! SAI_PACKET_COLOR_GREEN]\<rparr>)) s;
                      st = ctc_sai_mapping_error_ctc L (rc e) in
                  if status_leaves st then (st, s) else wred_unuse L l wred_id s)
           | (Some _, s) \<Rightarrow> (SAI_STATUS_SUCCESS, s\<lparr>fault := True\<rparr>))
      | Some _ \<Rightarrow> (SAI_STATUS_SUCCESS, s\<lparr>fault := True\<rparr>))"

text \<open>
  The branch of the queue's attribute setter for the WRED profile. Without a profile the code
  compares an uninitialised number to find out whether the profile changes, but does not use the
  answer, which is therefore left out here.
\<close>

definition queue_set_attr_wred ::
    "('o, 'e, 'v) ctc_lib \<Rightarrow> sai_object_id \<Rightarrow> sai_attribute \<Rightarrow> ('o, 'e, 'v) sai_state \<Rightarrow>
     sai_status \<times> ('o, 'e, 'v) sai_state" where
  "queue_set_attr_wred L queue_id a s =
     (case ctc_sai_oid_get_lchip (inited s) queue_id of
        (st, None) \<Rightarrow> (st, s)
      | (st, Some l) \<Rightarrow>
          (case queue_get_queue_db L queue_id s of
             ((st, None), s) \<Rightarrow> (st, s)
           | ((st, Some (QueueData q)), s) \<Rightarrow>
               (let enable = (oiddata (attr_value a) \<noteq> SAI_NULL_OBJECT_ID);
                    c = snd (ctc_sai_get_ctc_object_id SAI_OBJECT_TYPE_WRED (oiddata (attr_value a))) in
                if enable \<and> l \<noteq> ucast (o_lchip c) then (SAI_STATUS_INVALID_PARAMETER, s)
                else
                  let is_update = (enable \<and> q_wred_id q \<noteq> 0 \<and> o_value c \<noteq> q_wred_id q);
                      (st, s) = ctc_sai_wred_queue_set_wred L queue_id (if enable then o_value c else q_wred_id q)
                                  (if is_update then q_wred_id q else 0) enable s in
                  if status_leaves st then (st, s)
                  else (SAI_STATUS_SUCCESS,
                        object_store L l queue_id (QueueData (q\<lparr>q_wred_id := if enable then o_value c else 0\<rparr>)) s))
           | ((st, Some _), s) \<Rightarrow> (SAI_STATUS_SUCCESS, s\<lparr>fault := True\<rparr>)))"

section \<open>The SAI entry points\<close>

definition create_wred_locked ::
    "('o, 'e, 'v) ctc_lib \<Rightarrow> u8 \<Rightarrow> u32 \<Rightarrow> sai_attribute list option \<Rightarrow> ('o, 'e, 'v) sai_state \<Rightarrow>
     (sai_status \<times> sai_object_id) \<times> ('o, 'e, 'v) sai_state" where
  "create_wred_locked L l attr_count as s =
     (let (ok, s) = mem_malloc L s in
      if \<not> ok then ((SAI_STATUS_NO_MEMORY, 0), s)
      else
        let w = wred_map_attr_to_db as attr_count \<lparr>color_en = [0, 0, 0], min_th = [0, 0, 0], max_th = [0, 0, 0],
                  drop_prob = [100, 100, 100], used_cnt = 0\<rparr>;
            ((st, v), s) = ctc_sai_db_alloc_id L l CTC_SAI_DB_ID_TYPE_COMMON s;
            i = out_or 0 v in
        if CTC_SAI_ERROR st then ((st, 0), s)
        else
          let (st, s) = ctc_sai_db_add_object_property L l (wred_oid l i) (Some (WredData w)) s in
          if status_leaves st then ((st, 0), snd (ctc_sai_db_free_id L l CTC_SAI_DB_ID_TYPE_COMMON i s))
          else ((SAI_STATUS_SUCCESS, wred_oid l i), s))"

definition ctc_sai_wred_create_wred_id ::
    "('o, 'e, 'v) ctc_lib \<Rightarrow> bool \<Rightarrow> sai_object_id \<Rightarrow> u32 \<Rightarrow> sai_attribute list option \<Rightarrow>
     ('o, 'e, 'v) sai_state \<Rightarrow> (sai_status \<times> sai_object_id option) \<times> ('o, 'e, 'v) sai_state" where
  "ctc_sai_wred_create_wred_id L null_out switch_id attr_count as s =
     (if null_out then ((SAI_STATUS_INVALID_PARAMETER, None), s)
      else case ctc_sai_oid_get_lchip (inited s) switch_id of
        (st, None) \<Rightarrow> ((st, Some 0), s)
      | (st, Some l) \<Rightarrow>
          (let ((st, oid), s) = create_wred_locked L l attr_count as (snd (ctc_sai_db_lock L l s)) in
           ((st, Some oid), snd (ctc_sai_db_unlock L l s))))"

definition ctc_sai_wred_remove_wred_id ::
    "('o, 'e, 'v) ctc_lib \<Rightarrow> sai_object_id \<Rightarrow> ('o, 'e, 'v) sai_state \<Rightarrow> sai_status \<times> ('o, 'e, 'v) sai_state" where
  "ctc_sai_wred_remove_wred_id L oid s =
     (let c = snd (ctc_sai_get_ctc_object_id SAI_OBJECT_TYPE_NULL oid); l = ucast (o_lchip c) in
      if unat (o_type c) \<noteq> SAI_OBJECT_TYPE_WRED then (SAI_STATUS_INVALID_OBJECT_ID, s)
      else
        let s = snd (ctc_sai_db_lock L l s);
            (st, s) =
              (case ctc_sai_db_get_object_property L l oid s of
                 None \<Rightarrow> (SAI_STATUS_ITEM_NOT_FOUND, s)
               | Some (WredData w) \<Rightarrow>
                   if used_cnt w \<noteq> 0 then (SAI_STATUS_OBJECT_IN_USE, s)
                   else (SAI_STATUS_SUCCESS, snd (ctc_sai_db_free_id L l CTC_SAI_DB_ID_TYPE_COMMON (o_value c)
                           (snd (ctc_sai_db_remove_object_property L l oid s))))
               | Some _ \<Rightarrow> (SAI_STATUS_SUCCESS, s\<lparr>fault := True\<rparr>)) in
        (st, snd (ctc_sai_db_unlock L l s)))"

definition ctc_sai_wred_set_attribute ::
    "('o, 'e, 'v) ctc_lib \<Rightarrow> sai_object_id \<Rightarrow> sai_attribute option \<Rightarrow> ('o, 'e, 'v) sai_state \<Rightarrow>
     sai_status \<times> ('o, 'e, 'v) sai_state" where
  "ctc_sai_wred_set_attribute L oid a s =
     (if a = None then (SAI_STATUS_INVALID_PARAMETER, s)
      else
        let c = snd (ctc_sai_get_ctc_object_id SAI_OBJECT_TYPE_WRED oid); l = ucast (o_lchip c) in
        if unat (o_type c) \<noteq> SAI_OBJECT_TYPE_WRED then (SAI_STATUS_INVALID_OBJECT_ID, s)
        else
          let (st, s) = ctc_sai_set_attribute oid SAI_OBJECT_TYPE_WRED (Some (wred_attr_fn_entries L)) a
                          (snd (ctc_sai_db_lock L l s)) in
          (st, snd (ctc_sai_db_unlock L l s)))"

definition ctc_sai_wred_get_attribute ::
    "('o, 'e, 'v) ctc_lib \<Rightarrow> sai_object_id \<Rightarrow> u32 \<Rightarrow> sai_attribute list option \<Rightarrow> ('o, 'e, 'v) sai_state \<Rightarrow>
     ((sai_status \<times> sai_attribute list option) \<times> ('o, 'e, 'v) sai_state) option" where
  "ctc_sai_wred_get_attribute L oid attr_count as s =
     (case as of
        None \<Rightarrow> Some ((SAI_STATUS_INVALID_PARAMETER, None), s)
      | Some as \<Rightarrow>
          (let c = snd (ctc_sai_get_ctc_object_id SAI_OBJECT_TYPE_WRED oid); l = ucast (o_lchip c) in
           if unat (o_type c) \<noteq> SAI_OBJECT_TYPE_WRED then Some ((SAI_STATUS_INVALID_OBJECT_ID, Some as), s)
           else
             case attr_loop (get_attr_body oid SAI_OBJECT_TYPE_WRED (wred_attr_fn_entries L)) attr_count (0 :: u8)
                    (SAI_STATUS_SUCCESS, as, snd (ctc_sai_db_lock L l s)) of
               None \<Rightarrow> None
             | Some (st, as, s) \<Rightarrow> Some ((st, Some as), snd (ctc_sai_db_unlock L l s))))"

definition wred_wb_reload_cb ::
    "('o, 'e, 'v) ctc_lib \<Rightarrow> u8 \<Rightarrow> sai_object_id \<Rightarrow> ('o, 'e, 'v) sai_state \<Rightarrow> sai_status \<times> ('o, 'e, 'v) sai_state" where
  "wred_wb_reload_cb L l key s =
     (let (st, s) = ctc_sai_db_alloc_id_from_position L l CTC_SAI_DB_ID_TYPE_COMMON (o_value (oid_unpack key)) s in
      if status_leaves st then (st, s) else (SAI_STATUS_SUCCESS, s))"

section \<open>The attribute search as one pass\<close>

text \<open>
  A reference for the twelve searches: the attributes are gone through once, from the last to the
  first, and each one writes the field that its number selects; the color is the number divided by
  four.
\<close>

definition wred_write :: "sai_attribute \<Rightarrow> ctc_sai_wred_db \<Rightarrow> ctc_sai_wred_db" where
  "wred_write a w =
     (let k = unat (attr_id a); c = k div 4; v = attr_value a in
      if 12 \<le> k then w
      else if k mod 4 = 0 then put_en c v w else if k mod 4 = 1 then put_min c v w
      else if k mod 4 = 2 then put_max c v w else put_prob c v w)"

definition pick :: "sai_attribute list \<Rightarrow> u32 \<Rightarrow> (sai_attribute_value \<Rightarrow> 'a) \<Rightarrow> 'a \<Rightarrow> 'a" where
  "pick as aid f old = (case find (\<lambda>a. attr_id a = aid) as of Some a \<Rightarrow> f (attr_value a) | None \<Rightarrow> old)"

lemma pick_simps [simp]:
  "pick [] aid f old = old" "pick (a # as) aid f old = (if attr_id a = aid then f (attr_value a) else pick as aid f old)"
  by (simp_all add: pick_def)

lemma find_attrib_find: "map_option fst (find_attrib i aid as) = map_option attr_value (find (\<lambda>a. attr_id a = aid) as)"
  by (induction as arbitrary: i) auto

lemma put_found_find:
  "put_found n (Some as) aid f w =
     (case find (\<lambda>a. attr_id a = aid) (take (unat n) as) of Some a \<Rightarrow> f (attr_value a) w | None \<Rightarrow> w)"
  using find_attrib_find [of 0 aid "take (unat n) as"]
  by (auto simp: put_found_def ctc_sai_find_attrib_in_list_def split: option.splits)

lemma put_found_pick:
  "put_found n (Some as) aid (put_en c) w =
     w\<lparr>color_en := (color_en w)[c := pick (take (unat n) as) aid (\<lambda>v. if booldata v then 1 else 0) (color_en w ! c)]\<rparr>"
  "put_found n (Some as) aid (put_min c) w =
     w\<lparr>min_th := (min_th w)[c := pick (take (unat n) as) aid (\<lambda>v. ucast (u32data v)) (min_th w ! c)]\<rparr>"
  "put_found n (Some as) aid (put_max c) w =
     w\<lparr>max_th := (max_th w)[c := pick (take (unat n) as) aid (\<lambda>v. ucast (u32data v)) (max_th w ! c)]\<rparr>"
  "put_found n (Some as) aid (put_prob c) w =
     w\<lparr>drop_prob := (drop_prob w)[c := pick (take (unat n) as) aid (\<lambda>v. ucast (u32data v)) (drop_prob w ! c)]\<rparr>"
  by (auto simp: put_found_find pick_def put_en_def put_min_def put_max_def put_prob_def split: option.splits)

text \<open>The record after the searches, field by field.\<close>

definition upd3 :: "'a list \<Rightarrow> (nat \<Rightarrow> 'a \<Rightarrow> 'a) \<Rightarrow> 'a list" where
  "upd3 xs f = xs[0 := f 0 (xs ! 0), 1 := f 1 (xs ! 1), 2 := f 2 (xs ! 2)]"

lemma nth_upd3: "i < length xs \<Longrightarrow> upd3 xs f ! i = (if i < 3 then f i (xs ! i) else xs ! i)"
  by (auto simp: upd3_def nth_list_update less_Suc_eq numeral_3_eq_3 numeral_2_eq_2)

lemma length_upd3 [simp]: "length (upd3 xs f) = length xs" by (simp add: upd3_def)

lemma upd3_write:
  assumes "c < 3"
  shows "(upd3 xs f)[c := v] = upd3 xs (\<lambda>i old. if i = c then v else f i old)"
  by (rule nth_equalityI) (use assms in \<open>auto simp: nth_upd3 nth_list_update\<close>)

definition field :: "sai_attribute list \<Rightarrow> nat \<Rightarrow> (sai_attribute_value \<Rightarrow> 'a) \<Rightarrow> nat \<Rightarrow> 'a \<Rightarrow> 'a" where
  "field as k f c old = pick as (of_nat (4 * c + k)) f old"

definition fields :: "sai_attribute list \<Rightarrow> ctc_sai_wred_db \<Rightarrow> ctc_sai_wred_db" where
  "fields as w = w\<lparr>
     color_en := upd3 (color_en w) (field as 0 (\<lambda>v. if booldata v then 1 else 0)),
     min_th := upd3 (min_th w) (field as 1 (\<lambda>v. ucast (u32data v))),
     max_th := upd3 (max_th w) (field as 2 (\<lambda>v. ucast (u32data v))),
     drop_prob := upd3 (drop_prob w) (field as 3 (\<lambda>v. ucast (u32data v)))\<rparr>"

lemma map_attr_fields: "wred_map_attr_to_db (Some as) n w = fields (take (unat n) as) w"
  by (simp add: wred_map_attr_to_db_def put_found_pick upd3_def field_def fields_def)

lemma upd3_cong: "(\<And>c old. c < 3 \<Longrightarrow> f c old = g c old) \<Longrightarrow> upd3 xs f = upd3 xs g"
  by (simp add: upd3_def)

lemma fields_Nil: "fields [] w = w"
  by (simp add: fields_def field_def upd3_def)

lemma fields_Cons: "fields (a # as) w = wred_write a (fields as w)"
proof -
  define k where "k = unat (attr_id a)"
  have id: "attr_id a = of_nat (4 * c + m) \<longleftrightarrow> k = 4 * c + m" if "c < 3" "m < 4" for c m :: nat
  proof -
    have "unat (of_nat (4 * c + m) :: u32) = 4 * c + m" using that by (subst unat_of_nat) simp
    then show ?thesis by (metis k_def word_unat_eq_iff)
  qed
  have up: "upd3 xs (field (a # as) m f) = (if k < 12 \<and> k mod 4 = m then (upd3 xs (field as m f))[k div 4 := f (attr_value a)]
      else upd3 xs (field as m f))" if "m < 4" for xs :: "'b list" and m f
  proof (cases "k < 12 \<and> k mod 4 = m")
    case True
    then have "k div 4 < 3" by auto
    moreover have "upd3 xs (field (a # as) m f) = upd3 xs (\<lambda>i old. if i = k div 4 then f (attr_value a) else field as m f i old)"
      by (rule upd3_cong) (use True id that in \<open>auto simp: field_def\<close>)
    ultimately show ?thesis using True by (simp add: upd3_write)
  next
    case False
    have "upd3 xs (field (a # as) m f) = upd3 xs (field as m f)"
      by (rule upd3_cong) (use False id that in \<open>auto simp: field_def\<close>)
    then show ?thesis using False by auto
  qed
  have "k mod 4 = 0 \<or> k mod 4 = 1 \<or> k mod 4 = 2 \<or> k mod 4 = 3" by arith
  then show ?thesis
    unfolding fields_def wred_write_def Let_def k_def [symmetric]
    by (auto simp: up put_en_def put_min_def put_max_def put_prob_def not_le)
qed

lemma fields_foldr: "fields as w = foldr wred_write as w"
  by (induction as) (simp_all add: fields_Nil fields_Cons)

section \<open>Reading back\<close>

definition wred_wf :: "ctc_sai_wred_db \<Rightarrow> bool" where
  "wred_wf w \<longleftrightarrow> length (color_en w) = 3 \<and> length (min_th w) = 3 \<and> length (max_th w) = 3 \<and> length (drop_prob w) = 3"

lemma fields_wf: "wred_wf w \<Longrightarrow> wred_wf (fields as w)"
  by (simp add: wred_wf_def fields_def)

lemma wred_numbers:
  assumes "unat (k :: u32) < 12"
  shows "k \<in> {0, 1, 2, 3, 4, 5, 6, 7, 8, 9, 10, 11}"
proof -
  have "unat k = 0 \<or> unat k = 1 \<or> unat k = 2 \<or> unat k = 3 \<or> unat k = 4 \<or> unat k = 5 \<or> unat k = 6 \<or>
      unat k = 7 \<or> unat k = 8 \<or> unat k = 9 \<or> unat k = 10 \<or> unat k = 11"
    using assms by arith
  then show ?thesis by (simp add: word_unat_eq_iff)
qed

lemma wred_read_field:
  assumes "unat (attr_id a) < 12" and "wred_wf w"
  shows "\<exists>b'. wred_read (attr_id a) (fields [a] w) b = Some b' \<and> attr_id b' = attr_id b \<and>
    (if unat (attr_id a) mod 4 = 0 then booldata (attr_value b') = booldata (attr_value a)
     else u32data (attr_value b') = ucast (ucast (u32data (attr_value a)) :: u16))"
proof -
  have 1: "booldata (attr_value (set_bool x b)) = x" for x by (simp add: set_bool_get)
  have 2: "u32data (attr_value (set_u32 x b)) = x" for x :: u32
    unfolding u32data_def set_u32_def by (rule bit_word_eqI) (auto simp: set_low_def bit_simps)
  have 3: "attr_id (set_bool x b) = attr_id b" "attr_id (set_u32 y b) = attr_id b" for x y
    by (simp_all add: set_bool_def set_u32_def)
  have wf: "length (color_en w) = 3" "length (min_th w) = 3" "length (max_th w) = 3" "length (drop_prob w) = 3"
    using assms(2) by (simp_all add: wred_wf_def)
  show ?thesis
    using wred_numbers [OF assms(1)] wf
    by (auto simp: wred_read_def fields_def nth_upd3 field_def 1 2 3)
qed

section \<open>What the operations do\<close>

lemma queue_cb_frame:
  "g_sai_db (fst (snd (queue_traverse_set_cb L p b (s, u)))) = g_sai_db s \<and>
   lock_depth (trace (fst (snd (queue_traverse_set_cb L p b (s, u))))) = lock_depth (trace s)"
  by (auto simp: queue_traverse_set_cb_def ctc_sai_get_switch_property_def Let_def case_prod_beta fun_eq_iff
      split: option.splits obj_data.splits)

lemma queue_traverse_frame:
  fixes L :: "('o, 'e, 'v) ctc_lib"
  shows "g_sai_db (snd (ctc_sai_queue_traverse_set L p s)) = g_sai_db s"
  "lock_depth (trace (snd (ctc_sai_queue_traverse_set L p s))) = lock_depth (trace s)"
proof -
  define I where "I t \<longleftrightarrow> g_sai_db t = g_sai_db s \<and> lock_depth (trace t) = lock_depth (trace s)"
    for t :: "('o, 'e, 'v) sai_state"
  have "I (fst (snd (hash_traverse stops ret (queue_traverse_set_cb L q) xs (s, ()))))" for stops ret q xs
    by (rule hash_traverse_inv) (use queue_cb_frame [of L q] in \<open>auto simp: I_def\<close>)
  then have "I (snd (ctc_sai_queue_traverse_set L p s))"
    by (auto simp: ctc_sai_queue_traverse_set_def ctc_sai_db_traverse_object_property_def I_def Let_def case_prod_beta
        split: option.splits)
  then show "g_sai_db (snd (ctc_sai_queue_traverse_set L p s)) = g_sai_db s"
    "lock_depth (trace (snd (ctc_sai_queue_traverse_set L p s))) = lock_depth (trace s)" by (simp_all add: I_def)
qed

section \<open>Counting the users\<close>

text \<open>
  The queues that use a profile are those whose record names it; number zero stands for none. The
  counts are right when every profile counts its users, and every profile that is used exists.
\<close>

definition wred_users :: "(sai_object_id \<rightharpoonup> obj_data) \<Rightarrow> u32 \<Rightarrow> sai_object_id set" where
  "wred_users M i = {q. \<exists>r. M q = Some (QueueData r) \<and> q_wred_id r = i}"

definition counted :: "u8 \<Rightarrow> (sai_object_id \<rightharpoonup> obj_data) \<Rightarrow> bool" where
  "counted l M \<longleftrightarrow>
     (\<forall>i w. i \<noteq> 0 \<and> M (wred_oid l i) = Some (WredData w) \<longrightarrow>
        finite (wred_users M i) \<and> unat (used_cnt w) = card (wred_users M i)) \<and>
     (\<forall>q r. M q = Some (QueueData r) \<and> q_wred_id r \<noteq> 0 \<longrightarrow> (\<exists>w. M (wred_oid l (q_wred_id r)) = Some (WredData w)))"

lemma counted_count:
  "counted l M \<Longrightarrow> i \<noteq> 0 \<Longrightarrow> M (wred_oid l i) = Some (WredData w) \<Longrightarrow>
     finite (wred_users M i) \<and> unat (used_cnt w) = card (wred_users M i)"
  by (simp add: counted_def)

lemma counted_exists:
  "counted l M \<Longrightarrow> M q = Some (QueueData r) \<Longrightarrow> q_wred_id r \<noteq> 0 \<Longrightarrow> \<exists>w. M (wred_oid l (q_wred_id r)) = Some (WredData w)"
  by (simp add: counted_def)

lemma wred_oid_inj [simp]: "wred_oid l i = wred_oid l j \<longleftrightarrow> i = j"
proof
  assume "wred_oid l i = wred_oid l j"
  then have "o_value (oid_unpack (wred_oid l i)) = o_value (oid_unpack (wred_oid l j))" by simp
  then show "i = j" by (simp add: wred_oid_def create_fields)
qed simp

lemma wred_oid_type: "oid_type (wred_oid l i) = SAI_OBJECT_TYPE_WRED"
  by (simp add: wred_oid_def oid_type_eq create_fields unat_type_field)

text \<open>The number of the profile a queue is bound to.\<close>

definition bound_to :: "(sai_object_id \<rightharpoonup> obj_data) \<Rightarrow> sai_object_id \<Rightarrow> u32" where
  "bound_to M q = (case M q of Some (QueueData r) \<Rightarrow> q_wred_id r | _ \<Rightarrow> 0)"

lemma users_bound: "i \<noteq> 0 \<Longrightarrow> q \<in> wred_users M i \<longleftrightarrow> bound_to M q = i"
  by (auto simp: wred_users_def bound_to_def split: option.splits obj_data.splits)

lemma bound_exists:
  assumes "counted l M" and "bound_to M q \<noteq> 0"
  shows "\<exists>w. M (wred_oid l (bound_to M q)) = Some (WredData w)"
proof -
  have "q \<in> wred_users M (bound_to M q)" using assms(2) by (simp add: users_bound)
  then obtain r where "M q = Some (QueueData r)" "q_wred_id r = bound_to M q" by (auto simp: wred_users_def)
  then show ?thesis using counted_exists [OF assms(1), of q r] assms(2) by simp
qed

text \<open>
  A change of the binding of one queue keeps the counts right when the profile it is bound to counts
  one more, the one it was bound to one less, and the two are different.
\<close>

lemma counted_rebind:
  assumes ok: "counted l M" and new: "bound_to M' q = new" "new \<noteq> bound_to M q"
    and others: "\<And>x. x \<noteq> q \<Longrightarrow> bound_to M' x = bound_to M x"
    and cnt: "\<And>i w'. i \<noteq> 0 \<Longrightarrow> M' (wred_oid l i) = Some (WredData w') \<Longrightarrow> \<exists>w. M (wred_oid l i) = Some (WredData w) \<and>
       unat (used_cnt w') = (if i = new then unat (used_cnt w) + 1 else if i = bound_to M q then unat (used_cnt w) - 1
         else unat (used_cnt w))"
    and ex: "\<And>i. i \<noteq> 0 \<Longrightarrow> i = new \<or> (\<exists>w. M (wred_oid l i) = Some (WredData w)) \<Longrightarrow> \<exists>w. M' (wred_oid l i) = Some (WredData w)"
  shows "counted l M'"
proof -
  have us: "wred_users M' i = (if i = new then insert q (wred_users M i) else wred_users M i - {q})" if "i \<noteq> 0" for i
  proof (rule set_eqI)
    fix x
    show "x \<in> wred_users M' i \<longleftrightarrow> x \<in> (if i = new then insert q (wred_users M i) else wred_users M i - {q})"
      using that new others [of x] by (cases "x = q") (simp_all add: users_bound)
  qed
  have "finite (wred_users M' i) \<and> unat (used_cnt w') = card (wred_users M' i)"
    if i: "i \<noteq> 0" and w': "M' (wred_oid l i) = Some (WredData w')" for i w'
  proof -
    obtain w where w: "M (wred_oid l i) = Some (WredData w)"
        "unat (used_cnt w') = (if i = new then unat (used_cnt w) + 1 else if i = bound_to M q then unat (used_cnt w) - 1
         else unat (used_cnt w))"
      using cnt [OF i w'] by blast
    have c: "finite (wred_users M i)" "unat (used_cnt w) = card (wred_users M i)" using counted_count [OF ok i w(1)] by simp_all
    have q: "q \<in> wred_users M i \<longleftrightarrow> bound_to M q = i" using i by (rule users_bound)
    show ?thesis using us [OF i] w(2) c q new(2) by (auto simp: card_Diff_singleton)
  qed
  moreover have "\<exists>w. M' (wred_oid l (q_wred_id r)) = Some (WredData w)"
    if r: "M' x = Some (QueueData r)" "q_wred_id r \<noteq> 0" for x r
  proof -
    have "bound_to M' x = q_wred_id r" using r by (simp add: bound_to_def)
    then have "q_wred_id r = new \<or> (\<exists>w. M (wred_oid l (q_wred_id r)) = Some (WredData w))"
      using new others [of x] bound_exists [OF ok, of x] r(2) by (cases "x = q") simp_all
    then show ?thesis using ex r(2) by blast
  qed
  ultimately show ?thesis unfolding counted_def by blast
qed

lemma counted_same:
  assumes "counted l M" and "\<And>x. bound_to M' x = bound_to M x"
    and "\<And>i w'. i \<noteq> 0 \<Longrightarrow> M' (wred_oid l i) = Some (WredData w') \<Longrightarrow>
      (\<exists>w. M (wred_oid l i) = Some (WredData w) \<and> used_cnt w' = used_cnt w) \<or> used_cnt w' = 0 \<and> wred_users M i = {}"
    and "\<And>i w. i \<noteq> 0 \<Longrightarrow> M (wred_oid l i) = Some (WredData w) \<Longrightarrow> (\<exists>w. M' (wred_oid l i) = Some (WredData w)) \<or> wred_users M i = {}"
  shows "counted l M'"
proof -
  have us: "wred_users M' i = wred_users M i" if "i \<noteq> 0" for i using that assms(2) by (auto simp: users_bound)
  have "finite (wred_users M' i) \<and> unat (used_cnt w') = card (wred_users M' i)"
    if "i \<noteq> 0" "M' (wred_oid l i) = Some (WredData w')" for i w'
    using assms(3) [OF that] us [OF that(1)] counted_count [OF assms(1) that(1)] by auto
  moreover have "\<exists>w. M' (wred_oid l (q_wred_id r)) = Some (WredData w)"
    if r: "M' x = Some (QueueData r)" "q_wred_id r \<noteq> 0" for x r
  proof -
    have b: "bound_to M x = q_wred_id r" using r assms(2) [of x] by (simp add: bound_to_def)
    then have "x \<in> wred_users M (q_wred_id r)" using r(2) by (simp add: users_bound)
    moreover obtain w where "M (wred_oid l (q_wred_id r)) = Some (WredData w)" using bound_exists [OF assms(1), of x] b r(2) by auto
    ultimately show ?thesis using assms(4) [OF r(2)] by blast
  qed
  ultimately show ?thesis unfolding counted_def by blast
qed

definition dec :: "ctc_sai_wred_db \<Rightarrow> ctc_sai_wred_db" where
  "dec w = w\<lparr>used_cnt := if used_cnt w = 0 then 0 else used_cnt w - 1\<rparr>"

lemma unat_dec: "unat (used_cnt (dec w)) = unat (used_cnt w) - 1"
  by (auto simp: dec_def unat_minus_one)

context ctc_lib_laws
begin

lemma wred_data:
  assumes "sound L l s" and "obj_map L l s (wred_oid l i) = Some d"
  shows "\<exists>w. d = WredData w"
  using sound_fits [OF assms] wred_oid_type [of l i] by (cases d) auto

lemma unuse_step:
  assumes s: "sound L l s" and w: "obj_map L l s (wred_oid l i) = Some (WredData w)"
    and run: "wred_unuse L l i s = (st, s')"
  shows "st = SAI_STATUS_SUCCESS" "sound L l s'" "quiet s s'" "obj_map L l s' = (obj_map L l s)(wred_oid l i \<mapsto> WredData (dec w))"
proof -
  have fits: "data_fits (oid_type (wred_oid l i)) (WredData v)" for v by (simp add: wred_oid_type)
  have ex: "obj_map L l s (wred_oid l i) \<noteq> None" using w by simp
  note st = store_step [OF s ex fits]
  have eq: "st = SAI_STATUS_SUCCESS" "s' = (if used_cnt w \<noteq> 0 then object_store L l (wred_oid l i) (WredData (dec w)) s else s)"
    using run w by (auto simp: wred_unuse_def obj_map_get dec_def split: if_splits)
  have "used_cnt w = 0 \<Longrightarrow> dec w = w" by (simp add: dec_def)
  then have z: "used_cnt w = 0 \<Longrightarrow> (obj_map L l s)(wred_oid l i \<mapsto> WredData (dec w)) = obj_map L l s" using w by auto
  show "st = SAI_STATUS_SUCCESS" by (fact eq(1))
  show "sound L l s'" "quiet s s'" "obj_map L l s' = (obj_map L l s)(wred_oid l i \<mapsto> WredData (dec w))"
    using st [of "dec w"] s z unfolding eq(2) by (cases "used_cnt w = 0"; simp)+
qed

lemma enable_step:
  assumes s: "sound L l s" and w: "obj_map L l s (wred_oid l i) = Some (WredData w)"
    and old: "old \<noteq> 0 \<longrightarrow> old \<noteq> i \<and> obj_map L l s (wred_oid l old) = Some (WredData w2)"
    and run: "wred_enable L l d i old w s = (st, s')"
  shows "sound L l s' \<and> lock_depth (trace s') = lock_depth (trace s) \<and>
    (st < 0 \<and> obj_map L l s' = obj_map L l s \<or>
     st = SAI_STATUS_SUCCESS \<and> obj_map L l s' =
       (if old = 0 then (obj_map L l s)(wred_oid l i \<mapsto> WredData (w\<lparr>used_cnt := used_cnt w + 1\<rparr>))
        else (obj_map L l s)(wred_oid l i \<mapsto> WredData (w\<lparr>used_cnt := used_cnt w + 1\<rparr>), wred_oid l old \<mapsto> WredData (dec w2))))"
proof -
  let ?g = "QosGetDropScheme l (dr_gport d) (dr_queue_id d) CTC_QUEUE_DROP_WRED"
  obtain e1 s1 where x1: "ext_call L ?g s = (e1, s1)" by (rule prod.exhaust)
  define d2 where "d2 = wred_map_db_to_ctc_drop w (drop_scheme e1 (d\<lparr>dr_mode := CTC_QUEUE_DROP_WRED\<rparr>))"
  obtain e2 s2 where x2: "ext_call L (QosSetDropScheme l d2) s1 = (e2, s2)" by (rule prod.exhaust)
  have f: "g_sai_db s1 = g_sai_db s" "quiet s s1" "g_sai_db s2 = g_sai_db s" "quiet s1 s2"
    using ext_call_frame(1) [of L ?g s] ext_quiet [of ?g s L]
      ext_call_frame(1) [of L "QosSetDropScheme l d2" s1] ext_quiet [of "QosSetDropScheme l d2" s1 L]
    unfolding x1 x2 by simp_all
  note k1 = db_frame [OF s f(1)] and k2 = db_frame [OF s f(3)]
  define s3 where "s3 = object_store L l (wred_oid l i) (WredData (w\<lparr>used_cnt := used_cnt w + 1\<rparr>)) s2"
  have fits: "data_fits (oid_type (wred_oid l i)) (WredData v)" for v by (simp add: wred_oid_type)
  have "obj_map L l s2 (wred_oid l i) \<noteq> None" using k2(2) w by simp
  note k3 = store_step [OF k2(1) this fits, of "w\<lparr>used_cnt := used_cnt w + 1\<rparr>", folded s3_def, unfolded k2(2)]
  have sel: "dr_gport (d\<lparr>dr_mode := m\<rparr>) = dr_gport d" "dr_queue_id (d\<lparr>dr_mode := m\<rparr>) = dr_queue_id d"
    "dr_mode (d\<lparr>dr_mode := m\<rparr>) = m" for m by simp_all
  let ?st1 = "ctc_sai_mapping_error_ctc L (rc e1)" and ?st2 = "ctc_sai_mapping_error_ctc L (rc e2)"
  have "(st, s') = (if status_leaves ?st1 then (?st1, s1) else if status_leaves ?st2 then (?st2, s2)
      else if old \<noteq> 0 then wred_unuse L l old s3 else (SAI_STATUS_SUCCESS, s3))"
    using run by (simp only: wred_enable_def Let_def sel x1 prod.case d2_def [symmetric] x2 s3_def [symmetric])
  then consider "status_leaves ?st1" "st = ?st1" "s' = s1" | "status_leaves ?st2" "st = ?st2" "s' = s2"
    | "old = 0" "st = SAI_STATUS_SUCCESS" "s' = s3" | "old \<noteq> 0" "wred_unuse L l old s3 = (st, s')"
    by (auto split: if_splits)
  then show ?thesis
  proof cases
    case 1
    then show ?thesis using k1 f(2) by (simp add: status_leaves_def quiet_def)
  next
    case 2
    then show ?thesis using k2 f(2,4) by (simp add: status_leaves_def quiet_def)
  next
    case 3
    then show ?thesis using k3 f(2,4) by (simp add: quiet_def)
  next
    case 4
    then have "obj_map L l s3 (wred_oid l old) = Some (WredData w2)" using old k3(3) by simp
    from unuse_step [OF k3(1) this 4(2)] show ?thesis using k3 f(2,4) 4(1) by (simp add: quiet_def)
  qed
qed

end

context ctc_lib_laws
begin

lemma switch_step:
  assumes s: "sound L l s" and run: "ctc_sai_get_switch_property L l s = (d, s')"
  shows "g_sai_db s' = g_sai_db s" "quiet s s'" "d = None \<or> (\<exists>sw. d = Some (SwitchData sw))"
proof -
  have eq: "s' = snd (ext_call L (GetGchipId l) s)"
    and d: "\<exists>g. d = obj_map L l s' (ctc_sai_create_object_id SAI_OBJECT_TYPE_SWITCH l 0 0 g)"
    using run by (auto simp: ctc_sai_get_switch_property_def Let_def case_prod_beta obj_map_get)
  show f: "g_sai_db s' = g_sai_db s" "quiet s s'" unfolding eq by (simp, rule ext_quiet) simp_all
  obtain g where g: "d = obj_map L l s' (ctc_sai_create_object_id SAI_OBJECT_TYPE_SWITCH l 0 0 g)" using d by blast
  have ty: "oid_type (ctc_sai_create_object_id SAI_OBJECT_TYPE_SWITCH l 0 0 g) = SAI_OBJECT_TYPE_SWITCH"
    by (simp add: oid_type_eq create_fields unat_type_field)
  show "d = None \<or> (\<exists>sw. d = Some (SwitchData sw))"
  proof (cases d)
    case (Some x)
    then have "data_fits SAI_OBJECT_TYPE_SWITCH x" using g sound_fits [OF db_frame(1) [OF s f(1)]] ty by metis
    then show ?thesis using Some by (cases x) auto
  qed simp
qed

lemma set_wred_step:
  assumes s: "sound L l s" and l: "ucast (o_lchip (oid_unpack q)) = l"
    and old: "old \<noteq> 0 \<longrightarrow> old \<noteq> i \<and> obj_map L l s (wred_oid l old) = Some (WredData w2)"
    and run: "ctc_sai_wred_queue_set_wred L q i old enable s = (st, s')"
  shows "sound L l s' \<and> lock_depth (trace s') = lock_depth (trace s) \<and>
    (st < 0 \<and> obj_map L l s' = obj_map L l s \<or>
     st = SAI_STATUS_SUCCESS \<and> (\<exists>w. obj_map L l s (wred_oid l i) = Some (WredData w) \<and> obj_map L l s' =
       (if \<not> enable then (obj_map L l s)(wred_oid l i \<mapsto> WredData (dec w))
        else if old = 0 then (obj_map L l s)(wred_oid l i \<mapsto> WredData (w\<lparr>used_cnt := used_cnt w + 1\<rparr>))
        else (obj_map L l s)(wred_oid l i \<mapsto> WredData (w\<lparr>used_cnt := used_cnt w + 1\<rparr>), wred_oid l old \<mapsto> WredData (dec w2)))))"
proof (cases "obj_map L l s (wred_oid l i)")
  case None
  then have "st = SAI_STATUS_ITEM_NOT_FOUND" "s' = s"
    using run by (simp_all add: ctc_sai_wred_queue_set_wred_def ctc_sai_get_ctc_object_id_def l obj_map_get Let_def)
  then show ?thesis using s by simp
next
  case (Some x)
  then obtain w where w: "obj_map L l s (wred_oid l i) = Some (WredData w)" using wred_data [OF s] by blast
  obtain d s1 where sw: "ctc_sai_get_switch_property L l s = (d, s1)" by (rule prod.exhaust)
  note k = switch_step [OF s sw]
  note k1 = db_frame [OF s k(1)]
  show ?thesis
  proof (cases d)
    case None
    then have "st = SAI_STATUS_FAILURE" "s' = s1"
      using run w sw by (simp_all add: ctc_sai_wred_queue_set_wred_def ctc_sai_get_ctc_object_id_def l obj_map_get Let_def)
    then show ?thesis using k1 k(2) by (simp add: quiet_def)
  next
    case (Some y)
    then obtain m where m: "d = Some (SwitchData m)" using k(3) by blast
    define dr where "dr = (zero_drop CTC_QUEUE_DROP_WTD)\<lparr>dr_gport := o_value (oid_unpack q), dr_queue_id := drop_queue_id (oid_unpack q) m\<rparr>"
    define dd where "dd = dr\<lparr>dr_max_th := map ucast [default_wtd_thrd m ! SAI_PACKET_COLOR_RED,
        default_wtd_thrd m ! SAI_PACKET_COLOR_YELLOW, default_wtd_thrd m ! SAI_PACKET_COLOR_GREEN]\<rparr>"
    obtain e s2 where x: "ext_call L (QosSetDropScheme l dd) s1 = (e, s2)" by (rule prod.exhaust)
    have f: "g_sai_db s2 = g_sai_db s1" "quiet s1 s2"
      using ext_call_frame(1) [of L "QosSetDropScheme l dd" s1] ext_quiet [of "QosSetDropScheme l dd" s1 L] unfolding x by simp_all
    note k2 = db_frame [OF k1(1) f(1)]
    have eq: "(st, s') = (if enable then wred_enable L l dr i old w s1
        else if status_leaves (ctc_sai_mapping_error_ctc L (rc e)) then (ctc_sai_mapping_error_ctc L (rc e), s2)
        else wred_unuse L l i s2)"
      using run w by (simp only: ctc_sai_wred_queue_set_wred_def ctc_sai_get_ctc_object_id_def snd_conv l obj_map_get Let_def
          option.case obj_data.case sw m prod.case dr_def [symmetric] dd_def [symmetric] x)
    show ?thesis
    proof (cases enable)
      case True
      have w1: "obj_map L l s1 (wred_oid l i) = Some (WredData w)" and o1: "old \<noteq> 0 \<longrightarrow> old \<noteq> i \<and> obj_map L l s1 (wred_oid l old) = Some (WredData w2)"
        using w old k1(2) by simp_all
      have "wred_enable L l dr i old w s1 = (st, s')" using eq True by simp
      note e = enable_step [OF k1(1) w1 o1 this, unfolded k1(2)]
      show ?thesis using e True w k(2) by (cases "old = 0") (auto simp: quiet_def)
    next
      case False
      show ?thesis
      proof (cases "status_leaves (ctc_sai_mapping_error_ctc L (rc e))")
        case True
        then show ?thesis using False eq k1 k2 k(2) f(2) by (simp add: status_leaves_def quiet_def)
      next
        case ok: False
        have "wred_unuse L l i s2 = (st, s')" using eq False ok by simp
        from unuse_step [OF k2(1) _ this, of w] show ?thesis using False k1(2) k2(2) w k(2) f(2) by (simp add: quiet_def)
      qed
    qed
  qed
qed

lemma get_queue_step:
  assumes s: "sound L l s" and ty: "oid_type q = SAI_OBJECT_TYPE_QUEUE" and l: "ucast (o_lchip (oid_unpack q)) = l"
    and run: "queue_get_queue_db L q s = ((st, d), s')"
  shows "sound L l s' \<and> quiet s s' \<and>
    (d = None \<and> st < 0 \<and> obj_map L l s' = obj_map L l s \<or>
     (\<exists>r. d = Some (QueueData r) \<and> obj_map L l s' = (obj_map L l s)(q \<mapsto> QueueData r) \<and> q_wred_id r = bound_to (obj_map L l s) q))"
proof (cases "obj_map L l s q")
  case (Some x)
  then obtain r where r: "obj_map L l s q = Some (QueueData r)" using sound_fits [OF s Some] ty by (cases x) auto
  then have "d = Some (QueueData r)" "s' = s"
    using run ty by (simp_all add: queue_get_queue_db_def ctc_sai_get_ctc_object_id_def l obj_map_get Let_def oid_type_eq)
  then show ?thesis using s r by (auto simp: bound_to_def)
next
  case None
  define s1 where "s1 = snd (mem_malloc L s)"
  obtain ok where ml: "mem_malloc L s = (ok, s1)" unfolding s1_def by (metis prod.collapse)
  have m: "g_sai_db s1 = g_sai_db s" "quiet s s1" using malloc_step [where L = L and s = s] by (simp_all add: s1_def)
  note k1 = db_frame [OF s m(1)]
  define r where "r = \<lparr>sch_grp = 0, q_wred_id = 0, q_buf_id = 0, q_sch_id = 0\<rparr>"
  obtain st2 s2 where ad: "ctc_sai_db_add_object_property L l q (Some (QueueData r)) s1 = (st2, s2)" by (rule prod.exhaust)
  have "data_fits (oid_type q) (QueueData r)" using ty by simp
  note k2 = add_step [OF k1(1) this ad]
  have uty: "unat (o_type (oid_unpack q)) = SAI_OBJECT_TYPE_QUEUE" using ty by (simp add: oid_type_eq)
  have eq: "((st, d), s') = (if \<not> ok then ((SAI_STATUS_NO_MEMORY, None), s1)
      else if status_leaves st2 then ((st2, None), s2) else ((SAI_STATUS_SUCCESS, Some (QueueData r)), s2))"
    using run None by (simp only: queue_get_queue_db_def ctc_sai_get_ctc_object_id_def snd_conv uty l obj_map_get Let_def
        ml r_def [symmetric] prod.case option.case ad) (simp split: if_splits)
  have z: "q_wred_id r = bound_to (obj_map L l s) q" using None by (simp add: bound_to_def r_def)
  show ?thesis
  proof (cases "ok \<and> \<not> status_leaves st2")
    case True
    then have "st2 = SAI_STATUS_SUCCESS" using k2(1) by (simp add: status_leaves_def)
    then show ?thesis using True eq k2 k1(2) z quiet_trans [OF m(2) k2(3)] by simp
  next
    case False
    then show ?thesis using eq k1 m(2) k2 db_frame [OF k1(1) k2(4)] quiet_trans [OF m(2) k2(3)]
      by (auto simp: status_leaves_def split: if_splits)
  qed
qed

end

section \<open>Every operation keeps the counts\<close>

text \<open>The binding of a queue as a change of the object map.\<close>

lemma queue_not_wred: "oid_type q = SAI_OBJECT_TYPE_QUEUE \<Longrightarrow> wred_oid l i \<noteq> q"
  using wred_oid_type [of l i] by auto

lemma bound_upd: "bound_to (M(q \<mapsto> QueueData r)) x = (if x = q then q_wred_id r else bound_to M x)"
  by (simp add: bound_to_def)

lemma bound_wred: "(\<forall>r. M (wred_oid l i) \<noteq> Some (QueueData r)) \<Longrightarrow> bound_to (M(wred_oid l i \<mapsto> WredData w)) x = bound_to M x"
  by (auto simp: bound_to_def split: option.splits obj_data.splits)

lemma counted_queue_record:
  assumes "counted l M" and "oid_type q = SAI_OBJECT_TYPE_QUEUE" and "q_wred_id r = bound_to M q"
  shows "counted l (M(q \<mapsto> QueueData r))"
  by (rule counted_same [OF assms(1)])
    (use assms(3) queue_not_wred [OF assms(2), of l] in \<open>auto simp: bound_upd\<close>)

lemma unat_inc: "unat (used_cnt w) < 65535 \<Longrightarrow> unat (used_cnt w + 1) = unat (used_cnt w) + 1"
  using unat_add_lem [of "used_cnt w" 1] by simp

text \<open>The profiles after a queue leaves number \<open>b\<close> for \<open>new\<close>.\<close>

definition rebound ::
    "u8 \<Rightarrow> (sai_object_id \<rightharpoonup> obj_data) \<Rightarrow> bool \<Rightarrow> u32 \<Rightarrow> u32 \<Rightarrow> ctc_sai_wred_db \<Rightarrow> ctc_sai_wred_db \<Rightarrow> (sai_object_id \<rightharpoonup> obj_data)" where
  "rebound l M enable new b w w2 =
     (if \<not> enable then M(wred_oid l b \<mapsto> WredData (dec w))
      else if b = 0 \<or> new = b then M(wred_oid l new \<mapsto> WredData (w\<lparr>used_cnt := used_cnt w + 1\<rparr>))
      else M(wred_oid l new \<mapsto> WredData (w\<lparr>used_cnt := used_cnt w + 1\<rparr>), wred_oid l b \<mapsto> WredData (dec w2)))"

lemma bind_counted:
  assumes ok: "counted l M" and q: "oid_type q = SAI_OBJECT_TYPE_QUEUE" and b: "b = bound_to M q"
    and w: "M (wred_oid l (if enable then new else b)) = Some (WredData w)"
    and new: "new \<noteq> 0 \<longrightarrow> new \<noteq> b \<and> enable \<and> unat (used_cnt w) < 65535"
    and w2: "b \<noteq> 0 \<longrightarrow> M (wred_oid l b) = Some (WredData w2)"
    and N: "N = rebound l M enable new b w w2"
    and r: "q_wred_id r = new"
  shows "counted l (N(q \<mapsto> QueueData r))"
proof -
  note qw = queue_not_wred [OF q, of l]
  have bd: "bound_to N x = bound_to M x" for x
    using w w2 by (auto simp: N rebound_def bound_wred)
  have val: "(N(q \<mapsto> QueueData r)) (wred_oid l i) = N (wred_oid l i)" for i using qw [of i] by simp
  have bd': "bound_to (N(q \<mapsto> QueueData r)) x = (if x = q then new else bound_to M x)" for x using bd r by (simp add: bound_upd)
  have cnt: "\<exists>v. M (wred_oid l i) = Some (WredData v) \<and>
      unat (used_cnt w') = (if i = new then unat (used_cnt v) + 1 else if i = b then unat (used_cnt v) - 1 else unat (used_cnt v))"
    if "i \<noteq> 0" "N (wred_oid l i) = Some (WredData w')" for i w'
    using that w w2 new unat_inc [of w] by (auto simp: N rebound_def unat_dec split: if_splits)
  have ex: "\<exists>v. N (wred_oid l i) = Some (WredData v)" if "i \<noteq> 0" "i = new \<or> (\<exists>v. M (wred_oid l i) = Some (WredData v))" for i
    using that w w2 new by (auto simp: N rebound_def)
  show ?thesis
  proof (cases "new = b")
    case False
    show ?thesis
      by (rule counted_rebind [OF ok, where q = q and new = new], unfold bd' val)
        (simp, use False b in simp, simp, rule cnt [unfolded b], assumption+, rule ex, assumption+)
  next
    case True
    then have z: "new = 0" "b = 0" using new by auto
    have same: "\<exists>v. M (wred_oid l i) = Some (WredData v) \<and> used_cnt w' = used_cnt v"
      if "i \<noteq> 0" "N (wred_oid l i) = Some (WredData w')" for i w'
      using cnt [OF that] that(1) z by (auto intro: word_unat_eq_iff [THEN iffD2])
    show ?thesis
      by (rule counted_same [OF ok], unfold bd' val) (use z b same ex in \<open>simp, blast+\<close>)
  qed
qed

text \<open>What the calls keep.\<close>

definition wred_kept :: "('o, 'e, 'v) ctc_lib \<Rightarrow> u8 \<Rightarrow> ('o, 'e, 'v) sai_state \<Rightarrow> ('o, 'e, 'v) sai_state \<Rightarrow> bool" where
  "wred_kept L l s s' \<longleftrightarrow> sound L l s' \<and> counted l (obj_map L l s') \<and> lock_depth (trace s') = lock_depth (trace s)"

lemma wred_kept_frame:
  "sound L l s \<Longrightarrow> counted l (obj_map L l s) \<Longrightarrow> g_sai_db s' = g_sai_db s \<Longrightarrow>
     lock_depth (trace s') = lock_depth (trace s) \<Longrightarrow> wred_kept L l s s'"
  using db_frame [of L l s s'] by (simp add: wred_kept_def)

lemma wred_kept_section:
  assumes "sound L l s" and "sound L l s2" and "counted l (obj_map L l s2)"
    and "lock_depth (trace s2) = lock_depth (trace (snd (ctc_sai_db_lock L l s)))"
  shows "wred_kept L l s (snd (ctc_sai_db_unlock L l s2))"
  using db_frame [OF assms(2), of "snd (ctc_sai_db_unlock L l s2)"] lock_section_depth [OF assms(1,2,4)] assms(3)
  by (simp add: wred_kept_def)

text \<open>The profile that a value of the queue's attribute names; zero for none.\<close>

definition binds :: "sai_attribute \<Rightarrow> bool" where
  "binds a \<longleftrightarrow> oiddata (attr_value a) \<noteq> SAI_NULL_OBJECT_ID"

definition named_profile :: "sai_attribute \<Rightarrow> u32" where
  "named_profile a = (if binds a then o_value (oid_unpack (oiddata (attr_value a))) else 0)"

context ctc_lib_laws
begin

lemma queue_bind_map:
  assumes s: "sound L l s" and ty: "oid_type q = SAI_OBJECT_TYPE_QUEUE" and l: "ucast (o_lchip (oid_unpack q)) = l"
    and M: "M = obj_map L l s" and b: "b = bound_to M q" and w2: "b \<noteq> 0 \<longrightarrow> M (wred_oid l b) = Some (WredData w2)"
    and run: "queue_set_attr_wred L q a s = (st, s')"
  shows "sound L l s' \<and> lock_depth (trace s') = lock_depth (trace s) \<and>
    (st < 0 \<and> (obj_map L l s' = M \<or> (\<exists>r. q_wred_id r = b \<and> obj_map L l s' = M(q \<mapsto> QueueData r))) \<or>
     st = SAI_STATUS_SUCCESS \<and>
     (\<exists>r w. q_wred_id r = named_profile a \<and> M (wred_oid l (if binds a then named_profile a else b)) = Some (WredData w) \<and>
        obj_map L l s' = (rebound l M (binds a) (named_profile a) b w w2)(q \<mapsto> QueueData r)))"
proof -
  have lc: "ctc_sai_oid_get_lchip (inited s) q = (SAI_STATUS_SUCCESS, Some l)"
    using sound_chip [OF s] l by (simp add: ctc_sai_oid_get_lchip_def ctc_sai_get_ctc_object_id_def not_le [symmetric])
  obtain st1 d s1 where g: "queue_get_queue_db L q s = ((st1, d), s1)" by (metis prod.exhaust)
  note k1 = get_queue_step [OF s ty l g]
  note qw = queue_not_wred [OF ty, of l]
  show ?thesis
  proof (cases d)
    case None
    then have "st = st1" "s' = s1" using run by (simp_all add: queue_set_attr_wred_def lc g)
    then show ?thesis using k1 None M by (auto simp: quiet_def)
  next
    case (Some y)
    then obtain r where r: "d = Some (QueueData r)" "obj_map L l s1 = M(q \<mapsto> QueueData r)" "q_wred_id r = b"
      using k1 by (auto simp: b M)
    have s1: "sound L l s1" "lock_depth (trace s1) = lock_depth (trace s)" using k1 by (simp_all add: quiet_def)
    define new where "new = named_profile a"
    define i where "i = (if binds a then new else b)"
    define old where "old = (if binds a \<and> b \<noteq> 0 \<and> new \<noteq> b then b else 0)"
    have nn: "new = (if binds a then o_value (oid_unpack (oiddata (attr_value a))) else 0)" by (simp add: new_def named_profile_def)
    have ci: "(if binds a then o_value (oid_unpack (oiddata (attr_value a))) else b) = i" "(if binds a then o_value (oid_unpack (oiddata (attr_value a))) else 0) = new"
      "(if binds a \<and> b \<noteq> 0 \<and> o_value (oid_unpack (oiddata (attr_value a))) \<noteq> b then b else 0) = old"
      by (simp_all add: i_def nn old_def)
    obtain st2 s2 where x: "ctc_sai_wred_queue_set_wred L q i old (binds a) s1 = (st2, s2)" by (rule prod.exhaust)
    have eq: "(st, s') = (if binds a \<and> l \<noteq> ucast (o_lchip (oid_unpack (oiddata (attr_value a)))) then (SAI_STATUS_INVALID_PARAMETER, s1)
        else if status_leaves st2 then (st2, s2)
        else (SAI_STATUS_SUCCESS, object_store L l q (QueueData (r\<lparr>q_wred_id := new\<rparr>)) s2))"
      using run [symmetric] by (simp only: queue_set_attr_wred_def lc g r(1) prod.case option.case obj_data.case Let_def
          binds_def [symmetric] ctc_sai_get_ctc_object_id_def snd_conv r(3) ci x)
    have "old \<noteq> 0 \<longrightarrow> old \<noteq> i \<and> obj_map L l s1 (wred_oid l old) = Some (WredData w2)"
      using w2 qw r(2) by (auto simp: old_def i_def)
    note k2 = set_wred_step [OF s1(1) l this x]
    show ?thesis
    proof (cases "binds a \<and> l \<noteq> ucast (o_lchip (oid_unpack (oiddata (attr_value a)))) \<or> status_leaves st2")
      case True
      then have "st < 0" "sound L l s' \<and> lock_depth (trace s') = lock_depth (trace s) \<and> obj_map L l s' = M(q \<mapsto> QueueData r)"
        using eq s1 r(2) k2 by (auto simp: status_leaves_def split: if_splits)
      then show ?thesis using r(3) by blast
    next
      case False
      then obtain w where w: "obj_map L l s1 (wred_oid l i) = Some (WredData w)"
        and m2: "obj_map L l s2 = (if \<not> binds a then (obj_map L l s1)(wred_oid l i \<mapsto> WredData (dec w))
          else if old = 0 then (obj_map L l s1)(wred_oid l i \<mapsto> WredData (w\<lparr>used_cnt := used_cnt w + 1\<rparr>))
          else (obj_map L l s1)(wred_oid l i \<mapsto> WredData (w\<lparr>used_cnt := used_cnt w + 1\<rparr>), wred_oid l old \<mapsto> WredData (dec w2)))"
        using k2 by (auto simp: status_leaves_def)
      have s': "st = SAI_STATUS_SUCCESS" "s' = object_store L l q (QueueData (r\<lparr>q_wred_id := new\<rparr>)) s2"
        using eq False by auto
      have "obj_map L l s2 q \<noteq> None" using m2 r(2) by auto
      note k3 = store_step [OF _ this, of "QueueData (r\<lparr>q_wred_id := new\<rparr>)", folded s'(2)]
      have "obj_map L l s2 q = Some (QueueData r)" using m2 r(2) qw by auto
      then have "obj_map L l s' = (rebound l M (binds a) new b w w2)(q \<mapsto> QueueData (r\<lparr>q_wred_id := new\<rparr>))"
        using k3(3) k2 ty m2 qw by (simp add: r(2) rebound_def i_def old_def fun_upd_twist)
      moreover have "M (wred_oid l i) = Some (WredData w)" using w r(2) qw by simp
      moreover have "sound L l s'" "lock_depth (trace s') = lock_depth (trace s)" using k3 k2 s1 ty by (simp_all add: quiet_def)
      moreover have "q_wred_id (r\<lparr>q_wred_id := new\<rparr>) = new" by simp
      ultimately show ?thesis using s'(1) unfolding new_def [symmetric] i_def [symmetric] by blast
    qed
  qed
qed

lemma bind_step:
  assumes s: "sound L l s" and ok: "counted l (obj_map L l s)" and ty: "oid_type q = SAI_OBJECT_TYPE_QUEUE"
    and l: "ucast (o_lchip (oid_unpack q)) = l" and n: "new = named_profile a"
    and new: "new \<noteq> 0 \<longrightarrow> new \<noteq> bound_to (obj_map L l s) q \<and> card (wred_users (obj_map L l s) new) < 65535"
    and run: "queue_set_attr_wred L q a s = (st, s')"
  shows "wred_kept L l s s'"
proof -
  let ?M = "obj_map L l s" and ?b = "bound_to (obj_map L l s) q"
  obtain w2 where w2: "?b \<noteq> 0 \<longrightarrow> ?M (wred_oid l ?b) = Some (WredData w2)"
    using bound_exists [OF ok, of q] by auto
  note k = queue_bind_map [OF s ty l refl refl w2 run, folded n]
  from k consider "obj_map L l s' = ?M" | r where "q_wred_id r = ?b" "obj_map L l s' = ?M(q \<mapsto> QueueData r)"
    | r w where "q_wred_id r = new" "?M (wred_oid l (if binds a then new else ?b)) = Some (WredData w)"
        "obj_map L l s' = (rebound l ?M (binds a) new ?b w w2)(q \<mapsto> QueueData r)"
    by blast
  then have "counted l (obj_map L l s')"
  proof cases
    case 1
    then show ?thesis using ok by simp
  next
    case 2
    then show ?thesis using counted_queue_record [OF ok ty] by simp
  next
    case 3
    have e: "new \<noteq> 0 \<longrightarrow> binds a" by (simp add: n named_profile_def)
    have u: "new \<noteq> 0 \<longrightarrow> unat (used_cnt w) < 65535"
      using new e 3(2) counted_count [OF ok, of new w] by auto
    show ?thesis unfolding 3(3)
      by (rule bind_counted [OF ok ty refl 3(2) _ w2 refl 3(1)]) (use e u new in auto)
  qed
  then show ?thesis using k by (simp add: wred_kept_def)
qed

end

lemma fields_used [simp]: "used_cnt (fields as w) = used_cnt w"
  by (simp add: fields_def)

lemma put_found_used:
  "used_cnt (put_found n as aid (put_en c) w) = used_cnt w" "used_cnt (put_found n as aid (put_min c) w) = used_cnt w"
  "used_cnt (put_found n as aid (put_max c) w) = used_cnt w" "used_cnt (put_found n as aid (put_prob c) w) = used_cnt w"
  by (auto simp: put_found_def put_en_def put_min_def put_max_def put_prob_def split: option.splits prod.splits)

lemma map_attr_used: "used_cnt (wred_map_attr_to_db as n w) = used_cnt w"
  by (simp only: wred_map_attr_to_db_def Let_def put_found_used)

lemma counted_new:
  assumes "counted l M" and "M (wred_oid l i) = None" and "used_cnt w = 0"
  shows "counted l (M(wred_oid l i \<mapsto> WredData w))"
proof (rule counted_same [OF assms(1)])
  have e: "wred_users M i = {}" if "i \<noteq> 0"
    using counted_exists [OF assms(1)] assms(2) that by (fastforce simp: wred_users_def)
  show "bound_to (M(wred_oid l i \<mapsto> WredData w)) x = bound_to M x" for x using assms(2) by (simp add: bound_wred)
  show "(\<exists>v. M (wred_oid l j) = Some (WredData v) \<and> used_cnt w' = used_cnt v) \<or> used_cnt w' = 0 \<and> wred_users M j = {}"
    if "j \<noteq> 0" "(M(wred_oid l i \<mapsto> WredData w)) (wred_oid l j) = Some (WredData w')" for j w'
    using that e assms(3) by (cases "j = i") auto
  show "(\<exists>v. (M(wred_oid l i \<mapsto> WredData w)) (wred_oid l j) = Some (WredData v)) \<or> wred_users M j = {}"
    if "M (wred_oid l j) = Some (WredData v)" for j v
    using that by auto
qed

lemma counted_edit:
  assumes "counted l M" and "M oid = Some (WredData w)" and "used_cnt w' = used_cnt w"
  shows "counted l (M(oid \<mapsto> WredData w'))"
  by (rule counted_same [OF assms(1)]) (use assms(2,3) in \<open>auto simp: bound_to_def split: if_splits\<close>)

lemma counted_drop:
  assumes "counted l M" and "M oid = Some (WredData w)" and "used_cnt w = 0"
  shows "counted l (M(oid := None))"
proof (rule counted_same [OF assms(1)])
  show "bound_to (M(oid := None)) x = bound_to M x" for x using assms(2) by (simp add: bound_to_def)
  show "(\<exists>v. M (wred_oid l j) = Some (WredData v) \<and> used_cnt w' = used_cnt v) \<or> used_cnt w' = 0 \<and> wred_users M j = {}"
    if "(M(oid := None)) (wred_oid l j) = Some (WredData w')" for j w'
    using that by (simp split: if_splits)
  show "(\<exists>v. (M(oid := None)) (wred_oid l j) = Some (WredData v)) \<or> wred_users M j = {}"
    if "j \<noteq> 0" "M (wred_oid l j) = Some (WredData v)" for j v
    using that assms(2,3) counted_count [OF assms(1) that] by (cases "wred_oid l j = oid") auto
qed

context ctc_lib_laws
begin

lemma create_wred_kept:
  assumes s: "sound L l s" "counted l (obj_map L l s)" and run: "create_wred_locked L l n as s = (r, s')"
  shows "sound L l s' \<and> counted l (obj_map L l s') \<and> lock_depth (trace s') = lock_depth (trace s)"
proof -
  obtain ok s1 where ml: "mem_malloc L s = (ok, s1)" by (rule prod.exhaust)
  have m: "g_sai_db s1 = g_sai_db s" "quiet s s1" using malloc_step [where L = L and s = s] by (simp_all add: ml)
  obtain st v s2 where al: "ctc_sai_db_alloc_id L l CTC_SAI_DB_ID_TYPE_COMMON s1 = ((st, v), s2)" by (metis prod.exhaust)
  note a = alloc_step [OF al]
  define w where "w = wred_map_attr_to_db as n \<lparr>color_en = [0, 0, 0], min_th = [0, 0, 0], max_th = [0, 0, 0],
                  drop_prob = [100, 100, 100], used_cnt = 0\<rparr>"
  obtain st3 s3 where ad: "ctc_sai_db_add_object_property L l (wred_oid l (out_or 0 v)) (Some (WredData w)) s2 = (st3, s3)"
    by (rule prod.exhaust)
  note k2 = db_frame [OF s(1) trans [OF a(2) m(1)]]
  have "data_fits (oid_type (wred_oid l (out_or 0 v))) (WredData w)" by (simp add: wred_oid_type)
  note k3 = add_step [OF k2(1) this ad]
  have "used_cnt w = 0" unfolding w_def map_attr_used by simp
  note c = counted_new [OF s(2) _ this, of "out_or 0 v"]
  define s4 where "s4 = snd (ctc_sai_db_free_id L l CTC_SAI_DB_ID_TYPE_COMMON (out_or 0 v) s3)"
  have s': "s' = (if \<not> ok then s1 else if CTC_SAI_ERROR st then s2 else if status_leaves st3 then s4 else s3)"
    using run [symmetric] by (simp only: create_wred_locked_def ml al prod.case Let_def w_def [symmetric] ad s4_def [symmetric]
        split: if_splits) auto
  have f: "lock_depth (trace s2) = lock_depth (trace s)" "lock_depth (trace s3) = lock_depth (trace s)"
    using m(2) a(4) k3(3) by (simp_all add: quiet_def)
  have "status_leaves st3 \<Longrightarrow> g_sai_db s4 = g_sai_db s" using k3(4) a(2) m(1) by (auto simp: s4_def status_leaves_def)
  moreover have "lock_depth (trace s4) = lock_depth (trace s)" using f(2) by (simp add: s4_def)
  moreover have "\<not> status_leaves st3 \<Longrightarrow> counted l (obj_map L l s3)"
    using k3(1,5,6) c k2(2) by (auto simp: status_leaves_def)
  ultimately show ?thesis
    using s' s k3(2) f m a(2) wred_kept_frame [OF s, of s1] wred_kept_frame [OF s, of s2] wred_kept_frame [OF s, of s4]
    by (simp add: wred_kept_def quiet_def split: if_splits)
qed

lemma create_kept:
  assumes s: "sound L l s" "counted l (obj_map L l s)" and sw: "ctc_sai_oid_get_lchip (inited s) switch_id = (st, Some l)"
    and run: "ctc_sai_wred_create_wred_id L null switch_id n as s = (r, s')"
  shows "wred_kept L l s s'"
proof (cases null)
  case True
  then show ?thesis using run s by (simp add: ctc_sai_wred_create_wred_id_def wred_kept_def)
next
  case False
  obtain r1 s1 where c: "create_wred_locked L l n as (snd (ctc_sai_db_lock L l s)) = (r1, s1)" by (rule prod.exhaust)
  have k: "counted l (obj_map L l (snd (ctc_sai_db_lock L l s)))" using s(2) lock_step(3) [OF s(1)] by simp
  have "s' = snd (ctc_sai_db_unlock L l s1)" using run False sw c by (cases r1) (simp add: ctc_sai_wred_create_wred_id_def)
  then show ?thesis
    using create_wred_kept [OF lock_step(2) [OF s(1)] k c] wred_kept_section [OF s(1)] by simp
qed

lemma remove_unused:
  assumes s: "sound L l s" and ty: "oid_type oid = SAI_OBJECT_TYPE_WRED" and l: "ucast (o_lchip (oid_unpack oid)) = l"
    and w: "obj_map L l s oid = Some (WredData w)" "used_cnt w = 0" and run: "ctc_sai_wred_remove_wred_id L oid s = (st, s')"
  shows "st = SAI_STATUS_SUCCESS" "sound L l s'" "lock_depth (trace s') = lock_depth (trace s)"
    "obj_map L l s' = (obj_map L l s)(oid := None)"
proof -
  define s1 where "s1 = snd (ctc_sai_db_lock L l s)"
  note k1 = lock_step [OF s, folded s1_def]
  define s2 where "s2 = snd (ctc_sai_db_remove_object_property L l oid s1)"
  define s3 where "s3 = snd (ctc_sai_db_free_id L l CTC_SAI_DB_ID_TYPE_COMMON (o_value (oid_unpack oid)) s2)"
  have uty: "unat (o_type (oid_unpack oid)) = SAI_OBJECT_TYPE_WRED" using ty by (simp add: oid_type_eq)
  have "obj_map L l s1 oid \<noteq> None" using k1(3) w(1) by simp
  note k2 = remove_step [OF k1(2) this, folded s2_def]
  have f: "g_sai_db s3 = g_sai_db s2" "lock_depth (trace s3) = lock_depth (trace s2)" by (simp_all add: s3_def)
  note k3 = db_frame [OF k2(1) f(1)]
  have eq: "st = SAI_STATUS_SUCCESS" "s' = snd (ctc_sai_db_unlock L l s3)"
    using run w k1(3) by (simp_all add: ctc_sai_wred_remove_wred_id_def ctc_sai_get_ctc_object_id_def Let_def l uty
        s1_def [symmetric] s2_def [symmetric] s3_def [symmetric] obj_map_get)
  have d: "lock_depth (trace s3) = lock_depth (trace (snd (ctc_sai_db_lock L l s)))"
    using f(2) k2(2) by (simp add: quiet_def s1_def)
  show "st = SAI_STATUS_SUCCESS" by (fact eq(1))
  show "sound L l s'" "obj_map L l s' = (obj_map L l s)(oid := None)"
    using db_frame [OF k3(1), of s'] k3(2) k2(3) k1(3) by (simp_all add: eq(2))
  show "lock_depth (trace s') = lock_depth (trace s)" using lock_section_depth [OF s k3(1) d] by (simp add: eq(2))
qed

lemma remove_kept:
  assumes s: "sound L l s" "counted l (obj_map L l s)" and ty: "oid_type oid = SAI_OBJECT_TYPE_WRED"
    and l: "ucast (o_lchip (oid_unpack oid)) = l" and run: "ctc_sai_wred_remove_wred_id L oid s = (st, s')"
  shows "wred_kept L l s s'"
proof (cases "\<exists>w. obj_map L l s oid = Some (WredData w) \<and> used_cnt w = 0")
  case True
  then obtain w where w: "obj_map L l s oid = Some (WredData w)" "used_cnt w = 0" by blast
  show ?thesis using remove_unused [OF s(1) ty l w run] counted_drop [OF s(2) w] by (simp add: wred_kept_def)
next
  case False
  define s1 where "s1 = snd (ctc_sai_db_lock L l s)"
  note k1 = lock_step [OF s(1), folded s1_def]
  have uty: "unat (o_type (oid_unpack oid)) = SAI_OBJECT_TYPE_WRED" using ty by (simp add: oid_type_eq)
  have "s' = snd (ctc_sai_db_unlock L l s1)"
    using False run k1(3) sound_fits [OF s(1), of oid] ty
    by (cases "obj_map L l s oid"; cases "the (obj_map L l s oid)")
      (auto simp: ctc_sai_wred_remove_wred_id_def ctc_sai_get_ctc_object_id_def Let_def l uty
        s1_def [symmetric] obj_map_get)
  then show ?thesis using wred_kept_section [OF s(1) k1(2)] s(2) k1(3) by (simp add: s1_def)
qed

end

section \<open>Setting and reading through the entry points\<close>

lemma wred_fn:
  assumes "unat aid < 12"
  shows "\<exists>i. find_fn 0 aid (wred_attr_fn_entries L) =
    Some (i, \<lparr>fn_id = aid, fn_get = Some (wred_get_attr L), fn_set = Some (wred_set_attr L)\<rparr>)"
  using wred_numbers [OF assms] by (auto simp: wred_attr_fn_entries_def)

lemma wred_fn_set:
  assumes "find_fn 0 aid (wred_attr_fn_entries L) = Some (i, f)"
  shows "fn_set f = None \<or> fn_set f = Some (wred_set_attr L)"
proof -
  have "f \<in> set (wred_attr_fn_entries L)" using find_fn_Some [OF assms] by (metis nth_mem)
  then show ?thesis by (auto simp: wred_attr_fn_entries_def)
qed

lemma wred_metadata:
  "ctc_sai_check_attr_metadata 1 (Some [a]) SAI_OBJECT_TYPE_WRED (Some (wred_attr_fn_entries L)) SAI_COMMON_API_SET = SAI_STATUS_SUCCESS"
  "ctc_sai_check_attr_metadata 1 (Some [a]) SAI_OBJECT_TYPE_WRED (Some (wred_attr_fn_entries L)) SAI_COMMON_API_GET = SAI_STATUS_SUCCESS"
  by (simp_all add: ctc_sai_check_attr_metadata_def ctc_sai_is_object_type_valid_def)

context ctc_lib_laws
begin

lemma wred_set_attr_step:
  assumes s: "sound L l s" and ty: "oid_type oid = SAI_OBJECT_TYPE_WRED" and l: "ucast (o_lchip (oid_unpack oid)) = l"
    and w: "obj_map L l s oid = Some (WredData w)" and run: "wred_set_attr L oid a s = (st, s')"
  shows "st = SAI_STATUS_SUCCESS" "sound L l s'" "lock_depth (trace s') = lock_depth (trace s)"
    "obj_map L l s' = (obj_map L l s)(oid \<mapsto> WredData (fields [a] w))"
proof -
  have f: "wred_map_attr_to_db (Some [a]) 1 w = fields [a] w" by (simp add: map_attr_fields)
  define p where "p = Some \<lparr>qp_lchip = l, qp_set_type = CTC_SAI_Q_SET_TYPE_WRED, qp_cmp_value = Some (o_value (oid_unpack oid)),
      qp_value = Some (wred_map_db_to_ctc_drop (fields [a] w) (zero_drop CTC_QUEUE_DROP_WRED))\<rparr>"
  define s1 where "s1 = (if used_cnt w \<noteq> 0 then snd (ctc_sai_queue_traverse_set L p s) else s)"
  have ok: "fst (ctc_sai_queue_traverse_set L p s) = SAI_STATUS_SUCCESS"
    by (simp add: ctc_sai_queue_traverse_set_def p_def case_prod_beta Let_def)
  have tr: "(if used_cnt w \<noteq> 0 then ctc_sai_queue_traverse_set L p s else (SAI_STATUS_SUCCESS, s)) = (SAI_STATUS_SUCCESS, s1)"
    using ok by (auto simp: s1_def prod_eq_iff)
  have eq: "(st, s') = (SAI_STATUS_SUCCESS, object_store L l oid (WredData (fields [a] w)) s1)"
    using run [symmetric] w by (simp only: wred_set_attr_def ctc_sai_get_ctc_object_id_def snd_conv l obj_map_get f Let_def
        option.case obj_data.case p_def [symmetric] tr prod.case status_leaves_def less_irrefl if_False)
  have fr: "g_sai_db s1 = g_sai_db s" "lock_depth (trace s1) = lock_depth (trace s)"
    by (simp_all add: s1_def queue_traverse_frame)
  note k = db_frame [OF s fr(1)]
  have "obj_map L l s1 oid \<noteq> None" "data_fits (oid_type oid) (WredData (fields [a] w))" using k(2) w ty by simp_all
  note st = store_step [OF k(1) this]
  show "st = SAI_STATUS_SUCCESS" "sound L l s'" "lock_depth (trace s') = lock_depth (trace s)"
    "obj_map L l s' = (obj_map L l s)(oid \<mapsto> WredData (fields [a] w))"
    using eq st fr(2) k(2) by (simp_all add: quiet_def)
qed

lemma wred_set_attr_kept:
  assumes s: "sound L l s" "counted l (obj_map L l s)" and ty: "oid_type oid = SAI_OBJECT_TYPE_WRED"
    and l: "ucast (o_lchip (oid_unpack oid)) = l" and run: "wred_set_attr L oid a s = (st, s')"
  shows "wred_kept L l s s'"
proof (cases "obj_map L l s oid")
  case None
  then have "s' = s" using run by (simp add: wred_set_attr_def ctc_sai_get_ctc_object_id_def l obj_map_get)
  then show ?thesis using s by (simp add: wred_kept_def)
next
  case (Some d)
  then obtain w where w: "obj_map L l s oid = Some (WredData w)" using sound_fits [OF s(1) Some] ty by (cases d) auto
  show ?thesis using wred_set_attr_step [OF s(1) ty l w run] counted_edit [OF s(2) w] by (simp add: wred_kept_def)
qed

lemma set_attribute_kept:
  assumes s: "sound L l s" "counted l (obj_map L l s)" and ty: "oid_type oid = SAI_OBJECT_TYPE_WRED"
    and l: "ucast (o_lchip (oid_unpack oid)) = l" and run: "ctc_sai_wred_set_attribute L oid a s = (st, s')"
  shows "wred_kept L l s s'"
proof (cases a)
  case None
  then show ?thesis using run s by (simp add: ctc_sai_wred_set_attribute_def wred_kept_def)
next
  case (Some b)
  have uty: "unat (o_type (oid_unpack oid)) = SAI_OBJECT_TYPE_WRED" using ty by (simp add: oid_type_eq)
  define s1 where "s1 = snd (ctc_sai_db_lock L l s)"
  note k1 = lock_step [OF s(1), folded s1_def]
  have c1: "counted l (obj_map L l s1)" using s(2) k1(3) by simp
  obtain st2 s2 where x: "ctc_sai_set_attribute oid SAI_OBJECT_TYPE_WRED (Some (wred_attr_fn_entries L)) (Some b) s1 = (st2, s2)"
    by (rule prod.exhaust)
  have "s2 = s1 \<or> wred_set_attr L oid b s1 = (st2, s2)"
    using x wred_fn_set [of "attr_id b" L] by (auto simp: ctc_sai_set_attribute_def ctc_sai_find_attribute_fn_def wred_metadata
        split: option.splits if_splits)
  then have "wred_kept L l s1 s2" using k1(2) c1 wred_set_attr_kept [OF k1(2) c1 ty l] by (auto simp: wred_kept_def)
  moreover have "s' = snd (ctc_sai_db_unlock L l s2)"
    using run Some by (simp add: ctc_sai_wred_set_attribute_def ctc_sai_get_ctc_object_id_def Let_def uty l s1_def [symmetric] x)
  ultimately show ?thesis using wred_kept_section [OF s(1), of s2] by (simp add: wred_kept_def s1_def)
qed

lemma set_attribute_step:
  assumes s: "sound L l s" and ty: "oid_type oid = SAI_OBJECT_TYPE_WRED" and l: "ucast (o_lchip (oid_unpack oid)) = l"
    and w: "obj_map L l s oid = Some (WredData w)" and a: "unat (attr_id a) < 12"
    and run: "ctc_sai_wred_set_attribute L oid (Some a) s = (st, s')"
  shows "st = SAI_STATUS_SUCCESS" "sound L l s'" "lock_depth (trace s') = lock_depth (trace s)"
    "obj_map L l s' = (obj_map L l s)(oid \<mapsto> WredData (fields [a] w))"
proof -
  have uty: "unat (o_type (oid_unpack oid)) = SAI_OBJECT_TYPE_WRED" using ty by (simp add: oid_type_eq)
  define s1 where "s1 = snd (ctc_sai_db_lock L l s)"
  note k1 = lock_step [OF s, folded s1_def]
  obtain i where i: "find_fn 0 (attr_id a) (wred_attr_fn_entries L) =
      Some (i, \<lparr>fn_id = attr_id a, fn_get = Some (wred_get_attr L), fn_set = Some (wred_set_attr L)\<rparr>)"
    using wred_fn [OF a] by blast
  obtain st2 s2 where x: "wred_set_attr L oid a s1 = (st2, s2)" by (rule prod.exhaust)
  have y: "ctc_sai_set_attribute oid SAI_OBJECT_TYPE_WRED (Some (wred_attr_fn_entries L)) (Some a) s1 = (st2, s2)"
    by (simp add: ctc_sai_set_attribute_def ctc_sai_find_attribute_fn_def wred_metadata i x status_leaves_def)
  have w1: "obj_map L l s1 oid = Some (WredData w)" using w k1(3) by simp
  note k2 = wred_set_attr_step [OF k1(2) ty l w1 x]
  have e: "st = st2" "s' = snd (ctc_sai_db_unlock L l s2)"
    using run by (simp_all add: ctc_sai_wred_set_attribute_def ctc_sai_get_ctc_object_id_def Let_def uty l s1_def [symmetric] y)
  show "st = SAI_STATUS_SUCCESS" "sound L l s'" "obj_map L l s' = (obj_map L l s)(oid \<mapsto> WredData (fields [a] w))"
    "lock_depth (trace s') = lock_depth (trace s)"
    using e k2 k1(3) db_frame [OF k2(2), of s'] lock_section_depth [OF s k2(2)] by (simp_all add: s1_def)
qed

lemma get_attribute_step:
  assumes s: "sound L l s" and ty: "oid_type oid = SAI_OBJECT_TYPE_WRED" and l: "ucast (o_lchip (oid_unpack oid)) = l"
    and w: "obj_map L l s oid = Some (WredData w)" and b: "wred_read (attr_id b) w b = Some b'" "unat (attr_id b) < 12"
  shows "ctc_sai_wred_get_attribute L oid 1 (Some [b]) s =
    Some ((SAI_STATUS_SUCCESS, Some [b']), snd (ctc_sai_db_unlock L l (snd (ctc_sai_db_lock L l s))))"
proof -
  have uty: "unat (o_type (oid_unpack oid)) = SAI_OBJECT_TYPE_WRED" using ty by (simp add: oid_type_eq)
  define s1 where "s1 = snd (ctc_sai_db_lock L l s)"
  note k1 = lock_step [OF s, folded s1_def]
  have lc: "ctc_sai_oid_get_lchip (inited s1) oid = (SAI_STATUS_SUCCESS, Some l)"
    using sound_chip [OF k1(2)] l by (simp add: ctc_sai_oid_get_lchip_def ctc_sai_get_ctc_object_id_def not_le [symmetric])
  obtain i where i: "find_fn 0 (attr_id b) (wred_attr_fn_entries L) =
      Some (i, \<lparr>fn_id = attr_id b, fn_get = Some (wred_get_attr L), fn_set = Some (wred_set_attr L)\<rparr>)"
    using wred_fn [OF b(2)] by blast
  have g: "ctc_sai_get_attribute oid SAI_OBJECT_TYPE_WRED 0 (Some (wred_attr_fn_entries L)) (Some b) s1 = ((SAI_STATUS_SUCCESS, Some b'), s1)"
    by (simp add: ctc_sai_get_attribute_def ctc_sai_find_attribute_fn_def wred_metadata i status_leaves_def
        wred_get_attr_def lc obj_map_get k1(3) w b(1))
  have "attr_loop (get_attr_body oid SAI_OBJECT_TYPE_WRED (wred_attr_fn_entries L)) 1 (0 :: u8) (SAI_STATUS_SUCCESS, [b], s1) =
      Some (SAI_STATUS_SUCCESS, [b'], s1)"
    by (simp add: attr_loop_returns get_attr_body_def g status_leaves_def)
  then show ?thesis
    by (simp add: ctc_sai_wred_get_attribute_def ctc_sai_get_ctc_object_id_def Let_def uty l s1_def [symmetric])
qed

end

context ctc_lib_laws
begin

text \<open>A queue is bound to the profile that it uses already, or unbound.\<close>

lemma same_profile_map:
  assumes s: "sound L l s" and ty: "oid_type q = SAI_OBJECT_TYPE_QUEUE" and l: "ucast (o_lchip (oid_unpack q)) = l"
    and b: "bound_to (obj_map L l s) q = b" "b \<noteq> 0" and w: "obj_map L l s (wred_oid l b) = Some (WredData w)"
    and a: "binds a \<longrightarrow> named_profile a = b" and run: "queue_set_attr_wred L q a s = (SAI_STATUS_SUCCESS, s')"
  shows "sound L l s' \<and> (\<exists>r. q_wred_id r = named_profile a \<and> obj_map L l s' = (obj_map L l s)
    (wred_oid l b \<mapsto> WredData (if binds a then w\<lparr>used_cnt := used_cnt w + 1\<rparr> else dec w), q \<mapsto> QueueData r))"
proof -
  have w': "b \<noteq> 0 \<longrightarrow> obj_map L l s (wred_oid l b) = Some (WredData w)" using w by simp
  note k = queue_bind_map [OF s ty l refl b(1) [symmetric] w' run]
  have i: "(if binds a then named_profile a else b) = b" using a by simp
  obtain r v where r: "q_wred_id r = named_profile a" and v: "obj_map L l s (wred_oid l b) = Some (WredData v)"
      and m: "obj_map L l s' = (rebound l (obj_map L l s) (binds a) (named_profile a) b v w)(q \<mapsto> QueueData r)"
    using k unfolding i by (simp only: less_irrefl simp_thms) blast
  have "rebound l (obj_map L l s) (binds a) (named_profile a) b v w =
      (obj_map L l s)(wred_oid l b \<mapsto> WredData (if binds a then w\<lparr>used_cnt := used_cnt w + 1\<rparr> else dec w))"
    using v w a by (simp add: rebound_def)
  then show ?thesis using k r m by auto
qed

end

section \<open>The states that the calls lead to\<close>

text \<open>
  A queue is bound to a profile that it does not use yet, or unbound, and no profile has more users
  than its count can hold.
\<close>

inductive wred_reach ::
    "('o, 'e, 'v) ctc_lib \<Rightarrow> u8 \<Rightarrow> ('o, 'e, 'v) sai_state \<Rightarrow> ('o, 'e, 'v) sai_state \<Rightarrow> bool"
  for L l s0 where
  start: "wred_reach L l s0 s0"
| create: "wred_reach L l s0 s \<Longrightarrow> ctc_sai_oid_get_lchip (inited s) switch_id = (st, Some l) \<Longrightarrow>
    ctc_sai_wred_create_wred_id L null switch_id n as s = (r, s') \<Longrightarrow> wred_reach L l s0 s'"
| remove: "wred_reach L l s0 s \<Longrightarrow> oid_type oid = SAI_OBJECT_TYPE_WRED \<Longrightarrow> ucast (o_lchip (oid_unpack oid)) = l \<Longrightarrow>
    ctc_sai_wred_remove_wred_id L oid s = (st, s') \<Longrightarrow> wred_reach L l s0 s'"
| set_attribute: "wred_reach L l s0 s \<Longrightarrow> oid_type oid = SAI_OBJECT_TYPE_WRED \<Longrightarrow> ucast (o_lchip (oid_unpack oid)) = l \<Longrightarrow>
    ctc_sai_wred_set_attribute L oid a s = (st, s') \<Longrightarrow> wred_reach L l s0 s'"
| bind: "wred_reach L l s0 s \<Longrightarrow> oid_type q = SAI_OBJECT_TYPE_QUEUE \<Longrightarrow> ucast (o_lchip (oid_unpack q)) = l \<Longrightarrow>
    named_profile b \<noteq> 0 \<longrightarrow> named_profile b \<noteq> bound_to (obj_map L l s) q \<and>
      card (wred_users (obj_map L l s) (named_profile b)) < 65535 \<Longrightarrow>
    queue_set_attr_wred L q b s = (st, s') \<Longrightarrow> wred_reach L l s0 s'"

lemma wred_oid_lchip:
  assumes "sound L l s"
  shows "ucast (o_lchip (oid_unpack (wred_oid l i))) = l"
  using created_lchip [OF assms, of SAI_OBJECT_TYPE_WRED 0 0 i]
  by (auto simp: wred_oid_def ctc_sai_oid_get_lchip_def ctc_sai_get_ctc_object_id_def Let_def split: if_splits)

lemma remove_outcome:
  assumes s: "sound L l s" and w: "obj_map L l s (wred_oid l i) = Some (WredData w)"
  shows "fst (ctc_sai_wred_remove_wred_id L (wred_oid l i) s) = (if used_cnt w = 0 then SAI_STATUS_SUCCESS else SAI_STATUS_OBJECT_IN_USE)"
proof -
  have "unat (o_type (oid_unpack (wred_oid l i))) = SAI_OBJECT_TYPE_WRED" using wred_oid_type [of l i] by (simp add: oid_type_eq)
  then show ?thesis
    using w lock_step(3) [OF s] by (simp add: ctc_sai_wred_remove_wred_id_def ctc_sai_get_ctc_object_id_def Let_def
        wred_oid_lchip [OF s] obj_map_get case_prod_beta)
qed

lemma wred_reach_kept:
  assumes "ctc_lib_laws L" and "wred_reach L l s0 s" and "sound L l s0" "counted l (obj_map L l s0)"
  shows "wred_kept L l s0 s"
  using assms(2)
proof induction
  case start
  then show ?case using assms(3,4) by (simp add: wred_kept_def)
next
  case (create s switch_id st null n as r s')
  then show ?case using ctc_lib_laws.create_kept [OF assms(1) _ _ create(2,3)] by (simp add: wred_kept_def)
next
  case (remove s oid st s')
  then show ?case using ctc_lib_laws.remove_kept [OF assms(1) _ _ remove(2,3,4)] by (simp add: wred_kept_def)
next
  case (set_attribute s oid a st s')
  then show ?case using ctc_lib_laws.set_attribute_kept [OF assms(1) _ _ set_attribute(2,3,4)] by (simp add: wred_kept_def)
next
  case (bind s q b st s')
  then show ?case using ctc_lib_laws.bind_step [OF assms(1) _ _ bind(2,3) refl bind(4,5)] by (simp add: wred_kept_def)
qed

section \<open>Progress\<close>

text \<open>
  A device that takes the drop schemes of the chip and answers its chip number, and a chip whose
  switch is in the database and whose queues that use the profile are its own.
\<close>

definition device_accepts :: "('o, 'e, 'v) ctc_lib \<Rightarrow> u8 \<Rightarrow> u32 \<Rightarrow> bool" where
  "device_accepts L l g \<longleftrightarrow>
     (\<forall>t d. rc (env L t (QosSetDropScheme l d)) = 0) \<and> (\<forall>t. ucast (ucast (out_val 0 (env L t (GetGchipId l))) :: u8) = g)"

definition queues_ready :: "u8 \<Rightarrow> u32 \<Rightarrow> u32 \<Rightarrow> (sai_object_id \<rightharpoonup> obj_data) \<Rightarrow> bool" where
  "queues_ready l g i M \<longleftrightarrow>
     (\<exists>sw. M (ctc_sai_create_object_id SAI_OBJECT_TYPE_SWITCH l 0 0 g) = Some (SwitchData sw)) \<and>
     (\<forall>q \<in> wred_users M i. ucast (o_lchip (oid_unpack q)) = l)"

lemma wred_reach_trans: "wred_reach L l s1 s2 \<Longrightarrow> wred_reach L l s0 s1 \<Longrightarrow> wred_reach L l s0 s2"
  by (induction rule: wred_reach.induct) (blast intro: wred_reach.intros)+

context ctc_lib_laws
begin

lemma unbind_succeeds:
  assumes s: "sound L l s" and dev: "device_accepts L l g" and rdy: "queues_ready l g b (obj_map L l s)"
    and q: "obj_map L l s q = Some (QueueData r)" "q_wred_id r = b"
    and w: "obj_map L l s (wred_oid l b) = Some (WredData w)" and a: "\<not> binds a"
  shows "fst (queue_set_attr_wred L q a s) = SAI_STATUS_SUCCESS"
proof -
  have l: "ucast (o_lchip (oid_unpack q)) = l" using rdy q by (auto simp: queues_ready_def wred_users_def)
  have "oid_type q = SAI_OBJECT_TYPE_QUEUE" using sound_fits [OF s q(1)] by simp
  then have ty: "unat (o_type (oid_unpack q)) = SAI_OBJECT_TYPE_QUEUE" by (simp add: oid_type_eq)
  have lc: "ctc_sai_oid_get_lchip (inited s) q = (SAI_STATUS_SUCCESS, Some l)"
    using sound_chip [OF s] l by (simp add: ctc_sai_oid_get_lchip_def ctc_sai_get_ctc_object_id_def not_le [symmetric])
  have gq: "queue_get_queue_db L q s = ((SAI_STATUS_SUCCESS, Some (QueueData r)), s)"
    by (simp add: queue_get_queue_db_def ctc_sai_get_ctc_object_id_def ty l obj_map_get q(1))
  obtain sw where sw: "obj_map L l s (ctc_sai_create_object_id SAI_OBJECT_TYPE_SWITCH l 0 0 g) = Some (SwitchData sw)"
    using rdy by (auto simp: queues_ready_def)
  define s1 where "s1 = snd (ext_call L (GetGchipId l) s)"
  have o1: "obj_map L l s1 = obj_map L l s" unfolding s1_def by (rule obj_map_frame) simp
  have gs: "ctc_sai_get_switch_property L l s = (Some (SwitchData sw), s1)"
    using dev sw o1 by (simp add: ctc_sai_get_switch_property_def case_prod_beta Let_def s1_def [symmetric] obj_map_get device_accepts_def)
  have ok: "ctc_sai_mapping_error_ctc L (rc (env L t (QosSetDropScheme l d))) = SAI_STATUS_SUCCESS" for t d
    using dev err_none by (simp add: device_accepts_def ctc_sai_mapping_error_ctc_def)
  have o2: "obj_map L l (snd (ext_call L (QosSetDropScheme l d) s1)) = obj_map L l s" for d
    using obj_map_frame [of "snd (ext_call L (QosSetDropScheme l d) s1)" s1] o1 by simp
  have "fst (ctc_sai_wred_queue_set_wred L q b 0 False s) = SAI_STATUS_SUCCESS"
    using w by (simp add: ctc_sai_wred_queue_set_wred_def ctc_sai_get_ctc_object_id_def l obj_map_get gs Let_def case_prod_beta
        ok o2 status_leaves_def wred_unuse_def)
  then show ?thesis
    using a q(2) by (simp add: queue_set_attr_wred_def lc gq binds_def [symmetric] Let_def case_prod_beta status_leaves_def)
qed

lemma unbind_progress:
  assumes s: "sound L l s" "counted l (obj_map L l s)" and dev: "device_accepts L l g" and rdy: "queues_ready l g i (obj_map L l s)"
    and i: "i \<noteq> 0" and q: "q \<in> wred_users (obj_map L l s) i"
  shows "\<exists>s'. wred_reach L l s s' \<and> sound L l s' \<and> counted l (obj_map L l s') \<and> queues_ready l g i (obj_map L l s') \<and>
    wred_users (obj_map L l s') i = wred_users (obj_map L l s) i - {q} \<and>
    (\<exists>w. obj_map L l s' (wred_oid l i) = Some (WredData w)) \<and> (\<forall>j. j \<noteq> i \<longrightarrow> obj_map L l s' (wred_oid l j) = obj_map L l s (wred_oid l j))"
proof -
  let ?M = "obj_map L l s"
  define a where "a = \<lparr>attr_id = 0, attr_value = \<lparr>raw = 0, objs = []\<rparr>\<rparr>"
  have na: "\<not> binds a" "named_profile a = 0" by (simp_all add: a_def binds_def named_profile_def oiddata_def)
  obtain r where r: "?M q = Some (QueueData r)" "q_wred_id r = i" using q by (auto simp: wred_users_def)
  have ty: "oid_type q = SAI_OBJECT_TYPE_QUEUE" using sound_fits [OF s(1) r(1)] by simp
  have l: "ucast (o_lchip (oid_unpack q)) = l" using rdy q by (simp add: queues_ready_def)
  have b: "bound_to ?M q = i" using r by (simp add: bound_to_def)
  obtain w where w: "?M (wred_oid l i) = Some (WredData w)" using counted_exists [OF s(2) r(1)] r(2) i by auto
  obtain s' where run: "queue_set_attr_wred L q a s = (SAI_STATUS_SUCCESS, s')"
    using unbind_succeeds [OF s(1) dev rdy r w na(1)] by (metis prod.collapse)
  obtain r' where s': "sound L l s'" and r': "q_wred_id r' = 0" and m: "obj_map L l s' = ?M(wred_oid l i \<mapsto> WredData (dec w), q \<mapsto> QueueData r')"
    using same_profile_map [OF s(1) ty l b i w _ run] na by auto
  have reach: "wred_reach L l s s'" by (rule wred_reach.bind [OF wred_reach.start ty l _ run]) (simp add: na(2))
  have c: "counted l (obj_map L l s')" using bind_step [OF s ty l refl _ run] na(2) by (simp add: wred_kept_def)
  note qw = queue_not_wred [OF ty, of l]
  have bd: "bound_to (obj_map L l s') x = (if x = q then 0 else bound_to ?M x)" for x
    unfolding m using r' w by (simp add: bound_upd bound_wred)
  have us: "wred_users (obj_map L l s') i = wred_users ?M i - {q}"
    by (rule set_eqI) (use i in \<open>simp add: users_bound bd\<close>)
  have "queues_ready l g i (obj_map L l s')"
  proof -
    have sw: "ctc_sai_create_object_id SAI_OBJECT_TYPE_SWITCH l 0 0 g \<noteq> q" "ctc_sai_create_object_id SAI_OBJECT_TYPE_SWITCH l 0 0 g \<noteq> wred_oid l i"
      using ty wred_oid_type [of l i] create_type [of SAI_OBJECT_TYPE_SWITCH l 0 0 g] by auto
    then show ?thesis using rdy us unfolding queues_ready_def by (auto simp: m)
  qed
  moreover have "obj_map L l s' (wred_oid l i) = Some (WredData (dec w))" using qw [of i] unfolding m by simp
  moreover have "\<forall>j. j \<noteq> i \<longrightarrow> obj_map L l s' (wred_oid l j) = ?M (wred_oid l j)" using qw unfolding m by simp
  ultimately show ?thesis using reach s' c us by blast
qed

lemma unbind_all:
  assumes dev: "device_accepts L l g" and i: "i \<noteq> 0"
  shows "sound L l s \<Longrightarrow> counted l (obj_map L l s) \<Longrightarrow> queues_ready l g i (obj_map L l s) \<Longrightarrow>
    obj_map L l s (wred_oid l i) = Some (WredData w) \<Longrightarrow> card (wred_users (obj_map L l s) i) = n \<Longrightarrow>
    \<exists>s' w'. wred_reach L l s s' \<and> sound L l s' \<and> counted l (obj_map L l s') \<and> wred_users (obj_map L l s') i = {} \<and>
      obj_map L l s' (wred_oid l i) = Some (WredData w') \<and> (\<forall>j. j \<noteq> i \<longrightarrow> obj_map L l s' (wred_oid l j) = obj_map L l s (wred_oid l j))"
proof (induction n arbitrary: s w)
  case 0
  have "finite (wred_users (obj_map L l s) i)" using counted_count [OF 0(2) i 0(4)] by simp
  then have "wred_users (obj_map L l s) i = {}" using 0(5) by simp
  then show ?case using 0 wred_reach.start [of L l s] by blast
next
  case (Suc n)
  have fin: "finite (wred_users (obj_map L l s) i)" using counted_count [OF Suc.prems(2) i Suc.prems(4)] by simp
  obtain q where q: "q \<in> wred_users (obj_map L l s) i" using Suc.prems(5) by (metis card.empty ex_in_conv nat.distinct(1))
  obtain s1 w1 where s1: "wred_reach L l s s1" "sound L l s1" "counted l (obj_map L l s1)" "queues_ready l g i (obj_map L l s1)"
      "wred_users (obj_map L l s1) i = wred_users (obj_map L l s) i - {q}" "obj_map L l s1 (wred_oid l i) = Some (WredData w1)"
      "\<forall>j. j \<noteq> i \<longrightarrow> obj_map L l s1 (wred_oid l j) = obj_map L l s (wred_oid l j)"
    using unbind_progress [OF Suc.prems(1,2) dev Suc.prems(3) i q] by blast
  have "card (wred_users (obj_map L l s1) i) = n" using s1(5) q fin Suc.prems(5) by simp
  from Suc.IH [OF s1(2,3,4,6) this] obtain s' w' where e: "wred_reach L l s1 s'" "sound L l s'" "counted l (obj_map L l s')"
      "wred_users (obj_map L l s') i = {}" "obj_map L l s' (wred_oid l i) = Some (WredData w')"
      "\<forall>j. j \<noteq> i \<longrightarrow> obj_map L l s' (wred_oid l j) = obj_map L l s1 (wred_oid l j)"
    by blast
  then show ?case using wred_reach_trans [OF e(1) s1(1)] s1(7) by force
qed

end

section \<open>Theorems\<close>

text \<open>
  Property C26: the users of a WRED profile are counted. However profiles are created, removed and
  changed and queues bound to profiles that they do not use yet and that have less than 65535 users,
  and unbound, whether the calls succeed or not, every profile's count is the number of the queues whose record names it, and a
  profile that a queue names exists. So a profile can be removed exactly when no queue uses it, and
  the locks are balanced.
\<close>

theorem wred_reach_counted:
  assumes "ctc_lib_laws L" and "sound L l s0" and "counted l (obj_map L l s0)" and "wred_reach L l s0 s"
  shows "sound L l s \<and> counted l (obj_map L l s) \<and> lock_depth (trace s) = lock_depth (trace s0) \<and>
    (\<forall>i w. i \<noteq> 0 \<and> obj_map L l s (wred_oid l i) = Some (WredData w) \<longrightarrow>
       fst (ctc_sai_wred_remove_wred_id L (wred_oid l i) s) =
         (if wred_users (obj_map L l s) i = {} then SAI_STATUS_SUCCESS else SAI_STATUS_OBJECT_IN_USE))"
proof -
  have k: "sound L l s" "counted l (obj_map L l s)" "lock_depth (trace s) = lock_depth (trace s0)"
    using wred_reach_kept [OF assms(1,4,2,3)] by (simp_all add: wred_kept_def)
  have "fst (ctc_sai_wred_remove_wred_id L (wred_oid l i) s) =
      (if wred_users (obj_map L l s) i = {} then SAI_STATUS_SUCCESS else SAI_STATUS_OBJECT_IN_USE)"
    if i: "i \<noteq> 0" and w: "obj_map L l s (wred_oid l i) = Some (WredData w)" for i w
    using remove_outcome [OF k(1) w] counted_count [OF k(2) i w] by (auto simp: unat_eq_zero)
  then show ?thesis using k by blast
qed

text \<open>
  Property C29: binding a queue to the profile it uses already. When the call succeeds the profile
  counts a user more although no queue was added. After the queue, the only user, is unbound again
  no queue uses the profile, but its removal is refused because it is in use.
\<close>

theorem wred_rebind_leaks:
  assumes "ctc_lib_laws L" and "sound L l s" and "counted l (obj_map L l s)"
    and "oid_type q = SAI_OBJECT_TYPE_QUEUE" and "ucast (o_lchip (oid_unpack q)) = l"
    and "i \<noteq> 0" and "wred_users (obj_map L l s) i = {q}" and "named_profile a = i" and "\<not> binds b"
    and "queue_set_attr_wred L q a s = (SAI_STATUS_SUCCESS, s1)"
    and "queue_set_attr_wred L q b s1 = (SAI_STATUS_SUCCESS, s2)"
  shows "wred_users (obj_map L l s1) i = {q} \<and> \<not> counted l (obj_map L l s1) \<and>
    wred_users (obj_map L l s2) i = {} \<and>
    fst (ctc_sai_wred_remove_wred_id L (wred_oid l i) s2) = SAI_STATUS_OBJECT_IN_USE"
proof -
  let ?M = "obj_map L l s" and ?M1 = "obj_map L l s1" and ?M2 = "obj_map L l s2"
  have bi: "bound_to ?M q = i" using users_bound [OF assms(6), of q ?M] assms(7) by simp
  obtain w where w: "?M (wred_oid l i) = Some (WredData w)" using bound_exists [OF assms(3), of q] bi assms(6) by auto
  have u: "used_cnt w = 1" using counted_count [OF assms(3,6) w] assms(7) by (simp add: word_unat_eq_iff)
  have ba: "binds a" using assms(6,8) by (auto simp: named_profile_def split: if_splits)
  have nb: "named_profile b = 0" using assms(9) by (simp add: named_profile_def)
  note qw = queue_not_wred [OF assms(4), of l]
  obtain r where s1: "sound L l s1" and r: "q_wred_id r = i"
      and m1: "?M1 = ?M(wred_oid l i \<mapsto> WredData (w\<lparr>used_cnt := 2\<rparr>), q \<mapsto> QueueData r)"
    using ctc_lib_laws.same_profile_map [OF assms(1,2,4,5) bi assms(6) w _ assms(10)] assms(8) ba u by auto
  have b1: "bound_to ?M1 x = bound_to ?M x" for x unfolding m1 using bi r w by (simp add: bound_upd bound_wred)
  then have bq: "bound_to ?M1 q = i" using bi by simp
  have w1: "?M1 (wred_oid l i) = Some (WredData (w\<lparr>used_cnt := 2\<rparr>))" using qw by (simp add: m1)
  obtain r' where s2: "sound L l s2" and r': "q_wred_id r' = 0"
      and m2: "?M2 = ?M1(wred_oid l i \<mapsto> WredData (dec (w\<lparr>used_cnt := 2\<rparr>)), q \<mapsto> QueueData r')"
    using ctc_lib_laws.same_profile_map [OF assms(1) s1 assms(4,5) bq assms(6) w1 _ assms(11)] assms(9) nb by auto
  have us1: "wred_users ?M1 i = {q}" unfolding assms(7) [symmetric] by (rule set_eqI) (simp add: users_bound [OF assms(6)] b1)
  have b2: "bound_to ?M2 x = (if x = q then 0 else bound_to ?M1 x)" for x
    unfolding m2 using r' w1 by (simp add: bound_upd bound_wred)
  have us2: "wred_users ?M2 i = {}"
  proof (rule equals0I)
    fix x assume "x \<in> wred_users ?M2 i"
    then have "bound_to ?M2 x = i" using users_bound [OF assms(6)] by simp
    moreover from this have "x \<noteq> q" using b2 [of q] assms(6) by auto
    ultimately have "x \<in> wred_users ?M1 i" using b2 [of x] users_bound [OF assms(6)] by simp
    then show False using us1 \<open>x \<noteq> q\<close> by simp
  qed
  have "\<not> counted l ?M1"
  proof
    assume "counted l ?M1"
    from counted_count [OF this assms(6) w1] show False using us1 by simp
  qed
  moreover have "?M2 (wred_oid l i) = Some (WredData (w\<lparr>used_cnt := 1\<rparr>))" using qw by (simp add: m2 dec_def)
  ultimately show ?thesis using remove_outcome [OF s2] us1 us2 by simp
qed

text \<open>
  Property C28: what is set on a WRED profile is read back modulo two to the sixteen. Setting one of
  the twelve supported attributes of a profile succeeds, whatever the device answers; reading the
  attribute afterwards gives the flag that was set, or the number cut to the 16 bits that the record
  keeps, and both calls leave the locks as they were.
\<close>

theorem wred_set_get:
  assumes "ctc_lib_laws L" and "sound L l s" and "oid_type oid = SAI_OBJECT_TYPE_WRED"
    and "ucast (o_lchip (oid_unpack oid)) = l" and "obj_map L l s oid = Some (WredData w)" and "wred_wf w"
    and "unat (attr_id a) < 12" and "attr_id b = attr_id a"
    and "ctc_sai_wred_set_attribute L oid (Some a) s = (st, s1)"
  shows "st = SAI_STATUS_SUCCESS \<and>
    (\<exists>b' s2. ctc_sai_wred_get_attribute L oid 1 (Some [b]) s1 = Some ((SAI_STATUS_SUCCESS, Some [b']), s2) \<and>
       attr_id b' = attr_id a \<and> obj_map L l s2 = obj_map L l s1 \<and> lock_depth (trace s2) = lock_depth (trace s) \<and>
       (if unat (attr_id a) mod 4 = 0 then booldata (attr_value b') = booldata (attr_value a)
        else unat (u32data (attr_value b')) = unat (u32data (attr_value a)) mod 2 ^ 16))"
proof -
  note k = ctc_lib_laws.set_attribute_step [OF assms(1-5,7,9)]
  obtain b' where b: "wred_read (attr_id a) (fields [a] w) b = Some b'" "attr_id b' = attr_id b"
      "if unat (attr_id a) mod 4 = 0 then booldata (attr_value b') = booldata (attr_value a)
       else u32data (attr_value b') = ucast (ucast (u32data (attr_value a)) :: u16)"
    using wred_read_field [OF assms(7,6), of b] by blast
  have w: "obj_map L l s1 oid = Some (WredData (fields [a] w))" using k(4) by simp
  have b0: "wred_read (attr_id b) (fields [a] w) b = Some b'" "unat (attr_id b) < 12" using b(1) assms(7,8) by simp_all
  note g = ctc_lib_laws.get_attribute_step [OF assms(1) k(2) assms(3,4) w b0]
  let ?s2 = "snd (ctc_sai_db_unlock L l (snd (ctc_sai_db_lock L l s1)))"
  have "obj_map L l ?s2 = obj_map L l s1" using obj_map_frame [of ?s2 s1] by simp
  moreover have "lock_depth (trace ?s2) = lock_depth (trace s)"
    using lock_section_depth [OF k(2) lock_step(2) [OF k(2)] refl] k(3) by simp
  moreover have "unat (ucast (ucast (u32data (attr_value a)) :: u16) :: u32) = unat (u32data (attr_value a)) mod 2 ^ 16"
    by (simp add: unsigned_ucast_eq take_bit_eq_mod unat_mod)
  ultimately show ?thesis using k(1) g b(2,3) assms(8) by auto
qed

text \<open>
  Property C30: a WRED profile can always be got rid of. With a device that takes the drop schemes,
  calls lead from every sound state with right counts to one in which a given profile is gone,
  whatever number of queues uses it: each is unbound, and the removal then succeeds. The other
  profiles are left as they were.
\<close>

theorem wred_can_be_removed:
  assumes "ctc_lib_laws L" and "device_accepts L l g" and "sound L l s" and "counted l (obj_map L l s)"
    and "queues_ready l g i (obj_map L l s)" and "i \<noteq> 0" and "obj_map L l s (wred_oid l i) = Some (WredData w)"
  shows "\<exists>s'. wred_reach L l s s' \<and> obj_map L l s' (wred_oid l i) = None \<and>
    (\<forall>j. j \<noteq> i \<longrightarrow> obj_map L l s' (wred_oid l j) = obj_map L l s (wred_oid l j))"
proof -
  obtain s1 w1 where s1: "wred_reach L l s s1" "sound L l s1" "counted l (obj_map L l s1)" "wred_users (obj_map L l s1) i = {}"
      "obj_map L l s1 (wred_oid l i) = Some (WredData w1)" "\<forall>j. j \<noteq> i \<longrightarrow> obj_map L l s1 (wred_oid l j) = obj_map L l s (wred_oid l j)"
    using ctc_lib_laws.unbind_all [OF assms(1,2,6,3,4,5,7) refl] by blast
  have u: "used_cnt w1 = 0" using counted_count [OF s1(3) assms(6) s1(5)] s1(4) by (simp add: unat_eq_zero)
  obtain st s' where run: "ctc_sai_wred_remove_wred_id L (wred_oid l i) s1 = (st, s')" by (rule prod.exhaust)
  note l = wred_oid_lchip [OF s1(2)]
  have "wred_reach L l s s'" by (rule wred_reach.remove [OF s1(1) wred_oid_type l run])
  moreover have "obj_map L l s' = (obj_map L l s1)(wred_oid l i := None)"
    by (rule ctc_lib_laws.remove_unused(4) [OF assms(1) s1(2) wred_oid_type l s1(5) u run])
  ultimately show ?thesis using s1(6) by auto
qed

text \<open>
  Property C27: the twelve searches of the attribute list, each for one attribute number, do what one
  pass over the list does that writes each attribute where its number says, later entries first, so
  that of several entries with one number the first counts.
\<close>

theorem wred_attributes_one_pass:
  "wred_map_attr_to_db (Some as) attr_count w = foldr wred_write (take (unat attr_count) as) w"
  by (simp add: map_attr_fields fields_foldr)

section \<open>A sample\<close>

text \<open>A chip with its switch, a profile and a queue that is bound to it, made by the calls themselves.\<close>

definition ref_wred_0 :: "(ref_oid, ref_ent, ref_vec) sai_state" where
  "ref_wred_0 = ref_add (ctc_sai_create_object_id SAI_OBJECT_TYPE_SWITCH 0 0 0 1,
     SwitchData \<lparr>port_queues = 8, default_bridge_id = 1, default_wtd_thrd = [300, 200, 100]\<rparr>) ref_state"

definition ref_wred_1 :: "(sai_status \<times> sai_object_id option) \<times> (ref_oid, ref_ent, ref_vec) sai_state" where
  "ref_wred_1 = ctc_sai_wred_create_wred_id ref_lib False 0 1 (Some [ref_attr SAI_WRED_ATTR_GREEN_ENABLE 1]) ref_wred_0"

definition ref_queue :: sai_object_id where
  "ref_queue = ctc_sai_create_object_id SAI_OBJECT_TYPE_QUEUE 0 0 0 5"

definition ref_binding :: "sai_object_id \<Rightarrow> sai_attribute" where
  "ref_binding = ref_attr 3"

definition ref_wred_2 :: "sai_status \<times> (ref_oid, ref_ent, ref_vec) sai_state" where
  "ref_wred_2 = queue_set_attr_wred ref_lib ref_queue (ref_binding (wred_oid 0 1)) (snd ref_wred_1)"

definition ref_profile :: ctc_sai_wred_db where
  "ref_profile = \<lparr>color_en = [1, 0, 0], min_th = [0, 0, 0], max_th = [0, 0, 0], drop_prob = [100, 100, 100], used_cnt = 1\<rparr>"

lemma ref_wred_look:
  "ctc_sai_oid_get_lchip (inited ref_wred_0) 0 = (0, Some 0)"
  "oid_type ref_queue = SAI_OBJECT_TYPE_QUEUE" "ucast (o_lchip (oid_unpack ref_queue)) = (0 :: u8)"
  "named_profile (ref_binding (wred_oid 0 1)) = 1" "bound_to (obj_map ref_lib 0 (snd ref_wred_1)) ref_queue = 0"
  "obj_map ref_lib 0 (snd ref_wred_1) (wred_oid 0 1) = Some (WredData (ref_profile\<lparr>used_cnt := 0\<rparr>))"
  "obj_map ref_lib 0 (snd ref_wred_2) (wred_oid 0 1) = Some (WredData ref_profile)"
  "bound_to (obj_map ref_lib 0 (snd ref_wred_2)) ref_queue = 1" "\<not> binds (ref_binding 0)"
  "obj_map ref_lib 0 (snd ref_wred_2) (ctc_sai_create_object_id SAI_OBJECT_TYPE_SWITCH 0 0 0 1) =
     Some (SwitchData \<lparr>port_queues = 8, default_bridge_id = 1, default_wtd_thrd = [300, 200, 100]\<rparr>)"
proof -
  have "let s = snd ref_wred_1 in bound_to (obj_map ref_lib 0 s) ref_queue = 0 \<and>
      obj_map ref_lib 0 s (wred_oid 0 1) = Some (WredData (ref_profile\<lparr>used_cnt := 0\<rparr>))"
    by code_simp
  then show "bound_to (obj_map ref_lib 0 (snd ref_wred_1)) ref_queue = 0"
      "obj_map ref_lib 0 (snd ref_wred_1) (wred_oid 0 1) = Some (WredData (ref_profile\<lparr>used_cnt := 0\<rparr>))"
    by (simp_all only: Let_def)
  have "let s = snd ref_wred_2 in obj_map ref_lib 0 s (wred_oid 0 1) = Some (WredData ref_profile) \<and>
      bound_to (obj_map ref_lib 0 s) ref_queue = 1 \<and>
      obj_map ref_lib 0 s (ctc_sai_create_object_id SAI_OBJECT_TYPE_SWITCH 0 0 0 1) =
        Some (SwitchData \<lparr>port_queues = 8, default_bridge_id = 1, default_wtd_thrd = [300, 200, 100]\<rparr>)"
    by code_simp
  then show "obj_map ref_lib 0 (snd ref_wred_2) (wred_oid 0 1) = Some (WredData ref_profile)"
      "bound_to (obj_map ref_lib 0 (snd ref_wred_2)) ref_queue = 1"
      "obj_map ref_lib 0 (snd ref_wred_2) (ctc_sai_create_object_id SAI_OBJECT_TYPE_SWITCH 0 0 0 1) =
         Some (SwitchData \<lparr>port_queues = 8, default_bridge_id = 1, default_wtd_thrd = [300, 200, 100]\<rparr>)"
    by (simp_all only: Let_def)
qed code_simp+

lemma ref_wred_0_ok: "sound ref_lib 0 ref_wred_0" "counted 0 (obj_map ref_lib 0 ref_wred_0)"
proof -
  let ?x = "(ctc_sai_create_object_id SAI_OBJECT_TYPE_SWITCH 0 0 0 1, SwitchData \<lparr>port_queues = 8, default_bridge_id = 1, default_wtd_thrd = [300, 200, 100]\<rparr>)"
  have fits: "data_fits (oid_type (fst ?x)) (snd ?x)" by (simp add: create_type)
  obtain st s where ad: "ctc_sai_db_add_object_property ref_lib 0 (fst ?x) (Some (snd ?x)) ref_state = (st, s)" by (rule prod.exhaust)
  note k = ref_laws.add_step [OF ref_state_sound fits ad]
  have s: "ref_wred_0 = s" using ad by (simp only: ref_wred_0_def ref_add_def fst_conv snd_conv)
  have e: "obj_map ref_lib 0 ref_state = (\<lambda>x. None)"
    using ref_laws.fresh_db_lookup
    by (auto simp: fun_eq_iff obj_map_def ctc_sai_db_get_object_property_def ref_state_def split: if_splits option.splits)
  have m: "obj_map ref_lib 0 s = obj_map ref_lib 0 ref_state \<or> obj_map ref_lib 0 s = (obj_map ref_lib 0 ref_state)(fst ?x \<mapsto> snd ?x)"
    using k(1,4,6) obj_map_frame [of s ref_state] by (cases "st = SAI_STATUS_SUCCESS") blast+
  show "sound ref_lib 0 ref_wred_0" using k(2) s by simp
  show "counted 0 (obj_map ref_lib 0 ref_wred_0)" using m unfolding e s by (auto simp: counted_def split: if_splits)
qed

lemma ref_wred_1_reach: "wred_reach ref_lib 0 ref_wred_0 (snd ref_wred_1)"
  by (rule wred_reach.create [OF wred_reach.start ref_wred_look(1), where r = "fst ref_wred_1" and null = False and n = 1
        and as = "Some [ref_attr SAI_WRED_ATTR_GREEN_ENABLE 1]"])
    (simp only: ref_wred_1_def [symmetric] prod.collapse)

lemma ref_wred_2_reach: "wred_reach ref_lib 0 ref_wred_0 (snd ref_wred_2)"
proof -
  have "counted 0 (obj_map ref_lib 0 (snd ref_wred_1))"
    using wred_reach_kept [OF ref_laws.ctc_lib_laws_axioms ref_wred_1_reach ref_wred_0_ok] by (simp add: wred_kept_def)
  from counted_count [OF this _ ref_wred_look(6)] have "card (wred_users (obj_map ref_lib 0 (snd ref_wred_1)) 1) = 0" by simp
  then show ?thesis
    using wred_reach.bind [OF ref_wred_1_reach ref_wred_look(2,3), where b = "ref_binding (wred_oid 0 1)" and st = "fst ref_wred_2"]
    by (simp add: ref_wred_look(4,5) ref_wred_2_def)
qed

lemma ref_wred_2_ok: "sound ref_lib 0 (snd ref_wred_2)" "counted 0 (obj_map ref_lib 0 (snd ref_wred_2))"
  using wred_reach_kept [OF ref_laws.ctc_lib_laws_axioms ref_wred_2_reach ref_wred_0_ok] by (simp_all add: wred_kept_def)

lemma ref_users: "wred_users (obj_map ref_lib 0 (snd ref_wred_2)) 1 = {ref_queue}"
proof -
  have "card (wred_users (obj_map ref_lib 0 (snd ref_wred_2)) 1) = 1"
    using counted_count [OF ref_wred_2_ok(2) _ ref_wred_look(7)] by (simp add: ref_profile_def)
  moreover have "ref_queue \<in> wred_users (obj_map ref_lib 0 (snd ref_wred_2)) 1" using ref_wred_look(8) by (simp add: users_bound)
  ultimately show ?thesis by (metis card_1_singletonE singletonD)
qed

theorem wred_reach_counted_witness:
  "fst (ctc_sai_wred_remove_wred_id ref_lib (wred_oid 0 1) (snd ref_wred_2)) = SAI_STATUS_OBJECT_IN_USE"
proof -
  have "(1 :: u32) \<noteq> 0 \<and> obj_map ref_lib 0 (snd ref_wred_2) (wred_oid 0 1) = Some (WredData ref_profile)" using ref_wred_look(7) by simp
  then show ?thesis
    using wred_reach_counted [OF ref_laws.ctc_lib_laws_axioms ref_wred_0_ok ref_wred_2_reach] ref_users
    by (metis insert_not_empty)
qed

theorem wred_rebind_leaks_witness:
  "\<exists>s1 s2. queue_set_attr_wred ref_lib ref_queue (ref_binding (wred_oid 0 1)) (snd ref_wred_2) = (SAI_STATUS_SUCCESS, s1) \<and>
     queue_set_attr_wred ref_lib ref_queue (ref_binding 0) s1 = (SAI_STATUS_SUCCESS, s2) \<and>
     fst (ctc_sai_wred_remove_wred_id ref_lib (wred_oid 0 1) s2) = SAI_STATUS_OBJECT_IN_USE"
proof -
  let ?r = "queue_set_attr_wred ref_lib ref_queue (ref_binding (wred_oid 0 1)) (snd ref_wred_2)"
  have "let r = ?r in fst r = SAI_STATUS_SUCCESS \<and> fst (queue_set_attr_wred ref_lib ref_queue (ref_binding 0) (snd r)) = SAI_STATUS_SUCCESS"
    by code_simp
  then have c: "fst ?r = SAI_STATUS_SUCCESS" "fst (queue_set_attr_wred ref_lib ref_queue (ref_binding 0) (snd ?r)) = SAI_STATUS_SUCCESS"
    by (simp_all only: Let_def)
  obtain s1 where r1: "?r = (SAI_STATUS_SUCCESS, s1)" using run_state [OF c(1)] by blast
  obtain s2 where r2: "queue_set_attr_wred ref_lib ref_queue (ref_binding 0) s1 = (SAI_STATUS_SUCCESS, s2)"
    using run_state [OF c(2)] unfolding r1 snd_conv by blast
  have "(1 :: u32) \<noteq> 0" by simp
  from wred_rebind_leaks [OF ref_laws.ctc_lib_laws_axioms ref_wred_2_ok ref_wred_look(2,3) this ref_users ref_wred_look(4,9) r1 r2]
  show ?thesis using r1 r2 by blast
qed

theorem wred_set_get_witness:
  "\<exists>s1 b s2. ctc_sai_wred_set_attribute ref_lib (wred_oid 0 1) (Some (ref_attr SAI_WRED_ATTR_GREEN_MIN_THRESHOLD 70000)) (snd ref_wred_2) =
       (SAI_STATUS_SUCCESS, s1) \<and>
     ctc_sai_wred_get_attribute ref_lib (wred_oid 0 1) 1 (Some [ref_attr SAI_WRED_ATTR_GREEN_MIN_THRESHOLD 0]) s1 =
       Some ((SAI_STATUS_SUCCESS, Some [b]), s2) \<and> unat (u32data (attr_value b)) = 4464"
proof -
  let ?a = "ref_attr SAI_WRED_ATTR_GREEN_MIN_THRESHOLD 70000" and ?b = "ref_attr SAI_WRED_ATTR_GREEN_MIN_THRESHOLD 0"
  obtain st s1 where r: "ctc_sai_wred_set_attribute ref_lib (wred_oid 0 1) (Some ?a) (snd ref_wred_2) = (st, s1)" by (rule prod.exhaust)
  have t: "oid_type (wred_oid 0 1) = SAI_OBJECT_TYPE_WRED" "ucast (o_lchip (oid_unpack (wred_oid 0 1))) = (0 :: u8)"
      "wred_wf ref_profile" "unat (attr_id ?a) < 12" "attr_id ?b = attr_id ?a"
    by code_simp+
  have v: "unat (u32data (attr_value ?a)) mod 2 ^ 16 = 4464" "unat (attr_id ?a) mod 4 = 1"
    by (simp_all add: u32data_def ref_attr_def)
  note e = wred_set_get [OF ref_laws.ctc_lib_laws_axioms ref_wred_2_ok(1) t(1,2) ref_wred_look(7) t(3-5) r,
      unfolded v]
  then have "st = SAI_STATUS_SUCCESS" by blast
  moreover obtain b s2 where "ctc_sai_wred_get_attribute ref_lib (wred_oid 0 1) 1 (Some [?b]) s1 = Some ((SAI_STATUS_SUCCESS, Some [b]), s2)"
      "unat (u32data (attr_value b)) = 4464"
    using e by (simp only: one_neq_zero if_False) blast
  ultimately show ?thesis using r by blast
qed

theorem wred_can_be_removed_witness:
  "\<exists>s'. wred_reach ref_lib 0 (snd ref_wred_2) s' \<and> obj_map ref_lib 0 s' (wred_oid 0 1) = None"
proof -
  have dev: "device_accepts ref_lib 0 1" by (simp add: device_accepts_def ref_lib_def ref_env_def out_val_def)
  have rdy: "queues_ready 0 1 1 (obj_map ref_lib 0 (snd ref_wred_2))"
    using ref_wred_look(10) ref_users ref_wred_look(3) by (simp add: queues_ready_def)
  have "(1 :: u32) \<noteq> 0" by simp
  from wred_can_be_removed [OF ref_laws.ctc_lib_laws_axioms dev ref_wred_2_ok rdy this ref_wred_look(7)]
  show ?thesis by blast
qed

end
