(* ===== verification/SAI_Stp.thy ===== *)
theory SAI_Stp
  imports SAI_Store
begin

text \<open>
  The spanning tree module (\<^verbatim>\<open>centec/src/ctc_sai_stp.c\<close>): instances, the ports bound to them and the
  VLANs that use them. An instance keeps its ports and VLANs in bit maps and counts them beside the
  maps; the invariant \<open>stp_counted\<close> says that the counts are right. The macros of the SDK that the
  module uses for bit maps, port numbers and states are the parameter \<open>Q\<close>, the locale \<open>bitmaps\<close>
  states what is documented of the bit maps.
\<close>

section \<open>Constants and macros of the SDK\<close>

abbreviation (input) SAI_STP_ATTR_VLAN_LIST :: u32 where "SAI_STP_ATTR_VLAN_LIST \<equiv> 0"
abbreviation (input) SAI_STP_ATTR_BRIDGE_ID :: u32 where "SAI_STP_ATTR_BRIDGE_ID \<equiv> 1"
abbreviation (input) SAI_STP_ATTR_PORT_LIST :: u32 where "SAI_STP_ATTR_PORT_LIST \<equiv> 2"
abbreviation (input) SAI_STP_PORT_ATTR_STP :: u32 where "SAI_STP_PORT_ATTR_STP \<equiv> 0"
abbreviation (input) SAI_STP_PORT_ATTR_BRIDGE_PORT :: u32 where "SAI_STP_PORT_ATTR_BRIDGE_PORT \<equiv> 1"
abbreviation (input) SAI_STP_PORT_ATTR_STATE :: u32 where "SAI_STP_PORT_ATTR_STATE \<equiv> 2"
abbreviation (input) SAI_STP_PORT_STATE_LEARNING :: u32 where "SAI_STP_PORT_STATE_LEARNING \<equiv> 0"
abbreviation (input) SAI_STP_PORT_STATE_FORWARDING :: u32 where "SAI_STP_PORT_STATE_FORWARDING \<equiv> 1"
abbreviation (input) SAI_STP_PORT_STATE_BLOCKING :: u32 where "SAI_STP_PORT_STATE_BLOCKING \<equiv> 2"
abbreviation (input) SAI_BRIDGE_PORT_TYPE_PORT :: u8 where "SAI_BRIDGE_PORT_TYPE_PORT \<equiv> 0"
abbreviation (input) SAI_BRIDGE_TYPE_1Q :: u8 where "SAI_BRIDGE_TYPE_1Q \<equiv> 0"
abbreviation (input) BULK_STOP_ON_ERROR :: nat where "BULK_STOP_ON_ERROR \<equiv> 0"

text \<open>A state of the device is a byte; \<^verbatim>\<open>CTC_STP_UNAVAIL\<close> stands for a state the interface does not name.\<close>

datatype ctc_stp = CTC_STP_FORWARDING | CTC_STP_BLOCKING | CTC_STP_LEARNING | CTC_STP_UNAVAIL

record stp_sdk =
  bmp_set :: "u32 list \<Rightarrow> nat \<Rightarrow> u32 list"
  bmp_unset :: "u32 list \<Rightarrow> nat \<Rightarrow> u32 list"
  bmp_isset :: "u32 list \<Rightarrow> nat \<Rightarrow> bool"
  lport_to_gport :: "u8 \<Rightarrow> nat \<Rightarrow> u32"
  gport_to_lport :: "u32 \<Rightarrow> nat"
  is_linkagg_port :: "u32 \<Rightarrow> bool"
  stp_state :: "ctc_stp \<Rightarrow> u8"

text \<open>The bits of an array of words that are set, in ascending order.\<close>

definition bits :: "stp_sdk \<Rightarrow> u32 list \<Rightarrow> nat list" where
  "bits Q b = filter (bmp_isset Q b) [0..<32 * length b]"

locale bitmaps =
  fixes Q :: stp_sdk
  assumes set_bit: "i < 32 * length b \<Longrightarrow> j < 32 * length b \<Longrightarrow> bmp_isset Q (bmp_set Q b i) j \<longleftrightarrow> j = i \<or> bmp_isset Q b j"
    and unset_bit: "i < 32 * length b \<Longrightarrow> j < 32 * length b \<Longrightarrow> bmp_isset Q (bmp_unset Q b i) j \<longleftrightarrow> j \<noteq> i \<and> bmp_isset Q b j"
    and set_length: "i < 32 * length b \<Longrightarrow> length (bmp_set Q b i) = length b"
    and unset_length: "i < 32 * length b \<Longrightarrow> length (bmp_unset Q b i) = length b"
    and zero_bit: "\<not> bmp_isset Q (replicate n 0) i"
    and bits_all: "length a = length b \<Longrightarrow> (\<And>i. i < 32 * length b \<Longrightarrow> bmp_isset Q a i = bmp_isset Q b i) \<Longrightarrow> a = b"
begin

lemma bits_set_eq: "i < 32 * length b \<Longrightarrow> set (bits Q (bmp_set Q b i)) = insert i (set (bits Q b))"
  by (auto simp: bits_def set_length set_bit)

lemma bits_unset_eq: "i < 32 * length b \<Longrightarrow> set (bits Q (bmp_unset Q b i)) = set (bits Q b) - {i}"
  by (auto simp: bits_def unset_length unset_bit)

lemma bits_zero [simp]: "bits Q (replicate n 0) = []"
  by (simp add: bits_def zero_bit)

lemma unset_set: "i < 32 * length b \<Longrightarrow> \<not> bmp_isset Q b i \<Longrightarrow> bmp_unset Q (bmp_set Q b i) i = b"
  by (rule bits_all) (auto simp: set_length unset_length set_bit unset_bit)

end

lemma bits_distinct [simp]: "distinct (bits Q b)"
  by (simp add: bits_def)

lemma bits_length: "length (bits Q b) = card (set (bits Q b))"
  by (simp add: distinct_card)

lemma bits_bound: "length (bits Q b) \<le> 32 * length b"
  unfolding bits_def using length_filter_le [of "bmp_isset Q b" "[0..<32 * length b]"] by simp

section \<open>Port states\<close>

definition ctc_sai_stp_check_port_state :: "u32 \<Rightarrow> sai_status" where
  "ctc_sai_stp_check_port_state st =
     (if st = SAI_STP_PORT_STATE_LEARNING \<or> st = SAI_STP_PORT_STATE_FORWARDING \<or> st = SAI_STP_PORT_STATE_BLOCKING
      then SAI_STATUS_SUCCESS else SAI_STATUS_INVALID_PARAMETER)"

definition ctc_sai_stp_map_ctc_port_state :: "stp_sdk \<Rightarrow> u32 \<Rightarrow> u8" where
  "ctc_sai_stp_map_ctc_port_state Q st =
     (if st = SAI_STP_PORT_STATE_LEARNING then stp_state Q CTC_STP_LEARNING
      else if st = SAI_STP_PORT_STATE_FORWARDING then stp_state Q CTC_STP_FORWARDING
      else if st = SAI_STP_PORT_STATE_BLOCKING then stp_state Q CTC_STP_BLOCKING
      else stp_state Q CTC_STP_UNAVAIL)"

definition ctc_sai_stp_map_sai_port_state :: "stp_sdk \<Rightarrow> u8 \<Rightarrow> u32" where
  "ctc_sai_stp_map_sai_port_state Q st =
     (if st = stp_state Q CTC_STP_LEARNING then SAI_STP_PORT_STATE_LEARNING
      else if st = stp_state Q CTC_STP_FORWARDING then SAI_STP_PORT_STATE_FORWARDING
      else if st = stp_state Q CTC_STP_BLOCKING then SAI_STP_PORT_STATE_BLOCKING
      else SAI_STP_PORT_STATE_FORWARDING)"

section \<open>Attributes of an instance\<close>

text \<open>
  The elements of a VLAN list are 16-bit numbers; like those of an object list they are kept in
  \<open>objs\<close>. They are stored one by one, past the end of the array when it is too short.
\<close>

definition stp_vlan_list :: "stp_sdk \<Rightarrow> ctc_sai_stp_info \<Rightarrow> sai_attribute \<Rightarrow> (sai_status \<times> sai_attribute) \<times> bool" where
  "stp_vlan_list Q i a =
     (if list_count (attr_value a) < vlan_bind_count i then ((SAI_STATUS_BUFFER_OVERFLOW, a), False)
      else
        let vs = map of_nat (bits Q (vlan_bind_bits i)); xs = objs (attr_value a) in
        ((SAI_STATUS_SUCCESS, set_objlist (of_nat (length vs)) (take (length xs) vs @ drop (length vs) xs) a),
         length xs < length vs))"

text \<open>
  The ports are collected in an array that has as many elements as the instance counts. \<^verbatim>\<open>0x1f\<close> is
  the chip number of link aggregation groups.
\<close>

definition stp_ports :: "stp_sdk \<Rightarrow> u8 \<Rightarrow> u32 \<Rightarrow> u8 \<Rightarrow> ctc_sai_stp_info \<Rightarrow> sai_object_id list" where
  "stp_ports Q l v gchip i =
     (let port = (\<lambda>g b. ctc_sai_create_object_id SAI_OBJECT_TYPE_STP_PORT l 0 (ucast v) (lport_to_gport Q g b)) in
      map (port gchip) (bits Q (port_bind_bits i)) @ map (port 0x1f) (bits Q (lag_bind_bits i)))"

definition ctc_sai_stp_get_stp_info ::
    "('o, 'e, 'v) ctc_lib \<Rightarrow> stp_sdk \<Rightarrow> sai_object_id \<Rightarrow> sai_attribute \<Rightarrow> u32 \<Rightarrow> ('o, 'e, 'v) sai_state \<Rightarrow>
     (sai_status \<times> sai_attribute) \<times> ('o, 'e, 'v) sai_state" where
  "ctc_sai_stp_get_stp_info L Q oid a attr_idx s =
     (let c = oid_unpack oid; l = ucast (o_lchip c);
          (e, s) = ext_call L (GetGchipId l) s; gchip = ucast (out_val 0 e) in
      case ctc_sai_db_get_object_property L l oid s of
        None \<Rightarrow> ((SAI_STATUS_INVALID_OBJECT_ID, a), s)
      | Some (StpData i) \<Rightarrow>
          if attr_id a = SAI_STP_ATTR_VLAN_LIST then
            (let (r, over) = stp_vlan_list Q i a in (r, if over then s\<lparr>fault := True\<rparr> else s))
          else if attr_id a = SAI_STP_ATTR_PORT_LIST then
            if list_count (attr_value a) < port_bind_count i then ((SAI_STATUS_BUFFER_OVERFLOW, a), s)
            else
              let (ok, s) = mem_malloc L s in
              if \<not> ok then ((SAI_STATUS_NO_MEMORY, a), s)
              else
                let ps = stp_ports Q l (o_value c) gchip i;
                    s = (if unat (port_bind_count i) < length ps then s\<lparr>fault := True\<rparr> else s) in
                (fill_objlist (Some ps) (of_nat (length ps)) a, s)
          else if attr_id a = SAI_STP_ATTR_BRIDGE_ID then
            (case ctc_sai_get_switch_property L l s of
               (Some (SwitchData sw), s) \<Rightarrow>
                 ((SAI_STATUS_SUCCESS, set_oid (ctc_sai_create_object_id SAI_OBJECT_TYPE_BRIDGE l SAI_BRIDGE_TYPE_1Q 0
                    (default_bridge_id sw)) a), s)
             | (_, s) \<Rightarrow> ((SAI_STATUS_SUCCESS, a), s\<lparr>fault := True\<rparr>))
          else ((int32 (SAI_STATUS_NOT_IMPLEMENTED + uint attr_idx), a), s)
      | Some _ \<Rightarrow> ((SAI_STATUS_SUCCESS, a), s\<lparr>fault := True\<rparr>))"

definition stp_attr_fn_entries ::
    "('o, 'e, 'v) ctc_lib \<Rightarrow> stp_sdk \<Rightarrow> (sai_object_id, ('o, 'e, 'v) sai_state) attr_fn list" where
  "stp_attr_fn_entries L Q =
     [\<lparr>fn_id = SAI_STP_ATTR_VLAN_LIST, fn_get = Some (ctc_sai_stp_get_stp_info L Q), fn_set = None\<rparr>,
      \<lparr>fn_id = SAI_STP_ATTR_PORT_LIST, fn_get = Some (ctc_sai_stp_get_stp_info L Q), fn_set = None\<rparr>,
      \<lparr>fn_id = SAI_STP_ATTR_BRIDGE_ID, fn_get = Some (ctc_sai_stp_get_stp_info L Q), fn_set = None\<rparr>]"

section \<open>Port states in the device\<close>

text \<open>
  The state of a port is set in the device, the one of a link aggregation group for each member
  port until a call fails. Three operations have this part.
\<close>

primrec set_member_states ::
    "('o, 'e, 'v) ctc_lib \<Rightarrow> stp_sdk \<Rightarrow> u8 \<Rightarrow> u8 \<Rightarrow> u32 \<Rightarrow> u8 \<Rightarrow> nat list \<Rightarrow> ('o, 'e, 'v) sai_state \<Rightarrow>
     sai_status \<times> ('o, 'e, 'v) sai_state" where
  "set_member_states L Q l gchip stp state [] s = (SAI_STATUS_SUCCESS, s)"
| "set_member_states L Q l gchip stp state (p # ps) s =
     (let (e, s) = ext_call L (StpSetState l (lport_to_gport Q gchip p) stp state) s;
          st = ctc_sai_mapping_error_ctc L (rc e) in
      if status_leaves st then (st, s) else set_member_states L Q l gchip stp state ps s)"

definition stp_apply_state ::
    "('o, 'e, 'v) ctc_lib \<Rightarrow> stp_sdk \<Rightarrow> u8 \<Rightarrow> u8 \<Rightarrow> u32 \<Rightarrow> u32 \<Rightarrow> u8 \<Rightarrow> ('o, 'e, 'v) sai_state \<Rightarrow>
     sai_status \<times> ('o, 'e, 'v) sai_state" where
  "stp_apply_state L Q l gchip gport stp state s =
     (if is_linkagg_port Q gport then
        case ctc_sai_db_get_object_property L l (ctc_sai_create_object_id SAI_OBJECT_TYPE_LAG l 0 0 gport) s of
          None \<Rightarrow> (SAI_STATUS_INVALID_OBJECT_ID, s)
        | Some (LagData g) \<Rightarrow> set_member_states L Q l gchip stp state (bits Q (member_ports_bits g)) s
        | Some _ \<Rightarrow> (SAI_STATUS_SUCCESS, s\<lparr>fault := True\<rparr>)
      else
        let (e, s) = ext_call L (StpSetState l gport stp state) s;
            st = ctc_sai_mapping_error_ctc L (rc e) in
        (if status_leaves st then st else SAI_STATUS_SUCCESS, s))"

section \<open>Attributes of a port\<close>

text \<open>
  The state of a group is read from its first member; a group without members leaves the variable
  uninitialised.
\<close>

definition stp_read_state ::
    "('o, 'e, 'v) ctc_lib \<Rightarrow> stp_sdk \<Rightarrow> u8 \<Rightarrow> u8 \<Rightarrow> u32 \<Rightarrow> u32 \<Rightarrow> ('o, 'e, 'v) sai_state \<Rightarrow>
     (sai_status \<times> u8) \<times> ('o, 'e, 'v) sai_state" where
  "stp_read_state L Q l gchip gport stp s =
     (let read = (\<lambda>p. let (e, s) = ext_call L (StpGetState l p stp) s; st = ctc_sai_mapping_error_ctc L (rc e) in
                  ((if status_leaves st then st else SAI_STATUS_SUCCESS, ucast (out_val 0 e)), s)) in
      if is_linkagg_port Q gport then
        case ctc_sai_db_get_object_property L l (ctc_sai_create_object_id SAI_OBJECT_TYPE_LAG l 0 0 gport) s of
          None \<Rightarrow> ((SAI_STATUS_INVALID_OBJECT_ID, 0), s)
        | Some (LagData g) \<Rightarrow>
            (case bits Q (member_ports_bits g) of
               [] \<Rightarrow> ((SAI_STATUS_SUCCESS, ucast (stack_junk L 0)), s)
             | p # _ \<Rightarrow> read (lport_to_gport Q gchip p))
        | Some _ \<Rightarrow> ((SAI_STATUS_SUCCESS, 0), s\<lparr>fault := True\<rparr>)
      else read gport)"

definition ctc_sai_stp_get_port_info ::
    "('o, 'e, 'v) ctc_lib \<Rightarrow> stp_sdk \<Rightarrow> sai_object_id \<Rightarrow> sai_attribute \<Rightarrow> u32 \<Rightarrow> ('o, 'e, 'v) sai_state \<Rightarrow>
     (sai_status \<times> sai_attribute) \<times> ('o, 'e, 'v) sai_state" where
  "ctc_sai_stp_get_port_info L Q oid a attr_idx s =
     (let c = oid_unpack oid; l = ucast (o_lchip c);
          (e, s) = ext_call L (GetGchipId l) s; gchip = ucast (out_val 0 e) in
      if attr_id a = SAI_STP_PORT_ATTR_STP then
        ((SAI_STATUS_SUCCESS, set_oid (ctc_sai_create_object_id SAI_OBJECT_TYPE_STP l 0 0 (ucast (o_value2 c))) a), s)
      else if attr_id a = SAI_STP_PORT_ATTR_BRIDGE_PORT then
        ((SAI_STATUS_SUCCESS, set_oid (ctc_sai_create_object_id SAI_OBJECT_TYPE_BRIDGE_PORT l 0
            (ucast SAI_BRIDGE_PORT_TYPE_PORT) (o_value c)) a), s)
      else if attr_id a = SAI_STP_PORT_ATTR_STATE then
        (let ((st, state), s) = stp_read_state L Q l gchip (o_value c) (ucast (o_value2 c)) s in
         if status_leaves st then ((st, a), s)
         else ((SAI_STATUS_SUCCESS, set_u32 (ctc_sai_stp_map_sai_port_state Q state) a), s))
      else ((SAI_STATUS_NOT_IMPLEMENTED, a), s))"

text \<open>The number of the instance is cut to a byte here and nowhere else.\<close>

definition ctc_sai_stp_set_port_info ::
    "('o, 'e, 'v) ctc_lib \<Rightarrow> stp_sdk \<Rightarrow> sai_object_id \<Rightarrow> sai_attribute \<Rightarrow> ('o, 'e, 'v) sai_state \<Rightarrow>
     sai_status \<times> ('o, 'e, 'v) sai_state" where
  "ctc_sai_stp_set_port_info L Q oid a s =
     (let c = oid_unpack oid; l = ucast (o_lchip c);
          (e, s) = ext_call L (GetGchipId l) s; gchip = ucast (out_val 0 e) in
      if attr_id a = SAI_STP_PORT_ATTR_STATE then
        stp_apply_state L Q l gchip (o_value c) (ucast (ucast (o_value2 c) :: u8))
          (ctc_sai_stp_map_ctc_port_state Q (u32data (attr_value a))) s
      else (SAI_STATUS_NOT_IMPLEMENTED, s))"

definition stp_port_attr_fn_entries ::
    "('o, 'e, 'v) ctc_lib \<Rightarrow> stp_sdk \<Rightarrow> (sai_object_id, ('o, 'e, 'v) sai_state) attr_fn list" where
  "stp_port_attr_fn_entries L Q =
     [\<lparr>fn_id = SAI_STP_PORT_ATTR_STP, fn_get = Some (ctc_sai_stp_get_port_info L Q), fn_set = None\<rparr>,
      \<lparr>fn_id = SAI_STP_PORT_ATTR_BRIDGE_PORT, fn_get = Some (ctc_sai_stp_get_port_info L Q), fn_set = None\<rparr>,
      \<lparr>fn_id = SAI_STP_PORT_ATTR_STATE, fn_get = Some (ctc_sai_stp_get_port_info L Q),
       fn_set = Some (ctc_sai_stp_set_port_info L Q)\<rparr>]"

section \<open>Binding and unbinding ports\<close>

text \<open>
  The bit of a port in the maps of its instance, a group's in a map of its own by the low byte of
  its number; a bit outside the array is stored outside the record. The count is changed whether or
  not the bit changes.
\<close>

definition bind_port :: "stp_sdk \<Rightarrow> u32 \<Rightarrow> ctc_sai_stp_info \<Rightarrow> ctc_sai_stp_info" where
  "bind_port Q gport i =
     (if is_linkagg_port Q gport
      then i\<lparr>lag_bind_bits := bmp_set Q (lag_bind_bits i) (unat (ucast gport :: u8)), port_bind_count := port_bind_count i + 1\<rparr>
      else i\<lparr>port_bind_bits := bmp_set Q (port_bind_bits i) (gport_to_lport Q gport), port_bind_count := port_bind_count i + 1\<rparr>)"

definition unbind_port :: "stp_sdk \<Rightarrow> u32 \<Rightarrow> ctc_sai_stp_info \<Rightarrow> ctc_sai_stp_info" where
  "unbind_port Q gport i =
     (if is_linkagg_port Q gport
      then i\<lparr>lag_bind_bits := bmp_unset Q (lag_bind_bits i) (unat (ucast gport :: u8)), port_bind_count := port_bind_count i - 1\<rparr>
      else i\<lparr>port_bind_bits := bmp_unset Q (port_bind_bits i) (gport_to_lport Q gport), port_bind_count := port_bind_count i - 1\<rparr>)"

definition port_bit_outside :: "stp_sdk \<Rightarrow> u32 \<Rightarrow> bool" where
  "port_bit_outside Q gport \<longleftrightarrow> \<not> is_linkagg_port Q gport \<and> 256 \<le> gport_to_lport Q gport"

text \<open>The instances a bridge port belongs to and its state in each, by the number of the instance.\<close>

definition bridge_port_bind :: "stp_sdk \<Rightarrow> nat \<Rightarrow> u8 \<Rightarrow> ctc_sai_bridge_port \<Rightarrow> ctc_sai_bridge_port" where
  "bridge_port_bind Q v state bp =
     bp\<lparr>stp_port_bind_bits := bmp_set Q (stp_port_bind_bits bp) v, stp_port_bind_count := stp_port_bind_count bp + 1,
        bp_stp_port_state := (bp_stp_port_state bp)[v := state]\<rparr>"

definition bridge_port_unbind :: "stp_sdk \<Rightarrow> nat \<Rightarrow> ctc_sai_bridge_port \<Rightarrow> ctc_sai_bridge_port" where
  "bridge_port_unbind Q v bp =
     bp\<lparr>stp_port_bind_bits := bmp_unset Q (stp_port_bind_bits bp) v, stp_port_bind_count := stp_port_bind_count bp - 1,
        bp_stp_port_state := (bp_stp_port_state bp)[v := stp_state Q CTC_STP_FORWARDING]\<rparr>"

text \<open>
  The last part of a creation: the record of the port, which is not there when memory runs out, and
  the bridge port. The status of the addition is dropped.
\<close>

definition add_stp_port ::
    "('o, 'e, 'v) ctc_lib \<Rightarrow> stp_sdk \<Rightarrow> u8 \<Rightarrow> sai_object_id \<Rightarrow> sai_object_id \<Rightarrow> ctc_sai_bridge_port \<Rightarrow> u32 \<Rightarrow> u8 \<Rightarrow>
     ('o, 'e, 'v) sai_state \<Rightarrow> ('o, 'e, 'v) sai_state" where
  "add_stp_port L Q l oid bp_oid bp v state s =
     (let (ok, s) = mem_malloc L s in
      if \<not> ok then s
      else
        let s = snd (ctc_sai_db_add_object_property L l oid (Some (StpPortData state)) s);
            s = (if 128 \<le> v then s\<lparr>fault := True\<rparr> else s) in
        object_store L l bp_oid (BridgePortData (bridge_port_bind Q (unat v) state bp)) s)"

text \<open>
  The attributes are searched one after the other; the chip is the one of the switch, which both
  callers have checked.
\<close>

definition stp_create_found ::
    "('o, 'e, 'v) ctc_lib \<Rightarrow> stp_sdk \<Rightarrow> u8 \<Rightarrow> sai_object_id \<Rightarrow> sai_object_id \<Rightarrow> u32 \<Rightarrow> ('o, 'e, 'v) sai_state \<Rightarrow>
     (sai_status \<times> sai_object_id option) \<times> ('o, 'e, 'v) sai_state" where
  "stp_create_found L Q l stp bp_oid state s =
     (if ctc_sai_stp_check_port_state state \<noteq> 0 then ((ctc_sai_stp_check_port_state state, None), s)
      else case ctc_sai_db_get_object_property L l bp_oid s of
        None \<Rightarrow> ((SAI_STATUS_ITEM_NOT_FOUND, None), s)
      | Some (BridgePortData bp) \<Rightarrow>
          if bp_port_type bp \<noteq> SAI_BRIDGE_PORT_TYPE_PORT then ((SAI_STATUS_INVALID_OBJECT_ID, None), s)
          else (case ctc_sai_db_get_object_property L l stp s of
            None \<Rightarrow> ((SAI_STATUS_ITEM_NOT_FOUND, None), s)
          | Some (StpData i) \<Rightarrow>
              (let gport = ucast (bp_gport bp); v = o_value (oid_unpack stp); state = ctc_sai_stp_map_ctc_port_state Q state;
                   (e, s) = ext_call L (GetGchipId l) s;
                   (st, s) = stp_apply_state L Q l (ucast (out_val 0 e)) gport v state s in
               if status_leaves st then ((st, None), s)
               else
                 let oid = ctc_sai_create_object_id SAI_OBJECT_TYPE_STP_PORT l 0 (ucast v) gport;
                     s = (if port_bit_outside Q gport then s\<lparr>fault := True\<rparr> else s);
                     s = object_store L l stp (StpData (bind_port Q gport i)) s in
                 ((SAI_STATUS_SUCCESS, Some oid), add_stp_port L Q l oid bp_oid bp v state s))
          | Some _ \<Rightarrow> ((SAI_STATUS_SUCCESS, None), s\<lparr>fault := True\<rparr>))
      | Some _ \<Rightarrow> ((SAI_STATUS_SUCCESS, None), s\<lparr>fault := True\<rparr>))"

definition stp_create_stp_port ::
    "('o, 'e, 'v) ctc_lib \<Rightarrow> stp_sdk \<Rightarrow> u8 \<Rightarrow> u32 \<Rightarrow> sai_attribute list option \<Rightarrow> ('o, 'e, 'v) sai_state \<Rightarrow>
     (sai_status \<times> sai_object_id option) \<times> ('o, 'e, 'v) sai_state" where
  "stp_create_stp_port L Q l attr_count as s =
     (if attr_count = 0 \<or> as = None then ((SAI_STATUS_INVALID_PARAMETER, None), s)
      else case (ctc_sai_find_attrib_in_list attr_count as SAI_STP_PORT_ATTR_STP,
                 ctc_sai_find_attrib_in_list attr_count as SAI_STP_PORT_ATTR_BRIDGE_PORT,
                 ctc_sai_find_attrib_in_list attr_count as SAI_STP_PORT_ATTR_STATE) of
        ((_, Some (stp, _)), (_, Some (bp, _)), (_, Some (state, _))) \<Rightarrow>
          stp_create_found L Q l (oiddata stp) (oiddata bp) (u32data state) s
      | _ \<Rightarrow> ((SAI_STATUS_MANDATORY_ATTRIBUTE_MISSING, None), s))"

text \<open>
  A removal does not look whether the port exists. The bridge port is looked up last, and used even
  when it is not there. \<^verbatim>\<open>lchip\<close> keeps what it held when the chip of the identifier has no database.
\<close>

definition remove_stp_port_found ::
    "('o, 'e, 'v) ctc_lib \<Rightarrow> stp_sdk \<Rightarrow> u8 \<Rightarrow> sai_object_id \<Rightarrow> u32 \<Rightarrow> u16 \<Rightarrow> ('o, 'e, 'v) sai_state \<Rightarrow>
     ('o, 'e, 'v) sai_state" where
  "remove_stp_port_found L Q l oid gport v s =
     (let s = snd (ctc_sai_db_remove_object_property L l oid s);
          bp_oid = ctc_sai_create_object_id SAI_OBJECT_TYPE_BRIDGE_PORT l 0 (ucast SAI_BRIDGE_PORT_TYPE_PORT) gport in
      case ctc_sai_db_get_object_property L l bp_oid s of
        Some (BridgePortData bp) \<Rightarrow>
          (let s = (if 128 \<le> v then s\<lparr>fault := True\<rparr> else s) in
           object_store L l bp_oid (BridgePortData (bridge_port_unbind Q (unat v) bp)) s)
      | _ \<Rightarrow> s\<lparr>fault := True\<rparr>)"

definition stp_remove_stp_port ::
    "('o, 'e, 'v) ctc_lib \<Rightarrow> stp_sdk \<Rightarrow> sai_object_id \<Rightarrow> ('o, 'e, 'v) sai_state \<Rightarrow> sai_status \<times> ('o, 'e, 'v) sai_state" where
  "stp_remove_stp_port L Q oid s =
     (let l = out_or (ucast (stack_junk L 0)) (snd (ctc_sai_oid_get_lchip (inited s) oid));
          (e, s) = ext_call L (GetGchipId l) s; gchip = ucast (out_val 0 e) in
      if oid = 0 then (SAI_STATUS_INVALID_OBJECT_ID, s)
      else
        let c = oid_unpack oid; cl = ucast (o_lchip c); gport = o_value c;
            stp = ctc_sai_create_object_id SAI_OBJECT_TYPE_STP cl 0 0 (ucast (o_value2 c)) in
        case ctc_sai_db_get_object_property L cl stp s of
          None \<Rightarrow> (SAI_STATUS_ITEM_NOT_FOUND, s)
        | Some (StpData i) \<Rightarrow>
            (let (st, s) = stp_apply_state L Q cl gchip gport (ucast (o_value2 c)) (stp_state Q CTC_STP_FORWARDING) s in
             if status_leaves st then (st, s)
             else
               let s = (if port_bit_outside Q gport then s\<lparr>fault := True\<rparr> else s);
                   s = object_store L cl stp (StpData (unbind_port Q gport i)) s in
               (SAI_STATUS_SUCCESS, remove_stp_port_found L Q l oid gport (o_value2 c) s))
        | Some _ \<Rightarrow> (SAI_STATUS_SUCCESS, s\<lparr>fault := True\<rparr>))"

section \<open>Binding VLANs, reload\<close>

text \<open>
  Called by the VLAN module. The default instance, number zero, does not count its VLANs. A VLAN
  number outside the map is stored outside the record.
\<close>

definition ctc_sai_stp_set_instance ::
    "('o, 'e, 'v) ctc_lib \<Rightarrow> stp_sdk \<Rightarrow> u8 \<Rightarrow> u16 \<Rightarrow> u16 \<Rightarrow> sai_object_id \<Rightarrow> bool \<Rightarrow> ('o, 'e, 'v) sai_state \<Rightarrow>
     sai_status \<times> ('o, 'e, 'v) sai_state" where
  "ctc_sai_stp_set_instance L Q l vlan_id vlan_ptr stp is_add s =
     (let v = o_value (oid_unpack stp);
          bound = (\<lambda>i s. if v = 0 then s
                   else object_store L l stp (StpData i) (if 4096 \<le> vlan_id then s\<lparr>fault := True\<rparr> else s)) in
      case ctc_sai_db_get_object_property L l stp s of
        None \<Rightarrow> (SAI_STATUS_ITEM_NOT_FOUND, s)
      | Some (StpData i) \<Rightarrow>
          if is_add then
            (let (e, s) = ext_call L (StpSetVlanStpid l vlan_ptr (ucast v)) s; st = ctc_sai_mapping_error_ctc L (rc e) in
             if status_leaves st then (st, s)
             else (SAI_STATUS_SUCCESS,
               bound (i\<lparr>vlan_bind_bits := bmp_set Q (vlan_bind_bits i) (unat vlan_id), vlan_bind_count := vlan_bind_count i + 1\<rparr>) s))
          else (SAI_STATUS_SUCCESS,
            bound (i\<lparr>vlan_bind_bits := bmp_unset Q (vlan_bind_bits i) (unat vlan_id), vlan_bind_count := vlan_bind_count i - 1\<rparr>) s)
      | Some _ \<Rightarrow> (SAI_STATUS_SUCCESS, s\<lparr>fault := True\<rparr>))"

definition stp_wb_reload_cb ::
    "('o, 'e, 'v) ctc_lib \<Rightarrow> u8 \<Rightarrow> sai_object_id \<Rightarrow> ('o, 'e, 'v) sai_state \<Rightarrow> sai_status \<times> ('o, 'e, 'v) sai_state" where
  "stp_wb_reload_cb L l oid s =
     (let (st, s) = ctc_sai_db_alloc_id_from_position L l CTC_SAI_DB_ID_TYPE_STP (o_value (oid_unpack oid)) s in
      (if status_leaves st then st else SAI_STATUS_SUCCESS, s))"

section \<open>Instances\<close>

definition zero_stp :: ctc_sai_stp_info where
  "zero_stp = \<lparr>vlan_bind_bits = replicate 128 0, port_bind_bits = replicate 8 0, vlan_bind_count = 0, port_bind_count = 0,
     lag_bind_bits = replicate 8 0\<rparr>"

text \<open>When memory runs out the number is given back, and success is reported.\<close>

definition create_stp_locked ::
    "('o, 'e, 'v) ctc_lib \<Rightarrow> u8 \<Rightarrow> ('o, 'e, 'v) sai_state \<Rightarrow>
     (sai_status \<times> sai_object_id option) \<times> ('o, 'e, 'v) sai_state" where
  "create_stp_locked L l s =
     (let ((st, v), s) = ctc_sai_db_alloc_id L l CTC_SAI_DB_ID_TYPE_STP s; i = out_or 0 v in
      if st \<noteq> SAI_STATUS_SUCCESS then ((st, None), s)
      else
        let oid = ctc_sai_create_object_id SAI_OBJECT_TYPE_STP l 0 0 i;
            free = (\<lambda>s. snd (ctc_sai_db_free_id L l CTC_SAI_DB_ID_TYPE_STP i s));
            (ok, s) = mem_malloc L s in
        if \<not> ok then ((SAI_STATUS_SUCCESS, Some oid), free s)
        else
          let (st, s) = ctc_sai_db_add_object_property L l oid (Some (StpData zero_stp)) s in
          if status_leaves st then ((st, Some oid), free s) else ((SAI_STATUS_SUCCESS, Some oid), s))"

definition ctc_sai_stp_create_stp ::
    "('o, 'e, 'v) ctc_lib \<Rightarrow> bool \<Rightarrow> sai_object_id \<Rightarrow> ('o, 'e, 'v) sai_state \<Rightarrow>
     (sai_status \<times> sai_object_id option) \<times> ('o, 'e, 'v) sai_state" where
  "ctc_sai_stp_create_stp L null_out switch_id s =
     (if null_out then ((SAI_STATUS_INVALID_PARAMETER, None), s)
      else case ctc_sai_oid_get_lchip (inited s) switch_id of
        (st, None) \<Rightarrow> ((st, None), s)
      | (st, Some l) \<Rightarrow>
          (let (r, s) = create_stp_locked L l (snd (ctc_sai_db_lock L l s)) in (r, snd (ctc_sai_db_unlock L l s))))"

definition remove_stp_locked ::
    "('o, 'e, 'v) ctc_lib \<Rightarrow> u8 \<Rightarrow> sai_object_id \<Rightarrow> ('o, 'e, 'v) sai_state \<Rightarrow> sai_status \<times> ('o, 'e, 'v) sai_state" where
  "remove_stp_locked L l oid s =
     (case ctc_sai_db_get_object_property L l oid s of
        None \<Rightarrow> (SAI_STATUS_INVALID_OBJECT_ID, s)
      | Some (StpData i) \<Rightarrow>
          if vlan_bind_count i \<noteq> 0 then (SAI_STATUS_FAILURE, s)
          else
            (let (st, s) = ctc_sai_db_remove_object_property L l oid s in
             if status_leaves st then (st, s)
             else
               let (st, s) = ctc_sai_db_free_id L l CTC_SAI_DB_ID_TYPE_STP (o_value (oid_unpack oid)) s in
               if status_leaves st then (st, snd (ctc_sai_db_add_object_property L l oid (Some (StpData i)) s))
               else (SAI_STATUS_SUCCESS, s))
      | Some _ \<Rightarrow> (SAI_STATUS_SUCCESS, s\<lparr>fault := True\<rparr>))"

definition ctc_sai_stp_remove_stp ::
    "('o, 'e, 'v) ctc_lib \<Rightarrow> sai_object_id \<Rightarrow> ('o, 'e, 'v) sai_state \<Rightarrow> sai_status \<times> ('o, 'e, 'v) sai_state" where
  "ctc_sai_stp_remove_stp L oid s =
     (case ctc_sai_oid_get_lchip (inited s) oid of
        (st, None) \<Rightarrow> (st, s)
      | (st, Some l) \<Rightarrow>
          (let (st, s) = remove_stp_locked L l oid (snd (ctc_sai_db_lock L l s)) in (st, snd (ctc_sai_db_unlock L l s))))"

section \<open>The methods of ports\<close>

definition ctc_sai_stp_create_stp_port ::
    "('o, 'e, 'v) ctc_lib \<Rightarrow> stp_sdk \<Rightarrow> bool \<Rightarrow> sai_object_id \<Rightarrow> u32 \<Rightarrow> sai_attribute list option \<Rightarrow>
     ('o, 'e, 'v) sai_state \<Rightarrow> (sai_status \<times> sai_object_id option) \<times> ('o, 'e, 'v) sai_state" where
  "ctc_sai_stp_create_stp_port L Q null_out switch_id attr_count as s =
     (if null_out \<or> attr_count = 0 \<or> as = None then ((SAI_STATUS_INVALID_PARAMETER, None), s)
      else case ctc_sai_oid_get_lchip (inited s) switch_id of
        (st, None) \<Rightarrow> ((st, None), s)
      | (st, Some l) \<Rightarrow>
          (let (r, s) = stp_create_stp_port L Q l attr_count as (snd (ctc_sai_db_lock L l s)) in
           (r, snd (ctc_sai_db_unlock L l s))))"

definition ctc_sai_stp_remove_stp_port ::
    "('o, 'e, 'v) ctc_lib \<Rightarrow> stp_sdk \<Rightarrow> sai_object_id \<Rightarrow> ('o, 'e, 'v) sai_state \<Rightarrow> sai_status \<times> ('o, 'e, 'v) sai_state" where
  "ctc_sai_stp_remove_stp_port L Q oid s =
     (case ctc_sai_oid_get_lchip (inited s) oid of
        (st, None) \<Rightarrow> (st, s)
      | (st, Some l) \<Rightarrow>
          (let (st, s) = stp_remove_stp_port L Q oid (snd (ctc_sai_db_lock L l s)) in (st, snd (ctc_sai_db_unlock L l s))))"

section \<open>The attribute methods\<close>

definition ctc_sai_stp_set_stp_attribute ::
    "('o, 'e, 'v) ctc_lib \<Rightarrow> stp_sdk \<Rightarrow> sai_object_id \<Rightarrow> sai_attribute option \<Rightarrow> ('o, 'e, 'v) sai_state \<Rightarrow>
     sai_status \<times> ('o, 'e, 'v) sai_state" where
  "ctc_sai_stp_set_stp_attribute L Q oid a s =
     (case ctc_sai_oid_get_lchip (inited s) oid of
        (st, None) \<Rightarrow> (st, s)
      | (st, Some l) \<Rightarrow>
          (let (st, s) = ctc_sai_set_attribute oid SAI_OBJECT_TYPE_STP (Some (stp_attr_fn_entries L Q)) a
                 (snd (ctc_sai_db_lock L l s)) in
           (st, snd (ctc_sai_db_unlock L l s))))"

definition ctc_sai_stp_get_stp_attribute ::
    "('o, 'e, 'v) ctc_lib \<Rightarrow> stp_sdk \<Rightarrow> sai_object_id \<Rightarrow> u32 \<Rightarrow> sai_attribute list \<Rightarrow> ('o, 'e, 'v) sai_state \<Rightarrow>
     ((sai_status \<times> sai_attribute list) \<times> ('o, 'e, 'v) sai_state) option" where
  "ctc_sai_stp_get_stp_attribute L Q oid attr_count as s =
     (case ctc_sai_oid_get_lchip (inited s) oid of
        (st, None) \<Rightarrow> Some ((st, as), s)
      | (st, Some l) \<Rightarrow>
          (case attr_loop (get_attr_body oid SAI_OBJECT_TYPE_STP (stp_attr_fn_entries L Q)) attr_count (0 :: u8)
                  (SAI_STATUS_SUCCESS, as, snd (ctc_sai_db_lock L l s)) of
             None \<Rightarrow> None
           | Some (st, as, s) \<Rightarrow> Some ((st, as), snd (ctc_sai_db_unlock L l s))))"

definition ctc_sai_stp_set_stp_port_attribute ::
    "('o, 'e, 'v) ctc_lib \<Rightarrow> stp_sdk \<Rightarrow> sai_object_id \<Rightarrow> sai_attribute option \<Rightarrow> ('o, 'e, 'v) sai_state \<Rightarrow>
     sai_status \<times> ('o, 'e, 'v) sai_state" where
  "ctc_sai_stp_set_stp_port_attribute L Q oid a s =
     (case ctc_sai_oid_get_lchip (inited s) oid of
        (st, None) \<Rightarrow> (st, s)
      | (st, Some l) \<Rightarrow>
          (let (st, s) = ctc_sai_set_attribute oid SAI_OBJECT_TYPE_STP_PORT (Some (stp_port_attr_fn_entries L Q)) a
                 (snd (ctc_sai_db_lock L l s)) in
           (st, snd (ctc_sai_db_unlock L l s))))"

definition ctc_sai_stp_get_stp_port_attribute ::
    "('o, 'e, 'v) ctc_lib \<Rightarrow> stp_sdk \<Rightarrow> sai_object_id \<Rightarrow> u32 \<Rightarrow> sai_attribute list \<Rightarrow> ('o, 'e, 'v) sai_state \<Rightarrow>
     ((sai_status \<times> sai_attribute list) \<times> ('o, 'e, 'v) sai_state) option" where
  "ctc_sai_stp_get_stp_port_attribute L Q oid attr_count as s =
     (case ctc_sai_oid_get_lchip (inited s) oid of
        (st, None) \<Rightarrow> Some ((st, as), s)
      | (st, Some l) \<Rightarrow>
          (case attr_loop (get_attr_body oid SAI_OBJECT_TYPE_STP_PORT (stp_port_attr_fn_entries L Q)) attr_count (0 :: u8)
                  (SAI_STATUS_SUCCESS, as, snd (ctc_sai_db_lock L l s)) of
             None \<Rightarrow> None
           | Some (st, as, s) \<Rightarrow> Some ((st, as), snd (ctc_sai_db_unlock L l s))))"

section \<open>Bulk methods\<close>

text \<open>
  The loop of both bulk methods over an operation \<open>f\<close>: one result per object, the objects behind the
  first failure with \<^verbatim>\<open>SAI_STATUS_NOT_EXECUTED\<close> when the mode says to stop. The third value is
  \<^verbatim>\<open>is_found_error\<close>.
\<close>

primrec stp_bulk ::
    "('a \<Rightarrow> 's \<Rightarrow> (sai_status \<times> 'b option) \<times> 's) \<Rightarrow> nat \<Rightarrow> 'a list \<Rightarrow> 's \<Rightarrow>
     ((sai_status \<times> 'b option) list \<times> bool) \<times> 's" where
  "stp_bulk f mode [] s = (([], False), s)"
| "stp_bulk f mode (x # xs) s =
     (let (r, s) = f x s in
      if fst r \<noteq> SAI_STATUS_SUCCESS \<and> mode = BULK_STOP_ON_ERROR
      then ((r # map (\<lambda>_. (SAI_STATUS_NOT_EXECUTED, None)) xs, True), s)
      else let ((rs, e), s) = stp_bulk f mode xs s in ((r # rs, e \<or> fst r \<noteq> SAI_STATUS_SUCCESS), s))"

definition ctc_sai_stp_create_stp_ports ::
    "('o, 'e, 'v) ctc_lib \<Rightarrow> stp_sdk \<Rightarrow> sai_object_id \<Rightarrow> (u32 \<times> sai_attribute list option) list option \<Rightarrow> nat \<Rightarrow>
     ('o, 'e, 'v) sai_state \<Rightarrow> (sai_status \<times> (sai_status \<times> sai_object_id option) list) \<times> ('o, 'e, 'v) sai_state" where
  "ctc_sai_stp_create_stp_ports L Q switch_id xs mode s =
     (if xs = None \<or> xs = Some [] then ((SAI_STATUS_INVALID_PARAMETER, []), s)
      else case ctc_sai_oid_get_lchip (inited s) switch_id of
        (st, None) \<Rightarrow> ((st, []), s)
      | (st, Some l) \<Rightarrow>
          (let ((rs, e), s) = stp_bulk (\<lambda>(n, as). stp_create_stp_port L Q l n as) mode (out_or [] xs)
                 (snd (ctc_sai_db_lock L l s)) in
           ((if e then SAI_STATUS_FAILURE else SAI_STATUS_SUCCESS, rs), snd (ctc_sai_db_unlock L l s))))"

text \<open>The chip is read from the first object, which is there only when the count is not zero.\<close>

definition ctc_sai_stp_remove_stp_ports ::
    "('o, 'e, 'v) ctc_lib \<Rightarrow> stp_sdk \<Rightarrow> sai_object_id list \<Rightarrow> nat \<Rightarrow> ('o, 'e, 'v) sai_state \<Rightarrow>
     (sai_status \<times> sai_status list) \<times> ('o, 'e, 'v) sai_state" where
  "ctc_sai_stp_remove_stp_ports L Q xs mode s =
     (if xs = [] then ((SAI_STATUS_SUCCESS, []), s\<lparr>fault := True\<rparr>)
      else case ctc_sai_oid_get_lchip (inited s) (hd xs) of
        (st, None) \<Rightarrow> ((st, []), s)
      | (st, Some l) \<Rightarrow>
          (let ((rs, e), s) = stp_bulk (\<lambda>oid s. let (st, s) = stp_remove_stp_port L Q oid s in ((st, None :: unit option), s))
                 mode xs (snd (ctc_sai_db_lock L l s)) in
           ((if e then SAI_STATUS_FAILURE else SAI_STATUS_SUCCESS, map fst rs), snd (ctc_sai_db_unlock L l s))))"

section \<open>Right counts\<close>

text \<open>
  The arrays of an instance have their sizes, and the counts are the numbers of set bits. The
  invariant of the module: this holds of every instance in the database.
\<close>

definition stp_ok :: "stp_sdk \<Rightarrow> ctc_sai_stp_info \<Rightarrow> bool" where
  "stp_ok Q i \<longleftrightarrow> length (vlan_bind_bits i) = 128 \<and> length (port_bind_bits i) = 8 \<and> length (lag_bind_bits i) = 8 \<and>
     unat (vlan_bind_count i) = length (bits Q (vlan_bind_bits i)) \<and>
     unat (port_bind_count i) = length (bits Q (port_bind_bits i)) + length (bits Q (lag_bind_bits i))"

definition stp_counted :: "stp_sdk \<Rightarrow> (sai_object_id \<Rightarrow> obj_data option) \<Rightarrow> bool" where
  "stp_counted Q M \<longleftrightarrow> (\<forall>oid i. M oid = Some (StpData i) \<longrightarrow> stp_ok Q i)"

definition port_bound :: "stp_sdk \<Rightarrow> u32 \<Rightarrow> ctc_sai_stp_info \<Rightarrow> bool" where
  "port_bound Q gport i \<longleftrightarrow>
     (if is_linkagg_port Q gport then bmp_isset Q (lag_bind_bits i) (unat (ucast gport :: u8))
      else bmp_isset Q (port_bind_bits i) (gport_to_lport Q gport))"

lemma counted_store: "stp_counted Q M \<Longrightarrow> stp_ok Q i \<Longrightarrow> stp_counted Q (M(oid \<mapsto> StpData i))"
  by (simp add: stp_counted_def)

lemma counted_other: "stp_counted Q M \<Longrightarrow> \<forall>i. d \<noteq> Some (StpData i) \<Longrightarrow> stp_counted Q (M(oid := d))"
  by (auto simp: stp_counted_def)

lemma count_up: "unat c = n \<Longrightarrow> n < 5000 \<Longrightarrow> unat (c + 1 :: u32) = n + 1"
  by (simp add: unat_word_ariths)

lemma count_down: "unat c = Suc n \<Longrightarrow> unat (c - 1 :: u32) = n"
  by (cases "c = 0") (simp_all add: unat_minus_one)

lemma unat_up_16_32: "unat (ucast (v :: u16) :: u32) = unat v"
proof -
  have "unat v < 2 ^ LENGTH(32)" by (rule less_trans [OF unsigned_less]) simp
  then show ?thesis by (simp add: unsigned_ucast_eq take_bit_nat_eq_self)
qed

lemma ucast_up_down_16: "(ucast (ucast (v :: u16) :: u32) :: u16) = v"
  by (rule bit_word_eqI) (auto simp: bit_simps)

lemma lag_bit: "unat (ucast (g :: u32) :: u8) < 256"
  by (rule order_less_le_trans [OF unsigned_less]) simp

context bitmaps
begin

lemma bits_set_length:
  "i < 32 * length b \<Longrightarrow> \<not> bmp_isset Q b i \<Longrightarrow> length (bits Q (bmp_set Q b i)) = Suc (length (bits Q b))"
  unfolding bits_length [of Q] by (subst bits_set_eq) (simp_all add: bits_def)

lemma bits_unset_length:
  assumes "i < 32 * length b" and "bmp_isset Q b i"
  shows "length (bits Q b) = Suc (length (bits Q (bmp_unset Q b i)))"
proof -
  have "i \<in> set (bits Q b)" using assms by (simp add: bits_def)
  then show ?thesis
    unfolding bits_length [of Q] bits_unset_eq [OF assms(1)] using card_Suc_Diff1 [of "set (bits Q b)" i] by simp
qed

lemma zero_stp_ok: "stp_ok Q zero_stp"
  by (simp add: stp_ok_def zero_stp_def)

lemma bind_port_ok:
  assumes "stp_ok Q i" and "\<not> port_bound Q g i" and "\<not> port_bit_outside Q g"
  shows "stp_ok Q (bind_port Q g i)"
proof (cases "is_linkagg_port Q g")
  case True
  let ?n = "unat (ucast g :: u8)"
  have l: "?n < 32 * length (lag_bind_bits i)" "\<not> bmp_isset Q (lag_bind_bits i) ?n"
    using assms(1,2) True lag_bit [of g] by (auto simp: stp_ok_def port_bound_def)
  have "length (bits Q (port_bind_bits i)) \<le> 256" "length (bits Q (lag_bind_bits i)) \<le> 256"
    using assms(1) bits_bound [of Q "port_bind_bits i"] bits_bound [of Q "lag_bind_bits i"] by (simp_all add: stp_ok_def)
  then show ?thesis
    using assms(1) True count_up [of "port_bind_count i"] l(1)
    by (auto simp: stp_ok_def bind_port_def set_length bits_set_length [OF l])
next
  case False
  let ?n = "gport_to_lport Q g"
  have l: "?n < 32 * length (port_bind_bits i)" "\<not> bmp_isset Q (port_bind_bits i) ?n"
    using assms False by (auto simp: stp_ok_def port_bound_def port_bit_outside_def)
  have "length (bits Q (port_bind_bits i)) \<le> 256" "length (bits Q (lag_bind_bits i)) \<le> 256"
    using assms(1) bits_bound [of Q "port_bind_bits i"] bits_bound [of Q "lag_bind_bits i"] by (simp_all add: stp_ok_def)
  then show ?thesis
    using assms(1) False count_up [of "port_bind_count i"] l(1)
    by (auto simp: stp_ok_def bind_port_def set_length bits_set_length [OF l])
qed

lemma unbind_port_ok:
  assumes "stp_ok Q i" and "port_bound Q g i" and "\<not> port_bit_outside Q g"
  shows "stp_ok Q (unbind_port Q g i)"
proof (cases "is_linkagg_port Q g")
  case True
  let ?n = "unat (ucast g :: u8)"
  have l: "?n < 32 * length (lag_bind_bits i)" "bmp_isset Q (lag_bind_bits i) ?n"
    using assms(1,2) True lag_bit [of g] by (auto simp: stp_ok_def port_bound_def)
  show ?thesis
    using assms(1) True bits_unset_length [OF l] l(1) count_down [of "port_bind_count i"]
    by (auto simp: stp_ok_def unbind_port_def unset_length)
next
  case False
  let ?n = "gport_to_lport Q g"
  have l: "?n < 32 * length (port_bind_bits i)" "bmp_isset Q (port_bind_bits i) ?n"
    using assms False by (auto simp: stp_ok_def port_bound_def port_bit_outside_def)
  show ?thesis
    using assms(1) False bits_unset_length [OF l] l(1) count_down [of "port_bind_count i"]
    by (auto simp: stp_ok_def unbind_port_def unset_length)
qed

lemma vlan_bind_ok:
  assumes "stp_ok Q i" and "v < 4096" and "\<not> bmp_isset Q (vlan_bind_bits i) v"
  shows "stp_ok Q (i\<lparr>vlan_bind_bits := bmp_set Q (vlan_bind_bits i) v, vlan_bind_count := vlan_bind_count i + 1\<rparr>)"
proof -
  have l: "v < 32 * length (vlan_bind_bits i)" using assms(1,2) by (simp add: stp_ok_def)
  have "length (bits Q (vlan_bind_bits i)) \<le> 4096"
    using assms(1) bits_bound [of Q "vlan_bind_bits i"] by (simp add: stp_ok_def)
  then show ?thesis
    using assms(1) l count_up [of "vlan_bind_count i"] by (auto simp: stp_ok_def set_length bits_set_length [OF l assms(3)])
qed

lemma vlan_unbind_ok:
  assumes "stp_ok Q i" and "v < 4096" and "bmp_isset Q (vlan_bind_bits i) v"
  shows "stp_ok Q (i\<lparr>vlan_bind_bits := bmp_unset Q (vlan_bind_bits i) v, vlan_bind_count := vlan_bind_count i - 1\<rparr>)"
proof -
  have l: "v < 32 * length (vlan_bind_bits i)" using assms(1,2) by (simp add: stp_ok_def)
  show ?thesis
    using assms(1) l bits_unset_length [OF l assms(3)] count_down [of "vlan_bind_count i"] by (auto simp: stp_ok_def unset_length)
qed

end

section \<open>What the operations do to the database\<close>

lemma fits_type:
  "data_fits SAI_OBJECT_TYPE_STP d \<longleftrightarrow> (\<exists>i. d = StpData i)"
  "data_fits SAI_OBJECT_TYPE_LAG d \<longleftrightarrow> (\<exists>g. d = LagData g)"
  "data_fits SAI_OBJECT_TYPE_BRIDGE_PORT d \<longleftrightarrow> (\<exists>b. d = BridgePortData b)"
  "data_fits SAI_OBJECT_TYPE_STP_PORT d \<longleftrightarrow> (\<exists>x. d = StpPortData x)"
  by (cases d; simp)+

lemma fault_set_frame: "g_sai_db (s\<lparr>fault := b\<rparr>) = g_sai_db s" by simp

lemma fault_if: "(if c then s\<lparr>fault := True\<rparr> else s) = s\<lparr>fault := c \<or> fault s\<rparr>"
  by simp

lemma stp_call_quiet: "quiet s (snd (ext_call L (StpSetState l p v st) s))"
  by (rule ext_quiet) simp_all

lemma member_states_frame:
  "g_sai_db (snd (set_member_states L Q l g v st ps s)) = g_sai_db s \<and> quiet s (snd (set_member_states L Q l g v st ps s)) \<and>
   fst (set_member_states L Q l g v st ps s) \<le> SAI_STATUS_SUCCESS"
proof (induction ps arbitrary: s)
  case (Cons p ps)
  let ?s = "snd (ext_call L (StpSetState l (lport_to_gport Q g p) v st) s)"
  show ?case
    using Cons.IH [of ?s] quiet_trans [OF stp_call_quiet [of s L l "lport_to_gport Q g p" v st]] stp_call_quiet [of s L l "lport_to_gport Q g p" v st]
    by (simp add: Let_def case_prod_beta status_leaves_def mapping_error_le)
qed simp

text \<open>
  Instances and VLANs that are bound to them. An operation keeps the invariant: it leads from a sound
  state with right counts, in which the VLANs of \<open>W\<close> are bound, to one.
\<close>

definition held :: "stp_sdk \<Rightarrow> (sai_object_id \<times> u16) set \<Rightarrow> (sai_object_id \<Rightarrow> obj_data option) \<Rightarrow> bool" where
  "held Q W M \<longleftrightarrow>
     (\<forall>(oid, v) \<in> W. v < 4096 \<and> (\<exists>i. M oid = Some (StpData i) \<and> bmp_isset Q (vlan_bind_bits i) (unat v)))"

definition stp_kept ::
    "('o, 'e, 'v) ctc_lib \<Rightarrow> stp_sdk \<Rightarrow> u8 \<Rightarrow> (sai_object_id \<times> u16) set \<Rightarrow> ('o, 'e, 'v) sai_state \<Rightarrow> bool" where
  "stp_kept L Q l W s \<longleftrightarrow> sound L l s \<and> stp_counted Q (obj_map L l s) \<and> held Q W (obj_map L l s)"

lemma held_store:
  "held Q W M \<Longrightarrow> (\<And>v. (oid, v) \<in> W \<Longrightarrow> bmp_isset Q (vlan_bind_bits j) (unat v)) \<Longrightarrow> held Q W (M(oid \<mapsto> StpData j))"
  by (auto simp: held_def)

lemma held_other: "held Q W M \<Longrightarrow> oid \<notin> fst ` W \<Longrightarrow> held Q W (M(oid := d))"
  by (force simp: held_def)

lemma held_not: "held Q W M \<Longrightarrow> M oid = d \<Longrightarrow> \<forall>i. d \<noteq> Some (StpData i) \<Longrightarrow> oid \<notin> fst ` W"
  by (force simp: held_def)

lemma held_bit: "held Q W M \<Longrightarrow> (oid, v) \<in> W \<Longrightarrow> M oid = Some (StpData i) \<Longrightarrow> v < 4096 \<and> bmp_isset Q (vlan_bind_bits i) (unat v)"
  by (force simp: held_def)

lemma port_bind_vlans [simp]:
  "vlan_bind_bits (bind_port Q g i) = vlan_bind_bits i" "vlan_bind_bits (unbind_port Q g i) = vlan_bind_bits i"
  by (simp_all add: bind_port_def unbind_port_def)

locale stp_lib = ctc_lib_laws L + bitmaps Q for L :: "('o, 'e, 'v) ctc_lib" and Q :: stp_sdk
begin

lemma apply_state_frame:
  assumes "sound L l s"
  shows "g_sai_db (snd (stp_apply_state L Q l g port v st s)) = g_sai_db s"
    "quiet s (snd (stp_apply_state L Q l g port v st s))"
    "fst (stp_apply_state L Q l g port v st s) \<le> SAI_STATUS_SUCCESS"
proof -
  let ?lag = "ctc_sai_create_object_id SAI_OBJECT_TYPE_LAG l 0 0 port"
  have lag: "\<exists>g. d = LagData g" if "obj_map L l s ?lag = Some d" for d
    using sound_fits [OF assms that] by (simp add: create_type fits_type(2))
  show "g_sai_db (snd (stp_apply_state L Q l g port v st s)) = g_sai_db s"
    "quiet s (snd (stp_apply_state L Q l g port v st s))"
    "fst (stp_apply_state L Q l g port v st s) \<le> SAI_STATUS_SUCCESS"
    using stp_call_quiet [of s L l port v st] lag
    by (auto simp: member_states_frame mapping_error_le stp_apply_state_def obj_map_get Let_def case_prod_beta status_leaves_def split: option.splits)
qed

lemma stored_stp:
  assumes "sound L l s" and "obj_map L l s oid = Some (StpData i)"
  shows "sound L l (object_store L l oid (StpData j) (s\<lparr>fault := b\<rparr>))"
    "obj_map L l (object_store L l oid (StpData j) (s\<lparr>fault := b\<rparr>)) = (obj_map L l s)(oid \<mapsto> StpData j)"
proof -
  have f: "sound L l (s\<lparr>fault := b\<rparr>)" "obj_map L l (s\<lparr>fault := b\<rparr>) = obj_map L l s"
    using db_frame [OF assms(1) fault_set_frame] by simp_all
  have t: "data_fits (oid_type oid) (StpData j)" using sound_fits [OF assms] by simp
  show "sound L l (object_store L l oid (StpData j) (s\<lparr>fault := b\<rparr>))"
    "obj_map L l (object_store L l oid (StpData j) (s\<lparr>fault := b\<rparr>)) = (obj_map L l s)(oid \<mapsto> StpData j)"
    using store_step [OF f(1) _ t] f(2) assms(2) by simp_all
qed

lemma stored_bridge_port:
  assumes "sound L l s" and "obj_map L l s oid = Some (BridgePortData p)"
  shows "sound L l (object_store L l oid (BridgePortData q) (s\<lparr>fault := b\<rparr>))"
    "obj_map L l (object_store L l oid (BridgePortData q) (s\<lparr>fault := b\<rparr>)) = (obj_map L l s)(oid \<mapsto> BridgePortData q)"
proof -
  have f: "sound L l (s\<lparr>fault := b\<rparr>)" "obj_map L l (s\<lparr>fault := b\<rparr>) = obj_map L l s"
    using db_frame [OF assms(1) fault_set_frame] by simp_all
  have t: "data_fits (oid_type oid) (BridgePortData q)" using sound_fits [OF assms] by simp
  show "sound L l (object_store L l oid (BridgePortData q) (s\<lparr>fault := b\<rparr>))"
    "obj_map L l (object_store L l oid (BridgePortData q) (s\<lparr>fault := b\<rparr>)) = (obj_map L l s)(oid \<mapsto> BridgePortData q)"
    using store_step [OF f(1) _ t] f(2) assms(2) by simp_all
qed

lemma kept_frame: "stp_kept L Q l W s \<Longrightarrow> g_sai_db s' = g_sai_db s \<Longrightarrow> stp_kept L Q l W s'"
  using db_frame [of L l s s'] by (simp add: stp_kept_def)

lemma kept_stp: "stp_kept L Q l W s \<Longrightarrow> obj_map L l s oid = Some (StpData i) \<Longrightarrow> stp_ok Q j \<Longrightarrow>
    (\<And>v. (oid, v) \<in> W \<Longrightarrow> bmp_isset Q (vlan_bind_bits j) (unat v)) \<Longrightarrow>
    stp_kept L Q l W (object_store L l oid (StpData j) (s\<lparr>fault := b\<rparr>))"
  by (simp add: stp_kept_def stored_stp counted_store held_store)

lemma kept_bridge_port: "stp_kept L Q l W s \<Longrightarrow> obj_map L l s oid = Some (BridgePortData p) \<Longrightarrow>
    stp_kept L Q l W (object_store L l oid (BridgePortData q) (s\<lparr>fault := b\<rparr>))"
  using held_not [of Q W "obj_map L l s" oid] by (simp add: stp_kept_def stored_bridge_port counted_other held_other)

lemma kept_discard: "stp_kept L Q l W s \<Longrightarrow> oid \<notin> fst ` W \<Longrightarrow> stp_kept L Q l W (snd (ctc_sai_db_remove_object_property L l oid s))"
  by (simp add: stp_kept_def discard_step counted_other held_other)

lemma kept_add:
  assumes "stp_kept L Q l W s" and "data_fits (oid_type oid) d" and "\<forall>i. d = StpData i \<longrightarrow> stp_ok Q i"
  shows "stp_kept L Q l W (snd (ctc_sai_db_add_object_property L l oid (Some d) s))"
    "obj_map L l s x \<noteq> None \<Longrightarrow>
       obj_map L l (snd (ctc_sai_db_add_object_property L l oid (Some d) s)) x = obj_map L l s x"
proof -
  obtain st s' where r: "ctc_sai_db_add_object_property L l oid (Some d) s = (st, s')" by (rule prod.exhaust)
  have s: "sound L l s" using assms(1) by (simp add: stp_kept_def)
  note a = add_step [OF s assms(2) r]
  show "stp_kept L Q l W (snd (ctc_sai_db_add_object_property L l oid (Some d) s))"
  proof (cases "st = SAI_STATUS_SUCCESS")
    case True
    then have "oid \<notin> fst ` W" using assms(1) a(5) held_not [of Q W "obj_map L l s" oid None] by (simp add: stp_kept_def)
    then show ?thesis using True a(2,6) assms(1,3) by (auto simp: r stp_kept_def stp_counted_def intro!: held_other)
  next
    case False
    then show ?thesis using kept_frame [OF assms(1) a(4)] by (simp add: r)
  qed
  show "obj_map L l (snd (ctc_sai_db_add_object_property L l oid (Some d) s)) x = obj_map L l s x" if "obj_map L l s x \<noteq> None"
    using that a(4-6) obj_map_frame [of s' s L l] by (cases "st = SAI_STATUS_SUCCESS") (auto simp: r)
qed

lemma kept_lock: "stp_kept L Q l W s \<Longrightarrow> stp_kept L Q l W (snd (ctc_sai_db_lock L l s))" "stp_kept L Q l W s \<Longrightarrow> stp_kept L Q l W (snd (ctc_sai_db_unlock L l s))"
  by (rule kept_frame; simp)+

lemma kept_set_instance:
  assumes "stp_kept L Q l W s"
    and "\<And>i. obj_map L l s stp = Some (StpData i) \<Longrightarrow> o_value (oid_unpack stp) \<noteq> 0 \<Longrightarrow>
      vlan < 4096 \<and> bmp_isset Q (vlan_bind_bits i) (unat vlan) = (\<not> add)"
    and "add \<or> (stp, vlan) \<notin> W"
  shows "stp_kept L Q l W (snd (ctc_sai_stp_set_instance L Q l vlan ptr stp add s))"
proof (cases "obj_map L l s stp")
  case (Some d)
  show ?thesis
  proof (cases "\<exists>i. d = StpData i")
    case True
    then obtain i where i: "d = StpData i" by blast
    let ?s = "snd (ext_call L (StpSetVlanStpid l ptr (ucast (o_value (oid_unpack stp)))) s)"
    have k: "stp_kept L Q l W ?s" "obj_map L l ?s = obj_map L l s"
      using kept_frame [OF assms(1), of ?s] obj_map_frame [of ?s s] by simp_all
    have ok: "stp_ok Q i" using assms(1) Some i by (simp add: stp_kept_def stp_counted_def)
    have keep: "bmp_isset Q (bmp_set Q (vlan_bind_bits i) (unat vlan)) (unat v)"
        "\<not> add \<Longrightarrow> bmp_isset Q (bmp_unset Q (vlan_bind_bits i) (unat vlan)) (unat v)"
      if "(stp, v) \<in> W" "vlan < 4096" for v
      using that held_bit [of Q W "obj_map L l s" stp v i] assms(1,3) Some i ok
        set_bit [of "unat vlan" "vlan_bind_bits i" "unat v"] unset_bit [of "unat vlan" "vlan_bind_bits i" "unat v"]
      by (auto simp: stp_kept_def stp_ok_def word_less_nat_alt word_unat_eq_iff [symmetric])
    have store: "stp_kept L Q l W (object_store L l stp (StpData j) t)"
      if "stp_kept L Q l W t" "obj_map L l t = obj_map L l s" "stp_ok Q j"
        "\<And>v. (stp, v) \<in> W \<Longrightarrow> bmp_isset Q (vlan_bind_bits j) (unat v)" for t j
      using kept_stp [OF that(1) _ that(3,4), where i = i and b = "fault t"] that(2) Some i by simp
    have b: "o_value (oid_unpack stp) \<noteq> 0 \<Longrightarrow> vlan < 4096 \<and> bmp_isset Q (vlan_bind_bits i) (unat vlan) = (\<not> add)"
      using assms(2) Some i by simp
    show ?thesis
    proof (cases "o_value (oid_unpack stp) = 0")
      case True
      then show ?thesis
        using assms(1) k Some i by (simp add: ctc_sai_stp_set_instance_def obj_map_get Let_def case_prod_beta)
    next
      case False
      note v = b [OF False]
      then have "\<not> 4096 \<le> vlan" by (simp add: not_le)
      then show ?thesis
        using assms(1) k Some i False v keep vlan_bind_ok [OF ok, of "unat vlan"] vlan_unbind_ok [OF ok, of "unat vlan"]
          store [OF assms(1) refl] store [OF k]
        by (cases add) (simp_all add: ctc_sai_stp_set_instance_def obj_map_get Let_def case_prod_beta word_less_nat_alt)
    qed
  next
    case False
    then show ?thesis
      using Some kept_frame [OF assms(1), of "s\<lparr>fault := True\<rparr>"]
      by (auto simp: ctc_sai_stp_set_instance_def obj_map_get Let_def split: obj_data.splits)
  qed
qed (use assms(1) in \<open>simp add: ctc_sai_stp_set_instance_def obj_map_get\<close>)

lemma kept_fault: "stp_kept L Q l W s \<Longrightarrow> stp_kept L Q l W (s\<lparr>fault := b\<rparr>)"
  by (erule kept_frame) simp

lemma kept_add_port:
  assumes "stp_kept L Q l W s" and "oid_type oid = SAI_OBJECT_TYPE_STP_PORT" and "obj_map L l s b = Some (BridgePortData bp)"
  shows "stp_kept L Q l W (add_stp_port L Q l oid b bp v st s)"
proof -
  let ?s = "snd (mem_malloc L s)"
  have k: "stp_kept L Q l W ?s" "obj_map L l ?s = obj_map L l s"
    using kept_frame [OF assms(1), of ?s] obj_map_frame [of ?s s] by simp_all
  note a = kept_add [OF k(1), of oid "StpPortData st"]
  show ?thesis
    using k a(1) kept_bridge_port [OF a(1), of b bp] a(2) [where x = b] assms(2,3)
    by (auto simp: add_stp_port_def Let_def case_prod_beta fault_if)
qed

lemma kept_create_found:
  assumes "stp_kept L Q l W s"
    and "\<And>i p. obj_map L l s stp = Some (StpData i) \<Longrightarrow> obj_map L l s b = Some (BridgePortData p) \<Longrightarrow>
      \<not> port_bound Q (ucast (bp_gport p)) i \<and> \<not> port_bit_outside Q (ucast (bp_gport p))"
  shows "stp_kept L Q l W (snd (stp_create_found L Q l stp b st s))"
proof (cases "\<exists>i p. obj_map L l s stp = Some (StpData i) \<and> obj_map L l s b = Some (BridgePortData p)")
  case True
  then obtain i p where o: "obj_map L l s stp = Some (StpData i)" "obj_map L l s b = Some (BridgePortData p)" by blast
  define g where "g = (ucast (bp_gport p) :: u32)"
  have n: "stp \<noteq> b" using o by auto
  have ok: "stp_ok Q (bind_port Q g i)"
    using assms(1) assms(2) [OF o] o(1) bind_port_ok by (simp add: stp_kept_def stp_counted_def g_def)
  let ?s1 = "snd (ext_call L (GetGchipId l) s)"
  let ?v = "o_value (oid_unpack stp)"
  let ?s2 = "snd (stp_apply_state L Q l (ucast (out_val 0 (env L (trace s) (GetGchipId l)))) g ?v (ctc_sai_stp_map_ctc_port_state Q st) ?s1)"
  have k1: "stp_kept L Q l W ?s1" "obj_map L l ?s1 = obj_map L l s"
    using kept_frame [OF assms(1), of ?s1] obj_map_frame [of ?s1 s] by simp_all
  have s1: "sound L l ?s1" using k1(1) by (simp add: stp_kept_def)
  have k2: "stp_kept L Q l W ?s2" "obj_map L l ?s2 = obj_map L l s"
    using kept_frame [OF k1(1) apply_state_frame(1) [OF s1]] obj_map_frame [OF apply_state_frame(1) [OF s1]] k1(2) by simp_all
  have st: "obj_map L l ?s2 stp = Some (StpData i)" using o(1) k2(2) by simp
  have hb: "\<And>v. (stp, v) \<in> W \<Longrightarrow> bmp_isset Q (vlan_bind_bits (bind_port Q g i)) (unat v)"
    using assms(1) o(1) held_bit [of Q W "obj_map L l s" stp _ i] by (simp add: stp_kept_def)
  note k3 = kept_stp [OF k2(1) st ok hb, of "port_bit_outside Q g \<or> fault ?s2"]
  have m3: "obj_map L l (object_store L l stp (StpData (bind_port Q g i)) (?s2\<lparr>fault := port_bit_outside Q g \<or> fault ?s2\<rparr>)) b =
      Some (BridgePortData p)"
    using stored_stp(2) [OF _ st] k2 o(2) n by (simp add: stp_kept_def)
  note k4 = kept_add_port [OF k3 create_type m3]
  show ?thesis
    using o k4 k2(1) assms(1)
    by (simp add: stp_create_found_def obj_map_get Let_def case_prod_beta fault_if g_def [symmetric])
next
  case False
  then show ?thesis
    using assms(1) kept_fault [OF assms(1), of True]
    by (auto simp: stp_create_found_def obj_map_get Let_def split: option.splits obj_data.splits)
qed

lemma kept_remove_found:
  assumes "stp_kept L Q l W s" and "oid \<notin> fst ` W"
  shows "stp_kept L Q l W (remove_stp_port_found L Q l oid g v s)"
  using kept_discard [OF assms] kept_bridge_port [OF kept_discard [OF assms]] kept_fault [OF kept_discard [OF assms]]
    kept_bridge_port [OF kept_discard [OF assms], where b = "fault (snd (ctc_sai_db_remove_object_property L l oid s))"]
  by (auto simp: remove_stp_port_found_def obj_map_get Let_def fault_if split: option.splits obj_data.splits)

lemma kept_remove_port:
  assumes "stp_kept L Q l W s" and "ctc_sai_oid_get_lchip (inited s) oid = (st, Some l)"
    and "\<And>i. obj_map L l s (ctc_sai_create_object_id SAI_OBJECT_TYPE_STP l 0 0 (ucast (o_value2 (oid_unpack oid)))) = Some (StpData i) \<Longrightarrow>
      port_bound Q (o_value (oid_unpack oid)) i \<and> \<not> port_bit_outside Q (o_value (oid_unpack oid))"
    and "oid \<notin> fst ` W"
  shows "stp_kept L Q l W (snd (stp_remove_stp_port L Q oid s))"
proof -
  have l: "ucast (o_lchip (oid_unpack oid)) = l"
    using assms(2) by (auto simp: ctc_sai_oid_get_lchip_def ctc_sai_get_ctc_object_id_def Let_def split: if_splits)
  let ?stp = "ctc_sai_create_object_id SAI_OBJECT_TYPE_STP l 0 0 (ucast (o_value2 (oid_unpack oid)))"
  define g where "g = o_value (oid_unpack oid)"
  let ?s1 = "snd (ext_call L (GetGchipId l) s)"
  let ?s2 = "snd (stp_apply_state L Q l (ucast (out_val 0 (env L (trace s) (GetGchipId l)))) g (ucast (o_value2 (oid_unpack oid)))
    (stp_state Q CTC_STP_FORWARDING) ?s1)"
  have k1: "stp_kept L Q l W ?s1" "obj_map L l ?s1 = obj_map L l s"
    using kept_frame [OF assms(1), of ?s1] obj_map_frame [of ?s1 s] by simp_all
  have s1: "sound L l ?s1" using k1(1) by (simp add: stp_kept_def)
  have k2: "stp_kept L Q l W ?s2" "obj_map L l ?s2 = obj_map L l s"
    using kept_frame [OF k1(1) apply_state_frame(1) [OF s1]] obj_map_frame [OF apply_state_frame(1) [OF s1]] k1(2) by simp_all
  have r: "stp_kept L Q l W (remove_stp_port_found L Q l oid g v (object_store L l ?stp (StpData (unbind_port Q g i)) (?s2\<lparr>fault := b\<rparr>)))"
    if o: "obj_map L l s ?stp = Some (StpData i)" for i b v
  proof -
    have "stp_ok Q (unbind_port Q g i)"
      using assms(1) assms(3) [OF o] o unbind_port_ok by (simp add: stp_kept_def stp_counted_def g_def)
    moreover have "\<And>v. (?stp, v) \<in> W \<Longrightarrow> bmp_isset Q (vlan_bind_bits (unbind_port Q g i)) (unat v)"
      using assms(1) o held_bit [of Q W "obj_map L l s" ?stp _ i] by (simp add: stp_kept_def)
    ultimately show ?thesis using kept_remove_found [OF kept_stp [OF k2(1)] assms(4)] o k2(2) by simp
  qed
  show ?thesis
    using r r [where b = "fault ?s2"] k1 k2(1) kept_fault [OF k1(1), of True]
    by (auto simp: stp_remove_stp_port_def assms(2) l obj_map_get Let_def case_prod_beta fault_if g_def [symmetric]
        split: option.splits obj_data.splits)
qed

lemma kept_create_stp:
  assumes "stp_kept L Q l W s"
  shows "stp_kept L Q l W (snd (create_stp_locked L l s))"
proof -
  let ?s1 = "snd (ctc_sai_db_alloc_id L l CTC_SAI_DB_ID_TYPE_STP s)"
  let ?oid = "ctc_sai_create_object_id SAI_OBJECT_TYPE_STP l 0 0 (out_or 0 (snd (fst (ctc_sai_db_alloc_id L l CTC_SAI_DB_ID_TYPE_STP s))))"
  have k1: "stp_kept L Q l W ?s1" by (rule kept_frame [OF assms]) simp
  have k2: "stp_kept L Q l W (snd (mem_malloc L ?s1))" by (rule kept_frame [OF k1]) simp
  have k3: "stp_kept L Q l W (snd (ctc_sai_db_add_object_property L l ?oid (Some (StpData zero_stp)) (snd (mem_malloc L ?s1))))"
    by (rule kept_add [OF k2]) (simp_all add: create_type zero_stp_ok)
  have "stp_kept L Q l W (snd (ctc_sai_db_free_id L l p i t))" if "stp_kept L Q l W t" for p i t
    by (rule kept_frame [OF that]) simp
  then show ?thesis
    using k1 k2 k3 by (simp add: create_stp_locked_def Let_def case_prod_beta)
qed

lemma kept_remove_stp:
  assumes "stp_kept L Q l W s"
  shows "stp_kept L Q l W (snd (remove_stp_locked L l oid s))"
proof (cases "\<exists>i. obj_map L l s oid = Some (StpData i)")
  case True
  then obtain i where i: "obj_map L l s oid = Some (StpData i)" by blast
  have ok: "stp_ok Q i" "data_fits (oid_type oid) (StpData i)"
    using assms i sound_fits [OF _ i] by (simp_all add: stp_kept_def stp_counted_def)
  show ?thesis
  proof (cases "vlan_bind_count i = 0")
    case True
    have "bits Q (vlan_bind_bits i) = []" using ok(1) True by (simp add: stp_ok_def)
    then have "oid \<notin> fst ` W"
      using assms i ok(1) held_bit [of Q W "obj_map L l s" oid _ i]
      by (fastforce simp: stp_kept_def stp_ok_def bits_def filter_empty_conv word_less_nat_alt)
    note k1 = kept_discard [OF assms this]
    have k2: "stp_kept L Q l W (snd (ctc_sai_db_free_id L l p n (snd (ctc_sai_db_remove_object_property L l oid s))))" for p n
      by (rule kept_frame [OF k1]) simp
    show ?thesis
      using assms i k1 k2 kept_add(1) [OF k2 ok(2)] ok(1)
      by (simp add: remove_stp_locked_def obj_map_get Let_def case_prod_beta)
  qed (use assms i in \<open>simp add: remove_stp_locked_def obj_map_get\<close>)
next
  case False
  then show ?thesis
    using assms kept_fault [OF assms, of True] by (auto simp: remove_stp_locked_def obj_map_get split: option.splits obj_data.splits)
qed

end

section \<open>Reachable states\<close>

text \<open>
  What a caller has to see to: a port is bound to an instance that does not have it and unbound from
  one that has it, and so is a VLAN; the module checks neither.
\<close>

definition binding_new :: "stp_sdk \<Rightarrow> u32 \<Rightarrow> sai_attribute list option \<Rightarrow> (sai_object_id \<Rightarrow> obj_data option) \<Rightarrow> bool" where
  "binding_new Q n as M \<longleftrightarrow>
     (\<forall>st1 v1 j1 st2 v2 j2 i p.
        ctc_sai_find_attrib_in_list n as SAI_STP_PORT_ATTR_STP = (st1, Some (v1, j1)) \<and>
        ctc_sai_find_attrib_in_list n as SAI_STP_PORT_ATTR_BRIDGE_PORT = (st2, Some (v2, j2)) \<and>
        M (oiddata v1) = Some (StpData i) \<and> M (oiddata v2) = Some (BridgePortData p) \<longrightarrow>
        \<not> port_bound Q (ucast (bp_gport p)) i \<and> \<not> port_bit_outside Q (ucast (bp_gport p)))"

definition unbinding_old :: "stp_sdk \<Rightarrow> u8 \<Rightarrow> sai_object_id \<Rightarrow> (sai_object_id \<Rightarrow> obj_data option) \<Rightarrow> bool" where
  "unbinding_old Q l oid M \<longleftrightarrow>
     (\<forall>i. M (ctc_sai_create_object_id SAI_OBJECT_TYPE_STP l 0 0 (ucast (o_value2 (oid_unpack oid)))) = Some (StpData i) \<longrightarrow>
        port_bound Q (o_value (oid_unpack oid)) i \<and> \<not> port_bit_outside Q (o_value (oid_unpack oid)))"

definition vlan_fits :: "stp_sdk \<Rightarrow> u16 \<Rightarrow> sai_object_id \<Rightarrow> bool \<Rightarrow> (sai_object_id \<Rightarrow> obj_data option) \<Rightarrow> bool" where
  "vlan_fits Q vlan stp add M \<longleftrightarrow>
     (\<forall>i. M stp = Some (StpData i) \<and> o_value (oid_unpack stp) \<noteq> 0 \<longrightarrow>
        vlan < 4096 \<and> bmp_isset Q (vlan_bind_bits i) (unat vlan) = (\<not> add))"

text \<open>
  The states that calls lead to, without a call that unbinds one of the VLANs of \<open>W\<close> from its
  instance; the identifier of a port that is removed is not that of such an instance, since the
  removal deletes whatever object it is given.
\<close>

inductive stp_reach ::
    "('o, 'e, 'v) ctc_lib \<Rightarrow> stp_sdk \<Rightarrow> u8 \<Rightarrow> (sai_object_id \<times> u16) set \<Rightarrow>
     ('o, 'e, 'v) sai_state \<Rightarrow> ('o, 'e, 'v) sai_state \<Rightarrow> bool"
  for L Q l W s0 where
  start: "stp_reach L Q l W s0 s0"
| create: "stp_reach L Q l W s0 s \<Longrightarrow> ctc_sai_oid_get_lchip (inited s) switch_id = (st, Some l) \<Longrightarrow>
    ctc_sai_stp_create_stp L null switch_id s = (r, s') \<Longrightarrow> stp_reach L Q l W s0 s'"
| remove: "stp_reach L Q l W s0 s \<Longrightarrow> ctc_sai_oid_get_lchip (inited s) oid = (st, Some l) \<Longrightarrow>
    ctc_sai_stp_remove_stp L oid s = (st', s') \<Longrightarrow> stp_reach L Q l W s0 s'"
| create_port: "stp_reach L Q l W s0 s \<Longrightarrow> ctc_sai_oid_get_lchip (inited s) switch_id = (st, Some l) \<Longrightarrow>
    binding_new Q n as (obj_map L l s) \<Longrightarrow>
    ctc_sai_stp_create_stp_port L Q null switch_id n as s = (r, s') \<Longrightarrow> stp_reach L Q l W s0 s'"
| remove_port: "stp_reach L Q l W s0 s \<Longrightarrow> ctc_sai_oid_get_lchip (inited s) oid = (st, Some l) \<Longrightarrow>
    unbinding_old Q l oid (obj_map L l s) \<Longrightarrow> oid \<notin> fst ` W \<Longrightarrow>
    ctc_sai_stp_remove_stp_port L Q oid s = (st', s') \<Longrightarrow> stp_reach L Q l W s0 s'"
| set_port: "stp_reach L Q l W s0 s \<Longrightarrow> ctc_sai_oid_get_lchip (inited s) oid = (st, Some l) \<Longrightarrow>
    ctc_sai_stp_set_stp_port_attribute L Q oid a s = (st', s') \<Longrightarrow> stp_reach L Q l W s0 s'"
| set_vlan: "stp_reach L Q l W s0 s \<Longrightarrow> vlan_fits Q vlan stp add (obj_map L l s) \<Longrightarrow> add \<or> (stp, vlan) \<notin> W \<Longrightarrow>
    ctc_sai_stp_set_instance L Q l vlan ptr stp add s = (st', s') \<Longrightarrow> stp_reach L Q l W s0 s'"

lemma apply_state_db: "g_sai_db (snd (stp_apply_state L Q l g port v st s)) = g_sai_db s"
  by (simp add: stp_apply_state_def Let_def case_prod_beta member_states_frame split: option.splits obj_data.splits)

lemma set_port_info_db: "g_sai_db (snd (ctc_sai_stp_set_port_info L Q oid a s)) = g_sai_db s"
  by (simp add: ctc_sai_stp_set_port_info_def Let_def case_prod_beta apply_state_db)

lemma set_stp_port_attribute_db:
  "g_sai_db (snd (ctc_sai_stp_set_stp_port_attribute L Q oid a s)) = g_sai_db s"
  by (auto simp: ctc_sai_stp_set_stp_port_attribute_def ctc_sai_set_attribute_def ctc_sai_find_attribute_fn_def
      stp_port_attr_fn_entries_def Let_def case_prod_beta set_port_info_db split: option.splits)

context stp_lib
begin

lemma kept_locked:
  assumes "stp_kept L Q l W s" and "\<And>t. stp_kept L Q l W t \<Longrightarrow> g_sai_db t = g_sai_db s \<Longrightarrow> stp_kept L Q l W (snd (f t))"
  shows "stp_kept L Q l W (snd (ctc_sai_db_unlock L l (snd (f (snd (ctc_sai_db_lock L l s))))))"
  by (rule kept_lock(2), rule assms(2), rule kept_lock(1) [OF assms(1)]) simp

lemma kept_create_port:
  assumes "stp_kept L Q l W s" and "binding_new Q n as (obj_map L l s)"
  shows "stp_kept L Q l W (snd (stp_create_stp_port L Q l n as s))"
proof -
  obtain e1 r1 e2 r2 e3 r3 where f: "ctc_sai_find_attrib_in_list n as SAI_STP_PORT_ATTR_STP = (e1, r1)"
      "ctc_sai_find_attrib_in_list n as SAI_STP_PORT_ATTR_BRIDGE_PORT = (e2, r2)"
      "ctc_sai_find_attrib_in_list n as SAI_STP_PORT_ATTR_STATE = (e3, r3)"
    by (metis prod.exhaust)
  show ?thesis
  proof (cases "r1 = None \<or> r2 = None \<or> r3 = None")
    case True
    then show ?thesis using assms(1) f by (cases r1; cases r2; cases r3) (auto simp: stp_create_stp_port_def)
  next
    case False
    then obtain v1 j1 v2 j2 v3 j3 where r: "r1 = Some (v1, j1)" "r2 = Some (v2, j2)" "r3 = Some (v3, j3)" by (cases r1; cases r2; cases r3) auto
    have "\<not> port_bound Q (ucast (bp_gport p)) i \<and> \<not> port_bit_outside Q (ucast (bp_gport p))"
      if "obj_map L l s (oiddata v1) = Some (StpData i)" "obj_map L l s (oiddata v2) = Some (BridgePortData p)" for i p
      using assms(2) f r that unfolding binding_new_def by blast
    from kept_create_found [OF assms(1) this] show ?thesis using assms(1) by (simp add: stp_create_stp_port_def f r)
  qed
qed

lemma reach_kept: "stp_reach L Q l W s0 s \<Longrightarrow> stp_kept L Q l W s0 \<Longrightarrow> stp_kept L Q l W s"
proof (induction rule: stp_reach.induct)
  case (create s switch_id st null r s')
  then show ?case
    using kept_locked [of l W s "create_stp_locked L l"] kept_create_stp
    by (auto simp: ctc_sai_stp_create_stp_def Let_def case_prod_beta split: if_splits)
next
  case (remove s oid st st' s')
  then show ?case
    using kept_locked [of l W s "remove_stp_locked L l oid"] kept_remove_stp
    by (auto simp: ctc_sai_stp_remove_stp_def Let_def case_prod_beta)
next
  case (create_port s switch_id st n as null r s')
  have "stp_kept L Q l W (snd (stp_create_stp_port L Q l n as t))" if "stp_kept L Q l W t" "g_sai_db t = g_sai_db s" for t
    by (rule kept_create_port [OF that(1)]) (simp only: obj_map_frame [OF that(2)] create_port(3))
  from kept_locked [OF create_port.IH [OF create_port.prems] this] show ?case
    using create_port by (auto simp: ctc_sai_stp_create_stp_port_def Let_def case_prod_beta split: if_splits)
next
  case (remove_port s oid st st' s')
  have "stp_kept L Q l W (snd (stp_remove_stp_port L Q oid t))" if "stp_kept L Q l W t" "g_sai_db t = g_sai_db s" for t
    using remove_port(3) unfolding unbinding_old_def obj_map_frame [OF that(2), symmetric]
    by (intro kept_remove_port [OF that(1), of oid st]) (simp_all add: chip_frame_eqs(4) [OF that(2)] remove_port(2,4))
  from kept_locked [OF remove_port.IH [OF remove_port.prems] this] show ?case
    using remove_port by (auto simp: ctc_sai_stp_remove_stp_port_def Let_def case_prod_beta)
next
  case (set_port s oid st a st' s')
  then show ?case using kept_frame [of l W s s'] set_stp_port_attribute_db [of L Q oid a s] by simp
next
  case (set_vlan s vlan stp add ptr st' s')
  then show ?case using kept_set_instance [of l W s stp vlan add ptr] by (auto simp: vlan_fits_def)
qed simp

end

section \<open>Effects of single operations\<close>

lemma stp_port_id_nonzero: "ctc_sai_create_object_id SAI_OBJECT_TYPE_STP_PORT l b v gp \<noteq> 0"
proof
  assume "ctc_sai_create_object_id SAI_OBJECT_TYPE_STP_PORT l b v gp = 0"
  then have "oid_type (ctc_sai_create_object_id SAI_OBJECT_TYPE_STP_PORT l b v gp) = 0" by (simp add: oid_type_eq oid_unpack_def)
  then show False by (simp add: create_type)
qed

context stp_lib
begin

lemma store_stp_step:
  assumes "sound L l s" and "obj_map L l s oid = Some (StpData i)"
  shows "sound L l (object_store L l oid (StpData j) s)" "quiet s (object_store L l oid (StpData j) s)"
    "obj_map L l (object_store L l oid (StpData j) s) = (obj_map L l s)(oid \<mapsto> StpData j)"
  using store_step [OF assms(1), of oid "StpData j"] sound_fits [OF assms] assms(2) by simp_all

lemma store_bridge_port_step:
  assumes "sound L l s" and "obj_map L l s oid = Some (BridgePortData p)"
  shows "sound L l (object_store L l oid (BridgePortData q) s)" "quiet s (object_store L l oid (BridgePortData q) s)"
    "obj_map L l (object_store L l oid (BridgePortData q) s) = (obj_map L l s)(oid \<mapsto> BridgePortData q)"
  using store_step [OF assms(1), of oid "BridgePortData q"] sound_fits [OF assms] assms(2) by simp_all

lemma gchip_step:
  assumes "sound L l s"
  shows "sound L l (snd (ext_call L (GetGchipId l') s))" "quiet s (snd (ext_call L (GetGchipId l') s))"
    "obj_map L l (snd (ext_call L (GetGchipId l') s)) = obj_map L l s"
  using db_frame [OF assms, of "snd (ext_call L (GetGchipId l') s)"] ext_quiet [of "GetGchipId l'"] by simp_all

lemma apply_state_step:
  assumes "sound L l s"
  shows "sound L l (snd (stp_apply_state L Q l g port v st s))"
    "obj_map L l (snd (stp_apply_state L Q l g port v st s)) = obj_map L l s"
  using db_frame [OF assms apply_state_frame(1) [OF assms]] by simp_all

lemma add_port_effect:
  assumes s: "sound L l s" and t: "oid_type oid = SAI_OBJECT_TYPE_STP_PORT" and b: "obj_map L l s b = Some (BridgePortData bp)"
    and v: "v < 128" and new: "obj_map L l s oid = None" and there: "obj_map L l (add_stp_port L Q l oid b bp v st s) oid \<noteq> None"
  shows "sound L l (add_stp_port L Q l oid b bp v st s)" "quiet s (add_stp_port L Q l oid b bp v st s)"
    "obj_map L l (add_stp_port L Q l oid b bp v st s) =
       (obj_map L l s)(oid \<mapsto> StpPortData st, b \<mapsto> BridgePortData (bridge_port_bind Q (unat v) st bp))"
proof -
  let ?s1 = "snd (mem_malloc L s)"
  have s1: "sound L l ?s1" "obj_map L l ?s1 = obj_map L l s" using db_frame [OF s, of ?s1] by simp_all
  obtain e s2 where a: "ctc_sai_db_add_object_property L l oid (Some (StpPortData st)) ?s1 = (e, s2)" by (rule prod.exhaust)
  note k = add_step [OF s1(1) _ a]
  have f: "data_fits (oid_type oid) (StpPortData st)" using t by simp
  have ne: "oid \<noteq> b" using b new by auto
  have b2: "obj_map L l s2 b = Some (BridgePortData bp)"
    using k(4) [OF f] k(6) [OF f] b ne s1(2) obj_map_frame [of s2 ?s1 L l] by (cases "e = SAI_STATUS_SUCCESS") auto
  note w = store_bridge_port_step [OF k(2) [OF f] b2]
  have ok: "fst (mem_malloc L s)"
    using there new obj_map_frame [of ?s1 s L l] by (auto simp: add_stp_port_def case_prod_beta Let_def)
  have r: "add_stp_port L Q l oid b bp v st s = object_store L l b (BridgePortData (bridge_port_bind Q (unat v) st bp)) s2"
    using ok v by (simp add: add_stp_port_def case_prod_beta Let_def a not_le [symmetric])
  have e: "e = SAI_STATUS_SUCCESS"
  proof (rule ccontr)
    assume "e \<noteq> SAI_STATUS_SUCCESS"
    from obj_map_frame [OF k(4) [OF f this], of L l] show False using there new ne s1(2) by (simp add: r w(3))
  qed
  show "sound L l (add_stp_port L Q l oid b bp v st s)" by (simp add: r w(1))
  show "quiet s (add_stp_port L Q l oid b bp v st s)"
    unfolding r by (rule quiet_trans [OF malloc_step(2) quiet_trans [OF k(3) [OF f] w(2)]])
  show "obj_map L l (add_stp_port L Q l oid b bp v st s) =
       (obj_map L l s)(oid \<mapsto> StpPortData st, b \<mapsto> BridgePortData (bridge_port_bind Q (unat v) st bp))"
    by (simp add: r w(3) k(6) [OF f e] s1(2))
qed

lemma create_port_effect:
  assumes s: "sound L l s" and o: "obj_map L l s stp = Some (StpData i)" "obj_map L l s b = Some (BridgePortData p)"
    and v: "o_value (oid_unpack stp) < 128" and out: "\<not> port_bit_outside Q (ucast (bp_gport p))"
    and run: "stp_create_found L Q l stp b st s = ((SAI_STATUS_SUCCESS, Some oid), s')"
    and new: "obj_map L l s oid = None" and there: "obj_map L l s' oid \<noteq> None"
  shows "oid = ctc_sai_create_object_id SAI_OBJECT_TYPE_STP_PORT l 0 (ucast (o_value (oid_unpack stp))) (ucast (bp_gport p))"
    "sound L l s'" "quiet s s'"
    "obj_map L l s' = (obj_map L l s)(stp \<mapsto> StpData (bind_port Q (ucast (bp_gport p)) i),
       oid \<mapsto> StpPortData (ctc_sai_stp_map_ctc_port_state Q st),
       b \<mapsto> BridgePortData (bridge_port_bind Q (unat (o_value (oid_unpack stp))) (ctc_sai_stp_map_ctc_port_state Q st) p))"
proof -
  define g where "g = (ucast (bp_gport p) :: u32)"
  let ?s1 = "snd (ext_call L (GetGchipId l) s)" and ?v = "o_value (oid_unpack stp)" and ?st = "ctc_sai_stp_map_ctc_port_state Q st"
  let ?a = "stp_apply_state L Q l (ucast (out_val 0 (env L (trace s) (GetGchipId l)))) g ?v ?st ?s1"
  let ?s2 = "snd ?a" and ?oid = "ctc_sai_create_object_id SAI_OBJECT_TYPE_STP_PORT l 0 (ucast ?v) g"
  note s1 = gchip_step [OF s, of l]
  note s2 = apply_state_step [OF s1(1), where g = "ucast (out_val 0 (env L (trace s) (GetGchipId l)))" and port = g and v = ?v and st = ?st]
  have m2: "obj_map L l ?s2 = obj_map L l s" using s2(2) s1(3) by simp
  have o2: "obj_map L l ?s2 stp = Some (StpData i)" using o(1) m2 by simp
  define s3 where "s3 = object_store L l stp (StpData (bind_port Q g i)) ?s2"
  note w = store_stp_step [OF s2(1) o2, of "bind_port Q g i", folded s3_def]
  have q3: "quiet s s3" by (rule quiet_trans [OF s1(2) quiet_trans [OF apply_state_frame(2) [OF s1(1)] w(2)]])
  have out': "\<not> port_bit_outside Q g" using out by (simp add: g_def)
  have r: "oid = ?oid" "s' = add_stp_port L Q l ?oid b p ?v ?st s3"
    using run o out' by (auto simp: stp_create_found_def obj_map_get Let_def case_prod_beta status_leaves_def g_def [symmetric] s3_def
        split: if_splits)
  have n: "stp \<noteq> b" "?oid \<noteq> stp" using o new r(1) by auto
  have b3: "obj_map L l s3 b = Some (BridgePortData p)" "obj_map L l s3 ?oid = None"
    using w(3) m2 o(2) n new r(1) by simp_all
  show "oid = ctc_sai_create_object_id SAI_OBJECT_TYPE_STP_PORT l 0 (ucast ?v) (ucast (bp_gport p))" using r(1) by (simp add: g_def)
  show "sound L l s'" "quiet s s'"
    using add_port_effect [OF w(1) create_type b3(1) v b3(2)] there r quiet_trans [OF q3] by simp_all
  show "obj_map L l s' = (obj_map L l s)(stp \<mapsto> StpData (bind_port Q (ucast (bp_gport p)) i), oid \<mapsto> StpPortData ?st,
       b \<mapsto> BridgePortData (bridge_port_bind Q (unat ?v) ?st p))"
    using add_port_effect(3) [OF w(1) create_type b3(1) v b3(2)] there r w(3) m2 by (simp add: g_def)
qed

lemma remove_port_effect:
  fixes gp :: u32
  defines "stp \<equiv> \<lambda>l v. ctc_sai_create_object_id SAI_OBJECT_TYPE_STP l 0 0 (ucast (v :: u16))"
    and "bport \<equiv> \<lambda>l. ctc_sai_create_object_id SAI_OBJECT_TYPE_BRIDGE_PORT l 0 0 gp"
    and "oid \<equiv> \<lambda>l v. ctc_sai_create_object_id SAI_OBJECT_TYPE_STP_PORT l 0 v gp"
  assumes s: "sound L l s" and o: "obj_map L l s (stp l v) = Some (StpData i)" "obj_map L l s (bport l) = Some (BridgePortData p)"
    and v: "v < 128" and out: "\<not> port_bit_outside Q gp"
    and run: "stp_remove_stp_port L Q (oid l v) s = (SAI_STATUS_SUCCESS, s')"
  shows "sound L l s'" "quiet s s'"
    "obj_map L l s' = (obj_map L l s)(stp l v \<mapsto> StpData (unbind_port Q gp i), oid l v := None,
       bport l \<mapsto> BridgePortData (bridge_port_unbind Q (unat v) p))"
proof -
  have l: "ctc_sai_oid_get_lchip (inited s) (oid l v) = (SAI_STATUS_SUCCESS, Some l)"
    unfolding oid_def by (rule created_lchip [OF s])
  then have c: "ucast (o_lchip (oid_unpack (oid l v))) = l" "o_value (oid_unpack (oid l v)) = gp" "o_value2 (oid_unpack (oid l v)) = v"
    by (auto simp: oid_def create_fields ctc_sai_oid_get_lchip_def ctc_sai_get_ctc_object_id_def Let_def split: if_splits)
  have z: "oid l v \<noteq> 0" by (simp add: oid_def stp_port_id_nonzero)
  let ?s1 = "snd (ext_call L (GetGchipId l) s)"
  define s2 where "s2 = snd (stp_apply_state L Q l (ucast (out_val 0 (env L (trace s) (GetGchipId l)))) gp (ucast v)
    (stp_state Q CTC_STP_FORWARDING) ?s1)"
  note s1 = gchip_step [OF s, of l]
  have k2: "sound L l s2" "obj_map L l s2 = obj_map L l s" "quiet s s2"
    using apply_state_step [OF s1(1)] s1(3) quiet_trans [OF s1(2) apply_state_frame(2) [OF s1(1)]] by (simp_all add: s2_def)
  have o2: "obj_map L l s2 (stp l v) = Some (StpData i)" using o(1) k2(2) by simp
  define s3 where "s3 = object_store L l (stp l v) (StpData (unbind_port Q gp i)) s2"
  note w = store_stp_step [OF k2(1) o2, of "unbind_port Q gp i", folded s3_def]
  define s4 where "s4 = snd (ctc_sai_db_remove_object_property L l (oid l v) s3)"
  note d = discard_step [OF w(1), of "oid l v", folded s4_def]
  have n: "bport l \<noteq> stp l v" using o by auto
  have t: "oid_type (oid l v) \<noteq> oid_type (bport l)" by (simp add: oid_def bport_def create_type)
  then have n': "oid l v \<noteq> bport l" by auto
  have o4: "obj_map L l s4 (bport l) = Some (BridgePortData p)" using d(3) w(3) k2(2) o(2) n n' by simp
  note b = store_bridge_port_step [OF d(1) o4, of "bridge_port_unbind Q (unat v) p"]
  have e: "ctc_sai_create_object_id SAI_OBJECT_TYPE_STP l 0 0 (ucast v) = stp l v"
      "ctc_sai_create_object_id SAI_OBJECT_TYPE_BRIDGE_PORT l 0 0 gp = bport l"
    by (simp_all add: stp_def bport_def)
  have r: "s' = object_store L l (bport l) (BridgePortData (bridge_port_unbind Q (unat v) p)) s4"
    using run o o4 z out v s1(3)
    by (auto simp: stp_remove_stp_port_def remove_stp_port_found_def l c obj_map_get Let_def case_prod_beta status_leaves_def
        e s2_def [symmetric] s3_def [symmetric] s4_def [symmetric] not_le [symmetric]
        split: if_splits)
  show "sound L l s'" by (simp add: r b(1))
  show "quiet s s'" unfolding r by (rule quiet_trans [OF k2(3) quiet_trans [OF w(2) quiet_trans [OF d(2) b(2)]]])
  show "obj_map L l s' = (obj_map L l s)(stp l v \<mapsto> StpData (unbind_port Q gp i), oid l v := None,
       bport l \<mapsto> BridgePortData (bridge_port_unbind Q (unat v) p))"
    by (simp add: r b(3) d(3) w(3) k2(2))
qed

text \<open>A removal succeeds whenever the instance is there and the device takes the forwarding state.\<close>

lemma remove_port_status:
  fixes v :: u16 and gp :: u32
  assumes s: "sound L l s" and o: "obj_map L l s (ctc_sai_create_object_id SAI_OBJECT_TYPE_STP l 0 0 (ucast v)) = Some (StpData i)"
    and a: "fst (stp_apply_state L Q l (ucast (out_val 0 (env L (trace s) (GetGchipId l)))) gp (ucast v) (stp_state Q CTC_STP_FORWARDING)
        (snd (ext_call L (GetGchipId l) s))) = SAI_STATUS_SUCCESS"
  shows "fst (stp_remove_stp_port L Q (ctc_sai_create_object_id SAI_OBJECT_TYPE_STP_PORT l 0 v gp) s) = SAI_STATUS_SUCCESS"
proof -
  note l = created_lchip [OF s, of SAI_OBJECT_TYPE_STP_PORT 0 v gp]
  define oid where "oid = ctc_sai_create_object_id SAI_OBJECT_TYPE_STP_PORT l 0 v gp"
  have c: "ucast (o_lchip (oid_unpack oid)) = l" "o_value (oid_unpack oid) = gp" "o_value2 (oid_unpack oid) = v"
    using l by (auto simp: oid_def create_fields ctc_sai_oid_get_lchip_def ctc_sai_get_ctc_object_id_def Let_def split: if_splits)
  show ?thesis
    using o a gchip_step(3) [OF s, of l] stp_port_id_nonzero [of l 0 v gp]
    unfolding oid_def [symmetric]
    by (simp add: stp_remove_stp_port_def l [folded oid_def] c obj_map_get Let_def case_prod_beta status_leaves_def)
qed

lemma unbind_bind:
  assumes "stp_ok Q i" and "\<not> port_bound Q g i" and "\<not> port_bit_outside Q g"
  shows "unbind_port Q g (bind_port Q g i) = i"
proof (cases "is_linkagg_port Q g")
  case True
  have "unat (ucast g :: u8) < 32 * length (lag_bind_bits i)" "\<not> bmp_isset Q (lag_bind_bits i) (unat (ucast g :: u8))"
    using assms(1,2) True lag_bit [of g] by (auto simp: stp_ok_def port_bound_def)
  from unset_set [OF this] show ?thesis using True by (simp add: bind_port_def unbind_port_def)
next
  case False
  have "gport_to_lport Q g < 32 * length (port_bind_bits i)" "\<not> bmp_isset Q (port_bind_bits i) (gport_to_lport Q g)"
    using assms False by (auto simp: stp_ok_def port_bound_def port_bit_outside_def)
  from unset_set [OF this] show ?thesis using False by (simp add: bind_port_def unbind_port_def)
qed

lemma bridge_port_unbind_bind:
  assumes "length (stp_port_bind_bits p) = 4" and "v < 128" and "\<not> bmp_isset Q (stp_port_bind_bits p) v"
  shows "bridge_port_unbind Q v (bridge_port_bind Q v st p) =
    p\<lparr>bp_stp_port_state := (bp_stp_port_state p)[v := stp_state Q CTC_STP_FORWARDING]\<rparr>"
  using unset_set [of v "stp_port_bind_bits p"] assms by (simp add: bridge_port_unbind_def bridge_port_bind_def)

lemma set_instance_other:
  assumes "sound L l s" and "stp \<noteq> oid"
  shows "sound L l (snd (ctc_sai_stp_set_instance L Q l vlan ptr stp add s)) \<and>
    obj_map L l (snd (ctc_sai_stp_set_instance L Q l vlan ptr stp add s)) oid = obj_map L l s oid"
proof (cases "\<exists>i. obj_map L l s stp = Some (StpData i)")
  case True
  then obtain i where i: "obj_map L l s stp = Some (StpData i)" by blast
  have k: "sound L l (snd (ext_call L c s))" "obj_map L l (snd (ext_call L c s)) = obj_map L l s" for c
    using db_frame [OF assms(1), of "snd (ext_call L c s)"] by simp_all
  have o: "obj_map L l (snd (ext_call L c s)) stp = Some (StpData i)" for c using i k(2) by simp
  show ?thesis
    using assms i k stored_stp [OF assms(1) i] stored_stp [OF k(1) o] store_stp_step [OF assms(1) i] store_stp_step [OF k(1) o]
    by (simp add: ctc_sai_stp_set_instance_def obj_map_get Let_def case_prod_beta)
next
  case False
  then show ?thesis
    using assms(1) db_frame [OF assms(1), of "s\<lparr>fault := True\<rparr>"]
    by (auto simp: ctc_sai_stp_set_instance_def obj_map_get Let_def split: option.splits obj_data.splits)
qed

lemma create_remove_port:
  fixes gp :: u32 and v :: u16 and l :: u8
  defines "stp \<equiv> ctc_sai_create_object_id SAI_OBJECT_TYPE_STP l 0 0 (ucast v)"
    and "bport \<equiv> ctc_sai_create_object_id SAI_OBJECT_TYPE_BRIDGE_PORT l 0 0 gp"
  assumes s: "sound L l s" and i: "obj_map L l s stp = Some (StpData i)" "stp_ok Q i"
    and p: "obj_map L l s bport = Some (BridgePortData p)" "ucast (bp_gport p) = gp" "length (stp_port_bind_bits p) = 4"
    and v: "v < 128" "\<not> bmp_isset Q (stp_port_bind_bits p) (unat v)" and g: "\<not> port_bound Q gp i" "\<not> port_bit_outside Q gp"
    and c: "stp_create_found L Q l stp bport st s = ((SAI_STATUS_SUCCESS, Some oid), s1)"
    and there: "obj_map L l s oid = None" "obj_map L l s1 oid \<noteq> None"
  shows "oid = ctc_sai_create_object_id SAI_OBJECT_TYPE_STP_PORT l 0 v gp \<and> sound L l s1 \<and> quiet s s1"
    and "sound L l t \<Longrightarrow> obj_map L l t = obj_map L l s1 \<Longrightarrow> stp_remove_stp_port L Q oid t = (SAI_STATUS_SUCCESS, s2) \<Longrightarrow>
      sound L l s2 \<and> quiet t s2 \<and> obj_map L l s2 = (obj_map L l s)(bport \<mapsto>
        BridgePortData (p\<lparr>bp_stp_port_state := (bp_stp_port_state p)[unat v := stp_state Q CTC_STP_FORWARDING]\<rparr>))"
proof -
  let ?st = "ctc_sai_stp_map_ctc_port_state Q st"
  have e: "o_value (oid_unpack stp) = ucast v" by (simp add: stp_def create_fields)
  have v': "o_value (oid_unpack stp) < 128" "unat (o_value (oid_unpack stp)) = unat v" "ucast (o_value (oid_unpack stp)) = v"
    using v(1) unfolding e by (simp_all add: word_less_nat_alt unat_up_16_32 ucast_up_down_16)
  have k: "oid = ctc_sai_create_object_id SAI_OBJECT_TYPE_STP_PORT l 0 v gp" "sound L l s1" "quiet s s1"
      "obj_map L l s1 = (obj_map L l s)(stp \<mapsto> StpData (bind_port Q gp i), oid \<mapsto> StpPortData ?st,
         bport \<mapsto> BridgePortData (bridge_port_bind Q (unat v) ?st p))"
    using create_port_effect [OF s i(1) p(1) v'(1) _ c there] g(2) p(2) v'(2,3) by simp_all
  then show "oid = ctc_sai_create_object_id SAI_OBJECT_TYPE_STP_PORT l 0 v gp \<and> sound L l s1 \<and> quiet s s1" by simp
  have ne: "stp \<noteq> bport" "oid \<noteq> stp" "oid \<noteq> bport" using i(1) p(1) there(1) by auto
  assume t: "sound L l t" "obj_map L l t = obj_map L l s1" and d: "stp_remove_stp_port L Q oid t = (SAI_STATUS_SUCCESS, s2)"
  have o: "obj_map L l t stp = Some (StpData (bind_port Q gp i))"
      "obj_map L l t bport = Some (BridgePortData (bridge_port_bind Q (unat v) ?st p))"
    using t(2) k(4) ne by simp_all
  note r = remove_port_effect [OF t(1) o [unfolded stp_def bport_def] v(1) g(2) d [unfolded k(1)], folded k(1) stp_def bport_def]
  have "unat v < 128" using v(1) by (simp add: word_less_nat_alt)
  note b = bridge_port_unbind_bind [OF p(3) this v(2), of ?st]
  have "obj_map L l s2 = (obj_map L l s)(bport \<mapsto>
        BridgePortData (p\<lparr>bp_stp_port_state := (bp_stp_port_state p)[unat v := stp_state Q CTC_STP_FORWARDING]\<rparr>))"
    unfolding r(3) t(2) k(4) b unbind_bind [OF i(2) g] using ne i(1) there(1) by (auto simp: fun_eq_iff)
  then show "sound L l s2 \<and> quiet t s2 \<and> obj_map L l s2 = (obj_map L l s)(bport \<mapsto>
        BridgePortData (p\<lparr>bp_stp_port_state := (bp_stp_port_state p)[unat v := stp_state Q CTC_STP_FORWARDING]\<rparr>))"
    using r(1,2) by simp
qed

lemma create_port_method:
  fixes gp :: u32 and v :: u16 and l :: u8
  defines "stp \<equiv> ctc_sai_create_object_id SAI_OBJECT_TYPE_STP l 0 0 (ucast v)"
    and "bport \<equiv> ctc_sai_create_object_id SAI_OBJECT_TYPE_BRIDGE_PORT l 0 0 gp"
  assumes s: "sound L l s" and sw: "ctc_sai_oid_get_lchip (inited s) sw = (e0, Some l)"
    and f: "ctc_sai_find_attrib_in_list n as SAI_STP_PORT_ATTR_STP = (e1, Some (v1, j1))" "oiddata v1 = stp"
      "ctc_sai_find_attrib_in_list n as SAI_STP_PORT_ATTR_BRIDGE_PORT = (e2, Some (v2, j2))" "oiddata v2 = bport"
      "ctc_sai_find_attrib_in_list n as SAI_STP_PORT_ATTR_STATE = (e3, Some (v3, j3))"
    and i: "obj_map L l s stp = Some (StpData i)" "stp_ok Q i"
    and p: "obj_map L l s bport = Some (BridgePortData p)" "ucast (bp_gport p) = gp" "length (stp_port_bind_bits p) = 4"
    and v: "v < 128" "\<not> bmp_isset Q (stp_port_bind_bits p) (unat v)" and g: "\<not> port_bound Q gp i" "\<not> port_bit_outside Q gp"
    and run: "ctc_sai_stp_create_stp_port L Q False sw n as s = ((SAI_STATUS_SUCCESS, Some oid), s1)"
    and there: "obj_map L l s oid = None" "obj_map L l s1 oid \<noteq> None"
  shows "oid = ctc_sai_create_object_id SAI_OBJECT_TYPE_STP_PORT l 0 v gp" "sound L l s1" "quiet s s1"
    and "sound L l t \<Longrightarrow> obj_map L l t = obj_map L l s1 \<Longrightarrow> stp_remove_stp_port L Q oid t = (SAI_STATUS_SUCCESS, s2) \<Longrightarrow>
      sound L l s2 \<and> quiet t s2 \<and> obj_map L l s2 = (obj_map L l s)(bport \<mapsto>
        BridgePortData (p\<lparr>bp_stp_port_state := (bp_stp_port_state p)[unat v := stp_state Q CTC_STP_FORWARDING]\<rparr>))"
proof -
  let ?t = "snd (ctc_sai_db_lock L l s)"
  note lk = lock_step [OF s]
  have "n \<noteq> 0 \<and> as \<noteq> None" using run by (auto simp: ctc_sai_stp_create_stp_port_def split: if_splits)
  then have "ctc_sai_stp_create_stp_port L Q False sw n as s =
      (fst (stp_create_found L Q l stp bport (u32data v3) ?t), snd (ctc_sai_db_unlock L l (snd (stp_create_found L Q l stp bport (u32data v3) ?t))))"
    using sw f by (auto simp: ctc_sai_stp_create_stp_port_def stp_create_stp_port_def Let_def case_prod_beta)
  then obtain t1 where c: "stp_create_found L Q l stp bport (u32data v3) ?t = ((SAI_STATUS_SUCCESS, Some oid), t1)"
      "s1 = snd (ctc_sai_db_unlock L l t1)"
    using run by (cases "stp_create_found L Q l stp bport (u32data v3) ?t") auto
  have m1: "obj_map L l s1 = obj_map L l t1" unfolding c(2) by (rule obj_map_frame) simp
  note k = create_remove_port [OF lk(2), where v = v and gp = gp, folded stp_def bport_def, unfolded lk(3), OF i p v g c(1)
      there(1) there(2) [unfolded m1]]
  have k1: "oid = ctc_sai_create_object_id SAI_OBJECT_TYPE_STP_PORT l 0 v gp" "sound L l t1" "quiet ?t t1" using k(1) by simp_all
  note u = lock_section [OF s k1(2,3), folded c(2)]
  show "oid = ctc_sai_create_object_id SAI_OBJECT_TYPE_STP_PORT l 0 v gp" "sound L l s1" "quiet s s1" using k1(1) u(1,2) by simp_all
  show "sound L l s2 \<and> quiet t s2 \<and> obj_map L l s2 = (obj_map L l s)(bport \<mapsto>
        BridgePortData (p\<lparr>bp_stp_port_state := (bp_stp_port_state p)[unat v := stp_state Q CTC_STP_FORWARDING]\<rparr>))"
    if "sound L l t" "obj_map L l t = obj_map L l s1" "stp_remove_stp_port L Q oid t = (SAI_STATUS_SUCCESS, s2)"
    using k(2) [OF that(1) that(2) [unfolded m1] that(3)] .
qed

lemma remove_stp_effect:
  assumes s: "sound L l s" and i: "obj_map L l s oid = Some (StpData i)" and l: "ctc_sai_oid_get_lchip (inited s) oid = (e, Some l)"
    and run: "ctc_sai_stp_remove_stp L oid s = (st, s')"
  shows "vlan_bind_count i \<noteq> 0 \<Longrightarrow> st = SAI_STATUS_FAILURE \<and> obj_map L l s' = obj_map L l s"
    and "vlan_bind_count i = 0 \<Longrightarrow> \<forall>t. rc (env L t (OpfFree CTC_SAI_DB_ID_TYPE_STP l (o_value (oid_unpack oid)))) = 0 \<Longrightarrow>
      st = SAI_STATUS_SUCCESS \<and> obj_map L l s' = (obj_map L l s)(oid := None)"
proof -
  let ?t = "snd (ctc_sai_db_lock L l s)"
  note lk = lock_step [OF s]
  have it: "obj_map L l ?t oid = Some (StpData i)" using i lk(3) by simp
  have r: "st = fst (remove_stp_locked L l oid ?t)" "s' = snd (ctc_sai_db_unlock L l (snd (remove_stp_locked L l oid ?t)))"
    using run l by (simp_all add: ctc_sai_stp_remove_stp_def Let_def case_prod_beta)
  have m: "obj_map L l s' = obj_map L l (snd (remove_stp_locked L l oid ?t))" unfolding r(2) by (rule obj_map_frame) simp
  show "st = SAI_STATUS_FAILURE \<and> obj_map L l s' = obj_map L l s" if "vlan_bind_count i \<noteq> 0"
    using that it lk(3) by (simp add: r(1) m remove_stp_locked_def obj_map_get)
  let ?u = "snd (ctc_sai_db_remove_object_property L l oid ?t)"
  have inv: "chip_inv L l ?t" using lk(2) by (simp add: sound_def)
  have v: "oid_valid oid" using get_Some_valid [of l oid ?t] it by (simp add: obj_map_def)
  have f: "fst (ctc_sai_db_remove_object_property L l oid ?t) = SAI_STATUS_SUCCESS"
    using inv it v by (auto simp: remove_object_cases [OF inv] obj_map_def elim!: chip_inv_obtain split: option.splits)
  note u = discard_step [OF lk(2), of oid]
  have c: "SAI_DB_INIT_CHECK ?u l = SAI_STATUS_SUCCESS"
    using sound_chip [OF u(1)] by (simp add: SAI_DB_INIT_CHECK_def not_le [symmetric])
  show "st = SAI_STATUS_SUCCESS \<and> obj_map L l s' = (obj_map L l s)(oid := None)"
    if z: "vlan_bind_count i = 0" "\<forall>t. rc (env L t (OpfFree CTC_SAI_DB_ID_TYPE_STP l (o_value (oid_unpack oid)))) = 0"
  proof -
    have d: "fst (ctc_sai_db_free_id L l CTC_SAI_DB_ID_TYPE_STP (o_value (oid_unpack oid)) ?u) = SAI_STATUS_SUCCESS"
      using z(2) by (simp add: ctc_sai_db_free_id_def c ext_call_def Let_def mapping_error_zero)
    have e: "remove_stp_locked L l oid ?t =
        (SAI_STATUS_SUCCESS, snd (ctc_sai_db_free_id L l CTC_SAI_DB_ID_TYPE_STP (o_value (oid_unpack oid)) ?u))"
      using it z(1) f d by (simp add: remove_stp_locked_def obj_map_get Let_def case_prod_beta status_leaves_def)
    have "obj_map L l (snd (ctc_sai_db_free_id L l CTC_SAI_DB_ID_TYPE_STP (o_value (oid_unpack oid)) ?u)) = obj_map L l ?u"
      by (rule obj_map_frame) (rule free_step(1))
    then show ?thesis using u(3) lk(3) by (simp add: r(1) m e)
  qed
qed

lemma port_list_step:
  assumes s: "sound L l s" and i: "obj_map L l s oid = Some (StpData i)" and l: "ucast (o_lchip (oid_unpack oid)) = l"
    and a: "attr_id a = SAI_STP_ATTR_PORT_LIST" and m: "fst (mem_malloc L (snd (ext_call L (GetGchipId l) s)))"
    and big: "port_bind_count i \<le> list_count (attr_value a)"
  shows "ctc_sai_stp_get_stp_info L Q oid a idx s =
    (let ps = stp_ports Q l (o_value (oid_unpack oid)) (ucast (out_val 0 (env L (trace s) (GetGchipId l)))) i;
         s' = snd (mem_malloc L (snd (ext_call L (GetGchipId l) s))) in
     (fill_objlist (Some ps) (of_nat (length ps)) a,
      s'\<lparr>fault := unat (port_bind_count i) < length (bits Q (port_bind_bits i)) + length (bits Q (lag_bind_bits i)) \<or> fault s\<rparr>))"
proof -
  have "fault (snd (mem_malloc L (snd (ext_call L (GetGchipId l) s)))) = fault s"
    using malloc_step(2) [of "snd (ext_call L (GetGchipId l) s)" L] by (simp add: quiet_def)
  then show ?thesis
    using a m big gchip_step(3) [OF s, of l] i
    by (simp add: ctc_sai_stp_get_stp_info_def l obj_map_get Let_def case_prod_beta fault_if stp_ports_def not_le [symmetric])
qed

end

context ctc_lib_laws
begin

lemma create_stp_step:
  assumes s: "sound L l s" and a: "ctc_sai_db_alloc_id L l CTC_SAI_DB_ID_TYPE_STP s = ((a, n), s1)"
    and run: "create_stp_locked L l s = ((st, r), s')"
  shows "sound L l s'" "lock_depth (trace s') = lock_depth (trace s)" "fault s' = fault s"
    "let oid = ctc_sai_create_object_id SAI_OBJECT_TYPE_STP l 0 0 (out_or 0 n);
         (ok, s2) = mem_malloc L s1 in
     if a \<noteq> SAI_STATUS_SUCCESS then st = a \<and> r = None \<and> obj_map L l s' = obj_map L l s
     else out_or 0 n \<notin> set (opf_used (trace s) CTC_SAI_DB_ID_TYPE_STP l) \<and> r = Some oid \<and>
       (if \<not> ok then st = SAI_STATUS_SUCCESS \<and> obj_map L l s' = obj_map L l s
        else if obj_map L l s oid \<noteq> None then st = SAI_STATUS_ITEM_ALREADY_EXISTS \<and> obj_map L l s' = obj_map L l s
        else if \<not> fst (mem_malloc L s2) then st = SAI_STATUS_NO_MEMORY \<and> obj_map L l s' = obj_map L l s
        else st = SAI_STATUS_SUCCESS \<and> obj_map L l s' = (obj_map L l s)(oid \<mapsto> StpData zero_stp))"
proof -
  note al = alloc_step [OF a]
  have s1: "sound L l s1" "obj_map L l s1 = obj_map L l s" using db_frame [OF s al(2)] by simp_all
  let ?s2 = "snd (mem_malloc L s1)"
  let ?oid = "ctc_sai_create_object_id SAI_OBJECT_TYPE_STP l 0 0 (out_or 0 n)"
  have s2: "sound L l ?s2" "obj_map L l ?s2 = obj_map L l s" using db_frame [OF s1(1), of ?s2] s1(2) by simp_all
  have q2: "quiet s1 ?s2" by simp
  obtain st3 s3 where b: "ctc_sai_db_add_object_property L l ?oid (Some (StpData zero_stp)) ?s2 = (st3, s3)" by (rule prod.exhaust)
  have f: "data_fits (oid_type ?oid) (StpData zero_stp)" by (simp add: create_type)
  note k = add_step [OF s2(1) f b]
  have st3: "st3 = (if obj_map L l s ?oid \<noteq> None then SAI_STATUS_ITEM_ALREADY_EXISTS
      else if \<not> fst (mem_malloc L ?s2) then SAI_STATUS_NO_MEMORY else SAI_STATUS_SUCCESS)"
  proof -
    have inv: "chip_inv L l ?s2" using s2(1) by (simp add: sound_def)
    then obtain db where "g_sai_db ?s2 l = Some db" by (rule chip_inv_obtain)
    moreover have "oid_valid ?oid" by (simp add: oid_valid_def create_type ctc_sai_is_object_type_valid_def)
    moreover have "fst (mem_malloc L t) = (out_val 0 (env L (trace t) MemAlloc) \<noteq> 0)" for t
      by (simp add: mem_malloc_def ext_call_def Let_def)
    ultimately show ?thesis
      using b s2(2) by (auto simp: add_object_cases [OF inv] obj_map_get split: if_splits)
  qed
  have fr: "sound L l (snd (ctc_sai_db_free_id L l p j t))" "obj_map L l (snd (ctc_sai_db_free_id L l p j t)) = obj_map L l t"
    if "sound L l t" for p j t
    using db_frame [OF that free_step(1)] by simp_all
  have m3: "obj_map L l s3 = obj_map L l s" if "st3 \<noteq> SAI_STATUS_SUCCESS"
    using obj_map_frame [OF k(4) [OF that]] s2(2) by simp
  let ?R = "\<lambda>st r s'. let (ok, s2) = mem_malloc L s1 in
     if a \<noteq> SAI_STATUS_SUCCESS then st = a \<and> r = None \<and> obj_map L l s' = obj_map L l s
     else out_or 0 n \<notin> set (opf_used (trace s) CTC_SAI_DB_ID_TYPE_STP l) \<and> r = Some ?oid \<and>
       (if \<not> ok then st = SAI_STATUS_SUCCESS \<and> obj_map L l s' = obj_map L l s
        else if obj_map L l s ?oid \<noteq> None then st = SAI_STATUS_ITEM_ALREADY_EXISTS \<and> obj_map L l s' = obj_map L l s
        else if \<not> fst (mem_malloc L s2) then st = SAI_STATUS_NO_MEMORY \<and> obj_map L l s' = obj_map L l s
        else st = SAI_STATUS_SUCCESS \<and> obj_map L l s' = (obj_map L l s)(?oid \<mapsto> StpData zero_stp))"
  consider (none) "a \<noteq> SAI_STATUS_SUCCESS" | (nomem) "a = SAI_STATUS_SUCCESS" "\<not> fst (mem_malloc L s1)"
    | (ok) "a = SAI_STATUS_SUCCESS" "fst (mem_malloc L s1)" "st3 = SAI_STATUS_SUCCESS"
    | (refused) "a = SAI_STATUS_SUCCESS" "fst (mem_malloc L s1)" "st3 < 0"
    using k(1) by blast
  then have "sound L l s' \<and> lock_depth (trace s') = lock_depth (trace s) \<and> fault s' = fault s \<and> ?R st r s'"
  proof cases
    case none
    then show ?thesis using run a al s1 by (simp add: create_stp_locked_def case_prod_beta)
  next
    case nomem
    then show ?thesis using run a al s2 q2 fr [OF s2(1)] by (auto simp: create_stp_locked_def case_prod_beta Let_def quiet_def)
  next
    case ok
    then show ?thesis
      using run a al s2(2) q2 b k(2,3,6) st3
      by (auto simp: create_stp_locked_def case_prod_beta Let_def quiet_def status_leaves_def split: if_splits)
  next
    case refused
    then show ?thesis
      using run a al q2 b k(2,3) m3 st3 fr [OF k(2)]
      by (auto simp: create_stp_locked_def case_prod_beta Let_def quiet_def status_leaves_def split: if_splits)
  qed
  note R = this
  show "sound L l s'" "lock_depth (trace s') = lock_depth (trace s)" "fault s' = fault s" using R by blast+
  show "let oid = ?oid; (ok, s2) = mem_malloc L s1 in
     if a \<noteq> SAI_STATUS_SUCCESS then st = a \<and> r = None \<and> obj_map L l s' = obj_map L l s
     else out_or 0 n \<notin> set (opf_used (trace s) CTC_SAI_DB_ID_TYPE_STP l) \<and> r = Some oid \<and>
       (if \<not> ok then st = SAI_STATUS_SUCCESS \<and> obj_map L l s' = obj_map L l s
        else if obj_map L l s oid \<noteq> None then st = SAI_STATUS_ITEM_ALREADY_EXISTS \<and> obj_map L l s' = obj_map L l s
        else if \<not> fst (mem_malloc L s2) then st = SAI_STATUS_NO_MEMORY \<and> obj_map L l s' = obj_map L l s
        else st = SAI_STATUS_SUCCESS \<and> obj_map L l s' = (obj_map L l s)(oid \<mapsto> StpData zero_stp))"
    using R unfolding Let_def by (elim conjE)
qed

end

section \<open>Properties\<close>

text \<open>
  Property C35: the counts of spanning tree instances are right. From a sound state with right counts,
  whatever instances are created and removed, ports and VLANs bound and unbound and port states set,
  as long as only what is not bound is bound and only what is bound is unbound, the counts of every
  instance are the numbers of its VLANs and of its ports. An instance without VLANs is removed when the
  pool takes its number back, and nothing else changes; one that a VLAN uses is refused and stays.
\<close>

theorem stp_reach_counted:
  assumes "stp_lib L Q" and "sound L l s0" and "stp_counted Q (obj_map L l s0)" and "stp_reach L Q l {} s0 s"
    and "obj_map L l s oid = Some (StpData i)" and "ctc_sai_oid_get_lchip (inited s) oid = (e, Some l)"
    and "\<forall>t. rc (env L t (OpfFree CTC_SAI_DB_ID_TYPE_STP l (o_value (oid_unpack oid)))) = 0"
    and "ctc_sai_stp_remove_stp L oid s = (st, s')"
  shows "sound L l s \<and> unat (vlan_bind_count i) = card (set (bits Q (vlan_bind_bits i))) \<and>
    unat (port_bind_count i) = card (set (bits Q (port_bind_bits i))) + card (set (bits Q (lag_bind_bits i))) \<and>
    (if bits Q (vlan_bind_bits i) = []
     then st = SAI_STATUS_SUCCESS \<and> obj_map L l s' = (obj_map L l s)(oid := None)
     else st = SAI_STATUS_FAILURE \<and> obj_map L l s' = obj_map L l s)"
proof -
  have k: "sound L l s" "stp_ok Q i"
    using stp_lib.reach_kept [OF assms(1,4)] assms(2,3,5) by (auto simp: stp_kept_def stp_counted_def held_def)
  note r = stp_lib.remove_stp_effect [OF assms(1) k(1) assms(5,6,8)]
  have "bits Q (vlan_bind_bits i) = [] \<longleftrightarrow> vlan_bind_count i = 0" using k(2) by (auto simp: stp_ok_def unat_eq_0)
  then show ?thesis using k r assms(7) by (simp add: stp_ok_def distinct_card)
qed

text \<open>
  Property C36: the port list of an instance with right counts is exact. A list that is too short is
  refused as it is; otherwise, memory being there, the list has exactly the bound ports and link
  aggregation groups, and nothing is written outside the array that was allocated for them.
\<close>

theorem stp_port_list_exact:
  assumes "stp_lib L Q" and "sound L l s" and "stp_ok Q i"
    and "obj_map L l s oid = Some (StpData i)" and "ucast (o_lchip (oid_unpack oid)) = l" and "attr_id a = SAI_STP_ATTR_PORT_LIST"
    and "ctc_sai_stp_get_stp_info L Q oid a idx s = ((st, a'), s')"
  shows "fault s' = fault s \<and> obj_map L l s' = obj_map L l s \<and>
    (if list_count (attr_value a) < port_bind_count i then st = SAI_STATUS_BUFFER_OVERFLOW \<and> a' = a
     else if fst (mem_malloc L (snd (ext_call L (GetGchipId l) s))) then
       st = SAI_STATUS_SUCCESS \<and> list_count (attr_value a') = port_bind_count i \<and>
       take (unat (port_bind_count i)) (objs (attr_value a')) =
         stp_ports Q l (o_value (oid_unpack oid)) (ucast (out_val 0 (env L (trace s) (GetGchipId l)))) i
     else st = SAI_STATUS_NO_MEMORY \<and> a' = a)"
proof -
  let ?s1 = "snd (ext_call L (GetGchipId l) s)" and ?s2 = "snd (mem_malloc L (snd (ext_call L (GetGchipId l) s)))"
  let ?ps = "stp_ports Q l (o_value (oid_unpack oid)) (ucast (out_val 0 (env L (trace s) (GetGchipId l)))) i"
  note ok = assms(3)
  have n: "length ?ps = unat (port_bind_count i)" using ok by (simp add: stp_ok_def stp_ports_def)
  have f: "obj_map L l ?s1 = obj_map L l s" "obj_map L l ?s2 = obj_map L l s" "fault ?s2 = fault s"
    using obj_map_frame [of ?s1 s L l] obj_map_frame [of ?s2 s L l] malloc_step(2) [of ?s1 L] by (simp_all add: quiet_def)
  consider "list_count (attr_value a) < port_bind_count i" | "\<not> list_count (attr_value a) < port_bind_count i" "\<not> fst (mem_malloc L ?s1)"
    | "port_bind_count i \<le> list_count (attr_value a)" "fst (mem_malloc L ?s1)" using not_less by blast
  then show ?thesis
  proof cases
    case 3
    define xs where "xs = ?ps @ drop (length ?ps) (objs (attr_value a))"
    have "fill_objlist (Some ?ps) (of_nat (length ?ps)) a = (SAI_STATUS_SUCCESS, set_objlist (port_bind_count i) xs a)"
      using 3(1) n by (simp add: fill_objlist_def ctc_sai_fill_object_list_def xs_def not_less [symmetric])
    moreover have "unat (port_bind_count i) = length (bits Q (port_bind_bits i)) + length (bits Q (lag_bind_bits i))"
      using ok by (simp add: stp_ok_def)
    ultimately have r: "st = SAI_STATUS_SUCCESS" "a' = set_objlist (port_bind_count i) xs a" "s' = ?s2\<lparr>fault := fault s\<rparr>"
      using stp_lib.port_list_step [OF assms(1,2,4-6) 3(2,1), of idx] assms(7) by (simp_all add: Let_def)
    have c: "list_count (attr_value a') = port_bind_count i" "objs (attr_value a') = xs"
      unfolding r(2) by (rule set_objlist_get)+
    have "obj_map L l s' = obj_map L l s" using obj_map_frame [of s' ?s2 L l] f(2) r(3) by simp
    then show ?thesis using 3 r c n by (simp add: xs_def not_less [symmetric])
  qed (use assms(4-7) f in \<open>auto simp: ctc_sai_stp_get_stp_info_def obj_map_get Let_def case_prod_beta split: if_splits\<close>)
qed

text \<open>
  Property C37: a spanning tree port that is created and removed again leaves the database as it was,
  but for the state that the bridge port remembers for the instance, which is forwarding afterwards.
  Both calls release the lock and touch no memory they do not own.
\<close>

theorem stp_port_roundtrip:
  fixes gp :: u32 and v :: u16 and l :: u8
  defines "stp \<equiv> ctc_sai_create_object_id SAI_OBJECT_TYPE_STP l 0 0 (ucast v)"
    and "bport \<equiv> ctc_sai_create_object_id SAI_OBJECT_TYPE_BRIDGE_PORT l 0 0 gp"
  assumes "stp_lib L Q" and "sound L l s" and "ctc_sai_oid_get_lchip (inited s) sw = (e0, Some l)"
    and "ctc_sai_find_attrib_in_list n as SAI_STP_PORT_ATTR_STP = (e1, Some (v1, j1))" and "oiddata v1 = stp"
    and "ctc_sai_find_attrib_in_list n as SAI_STP_PORT_ATTR_BRIDGE_PORT = (e2, Some (v2, j2))" and "oiddata v2 = bport"
    and "ctc_sai_find_attrib_in_list n as SAI_STP_PORT_ATTR_STATE = (e3, Some (v3, j3))"
    and "obj_map L l s stp = Some (StpData i)" and "stp_ok Q i"
    and "obj_map L l s bport = Some (BridgePortData p)" and "ucast (bp_gport p) = gp" and "length (stp_port_bind_bits p) = 4"
    and "v < 128" and "\<not> bmp_isset Q (stp_port_bind_bits p) (unat v)" and "\<not> port_bound Q gp i" and "\<not> port_bit_outside Q gp"
    and "ctc_sai_stp_create_stp_port L Q False sw n as s = ((SAI_STATUS_SUCCESS, Some oid), s1)"
    and "obj_map L l s oid = None" and "obj_map L l s1 oid \<noteq> None"
    and "ctc_sai_stp_remove_stp_port L Q oid s1 = (SAI_STATUS_SUCCESS, s2)"
  shows "obj_map L l s2 = (obj_map L l s)(bport \<mapsto>
      BridgePortData (p\<lparr>bp_stp_port_state := (bp_stp_port_state p)[unat v := stp_state Q CTC_STP_FORWARDING]\<rparr>)) \<and> quiet s s2"
proof -
  note k = stp_lib.create_port_method [OF assms(3-6) assms(7) [unfolded stp_def] assms(8) assms(9) [unfolded bport_def] assms(10)
      assms(11) [unfolded stp_def] assms(12) assms(13) [unfolded bport_def] assms(14-22), folded stp_def bport_def]
  note lk = lock_step [OF k(2)]
  obtain t2 where d: "stp_remove_stp_port L Q oid (snd (ctc_sai_db_lock L l s1)) = (SAI_STATUS_SUCCESS, t2)" "s2 = snd (ctc_sai_db_unlock L l t2)"
    using assms(23) created_lchip [OF k(2), of SAI_OBJECT_TYPE_STP_PORT 0 v gp] k(1)
    by (cases "stp_remove_stp_port L Q oid (snd (ctc_sai_db_lock L l s1))") (auto simp: ctc_sai_stp_remove_stp_port_def Let_def case_prod_beta)
  note r = k(4) [OF lk(2,3) d(1)]
  note u = lock_section [OF k(2) conjunct1 [OF r] conjunct1 [OF conjunct2 [OF r]], folded d(2)]
  show ?thesis using quiet_trans [OF k(3) u(1)] u(3) r by simp
qed

text \<open>
  Property C38: a spanning tree port that does not exist is removed with success, when the device
  takes the forwarding state that is set for it. The instance counts one port less although it still
  has all of its ports, so that reading its port list, when it has a port, writes outside the array
  that is allocated for the list.
\<close>

theorem stp_remove_absent_port:
  fixes gp :: u32 and v :: u16 and l :: u8
  defines "stp \<equiv> ctc_sai_create_object_id SAI_OBJECT_TYPE_STP l 0 0 (ucast v)"
    and "oid \<equiv> ctc_sai_create_object_id SAI_OBJECT_TYPE_STP_PORT l 0 v gp"
  assumes "stp_lib L Q" and "sound L l s" and "obj_map L l s stp = Some (StpData i)" and "stp_ok Q i"
    and "obj_map L l s (ctc_sai_create_object_id SAI_OBJECT_TYPE_BRIDGE_PORT l 0 0 gp) = Some (BridgePortData p)"
    and "v < 128" and "\<not> port_bound Q gp i" and "\<not> port_bit_outside Q gp" and "obj_map L l s oid = None"
    and "stp_remove_stp_port L Q oid s = (st, s1)"
    and "fst (stp_apply_state L Q l (ucast (out_val 0 (env L (trace s) (GetGchipId l)))) gp (ucast v) (stp_state Q CTC_STP_FORWARDING)
        (snd (ext_call L (GetGchipId l) s))) = SAI_STATUS_SUCCESS"
  shows "st = SAI_STATUS_SUCCESS \<and> (\<exists>j. obj_map L l s1 stp = Some (StpData j) \<and> port_bind_count j = port_bind_count i - 1 \<and>
    set (bits Q (port_bind_bits j)) = set (bits Q (port_bind_bits i)) \<and> set (bits Q (lag_bind_bits j)) = set (bits Q (lag_bind_bits i)) \<and>
    (\<forall>a idx. attr_id a = SAI_STP_ATTR_PORT_LIST \<and> port_bind_count i \<noteq> 0 \<and> port_bind_count i \<le> list_count (attr_value a) \<and>
      fst (mem_malloc L (snd (ext_call L (GetGchipId l) s1))) \<longrightarrow> fault (snd (ctc_sai_stp_get_stp_info L Q stp a idx s1))))"
proof -
  have b: "bitmaps Q" using assms(3) by (simp add: stp_lib_def)
  have ok: "st = SAI_STATUS_SUCCESS"
    using stp_lib.remove_port_status [OF assms(3,4) assms(5) [unfolded stp_def] assms(13)] assms(12) by (simp add: oid_def)
  note r = stp_lib.remove_port_effect [OF assms(3,4) assms(5) [unfolded stp_def] assms(7,8,10) assms(12) [unfolded ok oid_def], folded stp_def oid_def]
  let ?j = "unbind_port Q gp i"
  have n: "stp \<noteq> oid" "stp \<noteq> ctc_sai_create_object_id SAI_OBJECT_TYPE_BRIDGE_PORT l 0 0 gp" using assms(5,7,11) by auto
  have j: "obj_map L l s1 stp = Some (StpData ?j)" using r(3) n by simp
  have p: "gport_to_lport Q gp < 32 * length (port_bind_bits i)" if "\<not> is_linkagg_port Q gp"
    using that assms(6,10) by (simp add: stp_ok_def port_bit_outside_def)
  have g: "unat (ucast gp :: u8) < 32 * length (lag_bind_bits i)" using assms(6) lag_bit [of gp] by (simp add: stp_ok_def)
  have absent: "set (bits Q b) - {n} = set (bits Q b)" if "\<not> bmp_isset Q b n" for n b using that by (auto simp: bits_def)
  have bits: "set (bits Q (port_bind_bits ?j)) = set (bits Q (port_bind_bits i))" "set (bits Q (lag_bind_bits ?j)) = set (bits Q (lag_bind_bits i))"
    using assms(9) bitmaps.bits_unset_eq [OF b p] bitmaps.bits_unset_eq [OF b g]
    by (cases "is_linkagg_port Q gp"; simp add: unbind_port_def port_bound_def absent)+
  have c: "port_bind_count ?j = port_bind_count i - 1" by (simp add: unbind_port_def)
  have l: "ucast (o_lchip (oid_unpack stp)) = l"
    using created_lchip [OF assms(4), of SAI_OBJECT_TYPE_STP 0 0 "ucast v"]
    by (auto simp: stp_def ctc_sai_oid_get_lchip_def ctc_sai_get_ctc_object_id_def Let_def split: if_splits)
  have "fault (snd (ctc_sai_stp_get_stp_info L Q stp a idx s1))"
    if a: "attr_id a = SAI_STP_ATTR_PORT_LIST" "port_bind_count i \<noteq> 0" "port_bind_count i \<le> list_count (attr_value a)"
      "fst (mem_malloc L (snd (ext_call L (GetGchipId l) s1)))" for a idx
  proof -
    have u: "unat (port_bind_count i - 1) < unat (port_bind_count i)" using a(2) by (simp add: unat_minus_one unat_gt_0)
    then have "port_bind_count ?j \<le> list_count (attr_value a)" using a(3) c by (simp add: word_le_nat_alt)
    moreover have "unat (port_bind_count ?j) < length (bits Q (port_bind_bits ?j)) + length (bits Q (lag_bind_bits ?j))"
      using u c assms(6) unfolding stp_ok_def bits_length [of Q] bits by simp
    ultimately show ?thesis
      using stp_lib.port_list_step [OF assms(3) r(1) j l a(1,4), of idx] by (simp add: Let_def)
  qed
  then show ?thesis using ok j c bits by blast
qed

text \<open>
  Property C39: a VLAN that changes its spanning tree instance stays counted by the old one. The VLAN
  is bound to the new instance; then, whatever calls follow that bind what is not bound and unbind
  what is bound, the old instance has the VLAN and its removal is refused and changes nothing, until
  the VLAN is unbound from the old instance by a call of its own.
\<close>

theorem stp_vlan_rebind_blocks:
  assumes "stp_lib L Q" and "sound L l s" and "stp_counted Q (obj_map L l s)" and "obj_map L l s old = Some (StpData i)"
    and "vlan < 4096" and "bmp_isset Q (vlan_bind_bits i) (unat vlan)" and "ctc_sai_oid_get_lchip (inited s) old = (e, Some l)"
    and "vlan_fits Q vlan new True (obj_map L l s)" and "ctc_sai_stp_set_instance L Q l vlan ptr new True s = (SAI_STATUS_SUCCESS, s1)"
    and "stp_reach L Q l {(old, vlan)} s1 t" and "ctc_sai_stp_remove_stp L old t = (st, t')"
  shows "st = SAI_STATUS_FAILURE \<and> obj_map L l t' = obj_map L l t \<and>
    (\<exists>j. obj_map L l t old = Some (StpData j) \<and> bmp_isset Q (vlan_bind_bits j) (unat vlan))"
proof -
  have k: "stp_kept L Q l {(old, vlan)} s" using assms(2-6) by (simp add: stp_kept_def held_def)
  have "stp_reach L Q l {(old, vlan)} s s1"
    by (rule stp_reach.set_vlan [OF stp_reach.start assms(8) _ assms(9)]) simp
  then have "stp_kept L Q l {(old, vlan)} t"
    using stp_lib.reach_kept [OF assms(1)] k assms(10) by blast
  then obtain j where j: "sound L l t" "obj_map L l t old = Some (StpData j)" "bmp_isset Q (vlan_bind_bits j) (unat vlan)" "stp_ok Q j"
    by (auto simp: stp_kept_def held_def stp_counted_def)
  have "unat vlan \<in> set (bits Q (vlan_bind_bits j))" using assms(5) j(3,4) by (simp add: bits_def stp_ok_def word_less_nat_alt)
  then have "vlan_bind_count j \<noteq> 0" using j(4) by (auto simp: stp_ok_def)
  then show ?thesis
    using stp_lib.remove_stp_effect(1) [OF assms(1) j(1,2) sound_lchip [OF j(1) assms(7)] assms(11)] j(2,3) by blast
qed

text \<open>
  Property C40: what the creation of an instance leaves, on every branch. No number left: the status
  of the pool and no identifier. Otherwise the identifier has a number that is not in use. No memory for
  the record: success all the same, although there is no instance. An identifier that exists or no
  memory for the bucket: an error. In all these cases no object is changed; otherwise success, and
  exactly one instance without VLANs and ports is added.
\<close>

theorem stp_create_outcome:
  assumes "ctc_lib_laws L" and "sound L l s" and "ctc_sai_oid_get_lchip (inited s) sw = (e, Some l)"
    and "ctc_sai_db_alloc_id L l CTC_SAI_DB_ID_TYPE_STP (snd (ctc_sai_db_lock L l s)) = ((a, n), s1)"
    and "ctc_sai_stp_create_stp L False sw s = ((st, r), s')"
  shows "lock_depth (trace s') = lock_depth (trace s) \<and> fault s' = fault s \<and> sound L l s' \<and>
    (let oid = ctc_sai_create_object_id SAI_OBJECT_TYPE_STP l 0 0 (out_or 0 n);
         (ok, s2) = mem_malloc L s1 in
     if a \<noteq> SAI_STATUS_SUCCESS then st = a \<and> r = None \<and> obj_map L l s' = obj_map L l s
     else out_or 0 n \<notin> set (opf_used (trace s) CTC_SAI_DB_ID_TYPE_STP l) \<and> r = Some oid \<and>
       (if \<not> ok then st = SAI_STATUS_SUCCESS \<and> obj_map L l s' = obj_map L l s
        else if obj_map L l s oid \<noteq> None then st = SAI_STATUS_ITEM_ALREADY_EXISTS \<and> obj_map L l s' = obj_map L l s
        else if \<not> fst (mem_malloc L s2) then st = SAI_STATUS_NO_MEMORY \<and> obj_map L l s' = obj_map L l s
        else st = SAI_STATUS_SUCCESS \<and> obj_map L l s' = (obj_map L l s)(oid \<mapsto> StpData zero_stp)))"
proof -
  let ?t = "snd (ctc_sai_db_lock L l s)"
  note lk = lock_step [OF assms(2)]
  obtain t' where c: "create_stp_locked L l ?t = ((st, r), t')" "s' = snd (ctc_sai_db_unlock L l t')"
    using assms(3,5) by (cases "create_stp_locked L l ?t") (auto simp: ctc_sai_stp_create_stp_def Let_def case_prod_beta)
  note k = ctc_lib_laws.create_stp_step [OF assms(1) lk(2) assms(4) c(1)]
  have o: "opf_used (trace ?t) = opf_used (trace s)" by simp
  have "lock_depth (trace s') = lock_depth (trace s)"
    unfolding c(2) by (rule lock_section_depth [OF assms(2) k(1,2)])
  moreover have f: "fault s' = fault s" "obj_map L l s' = obj_map L l t'" "sound L l s'"
    using k(1,3) db_frame [OF k(1), of s'] by (simp_all add: c(2))
  ultimately show ?thesis using k(4) unfolding o lk(3) f(2) by simp
qed

section \<open>A reference instance and samples\<close>

definition ref_sdk :: stp_sdk where
  "ref_sdk =
     \<lparr>bmp_set = (\<lambda>b i. b[i div 32 := set_bit (i mod 32) (b ! (i div 32))]),
      bmp_unset = (\<lambda>b i. b[i div 32 := unset_bit (i mod 32) (b ! (i div 32))]),
      bmp_isset = (\<lambda>b i. i div 32 < length b \<and> bit (b ! (i div 32)) (i mod 32)),
      lport_to_gport = (\<lambda>c p. 256 * ucast c + of_nat p), gport_to_lport = (\<lambda>g. unat g mod 256),
      is_linkagg_port = (\<lambda>g. unat g div 256 = 31),
      stp_state = (\<lambda>x. case x of CTC_STP_FORWARDING \<Rightarrow> 0 | CTC_STP_BLOCKING \<Rightarrow> 1 | CTC_STP_LEARNING \<Rightarrow> 2 | CTC_STP_UNAVAIL \<Rightarrow> 3)\<rparr>"

lemma same_bit: "(i :: nat) div 32 = j div 32 \<Longrightarrow> i mod 32 = j mod 32 \<longleftrightarrow> i = j"
  by (metis div_mult_mod_eq)

interpretation ref_bits: bitmaps ref_sdk
proof unfold_locales
  fix a b :: "u32 list" and i j n :: nat
  show "i < 32 * length b \<Longrightarrow> j < 32 * length b \<Longrightarrow>
      bmp_isset ref_sdk (bmp_set ref_sdk b i) j \<longleftrightarrow> j = i \<or> bmp_isset ref_sdk b j"
    using same_bit [of i j] by (cases "i div 32 = j div 32") (auto simp: ref_sdk_def nth_list_update bit_set_bit_iff)
  show "i < 32 * length b \<Longrightarrow> j < 32 * length b \<Longrightarrow>
      bmp_isset ref_sdk (bmp_unset ref_sdk b i) j \<longleftrightarrow> j \<noteq> i \<and> bmp_isset ref_sdk b j"
    using same_bit [of i j] by (cases "i div 32 = j div 32") (auto simp: ref_sdk_def nth_list_update bit_unset_bit_iff)
  show "\<not> bmp_isset ref_sdk (replicate n 0) i" by (auto simp: ref_sdk_def)
  show "a = b" if "length a = length b" "\<And>i. i < 32 * length b \<Longrightarrow> bmp_isset ref_sdk a i = bmp_isset ref_sdk b i"
  proof (rule nth_equalityI)
    fix k assume k: "k < length a"
    have "bit (a ! k) m = bit (b ! k) m" if m: "m < 32" for m
      using that(1) \<open>length a = length b\<close> k \<open>\<And>i. i < 32 * length b \<Longrightarrow> bmp_isset ref_sdk a i = bmp_isset ref_sdk b i\<close> [of "32 * k + m"]
      by (simp add: ref_sdk_def)
    then show "a ! k = b ! k" by (intro bit_word_eqI) simp
  qed (rule that(1))
qed (simp_all add: ref_sdk_def)

interpretation ref_stp: stp_lib ref_lib ref_sdk
  by unfold_locales

definition ref_stp_oid :: "u32 \<Rightarrow> sai_object_id" where
  "ref_stp_oid v = ctc_sai_create_object_id SAI_OBJECT_TYPE_STP 0 0 0 v"

definition ref_bport :: "u32 \<Rightarrow> sai_object_id" where
  "ref_bport g = ctc_sai_create_object_id SAI_OBJECT_TYPE_BRIDGE_PORT 0 0 0 g"

definition ref_bport_data :: "u16 \<Rightarrow> ctc_sai_bridge_port" where
  "ref_bport_data g = \<lparr>bp_port_type = 0, bp_gport = g, stp_port_bind_bits = replicate 4 0, stp_port_bind_count = 0,
     bp_stp_port_state = replicate 128 0\<rparr>"

text \<open>Two instances, a VLAN and a port in the first, and two bridge ports.\<close>

definition ref_inst :: ctc_sai_stp_info where
  "ref_inst = (bind_port ref_sdk 5 zero_stp)\<lparr>vlan_bind_bits := bmp_set ref_sdk (replicate 128 0) 7, vlan_bind_count := 1\<rparr>"

definition ref_stp_state :: "(ref_oid, ref_ent, ref_vec) sai_state" where
  "ref_stp_state = fold ref_add
     [(ref_stp_oid 1, StpData ref_inst), (ref_stp_oid 2, StpData zero_stp),
      (ref_bport 5, BridgePortData (ref_bport_data 5)), (ref_bport 6, BridgePortData (ref_bport_data 6))] ref_state"

lemma ref_inst_ok: "stp_ok ref_sdk ref_inst"
proof -
  have "stp_ok ref_sdk (bind_port ref_sdk 5 zero_stp)"
    by (rule ref_bits.bind_port_ok [OF ref_bits.zero_stp_ok]) (simp_all add: port_bound_def port_bit_outside_def ref_bits.zero_bit zero_stp_def ref_sdk_def)
  moreover have "vlan_bind_bits (bind_port ref_sdk 5 zero_stp) = replicate 128 0" "vlan_bind_count (bind_port ref_sdk 5 zero_stp) = 0"
    by (simp_all add: bind_port_def zero_stp_def)
  ultimately show ?thesis using ref_bits.vlan_bind_ok [of "bind_port ref_sdk 5 zero_stp" 7] by (simp add: ref_inst_def ref_bits.zero_bit)
qed

lemma ref_stp_sound: "sound ref_lib 0 ref_stp_state"
  using ref_fold_inv [of ref_state "[(ref_stp_oid 1, StpData ref_inst), (ref_stp_oid 2, StpData zero_stp),
      (ref_bport 5, BridgePortData (ref_bport_data 5)), (ref_bport 6, BridgePortData (ref_bport_data 6))]"] ref_state_sound
  by (simp add: ref_stp_state_def sound_def ref_stp_oid_def ref_bport_def create_type)

lemma ref_stp_look:
  "obj_map ref_lib 0 ref_stp_state (ref_stp_oid 1) = Some (StpData ref_inst)"
  "obj_map ref_lib 0 ref_stp_state (ref_stp_oid 2) = Some (StpData zero_stp)"
  "obj_map ref_lib 0 ref_stp_state (ref_bport 5) = Some (BridgePortData (ref_bport_data 5))"
  "obj_map ref_lib 0 ref_stp_state (ref_bport 6) = Some (BridgePortData (ref_bport_data 6))"
proof -
  have "let s = ref_stp_state in
    obj_map ref_lib 0 s (ref_stp_oid 1) = Some (StpData ref_inst) \<and> obj_map ref_lib 0 s (ref_stp_oid 2) = Some (StpData zero_stp) \<and>
    obj_map ref_lib 0 s (ref_bport 5) = Some (BridgePortData (ref_bport_data 5)) \<and>
    obj_map ref_lib 0 s (ref_bport 6) = Some (BridgePortData (ref_bport_data 6))"
    by code_simp
  then show "obj_map ref_lib 0 ref_stp_state (ref_stp_oid 1) = Some (StpData ref_inst)"
      "obj_map ref_lib 0 ref_stp_state (ref_stp_oid 2) = Some (StpData zero_stp)"
      "obj_map ref_lib 0 ref_stp_state (ref_bport 5) = Some (BridgePortData (ref_bport_data 5))"
      "obj_map ref_lib 0 ref_stp_state (ref_bport 6) = Some (BridgePortData (ref_bport_data 6))"
    by (simp_all only: Let_def)
qed

lemma ref_stp_more:
  "\<not> fault ref_stp_state" "ctc_sai_oid_get_lchip (inited ref_stp_state) 0 = (0, Some 0)"
  "ctc_sai_oid_get_lchip (inited ref_stp_state) (ref_stp_oid 1) = (0, Some 0)"
  "obj_map ref_lib 0 ref_stp_state (ctc_sai_create_object_id SAI_OBJECT_TYPE_STP_PORT 0 0 2 6) = None"
  "obj_map ref_lib 0 ref_stp_state (ctc_sai_create_object_id SAI_OBJECT_TYPE_STP_PORT 0 0 1 6) = None"
proof -
  have "let s = ref_stp_state in
    (\<not> fault s \<and> ctc_sai_oid_get_lchip (inited s) 0 = (0, Some 0)) \<and> ctc_sai_oid_get_lchip (inited s) (ref_stp_oid 1) = (0, Some 0) \<and>
    obj_map ref_lib 0 s (ctc_sai_create_object_id SAI_OBJECT_TYPE_STP_PORT 0 0 2 6) = None \<and>
    obj_map ref_lib 0 s (ctc_sai_create_object_id SAI_OBJECT_TYPE_STP_PORT 0 0 1 6) = None"
    by code_simp
  then show "\<not> fault ref_stp_state" "ctc_sai_oid_get_lchip (inited ref_stp_state) 0 = (0, Some 0)"
      "ctc_sai_oid_get_lchip (inited ref_stp_state) (ref_stp_oid 1) = (0, Some 0)"
      "obj_map ref_lib 0 ref_stp_state (ctc_sai_create_object_id SAI_OBJECT_TYPE_STP_PORT 0 0 2 6) = None"
      "obj_map ref_lib 0 ref_stp_state (ctc_sai_create_object_id SAI_OBJECT_TYPE_STP_PORT 0 0 1 6) = None"
    unfolding Let_def by blast+
qed

lemma ref_no_instances: "stp_counted Q (obj_map ref_lib 0 ref_state)"
  using ref_laws.fresh_db_lookup
  by (auto simp: stp_counted_def obj_map_def ctc_sai_db_get_object_property_def ref_state_def split: if_splits option.splits)

definition ref_stp_1 :: "(sai_status \<times> sai_object_id option) \<times> (ref_oid, ref_ent, ref_vec) sai_state" where
  "ref_stp_1 = ctc_sai_stp_create_stp ref_lib False 0 ref_state"

definition ref_stp_2 :: "sai_status \<times> (ref_oid, ref_ent, ref_vec) sai_state" where
  "ref_stp_2 = ctc_sai_stp_set_instance ref_lib ref_sdk 0 7 7 (ref_stp_oid 1) True (snd ref_stp_1)"

definition ref_vlan_inst :: ctc_sai_stp_info where
  "ref_vlan_inst = zero_stp\<lparr>vlan_bind_bits := bmp_set ref_sdk (replicate 128 0) 7, vlan_bind_count := 1\<rparr>"

lemma ref_stp_2_look:
  "ctc_sai_oid_get_lchip (inited ref_state) 0 = (0, Some 0)"
  "obj_map ref_lib 0 (snd ref_stp_1) (ref_stp_oid 1) = Some (StpData zero_stp)"
  "obj_map ref_lib 0 (snd ref_stp_2) (ref_stp_oid 1) = Some (StpData ref_vlan_inst)"
  "ctc_sai_oid_get_lchip (inited (snd ref_stp_2)) (ref_stp_oid 1) = (0, Some 0)"
proof -
  have "let s = snd ref_stp_1; t = snd (ctc_sai_stp_set_instance ref_lib ref_sdk 0 7 7 (ref_stp_oid 1) True s) in
      ctc_sai_oid_get_lchip (inited ref_state) 0 = (0, Some 0) \<and> obj_map ref_lib 0 s (ref_stp_oid 1) = Some (StpData zero_stp) \<and>
      obj_map ref_lib 0 t (ref_stp_oid 1) = Some (StpData ref_vlan_inst) \<and> ctc_sai_oid_get_lchip (inited t) (ref_stp_oid 1) = (0, Some 0)"
    by code_simp
  then show "ctc_sai_oid_get_lchip (inited ref_state) 0 = (0, Some 0)"
      "obj_map ref_lib 0 (snd ref_stp_1) (ref_stp_oid 1) = Some (StpData zero_stp)"
      "obj_map ref_lib 0 (snd ref_stp_2) (ref_stp_oid 1) = Some (StpData ref_vlan_inst)"
      "ctc_sai_oid_get_lchip (inited (snd ref_stp_2)) (ref_stp_oid 1) = (0, Some 0)"
    unfolding Let_def ref_stp_2_def by blast+
qed

theorem stp_reach_counted_witness:
  "fst (ctc_sai_stp_remove_stp ref_lib (ref_stp_oid 1) (snd ref_stp_2)) = SAI_STATUS_FAILURE \<and>
   fst (ctc_sai_stp_remove_stp ref_lib (ref_stp_oid 1) (snd ref_stp_1)) = SAI_STATUS_SUCCESS"
proof -
  have r1: "stp_reach ref_lib ref_sdk 0 {} ref_state (snd ref_stp_1)"
    by (rule stp_reach.create [OF stp_reach.start ref_stp_2_look(1), where null = False and r = "fst ref_stp_1"])
      (simp only: ref_stp_1_def [symmetric] prod.collapse)
  moreover have "vlan_fits ref_sdk 7 (ref_stp_oid 1) True (obj_map ref_lib 0 (snd ref_stp_1))"
    by (simp add: vlan_fits_def ref_stp_2_look(2) zero_stp_def ref_bits.zero_bit)
  ultimately have r2: "stp_reach ref_lib ref_sdk 0 {} ref_state (snd ref_stp_2)"
    by (rule stp_reach.set_vlan [where ptr = 7 and st' = "fst ref_stp_2"]) (simp_all only: ref_stp_2_def [symmetric] prod.collapse simp_thms)
  have "7 \<in> set (bits ref_sdk (vlan_bind_bits ref_vlan_inst))"
    by (simp add: ref_vlan_inst_def ref_bits.bits_set_eq)
  then have b: "bits ref_sdk (vlan_bind_bits ref_vlan_inst) \<noteq> []" "bits ref_sdk (vlan_bind_bits zero_stp) = []"
    by (auto simp: zero_stp_def)
  have f: "\<forall>t. rc (env ref_lib t (OpfFree p l v)) = 0" for p l v by (simp add: ref_lib_def ref_env_def)
  have l: "ctc_sai_oid_get_lchip (inited t) (ref_stp_oid 1) = (SAI_STATUS_SUCCESS, Some 0)" if "sound ref_lib 0 t" for t
    unfolding ref_stp_oid_def by (rule created_lchip [OF that])
  have s1: "sound ref_lib 0 (snd ref_stp_1)" "sound ref_lib 0 (snd ref_stp_2)"
    using ref_stp.reach_kept [OF r1] ref_stp.reach_kept [OF r2] ref_state_sound ref_no_instances by (auto simp: stp_kept_def held_def)
  note p = stp_reach_counted [OF ref_stp.stp_lib_axioms ref_state_sound ref_no_instances]
  show ?thesis
    using p [OF r2 ref_stp_2_look(3) l [OF s1(2)] f prod.collapse [symmetric]]
      p [OF r1 ref_stp_2_look(2) l [OF s1(1)] f prod.collapse [symmetric]] b by simp
qed

theorem stp_port_list_exact_witness:
  "\<exists>a' s'. ctc_sai_stp_get_stp_info ref_lib ref_sdk (ref_stp_oid 1) \<lparr>attr_id = SAI_STP_ATTR_PORT_LIST, attr_value = \<lparr>raw = 2, objs = [0, 0]\<rparr>\<rparr> 0 ref_stp_state =
      ((SAI_STATUS_SUCCESS, a'), s') \<and> list_count (attr_value a') = 1 \<and> length (take 1 (objs (attr_value a'))) = 1 \<and> \<not> fault s'"
proof -
  let ?a = "\<lparr>attr_id = SAI_STP_ATTR_PORT_LIST, attr_value = \<lparr>raw = 2, objs = [0, 0]\<rparr>\<rparr>"
  obtain st a' s' where r: "ctc_sai_stp_get_stp_info ref_lib ref_sdk (ref_stp_oid 1) ?a 0 ref_stp_state = ((st, a'), s')"
    by (metis prod.exhaust)
  have l: "ucast (o_lchip (oid_unpack (ref_stp_oid 1))) = (0 :: u8)" "attr_id ?a = SAI_STP_ATTR_PORT_LIST" by code_simp+
  have c: "port_bind_count ref_inst = 1" by (simp add: ref_inst_def bind_port_def zero_stp_def)
  have m: "fst (mem_malloc ref_lib (snd (ext_call ref_lib (GetGchipId 0) ref_stp_state)))"
    by (simp add: mem_malloc_def ext_call_def Let_def ref_lib_def ref_env_def out_val_def)
  note p = stp_port_list_exact [OF ref_stp.stp_lib_axioms ref_stp_sound ref_inst_ok ref_stp_look(1) l r]
  have "\<not> list_count (attr_value ?a) < port_bind_count ref_inst" by (simp add: c list_count_def)
  then have q: "st = SAI_STATUS_SUCCESS" "list_count (attr_value a') = 1" "fault s' = fault ref_stp_state"
      "take 1 (objs (attr_value a')) = stp_ports ref_sdk 0 (o_value (oid_unpack (ref_stp_oid 1))) (ucast (out_val 0 (env ref_lib (trace ref_stp_state) (GetGchipId 0)))) ref_inst"
    using p m c by simp_all
  have "length (stp_ports ref_sdk l v g ref_inst) = 1" for l v g
    using ref_inst_ok c by (simp add: stp_ports_def stp_ok_def)
  then show ?thesis using r q ref_stp_more(1) by metis
qed

lemma ref_apply_ok:
  assumes "\<not> is_linkagg_port ref_sdk gp"
  shows "fst (stp_apply_state ref_lib ref_sdk l g gp v st s) = SAI_STATUS_SUCCESS"
proof -
  have "rc (env ref_lib t (StpSetState a b c d)) = 0" for t a b c d by (simp add: ref_lib_def ref_env_def)
  moreover have "ctc_sai_mapping_error_ctc ref_lib 0 = 0" by code_simp
  ultimately show ?thesis using assms by (simp add: stp_apply_state_def Let_def case_prod_beta ext_call_def)
qed

lemma ref_port_6:
  "\<not> port_bit_outside ref_sdk 6" "\<not> is_linkagg_port ref_sdk 6" "\<not> port_bound ref_sdk 6 zero_stp" "\<not> port_bound ref_sdk 6 ref_inst"
proof -
  have "\<not> port_bound ref_sdk 6 ref_inst \<and> \<not> port_bit_outside ref_sdk 6 \<and> \<not> is_linkagg_port ref_sdk 6" by code_simp
  then show "\<not> port_bit_outside ref_sdk 6" "\<not> is_linkagg_port ref_sdk 6" "\<not> port_bound ref_sdk 6 ref_inst" by simp_all
  show "\<not> port_bound ref_sdk 6 zero_stp" by (simp add: port_bound_def zero_stp_def ref_bits.zero_bit)
qed

definition ref_stp_3 :: "(ref_oid, ref_ent, ref_vec) sai_state" where
  "ref_stp_3 = fold ref_add [(ref_stp_oid 2, StpData zero_stp), (ref_bport 6, BridgePortData (ref_bport_data 6))] ref_state"

definition ref_port_attrs :: "sai_attribute list option" where
  "ref_port_attrs = Some [ref_attr 0 (ref_stp_oid 2), ref_attr 1 (ref_bport 6), ref_attr 2 2]"

lemma ref_stp_3_sound: "sound ref_lib 0 ref_stp_3"
  using ref_fold_inv [of ref_state "[(ref_stp_oid 2, StpData zero_stp), (ref_bport 6, BridgePortData (ref_bport_data 6))]"] ref_state_sound
  by (simp add: ref_stp_3_def sound_def ref_stp_oid_def ref_bport_def create_type)

lemma ref_stp_3_look:
  "\<not> fault ref_stp_3" "ctc_sai_oid_get_lchip (inited ref_stp_3) 0 = (0, Some 0)"
  "obj_map ref_lib 0 ref_stp_3 (ref_stp_oid 2) = Some (StpData zero_stp)"
  "obj_map ref_lib 0 ref_stp_3 (ref_bport 6) = Some (BridgePortData (ref_bport_data 6))"
  "obj_map ref_lib 0 ref_stp_3 (ctc_sai_create_object_id SAI_OBJECT_TYPE_STP_PORT 0 0 2 6) = None"
proof -
  have "let s = ref_stp_3 in (\<not> fault s \<and> ctc_sai_oid_get_lchip (inited s) 0 = (0, Some 0)) \<and>
    obj_map ref_lib 0 s (ref_stp_oid 2) = Some (StpData zero_stp) \<and> obj_map ref_lib 0 s (ref_bport 6) = Some (BridgePortData (ref_bport_data 6)) \<and>
    obj_map ref_lib 0 s (ctc_sai_create_object_id SAI_OBJECT_TYPE_STP_PORT 0 0 2 6) = None"
    by code_simp
  then show "\<not> fault ref_stp_3" "ctc_sai_oid_get_lchip (inited ref_stp_3) 0 = (0, Some 0)"
      "obj_map ref_lib 0 ref_stp_3 (ref_stp_oid 2) = Some (StpData zero_stp)"
      "obj_map ref_lib 0 ref_stp_3 (ref_bport 6) = Some (BridgePortData (ref_bport_data 6))"
      "obj_map ref_lib 0 ref_stp_3 (ctc_sai_create_object_id SAI_OBJECT_TYPE_STP_PORT 0 0 2 6) = None"
    unfolding Let_def by blast+
qed

lemma ref_create_ok:
  "\<exists>s1 i. ctc_sai_stp_create_stp_port ref_lib ref_sdk False 0 3 ref_port_attrs ref_stp_3 =
      ((SAI_STATUS_SUCCESS, Some (ctc_sai_create_object_id SAI_OBJECT_TYPE_STP_PORT 0 0 2 6)), s1) \<and>
    obj_map ref_lib 0 s1 (ctc_sai_create_object_id SAI_OBJECT_TYPE_STP_PORT 0 0 2 6) \<noteq> None \<and>
    obj_map ref_lib 0 s1 (ref_stp_oid 2) = Some (StpData i)"
proof -
  let ?r = "ctc_sai_stp_create_stp_port ref_lib ref_sdk False 0 3 ref_port_attrs ref_stp_3"
    and ?oid = "ctc_sai_create_object_id SAI_OBJECT_TYPE_STP_PORT 0 0 2 6"
  have "let r = ?r in fst r = (SAI_STATUS_SUCCESS, Some ?oid) \<and>
      obj_map ref_lib 0 (snd r) ?oid \<noteq> None \<and> (case obj_map ref_lib 0 (snd r) (ref_stp_oid 2) of Some (StpData i) \<Rightarrow> True | _ \<Rightarrow> False)"
    by code_simp
  then show ?thesis by (cases ?r) (auto simp: Let_def split: option.splits obj_data.splits)
qed

theorem stp_port_roundtrip_witness:
  "\<exists>oid s1 s2. ctc_sai_stp_create_stp_port ref_lib ref_sdk False 0 3 ref_port_attrs ref_stp_3 = ((SAI_STATUS_SUCCESS, Some oid), s1) \<and>
     ctc_sai_stp_remove_stp_port ref_lib ref_sdk oid s1 = (SAI_STATUS_SUCCESS, s2) \<and>
     obj_map ref_lib 0 s2 (ref_stp_oid 2) = Some (StpData zero_stp) \<and> \<not> fault s2"
proof -
  let ?oid = "ctc_sai_create_object_id SAI_OBJECT_TYPE_STP_PORT 0 0 2 6"
  obtain s1 i where c: "ctc_sai_stp_create_stp_port ref_lib ref_sdk False 0 3 ref_port_attrs ref_stp_3 = ((SAI_STATUS_SUCCESS, Some ?oid), s1)"
      "obj_map ref_lib 0 s1 ?oid \<noteq> None" "obj_map ref_lib 0 s1 (ref_stp_oid 2) = Some (StpData i)"
    using ref_create_ok by blast
  have f: "ctc_sai_find_attrib_in_list 3 ref_port_attrs SAI_STP_PORT_ATTR_STP = (0, Some (attr_value (ref_attr 0 (ref_stp_oid 2)), 0))"
      "oiddata (attr_value (ref_attr 0 (ref_stp_oid 2))) = ctc_sai_create_object_id SAI_OBJECT_TYPE_STP 0 0 0 (ucast (2 :: u16))"
      "ctc_sai_find_attrib_in_list 3 ref_port_attrs SAI_STP_PORT_ATTR_BRIDGE_PORT = (0, Some (attr_value (ref_attr 1 (ref_bport 6)), 1))"
      "oiddata (attr_value (ref_attr 1 (ref_bport 6))) = ctc_sai_create_object_id SAI_OBJECT_TYPE_BRIDGE_PORT 0 0 0 6"
      "ctc_sai_find_attrib_in_list 3 ref_port_attrs SAI_STP_PORT_ATTR_STATE = (0, Some (attr_value (ref_attr 2 2), 2))"
    by code_simp+
  have o: "obj_map ref_lib 0 ref_stp_3 (ctc_sai_create_object_id SAI_OBJECT_TYPE_STP 0 0 0 (ucast (2 :: u16))) = Some (StpData zero_stp)"
      "obj_map ref_lib 0 ref_stp_3 (ctc_sai_create_object_id SAI_OBJECT_TYPE_BRIDGE_PORT 0 0 0 6) = Some (BridgePortData (ref_bport_data 6))"
    using ref_stp_3_look(3,4) by (simp_all add: ref_stp_oid_def ref_bport_def)
  have g: "ucast (bp_gport (ref_bport_data 6)) = (6 :: u32)" "length (stp_port_bind_bits (ref_bport_data 6)) = 4" "(2 :: u16) < 128"
      "\<not> bmp_isset ref_sdk (stp_port_bind_bits (ref_bport_data 6)) (unat (2 :: u16))"
    by (simp_all add: ref_bport_data_def ref_bits.zero_bit)
  note s1 = ref_stp.create_port_method(2) [OF ref_stp_3_sound ref_stp_3_look(2) f o(1) ref_bits.zero_stp_ok o(2) g ref_port_6(3,1) c(1)
      ref_stp_3_look(5) c(2)]
  note lk = lock_step [OF s1]
  have "fst (ctc_sai_stp_remove_stp_port ref_lib ref_sdk ?oid s1) = SAI_STATUS_SUCCESS"
    using created_lchip [OF s1, of SAI_OBJECT_TYPE_STP_PORT 0 2 6] c(3) ref_port_6(2)
      ref_stp.remove_port_status [OF lk(2), of 2 i 6] ref_apply_ok [OF ref_port_6(2)] lk(3)
    by (simp add: ctc_sai_stp_remove_stp_port_def Let_def case_prod_beta ref_stp_oid_def)
  then obtain s2 where d: "ctc_sai_stp_remove_stp_port ref_lib ref_sdk ?oid s1 = (SAI_STATUS_SUCCESS, s2)" by (metis prod.collapse)
  have "ref_bport 6 \<noteq> ref_stp_oid 2" using ref_stp_3_look(3,4) by auto
  with stp_port_roundtrip [OF ref_stp.stp_lib_axioms ref_stp_3_sound ref_stp_3_look(2) f o(1) ref_bits.zero_stp_ok o(2) g
      ref_port_6(3,1) c(1) ref_stp_3_look(5) c(2) d]
  show ?thesis using c(1) d ref_stp_3_look(1,3) by (auto simp: ref_stp_oid_def ref_bport_def quiet_def)
qed

theorem stp_remove_absent_port_witness:
  "\<exists>s1 j. stp_remove_stp_port ref_lib ref_sdk (ctc_sai_create_object_id SAI_OBJECT_TYPE_STP_PORT 0 0 1 6) ref_stp_state = (SAI_STATUS_SUCCESS, s1) \<and>
     obj_map ref_lib 0 s1 (ref_stp_oid 1) = Some (StpData j) \<and> port_bind_count j = port_bind_count ref_inst - 1"
proof -
  have o: "obj_map ref_lib 0 ref_stp_state (ctc_sai_create_object_id SAI_OBJECT_TYPE_STP 0 0 0 (ucast (1 :: u16))) = Some (StpData ref_inst)"
      "obj_map ref_lib 0 ref_stp_state (ctc_sai_create_object_id SAI_OBJECT_TYPE_BRIDGE_PORT 0 0 0 6) = Some (BridgePortData (ref_bport_data 6))"
    using ref_stp_look(1,4) by (simp_all add: ref_stp_oid_def ref_bport_def)
  obtain s1 where r: "stp_remove_stp_port ref_lib ref_sdk (ctc_sai_create_object_id SAI_OBJECT_TYPE_STP_PORT 0 0 1 6) ref_stp_state = (SAI_STATUS_SUCCESS, s1)"
    using ref_stp.remove_port_status [OF ref_stp_sound o(1) ref_apply_ok [OF ref_port_6(2)]] by (metis prod.collapse)
  show ?thesis
    using r stp_remove_absent_port [OF ref_stp.stp_lib_axioms ref_stp_sound o(1) ref_inst_ok o(2) _ ref_port_6(4,1) ref_stp_more(5) r
        ref_apply_ok [OF ref_port_6(2)]]
    by (auto simp: ref_stp_oid_def)
qed

lemma ref_stp_counted: "stp_counted ref_sdk (obj_map ref_lib 0 ref_stp_state)"
proof -
  have "stp_kept ref_lib ref_sdk 0 {} (ref_add (oid, d) s)"
    if "stp_kept ref_lib ref_sdk 0 {} s" "data_fits (oid_type oid) d" "\<forall>i. d = StpData i \<longrightarrow> stp_ok ref_sdk i" for oid d s
    using ref_stp.kept_add(1) [OF that] by (simp add: ref_add_def)
  note add = this
  have k0: "stp_kept ref_lib ref_sdk 0 {} ref_state" using ref_state_sound ref_no_instances by (simp add: stp_kept_def held_def)
  have "stp_kept ref_lib ref_sdk 0 {} ref_stp_state"
    unfolding ref_stp_state_def fold_simps comp_def id_def
    by (intro add k0) (simp_all add: ref_stp_oid_def ref_bport_def create_type ref_inst_ok ref_bits.zero_stp_ok)
  then show ?thesis by (simp add: stp_kept_def)
qed

theorem stp_vlan_rebind_blocks_witness:
  "\<exists>s1. ctc_sai_stp_set_instance ref_lib ref_sdk 0 7 7 (ref_stp_oid 2) True ref_stp_state = (SAI_STATUS_SUCCESS, s1) \<and>
     fst (ctc_sai_stp_remove_stp ref_lib (ref_stp_oid 1) s1) = SAI_STATUS_FAILURE"
proof -
  have m: "ctc_sai_mapping_error_ctc ref_lib 0 = 0" by code_simp
  have "rc (env ref_lib t (StpSetVlanStpid a b c)) = 0" for t a b c by (simp add: ref_lib_def ref_env_def)
  then have "fst (ctc_sai_stp_set_instance ref_lib ref_sdk 0 7 7 (ref_stp_oid 2) True ref_stp_state) = SAI_STATUS_SUCCESS"
    by (simp add: ctc_sai_stp_set_instance_def obj_map_get ref_stp_look(2) Let_def case_prod_beta ext_call_def m status_leaves_def)
  then obtain s1 where r: "ctc_sai_stp_set_instance ref_lib ref_sdk 0 7 7 (ref_stp_oid 2) True ref_stp_state = (SAI_STATUS_SUCCESS, s1)"
    by (metis prod.collapse)
  have b: "bmp_isset ref_sdk (vlan_bind_bits ref_inst) (unat (7 :: u16))"
    by (simp add: ref_inst_def ref_bits.set_bit)
  have f: "vlan_fits ref_sdk 7 (ref_stp_oid 2) True (obj_map ref_lib 0 ref_stp_state)"
    by (simp add: vlan_fits_def ref_stp_look(2) zero_stp_def ref_bits.zero_bit)
  have v: "(7 :: u16) < 4096" by simp
  show ?thesis
    using r stp_vlan_rebind_blocks [OF ref_stp.stp_lib_axioms ref_stp_sound ref_stp_counted ref_stp_look(1) v b ref_stp_more(3) f r
        stp_reach.start prod.collapse [symmetric]] by blast
qed

text \<open>The device of the reference instance with memory for no record at all.\<close>

definition starved_lib :: "(ref_oid, ref_ent, ref_vec) ctc_lib" where
  "starved_lib = ref_lib\<lparr>env := \<lambda>t c. if c = MemAlloc then \<lparr>rc = 0, outs = [0]\<rparr> else ref_env t c\<rparr>"

lemma starved_ops:
  "oid_ops starved_lib = oid_ops ref_lib" "ent_ops starved_lib = ent_ops ref_lib" "vec_ops starved_lib = vec_ops ref_lib"
  "err starved_lib = err ref_lib" "traverse_stops starved_lib = traverse_stops ref_lib" "through_stops starved_lib = through_stops ref_lib"
  "env starved_lib t (OpfAlloc p l) = env ref_lib t (OpfAlloc p l)"
  by (simp_all add: starved_lib_def ref_lib_def)

interpretation starved_laws: ctc_lib_laws starved_lib
  using ref_laws.ctc_lib_laws_axioms by (simp add: ctc_lib_laws_def ctc_lib_laws_axioms_def starved_ops)

theorem stp_create_outcome_witness:
  "\<exists>s'. ctc_sai_stp_create_stp starved_lib False 0 ref_state = ((SAI_STATUS_SUCCESS, Some (ref_stp_oid 1)), s') \<and>
     obj_map starved_lib 0 s' (ref_stp_oid 1) = None \<and>
   (\<exists>t. ctc_sai_stp_create_stp ref_lib False 0 ref_state = ((SAI_STATUS_SUCCESS, Some (ref_stp_oid 1)), t) \<and>
     obj_map ref_lib 0 t (ref_stp_oid 1) = Some (StpData zero_stp))"
proof -
  have d: "g_sai_db ref_state 0 = Some (fresh_db ref_lib)" "ctc_sai_oid_get_lchip (inited ref_state) 0 = (0, Some 0)"
    using ref_stp_2_look(1) by (simp_all add: ref_state_def)
  have e: "obj_map starved_lib 0 t = obj_map ref_lib 0 t" "sound starved_lib 0 t = sound ref_lib 0 t" for t
    unfolding obj_map_def ctc_sai_db_get_object_property_def sound_def chip_inv_def chip_typed_def state_ok_def db_ok_def starved_ops
    by (rule refl)+
  have n: "obj_map ref_lib 0 ref_state x = None" for x
    using ref_laws.fresh_db_lookup d(1) by (simp add: obj_map_def ctc_sai_db_get_object_property_def split: if_splits)
  have a1: "fst (ctc_sai_db_alloc_id starved_lib 0 CTC_SAI_DB_ID_TYPE_STP (snd (ctc_sai_db_lock starved_lib 0 ref_state))) = (0, Some 1)"
    and a2: "fst (ctc_sai_db_alloc_id ref_lib 0 CTC_SAI_DB_ID_TYPE_STP (snd (ctc_sai_db_lock ref_lib 0 ref_state))) = (0, Some 1)"
    by code_simp+
  obtain u1 u2 where u: "ctc_sai_db_alloc_id starved_lib 0 CTC_SAI_DB_ID_TYPE_STP (snd (ctc_sai_db_lock starved_lib 0 ref_state)) = ((0, Some 1), u1)"
      "ctc_sai_db_alloc_id ref_lib 0 CTC_SAI_DB_ID_TYPE_STP (snd (ctc_sai_db_lock ref_lib 0 ref_state)) = ((0, Some 1), u2)"
    using a1 a2 by (metis prod.collapse)
  have m: "\<not> fst (mem_malloc starved_lib t)" "fst (mem_malloc ref_lib t)" for t
    by (simp_all add: mem_malloc_def ext_call_def Let_def starved_lib_def ref_lib_def ref_env_def out_val_def)
  have mem: "out_val 0 (env ref_lib t MemAlloc) \<noteq> 0" for t by (simp add: ref_lib_def ref_env_def out_val_def)
  obtain st r s' where c: "ctc_sai_stp_create_stp starved_lib False 0 ref_state = ((st, r), s')" by (metis prod.exhaust)
  obtain st2 r2 t where c2: "ctc_sai_stp_create_stp ref_lib False 0 ref_state = ((st2, r2), t)" by (metis prod.exhaust)
  have "st = SAI_STATUS_SUCCESS \<and> r = Some (ref_stp_oid 1) \<and> obj_map starved_lib 0 s' (ref_stp_oid 1) = None"
    using stp_create_outcome [OF starved_laws.ctc_lib_laws_axioms _ d(2) u(1) c] m(1) ref_state_sound n
    by (simp add: e case_prod_beta ref_stp_oid_def)
  moreover have "st2 = SAI_STATUS_SUCCESS \<and> r2 = Some (ref_stp_oid 1) \<and> obj_map ref_lib 0 t (ref_stp_oid 1) = Some (StpData zero_stp)"
    using stp_create_outcome [OF ref_laws.ctc_lib_laws_axioms ref_state_sound d(2) u(2) c2] m(2) n mem
    by (simp add: case_prod_beta Let_def ref_stp_oid_def)
  ultimately show ?thesis using c c2 by blast
qed

end
