(* ===== verification/SAI_Cfg_Parse.thy ===== *)
theory SAI_Cfg_Parse
  imports SAI_Ext
begin

text \<open>
  The parser of the configuration files (\<^verbatim>\<open>centec/src/ctc_sai_app_cfg_parse.c\<close>). A file is a list of
  bytes; a line such as \<^verbatim>\<open>[name] = 12\<close> sets a number, a table of such lines stands between \<^verbatim>\<open>#{\<close> and
  \<^verbatim>\<open>#}\<close>, and other lines that begin with \<^verbatim>\<open>#\<close> are comments. The parser reads the file in pieces of
  at most 64 bytes into arrays of 64 bytes. Where it would read or write outside an array the flag
  \<open>ap_bad\<close> is set and the model stops. Opening and closing the file is left out.
\<close>

section \<open>Strings and numbers of the C library\<close>

abbreviation (input) NUL :: char where "NUL \<equiv> CHR 0x00"
abbreviation (input) TAB :: char where "TAB \<equiv> CHR 0x09"
abbreviation (input) LF :: char where "LF \<equiv> CHR 0x0A"
abbreviation (input) CR :: char where "CR \<equiv> CHR 0x0D"

text \<open>The string in an array; an array without a zero byte holds none.\<close>

definition c_string :: "char list \<Rightarrow> string option" where
  "c_string b = (if NUL \<in> set b then Some (takeWhile (\<lambda>c. c \<noteq> NUL) b) else None)"

definition starts :: "string \<Rightarrow> string \<Rightarrow> bool" where
  "starts f s \<longleftrightarrow> take (length f) s = f"

fun c_strstr :: "string \<Rightarrow> string \<Rightarrow> string option" where
  "c_strstr s f = (if starts f s then Some s else case s of [] \<Rightarrow> None | c # s \<Rightarrow> c_strstr s f)"

declare c_strstr.simps [simp del]

definition c_isspace :: "char \<Rightarrow> bool" where
  "c_isspace c \<longleftrightarrow> c \<in> {CHR '' '', TAB, LF, CHR 0x0B, CHR 0x0C, CR}"

definition c_digit :: "nat \<Rightarrow> char \<Rightarrow> nat option" where
  "c_digit base c =
     (let n = of_char c :: nat;
          d = (if 48 \<le> n \<and> n \<le> 57 then n - 48 else if 97 \<le> n \<and> n \<le> 102 then n - 87
               else if 65 \<le> n \<and> n \<le> 70 then n - 55 else 16) in
      if d < base then Some d else None)"

fun c_digits :: "nat \<Rightarrow> string \<Rightarrow> nat list" where
  "c_digits base [] = []"
| "c_digits base (c # s) = (case c_digit base c of None \<Rightarrow> [] | Some d \<Rightarrow> d # c_digits base s)"

definition digits_value :: "nat \<Rightarrow> nat list \<Rightarrow> nat" where
  "digits_value base ds = foldl (\<lambda>n d. base * n + d) 0 ds"

text \<open>
  What \<^verbatim>\<open>sscanf\<close> stores for \<^verbatim>\<open>%d\<close> and \<^verbatim>\<open>%x\<close> in a 32-bit variable that is zero before: white space, a
  sign and for \<^verbatim>\<open>%x\<close> a prefix are skipped, and without a digit nothing is stored. Of a number that does
  not fit the low 32 bits are taken, as the GNU library does for up to 63 bits; the standard leaves
  it open.
\<close>

definition c_sscanf :: "nat \<Rightarrow> string \<Rightarrow> u32" where
  "c_sscanf base s =
     (let s = dropWhile c_isspace s;
          neg = starts ''-'' s;
          s = (if starts ''-'' s \<or> starts ''+'' s then tl s else s);
          s = (if base = 16 \<and> (starts ''0x'' s \<or> starts ''0X'' s) then drop 2 s else s);
          n = of_nat (digits_value base (c_digits base s)) in
      if neg then - n else n)"

section \<open>Trimming and reading numbers\<close>

definition EMPTY_LINE :: "char \<Rightarrow> bool" where "EMPTY_LINE c \<longleftrightarrow> c = NUL \<or> c = CR \<or> c = LF"

definition WHITE_SPACE :: "char \<Rightarrow> bool" where "WHITE_SPACE c \<longleftrightarrow> c = TAB \<or> c = CHR '' ''"

text \<open>The pointer that walks left from the end of the string, as the number of bytes before it.\<close>

primrec trim_right :: "nat \<Rightarrow> char list \<Rightarrow> nat" where
  "trim_right 0 b = 0"
| "trim_right (Suc n) b = (if WHITE_SPACE (b ! n) \<or> b ! n = CR \<or> b ! n = LF then trim_right n b else Suc n)"

text \<open>The output array must have room for the input and its zero byte.\<close>

definition app_string_atrim :: "char list \<Rightarrow> string \<Rightarrow> char list option" where
  "app_string_atrim output input =
     (let input = dropWhile WHITE_SPACE input in
      if length output \<le> length input then None
      else
        let output = input @ NUL # drop (Suc (length input)) output in
        Some (output[trim_right (length input) output := NUL]))"

text \<open>The number behind the first equals sign; without one nothing is stored.\<close>

definition app_get_interage :: "string \<Rightarrow> u32 option" where
  "app_get_interage s =
     (case dropWhile (\<lambda>c. c \<noteq> CHR ''='') s of
        [] \<Rightarrow> None
      | c # ch \<Rightarrow>
          (let ch = dropWhile c_isspace ch in
           Some (if starts ''0x'' ch then c_sscanf 16 ch else c_sscanf 10 ch)))"

text \<open>
  The digits behind the first occurrence of a name, with the number of digits, which are copied to
  an array of 64 zero bytes.
\<close>

definition app_get_field_interage :: "string \<Rightarrow> string \<Rightarrow> (u32 \<times> nat) option" where
  "app_get_field_interage s field =
     (case c_strstr s field of
        None \<Rightarrow> None
      | Some ch \<Rightarrow>
          (let ds = takeWhile (\<lambda>c. c_digit 10 c \<noteq> None) (drop (length field) ch) in
           Some (c_sscanf 10 ds, length ds)))"

section \<open>Reading the file\<close>

text \<open>At most \<open>n\<close> bytes, up to the end of the line; no zero byte is appended.\<close>

primrec app_parse_file_fgets :: "nat \<Rightarrow> char list \<Rightarrow> nat \<Rightarrow> char list \<times> nat" where
  "app_parse_file_fgets 0 mem pos = ([], pos)"
| "app_parse_file_fgets (Suc n) mem pos =
     (if pos = length mem then ([], pos)
      else if mem ! pos = LF then ([mem ! pos], pos + 1)
      else let (s, pos') = app_parse_file_fgets n mem (pos + 1) in (mem ! pos # s, pos'))"

lemma fgets_pos:
  "pos \<le> length mem \<Longrightarrow> pos \<le> snd (app_parse_file_fgets n mem pos) \<and> snd (app_parse_file_fgets n mem pos) \<le> length mem"
proof (induction n arbitrary: pos)
  case (Suc n)
  show ?case
  proof (cases "pos = length mem \<or> mem ! pos = LF")
    case False
    then show ?thesis using Suc.IH [of "pos + 1"] Suc.prems by (auto simp: case_prod_beta)
  qed (use Suc.prems in auto)
qed simp

lemma fgets_advances:
  assumes "pos < length mem" and "0 < n"
  shows "pos < snd (app_parse_file_fgets n mem pos)" "snd (app_parse_file_fgets n mem pos) \<le> length mem"
proof -
  obtain m where n: "n = Suc m" using assms(2) by (cases n) auto
  show "pos < snd (app_parse_file_fgets n mem pos)" "snd (app_parse_file_fgets n mem pos) \<le> length mem"
    using assms(1) fgets_pos [of "pos + 1" mem m] unfolding n by (auto simp: case_prod_beta)
qed

section \<open>One line\<close>

text \<open>The memory that \<^verbatim>\<open>value\<close> points to.\<close>

datatype value_mem = U32s "u32 list" | U8s "u8 list"

record ctc_app_parse =
  ap_field :: string
  ap_field_sub :: string
  ap_value :: value_mem
  ap_cur :: u8
  ap_max :: u8
  ap_flag :: u32
  ap_bad :: bool

abbreviation (input) CTC_APP_PARSE_FLAG_GLOBAL :: u32 where "CTC_APP_PARSE_FLAG_GLOBAL \<equiv> 0x01"
abbreviation (input) CTC_APP_PARSE_FLAG_TABLE :: u32 where "CTC_APP_PARSE_FLAG_TABLE \<equiv> 0x02"
abbreviation (input) CTC_APP_PARSE_FLAG_TABLE_ENTER :: u32 where "CTC_APP_PARSE_FLAG_TABLE_ENTER \<equiv> 0x04"
abbreviation (input) CTC_APP_PARSE_FLAG_TABLE_LEAVE :: u32 where "CTC_APP_PARSE_FLAG_TABLE_LEAVE \<equiv> 0x08"
abbreviation (input) CTC_APP_PARSE_FLAG_MIX :: u32 where "CTC_APP_PARSE_FLAG_MIX \<equiv> 0x10"

datatype parse_ret = CTC_APP_PARSE_RET_CONTINUE | CTC_APP_PARSE_RET_FIND | CTC_APP_PARSE_RET_NOT_FIND

definition flag_isset :: "u32 \<Rightarrow> u32 \<Rightarrow> bool" where "flag_isset v f \<longleftrightarrow> v AND f = f"
definition set_flag :: "u32 \<Rightarrow> ctc_app_parse \<Rightarrow> ctc_app_parse" where "set_flag f p = p\<lparr>ap_flag := ap_flag p OR f\<rparr>"
definition unset_flag :: "u32 \<Rightarrow> ctc_app_parse \<Rightarrow> ctc_app_parse" where "unset_flag f p = p\<lparr>ap_flag := ap_flag p AND NOT f\<rparr>"

definition store_u32 :: "nat \<Rightarrow> u32 option \<Rightarrow> ctc_app_parse \<Rightarrow> ctc_app_parse" where
  "store_u32 i v p =
     (case v of
        None \<Rightarrow> p
      | Some x \<Rightarrow>
          (case ap_value p of
             U32s xs \<Rightarrow> if i < length xs then p\<lparr>ap_value := U32s (xs[i := x])\<rparr> else p\<lparr>ap_bad := True\<rparr>
           | U8s _ \<Rightarrow> p\<lparr>ap_bad := True\<rparr>))"

definition app_do_cfg_file :: "string \<Rightarrow> ctc_app_parse \<Rightarrow> parse_ret \<times> ctc_app_parse" where
  "app_do_cfg_file line p =
     (if flag_isset (ap_flag p) CTC_APP_PARSE_FLAG_GLOBAL \<and> starts (ap_field p) line then
        let p = store_u32 0 (app_get_interage line) p in
        (CTC_APP_PARSE_RET_FIND, p\<lparr>ap_cur := ap_cur p + 1\<rparr>)
      else (CTC_APP_PARSE_RET_CONTINUE, p))"

definition app_do_table_cfg_file :: "string \<Rightarrow> ctc_app_parse \<Rightarrow> parse_ret \<times> ctc_app_parse" where
  "app_do_table_cfg_file line p =
     (if flag_isset (ap_flag p) CTC_APP_PARSE_FLAG_TABLE_LEAVE then
        (CTC_APP_PARSE_RET_CONTINUE,
         if starts ''#}'' line
         then set_flag CTC_APP_PARSE_FLAG_GLOBAL (unset_flag CTC_APP_PARSE_FLAG_TABLE_LEAVE p) else p)
      else if flag_isset (ap_flag p) CTC_APP_PARSE_FLAG_TABLE_ENTER then
        (CTC_APP_PARSE_RET_CONTINUE,
         unset_flag CTC_APP_PARSE_FLAG_TABLE_ENTER
           (set_flag (if starts (ap_field p) line then CTC_APP_PARSE_FLAG_TABLE else CTC_APP_PARSE_FLAG_TABLE_LEAVE) p))
      else if flag_isset (ap_flag p) CTC_APP_PARSE_FLAG_GLOBAL \<and> starts ''#{'' line then
        (CTC_APP_PARSE_RET_CONTINUE,
         unset_flag CTC_APP_PARSE_FLAG_GLOBAL (set_flag CTC_APP_PARSE_FLAG_TABLE_ENTER p))
      else if flag_isset (ap_flag p) CTC_APP_PARSE_FLAG_TABLE then
        if starts ''#}'' line then
          (CTC_APP_PARSE_RET_FIND, set_flag CTC_APP_PARSE_FLAG_GLOBAL (unset_flag CTC_APP_PARSE_FLAG_TABLE p))
        else if starts (ap_field_sub p) line then
          if ap_max p \<le> ap_cur p then (CTC_APP_PARSE_RET_NOT_FIND, p)
          else
            let p = store_u32 (unat (ap_cur p)) (app_get_interage line) p in
            (CTC_APP_PARSE_RET_CONTINUE, p\<lparr>ap_cur := ap_cur p + 1\<rparr>)
        else (CTC_APP_PARSE_RET_CONTINUE, p)
      else (CTC_APP_PARSE_RET_CONTINUE, p))"

text \<open>
  The name with a number, \<^verbatim>\<open>[name7] = 3\<close>: byte 7 becomes 3. The digits and the text with brackets are
  put together in arrays of 64 bytes.
\<close>

definition app_do_mix_cfg_file :: "string \<Rightarrow> ctc_app_parse \<Rightarrow> parse_ret \<times> ctc_app_parse" where
  "app_do_mix_cfg_file line p =
     (if flag_isset (ap_flag p) CTC_APP_PARSE_FLAG_MIX \<and> ap_cur p < ap_max p then
        let (val, n) = (case app_get_field_interage line (ap_field p) of None \<Rightarrow> (0, 0) | Some r \<Rightarrow> r);
            field_tmp = ''['' @ ap_field p @ int_string (sint val) @ '']'';
            p = p\<lparr>ap_bad := ap_bad p \<or> 64 \<le> n \<or> 64 \<le> length field_tmp\<rparr> in
        if starts field_tmp line then
          let x = (case app_get_interage line of None \<Rightarrow> val | Some x \<Rightarrow> x);
              p = (case ap_value p of
                     U8s bs \<Rightarrow> if unat val < length bs then p\<lparr>ap_value := U8s (bs[unat val := ucast x])\<rparr> else p\<lparr>ap_bad := True\<rparr>
                   | U32s _ \<Rightarrow> p\<lparr>ap_bad := True\<rparr>) in
          (CTC_APP_PARSE_RET_CONTINUE, p\<lparr>ap_cur := ap_cur p + 1\<rparr>)
        else (CTC_APP_PARSE_RET_CONTINUE, p)
      else (CTC_APP_PARSE_RET_CONTINUE, p))"

section \<open>The whole file\<close>

text \<open>
  One turn of the loop: the piece that is read, and what follows from it. A piece that fills the
  array leaves no zero byte, and trimming it would read on behind the array.
\<close>

datatype piece = Skip | Line string | Overrun

definition line_array :: "char list \<Rightarrow> char list" where
  "line_array s = s @ replicate (64 - length s) NUL"

definition read_piece :: "char list \<Rightarrow> piece" where
  "read_piece string =
     (if string ! 0 = CHR ''#'' \<and> string ! 1 \<noteq> CHR ''{'' \<and> string ! 1 \<noteq> CHR ''}'' then Skip
      else if EMPTY_LINE (string ! 0) then Skip
      else case c_string string of
        None \<Rightarrow> Overrun
      | Some s \<Rightarrow>
          (case app_string_atrim (replicate 64 NUL) s of
             None \<Rightarrow> Overrun
           | Some line \<Rightarrow> if EMPTY_LINE (line ! 0) then Skip else Line (takeWhile (\<lambda>c. c \<noteq> NUL) line)))"

function parse_loop ::
    "(string \<Rightarrow> ctc_app_parse \<Rightarrow> parse_ret \<times> ctc_app_parse) \<Rightarrow> char list \<Rightarrow> nat \<Rightarrow> parse_ret \<Rightarrow> ctc_app_parse \<Rightarrow>
     parse_ret \<times> ctc_app_parse" where
  "parse_loop func mem pos ret p =
     (if length mem \<le> pos then (ret, p)
      else
        let r = app_parse_file_fgets 64 mem pos in
        case read_piece (line_array (fst r)) of
          Skip \<Rightarrow> parse_loop func mem (snd r) ret p
        | Overrun \<Rightarrow> (ret, p\<lparr>ap_bad := True\<rparr>)
        | Line line \<Rightarrow>
            (let q = func line p in
             if fst q \<noteq> CTC_APP_PARSE_RET_CONTINUE then q else parse_loop func mem (snd r) (fst q) (snd q)))"
  by pat_completeness auto

termination
proof (relation "measure (\<lambda>(func, mem, pos, ret, p). length mem - pos)", simp, goal_cases)
  case (1 func mem pos ret p r)
  then show ?case using fgets_advances [of pos mem 64] by simp
next
  case (2 func mem pos ret p r line q)
  then show ?case using fgets_advances [of pos mem 64] by simp
qed

declare parse_loop.simps [simp del]

definition parse_err :: "parse_ret \<Rightarrow> ctc_err" where
  "parse_err r = (case r of CTC_APP_PARSE_RET_FIND \<Rightarrow> CTC_E_NONE | _ \<Rightarrow> CTC_E_NOT_EXIST)"

definition app_do_parse ::
    "(string \<Rightarrow> ctc_app_parse \<Rightarrow> parse_ret \<times> ctc_app_parse) \<Rightarrow> ctc_app_parse \<Rightarrow> char list \<Rightarrow> ctc_err \<times> ctc_app_parse" where
  "app_do_parse func p mem =
     (let (ret, p) = parse_loop func mem 0 CTC_APP_PARSE_RET_NOT_FIND p in
      (parse_err (if ap_cur p \<noteq> 0 then CTC_APP_PARSE_RET_FIND else ret), p))"

abbreviation (input) LETTER_NUMBER_MIX :: string where "LETTER_NUMBER_MIX \<equiv> ''lettermixnum''"

definition bracketed :: "string \<Rightarrow> string" where
  "bracketed s = ''['' @ s @ '']''"

text \<open>
  Null pointers are \<^const>\<open>None\<close>. The answer is the code of the SDK, the memory behind \<^verbatim>\<open>value\<close>, the number
  of entries, and whether an array was left.
\<close>

definition ctc_app_parse_file ::
    "char list option \<Rightarrow> string option \<Rightarrow> string option \<Rightarrow> value_mem option \<Rightarrow> u8 option \<Rightarrow>
     ctc_err \<times> value_mem option \<times> u8 option \<times> bool" where
  "ctc_app_parse_file p_file field field_sub val p_entry_num =
     (case (p_file, field, val, p_entry_num) of
        (Some mem, Some field, Some v, Some n) \<Rightarrow>
          (let p = \<lparr>ap_field = bracketed field, ap_field_sub = [], ap_value = v, ap_cur = 0, ap_max = n,
                    ap_flag = CTC_APP_PARSE_FLAG_GLOBAL, ap_bad = 62 \<le> length field\<rparr>;
               (e, p) =
                 (case field_sub of
                    None \<Rightarrow> app_do_parse app_do_cfg_file p mem
                  | Some sub \<Rightarrow>
                      if starts sub LETTER_NUMBER_MIX then
                        app_do_parse app_do_mix_cfg_file (p\<lparr>ap_flag := CTC_APP_PARSE_FLAG_MIX, ap_field := field\<rparr>) mem
                      else
                        app_do_parse app_do_table_cfg_file
                          (p\<lparr>ap_field_sub := bracketed sub, ap_bad := ap_bad p \<or> 62 \<le> length sub\<rparr>) mem) in
           (e, Some (ap_value p), Some (ap_cur p), ap_bad p))
      | _ \<Rightarrow> (CTC_E_INVALID_PTR, val, p_entry_num, False))"

section \<open>The lines of a file\<close>

text \<open>A reference for the loop: the file cut at its line ends, without comments and blank lines, trimmed.\<close>

fun file_lines :: "char list \<Rightarrow> char list list" where
  "file_lines [] = []"
| "file_lines (c # cs) =
     (if c = LF then [c] # file_lines cs else case file_lines cs of [] \<Rightarrow> [[c]] | l # ls \<Rightarrow> (c # l) # ls)"

definition blank :: "char \<Rightarrow> bool" where
  "blank c \<longleftrightarrow> WHITE_SPACE c \<or> c = CR \<or> c = LF"

definition trim :: "string \<Rightarrow> string" where
  "trim l = rev (dropWhile blank (rev (dropWhile WHITE_SPACE l)))"

definition clean_line :: "char list \<Rightarrow> string option" where
  "clean_line l =
     (if starts ''#'' l \<and> \<not> starts ''#{'' l \<and> \<not> starts ''#}'' l \<or> EMPTY_LINE (hd l) then None
      else if trim l = [] \<or> EMPTY_LINE (hd (trim l)) then None else Some (trim l))"

definition cfg_lines :: "char list \<Rightarrow> string list" where
  "cfg_lines mem = List.map_filter clean_line (file_lines mem)"

fun run_lines ::
    "(string \<Rightarrow> ctc_app_parse \<Rightarrow> parse_ret \<times> ctc_app_parse) \<Rightarrow> string list \<Rightarrow> parse_ret \<Rightarrow> ctc_app_parse \<Rightarrow>
     parse_ret \<times> ctc_app_parse" where
  "run_lines func [] ret p = (ret, p)"
| "run_lines func (l # ls) ret p =
     (let q = func l p in if fst q \<noteq> CTC_APP_PARSE_RET_CONTINUE then q else run_lines func ls (fst q) (snd q))"

text \<open>Lines that fit the array, and no zero byte.\<close>

definition well_formed :: "char list \<Rightarrow> bool" where
  "well_formed mem \<longleftrightarrow> NUL \<notin> set mem \<and> (\<forall>l \<in> set (file_lines mem). length l \<le> 63)"

lemma file_lines_Nil [simp]: "file_lines mem = [] \<longleftrightarrow> mem = []"
  by (cases mem) (auto split: list.splits)

lemma file_lines_nonempty: "l \<in> set (file_lines mem) \<Longrightarrow> l \<noteq> []"
  by (induction mem arbitrary: l) (auto split: if_splits list.splits)

lemma file_lines_chars: "l \<in> set (file_lines mem) \<Longrightarrow> set l \<subseteq> set mem"
proof (induction mem arbitrary: l)
  case (Cons c cs)
  then show ?case by (fastforce split: if_splits list.splits)
qed simp

lemma fgets_line:
  assumes "file_lines (drop pos mem) = l # ls" and "length l \<le> n"
  shows "app_parse_file_fgets n mem pos = (l, pos + length l) \<and> file_lines (drop (pos + length l) mem) = ls \<and>
    pos + length l \<le> length mem"
  using assms
proof (induction n arbitrary: pos l)
  case 0
  then show ?case using file_lines_nonempty [of l "drop pos mem"] by simp
next
  case (Suc n)
  have p: "pos < length mem" using Suc.prems(1) by (cases "pos < length mem") simp_all
  then have d: "drop pos mem = mem ! pos # drop (Suc pos) mem" by (simp add: Cons_nth_drop_Suc)
  show ?case
  proof (cases "mem ! pos = LF")
    case True
    then show ?thesis using Suc.prems(1) d p by auto
  next
    case False
    show ?thesis
    proof (cases "file_lines (drop (Suc pos) mem)")
      case Nil
      then have "length mem = Suc pos" "l = [mem ! pos]" "ls = []" using Suc.prems(1) d p False by auto
      moreover have "app_parse_file_fgets n mem (length mem) = ([], length mem)" by (cases n) auto
      ultimately show ?thesis using False by simp
    next
      case (Cons l' ls')
      then have l: "l = mem ! pos # l'" "ls = ls'" using Suc.prems(1) d False by auto
      then show ?thesis using Suc.IH [of "Suc pos" l'] Cons Suc.prems(2) False p by auto
    qed
  qed
qed

section \<open>One piece\<close>

lemma trim_right_eq:
  "n \<le> length i \<Longrightarrow> trim_right n (i @ r) = length (dropWhile blank (rev (take n i)))"
  by (induction n) (auto simp: take_Suc_conv_app_nth nth_append blank_def)

lemma dropWhile_rev_take: "rev (dropWhile P (rev i)) = take (length (dropWhile P (rev i))) i"
proof -
  have "rev i = takeWhile P (rev i) @ dropWhile P (rev i)" by simp
  then have "i = rev (dropWhile P (rev i)) @ rev (takeWhile P (rev i))" by (metis rev_append rev_rev_ident)
  then show ?thesis by (metis append_eq_conv_conj length_rev)
qed

lemma c_string_array: "NUL \<notin> set l \<Longrightarrow> length l \<le> 63 \<Longrightarrow> c_string (line_array l) = Some l"
  by (auto simp: c_string_def line_array_def takeWhile_append)

lemma atrim_trim:
  assumes "NUL \<notin> set l" and "length l \<le> 63"
  shows "\<exists>b. app_string_atrim (replicate 64 NUL) l = Some b \<and> takeWhile (\<lambda>c. c \<noteq> NUL) b = trim l \<and>
    b ! 0 = (if trim l = [] then NUL else hd (trim l))"
proof -
  define i where "i = dropWhile WHITE_SPACE l"
  define r where "r = NUL # drop (Suc (length i)) (replicate 64 NUL)"
  define n where "n = length (dropWhile blank (rev i))"
  have len: "length i \<le> length l" unfolding i_def by (rule length_dropWhile_le)
  have n: "n \<le> length i" unfolding n_def using length_dropWhile_le [of blank "rev i"] by simp
  have tr: "trim_right (length i) (i @ r) = n" using trim_right_eq [of "length i" i r] by (simp add: n_def)
  have tl: "trim l = take n i" unfolding trim_def n_def i_def [symmetric] by (rule dropWhile_rev_take)
  define b where "b = (i @ r)[n := NUL]"
  have at: "app_string_atrim (replicate 64 NUL) l = Some b"
    using len assms(2) tr by (simp add: app_string_atrim_def i_def [symmetric] r_def b_def Let_def)
  have up: "b = take n (i @ r) @ NUL # drop (Suc n) (i @ r)"
    unfolding b_def by (rule upd_conv_take_nth_drop) (use n in \<open>simp add: r_def\<close>)
  have "NUL \<notin> set i" using assms(1) unfolding i_def by (metis set_dropWhileD)
  then have nn: "NUL \<notin> set (take n i)" by (meson in_set_takeD)
  have b: "b = take n i @ NUL # drop (Suc n) (i @ r)" unfolding up using n by simp
  have "takeWhile (\<lambda>c. c \<noteq> NUL) b = take n i" unfolding b using nn by (auto simp: takeWhile_append)
  moreover have "b ! 0 = (if take n i = [] then NUL else hd (take n i))"
    unfolding b by (cases "take n i") auto
  ultimately show ?thesis using at tl by auto
qed

lemma piece_line:
  assumes "l \<noteq> []" and "NUL \<notin> set l" and "length l \<le> 63"
  shows "read_piece (line_array l) = (case clean_line l of None \<Rightarrow> Skip | Some t \<Rightarrow> Line t)"
proof -
  obtain c l' where l: "l = c # l'" using assms(1) by (cases l) auto
  have z: "line_array l ! 0 = c" by (simp add: line_array_def l)
  have o: "line_array l ! 1 = d \<longleftrightarrow> starts [d] l'" if "d \<noteq> NUL" for d
  proof (cases l')
    case Nil
    then have "line_array l = c # replicate 63 NUL" by (simp add: line_array_def l)
    then have "line_array l ! 1 = NUL" by simp
    then show ?thesis using that Nil by (simp add: starts_def)
  qed (auto simp: line_array_def l starts_def)
  obtain b where b: "app_string_atrim (replicate 64 NUL) l = Some b" "takeWhile (\<lambda>c. c \<noteq> NUL) b = trim l"
      "b ! 0 = (if trim l = [] then NUL else hd (trim l))"
    using atrim_trim [OF assms(2,3)] by blast
  have cm: "starts ''#'' l \<and> \<not> starts ''#{'' l \<and> \<not> starts ''#}'' l \<longleftrightarrow>
      line_array l ! 0 = CHR ''#'' \<and> line_array l ! 1 \<noteq> CHR ''{'' \<and> line_array l ! 1 \<noteq> CHR ''}''"
    using o [of "CHR ''{''"] o [of "CHR ''}''"] z by (auto simp: starts_def l)
  have hd: "hd l = line_array l ! 0" using z by (simp add: l)
  have e: "EMPTY_LINE (b ! 0) \<longleftrightarrow> trim l = [] \<or> EMPTY_LINE (hd (trim l))" using b(3) by (simp add: EMPTY_LINE_def)
  show ?thesis
    unfolding read_piece_def clean_line_def cm hd c_string_array [OF assms(2,3)] option.case b(1) b(2) e
    by (simp split: option.split)
qed

lemma parse_loop_lines:
  "pos \<le> length mem \<Longrightarrow> well_formed (drop pos mem) \<Longrightarrow>
     parse_loop func mem pos ret p = run_lines func (cfg_lines (drop pos mem)) ret p"
proof (induction "file_lines (drop pos mem)" arbitrary: pos ret p)
  case Nil
  then have "length mem \<le> pos" by (metis drop_eq_Nil file_lines_Nil)
  then show ?case using Nil by (subst parse_loop.simps) (simp add: cfg_lines_def List.map_filter_simps)
next
  case (Cons l ls)
  have fl: "file_lines (drop pos mem) = l # ls" using Cons.hyps(2) by simp
  have l: "length l \<le> 63" "l \<noteq> []" "NUL \<notin> set l"
    using Cons.prems(2) fl file_lines_nonempty [of l "drop pos mem"] file_lines_chars [of l "drop pos mem"]
    by (auto simp: well_formed_def)
  have g: "app_parse_file_fgets 64 mem pos = (l, pos + length l)" "file_lines (drop (pos + length l) mem) = ls"
      "pos + length l \<le> length mem"
    using fgets_line [OF fl, of 64] l by auto
  have lt: "\<not> length mem \<le> pos" using fl by auto
  have "set (drop (pos + length l) mem) \<subseteq> set (drop pos mem)" by (rule set_drop_subset_set_drop) simp
  then have wf: "well_formed (drop (pos + length l) mem)" using Cons.prems(2) fl g(2) by (auto simp: well_formed_def)
  note IH = Cons.hyps(1) [OF g(2) [symmetric] g(3) wf]
  have c: "cfg_lines (drop pos mem) = (case clean_line l of None \<Rightarrow> cfg_lines (drop (pos + length l) mem)
      | Some t \<Rightarrow> t # cfg_lines (drop (pos + length l) mem))"
    unfolding cfg_lines_def fl g(2) by (auto simp: List.map_filter_simps split: option.splits)
  show ?case
    unfolding c using IH lt
    by (subst parse_loop.simps) (simp add: g(1) piece_line [OF l(2,3,1)] Let_def split: option.split)
qed

lemma do_parse_lines:
  "well_formed mem \<Longrightarrow> app_do_parse func p mem =
     (let (ret, p) = run_lines func (cfg_lines mem) CTC_APP_PARSE_RET_NOT_FIND p in
      (parse_err (if ap_cur p \<noteq> 0 then CTC_APP_PARSE_RET_FIND else ret), p))"
  using parse_loop_lines [of 0 mem] by (simp add: app_do_parse_def)

section \<open>Numbers\<close>

lemma c_digit_dec: "d < 10 \<Longrightarrow> c_digit 10 (char_of (48 + d)) = Some d"
  by (simp add: c_digit_def of_char_of Let_def)

lemma c_digit_chars:
  assumes "c_digit 10 c \<noteq> None"
  shows "\<not> c_isspace c" "c \<notin> {NUL, LF, CR, TAB, CHR '' '', CHR ''-'', CHR ''+'', CHR ''='', CHR '']'', CHR ''x''}"
  using assms by (auto simp: c_digit_def c_isspace_def)

lemma dec_string_digits: "\<forall>c \<in> set (dec_string n). c_digit 10 c \<noteq> None"
proof (induction n rule: dec_string.induct)
  case (1 n)
  then show ?case by (subst dec_string.simps) (auto simp: c_digit_dec)
qed

lemma dec_string_nonempty [simp]: "dec_string n \<noteq> []"
  by (subst dec_string.simps) simp

lemma c_digits_map: "\<forall>c \<in> set s. c_digit base c \<noteq> None \<Longrightarrow> c_digits base s = map (\<lambda>c. the (c_digit base c)) s"
  by (induction s) auto

lemma dec_string_value: "digits_value 10 (c_digits 10 (dec_string n)) = n"
proof (induction n rule: dec_string.induct)
  case (1 n)
  show ?case
  proof (cases "n < 10")
    case True
    then show ?thesis by (subst dec_string.simps) (simp add: c_digit_dec digits_value_def)
  next
    case False
    have "c_digits 10 (dec_string n) = c_digits 10 (dec_string (n div 10)) @ [n mod 10]"
      using False dec_string_digits [of n] dec_string_digits [of "n div 10"]
      by (simp add: c_digits_map dec_string.simps [of n] c_digit_dec)
    then show ?thesis using 1 False by (simp add: digits_value_def)
  qed
qed

lemma length_dec: "n < 10 ^ Suc k \<Longrightarrow> length (dec_string n) \<le> Suc k"
proof (induction k arbitrary: n)
  case (Suc k)
  show ?case
  proof (cases "n < 10")
    case False
    have "n div 10 < 10 ^ Suc k" using Suc.prems by (simp add: less_mult_imp_div_less)
    then show ?thesis using Suc.IH [of "n div 10"] False by (subst dec_string.simps) simp
  qed (subst dec_string.simps, simp)
qed (subst dec_string.simps, simp)

lemma sscanf_dec: "c_sscanf 10 (dec_string n) = of_nat n"
proof -
  obtain c s where d: "dec_string n = c # s" by (cases "dec_string n") auto
  have "c_digit 10 c \<noteq> None" using dec_string_digits [of n] d by simp
  from c_digit_chars [OF this] have c: "\<not> c_isspace c" "c \<noteq> CHR ''-''" "c \<noteq> CHR ''+''" by auto
  have "dropWhile c_isspace (dec_string n) = dec_string n" "\<not> starts ''-'' (dec_string n)" "\<not> starts ''+'' (dec_string n)"
    using c by (simp_all add: d starts_def)
  then show ?thesis by (simp add: c_sscanf_def dec_string_value)
qed

section \<open>Printed files\<close>

definition print_entry :: "string \<times> nat \<Rightarrow> string" where
  "print_entry e = ''['' @ fst e @ ''] = '' @ dec_string (snd e)"

definition print_cfg :: "(string \<times> nat) list \<Rightarrow> char list" where
  "print_cfg kvs = concat (map (\<lambda>e. print_entry e @ [LF]) kvs)"

text \<open>Names that leave room for the number on the line, and numbers that fit.\<close>

definition cfg_name :: "string \<Rightarrow> bool" where
  "cfg_name k \<longleftrightarrow> length k \<le> 47 \<and> set k \<inter> {NUL, LF, CHR '']'', CHR ''=''} = {}"

definition cfg_entry :: "string \<times> nat \<Rightarrow> bool" where
  "cfg_entry e \<longleftrightarrow> cfg_name (fst e) \<and> snd e < 2 ^ 32"

lemma file_lines_append: "LF \<notin> set l \<Longrightarrow> file_lines (l @ LF # r) = (l @ [LF]) # file_lines r"
  by (induction l) auto

lemma lines_concat: "\<forall>l \<in> set ls. LF \<notin> set l \<Longrightarrow> file_lines (concat (map (\<lambda>l. l @ [LF]) ls)) = map (\<lambda>l. l @ [LF]) ls"
  by (induction ls) (simp_all add: file_lines_append)

lemma entry_chars:
  assumes "cfg_entry e"
  shows "NUL \<notin> set (print_entry e)" "LF \<notin> set (print_entry e)" "length (print_entry e) \<le> 62"
proof -
  have "snd e < 10 ^ Suc 9" using assms by (simp add: cfg_entry_def)
  from length_dec [OF this] show "length (print_entry e) \<le> 62" using assms by (simp add: print_entry_def cfg_entry_def cfg_name_def)
  show "NUL \<notin> set (print_entry e)" "LF \<notin> set (print_entry e)"
    using assms dec_string_digits [of "snd e"] c_digit_chars(2) [of NUL] c_digit_chars(2) [of LF]
    by (auto simp: print_entry_def cfg_entry_def cfg_name_def)
qed

lemma print_wf: "\<forall>e \<in> set kvs. cfg_entry e \<Longrightarrow> well_formed (print_cfg kvs)"
  "\<forall>e \<in> set kvs. cfg_entry e \<Longrightarrow> file_lines (print_cfg kvs) = map (\<lambda>e. print_entry e @ [LF]) kvs"
proof -
  assume e: "\<forall>e \<in> set kvs. cfg_entry e"
  show fl: "file_lines (print_cfg kvs) = map (\<lambda>e. print_entry e @ [LF]) kvs"
    using lines_concat [of "map print_entry kvs"] e by (simp add: print_cfg_def o_def entry_chars)
  show "well_formed (print_cfg kvs)"
    using e entry_chars(1,3) unfolding well_formed_def fl by (auto simp: print_cfg_def)
qed

lemma trim_entry: "trim (print_entry e @ [LF]) = print_entry e"
proof -
  define d where "d = last (dec_string (snd e))"
  have d: "dec_string (snd e) = butlast (dec_string (snd e)) @ [d]" by (simp add: d_def)
  have "d \<in> set (dec_string (snd e))" by (simp add: d_def)
  then have "c_digit 10 d \<noteq> None" using dec_string_digits by blast
  then have "\<not> blank d" using c_digit_chars(2) [of d] by (auto simp: blank_def WHITE_SPACE_def)
  moreover have "rev (print_entry e) = d # rev (''['' @ fst e @ ''] = '' @ butlast (dec_string (snd e)))"
    unfolding print_entry_def by (subst d) simp
  moreover have "dropWhile WHITE_SPACE (print_entry e @ [LF]) = print_entry e @ [LF]" by (simp add: print_entry_def WHITE_SPACE_def)
  moreover have "blank LF" by (simp add: blank_def)
  ultimately have "trim (print_entry e @ [LF]) = rev (rev (print_entry e))" by (simp add: trim_def)
  then show ?thesis by simp
qed

lemma clean_entry: "clean_line (print_entry e @ [LF]) = Some (print_entry e)"
  by (simp add: clean_line_def trim_entry) (simp add: print_entry_def starts_def EMPTY_LINE_def)

lemma cfg_lines_print: "\<forall>e \<in> set kvs. cfg_entry e \<Longrightarrow> cfg_lines (print_cfg kvs) = map print_entry kvs"
  unfolding cfg_lines_def print_wf(2) by (induction kvs) (simp_all add: List.map_filter_simps clean_entry)

lemma entry_value: "cfg_entry e \<Longrightarrow> app_get_interage (print_entry e) = Some (of_nat (snd e))"
proof -
  assume e: "cfg_entry e"
  then have "CHR ''='' \<notin> set (''['' @ fst e @ ''] '')" by (simp add: cfg_entry_def cfg_name_def)
  then have "dropWhile (\<lambda>c. c \<noteq> CHR ''='') ((''['' @ fst e @ ''] '') @ ''= '' @ dec_string (snd e)) = ''= '' @ dec_string (snd e)"
    by (subst dropWhile_append2) (auto simp: in_set_conv_decomp)
  moreover have "dropWhile c_isspace ('' '' @ dec_string (snd e)) = dec_string (snd e)"
    using dec_string_digits [of "snd e"] c_digit_chars(1) by (cases "dec_string (snd e)") (auto simp: c_isspace_def)
  moreover have "\<not> starts ''0x'' (dec_string (snd e))"
    using dec_string_digits [of "snd e"] c_digit_chars(2) [of "CHR ''x''"]
    by (cases "dec_string (snd e)"; cases "tl (dec_string (snd e))") (auto simp: starts_def)
  ultimately show ?thesis by (simp add: app_get_interage_def print_entry_def Let_def sscanf_dec)
qed

lemma entry_found:
  assumes "cfg_name k" "cfg_name (fst e)"
  shows "starts (bracketed k) (print_entry e) \<longleftrightarrow> fst e = k"
proof
  define r where "r = drop (length (bracketed k)) (print_entry e)"
  assume "starts (bracketed k) (print_entry e)"
  then have "print_entry e = (bracketed k) @ r" unfolding r_def starts_def by (metis append_take_drop_id)
  then have eq: "fst e @ CHR '']'' # '' = '' @ dec_string (snd e) = k @ CHR '']'' # r" by (simp add: print_entry_def bracketed_def)
  have tw: "takeWhile (\<lambda>c. c \<noteq> CHR '']'') (x @ CHR '']'' # y) = x" if "CHR '']'' \<notin> set x" for x y :: string
    using that by (subst takeWhile_append2) auto
  have n: "CHR '']'' \<notin> set k" "CHR '']'' \<notin> set (fst e)" using assms by (auto simp: cfg_name_def)
  show "fst e = k" using arg_cong [OF eq, of "takeWhile (\<lambda>c. c \<noteq> CHR '']'')"] unfolding tw [OF n(1)] tw [OF n(2)] .
qed (simp add: starts_def print_entry_def bracketed_def)

section \<open>What the three kinds of lookup do\<close>

lemma run_global:
  assumes "flag_isset (ap_flag p) CTC_APP_PARSE_FLAG_GLOBAL"
  shows "run_lines app_do_cfg_file ls ret p =
    (case find (starts (ap_field p)) ls of
       None \<Rightarrow> (if ls = [] then ret else CTC_APP_PARSE_RET_CONTINUE, p)
     | Some l \<Rightarrow> (CTC_APP_PARSE_RET_FIND, (store_u32 0 (app_get_interage l) p)\<lparr>ap_cur := ap_cur (store_u32 0 (app_get_interage l) p) + 1\<rparr>))"
  using assms by (induction ls arbitrary: ret) (auto simp: app_do_cfg_file_def Let_def split: option.splits)

lemma store_u32_first:
  assumes "ap_value p = U32s vs" "vs \<noteq> []"
  shows "store_u32 0 v p = p\<lparr>ap_value := U32s (case v of None \<Rightarrow> vs | Some x \<Rightarrow> vs[0 := x])\<rparr>"
  using assms by (auto simp: store_u32_def split: option.splits)

lemma parse_global:
  assumes "well_formed mem" and "length field < 62" and "vs \<noteq> []"
  shows "ctc_app_parse_file (Some mem) (Some field) None (Some (U32s vs)) (Some n) =
    (case find (starts (bracketed field)) (cfg_lines mem) of
       None \<Rightarrow> (CTC_E_NOT_EXIST, Some (U32s vs), Some 0, False)
     | Some l \<Rightarrow> (CTC_E_NONE, Some (U32s (case app_get_interage l of None \<Rightarrow> vs | Some v \<Rightarrow> vs[0 := v])), Some 1, False))"
  using assms
  by (simp add: ctc_app_parse_file_def do_parse_lines run_global flag_isset_def store_u32_first parse_err_def Let_def not_le
      split: option.splits)

lemma parse_print:
  assumes "\<forall>e \<in> set kvs. cfg_entry e" and "cfg_name k"
  shows "ctc_app_parse_file (Some (print_cfg kvs)) (Some k) None (Some (U32s (v # vs))) (Some n) =
    (case map_of kvs k of
       None \<Rightarrow> (CTC_E_NOT_EXIST, Some (U32s (v # vs)), Some 0, False)
     | Some x \<Rightarrow> (CTC_E_NONE, Some (U32s (of_nat x # vs)), Some 1, False))"
proof -
  have len: "length k < 62" using assms(2) by (simp add: cfg_name_def)
  have f: "find (starts (bracketed k)) (map print_entry kvs) = map_option (\<lambda>x. print_entry (k, x)) (map_of kvs k)"
    using assms by (induction kvs) (auto simp: entry_found cfg_entry_def)
  have val: "app_get_interage (print_entry (k, x)) = Some (of_nat x)" if "map_of kvs k = Some x" for x
    using entry_value [of "(k, x)"] assms(1) map_of_SomeD [OF that] by auto
  show ?thesis
    using parse_global [OF print_wf(1) [OF assms(1)] len, of "v # vs" n] val
    by (simp add: cfg_lines_print [OF assms(1)] f split: option.splits)
qed

text \<open>
  A reference for the lookup in a table: the lines between the brackets of the first table that is
  headed by the name, and what the lines of the entries leave in the caller's array. An entry
  without an equals sign leaves its element as it is.
\<close>

definition inner :: "string \<Rightarrow> bool" where
  "inner l \<longleftrightarrow> \<not> starts ''#}'' l"

function table_lines :: "string \<Rightarrow> string list \<Rightarrow> string list" where
  "table_lines f [] = []"
| "table_lines f (l # ls) =
     (if starts ''#{'' l then
        (case ls of
           [] \<Rightarrow> []
         | h # rs \<Rightarrow> if starts f h then takeWhile inner rs else table_lines f (tl (dropWhile inner rs)))
      else table_lines f ls)"
  by pat_completeness auto

termination
proof (relation "measure (length \<circ> snd)")
  fix f l ls h and rs :: "string list"
  assume "ls = h # rs"
  then show "((f, tl (dropWhile inner rs)), f, l # ls) \<in> measure (length \<circ> snd)"
    using length_dropWhile_le [of inner rs] by simp
qed simp_all

definition table_entries :: "string \<Rightarrow> string \<Rightarrow> char list \<Rightarrow> string list" where
  "table_entries field sub mem = filter (starts (bracketed sub)) (table_lines (bracketed field) (cfg_lines mem))"

definition table_fill :: "string list \<Rightarrow> u32 list \<Rightarrow> u32 list" where
  "table_fill es vs = map2 (\<lambda>l v. out_or v (app_get_interage l)) es vs @ drop (length es) vs"

lemma table_fill_simps [simp]:
  "table_fill [] vs = vs" "table_fill (e # es) (v # vs) = out_or v (app_get_interage e) # table_fill es vs"
  by (simp_all add: table_fill_def)

lemma run_lines_ret: "snd (run_lines func ls ret p) = snd (run_lines func ls ret' p)"
  by (cases ls) (simp_all add: Let_def)

text \<open>Inside the table: \<open>us\<close> is the filled part of the array.\<close>

lemma table_body:
  assumes "unat n \<le> length us + length vs" and "length us \<le> unat n"
  shows "\<exists>F. snd (run_lines app_do_table_cfg_file ls ret
      \<lparr>ap_field = f, ap_field_sub = g, ap_value = U32s (us @ vs), ap_cur = of_nat (length us), ap_max = n, ap_flag = 2, ap_bad = False\<rparr>) =
    (let es = take (unat n - length us) (filter (starts g) (takeWhile inner ls)) in
     \<lparr>ap_field = f, ap_field_sub = g, ap_value = U32s (us @ table_fill es vs), ap_cur = of_nat (length us + length es), ap_max = n,
      ap_flag = F, ap_bad = False\<rparr>)"
  using assms
proof (induction ls arbitrary: us vs ret)
  case (Cons l ls)
  let ?p = "\<lparr>ap_field = f, ap_field_sub = g, ap_value = U32s (us @ vs), ap_cur = of_nat (length us), ap_max = n, ap_flag = 2, ap_bad = False\<rparr>"
  have n: "unat n < 2 ^ LENGTH(8)" by (rule unsigned_less)
  then have u: "unat (of_nat (length us) :: u8) = length us" using Cons.prems(2) by (simp add: unat_of_nat take_bit_nat_eq_self)
  note d = app_do_table_cfg_file_def flag_isset_def set_flag_def unset_flag_def Let_def word_le_nat_alt u
  consider (close) "\<not> inner l" | (other) "inner l" "\<not> starts g l" | (full) "inner l" "starts g l" "unat n \<le> length us"
    | (entry) "inner l" "starts g l" "length us < unat n"
    by fastforce
  then show ?case
  proof cases
    case close
    then show ?thesis by (simp add: d inner_def)
  next
    case other
    then show ?thesis using Cons.IH [OF Cons.prems, of "CTC_APP_PARSE_RET_CONTINUE"] by (simp add: d inner_def)
  next
    case full
    then show ?thesis by (simp add: d inner_def)
  next
    case entry
    then obtain v ws where vs: "vs = v # ws" using Cons.prems(1) by (cases vs) auto
    have q: "app_do_table_cfg_file l ?p = (CTC_APP_PARSE_RET_CONTINUE,
        ?p\<lparr>ap_value := U32s ((us @ [out_or v (app_get_interage l)]) @ ws), ap_cur := of_nat (length (us @ [out_or v (app_get_interage l)]))\<rparr>)"
      using entry vs by (cases "app_get_interage l") (simp_all add: d inner_def store_u32_def)
    show ?thesis
      using Cons.IH [of "us @ [out_or v (app_get_interage l)]" ws CTC_APP_PARSE_RET_CONTINUE] Cons.prems entry vs q
      by (auto simp: Let_def take_Cons' Suc_diff_Suc)
  qed
qed simp

lemma table_leave:
  "snd (run_lines app_do_table_cfg_file ls ret (p\<lparr>ap_flag := 8\<rparr>)) =
   (if dropWhile inner ls = [] then p\<lparr>ap_flag := 8\<rparr>
    else snd (run_lines app_do_table_cfg_file (tl (dropWhile inner ls)) ret (p\<lparr>ap_flag := 1\<rparr>)))"
proof (induction ls arbitrary: ret)
  case (Cons l ls)
  have "app_do_table_cfg_file l (p\<lparr>ap_flag := 8\<rparr>) = (CTC_APP_PARSE_RET_CONTINUE, p\<lparr>ap_flag := if inner l then 8 else 1\<rparr>)"
    by (simp add: app_do_table_cfg_file_def flag_isset_def set_flag_def unset_flag_def inner_def)
  then show ?case
    using Cons.IH run_lines_ret [of app_do_table_cfg_file _ CTC_APP_PARSE_RET_CONTINUE "p\<lparr>ap_flag := 1\<rparr>" ret]
    by (simp add: Let_def)
qed simp

lemma table_run:
  assumes "unat n \<le> length vs"
  shows "\<exists>F. snd (run_lines app_do_table_cfg_file ls ret
      \<lparr>ap_field = f, ap_field_sub = g, ap_value = U32s vs, ap_cur = 0, ap_max = n, ap_flag = 1, ap_bad = False\<rparr>) =
    (let es = take (unat n) (filter (starts g) (table_lines f ls)) in
     \<lparr>ap_field = f, ap_field_sub = g, ap_value = U32s (table_fill es vs), ap_cur = of_nat (length es), ap_max = n, ap_flag = F, ap_bad = False\<rparr>)"
proof (induction f ls arbitrary: ret rule: table_lines.induct)
  case (2 f l ls)
  let ?p = "\<lparr>ap_field = f, ap_field_sub = g, ap_value = U32s vs, ap_cur = 0, ap_max = n, ap_flag = 1, ap_bad = False\<rparr>"
  let ?q = "\<lambda>F. \<lparr>ap_field = f, ap_field_sub = g, ap_value = U32s vs, ap_cur = 0, ap_max = n, ap_flag = F, ap_bad = False\<rparr>"
  note d = app_do_table_cfg_file_def flag_isset_def set_flag_def unset_flag_def
  have global: "app_do_table_cfg_file l ?p = (CTC_APP_PARSE_RET_CONTINUE, if starts ''#{'' l then ?q 4 else ?p)" by (simp add: d)
  have enter: "app_do_table_cfg_file h (?q 4) = (CTC_APP_PARSE_RET_CONTINUE, if starts f h then ?q 2 else ?q 8)" for h by (simp add: d)
  show ?case
  proof (cases "starts ''#{'' l")
    case False
    then show ?thesis using 2(2) by (simp add: global)
  next
    case begin_table: True
    show ?thesis
    proof (cases ls)
      case Nil
      then show ?thesis using begin_table by (simp add: global)
    next
      case ls: (Cons h rs)
      show ?thesis
      proof (cases "starts f h")
        case True
        then show ?thesis
          using begin_table ls table_body [of n "[]" vs rs CTC_APP_PARSE_RET_CONTINUE f g] assms by (simp add: global enter Let_def)
      next
        case False
        show ?thesis
        proof (cases "dropWhile inner rs = []")
          case True
          have e: "table_lines f (tl (dropWhile inner rs)) = []" unfolding True by simp
          have "table_lines f (l # ls) = []" using begin_table ls False by (simp add: e)
          moreover have "snd (run_lines app_do_table_cfg_file (l # ls) ret ?p) = ?q 8"
            using True begin_table ls False table_leave [of rs CTC_APP_PARSE_RET_CONTINUE ?p] by (simp add: global enter Let_def)
          ultimately show ?thesis by (simp only: Let_def) simp
        next
          case more: False
          have "snd (run_lines app_do_table_cfg_file (l # ls) ret ?p) =
              snd (run_lines app_do_table_cfg_file rs CTC_APP_PARSE_RET_CONTINUE (?p\<lparr>ap_flag := 8\<rparr>))"
            using begin_table ls False by (simp add: global enter Let_def)
          also have "\<dots> = snd (run_lines app_do_table_cfg_file (tl (dropWhile inner rs)) CTC_APP_PARSE_RET_CONTINUE ?p)"
            unfolding table_leave if_not_P [OF more] by simp
          finally have run: "snd (run_lines app_do_table_cfg_file (l # ls) ret ?p) =
            snd (run_lines app_do_table_cfg_file (tl (dropWhile inner rs)) CTC_APP_PARSE_RET_CONTINUE ?p)" .
          have "table_lines f (l # ls) = table_lines f (tl (dropWhile inner rs))" using begin_table ls False by simp
          then show ?thesis using 2(1) [OF begin_table ls False, of CTC_APP_PARSE_RET_CONTINUE] unfolding run by simp
        qed
      qed
    qed
  qed
qed simp

section \<open>Long lines\<close>

lemma fgets_shift:
  "app_parse_file_fgets n (pre @ mem) (length pre + pos) =
     (fst (app_parse_file_fgets n mem pos), length pre + snd (app_parse_file_fgets n mem pos))"
proof (induction n arbitrary: pos)
  case (Suc n)
  show ?case using Suc.IH [of "pos + 1"] by (auto simp: case_prod_beta nth_append)
qed simp

lemma parse_loop_shift: "parse_loop func (pre @ mem) (length pre + pos) ret p = parse_loop func mem pos ret p"
proof (induction func mem pos ret p rule: parse_loop.induct)
  case (1 func mem pos ret p)
  show ?case
    by (subst (1 2) parse_loop.simps) (use 1 in \<open>auto simp: fgets_shift Let_def split: piece.split\<close>)
qed

lemma fgets_full:
  assumes "LF \<notin> set s"
  shows "app_parse_file_fgets (length s) (s @ r) 0 = (s, length s)"
proof -
  have "app_parse_file_fgets (length s) (pre @ s @ r) (length pre) = (s, length pre + length s)" for pre
    using assms
  proof (induction s arbitrary: pre)
    case (Cons c s)
    then show ?case using Cons.IH [of "pre @ [c]"] by (auto simp: nth_append)
  qed simp
  from this [of "[]"] show ?thesis by simp
qed

lemma first_piece:
  assumes "length s = 64" and "LF \<notin> set s"
  shows "app_parse_file_fgets 64 (s @ r) 0 = (s, 64)" "line_array s = s"
  using fgets_full [OF assms(2), of r] assms(1) by (simp_all add: line_array_def)

section \<open>Theorems\<close>

text \<open>
  Property C31: a lookup of a name is a search of the lines. For a file whose lines fit the array and
  that has no zero byte, the loop over pieces of 64 bytes finds the first line that begins with the
  name in brackets among the lines of the file, cut at the line ends, without comments and blank
  lines and trimmed. It stores the number behind the equals sign, or reports that the name does not
  exist and stores nothing; no array is left.
\<close>

theorem cfg_lookup_first:
  assumes "well_formed mem" and "length field < 62" and "vs \<noteq> []"
  shows "ctc_app_parse_file (Some mem) (Some field) None (Some (U32s vs)) (Some n) =
    (case find (starts (bracketed field)) (cfg_lines mem) of
       None \<Rightarrow> (CTC_E_NOT_EXIST, Some (U32s vs), Some 0, False)
     | Some l \<Rightarrow> (CTC_E_NONE, Some (U32s (case app_get_interage l of None \<Rightarrow> vs | Some v \<Rightarrow> vs[0 := v])), Some 1, False))"
  by (rule parse_global [OF assms])

theorem cfg_lookup_first_witness:
  "ctc_app_parse_file (Some (''# x'' @ [LF] @ ''  [ab] = 0x1F '' @ [LF] @ ''[ab] = 7'')) (Some ''ab'') None (Some (U32s [5])) (Some 1) =
     (CTC_E_NONE, Some (U32s [31]), Some 1, False)"
proof -
  let ?m = "''# x'' @ [LF] @ ''  [ab] = 0x1F '' @ [LF] @ ''[ab] = 7''"
  have w: "well_formed ?m" and l: "length ''ab'' < 62" and v: "[5 :: u32] \<noteq> []"
    and f: "find (starts (bracketed ''ab'')) (cfg_lines ?m) = Some ''[ab] = 0x1F''" "app_get_interage ''[ab] = 0x1F'' = Some 31"
    by code_simp+
  show ?thesis using cfg_lookup_first [OF w l v, of 1] unfolding f(1) option.case f(2) by simp
qed

text \<open>
  Property C32: what is printed is read back. A file of lines \<^verbatim>\<open>[name] = number\<close>, the names short and
  without brackets and equals signs, answers the lookup of every name with the number of its first
  line, and the lookup of any other name with \<^verbatim>\<open>CTC_E_NOT_EXIST\<close>.
\<close>

theorem cfg_print_parse:
  assumes "\<forall>e \<in> set kvs. cfg_entry e" and "cfg_name k"
  shows "ctc_app_parse_file (Some (print_cfg kvs)) (Some k) None (Some (U32s (v # vs))) (Some n) =
    (case map_of kvs k of
       None \<Rightarrow> (CTC_E_NOT_EXIST, Some (U32s (v # vs)), Some 0, False)
     | Some x \<Rightarrow> (CTC_E_NONE, Some (U32s (of_nat x # vs)), Some 1, False))"
  by (rule parse_print [OF assms])

theorem cfg_print_parse_witness:
  "ctc_app_parse_file (Some (print_cfg [(''a'', 3), (''Local chip_num'', 2)])) (Some ''Local chip_num'') None (Some (U32s [0])) (Some 1) =
     (CTC_E_NONE, Some (U32s [2]), Some 1, False)"
proof -
  have "\<forall>e \<in> set [(''a'', 3), (''Local chip_num'', 2)]. cfg_entry e" "cfg_name ''Local chip_num''"
    by (simp_all add: cfg_entry_def cfg_name_def)
  from cfg_print_parse [OF this, of 0 "[]" 1] show ?thesis by simp
qed

text \<open>
  Property C33: what a table lookup stores and reports. For a file with lines that fit, the entries of
  the first table headed by the name are stored in order from the first element of the caller's array
  on, at most the announced number of them; the reported number is the number of these entries, the
  ones without an equals sign, which store nothing, included. The other elements stay as they are and
  no array is left.
\<close>

theorem cfg_table_in_bounds:
  assumes "well_formed mem" and "length field < 62" and "length sub < 62" and "\<not> starts sub LETTER_NUMBER_MIX"
    and "unat n \<le> length vs"
  shows "\<exists>e. ctc_app_parse_file (Some mem) (Some field) (Some sub) (Some (U32s vs)) (Some n) =
      (e, Some (U32s (table_fill (take (unat n) (table_entries field sub mem)) vs)),
       Some (of_nat (min (unat n) (length (table_entries field sub mem)))), False) \<and>
    (n \<noteq> 0 \<and> table_entries field sub mem \<noteq> [] \<longrightarrow> e = CTC_E_NONE)"
proof -
  let ?p = "\<lparr>ap_field = bracketed field, ap_field_sub = bracketed sub, ap_value = U32s vs, ap_cur = 0, ap_max = n,
    ap_flag = CTC_APP_PARSE_FLAG_GLOBAL, ap_bad = False\<rparr>"
  let ?es = "take (unat n) (table_entries field sub mem)"
  obtain ret q where r: "run_lines app_do_table_cfg_file (cfg_lines mem) CTC_APP_PARSE_RET_NOT_FIND ?p = (ret, q)"
    by (rule prod.exhaust)
  have q: "ap_value q = U32s (table_fill ?es vs)" "ap_cur q = of_nat (length ?es)" "\<not> ap_bad q"
    using table_run [OF assms(5), of "cfg_lines mem" CTC_APP_PARSE_RET_NOT_FIND "bracketed field" "bracketed sub"]
    by (auto simp: r table_entries_def Let_def)
  have "unat n < 2 ^ LENGTH(8)" by (rule unsigned_less)
  then have "length ?es < 256" by simp
  then have "unat (ap_cur q) = length ?es" unfolding q(2) by (simp only: unat_of_nat take_bit_nat_eq_self_iff) simp
  then have c: "ap_cur q \<noteq> 0" if "n \<noteq> 0" "table_entries field sub mem \<noteq> []" using that by (auto simp: unat_eq_0 min_def split: if_splits)
  have "length ?es = min (unat n) (length (table_entries field sub mem))" by (simp add: min.commute)
  moreover have "ctc_app_parse_file (Some mem) (Some field) (Some sub) (Some (U32s vs)) (Some n) =
      (parse_err (if ap_cur q \<noteq> 0 then CTC_APP_PARSE_RET_FIND else ret), Some (ap_value q), Some (ap_cur q), ap_bad q)"
    using assms(1-4) by (simp add: ctc_app_parse_file_def do_parse_lines r not_le)
  ultimately show ?thesis using c q by (simp only: simp_thms) (simp add: parse_err_def)
qed

theorem cfg_table_in_bounds_witness:
  "ctc_app_parse_file (Some (''#{'' @ [LF] @ ''[t]'' @ [LF] @ ''[x] = 4'' @ [LF] @ ''[x]'' @ [LF] @ ''[x] = 6'' @ [LF] @ ''#}''))
     (Some ''t'') (Some ''x'') (Some (U32s [0, 3, 9])) (Some 2) = (CTC_E_NONE, Some (U32s [4, 3, 9]), Some 2, False)"
proof -
  let ?m = "''#{'' @ [LF] @ ''[t]'' @ [LF] @ ''[x] = 4'' @ [LF] @ ''[x]'' @ [LF] @ ''[x] = 6'' @ [LF] @ ''#}''"
  have h: "well_formed ?m" "length ''t'' < 62" "length ''x'' < 62" "\<not> starts ''x'' LETTER_NUMBER_MIX"
      "unat (2 :: u8) \<le> length [0, 3, 9 :: u32]"
    and t: "table_entries ''t'' ''x'' ?m = [''[x] = 4'', ''[x]'', ''[x] = 6'']"
      "table_fill [''[x] = 4'', ''[x]''] [0, 3, 9] = [4, 3, 9]"
    by code_simp+
  have "unat (2 :: u8) = 2" by simp
  then have "take (unat (2 :: u8)) [''[x] = 4'', ''[x]'', ''[x] = 6''] = [''[x] = 4'', ''[x]'']"
      "of_nat (min (unat (2 :: u8)) (length [''[x] = 4'', ''[x]'', ''[x] = 6''])) = (2 :: u8)"
    by (simp_all only: take_Suc_Cons numeral_2_eq_2 take_0) simp
  then show ?thesis using cfg_table_in_bounds [OF h] unfolding t(1) by (simp only: t(2)) simp
qed

text \<open>
  Lines of 64 bytes or more. The first 64 bytes of a long comment are skipped, and the
  rest of the comment is parsed as if it were a line of its own. A long line that is no comment
  fills the array without a zero byte, and the string functions read on behind it.
\<close>

theorem cfg_long_lines:
  assumes "length s = 64" and "LF \<notin> set s"
  shows "(s ! 0 = CHR ''#'' \<and> s ! 1 \<noteq> CHR ''{'' \<and> s ! 1 \<noteq> CHR ''}'' \<longrightarrow>
      ctc_app_parse_file (Some (s @ rest)) field sub v n = ctc_app_parse_file (Some rest) field sub v n) \<and>
    (s ! 0 \<noteq> CHR ''#'' \<and> s ! 0 \<noteq> CR \<and> NUL \<notin> set s \<and> field \<noteq> None \<and> v \<noteq> None \<and> n \<noteq> None \<longrightarrow>
      snd (snd (snd (ctc_app_parse_file (Some (s @ rest)) field sub v n))))"
proof -
  note f = first_piece(1) [OF assms, of rest] first_piece(2) [OF assms]
  have skip: "parse_loop func (s @ rest) 0 ret p = parse_loop func rest 0 ret p"
    if "s ! 0 = CHR ''#'' \<and> s ! 1 \<noteq> CHR ''{'' \<and> s ! 1 \<noteq> CHR ''}''" for func ret p
    using that parse_loop_shift [of func s rest 0 ret p] assms(1)
    by (subst parse_loop.simps) (simp add: f read_piece_def)
  have bad: "ap_bad (snd (parse_loop func (s @ rest) 0 ret p))"
    if "s ! 0 \<noteq> CHR ''#'' \<and> s ! 0 \<noteq> CR \<and> NUL \<notin> set s" for func ret p
  proof -
    have "s ! 0 \<in> set s" using assms(1) by simp
    then have "\<not> EMPTY_LINE (s ! 0)" using that assms(2) by (auto simp: EMPTY_LINE_def)
    then show ?thesis using that assms(1) by (subst parse_loop.simps) (auto simp: f read_piece_def c_string_def)
  qed
  have "app_do_parse func p (s @ rest) = app_do_parse func p rest"
    if "s ! 0 = CHR ''#'' \<and> s ! 1 \<noteq> CHR ''{'' \<and> s ! 1 \<noteq> CHR ''}''" for func p
    using skip [OF that] by (simp add: app_do_parse_def)
  moreover have "ap_bad (snd (app_do_parse func p (s @ rest)))"
    if "s ! 0 \<noteq> CHR ''#'' \<and> s ! 0 \<noteq> CR \<and> NUL \<notin> set s" for func p
    using bad [OF that] by (simp add: app_do_parse_def case_prod_beta)
  ultimately show ?thesis
    by (auto simp: ctc_app_parse_file_def Let_def case_prod_beta split: option.splits)
qed

theorem cfg_long_lines_witness:
  "ctc_app_parse_file (Some ((CHR ''#'' # replicate 63 (CHR ''-'')) @ ''[a] = 8'')) (Some ''a'') None (Some (U32s [0])) (Some 1) =
     (CTC_E_NONE, Some (U32s [8]), Some 1, False)"
proof -
  let ?s = "CHR ''#'' # replicate 63 (CHR ''-'')"
  have "length ?s = 64" "LF \<notin> set ?s" by simp_all
  moreover have "?s ! 0 = CHR ''#'' \<and> ?s ! 1 \<noteq> CHR ''{'' \<and> ?s ! 1 \<noteq> CHR ''}''" by simp
  ultimately have "ctc_app_parse_file (Some (?s @ ''[a] = 8'')) (Some ''a'') None (Some (U32s [0])) (Some 1) =
      ctc_app_parse_file (Some ''[a] = 8'') (Some ''a'') None (Some (U32s [0])) (Some 1)"
    using cfg_long_lines [of ?s] by blast
  also have "\<dots> = (CTC_E_NONE, Some (U32s [8]), Some 1, False)" by code_simp
  finally show ?thesis .
qed

end
