(* ===== verification/SAI_Cfg_Profile.thy ===== *)
theory SAI_Cfg_Profile
  imports SAI_Cfg_Parse
begin

text \<open>
  The profiles that are read with the parser: the chip profile
  (\<^verbatim>\<open>centec/src/ctc_sai_app_cfg_chip_profile.c\<close>) and the datapath profile
  (\<^verbatim>\<open>centec/src/ctc_sai_app_cfg_datapath_profile.c\<close>). The structure that a profile fills is a function
  from the names of its members to their contents; a store keeps as many bits as the member has. The
  long runs of equal statements are tables of their keys, members and conversions, in the order of
  the source. A file is its contents, or \<^const>\<open>None\<close> when it cannot be opened.
\<close>

section \<open>The chip profile\<close>

record ctc_init_chip_info =
  gchip :: "u8 list"
  member :: "string \<Rightarrow> u32"

definition chip_widths :: "(string \<times> nat) list" where
  "chip_widths =
     [(''local_chip_num'', 8),
      (''queue_num_per_network_port'', 8),
      (''queue_num_per_static_int_port'', 8),
      (''queue_num_per_fabric'', 8),
      (''max_internal_port_id'', 8),
      (''queue_num_per_internal_port'', 8),
      (''queue_num_per_ingress_service'', 8),
      (''queue_num_per_egress_service'', 8),
      (''profile_type'', 8),
      (''nh_dedit_mode'', 8),
      (''fdb_hw_learning_mode'', 8),
      (''policer_num'', 16),
      (''ingress_vlan_policer_num'', 16),
      (''egress_vlan_policer_num'', 16),
      (''logic_port_num'', 32),
      (''ext_nexthop_num'', 32),
      (''mpls_tunnel_num'', 16),
      (''stats_queue_deq_en'', 8),
      (''stats_queue_drop_en'', 8),
      (''stats_flow_policer_en'', 8),
      (''stats_vlan_en'', 8),
      (''stats_port_en'', 8),
      (''stats_ecmp_en'', 8),
      (''stats_vrf_en'', 8),
      (''port_phy_mapping_en'', 8),
      (''cut_through_speed'', 8),
      (''bfd_vccv_with_ip_en'', 8),
      (''bfd_mep_num'', 16),
      (''stats_policer_num'', 16),
      (''max_fid_num'', 16),
      (''interrupt_mode'', 8),
      (''bpe_br_pe_en'', 8),
      (''bpe_br_port_base'', 16),
      (''bpe_br_uc_max_ecid'', 16),
      (''bpe_br_mc_max_ecid'', 16),
      (''cpu_port'', 16),
      (''cpu_port_en'', 8),
      (''ecc_recover_en'', 8),
      (''tcam_scan_en'', 8),
      (''queue_num_for_cpu_reason'', 8),
      (''cpu_que_shp_profile_num'', 8),
      (''stp_mode'', 8),
      (''fabric_mode'', 8),
      (''stacking_version'', 8),
      (''stacking_mode'', 8),
      (''trie_sort_en'', 8),
      (''lag_gb_gg_interconnect_en'', 8),
      (''init_flag'', 32),
      (''cut_through_bitmap'', 32)]"

definition member_width :: "string \<Rightarrow> nat" where
  "member_width m = (case map_of chip_widths m of None \<Rightarrow> 32 | Some n \<Rightarrow> n)"

definition store_member :: "string \<Rightarrow> u32 \<Rightarrow> ctc_init_chip_info \<Rightarrow> ctc_init_chip_info" where
  "store_member m v ci = ci\<lparr>member := (member ci)(m := take_bit (member_width m) v)\<rparr>"

text \<open>The conversion of an assignment: a cast, or \<^verbatim>\<open>(val)?1:0\<close>.\<close>

datatype conv = Cast nat | Flag

primrec convert :: "conv \<Rightarrow> u32 \<Rightarrow> u32" where
  "convert (Cast n) v = take_bit n v"
| "convert Flag v = (if v \<noteq> 0 then 1 else 0)"

text \<open>The local variables \<^verbatim>\<open>val\<close> and \<^verbatim>\<open>entry_num\<close>, and whether an array was left. They are reused from call to call.\<close>

record reader =
  rd_val :: u32
  rd_num :: u8
  rd_bad :: bool

definition read_key :: "char list \<Rightarrow> string \<Rightarrow> reader \<Rightarrow> bool \<times> reader" where
  "read_key mem key rd =
     (let (e, v, n, bad) = ctc_app_parse_file (Some mem) (Some key) None (Some (U32s [rd_val rd])) (Some (rd_num rd)) in
      (e = CTC_E_NONE,
       \<lparr>rd_val = (case v of Some (U32s (x # xs)) \<Rightarrow> x | _ \<Rightarrow> rd_val rd), rd_num = out_or (rd_num rd) n, rd_bad = rd_bad rd \<or> bad\<rparr>))"

definition read_row ::
    "char list \<Rightarrow> string \<times> string \<times> conv \<Rightarrow> reader \<times> ctc_init_chip_info \<Rightarrow> reader \<times> ctc_init_chip_info" where
  "read_row mem row x =
     (let (key, m, c) = row; (rd, ci) = x; (ok, rd) = read_key mem key rd in
      (rd, if ok then store_member m (convert c (rd_val rd)) ci else ci))"

definition chip_rows_1 :: "(string \<times> string \<times> conv) list" where
  "chip_rows_1 =
     [(''Port_phy_mapping'', ''port_phy_mapping_en'', Cast 8),
      (''Interrupt_mode'', ''interrupt_mode'', Cast 8),
      (''FTM Profile'', ''profile_type'', Cast 8),
      (''Nexthop Edit Mode'', ''nh_dedit_mode'', Cast 8),
      (''External Nexthop Number'', ''ext_nexthop_num'', Cast 32),
      (''MPLS Tunnel Number'', ''mpls_tunnel_num'', Cast 16),
      (''MPLS ENTRY FOR SPACE 0'', ''mpls_entry_num[0]'', Cast 32),
      (''MPLS ENTRY FOR SPACE 1'', ''mpls_entry_num[1]'', Cast 32),
      (''MPLS ENTRY FOR SPACE 2'', ''mpls_entry_num[2]'', Cast 32),
      (''MPLS ENTRY FOR SPACE 3'', ''mpls_entry_num[3]'', Cast 32),
      (''FDB Hw Learning'', ''fdb_hw_learning_mode'', Flag),
      (''Logic Port Num'', ''logic_port_num'', Cast 32),
      (''STP MODE'', ''stp_mode'', Cast 8),
      (''MAX_FID_NUM'', ''max_fid_num'', Cast 32),
      (''STATS_QUEUE_DEQ_EN'', ''stats_queue_deq_en'', Flag),
      (''STATS_QUEUE_DROP_EN'', ''stats_queue_drop_en'', Flag),
      (''STATS_FLOW_POLICER_EN'', ''stats_flow_policer_en'', Flag),
      (''STATS_VLAN_EN'', ''stats_vlan_en'', Flag),
      (''STATS_PORT_EN'', ''stats_port_en'', Flag)]"

definition chip_rows_2 :: "(string \<times> string \<times> conv) list" where
  "chip_rows_2 =
     [(''STATS_ECMP_EN'', ''stats_ecmp_en'', Flag),
      (''STATS_VRF_EN'', ''stats_vrf_en'', Flag),
      (''STATS_POLICER_NUM'', ''stats_policer_num'', Cast 16),
      (''CUT_THROUGH_SPEED'', ''cut_through_speed'', Cast 8),
      (''BFD_MEP_NUM'', ''bfd_mep_num'', Cast 16),
      (''BFD_VCCV_WITH_IP_EN'', ''bfd_vccv_with_ip_en'', Flag),
      (''BPE_BR_PORT_EXTENDER_EN'', ''bpe_br_pe_en'', Cast 8),
      (''BPE_BR_UC_MAX_ECID'', ''bpe_br_uc_max_ecid'', Cast 16),
      (''BPE_BR_MC_MAX_ECID'', ''bpe_br_mc_max_ecid'', Cast 16),
      (''BPE_BR_PORT_BASE'', ''bpe_br_port_base'', Cast 16),
      (''CPU_NETWORK_PORT_EN'', ''cpu_port_en'', Cast 16),
      (''CPU_NETWORK_PORT_ID'', ''cpu_port'', Cast 16),
      (''ECC_RECOVER_EN'', ''ecc_recover_en'', Cast 8),
      (''TCAM_SCAN_EN'', ''tcam_scan_en'', Cast 8),
      (''QOS_POLICER_NUM'', ''policer_num'', Cast 16),
      (''QOS_PORT_QUEUE_NUM'', ''queue_num_per_network_port'', Cast 16),
      (''QOS_PORT_EXT_QUEUE_NUM'', ''queue_num_per_internal_port'', Cast 16),
      (''QOS_CPU_QUEUE_NUM'', ''queue_num_for_cpu_reason'', Cast 16),
      (''QOS_CPU_QUEUE_SHAPE_PROFILE_NUM'', ''cpu_que_shp_profile_num'', Cast 8),
      (''QOS_INGRESS_VLAN_POLICER_NUM'', ''ingress_vlan_policer_num'', Cast 16),
      (''QOS_EGRESS_VLAN_POLICER_NUM'', ''egress_vlan_policer_num'', Cast 16),
      (''FABRIC MODE'', ''fabric_mode'', Cast 8),
      (''STACKING VERSION'', ''stacking_version'', Cast 8),
      (''TRUNK_MODE'', ''stacking_mode'', Cast 8),
      (''TRIE_SORT_EN'', ''trie_sort_en'', Cast 8),
      (''LAG_GB_GG_INTERCONNECT_EN'', ''lag_gb_gg_interconnect_en'', Cast 8),
      (''CUT_THROUGH_BITMAP'', ''cut_through_bitmap'', Cast 32)]"

text \<open>\<open>N\<close> is \<^verbatim>\<open>CTC_MAX_LOCAL_CHIP_NUM\<close> of the SDK.\<close>

definition do_parser ::
    "nat \<Rightarrow> char list \<Rightarrow> ctc_init_chip_info \<Rightarrow> ctc_err \<times> bool \<times> ctc_init_chip_info" where
  "do_parser N mem ci =
     (let (ok, rd) = read_key mem ''Local chip_num'' \<lparr>rd_val = 0, rd_num = 1, rd_bad = False\<rparr> in
      if ok \<and> (rd_val rd < 1 \<or> of_nat N < rd_val rd) then (CTC_E_INVALID_PARAM, rd_bad rd, ci)
      else
        let ci = (if ok then store_member ''local_chip_num'' (take_bit 8 (rd_val rd)) ci else ci);
            (e, v, n, bad) = ctc_app_parse_file (Some mem) (Some ''Local chip'') (Some LETTER_NUMBER_MIX)
                               (Some (U8s (replicate N 0))) (Some (of_nat N));
            ci = (case (e, v) of (CTC_E_NONE, Some (U8s bs)) \<Rightarrow> ci\<lparr>gchip := bs\<rparr> | _ \<Rightarrow> ci);
            rd = rd\<lparr>rd_num := out_or (of_nat N) n, rd_bad := rd_bad rd \<or> bad\<rparr>;
            (rd, ci) = fold (read_row mem) chip_rows_1 (rd, ci);
            ci = store_member ''stats_ecmp_en'' 1 ci;
            (rd, ci) = fold (read_row mem) chip_rows_2 (rd, ci) in
        (CTC_E_NONE, rd_bad rd, ci))"

text \<open>
  The modules to initialise; \<open>M\<close> gives the value of a module's flag, an enumerator of the SDK. The
  flags below that of the first optional module are set before.
\<close>

definition module_rows :: "(string \<times> string) list" where
  "module_rows =
     [(''MPLS_SUPPORT'', ''CTC_INIT_MODULE_MPLS''),
      (''APS_SUPPORT'', ''CTC_INIT_MODULE_APS''),
      (''OAM_SUPPORT'', ''CTC_INIT_MODULE_OAM''),
      (''PTP_SUPPORT'', ''CTC_INIT_MODULE_PTP''),
      (''SYNCE_SUPPORT'', ''CTC_INIT_MODULE_SYNCE''),
      (''STACKING_SUPPORT'', ''CTC_INIT_MODULE_STACKING''),
      (''BPE_SUPPORT'', ''CTC_INIT_MODULE_BPE''),
      (''IPFIX_SUPPORT'', ''CTC_INIT_MODULE_IPFIX''),
      (''MONITOR_SUPPORT'', ''CTC_INIT_MODULE_MONITOR''),
      (''OVERLAY_SUPPORT'', ''CTC_INIT_MODULE_OVERLAY''),
      (''EFD_SUPPORT'', ''CTC_INIT_MODULE_EFD''),
      (''FCOE_SUPPORT'', ''CTC_INIT_MODULE_FCOE''),
      (''TRILL_SUPPORT'', ''CTC_INIT_MODULE_TRILL''),
      (''WLAN_SUPPORT'', ''CTC_INIT_MODULE_WLAN''),
      (''NPM_SUPPORT'', ''CTC_INIT_MODULE_NPM''),
      (''DOT1AE_SUPPORT'', ''CTC_INIT_MODULE_DOT1AE'')]"

definition read_module ::
    "(string \<Rightarrow> u32) \<Rightarrow> char list \<Rightarrow> string \<times> string \<Rightarrow> reader \<times> ctc_init_chip_info \<Rightarrow> reader \<times> ctc_init_chip_info" where
  "read_module M mem row x =
     (let (key, flag) = row; (rd, ci) = x; (ok, rd) = read_key mem key (rd\<lparr>rd_val := 0\<rparr>); f = member ci ''init_flag'' in
      (rd, if \<not> ok then ci
           else store_member ''init_flag'' (if rd_val rd \<noteq> 0 then f OR M flag else f AND NOT (M flag)) ci))"

definition do_parser_module_init ::
    "(string \<Rightarrow> u32) \<Rightarrow> char list \<Rightarrow> ctc_init_chip_info \<Rightarrow> bool \<times> ctc_init_chip_info" where
  "do_parser_module_init M mem ci =
     (let ci = store_member ''init_flag'' (member ci ''init_flag'' OR (M ''CTC_INIT_MODULE_FCOE'' - 1)) ci;
          (rd, ci) = fold (read_module M mem) module_rows (\<lparr>rd_val = 0, rd_num = 0, rd_bad = False\<rparr>, ci) in
      (rd_bad rd, ci))"

definition do_parser_ipuc :: "char list \<Rightarrow> u8 \<Rightarrow> bool \<times> u8" where
  "do_parser_ipuc mem use_hash8 =
     (let (ok, rd) = read_key mem ''IPUC_TCAM_PREFIX_8'' \<lparr>rd_val = 0, rd_num = 0, rd_bad = False\<rparr> in
      (rd_bad rd, if ok then ucast (rd_val rd) else use_hash8))"

definition chip_defaults :: "(string \<times> u32) list" where
  "chip_defaults =
     [(''local_chip_num'', 1),
      (''port_phy_mapping_en'', 0),
      (''interrupt_mode'', 0),
      (''profile_type'', 0),
      (''nh_dedit_mode'', 0),
      (''ext_nexthop_num'', 16384),
      (''mpls_tunnel_num'', 1024),
      (''mpls_entry_num[0]'', 1024),
      (''mpls_entry_num[1]'', 1024),
      (''mpls_entry_num[2]'', 1024),
      (''mpls_entry_num[3]'', 1024),
      (''fdb_hw_learning_mode'', 0),
      (''logic_port_num'', 1024),
      (''stp_mode'', 0),
      (''stats_queue_deq_en'', 1),
      (''stats_queue_drop_en'', 1),
      (''stats_flow_policer_en'', 1),
      (''stats_vlan_en'', 1),
      (''stats_port_en'', 0),
      (''stats_ecmp_en'', 1),
      (''stats_vrf_en'', 1),
      (''stats_policer_num'', 512),
      (''cut_through_speed'', 0),
      (''bfd_mep_num'', 2002),
      (''bfd_vccv_with_ip_en'', 1),
      (''cpu_port_en'', 0),
      (''fabric_mode'', 0),
      (''stacking_version'', 0),
      (''stacking_mode'', 0),
      (''trie_sort_en'', 0),
      (''lag_gb_gg_interconnect_en'', 0),
      (''ingress_vlan_policer_num'', 0),
      (''egress_vlan_policer_num'', 0)]"

text \<open>The status of the parser is dropped; a file that cannot be opened is no error.\<close>

definition ctc_app_get_chip_profile ::
    "nat \<Rightarrow> (string \<Rightarrow> u32) \<Rightarrow> char list option \<Rightarrow> u8 \<Rightarrow> ctc_init_chip_info \<Rightarrow> ctc_err \<times> bool \<times> u8 \<times> ctc_init_chip_info" where
  "ctc_app_get_chip_profile N M file use_hash8 ci =
     (case file of
        Some mem \<Rightarrow>
          (let (bad1, ci) = do_parser_module_init M mem ci;
               (st, bad2, ci) = do_parser N mem ci;
               (bad3, use_hash8) = do_parser_ipuc mem use_hash8 in
           (CTC_E_NONE, bad1 \<or> bad2 \<or> bad3, use_hash8, ci))
      | None \<Rightarrow>
          (CTC_E_NONE, False, use_hash8,
           fold (\<lambda>(m, v). store_member m v) chip_defaults (ci\<lparr>gchip := (gchip ci)[0 := 0]\<rparr>)))"

section \<open>The datapath profile\<close>

text \<open>
  The members have types of the SDK; here they hold the number that is assigned. The arrays that the
  numbers of the lanes are read into are static and keep their contents from call to call. When there
  is no file, the code is that of the failed opening.
\<close>

record serdes_arrays =
  serdes_id :: "u32 list"
  serdes_mode :: "u32 list"
  rx_polarity :: "u32 list"
  tx_polarity :: "u32 list"
  is_dynamic :: "u32 list"
  serdes_group :: "u32 list"

record ctc_datapath_global_cfg =
  wlan_enable :: u32
  dot1ae_enable :: u32
  core_frequency_a :: u32
  core_frequency_b :: u32
  serdes :: "(u32 \<times> u32 \<times> u32 \<times> u32 \<times> u32) list"

definition ctc_app_read_datapath_profile_security_status ::
    "char list \<Rightarrow> ctc_datapath_global_cfg \<Rightarrow> bool \<times> ctc_datapath_global_cfg" where
  "ctc_app_read_datapath_profile_security_status mem dp =
     (let (ok, rd) = read_key mem ''WLAN_ENABLE'' \<lparr>rd_val = 0, rd_num = 1, rd_bad = False\<rparr>;
          dp = dp\<lparr>wlan_enable := rd_val rd\<rparr>;
          (ok, rd) = read_key mem ''DOT1AE_ENABLE'' (rd\<lparr>rd_num := 1\<rparr>) in
      (rd_bad rd, dp\<lparr>dot1ae_enable := rd_val rd\<rparr>))"

definition ctc_app_read_datapath_profile_pll_info ::
    "char list \<Rightarrow> ctc_datapath_global_cfg \<Rightarrow> bool \<times> ctc_datapath_global_cfg" where
  "ctc_app_read_datapath_profile_pll_info mem dp =
     (let (ok, rd) = read_key mem ''CORE_PLLA'' \<lparr>rd_val = 0, rd_num = 1, rd_bad = False\<rparr>;
          dp = dp\<lparr>core_frequency_a := rd_val rd\<rparr>;
          (ok, rd) = read_key mem ''CORE_PLLB'' (rd\<lparr>rd_num := 1\<rparr>) in
      (rd_bad rd, dp\<lparr>core_frequency_b := rd_val rd\<rparr>))"

definition read_lanes :: "char list \<Rightarrow> string \<Rightarrow> u32 list \<times> u8 \<times> bool \<Rightarrow> ctc_err \<times> u32 list \<times> u8 \<times> bool" where
  "read_lanes mem sub x =
     (let (xs, n, bad) = x;
          (e, v, m, b) = ctc_app_parse_file (Some mem) (Some ''SERDES_ITEM'') (Some sub) (Some (U32s xs)) (Some n) in
      (e, case v of Some (U32s ys) \<Rightarrow> ys | _ \<Rightarrow> xs, out_or n m, bad \<or> b))"

text \<open>\<open>N\<close> is \<^verbatim>\<open>CTC_DATAPATH_SERDES_NUM\<close>. The number of entries that one read finds bounds the next one.\<close>

definition ctc_app_read_datapath_profile_serdes_info ::
    "nat \<Rightarrow> char list \<Rightarrow> serdes_arrays \<Rightarrow> ctc_datapath_global_cfg \<Rightarrow>
     ctc_err \<times> bool \<times> serdes_arrays \<times> ctc_datapath_global_cfg" where
  "ctc_app_read_datapath_profile_serdes_info N mem a dp =
     (let (e, ids, n, bad) = read_lanes mem ''SERDES_ID'' (serdes_id a, of_nat N, False);
          (e, modes, n, bad) = read_lanes mem ''SERDES_MODE'' (serdes_mode a, n, bad);
          (e, rx, n, bad) = read_lanes mem ''SERDES_RX_POLY'' (rx_polarity a, n, bad);
          (e, tx, n, bad) = read_lanes mem ''SERDES_TX_POLY'' (tx_polarity a, n, bad);
          (e, dyn, n, bad) = read_lanes mem ''SERDES_SWITCH'' (is_dynamic a, n, bad);
          (e, grp, n, bad) = read_lanes mem ''SERDES_GROUP'' (serdes_group a, n, bad) in
      (e, bad,
       \<lparr>serdes_id = ids, serdes_mode = modes, rx_polarity = rx, tx_polarity = tx, is_dynamic = dyn, serdes_group = grp\<rparr>,
       dp\<lparr>serdes := map (\<lambda>i. (modes ! i, rx ! i, tx ! i, dyn ! i, grp ! i)) [0..<N]\<rparr>))"

definition ctc_app_get_datapath_profile ::
    "nat \<Rightarrow> char list option \<Rightarrow> ctc_err \<Rightarrow> serdes_arrays \<Rightarrow> ctc_datapath_global_cfg \<Rightarrow>
     ctc_err \<times> bool \<times> serdes_arrays \<times> ctc_datapath_global_cfg" where
  "ctc_app_get_datapath_profile N file open_err a dp =
     (case file of
        None \<Rightarrow> (open_err, False, a, dp)
      | Some mem \<Rightarrow>
          (let (bad1, dp) = ctc_app_read_datapath_profile_security_status mem dp;
               (bad2, dp) = ctc_app_read_datapath_profile_pll_info mem dp;
               (e, bad3, a, dp) = ctc_app_read_datapath_profile_serdes_info N mem a dp in
           (CTC_E_NONE, bad1 \<or> bad2 \<or> bad3, a, dp)))"

section \<open>Reading a printed file\<close>

lemma read_key_print:
  assumes "\<forall>e \<in> set kvs. cfg_entry e" and "cfg_name key"
  shows "read_key (print_cfg kvs) key rd =
    (case map_of kvs key of None \<Rightarrow> (False, rd\<lparr>rd_num := 0\<rparr>) | Some x \<Rightarrow> (True, rd\<lparr>rd_val := of_nat x, rd_num := 1\<rparr>))"
  using parse_print [OF assms, of "rd_val rd" "[]" "rd_num rd"] by (simp add: read_key_def split: option.split)









section \<open>Theorems\<close>














text \<open>
  A missing key of the datapath profile takes the number of the key before it. The
  variable that the numbers are read into is not reset and is stored whether the key was found or
  not: without a line for DOT1AE the switch for WLAN is copied, and without one for the second PLL
  the frequency of the first.
\<close>

theorem datapath_missing_key_copied:
  assumes "\<forall>e \<in> set kvs. cfg_entry e"
  shows "ctc_app_read_datapath_profile_security_status (print_cfg kvs) dp =
      (let w = (case map_of kvs ''WLAN_ENABLE'' of None \<Rightarrow> 0 | Some x \<Rightarrow> of_nat x) in
       (False, dp\<lparr>wlan_enable := w, dot1ae_enable := case map_of kvs ''DOT1AE_ENABLE'' of None \<Rightarrow> w | Some x \<Rightarrow> of_nat x\<rparr>)) \<and>
    ctc_app_read_datapath_profile_pll_info (print_cfg kvs) dp =
      (let a = (case map_of kvs ''CORE_PLLA'' of None \<Rightarrow> 0 | Some x \<Rightarrow> of_nat x) in
       (False, dp\<lparr>core_frequency_a := a, core_frequency_b := case map_of kvs ''CORE_PLLB'' of None \<Rightarrow> a | Some x \<Rightarrow> of_nat x\<rparr>))"
proof -
  have n: "cfg_name ''WLAN_ENABLE''" "cfg_name ''DOT1AE_ENABLE''" "cfg_name ''CORE_PLLA''" "cfg_name ''CORE_PLLB''"
    by (simp_all add: cfg_name_def)
  note r = n [THEN read_key_print [OF assms]]
  show ?thesis
    unfolding ctc_app_read_datapath_profile_security_status_def ctc_app_read_datapath_profile_pll_info_def
    by (simp add: r Let_def split: option.split)
qed

theorem datapath_missing_key_copied_witness:
  "dot1ae_enable (snd (ctc_app_read_datapath_profile_security_status (print_cfg [(''WLAN_ENABLE'', 1)])
     \<lparr>wlan_enable = 0, dot1ae_enable = 0, core_frequency_a = 0, core_frequency_b = 0, serdes = []\<rparr>)) = 1"
proof -
  have "\<forall>e \<in> set [(''WLAN_ENABLE'', 1)]. cfg_entry e" by (simp add: cfg_entry_def cfg_name_def)
  from datapath_missing_key_copied [OF this] show ?thesis by (simp add: Let_def)
qed

end
