(* ===== verification/Spec2Isabelle.thy ===== *)
theory Spec2Isabelle
  imports SAI_Virtual_Router SAI_Query SAI_Next_Hop_Group SAI_Isolation_Group SAI_Wred
    SAI_Stp SAI_Cfg_Profile
begin

text \<open>
  A verification library for the SAI adapter of Centec switches (\<^verbatim>\<open>src/centec\<close>), C code that
  implements the Switch Abstraction Interface (\<^verbatim>\<open>src/inc\<close>) on top of the vendor's SDK.

  \<^bold>\<open>The program.\<close> A caller initialises the adapter, queries the method table of an API and calls the
  methods: create, remove, set and get for objects (virtual routers, counters, next hop groups and so
  on). Each module keeps its objects in a database per chip, from 64-bit identifiers or entry
  structures to records of the module, takes numbers from pools, holds the lock of the chip meanwhile
  and configures the device through the SDK.

  \<^bold>\<open>The boundary.\<close> Nothing of the SDK is part of the repository. It is the parameter \<open>L\<close> of type
  \<open>ctc_lib\<close> of the definitions: containers as abstract handles, a device that answers any call as a
  function of the calls before, error codes and constants by name. What is relied on of it is the
  locale \<open>ctc_lib_laws\<close>, with the locales \<open>hash_table\<close> and \<open>vec_table\<close>; \<open>ref_lib\<close> is an instance on
  association lists, on which the witnesses compute.

  \<^bold>\<open>Theories and sources.\<close>
  \<^item> \<open>SAI_Prelude\<close>: integer types, status codes, object types (\<^verbatim>\<open>saistatus.h\<close>, \<^verbatim>\<open>saitypes.h\<close>).
  \<^item> \<open>SAI_Oid\<close>: \<^verbatim>\<open>ctc_sai_oid.c\<close>, identifiers as bit fields of a 64-bit word. Decoding inverts
    encoding, both ways, and the typed accessors check the type.
  \<^item> \<open>SAI_Ext\<close>, \<open>SAI_Contracts\<close>: the state of the program, the calls of the SDK, and the contracts.
  \<^item> \<open>SAI_Db\<close>, \<open>SAI_Entry\<close>: \<^verbatim>\<open>ctc_sai_db.c\<close>, the tables of objects, entries and vectors, the pools,
    the locks, creation and destruction. The locale \<open>obj_store\<close> is the contract of a store of
    objects; the object tables and the entry tables both give it (sublocales of \<open>chip_db\<close>). The
    operations handle buckets whose data is \<^verbatim>\<open>NULL\<close>, which the bridge module adds; the status of an
    addition is shown in any state and the removal for \<open>tables_ok\<close>, which admits them. The invariant
    \<open>state_ok\<close>, and \<open>sound\<close> with it, does not: an addition for such a bucket inserts a key that the
    table has already, and what the SDK makes of that is not known.
  \<^item> \<open>SAI_Attr\<close>: the attribute machinery of \<^verbatim>\<open>ctc_sai.c\<close>: the union of attribute values, the search
    in a caller's list, the dispatch to getters and setters, the copy of lists.
  \<^item> \<open>SAI_Objects\<close>, \<open>SAI_Store\<close>: no code of their own; the invariant \<open>sound\<close> of a chip's
    database, the abstract map \<open>obj_map\<close>, and the step lemmas from which the modules' proofs are made.
  \<^item> \<open>SAI_Virtual_Router\<close>: \<^verbatim>\<open>ctc_sai_virtual_router.c\<close> and the traversal of
    \<^verbatim>\<open>ctc_sai_router_interface.c\<close> that it uses.
  \<^item> \<open>SAI_Api\<close>, \<open>SAI_Query\<close>: the rest of \<^verbatim>\<open>ctc_sai.c\<close>: initialisation, method tables, logging,
    dump, object counts and lists, single and bulk reads, availability. The list \<open>object_getters\<close> is
    what the headers of the interface declare, written down apart from the switch of the code.
  \<^item> \<open>SAI_Counter\<close>: \<^verbatim>\<open>ctc_sai_counter.c\<close>; an abstract machine of a counter's life, which every
    sequence of calls refines.
  \<^item> \<open>SAI_Next_Hop_Group\<close>: \<^verbatim>\<open>ctc_sai_next_hop_group.c\<close> and the two address resolution lookups of the
    next hop and neighbor modules that it calls.
  \<^item> \<open>SAI_Isolation_Group\<close>: \<^verbatim>\<open>ctc_sai_isolation_group.c\<close>. The SDK's singly linked lists are the
    parameter \<open>Q\<close> with the contract \<open>slist\<close>; the lists of the groups and the records of the members
    agree in every state that is reached.
  \<^item> \<open>SAI_Wred\<close>: \<^verbatim>\<open>ctc_sai_wred.c\<close> and what \<^verbatim>\<open>ctc_sai_queue.c\<close> does with WRED profiles. The profiles
    count the queues that use them; the attribute search is compared with a single pass. From every
    state that the calls reach, unbinding the queues of a profile makes its removal succeed.
  \<^item> \<open>SAI_Stp\<close>: \<^verbatim>\<open>ctc_sai_stp.c\<close>, with the members of a bridge port and of a link aggregation group that
    it uses. The bitmap and port macros of the SDK are the parameter \<open>Q\<close> of type \<open>stp_sdk\<close> with the
    contract \<open>bitmaps\<close>. The counts of an instance agree with its bitmaps in every state that is reached by
    calls that bind a port or VLAN once and unbind a bound one (\<open>stp_reach\<close>, which can also hold VLANs
    of an instance: its set parameter names what is not unbound); what other calls do is shown separately.
  \<^item> \<open>SAI_Cfg_Parse\<close>: \<^verbatim>\<open>ctc_sai_app_cfg_parse.c\<close>, the parser of the configuration files, as a function
    of the bytes of the file. Its own state is the record \<open>ctc_app_parse\<close>; the flag \<open>ap_bad\<close> is set where
    the C program would leave an array. The reference \<open>cfg_lines\<close> is the list of lines of a file
    without comments, with which the lookup of a key agrees, \<open>table_entries\<close> the entries of a table in
    it; \<open>print_cfg\<close> writes files that parse back.
  \<^item> \<open>SAI_Cfg_Profile\<close>: \<^verbatim>\<open>ctc_sai_app_cfg_chip_profile.c\<close> and \<^verbatim>\<open>ctc_sai_app_cfg_datapath_profile.c\<close>,
    the keys that are looked up and the members they are stored to, at the widths of the members. The
    list \<open>chip_settings\<close> says, member by member of the structure, what a profile file sets.

  \<^bold>\<open>Conventions.\<close> An operation is a function of the same name (a leading underscore dropped) from the
  parameter, the arguments and the state to the status, the output arguments and the new state. The
  state \<open>sai_state\<close> holds the databases of the chips, the trace of the SDK calls with their answers,
  and the flag \<open>fault\<close>, which is set where the C program would read or write outside an object, use
  a null pointer or read a record as one of another type. Locks and pools are read off the trace:
  \<open>lock_depth\<close> and \<open>opf_used\<close>. Output arguments that a failed call leaves unwritten are \<open>None\<close>.
  A C function of several parts is split into one definition per part, each named in the text above
  it. Statuses are integers, the attribute values the first 16 bytes of the union.

  \<^bold>\<open>Loops.\<close> Loops over lists and tables are structural. The attribute loops count with 8 bits, in
  some modules with 16, to a 32-bit bound and may run for ever: \<open>attr_loop\<close> and \<open>fdb_dump_loop\<close> are partial functions with
  \<open>None\<close> for no result, and the theorems say for which inputs they return: the read of the attributes
  of a virtual router returns exactly for at most 255 of them. The loop of the parser,
  \<open>parse_loop\<close>, ends since every step reads at least one byte.

  \<^bold>\<open>What is shown.\<close> For the database: lookups after additions and removals, statuses on every branch,
  freshness of numbers, invariants. For the modules: what each operation does to the map of objects,
  to the locks and to the pools, on success and on failure; round trips of create and remove and of
  set and get; refinement of the counters to their abstract machine; bounds of the buffers. For the
  configuration files: which value a key gets, which members are written, which bytes of the arrays
  are touched. Where the code does not do what its interface documents, the theorem states what it does.

  \<^bold>\<open>Limits.\<close> The insertion into a table of the SDK always succeeds, its result is ignored by the code.
  The calls of \<open>wred_reach\<close> are those of the WRED module and the binding of queues, without the removal
  of queues; \<open>iso_reach\<close> creates members for identifiers that have the type of a group. A number of a
  configuration file that does not fit in 32 bits is cut, where C leaves the conversion undefined.

  \<^bold>\<open>Not modelled.\<close> What the dump functions print; the registration of callbacks with the warm boot
  module; memory as such (records are values in the tables, a store through a pointer is a store to
  the table); concurrency beyond the locks, since the calls are sequential; opening, seeking and
  closing of the configuration files (whether the open succeeds is a parameter), and the start of the
  SDK in \<^verbatim>\<open>ctc_sai_app_cfg.c\<close>. The other modules of
  \<^verbatim>\<open>centec/src\<close> (access lists, multicast, ports, switch, host interface, tunnels, quality of service,
  monitoring, warm boot) are mostly translations of attributes to SDK structures and are left out.
\<close>

end
